(* ===== verification/Prelude.thy ===== *)
theory Prelude
  imports Complex_Main "HOL-Library.Multiset"
begin

text \<open>
  Shared vocabulary of the development: errors as values, the error monad the services are
  written in, the database transaction, list tables with the row operations the services use,
  the strings and JSON values of the source language, and the lemmas about them that carry the
  component proofs (collected in \<open>table_simps\<close> and \<open>err_simps\<close>).
\<close>

named_theorems table_simps \<open>row operations on list tables\<close>
named_theorems err_simps \<open>the error monad\<close>

section \<open>Errors as values\<close>

text \<open>
  The constructors are the exception classes the services throw: the four Nest HTTP exceptions,
  a plain \<open>Error\<close> (answered with status 500), and the three database client errors the
  schema can provoke: a unique constraint (code P2002), a foreign key (P2003), and an
  update of a row that does not exist (P2025).
\<close>

datatype error =
    BadRequest string
  | NotFound string
  | Forbidden string
  | Unauthorized string
  | ServerError string
  | UniqueViolation string
  | ForeignKeyViolation string
  | RecordNotFound string

text \<open>Computations that may throw: \<open>Inl\<close> carries the exception.\<close>

fun bindE :: "error + 'a \<Rightarrow> ('a \<Rightarrow> error + 'b) \<Rightarrow> error + 'b" where
  "bindE (Inl e) f = Inl e"
| "bindE (Inr x) f = f x"

definition guardE :: "bool \<Rightarrow> error \<Rightarrow> error + unit" where
  "guardE ok e = (if ok then Inr () else Inl e)"

definition someE :: "'a option \<Rightarrow> error \<Rightarrow> error + 'a" where
  "someE x e = (case x of None \<Rightarrow> Inl e | Some y \<Rightarrow> Inr y)"

text \<open>A \<open>for\<close> loop over a list whose body may throw; the accumulator is the loop state.\<close>

fun foldE :: "('a \<Rightarrow> 's \<Rightarrow> error + 's) \<Rightarrow> 'a list \<Rightarrow> 's \<Rightarrow> error + 's" where
  "foldE f [] s = Inr s"
| "foldE f (x # xs) s = bindE (f x s) (foldE f xs)"

text \<open>\<open>map\<close> with a function that may throw.\<close>

fun mapE :: "('a \<Rightarrow> error + 'b) \<Rightarrow> 'a list \<Rightarrow> error + 'b list" where
  "mapE f [] = Inr []"
| "mapE f (x # xs) = bindE (f x) (\<lambda>y. bindE (mapE f xs) (\<lambda>ys. Inr (y # ys)))"

lemma mapE_Inr: "(\<And>x. x \<in> set xs \<Longrightarrow> f x = Inr (g x)) \<Longrightarrow> mapE f xs = Inr (map g xs)"
  by (induction xs) auto

lemma bindE_Inr_iff [err_simps]: "bindE m f = Inr y \<longleftrightarrow> (\<exists>x. m = Inr x \<and> f x = Inr y)"
  by (cases m) auto

lemma bindE_Inl_iff [err_simps]:
  "bindE m f = Inl e \<longleftrightarrow> m = Inl e \<or> (\<exists>x. m = Inr x \<and> f x = Inl e)"
  by (cases m) auto

lemma guardE_Inr_iff [err_simps]: "guardE ok e = Inr u \<longleftrightarrow> ok"
  by (simp add: guardE_def)

lemma guardE_Inl_iff [err_simps]: "guardE ok e = Inl e' \<longleftrightarrow> \<not> ok \<and> e' = e"
  by (auto simp: guardE_def)

lemma someE_Inr_iff [err_simps]: "someE x e = Inr y \<longleftrightarrow> x = Some y"
  by (auto simp: someE_def split: option.splits)

lemma someE_Inl_iff [err_simps]: "someE x e = Inl e' \<longleftrightarrow> x = None \<and> e' = e"
  by (auto simp: someE_def split: option.splits)

lemma guardE_simps [simp]: "guardE True e = Inr ()" "guardE False e = Inl e"
  by (simp_all add: guardE_def)

lemma someE_simps [simp]: "someE (Some x) e = Inr x" "someE None e = Inl e"
  by (simp_all add: someE_def)

lemma foldE_invariant:
  assumes "foldE f xs s = Inr s'" and "I s"
    and "\<And>x t t'. x \<in> set xs \<Longrightarrow> I t \<Longrightarrow> f x t = Inr t' \<Longrightarrow> I t'"
  shows "I s'"
  using assms by (induction xs arbitrary: s) (auto simp: err_simps)

lemma foldE_append [err_simps]: "foldE f (xs @ ys) s = bindE (foldE f xs s) (foldE f ys)"
proof (induction xs arbitrary: s)
  case (Cons x xs)
  then show ?case by (cases "f x s") auto
qed simp

section \<open>Transactions\<close>

text \<open>
  A request handler takes the database and returns its outcome together with the database it
  leaves. Writes made outside a transaction persist even when a later step throws; a body that
  throws inside a transaction is rolled back.
\<close>

definition run_tx :: "('db \<Rightarrow> error + ('a \<times> 'db)) \<Rightarrow> 'db \<Rightarrow> (error + 'a) \<times> 'db" where
  "run_tx body s = (case body s of Inl e \<Rightarrow> (Inl e, s) | Inr (x, s') \<Rightarrow> (Inr x, s'))"

lemma run_tx_Inr_iff [err_simps]: "run_tx body s = (Inr x, s') \<longleftrightarrow> body s = Inr (x, s')"
  by (auto simp: run_tx_def split: sum.splits)

lemma run_tx_Inl_iff [err_simps]: "run_tx body s = (Inl e, s') \<longleftrightarrow> body s = Inl e \<and> s' = s"
  by (auto simp: run_tx_def split: sum.splits)

lemma run_tx_rolls_back: "fst (run_tx body s) = Inl e \<Longrightarrow> snd (run_tx body s) = s"
  by (auto simp: run_tx_def split: sum.splits)

section \<open>List tables\<close>

text \<open>
  A table is the list of its rows. \<open>List.find\<close> is the point read, \<open>filter\<close> the
  filtered read, \<open>row @ [r]\<close> the insert; an update rewrites every row the filter selects.
  \<open>taken\<close> is the test of a unique constraint before an insert.
\<close>

definition update_where :: "('r \<Rightarrow> bool) \<Rightarrow> ('r \<Rightarrow> 'r) \<Rightarrow> 'r list \<Rightarrow> 'r list" where
  "update_where P f rows = map (\<lambda>r. if P r then f r else r) rows"

definition taken :: "('r \<Rightarrow> 'k) \<Rightarrow> 'k \<Rightarrow> 'r list \<Rightarrow> bool" where
  "taken key k rows = list_ex (\<lambda>r. key r = k) rows"

definition count_where :: "('r \<Rightarrow> bool) \<Rightarrow> 'r list \<Rightarrow> nat" where
  "count_where P rows = length (filter P rows)"

definition page_of :: "nat \<Rightarrow> nat \<Rightarrow> 'r list \<Rightarrow> 'r list" where
  "page_of page pageSize rows = take pageSize (drop ((page - 1) * pageSize) rows)"

lemma update_where_simps [simp]:
  "update_where P f [] = []"
  "update_where P f (r # rs) = (if P r then f r else r) # update_where P f rs"
  "update_where P f (rs @ qs) = update_where P f rs @ update_where P f qs"
  by (simp_all add: update_where_def)

lemma length_update_where [simp]: "length (update_where P f rows) = length rows"
  by (simp add: update_where_def)

lemma set_update_where [table_simps]:
  "r \<in> set (update_where P f rows) \<longleftrightarrow> (\<exists>q\<in>set rows. r = (if P q then f q else q))"
  by (auto simp: update_where_def)

lemma taken_iff [table_simps]: "taken key k rows \<longleftrightarrow> (\<exists>r\<in>set rows. key r = k)"
  by (auto simp: taken_def list_ex_iff)

lemma taken_simps [simp]:
  "taken key k [] = False"
  "taken key k (r # rs) = (key r = k \<or> taken key k rs)"
  "taken key k (rs @ qs) = (taken key k rs \<or> taken key k qs)"
  by (simp_all add: taken_def)

lemma count_where_simps [simp]:
  "count_where P [] = 0"
  "count_where P (r # rs) = (if P r then Suc (count_where P rs) else count_where P rs)"
  "count_where P (rs @ qs) = count_where P rs + count_where P qs"
  by (simp_all add: count_where_def)

lemma find_append [simp]:
  "List.find P (xs @ ys) = (case List.find P xs of None \<Rightarrow> List.find P ys | Some x \<Rightarrow> Some x)"
  by (induction xs) auto

lemma find_SomeD: "List.find P xs = Some x \<Longrightarrow> x \<in> set xs \<and> P x"
  by (auto simp: find_Some_iff)

lemma find_NoneD: "List.find P xs = None \<Longrightarrow> x \<in> set xs \<Longrightarrow> \<not> P x"
  by (auto simp: find_None_iff)

lemma find_update_where_same:
  assumes "\<And>r. Q (if P r then f r else r) \<longleftrightarrow> Q r"
  shows "List.find Q (update_where P f rows) =
         map_option (\<lambda>r. if P r then f r else r) (List.find Q rows)"
proof (induction rows)
  case (Cons r rows)
  have "Q (if P r then f r else r) \<longleftrightarrow> Q r" by (rule assms)
  with Cons show ?case by (cases "P r"; simp)
qed simp

lemma filter_update_where_other:
  assumes "\<And>r. P r \<Longrightarrow> \<not> Q r \<and> \<not> Q (f r)"
  shows "filter Q (update_where P f rows) = filter Q rows"
  using assms by (induction rows) auto

lemma map_update_where_same:
  assumes "\<And>r. P r \<Longrightarrow> g (f r) = g r"
  shows "map g (update_where P f rows) = map g rows"
  using assms by (induction rows) auto

lemma count_where_update_same:
  assumes "\<And>r. P r \<Longrightarrow> Q (f r) = Q r"
  shows "count_where Q (update_where P f rows) = count_where Q rows"
  using assms by (induction rows) auto

lemma find_unique_key:
  assumes "distinct (map key rows)" and "r \<in> set rows" and "key r = k"
  shows "List.find (\<lambda>x. key x = k) rows = Some r"
  using assms by (induction rows) (auto simp: image_iff)

lemma distinct_keyD:
  "distinct (map key rows) \<Longrightarrow> q \<in> set rows \<Longrightarrow> r \<in> set rows \<Longrightarrow> key q = key r \<Longrightarrow> q = r"
  by (auto simp: distinct_map dest: inj_onD)

lemma distinct_map_sort_key [simp]: "distinct (map f (sort_key g xs)) \<longleftrightarrow> distinct (map f xs)"
proof -
  have "mset (map f (sort_key g xs)) = mset (map f xs)" by simp
  then show ?thesis by (metis mset_eq_imp_distinct_iff)
qed

lemma distinct_map_filter_rows: "distinct (map f xs) \<Longrightarrow> distinct (map f (filter P xs))"
  by (induction xs) auto

section \<open>Tables whose rows are only appended and updated in place\<close>

definition rows_evolve :: "('r \<Rightarrow> 'r \<Rightarrow> bool) \<Rightarrow> 'r list \<Rightarrow> 'r list \<Rightarrow> bool" where
  "rows_evolve keep xs ys \<longleftrightarrow> (\<exists>f new. ys = map f xs @ new \<and> (\<forall>x. keep x (f x)))"

named_theorems evolve_intros \<open>tables that evolve\<close>

lemma rows_evolve_refl [evolve_intros]: "reflp keep \<Longrightarrow> rows_evolve keep xs xs"
  unfolding rows_evolve_def by (rule exI [of _ id]) (auto simp: reflp_def)

lemma rows_evolve_append [evolve_intros]: "reflp keep \<Longrightarrow> rows_evolve keep xs (xs @ new)"
  unfolding rows_evolve_def by (rule exI [of _ id]) (auto simp: reflp_def)

lemma rows_evolve_update [evolve_intros]:
  assumes "reflp keep" and "\<And>x. P x \<Longrightarrow> keep x (f x)"
  shows "rows_evolve keep xs (update_where P f xs)"
  unfolding rows_evolve_def update_where_def
  by (rule exI [of _ "\<lambda>x. if P x then f x else x"]) (use assms in \<open>auto simp: reflp_def\<close>)

lemma rows_evolve_trans:
  assumes keep: "transp keep" and 1: "rows_evolve keep xs ys" and 2: "rows_evolve keep ys zs"
  shows "rows_evolve keep xs zs"
proof -
  obtain f new where f: "ys = map f xs @ new" "\<And>x. keep x (f x)" using 1 unfolding rows_evolve_def by blast
  obtain g new' where g: "zs = map g ys @ new'" "\<And>x. keep x (g x)" using 2 unfolding rows_evolve_def by blast
  have "zs = map (g \<circ> f) xs @ (map g new @ new')" by (simp add: f g)
  moreover have "keep x ((g \<circ> f) x)" for x using f(2) g(2) keep by (metis comp_apply transpD)
  ultimately show ?thesis unfolding rows_evolve_def by blast
qed

text \<open>The first row with a key is still the first, and still related to what it was.\<close>

lemma find_rows_evolve:
  assumes "rows_evolve keep xs ys" and "\<And>x y. keep x y \<Longrightarrow> key y = key x"
    and "List.find (\<lambda>x. key x = k) xs = Some r"
  shows "\<exists>r'. List.find (\<lambda>x. key x = k) ys = Some r' \<and> keep r r'"
proof -
  obtain f new where ys: "ys = map f xs @ new" and f: "\<And>x. keep x (f x)"
    using assms(1) by (auto simp: rows_evolve_def)
  have k: "key (f x) = key x" for x using assms(2) f by blast
  have "List.find (\<lambda>x. key x = k) (map f xs) = Some (f r)"
    using assms(3) by (induction xs) (auto simp: k split: if_splits)
  then show ?thesis using f by (simp add: ys)
qed

section \<open>Strings\<close>

text \<open>Template strings are concatenations; \<open>nat_str\<close> is \<open>String(n)\<close> for a natural.\<close>

fun digit_char :: "nat \<Rightarrow> char" where
  "digit_char d = char_of (48 + d)"

fun nat_str :: "nat \<Rightarrow> string" where
  "nat_str n = (if n < 10 then [digit_char n] else nat_str (n div 10) @ [digit_char (n mod 10)])"

declare nat_str.simps [simp del]

definition digits_value :: "string \<Rightarrow> nat" where
  "digits_value s = foldl (\<lambda>a c. 10 * a + (of_char c - 48)) 0 s"

lemma digits_value_nat_str [simp]: "digits_value (nat_str n) = n"
proof (induction n rule: nat_str.induct)
  case (1 n)
  have "of_char (char_of (48 + d)) = (48 + d :: nat)" if "d < 10" for d
    using that by simp
  with 1 show ?case by (cases "n < 10") (simp_all add: nat_str.simps [of n] digits_value_def)
qed

lemma nat_str_inj [simp]: "nat_str m = nat_str n \<longleftrightarrow> m = n"
  by (metis digits_value_nat_str)

definition int_str :: "int \<Rightarrow> string" where
  "int_str i = (if i < 0 then ''-'' @ nat_str (nat (- i)) else nat_str (nat i))"

definition padStart :: "nat \<Rightarrow> char \<Rightarrow> string \<Rightarrow> string" where
  "padStart n c s = replicate (n - length s) c @ s"

text \<open>
  \<open>Number.prototype.toFixed\<close>: the nearest multiple of \<open>10 ^ -d\<close>, the larger one on a
  tie, of the absolute value; the sign in front.
\<close>

definition js_toFixed :: "nat \<Rightarrow> rat \<Rightarrow> string" where
  "js_toFixed d x =
     (let n = nat \<lfloor>\<bar>x\<bar> * 10 ^ d + 1 / 2\<rfloor>;
          whole = nat_str (n div 10 ^ d);
          frac = padStart d (CHR ''0'') (nat_str (n mod 10 ^ d))
      in (if x < 0 then ''-'' else []) @ whole @ (if d = 0 then [] else ''.'' @ frac))"

text \<open>Characters outside ASCII are their UTF-8 bytes.\<close>

definition em_dash :: string where
  "em_dash = [CHR 0xE2, CHR 0x80, CHR 0x94]"

definition upper_char :: "char \<Rightarrow> char" where
  "upper_char c = (let n = of_char c :: nat in if 97 \<le> n \<and> n \<le> 122 then char_of (n - 32) else c)"

definition toUpperCase :: "string \<Rightarrow> string" where
  "toUpperCase s = map upper_char s"

definition startsWith :: "string \<Rightarrow> string \<Rightarrow> bool" where
  "startsWith p s \<longleftrightarrow> take (length p) s = p"

fun join :: "string \<Rightarrow> string list \<Rightarrow> string" where
  "join sep [] = []"
| "join sep [x] = x"
| "join sep (x # y # xs) = x @ sep @ join sep (y # xs)"

fun split_acc :: "char \<Rightarrow> string \<Rightarrow> string \<Rightarrow> string list" where
  "split_acc c acc [] = [acc]"
| "split_acc c acc (x # xs) = (if x = c then acc # split_acc c [] xs else split_acc c (acc @ [x]) xs)"

text \<open>\<open>s.split(c)\<close> for a one-character separator.\<close>

definition split :: "char \<Rightarrow> string \<Rightarrow> string list" where
  "split c s = split_acc c [] s"

lemma upper_char_idem [simp]: "upper_char (upper_char c) = upper_char c"
  by (auto simp: upper_char_def Let_def)

lemma toUpperCase_idem [simp]: "toUpperCase (toUpperCase s) = toUpperCase s"
  by (simp add: toUpperCase_def)

lemma split_acc_no_sep: "c \<notin> set s \<Longrightarrow> split_acc c acc s = [acc @ s]"
  by (induction s arbitrary: acc) auto

lemma split_acc_sep: "c \<notin> set s \<Longrightarrow> split_acc c acc (s @ c # t) = (acc @ s) # split_acc c [] t"
  by (induction s arbitrary: acc) auto

lemma split_join:
  assumes "\<forall>x\<in>set xs. c \<notin> set x" and "xs \<noteq> []"
  shows "split c (join [c] xs) = xs"
  using assms
proof (induction "[c]" xs rule: join.induct)
  case (2 x)
  then show ?case by (simp add: split_def split_acc_no_sep)
next
  case (3 x y xs)
  then show ?case by (simp add: split_def split_acc_sep)
qed simp

lemma digit_char_code: "d < 10 \<Longrightarrow> of_char (digit_char d) = (48 + d :: nat)"
  by simp

lemma nat_str_digits: "c \<in> set (nat_str n) \<Longrightarrow> 48 \<le> (of_char c :: nat) \<and> (of_char c :: nat) \<le> 57"
proof (induction n rule: nat_str.induct)
  case (1 n)
  show ?case
  proof (cases "n < 10")
    case True
    then show ?thesis using 1(2) by (simp add: nat_str.simps [of n])
  next
    case False
    then have "c \<in> set (nat_str (n div 10)) \<or> c = digit_char (n mod 10)"
      using 1(2) by (auto simp: nat_str.simps [of n])
    then show ?thesis
    proof
      assume "c \<in> set (nat_str (n div 10))"
      then show ?thesis using 1(1) False by simp
    next
      assume "c = digit_char (n mod 10)"
      moreover have "n mod 10 < 10" by simp
      ultimately show ?thesis using digit_char_code [of "n mod 10"] by simp
    qed
  qed
qed

lemma dash_not_digit: "CHR ''-'' \<notin> set (nat_str n)"
  using nat_str_digits [of "CHR ''-''" n] by auto

lemma digits_value_padStart [simp]: "digits_value (padStart k (CHR ''0'') (nat_str n)) = n"
proof -
  have "digits_value (replicate m (CHR ''0'') @ s) = digits_value s" for m s
    by (induction m) (simp_all add: digits_value_def)
  then show ?thesis by (simp add: padStart_def)
qed

section \<open>JSON values\<close>

datatype json =
    JNull
  | JBool bool
  | JNum rat
  | JStr string
  | JArr "json list"
  | JObj "(string \<times> json) list"

end
