(* ===== verification/Schema.thy ===== *)
theory Schema
  imports Prelude
begin

text \<open>
  The persistent state: one record per table of \<open>packages/database/prisma/schema.prisma\<close>
  with the columns the modelled services read or write, the enumerations of the schema, the
  database record that collects the tables, and the parameters of the model (\<open>env\<close>).

  Rows that the services only create nested in a parent and read back by an include are kept in
  the parent row: the lines, payments and refunds of a sale, the lines and payments of an
  invoice, the lines of a quote and of a stock transfer, the permission rows of a role.
  Timestamps are milliseconds since the epoch; \<open>None\<close> is SQL NULL.
\<close>

section \<open>Enumerations\<close>

datatype tenant_status = TenantTRIALING | TenantACTIVE | TenantPAST_DUE | TenantSUSPENDED | TenantCANCELED
datatype pricing_item_kind = BASE | BRANCH | USER | ADDON
datatype subscription_status =
  SubTRIALING | SubACTIVE | SubPAST_DUE | SubCANCELED | SubINCOMPLETE
datatype identity_provider = GOOGLE | APPLE | EMAIL
datatype membership_status = MemINVITED | MemACTIVE | MemSUSPENDED
datatype product_status = ProdACTIVE | ProdARCHIVED | ProdDRAFT
datatype movement_type =
    OPENING_BALANCE | SALE | SALE_RETURN | PURCHASE_RECEIPT | SUPPLIER_RETURN | ADJUSTMENT
  | TRANSFER_DISPATCH | TRANSFER_RECEIPT | DAMAGE | EXPIRY | RESERVATION | RESERVATION_RELEASE
datatype transfer_status = DISPATCHED | RECEIVED | TransferCANCELED
datatype customer_status = CustACTIVE | CustINACTIVE | CustAT_RISK | CustVIP | CustWHOLESALE
datatype sale_status = SaleOPEN | SaleHELD | SaleCOMPLETED | SaleVOIDED | SaleREFUNDED
  | SalePARTIALLY_REFUNDED
datatype payment_method = CASH | CARD | BANK_TRANSFER | MOBILE_MONEY | CUSTOMER_CREDIT | CUSTOM
datatype payment_status = PayPENDING | PayCOMPLETED | PayFAILED | PayREVERSED
datatype commerce_provider = WOOCOMMERCE | SHOPIFY | UNIVERSAL_REST
datatype connection_status = ConnPENDING | ConnCONNECTED | ConnERROR | ConnDISCONNECTED
datatype sync_domain = DomPRODUCTS | DomINVENTORY | DomORDERS | DomCUSTOMERS
datatype external_object_type = ExtPRODUCT | ExtVARIANT | ExtORDER | ExtCUSTOMER
datatype sync_job_status = JobPENDING | JobRUNNING | JobSUCCEEDED | JobFAILED
datatype sync_direction = PULL | PUSH
datatype quote_status = QuoteDRAFT | QuoteSENT | QuoteACCEPTED | QuoteDECLINED | QuoteEXPIRED
  | QuoteCONVERTED
datatype invoice_status = InvDRAFT | InvISSUED | InvPARTIALLY_PAID | InvPAID | InvOVERDUE | InvVOID
  | InvREFUNDED

section \<open>Tenancy, identity and billing rows\<close>

record tenant =
  ten_id :: string
  ten_legalName :: string
  ten_displayName :: string
  ten_category :: "string option"
  ten_country :: string
  ten_locale :: string
  ten_timezone :: string
  ten_baseCurrency :: string
  ten_status :: tenant_status

record pricing_item =
  pri_id :: string
  pri_key :: string
  pri_name :: string
  pri_kind :: pricing_item_kind
  pri_unitPriceUsdCents :: int
  pri_version :: nat
  pri_isActive :: bool
  pri_stripePriceId :: "string option"

record subscription =
  sub_id :: string
  sub_tenantId :: string
  sub_stripeSubscriptionId :: "string option"
  sub_status :: subscription_status
  sub_currentPeriodStart :: "int option"
  sub_currentPeriodEnd :: "int option"
  sub_trialEndsAt :: "int option"
  sub_cancelAtPeriodEnd :: bool
  sub_canceledAt :: "int option"

record subscription_item =
  sit_id :: string
  sit_subscriptionId :: string
  sit_pricingCatalogItemId :: string
  sit_quantity :: int
  sit_unitPriceUsdCentsSnapshot :: int

record billing_event =
  bev_id :: string
  bev_tenantId :: string
  bev_type :: string
  bev_stripeEventId :: "string option"
  bev_processedAt :: "int option"

record user =
  usr_id :: string
  usr_email :: string
  usr_emailVerifiedAt :: "int option"
  usr_passwordHash :: "string option"
  usr_name :: "string option"
  usr_mfaEnabled :: bool
  usr_mfaSecretEncrypted :: "string option"
  usr_mfaRecoveryCodesEncrypted :: "string option"
  usr_isPlatformAdmin :: bool

record identity_account =
  ida_id :: string
  ida_userId :: string
  ida_provider :: identity_provider
  ida_providerSubject :: string
  ida_providerEmail :: "string option"
  ida_isPrivateRelayEmail :: bool
  ida_refreshTokenEncrypted :: "string option"
  ida_accessTokenEncrypted :: "string option"
  ida_tokenExpiresAt :: "int option"

record session =
  ses_id :: string
  ses_userId :: string
  ses_deviceId :: "string option"
  ses_tokenHash :: string
  ses_ipAddress :: "string option"
  ses_userAgent :: "string option"
  ses_expiresAt :: int
  ses_revokedAt :: "int option"
  ses_rotatedFromId :: "string option"

record role_permission =
  rp_permissionKey :: string
  rp_allowed :: bool

record role =
  rol_id :: string
  rol_tenantId :: "string option"
  rol_key :: string
  rol_name :: string
  rol_isSystem :: bool
  rol_permissions :: "role_permission list"

record membership =
  mem_id :: string
  mem_tenantId :: string
  mem_userId :: string
  mem_roleId :: string
  mem_status :: membership_status
  mem_branchScope :: "string list"
  mem_isBillableUser :: bool

record invitation =
  ivt_id :: string
  ivt_tenantId :: string
  ivt_email :: string
  ivt_roleId :: string
  ivt_token :: string
  ivt_invitedByUserId :: string
  ivt_expiresAt :: int
  ivt_acceptedAt :: "int option"
  ivt_revokedAt :: "int option"

section \<open>Branches, catalog and inventory rows\<close>

record branch =
  br_id :: string
  br_tenantId :: string
  br_name :: string
  br_address :: "string option"
  br_timezone :: string
  br_currency :: string
  br_isActive :: bool
  br_isBillable :: bool
  br_archivedAt :: "int option"
  br_createdAt :: int

record stock_location =
  loc_id :: string
  loc_tenantId :: string
  loc_branchId :: string
  loc_name :: string
  loc_isDefault :: bool

record register =
  reg_id :: string
  reg_tenantId :: string
  reg_branchId :: string
  reg_name :: string

record category =
  cat_id :: string
  cat_tenantId :: string
  cat_name :: string
  cat_parentId :: "string option"

record tax_class =
  tax_id :: string
  tax_tenantId :: string
  tax_ratePercent :: rat

record product =
  prd_id :: string
  prd_tenantId :: string
  prd_name :: string
  prd_description :: "string option"
  prd_brand :: "string option"
  prd_categoryId :: "string option"
  prd_unitOfMeasure :: string
  prd_status :: product_status
  prd_createdAt :: int

record variant =
  var_id :: string
  var_tenantId :: string
  var_productId :: string
  var_sku :: string
  var_barcode :: "string option"
  var_attributes :: "(string \<times> string) list"
  var_costPrice :: rat
  var_retailPrice :: rat
  var_wholesalePrice :: "rat option"
  var_taxClassId :: "string option"
  var_reorderPoint :: int
  var_reorderBuffer :: int
  var_status :: product_status

record movement =
  mov_id :: string
  mov_tenantId :: string
  mov_branchId :: string
  mov_stockLocationId :: string
  mov_variantId :: string
  mov_type :: movement_type
  mov_quantityDelta :: int
  mov_resultingBalance :: int
  mov_reason :: "string option"
  mov_actorUserId :: "string option"
  mov_sourceType :: "string option"
  mov_sourceId :: "string option"
  mov_idempotencyKey :: "string option"
  mov_createdAt :: int

record balance =
  bal_id :: string
  bal_tenantId :: string
  bal_stockLocationId :: string
  bal_variantId :: string
  bal_quantity :: int

record transfer_line =
  tl_variantId :: string
  tl_quantity :: int

record transfer =
  trf_id :: string
  trf_tenantId :: string
  trf_fromStockLocationId :: string
  trf_toStockLocationId :: string
  trf_status :: transfer_status
  trf_note :: "string option"
  trf_initiatedByUserId :: string
  trf_receivedAt :: "int option"
  trf_lines :: "transfer_line list"

section \<open>Customers, sales, quotes, invoices and expenses\<close>

record customer =
  cus_id :: string
  cus_tenantId :: string
  cus_name :: string
  cus_company :: "string option"
  cus_email :: "string option"
  cus_phone :: "string option"
  cus_birthday :: "int option"
  cus_taxId :: "string option"
  cus_notes :: "string option"
  cus_creditLimit :: rat
  cus_balance :: rat
  cus_paymentTermsDays :: int
  cus_tags :: "string list"
  cus_consentMarketing :: bool
  cus_status :: customer_status
  cus_createdAt :: int

record payment =
  pay_method :: payment_method
  pay_amount :: rat
  pay_currency :: string
  pay_reference :: "string option"
  pay_status :: payment_status

record sale_line =
  sl_variantId :: string
  sl_quantity :: int
  sl_unitPrice :: rat
  sl_unitCost :: rat
  sl_taxAmount :: rat
  sl_discountAmount :: rat
  sl_lineTotal :: rat

record refund =
  ref_id :: string
  ref_amount :: rat
  ref_reason :: "string option"
  ref_processedByUserId :: string

record sale =
  sale_id :: string
  sale_tenantId :: string
  sale_branchId :: string
  sale_registerId :: "string option"
  sale_customerId :: "string option"
  sale_salespersonUserId :: "string option"
  sale_status :: sale_status
  sale_subtotal :: rat
  sale_taxTotal :: rat
  sale_discountTotal :: rat
  sale_total :: rat
  sale_currency :: string
  sale_note :: "string option"
  sale_clientMutationId :: "string option"
  sale_createdAt :: int
  sale_voidedAt :: "int option"
  sale_lines :: "sale_line list"
  sale_payments :: "payment list"
  sale_refunds :: "refund list"

record quote_line =
  ql_variantId :: string
  ql_description :: "string option"
  ql_quantity :: int
  ql_unitPrice :: rat
  ql_lineTotal :: rat

record quote =
  qt_id :: string
  qt_tenantId :: string
  qt_branchId :: string
  qt_customerId :: string
  qt_status :: quote_status
  qt_subtotal :: rat
  qt_total :: rat
  qt_currency :: string
  qt_expiresAt :: "int option"
  qt_convertedInvoiceId :: "string option"
  qt_lines :: "quote_line list"

record invoice_line =
  il_variantId :: "string option"
  il_description :: string
  il_quantity :: int
  il_unitPrice :: rat
  il_taxAmount :: rat
  il_discountAmount :: rat
  il_lineTotal :: rat

record invoice =
  inv_id :: string
  inv_tenantId :: string
  inv_branchId :: string
  inv_customerId :: string
  inv_number :: string
  inv_status :: invoice_status
  inv_dueDate :: "int option"
  inv_subtotal :: rat
  inv_taxTotal :: rat
  inv_discountTotal :: rat
  inv_total :: rat
  inv_amountPaid :: rat
  inv_currency :: string
  inv_notes :: "string option"
  inv_termsText :: "string option"
  inv_publicToken :: string
  inv_publicTokenRevokedAt :: "int option"
  inv_createdAt :: int
  inv_voidedAt :: "int option"
  inv_lines :: "invoice_line list"
  inv_payments :: "payment list"

record expense_category =
  ec_id :: string
  ec_tenantId :: string
  ec_name :: string

record expense =
  exp_id :: string
  exp_tenantId :: string
  exp_branchId :: string
  exp_categoryId :: string
  exp_vendor :: "string option"
  exp_amount :: rat
  exp_taxAmount :: rat
  exp_date :: int
  exp_paymentAccount :: "string option"
  exp_notes :: "string option"
  exp_receiptUrl :: "string option"
  exp_createdByUserId :: string

section \<open>Audit trail and outbox rows\<close>

record audit_event =
  aud_id :: string
  aud_tenantId :: "string option"
  aud_actorUserId :: "string option"
  aud_action :: string
  aud_entityType :: string
  aud_entityId :: "string option"
  aud_metadata :: json
  aud_ipAddress :: "string option"

record outbox_event =
  obx_id :: string
  obx_aggregateType :: string
  obx_aggregateId :: string
  obx_eventType :: string
  obx_payload :: json
  obx_createdAt :: int
  obx_processedAt :: "int option"
  obx_attempts :: nat
  obx_lastError :: "string option"

section \<open>Commerce integration rows\<close>

record commerce_connection =
  con_id :: string
  con_tenantId :: string
  con_provider :: commerce_provider
  con_name :: string
  con_storeUrl :: "string option"
  con_credentialsEncrypted :: string
  con_status :: connection_status
  con_lastSyncAt :: "int option"
  con_lastErrorAt :: "int option"
  con_lastError :: "string option"

record external_object_map =
  eom_id :: string
  eom_tenantId :: string
  eom_connectionId :: string
  eom_externalType :: external_object_type
  eom_externalId :: string
  eom_canonicalType :: string
  eom_canonicalId :: string

record sync_job =
  syj_id :: string
  syj_tenantId :: string
  syj_connectionId :: string
  syj_domain :: sync_domain
  syj_direction :: sync_direction
  syj_status :: sync_job_status
  syj_itemsProcessed :: nat
  syj_error :: "string option"
  syj_startedAt :: int
  syj_finishedAt :: "int option"

record webhook_delivery =
  whd_id :: string
  whd_tenantId :: string
  whd_connectionId :: string
  whd_externalEventId :: string
  whd_eventType :: string
  whd_payload :: json
  whd_signatureVerified :: bool
  whd_processedAt :: "int option"
  whd_error :: "string option"

section \<open>The database\<close>

text \<open>
  \<open>seq\<close> counts the identifiers and tokens generated so far: the \<open>n\<close>-th generated
  identifier is \<open>uuid E n\<close>.
\<close>

record db =
  seq :: nat
  tenants :: "tenant list"
  pricingCatalogItems :: "pricing_item list"
  subscriptions :: "subscription list"
  subscriptionItems :: "subscription_item list"
  billingEvents :: "billing_event list"
  users :: "user list"
  identityProviderAccounts :: "identity_account list"
  sessions :: "session list"
  roles :: "role list"
  memberships :: "membership list"
  invitations :: "invitation list"
  branches :: "branch list"
  stockLocations :: "stock_location list"
  registers :: "register list"
  categories :: "category list"
  taxClasses :: "tax_class list"
  products :: "product list"
  productVariants :: "variant list"
  inventoryMovements :: "movement list"
  inventoryBalances :: "balance list"
  stockTransfers :: "transfer list"
  customers :: "customer list"
  sales :: "sale list"
  quotes :: "quote list"
  invoices :: "invoice list"
  expenseCategories :: "expense_category list"
  expenses :: "expense list"
  auditEvents :: "audit_event list"
  outboxEvents :: "outbox_event list"
  commerceConnections :: "commerce_connection list"
  externalObjectMaps :: "external_object_map list"
  syncJobs :: "sync_job list"
  webhookDeliveries :: "webhook_delivery list"

definition empty_db :: db where
  "empty_db = \<lparr>seq = 0, tenants = [], pricingCatalogItems = [], subscriptions = [],
     subscriptionItems = [], billingEvents = [], users = [], identityProviderAccounts = [],
     sessions = [], roles = [], memberships = [], invitations = [], branches = [],
     stockLocations = [], registers = [], categories = [], taxClasses = [], products = [], productVariants = [],
     inventoryMovements = [], inventoryBalances = [], stockTransfers = [], customers = [],
     sales = [], quotes = [], invoices = [], expenseCategories = [], expenses = [],
     auditEvents = [], outboxEvents = [], commerceConnections = [], externalObjectMaps = [],
     syncJobs = [], webhookDeliveries = []\<rparr>"

section \<open>Parameters\<close>

text \<open>
  Behaviour of code outside the repository, passed to the definitions that rely on it:
  identifier generation (the \<open>uuid()\<close> default of the schema and \<open>nanoid(32)\<close>), the
  decimal library (rounding of an exact result to the configured precision, rounding to a number
  of decimal places, and the text of \<open>toFixed\<close>), the value a \<open>Decimal(14,4)\<close> column
  keeps of what is written to it, and the public base URL of the deployment.
\<close>

record env =
  uuid :: "nat \<Rightarrow> string"
  nanoid32 :: "nat \<Rightarrow> string"
  dec_round :: "rat \<Rightarrow> rat"
  dec_places :: "nat \<Rightarrow> rat \<Rightarrow> rat"
  dec_text :: "nat \<Rightarrow> rat \<Rightarrow> string"
  dec_col :: "rat \<Rightarrow> rat"
  appUrl :: string

end
