(* ===== verification/Offline_Queue.thy ===== *)
theory Offline_Queue
  imports Schema
begin

text \<open>
  \<open>packages/offline-sync\<close>: the durable mutation queue, its backoff schedule and the sync
  engine. The queue and the engine are written over a storage adapter, so the model takes the
  adapter's operations as a record; the locale \<open>queue_storage\<close> states what an adapter
  promises, and the lemmas of the queue are proved once against it. The two adapters of the
  repository are in \<open>Queue_Adapters\<close>.
\<close>

section \<open>Items and patches (\<open>types.ts\<close>)\<close>

datatype item_status = Pending | Syncing | Synced | Failed | Dead

record queue_item =
  qi_id :: string
  qi_kind :: string
  qi_endpoint :: string
  qi_payload :: json
  qi_status :: item_status
  qi_attempts :: nat
  qi_lastError :: "string option"
  qi_createdAt :: int
  qi_nextAttemptAt :: int
  qi_syncedAt :: "int option"
  qi_serverResponse :: "json option"

text \<open>
  A patch (\<open>Partial<QueueItem>\<close>): \<open>None\<close> is a key the patch does not have. The keys
  are those the queue ever patches; identity, kind, endpoint, payload and creation time never
  change.
\<close>

record item_patch =
  pt_status :: "item_status option"
  pt_attempts :: "nat option"
  pt_lastError :: "string option option"
  pt_nextAttemptAt :: "int option"
  pt_syncedAt :: "int option option"
  pt_serverResponse :: "json option option"

definition no_patch :: item_patch where
  "no_patch = \<lparr>pt_status = None, pt_attempts = None, pt_lastError = None,
     pt_nextAttemptAt = None, pt_syncedAt = None, pt_serverResponse = None\<rparr>"

definition patched :: "'a option \<Rightarrow> 'a \<Rightarrow> 'a" where
  "patched p old = (case p of None \<Rightarrow> old | Some new \<Rightarrow> new)"

definition apply_patch :: "item_patch \<Rightarrow> queue_item \<Rightarrow> queue_item" where
  "apply_patch p it = it\<lparr>qi_status := patched (pt_status p) (qi_status it),
     qi_attempts := patched (pt_attempts p) (qi_attempts it),
     qi_lastError := patched (pt_lastError p) (qi_lastError it),
     qi_nextAttemptAt := patched (pt_nextAttemptAt p) (qi_nextAttemptAt it),
     qi_syncedAt := patched (pt_syncedAt p) (qi_syncedAt it),
     qi_serverResponse := patched (pt_serverResponse p) (qi_serverResponse it)\<rparr>"

lemma apply_patch_sel [simp]:
  "qi_id (apply_patch p it) = qi_id it" "qi_createdAt (apply_patch p it) = qi_createdAt it"
  "qi_kind (apply_patch p it) = qi_kind it" "qi_endpoint (apply_patch p it) = qi_endpoint it"
  "qi_payload (apply_patch p it) = qi_payload it"
  "qi_status (apply_patch p it) = patched (pt_status p) (qi_status it)"
  "qi_attempts (apply_patch p it) = patched (pt_attempts p) (qi_attempts it)"
  "qi_lastError (apply_patch p it) = patched (pt_lastError p) (qi_lastError it)"
  "qi_nextAttemptAt (apply_patch p it) = patched (pt_nextAttemptAt p) (qi_nextAttemptAt it)"
  "qi_syncedAt (apply_patch p it) = patched (pt_syncedAt p) (qi_syncedAt it)"
  "qi_serverResponse (apply_patch p it) = patched (pt_serverResponse p) (qi_serverResponse it)"
  by (simp_all add: apply_patch_def)

lemma patched_simps [simp]: "patched None x = x" "patched (Some y) x = y"
  by (simp_all add: patched_def)

section \<open>Storage adapters\<close>

record 's storage =
  st_insert :: "queue_item \<Rightarrow> 's \<Rightarrow> error + 's"
  st_update :: "string \<Rightarrow> item_patch \<Rightarrow> 's \<Rightarrow> 's"
  st_get :: "string \<Rightarrow> 's \<Rightarrow> queue_item option"
  st_listByStatus :: "item_status list \<Rightarrow> 's \<Rightarrow> queue_item list"
  st_listAll :: "'s \<Rightarrow> queue_item list"

text \<open>
  What an adapter promises: it is a finite map from ids to items. \<open>items\<close> reads the map off
  a state, \<open>inv\<close> is the adapter's own well-formedness.
\<close>

locale queue_storage =
  fixes S :: "'s storage" and items :: "'s \<Rightarrow> string \<rightharpoonup> queue_item" and inv :: "'s \<Rightarrow> bool"
  assumes items_id: "inv s \<Longrightarrow> items s i = Some it \<Longrightarrow> qi_id it = i"
    and get_items: "inv s \<Longrightarrow> st_get S i s = items s i"
    and insert_new: "inv s \<Longrightarrow> items s (qi_id it) = None \<Longrightarrow>
      \<exists>s'. st_insert S it s = Inr s' \<and> inv s' \<and> items s' = (items s)(qi_id it \<mapsto> it)"
    and update_inv: "inv s \<Longrightarrow> inv (st_update S i p s)"
    and update_items: "inv s \<Longrightarrow> items (st_update S i p s) =
      (case items s i of None \<Rightarrow> items s | Some it \<Rightarrow> (items s)(i \<mapsto> apply_patch p it))"
    and list_status: "inv s \<Longrightarrow>
      set (st_listByStatus S sts s) = {it \<in> ran (items s). qi_status it \<in> set sts}"
    and list_status_distinct: "inv s \<Longrightarrow> distinct (map qi_id (st_listByStatus S sts s))"
    and list_all_items: "inv s \<Longrightarrow> set (st_listAll S s) = ran (items s)"

section \<open>Backoff (\<open>backoff.ts\<close>)\<close>

definition computeBackoffMs :: "nat \<Rightarrow> int \<Rightarrow> int \<Rightarrow> int" where
  "computeBackoffMs attempts baseMs maxMs =
     (if attempts < 1 then 0 else min (baseMs * 2 ^ (attempts - 1)) maxMs)"

definition default_backoff :: "nat \<Rightarrow> int" where
  "default_backoff attempts = computeBackoffMs attempts 2000 (5 * 60000)"

lemma backoff_mono:
  assumes "0 \<le> base" "0 \<le> maxMs" "m \<le> n"
  shows "computeBackoffMs m base maxMs \<le> computeBackoffMs n base maxMs"
proof -
  have "base * 2 ^ (m - 1) \<le> base * 2 ^ (n - 1)"
    using assms by (intro mult_left_mono power_increasing) auto
  with assms show ?thesis by (auto simp: computeBackoffMs_def min_le_iff_disj)
qed

lemma backoff_bounds:
  assumes "0 \<le> base" "base \<le> maxMs" "1 \<le> n"
  shows "base \<le> computeBackoffMs n base maxMs" "computeBackoffMs n base maxMs \<le> maxMs"
proof -
  have "base * 1 \<le> base * 2 ^ (n - 1)" using assms by (intro mult_left_mono) auto
  with assms show "base \<le> computeBackoffMs n base maxMs" "computeBackoffMs n base maxMs \<le> maxMs"
    by (auto simp: computeBackoffMs_def)
qed

section \<open>The mutation queue (\<open>mutation-queue.ts\<close>)\<close>

record enqueue_input =
  eq_id :: string
  eq_kind :: string
  eq_endpoint :: string
  eq_payload :: json

definition DEFAULT_MAX_ATTEMPTS :: nat where
  "DEFAULT_MAX_ATTEMPTS = 8"

definition new_item :: "int \<Rightarrow> enqueue_input \<Rightarrow> queue_item" where
  "new_item now input = \<lparr>qi_id = eq_id input, qi_kind = eq_kind input,
     qi_endpoint = eq_endpoint input, qi_payload = eq_payload input, qi_status = Pending,
     qi_attempts = 0, qi_lastError = None, qi_createdAt = now, qi_nextAttemptAt = now,
     qi_syncedAt = None, qi_serverResponse = None\<rparr>"

definition enqueue :: "'s storage \<Rightarrow> int \<Rightarrow> enqueue_input \<Rightarrow> 's \<Rightarrow> error + (queue_item \<times> 's)" where
  "enqueue S now input s =
     (case st_get S (eq_id input) s of
        Some existing \<Rightarrow> Inr (existing, s)
      | None \<Rightarrow>
          let item = new_item now input in
          bindE (st_insert S item s) (\<lambda>s'. Inr (item, s')))"

definition listReady :: "'s storage \<Rightarrow> int \<Rightarrow> 's \<Rightarrow> queue_item list" where
  "listReady S now s =
     sort_key qi_createdAt
       (filter (\<lambda>item. qi_nextAttemptAt item \<le> now) (st_listByStatus S [Pending, Failed] s))"

definition queue_listAll :: "'s storage \<Rightarrow> 's \<Rightarrow> queue_item list" where
  "queue_listAll S s = st_listAll S s"

definition queue_listByStatus :: "'s storage \<Rightarrow> item_status list \<Rightarrow> 's \<Rightarrow> queue_item list" where
  "queue_listByStatus S statuses s = st_listByStatus S statuses s"

definition markSyncing :: "'s storage \<Rightarrow> string \<Rightarrow> 's \<Rightarrow> 's" where
  "markSyncing S i s = st_update S i (no_patch\<lparr>pt_status := Some Syncing\<rparr>) s"

definition markSynced :: "'s storage \<Rightarrow> int \<Rightarrow> string \<Rightarrow> json option \<Rightarrow> 's \<Rightarrow> 's" where
  "markSynced S now i serverResponse s =
     st_update S i (no_patch\<lparr>pt_status := Some Synced, pt_syncedAt := Some (Some now),
       pt_serverResponse := Some serverResponse, pt_lastError := Some None\<rparr>) s"

definition attempts_of :: "queue_item option \<Rightarrow> nat" where
  "attempts_of item = (case item of None \<Rightarrow> 0 | Some it \<Rightarrow> qi_attempts it)"

definition markRetryableFailure ::
  "'s storage \<Rightarrow> nat \<Rightarrow> int \<Rightarrow> string \<Rightarrow> string \<Rightarrow> 's \<Rightarrow> 's" where
  "markRetryableFailure S maxAttempts now i err s =
     (let attempts = attempts_of (st_get S i s) + 1 in
      if maxAttempts \<le> attempts
      then st_update S i (no_patch\<lparr>pt_status := Some Dead, pt_attempts := Some attempts,
             pt_lastError := Some (Some err)\<rparr>) s
      else st_update S i (no_patch\<lparr>pt_status := Some Failed, pt_attempts := Some attempts,
             pt_lastError := Some (Some err),
             pt_nextAttemptAt := Some (now + default_backoff attempts)\<rparr>) s)"

definition markDead :: "'s storage \<Rightarrow> string \<Rightarrow> string \<Rightarrow> 's \<Rightarrow> 's" where
  "markDead S i err s =
     st_update S i (no_patch\<lparr>pt_status := Some Dead,
       pt_attempts := Some (attempts_of (st_get S i s) + 1), pt_lastError := Some (Some err)\<rparr>) s"

definition manualRetry :: "'s storage \<Rightarrow> int \<Rightarrow> string \<Rightarrow> 's \<Rightarrow> 's" where
  "manualRetry S now i s =
     st_update S i (no_patch\<lparr>pt_status := Some Pending, pt_nextAttemptAt := Some now\<rparr>) s"

section \<open>The sync engine (\<open>sync-engine.ts\<close>)\<close>

text \<open>
  \<open>submit\<close> is injected and acts on the world outside the device (\<open>'w\<close>, the server); it
  returns, reports a failure, or throws. \<open>clk i\<close> is the clock reading of the write that
  records the outcome of item \<open>i\<close> in this pass. The data of a success may be undefined.
\<close>

datatype submit_outcome =
    SubmitSuccess "json option"
  | SubmitFailure bool string
  | SubmitThrows string

record sync_result =
  sr_processed :: nat
  sr_synced :: nat
  sr_retriedLater :: nat
  sr_dead :: nat

definition record_outcome ::
  "'s storage \<Rightarrow> nat \<Rightarrow> int \<Rightarrow> string \<Rightarrow> submit_outcome \<Rightarrow> sync_result \<Rightarrow> 's \<Rightarrow> sync_result \<times> 's"
where
  "record_outcome S maxAttempts now i outcome result s =
     (case outcome of
        SubmitSuccess data \<Rightarrow>
          (result\<lparr>sr_synced := sr_synced result + 1\<rparr>, markSynced S now i data s)
      | SubmitThrows err \<Rightarrow>
          (result\<lparr>sr_retriedLater := sr_retriedLater result + 1\<rparr>,
           markRetryableFailure S maxAttempts now i err s)
      | SubmitFailure retryable err \<Rightarrow>
          if retryable
          then (result\<lparr>sr_retriedLater := sr_retriedLater result + 1\<rparr>,
                markRetryableFailure S maxAttempts now i err s)
          else (result\<lparr>sr_dead := sr_dead result + 1\<rparr>, markDead S i err s))"

fun sync_items ::
  "'s storage \<Rightarrow> nat \<Rightarrow> (queue_item \<Rightarrow> 'w \<Rightarrow> submit_outcome \<times> 'w) \<Rightarrow> (string \<Rightarrow> int) \<Rightarrow>
   queue_item list \<Rightarrow> sync_result \<Rightarrow> 's \<Rightarrow> 'w \<Rightarrow> sync_result \<times> 's \<times> 'w"
where
  "sync_items S maxAttempts submit clk [] result s w = (result, s, w)"
| "sync_items S maxAttempts submit clk (item # ready) result s w =
     (let result1 = result\<lparr>sr_processed := sr_processed result + 1\<rparr>;
          s1 = markSyncing S (qi_id item) s;
          (outcome, w1) = submit item w;
          (result2, s2) =
            record_outcome S maxAttempts (clk (qi_id item)) (qi_id item) outcome result1 s1
      in sync_items S maxAttempts submit clk ready result2 s2 w1)"

definition zero_result :: sync_result where
  "zero_result = \<lparr>sr_processed = 0, sr_synced = 0, sr_retriedLater = 0, sr_dead = 0\<rparr>"

definition runOnce ::
  "'s storage \<Rightarrow> nat \<Rightarrow> (queue_item \<Rightarrow> 'w \<Rightarrow> submit_outcome \<times> 'w) \<Rightarrow> ('w \<Rightarrow> bool) \<Rightarrow>
   (string \<Rightarrow> int) \<Rightarrow> int \<Rightarrow> 's \<Rightarrow> 'w \<Rightarrow> sync_result \<times> 's \<times> 'w"
where
  "runOnce S maxAttempts submit isOnline clk now s w =
     (if \<not> isOnline w then (zero_result, s, w)
      else sync_items S maxAttempts submit clk (listReady S now s) zero_result s w)"

section \<open>What one pass does to the map of items\<close>

text \<open>The specification of the outcome of one attempt, on the item alone.\<close>

definition fail_item :: "nat \<Rightarrow> int \<Rightarrow> string \<Rightarrow> queue_item \<Rightarrow> queue_item" where
  "fail_item maxAttempts now err it =
     (if maxAttempts \<le> qi_attempts it + 1
      then it\<lparr>qi_status := Dead, qi_attempts := qi_attempts it + 1, qi_lastError := Some err\<rparr>
      else it\<lparr>qi_status := Failed, qi_attempts := qi_attempts it + 1, qi_lastError := Some err,
             qi_nextAttemptAt := now + default_backoff (qi_attempts it + 1)\<rparr>)"

definition settle :: "nat \<Rightarrow> int \<Rightarrow> submit_outcome \<Rightarrow> queue_item \<Rightarrow> queue_item" where
  "settle maxAttempts now outcome it =
     (case outcome of
        SubmitSuccess data \<Rightarrow> it\<lparr>qi_status := Synced, qi_lastError := None,
          qi_syncedAt := Some now, qi_serverResponse := data\<rparr>
      | SubmitThrows err \<Rightarrow> fail_item maxAttempts now err it
      | SubmitFailure retryable err \<Rightarrow>
          if retryable then fail_item maxAttempts now err it
          else it\<lparr>qi_status := Dead, qi_attempts := qi_attempts it + 1, qi_lastError := Some err\<rparr>)"

fun outcomes ::
  "(queue_item \<Rightarrow> 'w \<Rightarrow> submit_outcome \<times> 'w) \<Rightarrow> queue_item list \<Rightarrow> 'w \<Rightarrow> submit_outcome list \<times> 'w"
where
  "outcomes submit [] w = ([], w)"
| "outcomes submit (it # ready) w =
     (let (x, w1) = submit it w; (xs, w2) = outcomes submit ready w1 in (x # xs, w2))"

fun settle_all ::
  "nat \<Rightarrow> (string \<Rightarrow> int) \<Rightarrow> queue_item list \<Rightarrow> submit_outcome list \<Rightarrow>
   (string \<rightharpoonup> queue_item) \<Rightarrow> (string \<rightharpoonup> queue_item)"
where
  "settle_all maxAttempts clk (it # ready) (x # xs) m =
     settle_all maxAttempts clk ready xs (m(qi_id it \<mapsto> settle maxAttempts (clk (qi_id it)) x it))"
| "settle_all maxAttempts clk _ _ m = m"

fun is_success :: "submit_outcome \<Rightarrow> bool" where
  "is_success (SubmitSuccess _) = True"
| "is_success _ = False"

fun is_retry :: "submit_outcome \<Rightarrow> bool" where
  "is_retry (SubmitThrows _) = True"
| "is_retry (SubmitFailure retryable _) = retryable"
| "is_retry _ = False"

fun is_permanent :: "submit_outcome \<Rightarrow> bool" where
  "is_permanent (SubmitFailure retryable _) = (\<not> retryable)"
| "is_permanent _ = False"

definition count_outcomes :: "submit_outcome list \<Rightarrow> sync_result \<Rightarrow> sync_result" where
  "count_outcomes xs r =
     \<lparr>sr_processed = sr_processed r + length xs,
      sr_synced = sr_synced r + count_where is_success xs,
      sr_retriedLater = sr_retriedLater r + count_where is_retry xs,
      sr_dead = sr_dead r + count_where is_permanent xs\<rparr>"

lemma settle_id [simp]: "qi_id (settle n now x it) = qi_id it"
  by (cases x) (auto simp: settle_def fail_item_def)

lemma settle_not_syncing: "qi_status (settle n now x it) \<noteq> Syncing"
  by (cases x) (auto simp: settle_def fail_item_def)

lemma settle_forgets_status [simp]: "settle n now x (it\<lparr>qi_status := st\<rparr>) = settle n now x it"
  by (cases x) (auto simp: settle_def fail_item_def)

lemma settle_failed:
  "qi_status (settle n now x it) = Failed \<Longrightarrow>
     0 < qi_attempts (settle n now x it) \<and> qi_attempts (settle n now x it) < n
     \<and> qi_attempts (settle n now x it) = Suc (qi_attempts it)
     \<and> qi_nextAttemptAt (settle n now x it) = now + default_backoff (qi_attempts (settle n now x it))"
  by (cases x) (auto simp: settle_def fail_item_def split: if_splits)

lemma settle_synced_iff: "qi_status (settle n now x it) = Synced \<longleftrightarrow> is_success x"
  by (cases x) (auto simp: settle_def fail_item_def)

lemma length_outcomes [simp]: "length (fst (outcomes submit ready w)) = length ready"
  by (induction ready arbitrary: w) (simp_all add: Let_def case_prod_beta)

lemma settle_all_other: "i \<notin> qi_id ` set ready \<Longrightarrow> settle_all n clk ready xs m i = m i"
  by (induction n clk ready xs m rule: settle_all.induct) auto

lemma settle_all_nth:
  assumes "distinct (map qi_id ready)" and "length xs = length ready" and "k < length ready"
  shows "settle_all n clk ready xs m (qi_id (ready ! k)) =
         Some (settle n (clk (qi_id (ready ! k))) (xs ! k) (ready ! k))"
  using assms
proof (induction n clk ready xs m arbitrary: k rule: settle_all.induct)
  case (1 n clk it ready x xs m)
  then show ?case
    by (cases k) (auto simp: settle_all_other simp del: fun_upd_apply, simp)
qed auto

lemma dom_settle_all:
  "\<forall>it\<in>set ready. qi_id it \<in> dom m \<Longrightarrow> dom (settle_all n clk ready xs m) = dom m"
  by (induction n clk ready xs m rule: settle_all.induct) auto

lemma outcome_kinds:
  "count_where is_success xs + count_where is_retry xs + count_where is_permanent xs = length xs"
proof (induction xs)
  case (Cons x xs)
  then show ?case by (cases x) auto
qed simp

section \<open>The queue over any adapter\<close>

context queue_storage
begin

lemma ran_items: "inv s \<Longrightarrow> it \<in> ran (items s) \<longleftrightarrow> items s (qi_id it) = Some it"
  using items_id by (auto simp: ran_def)

lemma enqueue_existing:
  "inv s \<Longrightarrow> items s (eq_id input) = Some it \<Longrightarrow> enqueue S now input s = Inr (it, s)"
  by (simp add: enqueue_def get_items)

lemma enqueue_new:
  assumes "inv s" and "items s (eq_id input) = None"
  shows "\<exists>s'. enqueue S now input s = Inr (new_item now input, s') \<and> inv s' \<and>
              items s' = (items s)(eq_id input \<mapsto> new_item now input)"
  using insert_new [of s "new_item now input"] assms
  by (auto simp: enqueue_def get_items new_item_def)

lemma enqueue_total:
  assumes "inv s"
  shows "\<exists>it s'. enqueue S now input s = Inr (it, s') \<and> inv s' \<and> items s' (eq_id input) = Some it \<and>
              (\<forall>i. i \<noteq> eq_id input \<longrightarrow> items s' i = items s i) \<and> (items s \<subseteq>\<^sub>m items s')"
proof (cases "items s (eq_id input)")
  case None
  from enqueue_new [OF assms None, of now] obtain s' where
    "enqueue S now input s = Inr (new_item now input, s')" "inv s'"
    "items s' = (items s)(eq_id input \<mapsto> new_item now input)" by blast
  with None show ?thesis by (auto simp: map_le_def)
qed (auto simp: enqueue_existing assms)

text \<open>Enqueuing the same id again returns the first item and changes nothing.\<close>

lemma enqueue_twice:
  assumes "inv s" and "enqueue S now input s = Inr (it, s')" and "eq_id input' = eq_id input"
  shows "enqueue S now' input' s' = Inr (it, s')"
  using enqueue_total [OF assms(1), of now input] assms by (auto simp: enqueue_existing)

lemma set_listReady:
  "inv s \<Longrightarrow> set (listReady S now s) =
     {it \<in> ran (items s). qi_status it \<in> {Pending, Failed} \<and> qi_nextAttemptAt it \<le> now}"
  by (auto simp: listReady_def list_status)

lemma listReady_sorted: "sorted (map qi_createdAt (listReady S now s))"
  by (simp add: listReady_def)

lemma listReady_distinct: "inv s \<Longrightarrow> distinct (map qi_id (listReady S now s))"
  by (simp add: listReady_def list_status_distinct distinct_map_filter_rows)

lemma listReady_stored:
  "inv s \<Longrightarrow> it \<in> set (listReady S now s) \<Longrightarrow> items s (qi_id it) = Some it"
  by (simp add: set_listReady ran_items)

lemma markSyncing_items:
  "inv s \<Longrightarrow> items s i = Some it \<Longrightarrow> items (markSyncing S i s) = (items s)(i \<mapsto> it\<lparr>qi_status := Syncing\<rparr>)"
  by (simp add: markSyncing_def update_items apply_patch_def no_patch_def)

lemma manualRetry_items:
  "inv s \<Longrightarrow> items s i = Some it \<Longrightarrow>
   items (manualRetry S now i s) = (items s)(i \<mapsto> it\<lparr>qi_status := Pending, qi_nextAttemptAt := now\<rparr>)"
  by (simp add: manualRetry_def update_items apply_patch_def no_patch_def)

lemma mark_inv:
  "inv s \<Longrightarrow> inv (markSyncing S i s)" "inv s \<Longrightarrow> inv (manualRetry S now i s)"
  "inv s \<Longrightarrow> inv (snd (record_outcome S n now i x r s))"
  by (auto simp: markSyncing_def manualRetry_def record_outcome_def markSynced_def
      markRetryableFailure_def markDead_def Let_def update_inv split: submit_outcome.split)

lemma record_outcome_items:
  assumes "inv s" and "items s i = Some it"
  shows "items (snd (record_outcome S n now i x r s)) = (items s)(i \<mapsto> settle n now x it)"
  using assms
  by (cases x)
    (auto simp: record_outcome_def markSynced_def markRetryableFailure_def markDead_def Let_def
      update_items get_items attempts_of_def settle_def fail_item_def apply_patch_def no_patch_def)

lemma record_outcome_count:
  "fst (record_outcome S n now i x (r\<lparr>sr_processed := sr_processed r + 1\<rparr>) s) = count_outcomes [x] r"
  by (cases x) (auto simp: record_outcome_def count_outcomes_def)

lemma count_outcomes_Cons: "count_outcomes xs (count_outcomes [x] r) = count_outcomes (x # xs) r"
  by (simp add: count_outcomes_def)

text \<open>The engine's loop refines the specification: every outcome settles its own item.\<close>

lemma sync_items_spec:
  assumes "inv s" and "distinct (map qi_id ready)"
    and "\<forall>it\<in>set ready. items s (qi_id it) = Some it"
  shows "\<exists>s'. sync_items S n submit clk ready r s w =
              (count_outcomes (fst (outcomes submit ready w)) r, s', snd (outcomes submit ready w))
            \<and> inv s'
            \<and> items s' = settle_all n clk ready (fst (outcomes submit ready w)) (items s)"
  using assms
proof (induction ready arbitrary: r s w)
  case Nil
  then show ?case by (cases r) (simp add: count_outcomes_def)
next
  case (Cons it ready)
  obtain x w1 where sub: "submit it w = (x, w1)" by (cases "submit it w")
  let ?s1 = "markSyncing S (qi_id it) s"
  let ?ro = "record_outcome S n (clk (qi_id it)) (qi_id it) x (r\<lparr>sr_processed := sr_processed r + 1\<rparr>) ?s1"
  have st: "items s (qi_id it) = Some it" using Cons.prems by simp
  have inv1: "inv ?s1" using Cons.prems by (simp add: mark_inv)
  have it1: "items ?s1 = (items s)(qi_id it \<mapsto> it\<lparr>qi_status := Syncing\<rparr>)"
    using Cons.prems st by (simp add: markSyncing_items)
  have inv2: "inv (snd ?ro)" using inv1 by (rule mark_inv)
  have it2: "items (snd ?ro) = (items s)(qi_id it \<mapsto> settle n (clk (qi_id it)) x it)"
    using record_outcome_items [OF inv1, of "qi_id it" "it\<lparr>qi_status := Syncing\<rparr>"] it1 by simp
  have "items (snd ?ro) (qi_id jt) = Some jt" if "jt \<in> set ready" for jt
  proof -
    have "qi_id jt \<noteq> qi_id it" using Cons.prems(2) imageI [OF that, of qi_id] by auto
    moreover have "items s (qi_id jt) = Some jt" using Cons.prems(3) that by simp
    ultimately show ?thesis using it2 by simp
  qed
  then have "\<forall>jt\<in>set ready. items (snd ?ro) (qi_id jt) = Some jt" by blast
  from Cons.IH [OF inv2 _ this, of "fst ?ro" w1] Cons.prems(2)
  obtain s' where "sync_items S n submit clk ready (fst ?ro) (snd ?ro) w1 =
      (count_outcomes (fst (outcomes submit ready w1)) (fst ?ro), s', snd (outcomes submit ready w1))"
    "inv s'" "items s' = settle_all n clk ready (fst (outcomes submit ready w1)) (items (snd ?ro))"
    by auto
  then show ?case
    unfolding it2
    by (simp add: sub Let_def case_prod_beta record_outcome_count [unfolded One_nat_def]
        count_outcomes_Cons record_outcome_count flip: One_nat_def)
qed

lemma runOnce_spec:
  assumes "inv s" and "isOnline w"
  shows "\<exists>s'. runOnce S n submit isOnline clk now s w =
              (count_outcomes (fst (outcomes submit (listReady S now s) w)) zero_result, s',
               snd (outcomes submit (listReady S now s) w))
            \<and> inv s'
            \<and> items s' = settle_all n clk (listReady S now s)
                  (fst (outcomes submit (listReady S now s) w)) (items s)"
  using sync_items_spec [OF assms(1) listReady_distinct [OF assms(1)], of now n submit clk zero_result w]
    listReady_stored [OF assms(1)] assms(2)
  unfolding runOnce_def by auto

lemma runOnce_offline: "\<not> isOnline w \<Longrightarrow> runOnce S n submit isOnline clk now s w = (zero_result, s, w)"
  by (simp add: runOnce_def)

text \<open>An item that is not ready is not touched by a pass.\<close>

lemma runOnce_frame:
  assumes "inv s" and "runOnce S n submit isOnline clk now s w = (r, s', w')"
    and "items s i = Some it" and "qi_status it \<notin> {Pending, Failed} \<or> now < qi_nextAttemptAt it"
  shows "items s' i = Some it" and "inv s'"
proof -
  have nr: "i \<notin> qi_id ` set (listReady S now s)"
  proof
    assume "i \<in> qi_id ` set (listReady S now s)"
    then obtain jt where jt: "jt \<in> set (listReady S now s)" "qi_id jt = i" by auto
    with listReady_stored [OF assms(1) jt(1)] assms(3) have "jt = it" by simp
    with jt(1) assms(1,4) show False by (auto simp: set_listReady)
  qed
  have "items s' i = Some it \<and> inv s'"
  proof (cases "isOnline w")
    case True
    from runOnce_spec [OF assms(1), where isOnline = isOnline and w = w, OF True, of n submit clk now]
      assms(2)
    show ?thesis using assms(3) nr by (auto simp: settle_all_other)
  qed (use assms in \<open>simp add: runOnce_offline\<close>)
  then show "items s' i = Some it" "inv s'" by auto
qed

lemma runOnce_inv: "inv s \<Longrightarrow> runOnce S n submit isOnline clk now s w = (r, s', w') \<Longrightarrow> inv s'"
  using runOnce_spec [where s = s and isOnline = isOnline and w = w and now = now and n = n
      and submit = submit and clk = clk]
  by (cases "isOnline w") (auto simp: runOnce_offline)

lemma runOnce_dom:
  assumes "inv s" and "runOnce S n submit isOnline clk now s w = (r, s', w')"
  shows "dom (items s') = dom (items s)"
proof (cases "isOnline w")
  case True
  have "\<forall>it\<in>set (listReady S now s). qi_id it \<in> dom (items s)"
    using listReady_stored [OF assms(1)] by blast
  then show ?thesis
    using assms True
      runOnce_spec [where s = s and isOnline = isOnline and w = w and now = now and n = n
        and submit = submit and clk = clk]
    by (auto simp: dom_settle_all)
qed (use assms in \<open>auto simp: runOnce_offline\<close>)

end

end
