(* ===== verification/Queue_Adapters.thy ===== *)
theory Queue_Adapters
  imports Offline_Queue
begin

text \<open>
  The two storage adapters: the in-memory reference adapter of \<open>packages/offline-sync\<close> (a
  JavaScript \<open>Map\<close>, kept in insertion order) and the SQLite adapter of
  \<open>apps/mobile/src/db/queue-adapter.ts\<close> (the rows of \<open>mutation_queue\<close>). Both satisfy
  \<open>queue_storage\<close>. A JSON text column is represented by the value the text denotes.
\<close>

section \<open>In memory (\<open>in-memory-adapter.ts\<close>)\<close>

type_synonym mem_store = "queue_item list"

definition mem_insert :: "queue_item \<Rightarrow> mem_store \<Rightarrow> error + mem_store" where
  "mem_insert item m =
     Inr (if taken qi_id (qi_id item) m
          then update_where (\<lambda>r. qi_id r = qi_id item) (\<lambda>_. item) m
          else m @ [item])"

definition mem_get :: "string \<Rightarrow> mem_store \<Rightarrow> queue_item option" where
  "mem_get i m = List.find (\<lambda>r. qi_id r = i) m"

definition mem_update :: "string \<Rightarrow> item_patch \<Rightarrow> mem_store \<Rightarrow> mem_store" where
  "mem_update i patch m =
     (case mem_get i m of
        None \<Rightarrow> m
      | Some existing \<Rightarrow> update_where (\<lambda>r. qi_id r = i) (\<lambda>_. apply_patch patch existing) m)"

definition mem_listByStatus :: "item_status list \<Rightarrow> mem_store \<Rightarrow> queue_item list" where
  "mem_listByStatus statuses m = filter (\<lambda>it. qi_status it \<in> set statuses) m"

definition mem_listAll :: "mem_store \<Rightarrow> queue_item list" where
  "mem_listAll m = m"

definition InMemoryQueueStorageAdapter :: "mem_store storage" where
  "InMemoryQueueStorageAdapter = \<lparr>st_insert = mem_insert, st_update = mem_update,
     st_get = mem_get, st_listByStatus = mem_listByStatus, st_listAll = mem_listAll\<rparr>"

definition mem_items :: "mem_store \<Rightarrow> string \<rightharpoonup> queue_item" where
  "mem_items m i = List.find (\<lambda>r. qi_id r = i) m"

definition mem_inv :: "mem_store \<Rightarrow> bool" where
  "mem_inv m \<longleftrightarrow> distinct (map qi_id m)"

lemma mem_items_iff: "mem_inv m \<Longrightarrow> mem_items m i = Some it \<longleftrightarrow> it \<in> set m \<and> qi_id it = i"
  unfolding mem_items_def mem_inv_def
  by (auto dest: find_SomeD intro: find_unique_key)

lemma mem_items_id: "mem_items m i = Some it \<Longrightarrow> qi_id it = i"
  by (auto simp: mem_items_def dest: find_SomeD)

lemma mem_items_None: "mem_items m i = None \<longleftrightarrow> i \<notin> qi_id ` set m"
  by (auto simp: mem_items_def find_None_iff)

lemma ran_mem_items: "mem_inv m \<Longrightarrow> ran (mem_items m) = set m"
  by (auto simp: ran_def mem_items_iff)

lemma mem_replace:
  assumes "mem_inv m" and "mem_items m i = Some it" and "qi_id jt = i"
  shows "mem_inv (update_where (\<lambda>r. qi_id r = i) (\<lambda>_. jt) m)"
    and "mem_items (update_where (\<lambda>r. qi_id r = i) (\<lambda>_. jt) m) = (mem_items m)(i \<mapsto> jt)"
proof -
  let ?u = "update_where (\<lambda>r. qi_id r = i) (\<lambda>_. jt) m"
  have ids: "map qi_id ?u = map qi_id m"
    using assms(3) by (intro map_update_where_same) simp
  then show inv: "mem_inv ?u" using assms(1) by (simp add: mem_inv_def)
  show "mem_items ?u = (mem_items m)(i \<mapsto> jt)"
  proof
    fix k
    have "mem_items ?u k = map_option (\<lambda>r. if qi_id r = i then jt else r) (mem_items m k)"
      unfolding mem_items_def using assms(3) by (intro find_update_where_same) auto
    then show "mem_items ?u k = ((mem_items m)(i \<mapsto> jt)) k"
      using assms(2) mem_items_id [of m k] by (cases "mem_items m k") auto
  qed
qed

interpretation mem: queue_storage InMemoryQueueStorageAdapter mem_items mem_inv
proof unfold_locales
  fix s :: mem_store and i it p sts
  assume inv: "mem_inv s"
  show "mem_items s i = Some it \<Longrightarrow> qi_id it = i" using inv by (simp add: mem_items_iff)
  show "st_get InMemoryQueueStorageAdapter i s = mem_items s i"
    by (simp add: InMemoryQueueStorageAdapter_def mem_get_def mem_items_def)
  show "mem_items s (qi_id it) = None \<Longrightarrow>
      \<exists>s'. st_insert InMemoryQueueStorageAdapter it s = Inr s' \<and> mem_inv s' \<and>
           mem_items s' = (mem_items s)(qi_id it \<mapsto> it)"
  proof -
    assume none: "mem_items s (qi_id it) = None"
    then have "\<not> taken qi_id (qi_id it) s" by (auto simp: mem_items_None table_simps image_iff)
    moreover have "mem_items (s @ [it]) = (mem_items s)(qi_id it \<mapsto> it)"
      using none by (auto simp: mem_items_def fun_eq_iff split: option.splits)
    moreover have "mem_inv (s @ [it])" using inv none by (auto simp: mem_inv_def mem_items_None)
    ultimately show ?thesis by (simp add: InMemoryQueueStorageAdapter_def mem_insert_def)
  qed
  have upd: "st_update InMemoryQueueStorageAdapter i p s =
      (case mem_items s i of None \<Rightarrow> s
       | Some e \<Rightarrow> update_where (\<lambda>r. qi_id r = i) (\<lambda>_. apply_patch p e) s)"
    by (simp add: InMemoryQueueStorageAdapter_def mem_update_def mem_get_def mem_items_def)
  show "mem_inv (st_update InMemoryQueueStorageAdapter i p s)"
    "mem_items (st_update InMemoryQueueStorageAdapter i p s) =
      (case mem_items s i of None \<Rightarrow> mem_items s | Some it \<Rightarrow> (mem_items s)(i \<mapsto> apply_patch p it))"
    using inv mem_items_id [of s i] mem_replace [OF inv, of i]
    by (auto simp: upd split: option.splits)
  show "set (st_listByStatus InMemoryQueueStorageAdapter sts s) =
        {it \<in> ran (mem_items s). qi_status it \<in> set sts}"
    using inv by (auto simp: InMemoryQueueStorageAdapter_def mem_listByStatus_def ran_mem_items)
  show "distinct (map qi_id (st_listByStatus InMemoryQueueStorageAdapter sts s))"
    using inv by (auto simp: InMemoryQueueStorageAdapter_def mem_listByStatus_def mem_inv_def
        distinct_map inj_on_def)
  show "set (st_listAll InMemoryQueueStorageAdapter s) = ran (mem_items s)"
    using inv by (simp add: InMemoryQueueStorageAdapter_def mem_listAll_def ran_mem_items)
qed

section \<open>SQLite (\<open>queue-adapter.ts\<close>)\<close>

record queue_row =
  row_id :: string
  row_kind :: string
  row_endpoint :: string
  row_payload :: json
  row_status :: item_status
  row_attempts :: nat
  row_lastError :: "string option"
  row_createdAt :: int
  row_nextAttemptAt :: int
  row_syncedAt :: "int option"
  row_serverResponse :: "json option"

type_synonym sqlite_store = "queue_row list"

definition rowToItem :: "queue_row \<Rightarrow> queue_item" where
  "rowToItem row = \<lparr>qi_id = row_id row, qi_kind = row_kind row, qi_endpoint = row_endpoint row,
     qi_payload = row_payload row, qi_status = row_status row, qi_attempts = row_attempts row,
     qi_lastError = row_lastError row, qi_createdAt = row_createdAt row,
     qi_nextAttemptAt = row_nextAttemptAt row, qi_syncedAt = row_syncedAt row,
     qi_serverResponse = row_serverResponse row\<rparr>"

definition itemToRow :: "queue_item \<Rightarrow> queue_row" where
  "itemToRow item = \<lparr>row_id = qi_id item, row_kind = qi_kind item, row_endpoint = qi_endpoint item,
     row_payload = qi_payload item, row_status = qi_status item, row_attempts = qi_attempts item,
     row_lastError = qi_lastError item, row_createdAt = qi_createdAt item,
     row_nextAttemptAt = qi_nextAttemptAt item, row_syncedAt = qi_syncedAt item,
     row_serverResponse = qi_serverResponse item\<rparr>"

text \<open>The primary key makes an insert of a present id throw.\<close>

definition sqlite_insert :: "queue_item \<Rightarrow> sqlite_store \<Rightarrow> error + sqlite_store" where
  "sqlite_insert item rows =
     (if taken row_id (qi_id item) rows then Inl (UniqueViolation ''mutation_queue.id'')
      else Inr (rows @ [itemToRow item]))"

definition sqlite_get :: "string \<Rightarrow> sqlite_store \<Rightarrow> queue_item option" where
  "sqlite_get i rows = map_option rowToItem (List.find (\<lambda>r. row_id r = i) rows)"

definition sqlite_update :: "string \<Rightarrow> item_patch \<Rightarrow> sqlite_store \<Rightarrow> sqlite_store" where
  "sqlite_update i patch rows =
     (case sqlite_get i rows of
        None \<Rightarrow> rows
      | Some existing \<Rightarrow>
          let merged = apply_patch patch existing in
          update_where (\<lambda>r. row_id r = i)
            (\<lambda>r. r\<lparr>row_status := qi_status merged, row_attempts := qi_attempts merged,
                   row_lastError := qi_lastError merged, row_nextAttemptAt := qi_nextAttemptAt merged,
                   row_syncedAt := qi_syncedAt merged,
                   row_serverResponse := qi_serverResponse merged\<rparr>) rows)"

definition sqlite_listByStatus :: "item_status list \<Rightarrow> sqlite_store \<Rightarrow> queue_item list" where
  "sqlite_listByStatus statuses rows =
     (if statuses = [] then []
      else map rowToItem
             (sort_key row_createdAt (filter (\<lambda>r. row_status r \<in> set statuses) rows)))"

definition sqlite_listAll :: "sqlite_store \<Rightarrow> queue_item list" where
  "sqlite_listAll rows = map rowToItem (sort_key row_createdAt rows)"

definition SqliteQueueStorageAdapter :: "sqlite_store storage" where
  "SqliteQueueStorageAdapter = \<lparr>st_insert = sqlite_insert, st_update = sqlite_update,
     st_get = sqlite_get, st_listByStatus = sqlite_listByStatus, st_listAll = sqlite_listAll\<rparr>"

text \<open>The abstraction: a table is the in-memory store of its rows.\<close>

definition sqlite_items :: "sqlite_store \<Rightarrow> string \<rightharpoonup> queue_item" where
  "sqlite_items rows = mem_items (map rowToItem rows)"

definition sqlite_inv :: "sqlite_store \<Rightarrow> bool" where
  "sqlite_inv rows \<longleftrightarrow> mem_inv (map rowToItem rows)"

lemma rowToItem_itemToRow [simp]: "rowToItem (itemToRow it) = it"
  by (simp add: rowToItem_def itemToRow_def)

lemma rowToItem_sel [simp]:
  "qi_id (rowToItem r) = row_id r" "qi_status (rowToItem r) = row_status r"
  "qi_createdAt (rowToItem r) = row_createdAt r"
  by (simp_all add: rowToItem_def)

lemma find_map_row:
  "List.find (\<lambda>q. qi_id q = i) (map rowToItem rows) =
   map_option rowToItem (List.find (\<lambda>r. row_id r = i) rows)"
  by (induction rows) auto

lemma sqlite_get_mem: "sqlite_get i rows = mem_get i (map rowToItem rows)"
  by (simp add: sqlite_get_def mem_get_def find_map_row)

lemma sqlite_update_mem:
  assumes "sqlite_inv rows"
  shows "map rowToItem (sqlite_update i p rows) = mem_update i p (map rowToItem rows)"
proof (cases "List.find (\<lambda>r. row_id r = i) rows")
  case None
  then show ?thesis by (simp add: sqlite_update_def sqlite_get_def mem_update_def mem_get_def find_map_row)
next
  case (Some e)
  have row: "r = e" if "r \<in> set rows" "row_id r = i" for r
  proof -
    have d: "distinct (map row_id rows)"
      using assms by (simp add: sqlite_inv_def mem_inv_def comp_def)
    from find_unique_key [OF d that] Some show ?thesis by simp
  qed
  let ?up = "\<lambda>r. r\<lparr>row_status := qi_status (apply_patch p (rowToItem e)),
      row_attempts := qi_attempts (apply_patch p (rowToItem e)),
      row_lastError := qi_lastError (apply_patch p (rowToItem e)),
      row_nextAttemptAt := qi_nextAttemptAt (apply_patch p (rowToItem e)),
      row_syncedAt := qi_syncedAt (apply_patch p (rowToItem e)),
      row_serverResponse := qi_serverResponse (apply_patch p (rowToItem e))\<rparr>"
  have up: "rowToItem (?up e) = apply_patch p (rowToItem e)"
    by (simp add: rowToItem_def apply_patch_def)
  have "map rowToItem (update_where (\<lambda>r. row_id r = i) ?up rows) =
        update_where (\<lambda>q. qi_id q = i) (\<lambda>_. apply_patch p (rowToItem e)) (map rowToItem rows)"
    unfolding update_where_def map_map comp_def
    by (rule map_cong [OF refl]) (use up row in auto)
  with Some show ?thesis
    by (simp add: sqlite_update_def sqlite_get_def mem_update_def mem_get_def find_map_row Let_def)
qed

lemma map_sort_rows:
  "map rowToItem (sort_key row_createdAt rows) = sort_key qi_createdAt (map rowToItem rows)"
proof -
  have "map rowToItem (insort_key row_createdAt r rs) =
        insort_key qi_createdAt (rowToItem r) (map rowToItem rs)" for r rs
    by (induction rs) auto
  then show ?thesis by (induction rows) auto
qed

lemma map_filter_rows:
  "map rowToItem (filter (\<lambda>r. row_status r \<in> A) rows) = filter (\<lambda>q. qi_status q \<in> A) (map rowToItem rows)"
  by (induction rows) auto

interpretation sqlite: queue_storage SqliteQueueStorageAdapter sqlite_items sqlite_inv
proof unfold_locales
  fix s :: sqlite_store and i it p sts
  assume inv: "sqlite_inv s"
  then have minv: "mem_inv (map rowToItem s)" by (simp add: sqlite_inv_def)
  show "sqlite_items s i = Some it \<Longrightarrow> qi_id it = i"
    using mem.items_id [OF minv] by (simp add: sqlite_items_def)
  show "st_get SqliteQueueStorageAdapter i s = sqlite_items s i"
    using mem.get_items [OF minv]
    by (simp add: SqliteQueueStorageAdapter_def InMemoryQueueStorageAdapter_def sqlite_get_mem
        sqlite_items_def)
  show "sqlite_items s (qi_id it) = None \<Longrightarrow>
      \<exists>s'. st_insert SqliteQueueStorageAdapter it s = Inr s' \<and> sqlite_inv s' \<and>
           sqlite_items s' = (sqlite_items s)(qi_id it \<mapsto> it)"
    using mem.insert_new [OF minv, of it]
    by (auto simp: SqliteQueueStorageAdapter_def InMemoryQueueStorageAdapter_def sqlite_insert_def
        mem_insert_def sqlite_items_def sqlite_inv_def mem_items_None table_simps image_iff)
  show "sqlite_inv (st_update SqliteQueueStorageAdapter i p s)"
    "sqlite_items (st_update SqliteQueueStorageAdapter i p s) =
      (case sqlite_items s i of None \<Rightarrow> sqlite_items s
       | Some it \<Rightarrow> (sqlite_items s)(i \<mapsto> apply_patch p it))"
    using mem.update_inv [OF minv, of i p] mem.update_items [OF minv, of i p]
    by (simp_all add: SqliteQueueStorageAdapter_def InMemoryQueueStorageAdapter_def
        sqlite_update_mem [OF inv] sqlite_items_def sqlite_inv_def cong: option.case_cong)
  show "set (st_listByStatus SqliteQueueStorageAdapter sts s) =
        {it \<in> ran (sqlite_items s). qi_status it \<in> set sts}"
    using minv
    by (auto simp: SqliteQueueStorageAdapter_def sqlite_listByStatus_def sqlite_items_def
        ran_mem_items)
  show "distinct (map qi_id (st_listByStatus SqliteQueueStorageAdapter sts s))"
    using minv
    by (auto simp: SqliteQueueStorageAdapter_def sqlite_listByStatus_def comp_def mem_inv_def
        intro: distinct_map_filter_rows)
  show "set (st_listAll SqliteQueueStorageAdapter s) = ran (sqlite_items s)"
    using minv by (simp add: SqliteQueueStorageAdapter_def sqlite_listAll_def sqlite_items_def
        ran_mem_items)
qed

section \<open>The adapters agree\<close>

text \<open>
  Two stores that hold the same items offer the same ready list when creation times are distinct:
  the list is sorted by creation time and its set is fixed by the map.
\<close>

lemma sorted_key_unique:
  fixes f :: "'a \<Rightarrow> 'b::linorder"
  assumes "sorted (map f xs)" "sorted (map f ys)" "distinct (map f xs)" "distinct (map f ys)"
    and "set xs = set ys"
  shows "xs = ys"
proof -
  have inj: "inj_on f (set xs \<union> set ys)" using assms(3,5) by (simp add: distinct_map)
  have "map f xs = map f ys"
    using assms by (intro sorted_distinct_set_unique) auto
  then show ?thesis using inj by (simp add: inj_on_map_eq_map)
qed

locale storage_pair = A: queue_storage S items inv + B: queue_storage T items' inv'
  for S :: "'s storage" and items :: "'s \<Rightarrow> string \<rightharpoonup> queue_item" and inv :: "'s \<Rightarrow> bool"
    and T :: "'t storage" and items' :: "'t \<Rightarrow> string \<rightharpoonup> queue_item" and inv' :: "'t \<Rightarrow> bool"
begin

lemma listReady_agree:
  assumes "inv s" "inv' t" "items s = items' t" "inj_on qi_createdAt (ran (items s))"
  shows "listReady S now s = listReady T now t"
proof (rule sorted_key_unique [where f = qi_createdAt])
  show eq: "set (listReady S now s) = set (listReady T now t)"
    using assms by (simp add: A.set_listReady B.set_listReady)
  have sub: "set (listReady S now s) \<subseteq> ran (items s)" using assms by (auto simp: A.set_listReady)
  have "distinct (listReady S now s)" "distinct (listReady T now t)"
    using A.listReady_distinct [OF assms(1), of now] B.listReady_distinct [OF assms(2), of now]
    by (simp_all add: distinct_map)
  then show "distinct (map qi_createdAt (listReady S now s))"
    "distinct (map qi_createdAt (listReady T now t))"
    using inj_on_subset [OF assms(4) sub] eq by (simp_all add: distinct_map)
qed (simp_all add: A.listReady_sorted B.listReady_sorted)

lemma runOnce_agree:
  assumes "inv s" "inv' t" "items s = items' t" "inj_on qi_createdAt (ran (items s))"
    and "runOnce S n submit isOnline clk now s w = (r, s', w')"
  shows "\<exists>t'. runOnce T n submit isOnline clk now t w = (r, t', w') \<and> inv' t' \<and> items s' = items' t'"
proof (cases "isOnline w")
  case True
  have ready: "listReady S now s = listReady T now t" using assms(1-4) by (rule listReady_agree)
  from A.runOnce_spec [OF assms(1), where isOnline = isOnline and w = w, OF True, of n submit clk now]
    B.runOnce_spec [OF assms(2), where isOnline = isOnline and w = w, OF True, of n submit clk now]
    assms(3,5)
  show ?thesis unfolding ready by auto
qed (use assms in \<open>auto simp: A.runOnce_offline B.runOnce_offline\<close>)

end

interpretation adapters: storage_pair InMemoryQueueStorageAdapter mem_items mem_inv
  SqliteQueueStorageAdapter sqlite_items sqlite_inv
  by unfold_locales

section \<open>Every history of the device queue\<close>

text \<open>
  The steps of the SQLite-backed queue as separate events, so that passes, new sales, a manual
  retry and a crash between two writes of a pass interleave in any order.
\<close>

inductive queue_step :: "nat \<Rightarrow> sqlite_store \<Rightarrow> sqlite_store \<Rightarrow> bool" for maxAttempts where
  step_enqueue: "enqueue SqliteQueueStorageAdapter now input s = Inr (it, s') \<Longrightarrow>
     queue_step maxAttempts s s'"
| step_start: "it \<in> set (listReady SqliteQueueStorageAdapter now s) \<Longrightarrow>
     queue_step maxAttempts s (markSyncing SqliteQueueStorageAdapter (qi_id it) s)"
| step_outcome: "sqlite_items s i = Some it \<Longrightarrow> qi_status it = Syncing \<Longrightarrow>
     queue_step maxAttempts s (snd (record_outcome SqliteQueueStorageAdapter maxAttempts now i x r s))"
| step_retry: "sqlite_items s i = Some it \<Longrightarrow> qi_status it = Dead \<Longrightarrow>
     queue_step maxAttempts s (manualRetry SqliteQueueStorageAdapter now i s)"

inductive_cases queue_stepE: "queue_step n s t"

inductive queue_reachable :: "nat \<Rightarrow> sqlite_store \<Rightarrow> bool" for maxAttempts where
  reach_empty: "queue_reachable maxAttempts []"
| reach_step: "queue_reachable maxAttempts s \<Longrightarrow> queue_step maxAttempts s t \<Longrightarrow>
     queue_reachable maxAttempts t"

text \<open>What every item satisfies in every history.\<close>

definition item_ok :: "nat \<Rightarrow> queue_item \<Rightarrow> bool" where
  "item_ok maxAttempts it \<longleftrightarrow>
     (qi_status it = Failed \<longrightarrow> 0 < qi_attempts it \<and> qi_attempts it < maxAttempts \<and> qi_lastError it \<noteq> None) \<and>
     (qi_status it = Dead \<longrightarrow> 0 < qi_attempts it \<and> qi_lastError it \<noteq> None) \<and>
     (qi_status it = Synced \<longrightarrow> qi_syncedAt it \<noteq> None \<and> qi_lastError it = None)"

definition queue_ok :: "nat \<Rightarrow> sqlite_store \<Rightarrow> bool" where
  "queue_ok maxAttempts s \<longleftrightarrow> sqlite_inv s \<and> (\<forall>i it. sqlite_items s i = Some it \<longrightarrow> item_ok maxAttempts it)"

lemma item_ok_settle: "item_ok n (settle n now x it)"
  by (cases x) (auto simp: item_ok_def settle_def fail_item_def)

lemma queue_step_ok:
  assumes "queue_step n s t" and ok: "queue_ok n s"
  shows "queue_ok n t"
  using assms(1)
proof (cases rule: queue_step.cases)
  have inv: "sqlite_inv s" using ok by (simp add: queue_ok_def)
  note new = sqlite.enqueue_existing [OF inv] sqlite.enqueue_new [OF inv]
  case (step_enqueue now input it)
  then show ?thesis
    using ok new(1) [of input _ now] new(2) [of input now]
    by (cases "sqlite_items s (eq_id input)") (auto simp: queue_ok_def new_item_def item_ok_def)
next
  have inv: "sqlite_inv s" using ok by (simp add: queue_ok_def)
  case (step_start it now)
  with sqlite.listReady_stored [OF inv step_start(2)] sqlite.markSyncing_items [OF inv, of "qi_id it" it] ok
  show ?thesis by (auto simp: queue_ok_def sqlite.mark_inv item_ok_def)
next
  have inv: "sqlite_inv s" using ok by (simp add: queue_ok_def)
  case (step_outcome i it now x r)
  with sqlite.record_outcome_items [OF inv, of i it n now x r] ok
  show ?thesis by (auto simp: queue_ok_def sqlite.mark_inv item_ok_settle)
next
  have inv: "sqlite_inv s" using ok by (simp add: queue_ok_def)
  case (step_retry i it now)
  with sqlite.manualRetry_items [OF inv, of i it now] ok
  show ?thesis by (auto simp: queue_ok_def sqlite.mark_inv item_ok_def)
qed

lemma queue_reachable_ok: "queue_reachable n s \<Longrightarrow> queue_ok n s"
proof (induction rule: queue_reachable.induct)
  case reach_empty
  show ?case by (simp add: queue_ok_def sqlite_inv_def mem_inv_def sqlite_items_def mem_items_def)
next
  case (reach_step s t)
  then show ?case by (blast intro: queue_step_ok)
qed

text \<open>No step forgets an item, changes what it asks the server to do, or reopens a synced one.\<close>

definition keeps_item :: "queue_item \<Rightarrow> queue_item \<Rightarrow> bool" where
  "keeps_item it jt \<longleftrightarrow> qi_id jt = qi_id it \<and> qi_kind jt = qi_kind it \<and> qi_endpoint jt = qi_endpoint it \<and>
     qi_payload jt = qi_payload it \<and> qi_createdAt jt = qi_createdAt it \<and>
     qi_attempts it \<le> qi_attempts jt \<and> (qi_status it = Synced \<longrightarrow> jt = it)"

lemma keeps_item_refl [simp]: "keeps_item it it"
  by (simp add: keeps_item_def)

lemma keeps_item_settle: "qi_status it = Syncing \<Longrightarrow> keeps_item it (settle n now x it)"
  by (cases x) (auto simp: keeps_item_def settle_def fail_item_def)

lemma keeps_item_trans: "keeps_item a b \<Longrightarrow> keeps_item b c \<Longrightarrow> keeps_item a c"
  by (auto simp: keeps_item_def)

lemma queue_step_keeps:
  assumes "queue_step n s t" and "sqlite_inv s" and "sqlite_items s i = Some it"
  shows "\<exists>jt. sqlite_items t i = Some jt \<and> keeps_item it jt"
  using assms(1)
proof (cases rule: queue_step.cases)
  case (step_enqueue now input a)
  then show ?thesis using sqlite.enqueue_total [OF assms(2), of now input] assms(3)
    by (cases "i = eq_id input") (auto simp: map_le_def dom_def)
next
  case (step_start a now)
  then show ?thesis
    using sqlite.listReady_stored [OF assms(2) step_start(2)] assms
      sqlite.markSyncing_items [OF assms(2), of "qi_id a" a]
    by (cases "i = qi_id a") (auto simp: keeps_item_def sqlite.set_listReady)
next
  case (step_outcome j a now x r)
  then show ?thesis
    using sqlite.record_outcome_items [OF assms(2), of j a n now x r] assms(3)
    by (cases "i = j") (auto simp: keeps_item_settle)
next
  case (step_retry j a now)
  then show ?thesis using sqlite.manualRetry_items [OF assms(2), of j a now] assms(3)
    by (cases "i = j") (auto simp: keeps_item_def)
qed

end
