(* ===== verification/Queue_Facts.thy ===== *)
theory Queue_Facts
  imports Queue_Adapters
begin

text \<open>
  The guarantees of the device queue over the SQLite table of \<open>queue-adapter.ts\<close>: a pass is
  the specified update of the map of items, both adapters agree, no history loses an item, a pass
  with a healthy server drains the queue, and what a crash in the middle of a pass leaves behind.
\<close>

section \<open>A pass against its specification\<close>

text \<open>C16: one pass of the engine over the SQLite table refines the specification on the map of items:
  the ready items are submitted once each, in creation order, each outcome settles its own item and
  no other, and the counts returned are those of the outcomes.\<close>
theorem pass_refines_settlement:
  assumes "sqlite_inv s" and "isOnline w"
  shows "\<exists>s'. runOnce SqliteQueueStorageAdapter n submit isOnline clk now s w =
       (count_outcomes (fst (outcomes submit (listReady SqliteQueueStorageAdapter now s) w)) zero_result, s',
        snd (outcomes submit (listReady SqliteQueueStorageAdapter now s) w)) \<and>
     sorted (map qi_createdAt (listReady SqliteQueueStorageAdapter now s)) \<and>
     set (listReady SqliteQueueStorageAdapter now s) =
       {it \<in> ran (sqlite_items s). qi_status it \<in> {Pending, Failed} \<and> qi_nextAttemptAt it \<le> now} \<and>
     sqlite_inv s' \<and>
     sqlite_items s' = settle_all n clk (listReady SqliteQueueStorageAdapter now s)
       (fst (outcomes submit (listReady SqliteQueueStorageAdapter now s) w)) (sqlite_items s)"
  using sqlite.runOnce_spec [where isOnline = isOnline and w = w, OF assms, of n submit clk now]
    sqlite.set_listReady [OF assms(1)] sqlite.listReady_sorted
  by auto

definition demo_input :: "string \<Rightarrow> enqueue_input" where
  "demo_input i = \<lparr>eq_id = i, eq_kind = ''sale.create'', eq_endpoint = ''/sales'', eq_payload = JNull\<rparr>"

definition demo_store :: sqlite_store where
  "demo_store = (case enqueue SqliteQueueStorageAdapter 5 (demo_input ''m1'') [] of
     Inr (_, s) \<Rightarrow> s | Inl _ \<Rightarrow> [])"

definition server_ok :: "queue_item \<Rightarrow> nat \<Rightarrow> submit_outcome \<times> nat" where
  "server_ok it w = (SubmitSuccess (Some JNull), Suc w)"

lemma mem_empty: "mem_inv []" "mem_items [] = Map.empty"
  by (simp_all add: mem_inv_def mem_items_def fun_eq_iff)

lemma sqlite_empty: "sqlite_inv []" "sqlite_items [] = Map.empty"
  by (simp_all add: sqlite_inv_def sqlite_items_def mem_empty)

lemma demo_store_spec:
  "enqueue SqliteQueueStorageAdapter 5 (demo_input ''m1'') [] = Inr (new_item 5 (demo_input ''m1''), demo_store)"
  "sqlite_inv demo_store"
  "sqlite_items demo_store = [''m1'' \<mapsto> new_item 5 (demo_input ''m1'')]"
proof -
  have "\<exists>s. enqueue SqliteQueueStorageAdapter 5 (demo_input ''m1'') [] = Inr (new_item 5 (demo_input ''m1''), s) \<and>
     sqlite_inv s \<and> sqlite_items s = [''m1'' \<mapsto> new_item 5 (demo_input ''m1'')]"
    using sqlite.enqueue_new [OF sqlite_empty(1), of "demo_input ''m1''" 5]
    by (simp add: sqlite_empty(2) demo_input_def)
  then show "enqueue SqliteQueueStorageAdapter 5 (demo_input ''m1'') [] = Inr (new_item 5 (demo_input ''m1''), demo_store)"
    "sqlite_inv demo_store" "sqlite_items demo_store = [''m1'' \<mapsto> new_item 5 (demo_input ''m1'')]"
    by (auto simp: demo_store_def)
qed

lemma demo_reachable: "queue_reachable n demo_store"
  by (rule queue_reachable.reach_step [OF queue_reachable.reach_empty queue_step.step_enqueue [OF demo_store_spec(1)]])

theorem pass_refines_settlement_witness:
  "\<exists>s'. runOnce SqliteQueueStorageAdapter 8 server_ok (\<lambda>_. True) (\<lambda>_. 7) 6 demo_store 0 =
     (count_outcomes (fst (outcomes server_ok (listReady SqliteQueueStorageAdapter 6 demo_store) 0)) zero_result, s',
      snd (outcomes server_ok (listReady SqliteQueueStorageAdapter 6 demo_store) 0))"
  using pass_refines_settlement [OF demo_store_spec(2), of "\<lambda>_. True" 0 8 server_ok "\<lambda>_. 7" 6] by auto

text \<open>C30: the SQLite adapter and the in-memory adapter the package is tested with are equivalent for
  the engine: on the same items, created at different times, a pass gives the same result, the same
  calls of the server and the same items.\<close>
theorem adapters_run_alike:
  assumes "mem_inv s" "sqlite_inv t" "mem_items s = sqlite_items t" "inj_on qi_createdAt (ran (mem_items s))"
    and "runOnce InMemoryQueueStorageAdapter n submit isOnline clk now s w = (r, s', w')"
  shows "\<exists>t'. runOnce SqliteQueueStorageAdapter n submit isOnline clk now t w = (r, t', w') \<and>
     sqlite_inv t' \<and> mem_items s' = sqlite_items t'"
  using assms by (rule adapters.runOnce_agree)

lemma demo_mem:
  "\<exists>m. mem_inv m \<and> mem_items m = [''m1'' \<mapsto> new_item 5 (demo_input ''m1'')]"
proof -
  show ?thesis
    using mem.enqueue_new [OF mem_empty(1), of "demo_input ''m1''" 5] by (auto simp: mem_empty(2) demo_input_def)
qed

theorem adapters_run_alike_witness:
  "\<exists>m r m' t' w'. mem_inv m \<and> mem_items m = sqlite_items demo_store \<and>
     runOnce InMemoryQueueStorageAdapter 8 server_ok (\<lambda>_. True) (\<lambda>_. 7) 6 m 0 = (r, m', w') \<and>
     runOnce SqliteQueueStorageAdapter 8 server_ok (\<lambda>_. True) (\<lambda>_. 7) 6 demo_store 0 = (r, t', w')"
proof -
  obtain m where m: "mem_inv m" "mem_items m = [''m1'' \<mapsto> new_item 5 (demo_input ''m1'')]" using demo_mem by blast
  have eq: "mem_items m = sqlite_items demo_store" using m demo_store_spec by simp
  have inj: "inj_on qi_createdAt (ran (mem_items m))" by (simp add: m(2))
  obtain r m' w' where run: "runOnce InMemoryQueueStorageAdapter 8 server_ok (\<lambda>_. True) (\<lambda>_. 7) 6 m 0 = (r, m', w')"
    by (cases "runOnce InMemoryQueueStorageAdapter 8 server_ok (\<lambda>_. True) (\<lambda>_. 7) 6 m 0") auto
  from adapters_run_alike [OF m(1) demo_store_spec(2) eq inj run] m(1) eq run show ?thesis by blast
qed

section \<open>Histories\<close>

lemma queue_steps_keep:
  assumes "(queue_step n)\<^sup>*\<^sup>* s t" and "queue_reachable n s" and "sqlite_items s i = Some it"
  shows "queue_reachable n t \<and> (\<exists>jt. sqlite_items t i = Some jt \<and> keeps_item it jt)"
  using assms(1)
proof induction
  case base
  with assms show ?case by simp
next
  case (step u v)
  then obtain jt where r: "queue_reachable n u" and jt: "sqlite_items u i = Some jt" "keeps_item it jt" by blast
  have "sqlite_inv u" using queue_reachable_ok [OF r] by (simp add: queue_ok_def)
  from queue_step_keeps [OF step(2) this jt(1)] jt(2) r step(2) show ?case
    by (meson keeps_item_trans queue_reachable.reach_step)
qed



section \<open>Draining\<close>

text \<open>with a healthy server one pass drains the queue: when the device is online and every
  submission is accepted, each item that was pending or waiting for a retry, and is due, is synced
  after the pass and its error is cleared, and every other item is as it was.\<close>
theorem healthy_pass_drains:
  assumes inv: "sqlite_inv s" and on: "isOnline w"
    and accept: "\<And>it w. is_success (fst (submit it w))"
    and run: "runOnce SqliteQueueStorageAdapter n submit isOnline clk now s w = (r, s', w')"
    and it: "sqlite_items s i = Some it"
  shows "(if qi_status it \<in> {Pending, Failed} \<and> qi_nextAttemptAt it \<le> now
      then \<exists>jt. sqlite_items s' i = Some jt \<and> qi_status jt = Synced \<and> qi_syncedAt jt = Some (clk i) \<and>
        qi_lastError jt = None \<and> qi_payload jt = qi_payload it
      else sqlite_items s' i = Some it)"
proof (cases "qi_status it \<in> {Pending, Failed} \<and> qi_nextAttemptAt it \<le> now")
  case True
  let ?R = "listReady SqliteQueueStorageAdapter now s"
  have ok: "\<forall>x\<in>set (fst (outcomes submit rs w)). is_success x" for rs w
    using accept by (induction rs arbitrary: w) (auto simp: Let_def case_prod_beta)
  have "it \<in> set ?R"
    using True it by (auto simp: sqlite.set_listReady [OF inv] intro: ranI)
  then obtain k where k: "k < length ?R" "?R ! k = it" by (auto simp: in_set_conv_nth)
  let ?x = "fst (outcomes submit ?R w) ! k"
  have "qi_id it = i" using sqlite.items_id [OF inv it] .
  then have "sqlite_items s' i = Some (settle n (clk i) ?x it)"
    using sqlite.runOnce_spec [OF inv, where isOnline = isOnline and w = w, OF on, of n submit clk now] run
      settle_all_nth [OF sqlite.listReady_distinct [OF inv, of now], of "fst (outcomes submit ?R w)" k n clk
        "sqlite_items s"] k
    by auto
  moreover have "is_success ?x" using ok k(1) by (metis length_outcomes nth_mem)
  ultimately show ?thesis using True by (cases ?x) (auto simp: settle_def)
next
  case False
  then have "qi_status it \<notin> {Pending, Failed} \<or> now < qi_nextAttemptAt it" by auto
  from sqlite.runOnce_frame(1) [OF inv run it this] False show ?thesis by (simp only: if_False)
qed

theorem healthy_pass_drains_witness:
  "\<exists>r s' w' jt. runOnce SqliteQueueStorageAdapter 8 server_ok (\<lambda>_. True) (\<lambda>_. 7) 6 demo_store 0 = (r, s', w') \<and>
     sqlite_items s' ''m1'' = Some jt \<and> qi_status jt = Synced"
proof -
  obtain r s' w' where run: "runOnce SqliteQueueStorageAdapter 8 server_ok (\<lambda>_. True) (\<lambda>_. 7) 6 demo_store 0 = (r, s', w')"
    by (cases "runOnce SqliteQueueStorageAdapter 8 server_ok (\<lambda>_. True) (\<lambda>_. 7) 6 demo_store 0") auto
  have st: "sqlite_items demo_store ''m1'' = Some (new_item 5 (demo_input ''m1''))"
    by (simp add: demo_store_spec(3))
  have "\<exists>jt. sqlite_items s' ''m1'' = Some jt \<and> qi_status jt = Synced"
    using healthy_pass_drains [OF demo_store_spec(2) _ _ run st]
    by (auto simp: server_ok_def new_item_def)
  with run show ?thesis by blast
qed

section \<open>After a crash\<close>

text \<open>A later life of the queue: passes of the engine at any times, with any server.\<close>

inductive later_pass :: "nat \<Rightarrow> sqlite_store \<Rightarrow> sqlite_store \<Rightarrow> bool" for n where
  "runOnce SqliteQueueStorageAdapter n submit isOnline clk now s (w :: nat) = (r, s', w') \<Longrightarrow> later_pass n s s'"

text \<open>An attempt cut off by a crash is never resumed: an item left syncing is not ready for any
  later pass, so whatever passes follow, it stays as the crash left it.\<close>
theorem interrupted_item_is_stuck:
  assumes "sqlite_inv s" and "sqlite_items s i = Some it" and "qi_status it = Syncing"
    and "(later_pass n)\<^sup>*\<^sup>* s t"
  shows "sqlite_items t i = Some it"
proof -
  from assms(4) have "sqlite_inv t \<and> sqlite_items t i = Some it"
  proof induction
    case (step u v)
    from step(2) obtain submit isOnline clk now w r w' where
      run: "runOnce SqliteQueueStorageAdapter n submit isOnline clk now u (w :: nat) = (r, v, w')"
      by (auto elim: later_pass.cases)
    from step(3) assms(3) show ?case
      using sqlite.runOnce_frame [OF _ run] by auto
  qed (use assms in simp)
  then show ?thesis by simp
qed

theorem interrupted_item_is_stuck_witness:
  "\<exists>t u it. t = markSyncing SqliteQueueStorageAdapter ''m1'' demo_store \<and> later_pass 8 t u \<and>
     sqlite_items u ''m1'' = Some it \<and> qi_status it = Syncing"
proof -
  let ?t = "markSyncing SqliteQueueStorageAdapter ''m1'' demo_store"
  let ?it = "(new_item 5 (demo_input ''m1''))\<lparr>qi_status := Syncing\<rparr>"
  have inv: "sqlite_inv ?t" using demo_store_spec(2) by (rule sqlite.mark_inv)
  have it: "sqlite_items ?t ''m1'' = Some ?it"
    using sqlite.markSyncing_items [OF demo_store_spec(2), of "''m1''"] by (simp add: demo_store_spec(3))
  obtain r u w' where run: "runOnce SqliteQueueStorageAdapter 8 server_ok (\<lambda>_. True) (\<lambda>_. 7) 6 ?t 0 = (r, u, w')"
    by (cases "runOnce SqliteQueueStorageAdapter 8 server_ok (\<lambda>_. True) (\<lambda>_. 7) 6 ?t 0") auto
  then have step: "later_pass 8 ?t u" by (rule later_pass.intros)
  have "(later_pass 8)\<^sup>*\<^sup>* ?t u" using step by (rule r_into_rtranclp)
  from interrupted_item_is_stuck [OF inv it _ this] step show ?thesis by auto
qed

end
