(* ===== verification/Money.thy ===== *)
theory Money
  imports Schema
begin

text \<open>
  \<open>packages/domain/src/money.ts\<close>: the \<open>Money\<close> class. An amount is the exact decimal the
  program holds, a rational number; the decimal library under it is a parameter, described by the
  locale \<open>decimal_lib\<close>: an arithmetic result is rounded to 28 significant digits
  (\<open>Decimal.set({ precision: 28 })\<close>), so it is exact when it has no more than that, and
  \<open>toDecimalPlaces\<close> and \<open>toFixed\<close> round half away from zero. The text of
  \<open>toDecimalString\<close> is represented by the number it denotes.
\<close>

section \<open>The decimal library\<close>

text \<open>A number with at most \<open>d\<close> decimals.\<close>

definition scaled :: "nat \<Rightarrow> rat \<Rightarrow> bool" where
  "scaled d x \<longleftrightarrow> x * 10 ^ d \<in> \<int>"

text \<open>A number that 28 significant digits represent exactly.\<close>

definition fits28 :: "rat \<Rightarrow> bool" where
  "fits28 x \<longleftrightarrow> (\<exists>n k. x = of_int n / 10 ^ k \<and> \<bar>n\<bar> < 10 ^ 28)"

definition half_up :: "nat \<Rightarrow> rat \<Rightarrow> rat" where
  "half_up d x = (if x < 0 then - (of_int \<lfloor>- x * 10 ^ d + 1 / 2\<rfloor> / 10 ^ d)
                  else of_int \<lfloor>x * 10 ^ d + 1 / 2\<rfloor> / 10 ^ d)"

lemma scaled_0 [simp]: "scaled d 0"
  by (simp add: scaled_def)

lemma scaled_of_int [simp]: "scaled d (of_int n)"
  unfolding scaled_def by (intro Ints_mult Ints_of_int Ints_power Ints_numeral)

lemma scaled_add: "scaled d x \<Longrightarrow> scaled d y \<Longrightarrow> scaled d (x + y)"
  by (simp add: scaled_def distrib_right)

lemma scaled_uminus: "scaled d x \<Longrightarrow> scaled d (- x)"
  by (simp add: scaled_def)

lemma scaled_diff: "scaled d x \<Longrightarrow> scaled d y \<Longrightarrow> scaled d (x - y)"
  by (simp add: scaled_def left_diff_distrib)

lemma scaled_mult: "scaled d x \<Longrightarrow> scaled e y \<Longrightarrow> scaled (d + e) (x * y)"
  unfolding scaled_def power_add by (metis Ints_mult mult.commute mult.left_commute)

lemma scaled_mult_int: "scaled d x \<Longrightarrow> scaled d (x * of_int n)"
  using scaled_mult [of d x 0 "of_int n"] by simp

lemma scaled_mono: "scaled d x \<Longrightarrow> d \<le> e \<Longrightarrow> scaled e x"
  using scaled_mult [of d x "e - d" 1] scaled_of_int [of "e - d" 1] by simp

lemma scaled_div_100: "scaled d x \<Longrightarrow> scaled (d + 2) (x / 100)"
  by (simp add: scaled_def power_add)

lemma scaled_sum_list: "\<forall>x\<in>set xs. scaled d x \<Longrightarrow> scaled d (sum_list xs)"
  by (induction xs) (auto intro: scaled_add)

lemmas scaled_intros = scaled_add scaled_uminus scaled_diff scaled_mult_int scaled_sum_list

lemma fits28I:
  assumes "scaled d x" and "\<bar>x\<bar> * 10 ^ d < 10 ^ 28"
  shows "fits28 x"
proof -
  from assms(1) obtain n where n: "x * 10 ^ d = of_int n"
    by (auto simp: scaled_def Ints_def)
  then have x: "x = of_int n / 10 ^ d" by (simp add: field_simps)
  have "\<bar>of_int n :: rat\<bar> = \<bar>x\<bar> * 10 ^ d" by (simp add: abs_mult flip: n)
  with assms(2) have "\<bar>of_int n :: rat\<bar> < 10 ^ 28" by simp
  then have "\<bar>n\<bar> < 10 ^ 28"
    by (metis of_int_abs of_int_less_iff of_int_numeral of_int_power)
  with x show ?thesis by (auto simp: fits28_def)
qed

section \<open>Rounding half away from zero\<close>

lemma half_up_uminus: "half_up d (- x) = - half_up d x"
  by (cases "x = 0") (auto simp: half_up_def floor_eq_iff)

lemma half_up_scaled [simp]: "scaled d (half_up d x)"
  by (auto simp: half_up_def scaled_def)

lemma half_up_exact:
  assumes "scaled d x" shows "half_up d x = x"
proof -
  from assms obtain n where n: "x * 10 ^ d = of_int n"
    by (auto simp: scaled_def Ints_def)
  have f: "\<lfloor>(of_int m :: rat) + 1 / 2\<rfloor> = m" for m by linarith
  have neg: "- x * 10 ^ d = of_int (- n)" using n by simp
  have "x = of_int n / 10 ^ d" using n by (simp add: field_simps)
  then show ?thesis unfolding half_up_def neg n f by simp
qed

lemma half_up_0 [simp]: "half_up d 0 = 0"
  by (rule half_up_exact) simp

lemma half_up_nonneg: "0 \<le> x \<Longrightarrow> 0 \<le> half_up d x"
  by (auto simp: half_up_def)

lemma half_up_mono:
  assumes "x \<le> y" shows "half_up d x \<le> half_up d y"
proof -
  have pos: "(0::rat) < 10 ^ d" by simp
  have step: "of_int \<lfloor>a * 10 ^ d + 1 / 2\<rfloor> / 10 ^ d \<le> (of_int \<lfloor>b * 10 ^ d + 1 / 2\<rfloor> / 10 ^ d :: rat)"
    if "a \<le> b" for a b :: rat
    using that by (intro divide_right_mono) (simp_all add: floor_mono)
  show ?thesis
  proof (cases "x < 0")
    case True
    show ?thesis
    proof (cases "y < 0")
      case True
      then show ?thesis using \<open>x < 0\<close> step [of "- y" "- x"] assms by (simp add: half_up_def)
    next
      case False
      have "half_up d x \<le> 0"
        using half_up_nonneg [of "- x" d] True by (simp add: half_up_uminus)
      moreover have "0 \<le> half_up d y" using False by (simp add: half_up_nonneg)
      ultimately show ?thesis by linarith
    qed
  next
    case False
    with assms show ?thesis using step [of x y] by (simp add: half_up_def)
  qed
qed

text \<open>Rounding never passes a representable bound: the fact the refund and payment limits rest on.\<close>

lemma half_up_le: "x \<le> b \<Longrightarrow> scaled d b \<Longrightarrow> half_up d x \<le> b"
  using half_up_mono [of x b d] half_up_exact [of d b] by simp

lemma half_up_ge: "b \<le> x \<Longrightarrow> scaled d b \<Longrightarrow> b \<le> half_up d x"
  using half_up_mono [of b x d] half_up_exact [of d b] by simp

lemma half_up_error: "\<bar>half_up d x - x\<bar> * 10 ^ d \<le> 1 / 2"
proof -
  have pos: "(0::rat) < 10 ^ d" by simp
  have main: "\<bar>of_int \<lfloor>y * 10 ^ d + 1 / 2\<rfloor> / 10 ^ d - y\<bar> * 10 ^ d \<le> 1 / 2" for y :: rat
  proof -
    have "\<bar>of_int \<lfloor>y * 10 ^ d + 1 / 2\<rfloor> / 10 ^ d - y\<bar> * 10 ^ d
        = \<bar>of_int \<lfloor>y * 10 ^ d + 1 / 2\<rfloor> - y * 10 ^ d\<bar>"
      using pos by (simp add: abs_mult_pos' field_simps flip: abs_mult_pos)
    also have "\<dots> \<le> 1 / 2" by linarith
    finally show ?thesis .
  qed
  show ?thesis
    using main [of x] main [of "- x"] by (auto simp: half_up_def abs_minus_commute add.commute)
qed

lemma half_up_jump: "scaled d g \<Longrightarrow> g < half_up d x \<Longrightarrow> g + 1 / (2 * 10 ^ d) \<le> x"
proof (rule ccontr)
  assume g: "scaled d g" "g < half_up d x" and "\<not> g + 1 / (2 * 10 ^ d) \<le> x"
  then have x: "x < g + 1 / (2 * 10 ^ d)" by simp
  have p: "(0::rat) < 10 ^ d" by simp
  obtain n where n: "g * 10 ^ d = of_int n" using g(1) by (auto simp: scaled_def Ints_def)
  obtain m where m: "half_up d x * 10 ^ d = of_int m" using half_up_scaled [of d x] by (auto simp: scaled_def Ints_def)
  have "of_int n < (of_int m :: rat)" using g(2) p by (simp flip: n m)
  then have "n + 1 \<le> m" by simp
  then have "of_int n + 1 \<le> (of_int m :: rat)" by (metis of_int_1 of_int_add of_int_le_iff)
  then have step: "g * 10 ^ d + 1 \<le> half_up d x * 10 ^ d" by (simp only: n m)
  have "(half_up d x - x) * 10 ^ d \<le> \<bar>half_up d x - x\<bar> * 10 ^ d" by (intro mult_right_mono) auto
  also have "\<dots> \<le> 1 / 2" by (rule half_up_error)
  finally have "half_up d x * 10 ^ d - x * 10 ^ d \<le> 1 / 2" by (simp add: left_diff_distrib)
  moreover have "x * 10 ^ d < (g + 1 / (2 * 10 ^ d)) * 10 ^ d" using x p by (rule mult_strict_right_mono)
  then have "x * 10 ^ d < g * 10 ^ d + 1 / 2" by (simp add: distrib_right)
  ultimately show False using step by linarith
qed
lemma half_up_shift: "scaled d a \<Longrightarrow> 0 \<le> a \<Longrightarrow> 0 \<le> x \<Longrightarrow> half_up d (a + x) = a + half_up d x"
proof -
  assume a: "scaled d a" "0 \<le> a" and x: "0 \<le> x"
  then obtain n where n: "a * 10 ^ d = of_int n" by (auto simp: scaled_def Ints_def)
  have "(a + x) * 10 ^ d + 1 / 2 = of_int n + (x * 10 ^ d + 1 / 2)" by (simp add: distrib_right n)
  then have "\<lfloor>(a + x) * 10 ^ d + 1 / 2\<rfloor> = n + \<lfloor>x * 10 ^ d + 1 / 2\<rfloor>"
    by (metis floor_add_int add.commute)
  moreover have "a = of_int n / 10 ^ d" by (simp flip: n)
  ultimately show ?thesis using a x by (simp add: half_up_def add_divide_distrib)
qed

locale decimal_lib =
  fixes rnd :: "rat \<Rightarrow> rat" and places :: "nat \<Rightarrow> rat \<Rightarrow> rat"
  assumes rnd_exact: "fits28 x \<Longrightarrow> rnd x = x"
    and rnd_error: "\<bar>rnd x - x\<bar> * 10 ^ 27 \<le> \<bar>x\<bar>"
    and places_half_up: "places d x = half_up d x"
begin

lemma rnd_scaled: "scaled d x \<Longrightarrow> \<bar>x\<bar> * 10 ^ d < 10 ^ 28 \<Longrightarrow> rnd x = x"
  by (simp add: rnd_exact fits28I)

lemma places_exact: "scaled d x \<Longrightarrow> places d x = x"
  by (simp add: places_half_up half_up_exact)

lemma places_mono: "x \<le> y \<Longrightarrow> places d x \<le> places d y"
  by (simp add: places_half_up half_up_mono)

lemma places_le: "x \<le> b \<Longrightarrow> scaled d b \<Longrightarrow> places d x \<le> b"
  by (simp add: places_half_up half_up_le)

lemma places_scaled: "scaled d (places d x)"
  by (simp add: places_half_up)

lemma rnd_0: "rnd 0 = 0"
  by (rule rnd_scaled [of 0]) simp_all

text \<open>
  Adding a new amount to a running amount and comparing with a limit: although the comparison sees
  the rounded sum and the stored amount is rounded to cents, what is stored never passes the limit,
  and reaches it exactly when the comparison says so.
\<close>

lemma stored_within:
  assumes a: "scaled 2 a" "0 \<le> a" and t: "scaled 2 t" "t < 10 ^ 10" and x: "0 \<le> x"
    and le: "rnd (a + x) \<le> t"
  shows "a + places 2 x \<le> t"
proof (rule ccontr)
  assume "\<not> a + places 2 x \<le> t"
  then have "t - a < half_up 2 x" by (simp add: places_half_up)
  moreover have "scaled 2 (t - a)" using a t by (simp add: scaled_diff)
  ultimately have "t - a + 1 / 200 \<le> x" using half_up_jump [of 2 "t - a" x] by simp
  then have big: "t + 1 / 200 \<le> a + x" by simp
  have "a + x - rnd (a + x) \<le> \<bar>rnd (a + x) - (a + x)\<bar>" by simp
  also have "\<dots> \<le> (a + x) / 10 ^ 27" using rnd_error [of "a + x"] a(2) x by (simp add: field_simps)
  finally have "(a + x) * (1 - 1 / 10 ^ 27) \<le> t" using le by (simp add: algebra_simps)
  moreover have "(t + 1 / 200) * (1 - 1 / 10 ^ 27) \<le> (a + x) * (1 - 1 / 10 ^ 27)"
    using big by (rule mult_right_mono) simp
  ultimately have "(t + 1 / 200) * (1 - 1 / 10 ^ 27) \<le> t" by linarith
  then show False using t(2) by (simp add: field_simps)
qed

lemma stored_reaches:
  assumes a: "scaled 2 a" "0 \<le> a" and t: "scaled 2 t" "t < 10 ^ 10" and x: "0 \<le> x"
    and eq: "rnd (a + x) = t"
  shows "a + places 2 x = t"
proof (rule antisym)
  show "a + places 2 x \<le> t" using assms by (intro stored_within) auto
  show "t \<le> a + places 2 x"
  proof (rule ccontr)
    assume "\<not> t \<le> a + places 2 x"
    then have "- (t - a) < half_up 2 (- x)" by (simp add: places_half_up half_up_uminus)
    moreover have "scaled 2 (- (t - a))" using a t by (simp add: scaled_diff)
    ultimately have "- (t - a) + 1 / 200 \<le> - x" using half_up_jump [of 2 "- (t - a)" "- x"] by simp
    then have small: "a + x \<le> t - 1 / 200" by simp
    have "rnd (a + x) - (a + x) \<le> \<bar>rnd (a + x) - (a + x)\<bar>" by simp
    also have "\<dots> \<le> (a + x) / 10 ^ 27" using rnd_error [of "a + x"] a(2) x by (simp add: field_simps)
    finally have "t \<le> (a + x) * (1 + 1 / 10 ^ 27)" using eq by (simp add: algebra_simps)
    also have "\<dots> \<le> (t - 1 / 200) * (1 + 1 / 10 ^ 27)" using small by (rule mult_right_mono) simp
    finally show False using t(2) by (simp add: field_simps)
  qed
qed

end

section \<open>A computable decimal library\<close>

text \<open>
  The rounding the configuration of the library asks for, computed: the number of integer digits
  of the value fixes the number of decimals that 28 significant digits leave.
\<close>

definition int_digits :: "rat \<Rightarrow> int" where
  "int_digits x =
     (if 1 \<le> \<bar>x\<bar> then int (length (nat_str (nat \<lfloor>\<bar>x\<bar>\<rfloor>)))
      else 1 - int (length (nat_str (nat (\<lceil>1 / \<bar>x\<bar>\<rceil> - 1)))))"

definition round28 :: "rat \<Rightarrow> rat" where
  "round28 x =
     (let d = 28 - int_digits x in
      if x = 0 then 0
      else if 0 \<le> d then half_up (nat d) x
      else half_up 0 (x / 10 ^ nat (- d)) * 10 ^ nat (- d))"

lemma nat_str_bounds:
  "n < 10 ^ length (nat_str n)" "0 < n \<Longrightarrow> 10 ^ (length (nat_str n) - 1) \<le> n"
proof -
  have "n < 10 ^ length (nat_str n) \<and> (0 < n \<longrightarrow> 10 ^ (length (nat_str n) - 1) \<le> n)"
  proof (induction n rule: nat_str.induct)
    case (1 n)
    show ?case
    proof (cases "n < 10")
      case True
      then show ?thesis by (simp add: nat_str.simps [of n])
    next
      case False
      let ?l = "length (nat_str (n div 10))"
      have l: "length (nat_str n) = Suc ?l" using False by (simp add: nat_str.simps [of n])
      have lp: "0 < ?l" by (cases "n div 10 < 10") (simp_all add: nat_str.simps [of "n div 10"])
      have IH: "n div 10 < 10 ^ ?l" "10 ^ (?l - 1) \<le> n div 10" using 1 False by auto
      have "n < 10 * 10 ^ ?l" using IH(1) by linarith
      moreover have "(10::nat) ^ ?l = 10 * 10 ^ (?l - 1)" using lp by (simp flip: power_Suc)
      then have "(10 ^ ?l :: nat) \<le> n" using IH(2) by linarith
      ultimately show ?thesis by (simp add: l)
    qed
  qed
  then show "n < 10 ^ length (nat_str n)" "0 < n \<Longrightarrow> 10 ^ (length (nat_str n) - 1) \<le> n" by auto
qed

lemma nat_str_length_pos: "0 < length (nat_str n)"
  by (cases "n < 10") (simp_all add: nat_str.simps [of n])

text \<open>The value is at least a power of ten with one digit less.\<close>

lemma int_digits_lower:
  assumes "x \<noteq> 0" shows "10 powi (int_digits x - 1) \<le> \<bar>x\<bar>"
proof (cases "1 \<le> \<bar>x\<bar>")
  case True
  let ?n = "nat \<lfloor>\<bar>x\<bar>\<rfloor>" and ?l = "length (nat_str (nat \<lfloor>\<bar>x\<bar>\<rfloor>))"
  have pos: "0 < ?n" using True by simp
  have "int_digits x - 1 = int (?l - 1)"
    using True nat_str_length_pos [of ?n]
    by (simp add: int_digits_def of_nat_diff Suc_le_eq del: length_greater_0_conv)
  then have "10 powi (int_digits x - 1) = (10::rat) ^ (?l - 1)"
    by (simp only: power_int_of_nat)
  also have "\<dots> = of_nat (10 ^ (?l - 1))" by simp
  also have "\<dots> \<le> of_nat ?n" using nat_str_bounds(2) [OF pos] of_nat_le_iff by blast
  also have "\<dots> \<le> \<bar>x\<bar>" using True by simp
  finally show ?thesis .
next
  case False
  let ?m = "\<lceil>1 / \<bar>x\<bar>\<rceil> - 1" and ?l = "length (nat_str (nat (\<lceil>1 / \<bar>x\<bar>\<rceil> - 1)))"
  have ax: "0 < \<bar>x\<bar>" using assms by simp
  have "1 < 1 / \<bar>x\<bar>" using False ax by (simp add: field_simps)
  then have m: "0 < ?m" by simp
  have "nat ?m < 10 ^ ?l" by (rule nat_str_bounds(1))
  then have "int (nat ?m) < int (10 ^ ?l)" by (simp only: of_nat_less_iff)
  then have "?m + 1 \<le> 10 ^ ?l" using m assms by simp
  then have "1 / \<bar>x\<bar> \<le> 10 ^ ?l" by (simp add: ceiling_le_iff)
  then have "1 / 10 ^ ?l \<le> \<bar>x\<bar>" using ax by (simp add: field_simps)
  moreover have "int_digits x - 1 = - int ?l" using False by (simp add: int_digits_def)
  then have "10 powi (int_digits x - 1) = 1 / (10::rat) ^ ?l"
    by (simp only: power_int_minus power_int_of_nat inverse_eq_divide)
  ultimately show ?thesis by simp
qed

lemma round28_exact:
  assumes "fits28 x" shows "round28 x = x"
proof (cases "x = 0")
  case False
  from assms obtain n k where x: "x = of_int n / 10 ^ k" and n: "\<bar>n\<bar> < 10 ^ 28"
    by (auto simp: fits28_def)
  have "10 powi (int_digits x - 1) * 10 ^ k \<le> \<bar>x\<bar> * 10 ^ k"
    using int_digits_lower [OF False] by (simp add: mult_right_mono)
  also have "\<dots> = of_int \<bar>n\<bar>" by (simp add: x)
  also have "\<dots> < 10 ^ 28" using n by (metis of_int_less_iff of_int_numeral of_int_power)
  finally have "10 powi (int_digits x - 1) * 10 ^ k < (10::rat) ^ 28" .
  moreover have "10 powi (int_digits x - 1) * 10 ^ k = (10::rat) powi (int_digits x - 1 + int k)"
    by (subst power_int_add) (simp_all only: power_int_of_nat, simp)
  moreover have "(10::rat) ^ 28 = 10 powi (int 28)" by (simp only: power_int_of_nat)
  ultimately have less: "(10::rat) powi (int_digits x - 1 + int k) < 10 powi (int 28)"
    by (simp only:)
  have "int_digits x - 1 + int k < int 28"
    by (rule power_int_le_imp_less_exp [OF _ less]) (simp, rule of_nat_0_le_iff)
  then have k: "int k \<le> 28 - int_digits x" by simp
  have "scaled k x" using x by (simp add: scaled_def)
  then have "scaled (nat (28 - int_digits x)) x" by (rule scaled_mono) (use k in linarith)
  then have exact: "half_up (nat (28 - int_digits x)) x = x" by (rule half_up_exact)
  have d: "0 \<le> 28 - int_digits x" using k by linarith
  show ?thesis unfolding round28_def Let_def if_not_P [OF False] if_P [OF d] by (rule exact)
qed (simp add: round28_def)

lemma round28_error: "\<bar>round28 x - x\<bar> * 10 ^ 27 \<le> \<bar>x\<bar>"
proof (cases "x = 0")
  case False
  let ?d = "28 - int_digits x"
  have low: "10 powi (int_digits x - 1) \<le> \<bar>x\<bar>" by (rule int_digits_lower [OF False])
  show ?thesis
  proof (cases "0 \<le> ?d")
    case True
    define n where "n = nat ?d"
    have n: "int n = ?d" using True by (simp add: n_def)
    have "int_digits x - 1 + int n = int 27" using n by simp
    then have "10 powi (int_digits x - 1) * (10::rat) ^ n = 10 ^ 27"
      by (metis power_int_add power_int_of_nat zero_neq_numeral)
    then have "10 ^ 27 \<le> \<bar>x\<bar> * 10 ^ n"
      using mult_right_mono [OF low, of "10 ^ n"] by simp
    moreover have "\<bar>half_up n x - x\<bar> * 10 ^ n \<le> 1 / 2" by (rule half_up_error)
    ultimately have "\<bar>half_up n x - x\<bar> * 10 ^ n * 10 ^ 27 \<le> 1 * (\<bar>x\<bar> * 10 ^ n)"
      by (intro mult_mono) auto
    then have "(\<bar>half_up n x - x\<bar> * 10 ^ 27) * 10 ^ n \<le> \<bar>x\<bar> * 10 ^ n" by (simp add: mult_ac)
    then have "\<bar>half_up n x - x\<bar> * 10 ^ 27 \<le> \<bar>x\<bar>" by simp
    then show ?thesis using False True by (simp add: round28_def Let_def n_def)
  next
    case False': False
    define n where "n = nat (- ?d)"
    have n: "int n = - ?d" using False' by (simp add: n_def)
    let ?y = "x / 10 ^ n"
    have "int_digits x - 1 = int n + int 27" using n by simp
    then have "10 powi (int_digits x - 1) = (10::rat) ^ n * 10 ^ 27"
      by (metis power_int_add power_int_of_nat zero_neq_numeral)
    then have big: "10 ^ n * 10 ^ 27 \<le> \<bar>x\<bar>" using low by simp
    have "\<bar>half_up 0 ?y - ?y\<bar> \<le> 1" using half_up_error [of 0 ?y] by simp
    then have "\<bar>half_up 0 ?y - ?y\<bar> * 10 ^ n * 10 ^ 27 \<le> 1 * 10 ^ n * 10 ^ 27"
      by (intro mult_right_mono) auto
    also have "\<dots> \<le> \<bar>x\<bar>" using big by simp
    finally have "\<bar>half_up 0 ?y - ?y\<bar> * 10 ^ n * 10 ^ 27 \<le> \<bar>x\<bar>" .
    moreover have "\<bar>half_up 0 ?y - ?y\<bar> * 10 ^ n = \<bar>half_up 0 ?y * 10 ^ n - x\<bar>"
    proof -
      have "half_up 0 ?y * 10 ^ n - x = (half_up 0 ?y - ?y) * 10 ^ n" by (simp add: left_diff_distrib)
      then show ?thesis by (simp add: abs_mult)
    qed
    ultimately have "\<bar>half_up 0 ?y * 10 ^ n - x\<bar> * 10 ^ 27 \<le> \<bar>x\<bar>" by simp
    moreover have "round28 x = half_up 0 ?y * 10 ^ n"
      using False False' by (simp add: round28_def Let_def n_def)
    ultimately show ?thesis by simp
  qed
qed (simp add: round28_def)

interpretation dec28: decimal_lib round28 half_up
  by unfold_locales (simp_all add: round28_exact round28_error [simplified])

text \<open>An environment with this decimal library and numbered identifiers, for concrete runs.\<close>

definition sample_env :: env where
  "sample_env = \<lparr>uuid = (\<lambda>n. ''id-'' @ nat_str n), nanoid32 = (\<lambda>n. ''tok-'' @ nat_str n),
     dec_round = round28, dec_places = half_up, dec_text = js_toFixed, dec_col = half_up 4,
     appUrl = ''https://app.salesmaster.example''\<rparr>"

lemma sample_env_laws [simp]:
  "decimal_lib (dec_round sample_env) (dec_places sample_env)"
  "inj (uuid sample_env)" "inj (nanoid32 sample_env)"
  by (simp_all add: sample_env_def dec28.decimal_lib_axioms inj_def)

text \<open>The same with exact arithmetic, which satisfies the laws too and is quick to evaluate.\<close>

definition exact_env :: env where
  "exact_env = sample_env\<lparr>dec_round := (\<lambda>x. x)\<rparr>"

lemma exact_env_simps [simp]:
  "dec_round exact_env x = x" "dec_places exact_env = half_up" "dec_col exact_env = half_up 4"
  "decimal_lib (dec_round exact_env) half_up"
  "inj (uuid exact_env)" "inj (nanoid32 exact_env)"
  by (simp_all add: exact_env_def sample_env_def decimal_lib_def inj_def)

section \<open>Money values\<close>

record money =
  money_amount :: rat
  money_currency :: string

text \<open>The constructor upper-cases the currency; it does not round the amount.\<close>

definition money_of :: "rat \<Rightarrow> string \<Rightarrow> money" where
  "money_of amount currency = \<lparr>money_amount = amount, money_currency = toUpperCase currency\<rparr>"

definition money_zero :: "string \<Rightarrow> money" where
  "money_zero currency = money_of 0 currency"

definition money_fromCents :: "env \<Rightarrow> int \<Rightarrow> string \<Rightarrow> money" where
  "money_fromCents E cents currency = money_of (dec_round E (of_int cents / 100)) currency"

definition assertSameCurrency :: "money \<Rightarrow> money \<Rightarrow> error + unit" where
  "assertSameCurrency this other =
     (if money_currency this \<noteq> money_currency other
      then Inl (ServerError (''Currency mismatch: '' @ money_currency this @ '' vs '' @
                             money_currency other))
      else Inr ())"

definition money_add :: "env \<Rightarrow> money \<Rightarrow> money \<Rightarrow> error + money" where
  "money_add E this other = bindE (assertSameCurrency this other) (\<lambda>_.
     Inr (money_of (dec_round E (money_amount this + money_amount other)) (money_currency this)))"

definition money_subtract :: "env \<Rightarrow> money \<Rightarrow> money \<Rightarrow> error + money" where
  "money_subtract E this other = bindE (assertSameCurrency this other) (\<lambda>_.
     Inr (money_of (dec_round E (money_amount this - money_amount other)) (money_currency this)))"

definition money_multiply :: "env \<Rightarrow> money \<Rightarrow> rat \<Rightarrow> money" where
  "money_multiply E this factor =
     money_of (dec_round E (money_amount this * factor)) (money_currency this)"

definition money_percentage :: "env \<Rightarrow> money \<Rightarrow> rat \<Rightarrow> money" where
  "money_percentage E this percent =
     money_of (dec_round E (dec_round E (money_amount this * percent) / 100)) (money_currency this)"

definition money_isNegative :: "money \<Rightarrow> bool" where
  "money_isNegative this \<longleftrightarrow> money_amount this < 0"

definition money_isZero :: "money \<Rightarrow> bool" where
  "money_isZero this \<longleftrightarrow> money_amount this = 0"

definition comparedTo :: "rat \<Rightarrow> rat \<Rightarrow> int" where
  "comparedTo x y = (if x < y then -1 else if x = y then 0 else 1)"

definition money_compare :: "money \<Rightarrow> money \<Rightarrow> error + int" where
  "money_compare this other = bindE (assertSameCurrency this other) (\<lambda>_.
     Inr (comparedTo (money_amount this) (money_amount other)))"

definition money_round :: "env \<Rightarrow> nat \<Rightarrow> money \<Rightarrow> money" where
  "money_round E decimals this = money_of (dec_places E decimals (money_amount this)) (money_currency this)"

definition toCents :: "env \<Rightarrow> money \<Rightarrow> rat" where
  "toCents E this = dec_places E 0 (dec_round E (money_amount this * 100))"

definition toDecimalString :: "env \<Rightarrow> money \<Rightarrow> rat" where
  "toDecimalString E this = dec_places E 2 (money_amount this)"

text \<open>The range of a \<open>Decimal(14,4)\<close> column: a write outside it is refused by the database.\<close>

definition column_range :: "rat \<Rightarrow> bool" where
  "column_range x \<longleftrightarrow> \<bar>x\<bar> < 10 ^ 10"

text \<open>The text of \<open>toDecimalString\<close>, for messages.\<close>

definition decimalText :: "env \<Rightarrow> money \<Rightarrow> string" where
  "decimalText E this = dec_text E 2 (money_amount this)"

named_theorems money_simps \<open>the Money operations on values of one currency\<close>

lemma money_of_simps [simp]:
  "money_amount (money_of a c) = a" "money_currency (money_of a c) = toUpperCase c"
  by (simp_all add: money_of_def)

lemma money_zero_simps [simp]:
  "money_amount (money_zero c) = 0" "money_currency (money_zero c) = toUpperCase c"
  by (simp_all add: money_zero_def)

lemma money_of_eq_iff: "money_of a c = money_of b d \<longleftrightarrow> a = b \<and> toUpperCase c = toUpperCase d"
  by (simp add: money_of_def)

lemma money_of_upper [simp]: "money_of a (toUpperCase c) = money_of a c"
  by (simp add: money_of_def)

lemma money_zero_of: "money_zero c = money_of 0 c"
  by (simp add: money_zero_def)

lemma money_ops [money_simps]:
  "money_add E (money_of a c) (money_of b c) = Inr (money_of (dec_round E (a + b)) c)"
  "money_subtract E (money_of a c) (money_of b c) = Inr (money_of (dec_round E (a - b)) c)"
  "money_multiply E (money_of a c) q = money_of (dec_round E (a * q)) c"
  "money_percentage E (money_of a c) q = money_of (dec_round E (dec_round E (a * q) / 100)) c"
  "money_round E d (money_of a c) = money_of (dec_places E d a) c"
  "money_compare (money_of a c) (money_of b c) = Inr (comparedTo a b)"
  "toDecimalString E (money_of a c) = dec_places E 2 a"
  "money_isNegative (money_of a c) = (a < 0)"
  "money_isZero (money_of a c) = (a = 0)"
  by (simp_all add: money_add_def money_subtract_def money_multiply_def money_percentage_def
      money_round_def money_compare_def toDecimalString_def money_isNegative_def money_isZero_def
      assertSameCurrency_def)

lemma money_mismatch:
  assumes "money_currency a \<noteq> money_currency b"
  shows "\<exists>e. money_add E a b = Inl (ServerError e)" "\<exists>e. money_subtract E a b = Inl (ServerError e)"
    "\<exists>e. money_compare a b = Inl (ServerError e)"
  using assms
  by (auto simp: money_add_def money_subtract_def money_compare_def assertSameCurrency_def)

lemma comparedTo_iff [money_simps]:
  "comparedTo x y = 0 \<longleftrightarrow> x = y" "0 < comparedTo x y \<longleftrightarrow> y < x" "comparedTo x y < 0 \<longleftrightarrow> x < y"
  by (auto simp: comparedTo_def)

text \<open>A sum over a list of amounts, as the services' \<open>reduce\<close> calls write it.\<close>

fun money_sum :: "env \<Rightarrow> ('a \<Rightarrow> money) \<Rightarrow> 'a list \<Rightarrow> money \<Rightarrow> error + money" where
  "money_sum E f [] acc = Inr acc"
| "money_sum E f (x # xs) acc = bindE (money_add E acc (f x)) (money_sum E f xs)"

end
