(* ===== verification/Billing_Webhook.thy ===== *)
theory Billing_Webhook
  imports Schema Money
begin

text \<open>
  \<open>apps/api/src/billing/webhooks/billing-webhook.controller.ts\<close>: the Stripe webhook receiver.
  Signature verification (\<open>constructWebhookEvent\<close>) is a parameter; a parsed event keeps the
  fields the controller reads. A table write that violates a key of the schema raises the
  database client's error and rolls the transaction back.
\<close>

record stripe_object =
  so_id :: "string option"
  so_tenantId :: "string option"
  so_status :: string
  so_current_period_start :: int
  so_current_period_end :: int
  so_trial_end :: "int option"

record stripe_event =
  se_id :: string
  se_type :: string
  se_object :: stripe_object

datatype 'b request_body = RawBody 'b | ParsedBody

record webhook_response =
  wr_received :: bool
  wr_deduplicated :: bool

definition mapStripeStatus :: "string \<Rightarrow> subscription_status" where
  "mapStripeStatus status =
     (if status = ''trialing'' then SubTRIALING
      else if status = ''active'' then SubACTIVE
      else if status = ''past_due'' then SubPAST_DUE
      else if status = ''canceled'' \<or> status = ''unpaid'' then SubCANCELED
      else SubINCOMPLETE)"

definition resolveTenantId :: "stripe_object \<Rightarrow> db \<Rightarrow> string option" where
  "resolveTenantId obj s =
     (case so_tenantId obj of
        Some (c # cs) \<Rightarrow> Some (c # cs)
      | _ \<Rightarrow>
          (case so_id obj of
             Some (c # cs) \<Rightarrow>
               map_option sub_tenantId
                 (List.find (\<lambda>x. sub_stripeSubscriptionId x = Some (c # cs)) (subscriptions s))
           | _ \<Rightarrow> None))"

definition update_subscription ::
  "string \<Rightarrow> (subscription \<Rightarrow> subscription) \<Rightarrow> db \<Rightarrow> error + (unit \<times> db)" where
  "update_subscription tenantId f s =
     (if list_ex (\<lambda>x. sub_tenantId x = tenantId) (subscriptions s)
      then Inr ((), s\<lparr>subscriptions :=
             update_where (\<lambda>x. sub_tenantId x = tenantId) f (subscriptions s)\<rparr>)
      else Inl (RecordNotFound ''Subscription''))"

definition event_update :: "int \<Rightarrow> stripe_event \<Rightarrow> (subscription \<Rightarrow> subscription) option" where
  "event_update now event =
     (let sub = se_object event in
      if se_type event = ''customer.subscription.updated'' \<or>
         se_type event = ''customer.subscription.created'' then
        Some (\<lambda>x. x\<lparr>sub_status := mapStripeStatus (so_status sub),
                    sub_currentPeriodStart := Some (so_current_period_start sub * 1000),
                    sub_currentPeriodEnd := Some (so_current_period_end sub * 1000),
                    sub_trialEndsAt := (case so_trial_end sub of
                        None \<Rightarrow> None | Some t \<Rightarrow> if t = 0 then None else Some (t * 1000))\<rparr>)
      else if se_type event = ''customer.subscription.deleted'' then
        Some (\<lambda>x. x\<lparr>sub_status := SubCANCELED, sub_canceledAt := Some now\<rparr>)
      else if se_type event = ''invoice.payment_failed'' then
        Some (\<lambda>x. x\<lparr>sub_status := SubPAST_DUE\<rparr>)
      else None)"

definition applyEvent ::
  "env \<Rightarrow> int \<Rightarrow> string \<Rightarrow> stripe_event \<Rightarrow> db \<Rightarrow> error + (unit \<times> db)" where
  "applyEvent E now tenantId event s =
     bindE (guardE (list_ex (\<lambda>x. ten_id x = tenantId) (tenants s)) (ForeignKeyViolation ''tenantId''))
     (\<lambda>_. bindE (guardE (\<not> taken bev_stripeEventId (Some (se_id event)) (billingEvents s))
                   (UniqueViolation ''stripeEventId''))
     (\<lambda>_. let s1 = s\<lparr>billingEvents := billingEvents s @
               [\<lparr>bev_id = uuid E (seq s), bev_tenantId = tenantId, bev_type = se_type event,
                 bev_stripeEventId = Some (se_id event), bev_processedAt = Some now\<rparr>],
               seq := Suc (seq s)\<rparr>
          in case event_update now event of
               None \<Rightarrow> Inr ((), s1)
             | Some f \<Rightarrow> update_subscription tenantId f s1))"

definition handleStripeWebhook ::
  "env \<Rightarrow> ('b \<Rightarrow> string \<Rightarrow> error + stripe_event) \<Rightarrow> int \<Rightarrow> 'b request_body \<Rightarrow> string option \<Rightarrow> db
    \<Rightarrow> (error + webhook_response) \<times> db"
where
  "handleStripeWebhook E constructEvent now body signature s =
     (case signature of
        None \<Rightarrow> (Inl (BadRequest ''Missing stripe-signature header''), s)
      | Some sig \<Rightarrow>
          if sig = [] then (Inl (BadRequest ''Missing stripe-signature header''), s)
          else case body of
            ParsedBody \<Rightarrow> (Inl (BadRequest ''Webhook route must receive the raw request body''), s)
          | RawBody raw \<Rightarrow>
              (case constructEvent raw sig of
                 Inl e \<Rightarrow> (Inl e, s)
               | Inr event \<Rightarrow>
                   if taken bev_stripeEventId (Some (se_id event)) (billingEvents s)
                   then (Inr \<lparr>wr_received = True, wr_deduplicated = True\<rparr>, s)
                   else case resolveTenantId (se_object event) s of
                          None \<Rightarrow> (Inr \<lparr>wr_received = True, wr_deduplicated = False\<rparr>, s)
                        | Some tenantId \<Rightarrow>
                            (case run_tx (applyEvent E now tenantId event) s of
                               (Inl e, s1) \<Rightarrow> (Inl e, s1)
                             | (Inr _, s1) \<Rightarrow>
                                 (Inr \<lparr>wr_received = True, wr_deduplicated = False\<rparr>, s1))))"

text \<open>A sequence of deliveries, each with its arrival time.\<close>

fun deliver ::
  "env \<Rightarrow> ('b \<Rightarrow> string \<Rightarrow> error + stripe_event) \<Rightarrow> (int \<times> 'b request_body \<times> string option) list \<Rightarrow> db \<Rightarrow> db"
where
  "deliver E c [] s = s"
| "deliver E c ((now, body, sig) # ds) s = deliver E c ds (snd (handleStripeWebhook E c now body sig s))"

section \<open>What one delivery does\<close>

lemma applyEvent_records:
  assumes "applyEvent E now t event s = Inr ((), s')"
  shows "\<exists>e. billingEvents s' = billingEvents s @ [e] \<and> bev_stripeEventId e = Some (se_id event)
      \<and> bev_tenantId e = t \<and> \<not> taken bev_stripeEventId (Some (se_id event)) (billingEvents s)"
  using assms
  by (auto simp: applyEvent_def update_subscription_def Let_def err_simps split: option.splits if_splits)

lemma handle_disj:
  "(\<exists>e. handleStripeWebhook E c now body sig s = (Inl e, s)) \<or>
   (\<exists>r. handleStripeWebhook E c now body sig s = (Inr r, s)) \<or>
   (\<exists>raw sg event t s'. sig = Some sg \<and> sg \<noteq> [] \<and> body = RawBody raw \<and> c raw sg = Inr event \<and>
      resolveTenantId (se_object event) s = Some t \<and> applyEvent E now t event s = Inr ((), s') \<and>
      handleStripeWebhook E c now body sig s = (Inr \<lparr>wr_received = True, wr_deduplicated = False\<rparr>, s'))"
  by (auto simp: handleStripeWebhook_def run_tx_def split: option.splits if_splits request_body.splits
      sum.splits)

lemma handle_cases:
  obtains (rejected) e where "handleStripeWebhook E c now body sig s = (Inl e, s)"
  | (ignored) r where "handleStripeWebhook E c now body sig s = (Inr r, s)"
  | (applied) raw sg event t s' where "sig = Some sg" "sg \<noteq> []" "body = RawBody raw"
      "c raw sg = Inr event" "resolveTenantId (se_object event) s = Some t"
      "applyEvent E now t event s = Inr ((), s')"
      "handleStripeWebhook E c now body sig s = (Inr \<lparr>wr_received = True, wr_deduplicated = False\<rparr>, s')"
  using handle_disj [of E c now body sig s] by blast

definition events_unique :: "db \<Rightarrow> bool" where
  "events_unique s \<longleftrightarrow> distinct (filter (\<lambda>k. k \<noteq> None) (map bev_stripeEventId (billingEvents s)))"

lemma handle_events_unique:
  assumes "events_unique s"
  shows "events_unique (snd (handleStripeWebhook E c now body sig s))"
proof (cases rule: handle_cases [of E c now body sig s])
  case (applied raw sg event t s')
  with applyEvent_records [OF applied(6)] assms show ?thesis
    by (fastforce simp: events_unique_def taken_iff image_iff)
qed (use assms in auto)

lemma handle_keeps_events:
  "\<exists>es. billingEvents (snd (handleStripeWebhook E c now body sig s)) = billingEvents s @ es"
proof (cases rule: handle_cases [of E c now body sig s])
  case (applied raw sg event t s')
  with applyEvent_records [OF applied(6)] show ?thesis by auto
qed auto

lemma deliver_keeps_events: "\<exists>es. billingEvents (deliver E c ds s) = billingEvents s @ es"
proof (induction ds arbitrary: s)
  case (Cons d ds)
  obtain now body sig where d: "d = (now, body, sig)" by (cases d)
  obtain es where 1: "billingEvents (snd (handleStripeWebhook E c now body sig s)) = billingEvents s @ es"
    using handle_keeps_events by blast
  show ?case using Cons [of "snd (handleStripeWebhook E c now body sig s)"] 1 by (auto simp: d)
qed simp

lemma handle_known_event:
  assumes "c raw sg = Inr event" "sg \<noteq> []"
    and "taken bev_stripeEventId (Some (se_id event)) (billingEvents s)"
  shows "handleStripeWebhook E c now (RawBody raw) (Some sg) s
       = (Inr \<lparr>wr_received = True, wr_deduplicated = True\<rparr>, s)"
  using assms by (simp add: handleStripeWebhook_def)

section \<open>Properties\<close>

text \<open>C36: a Stripe event is applied at most once. Whatever deliveries follow, a later delivery of an
  event that was applied answers that it was deduplicated and leaves the whole database as it is,
  and no sequence of deliveries ever records two billing events for one Stripe event.\<close>
theorem webhook_applied_once:
  assumes first: "handleStripeWebhook E c now (RawBody raw) (Some sg) s = (Inr r, s1)"
    and event: "c raw sg = Inr event" "sg \<noteq> []" "resolveTenantId (se_object event) s \<noteq> None"
    and unique: "events_unique s"
  shows "handleStripeWebhook E c later (RawBody raw) (Some sg) (deliver E c ds s1)
           = (Inr \<lparr>wr_received = True, wr_deduplicated = True\<rparr>, deliver E c ds s1) \<and>
         events_unique (deliver E c ds s1)"
proof
  have "taken bev_stripeEventId (Some (se_id event)) (billingEvents s1)"
    using first event
    by (auto dest!: applyEvent_records simp: handleStripeWebhook_def run_tx_def split: if_splits option.splits sum.splits prod.splits)
  moreover obtain es where "billingEvents (deliver E c ds s1) = billingEvents s1 @ es"
    using deliver_keeps_events by blast
  ultimately have "taken bev_stripeEventId (Some (se_id event)) (billingEvents (deliver E c ds s1))"
    by simp
  then show "handleStripeWebhook E c later (RawBody raw) (Some sg) (deliver E c ds s1)
      = (Inr \<lparr>wr_received = True, wr_deduplicated = True\<rparr>, deliver E c ds s1)"
    using event by (intro handle_known_event)
  have "events_unique (deliver E c ds s')" if "events_unique s'" for s'
    using that by (induction E c ds s' rule: deliver.induct) (simp_all add: handle_events_unique)
  moreover have "events_unique s1"
    using handle_events_unique [OF unique, of E c now "RawBody raw" "Some sg"] first by simp
  ultimately show "events_unique (deliver E c ds s1)" by blast
qed

definition demo_tenant :: tenant where
  "demo_tenant = \<lparr>ten_id = ''t1'', ten_legalName = ''Acme'', ten_displayName = ''Acme'',
     ten_category = None, ten_country = ''US'', ten_locale = ''en'', ten_timezone = ''UTC'',
     ten_baseCurrency = ''USD'', ten_status = TenantACTIVE\<rparr>"

definition demo_subscription :: subscription where
  "demo_subscription = \<lparr>sub_id = ''s1'', sub_tenantId = ''t1'', sub_stripeSubscriptionId = Some ''sub_1'',
     sub_status = SubTRIALING, sub_currentPeriodStart = None, sub_currentPeriodEnd = None,
     sub_trialEndsAt = None, sub_cancelAtPeriodEnd = False, sub_canceledAt = None\<rparr>"

definition demo_webhook_db :: db where
  "demo_webhook_db = empty_db\<lparr>tenants := [demo_tenant], subscriptions := [demo_subscription]\<rparr>"

lemma demo_webhook_db_simps [simp]:
  "tenants demo_webhook_db = [demo_tenant]" "subscriptions demo_webhook_db = [demo_subscription]"
  "billingEvents demo_webhook_db = []" "ten_id demo_tenant = ''t1''"
  "sub_tenantId demo_subscription = ''t1''" "sub_stripeSubscriptionId demo_subscription = Some ''sub_1''"
  by (simp_all add: demo_webhook_db_def demo_tenant_def demo_subscription_def empty_db_def)

definition demo_event :: "string \<Rightarrow> string option \<Rightarrow> stripe_event" where
  "demo_event ty oid = \<lparr>se_id = ''evt_1'', se_type = ty, se_object =
     \<lparr>so_id = oid, so_tenantId = None, so_status = ''active'', so_current_period_start = 1,
      so_current_period_end = 2, so_trial_end = None\<rparr>\<rparr>"

theorem webhook_applied_once_witness:
  "\<exists>s1. handleStripeWebhook sample_env (\<lambda>_ _. Inr (demo_event ''customer.subscription.updated'' (Some ''sub_1'')))
        7 (RawBody ()) (Some ''sig'') s1 = (Inr \<lparr>wr_received = True, wr_deduplicated = True\<rparr>, s1) \<and>
     map sub_status (subscriptions s1) = [SubACTIVE]"
proof -
  let ?ev = "demo_event ''customer.subscription.updated'' (Some ''sub_1'')"
  let ?s1 = "snd (handleStripeWebhook sample_env (\<lambda>_ _. Inr ?ev) 5 (RawBody ()) (Some ''sig'') demo_webhook_db)"
  have r: "resolveTenantId (se_object ?ev) demo_webhook_db = Some ''t1''"
    by (simp add: resolveTenantId_def demo_event_def)
  have f: "handleStripeWebhook sample_env (\<lambda>_ _. Inr ?ev) 5 (RawBody ()) (Some ''sig'') demo_webhook_db
      = (Inr \<lparr>wr_received = True, wr_deduplicated = False\<rparr>, ?s1)"
    and st: "map sub_status (subscriptions ?s1) = [SubACTIVE]"
    using r by (simp_all add: handleStripeWebhook_def run_tx_def applyEvent_def update_subscription_def
        event_update_def demo_event_def mapStripeStatus_def Let_def)
  have u: "events_unique demo_webhook_db" by (simp add: events_unique_def)
  show ?thesis
    using webhook_applied_once [OF f refl _ _ u, of 7 "[]"] r st
    by (intro exI [of _ ?s1]) simp
qed

text \<open>what a new event of a known tenant does: exactly one billing event is recorded, the
  subscription of that tenant (and no other) takes the mapped status, its periods in milliseconds,
  or the canceled or past-due status by event type, any other event type changes no subscription;
  and when the tenant or its subscription is missing the transaction leaves nothing behind.\<close>
theorem webhook_effect:
  assumes event: "c raw sg = Inr event" "sg \<noteq> []" "resolveTenantId (se_object event) s = Some t"
    and new: "\<not> taken bev_stripeEventId (Some (se_id event)) (billingEvents s)"
  shows "case handleStripeWebhook E c now (RawBody raw) (Some sg) s of
      (Inr r, s') \<Rightarrow> \<not> wr_deduplicated r \<and>
        (\<exists>e. billingEvents s' = billingEvents s @ [e] \<and> bev_stripeEventId e = Some (se_id event)
             \<and> bev_tenantId e = t) \<and>
        subscriptions s' = (case event_update now event of
            None \<Rightarrow> subscriptions s
          | Some f \<Rightarrow> update_where (\<lambda>x. sub_tenantId x = t) f (subscriptions s)) \<and>
        (\<forall>f. event_update now event = Some f \<longrightarrow>
           (\<forall>x. sub_tenantId (f x) = sub_tenantId x \<and> sub_id (f x) = sub_id x \<and>
             sub_status (f x) \<in> {mapStripeStatus (so_status (se_object event)), SubCANCELED, SubPAST_DUE}))
    | (Inl e, s') \<Rightarrow> s' = s \<and>
        (t \<notin> ten_id ` set (tenants s) \<or>
         (t \<notin> sub_tenantId ` set (subscriptions s) \<and> event_update now event \<noteq> None))"
proof -
  have h: "handleStripeWebhook E c now (RawBody raw) (Some sg) s =
     (case run_tx (applyEvent E now t event) s of (Inl e, s1) \<Rightarrow> (Inl e, s1)
      | (Inr _, s1) \<Rightarrow> (Inr \<lparr>wr_received = True, wr_deduplicated = False\<rparr>, s1))"
    using event new by (simp add: handleStripeWebhook_def)
  have keep: "sub_tenantId (f x) = sub_tenantId x \<and> sub_id (f x) = sub_id x \<and>
      sub_status (f x) \<in> {mapStripeStatus (so_status (se_object event)), SubCANCELED, SubPAST_DUE}"
    if "event_update now event = Some f" for f x
    using that by (auto simp: event_update_def Let_def split: if_splits)
  show ?thesis
  proof (cases "t \<in> ten_id ` set (tenants s)")
    case False
    then show ?thesis
      by (auto simp: h run_tx_def applyEvent_def guardE_def list_ex_iff)
  next
    case True
    then have "list_ex (\<lambda>x. ten_id x = t) (tenants s)" by (auto simp: list_ex_iff)
    then show ?thesis
      using new keep
      by (auto simp: h run_tx_def applyEvent_def update_subscription_def list_ex_iff Let_def
          split: option.splits if_splits)
  qed
qed

theorem webhook_effect_witness:
  "case handleStripeWebhook sample_env (\<lambda>_ _. Inr (demo_event ''customer.subscription.deleted'' (Some ''sub_1'')))
        5 (RawBody ()) (Some ''sig'') demo_webhook_db of
     (Inr r, s') \<Rightarrow> map sub_status (subscriptions s') = [SubCANCELED] | _ \<Rightarrow> False"
proof -
  let ?ev = "demo_event ''customer.subscription.deleted'' (Some ''sub_1'')"
  have "resolveTenantId (se_object ?ev) demo_webhook_db = Some ''t1''"
    "event_update 5 ?ev = Some (\<lambda>x. x\<lparr>sub_status := SubCANCELED, sub_canceledAt := Some 5\<rparr>)"
    by (simp_all add: resolveTenantId_def demo_event_def event_update_def Let_def)
  then show ?thesis
    using webhook_effect [where c = "\<lambda>_ _. Inr ?ev" and raw = "()" and E = sample_env and now = 5
        and event = ?ev and s = demo_webhook_db and t = "''t1''" and sg = "''sig''"]
    by (auto split: prod.splits sum.splits)
qed

text \<open>A failed payment does not reach the subscription when the event carries the invoice as its
  object: the tenant is looked up by the object's id among the subscription ids, so without tenant
  metadata the event is acknowledged, not recorded, and the subscription keeps its status.\<close>
theorem payment_failed_for_invoice_is_dropped:
  assumes "c raw sg = Inr event" and "sg \<noteq> []" and "se_type event = ''invoice.payment_failed''"
    and "so_tenantId (se_object event) = None" and "so_id (se_object event) = Some invoiceId"
    and "Some invoiceId \<notin> sub_stripeSubscriptionId ` set (subscriptions s)"
  shows "\<exists>r. handleStripeWebhook E c now (RawBody raw) (Some sg) s = (Inr r, s) \<and> wr_received r"
proof -
  have "resolveTenantId (se_object event) s = None"
    using assms by (auto simp: resolveTenantId_def find_None_iff image_iff split: list.splits)
  then show ?thesis using assms by (simp add: handleStripeWebhook_def)
qed

theorem payment_failed_for_invoice_is_dropped_witness:
  "\<exists>r. handleStripeWebhook sample_env (\<lambda>_ _. Inr (demo_event ''invoice.payment_failed'' (Some ''in_1'')))
        5 (RawBody ()) (Some ''sig'') demo_webhook_db = (Inr r, demo_webhook_db) \<and> wr_received r"
  by (rule payment_failed_for_invoice_is_dropped [where invoiceId = "''in_1''"
        and event = "demo_event ''invoice.payment_failed'' (Some ''in_1'')"])
     (simp_all add: demo_event_def)

end
