(* ===== verification/Permissions.thy ===== *)
theory Permissions
  imports Prelude
begin

text \<open>
  \<open>packages/domain/src/permissions.ts\<close>: the permission catalog, the system roles and their
  default grants. A permission is a constructor; \<open>permission_key\<close> is the string stored in
  \<open>RolePermission\<close>.
\<close>

datatype permission =
    SALES_CREATE | SALES_VIEW | SALES_REFUND | SALES_DISCOUNT_OVERRIDE | SALES_VOID
  | INVENTORY_VIEW | INVENTORY_COST_PRICE_VIEW | INVENTORY_ADJUST | INVENTORY_TRANSFER
  | PRODUCTS_MANAGE | CUSTOMERS_VIEW | CUSTOMERS_MANAGE | INVOICES_MANAGE | QUOTES_MANAGE
  | EXPENSES_VIEW | EXPENSES_MANAGE | EXPENSES_APPROVE | REPORTS_VIEW | REPORTS_EXPORT
  | BRANCHES_MANAGE | USERS_MANAGE | ROLES_MANAGE | BILLING_MANAGE | INTEGRATIONS_MANAGE

fun permission_key :: "permission \<Rightarrow> string" where
  "permission_key SALES_CREATE = ''sales.create''"
| "permission_key SALES_VIEW = ''sales.view''"
| "permission_key SALES_REFUND = ''sales.refund''"
| "permission_key SALES_DISCOUNT_OVERRIDE = ''sales.discount_override''"
| "permission_key SALES_VOID = ''sales.void''"
| "permission_key INVENTORY_VIEW = ''inventory.view''"
| "permission_key INVENTORY_COST_PRICE_VIEW = ''inventory.cost_price.view''"
| "permission_key INVENTORY_ADJUST = ''inventory.adjust''"
| "permission_key INVENTORY_TRANSFER = ''inventory.transfer''"
| "permission_key PRODUCTS_MANAGE = ''products.manage''"
| "permission_key CUSTOMERS_VIEW = ''customers.view''"
| "permission_key CUSTOMERS_MANAGE = ''customers.manage''"
| "permission_key INVOICES_MANAGE = ''invoices.manage''"
| "permission_key QUOTES_MANAGE = ''quotes.manage''"
| "permission_key EXPENSES_VIEW = ''expenses.view''"
| "permission_key EXPENSES_MANAGE = ''expenses.manage''"
| "permission_key EXPENSES_APPROVE = ''expenses.approve''"
| "permission_key REPORTS_VIEW = ''reports.view''"
| "permission_key REPORTS_EXPORT = ''reports.export''"
| "permission_key BRANCHES_MANAGE = ''branches.manage''"
| "permission_key USERS_MANAGE = ''users.manage''"
| "permission_key ROLES_MANAGE = ''roles.manage''"
| "permission_key BILLING_MANAGE = ''billing.manage''"
| "permission_key INTEGRATIONS_MANAGE = ''integrations.manage''"

definition ALL_PERMISSION_KEYS :: "permission list" where
  "ALL_PERMISSION_KEYS =
     [SALES_CREATE, SALES_VIEW, SALES_REFUND, SALES_DISCOUNT_OVERRIDE, SALES_VOID,
      INVENTORY_VIEW, INVENTORY_COST_PRICE_VIEW, INVENTORY_ADJUST, INVENTORY_TRANSFER,
      PRODUCTS_MANAGE, CUSTOMERS_VIEW, CUSTOMERS_MANAGE, INVOICES_MANAGE, QUOTES_MANAGE,
      EXPENSES_VIEW, EXPENSES_MANAGE, EXPENSES_APPROVE, REPORTS_VIEW, REPORTS_EXPORT,
      BRANCHES_MANAGE, USERS_MANAGE, ROLES_MANAGE, BILLING_MANAGE, INTEGRATIONS_MANAGE]"

datatype system_role = OWNER | MANAGER | CASHIER | INVENTORY_CLERK | VIEWER

fun system_role_key :: "system_role \<Rightarrow> string" where
  "system_role_key OWNER = ''owner''"
| "system_role_key MANAGER = ''manager''"
| "system_role_key CASHIER = ''cashier''"
| "system_role_key INVENTORY_CLERK = ''inventory_clerk''"
| "system_role_key VIEWER = ''viewer''"

fun default_role_permissions :: "system_role \<Rightarrow> permission list" where
  "default_role_permissions OWNER = ALL_PERMISSION_KEYS"
| "default_role_permissions MANAGER =
     [SALES_CREATE, SALES_VIEW, SALES_REFUND, SALES_DISCOUNT_OVERRIDE, SALES_VOID,
      INVENTORY_VIEW, INVENTORY_COST_PRICE_VIEW, INVENTORY_ADJUST, INVENTORY_TRANSFER,
      PRODUCTS_MANAGE, CUSTOMERS_VIEW, CUSTOMERS_MANAGE, INVOICES_MANAGE, QUOTES_MANAGE,
      EXPENSES_VIEW, EXPENSES_MANAGE, EXPENSES_APPROVE, REPORTS_VIEW, REPORTS_EXPORT,
      USERS_MANAGE]"
| "default_role_permissions CASHIER =
     [SALES_CREATE, SALES_VIEW, INVENTORY_VIEW, CUSTOMERS_VIEW, CUSTOMERS_MANAGE, QUOTES_MANAGE]"
| "default_role_permissions INVENTORY_CLERK =
     [INVENTORY_VIEW, INVENTORY_COST_PRICE_VIEW, INVENTORY_ADJUST, INVENTORY_TRANSFER, PRODUCTS_MANAGE]"
| "default_role_permissions VIEWER =
     [SALES_VIEW, INVENTORY_VIEW, CUSTOMERS_VIEW, EXPENSES_VIEW, REPORTS_VIEW]"

definition hasPermission :: "string set \<Rightarrow> permission \<Rightarrow> bool" where
  "hasPermission granted required \<longleftrightarrow> permission_key required \<in> granted"

lemma all_permissions: "set ALL_PERMISSION_KEYS = UNIV"
proof -
  have "p \<in> set ALL_PERMISSION_KEYS" for p
    by (cases p) (simp_all add: ALL_PERMISSION_KEYS_def)
  then show ?thesis by blast
qed

lemma permission_key_inj: "inj permission_key"
proof -
  have d: "distinct (map permission_key ALL_PERMISSION_KEYS)"
    by (simp add: ALL_PERMISSION_KEYS_def)
  have "p = q" if "permission_key p = permission_key q" for p q
    using distinct_keyD [OF d _ _ that] all_permissions by simp
  then show ?thesis by (simp add: inj_def)
qed

lemma permission_key_eq [simp]: "permission_key p = permission_key q \<longleftrightarrow> p = q"
  using permission_key_inj by (auto simp: inj_def)

text \<open>The roles form a hierarchy: the viewer, cashier and clerk grants are within the owner's,
  and the manager's are all but four.\<close>

lemma manager_lacks:
  "set (default_role_permissions MANAGER) =
     UNIV - {BRANCHES_MANAGE, ROLES_MANAGE, BILLING_MANAGE, INTEGRATIONS_MANAGE}"
  unfolding all_permissions [symmetric] by (auto simp: ALL_PERMISSION_KEYS_def)

lemma cashier_within_manager:
  "set (default_role_permissions CASHIER) \<subseteq> set (default_role_permissions MANAGER)"
  "set (default_role_permissions INVENTORY_CLERK) \<subseteq> set (default_role_permissions MANAGER)"
  "set (default_role_permissions VIEWER) \<subseteq> set (default_role_permissions MANAGER)"
  by auto

end
