(* ===== verification/Access_Control.thy ===== *)
theory Access_Control
  imports Schema Permissions
begin

text \<open>
  The request guards of \<open>apps/api/src/common/guards\<close> and the membership lookup of
  \<open>tenancy/membership.service.ts\<close>, in the order the controllers install them:
  \<open>SessionAuthGuard, TenantGuard, RbacGuard\<close> for tenant routes and
  \<open>SessionAuthGuard, PlatformAdminGuard\<close> for the admin surface. The hash of
  \<open>EncryptionService.sha256Hex\<close> is the parameter \<open>sha\<close>. Headers that are present more
  than once are not represented.
\<close>

record request =
  rq_cookie :: "string option"
  rq_authorization :: "string option"
  rq_tenantId :: "string option"

record active_membership =
  am_membershipId :: string
  am_tenantId :: string
  am_userId :: string
  am_roleId :: string
  am_roleKey :: string
  am_branchScope :: "string list"
  am_permissions :: "string set"

record request_context =
  ctx_user :: "user option"
  ctx_sessionId :: "string option"
  ctx_membership :: "active_membership option"

definition anonymous :: request_context where
  "anonymous = \<lparr>ctx_user = None, ctx_sessionId = None, ctx_membership = None\<rparr>"

definition extractBearerToken :: "string option \<Rightarrow> string option" where
  "extractBearerToken header =
     (case header of
        None \<Rightarrow> None
      | Some h \<Rightarrow> if startsWith ''Bearer '' h then Some (drop (length ''Bearer '') h) else None)"

definition rawToken :: "request \<Rightarrow> string option" where
  "rawToken req = (case rq_cookie req of Some c \<Rightarrow> Some c | None \<Rightarrow> extractBearerToken (rq_authorization req))"

definition session_guard ::
  "(string \<Rightarrow> string) \<Rightarrow> int \<Rightarrow> bool \<Rightarrow> request \<Rightarrow> db \<Rightarrow> request_context \<Rightarrow> error + request_context" where
  "session_guard sha now isPublic req s ctx =
     (if isPublic then Inr ctx
      else case rawToken req of
        None \<Rightarrow> Inl (Unauthorized ''Missing session credentials'')
      | Some [] \<Rightarrow> Inl (Unauthorized ''Missing session credentials'')
      | Some (c # cs) \<Rightarrow>
          (case List.find (\<lambda>x. ses_tokenHash x = sha (c # cs)) (sessions s) of
             None \<Rightarrow> Inl (Unauthorized ''Session expired or revoked'')
           | Some ses \<Rightarrow>
               if ses_revokedAt ses \<noteq> None \<or> ses_expiresAt ses < now
               then Inl (Unauthorized ''Session expired or revoked'')
               else bindE (someE (List.find (\<lambda>u. usr_id u = ses_userId ses) (users s))
                             (ServerError ''session without user''))
                      (\<lambda>u. Inr (ctx\<lparr>ctx_user := Some u, ctx_sessionId := Some (ses_id ses)\<rparr>))))"

definition granted_keys :: "role \<Rightarrow> string set" where
  "granted_keys r = set (map rp_permissionKey (filter rp_allowed (rol_permissions r)))"

definition getActiveMembership :: "string \<Rightarrow> string \<Rightarrow> db \<Rightarrow> active_membership option" where
  "getActiveMembership userId tenantId s =
     (case List.find (\<lambda>m. mem_tenantId m = tenantId \<and> mem_userId m = userId) (memberships s) of
        None \<Rightarrow> None
      | Some m \<Rightarrow>
          if mem_status m \<noteq> MemACTIVE then None
          else (case List.find (\<lambda>r. rol_id r = mem_roleId m) (roles s) of
                  None \<Rightarrow> None
                | Some r \<Rightarrow> Some \<lparr>am_membershipId = mem_id m, am_tenantId = mem_tenantId m,
                      am_userId = mem_userId m, am_roleId = mem_roleId m, am_roleKey = rol_key r,
                      am_branchScope = mem_branchScope m, am_permissions = granted_keys r\<rparr>))"

definition canAccessBranch :: "active_membership \<Rightarrow> string \<Rightarrow> bool" where
  "canAccessBranch m branchId \<longleftrightarrow> am_branchScope m = [] \<or> branchId \<in> set (am_branchScope m)"

definition tenant_guard :: "bool \<Rightarrow> request \<Rightarrow> db \<Rightarrow> request_context \<Rightarrow> error + request_context" where
  "tenant_guard isPublic req s ctx =
     (if isPublic then Inr ctx
      else case rq_tenantId req of
        None \<Rightarrow> Inl (Forbidden ''Missing required x-tenant-id header'')
      | Some [] \<Rightarrow> Inl (Forbidden ''Missing required x-tenant-id header'')
      | Some (c # cs) \<Rightarrow>
          (case ctx_user ctx of
             None \<Rightarrow> Inl (ServerError ''request.user is undefined'')
           | Some u \<Rightarrow>
               (case getActiveMembership (usr_id u) (c # cs) s of
                  None \<Rightarrow> Inl (Forbidden ''No active membership for this tenant'')
                | Some m \<Rightarrow> Inr (ctx\<lparr>ctx_membership := Some m\<rparr>))))"

definition rbac_guard :: "permission list \<Rightarrow> request_context \<Rightarrow> error + request_context" where
  "rbac_guard required ctx =
     (if required = [] then Inr ctx
      else case ctx_membership ctx of
        None \<Rightarrow> Inl (Forbidden ''No tenant membership resolved'')
      | Some m \<Rightarrow>
          let missing = filter (\<lambda>p. \<not> hasPermission (am_permissions m) p) required
          in if missing \<noteq> []
             then Inl (Forbidden (''Missing permission(s): '' @ join '', '' (map permission_key missing)))
             else Inr ctx)"

definition platform_admin_guard :: "request_context \<Rightarrow> error + request_context" where
  "platform_admin_guard ctx =
     (case ctx_user ctx of
        None \<Rightarrow> Inl (Forbidden ''Platform administrator access required'')
      | Some u \<Rightarrow>
          if usr_isPlatformAdmin u then Inr ctx
          else Inl (Forbidden ''Platform administrator access required''))"

definition authorize_tenant ::
  "(string \<Rightarrow> string) \<Rightarrow> int \<Rightarrow> bool \<Rightarrow> permission list \<Rightarrow> request \<Rightarrow> db \<Rightarrow> error + request_context" where
  "authorize_tenant sha now isPublic required req s =
     bindE (session_guard sha now isPublic req s anonymous)
     (\<lambda>ctx. bindE (tenant_guard isPublic req s ctx) (rbac_guard required))"

definition authorize_admin ::
  "(string \<Rightarrow> string) \<Rightarrow> int \<Rightarrow> request \<Rightarrow> db \<Rightarrow> error + request_context" where
  "authorize_admin sha now req s =
     bindE (session_guard sha now False req s anonymous) platform_admin_guard"

section \<open>What the guards establish\<close>

text \<open>A session that is live at \<open>now\<close> for the credentials of the request.\<close>

definition live_session :: "(string \<Rightarrow> string) \<Rightarrow> int \<Rightarrow> request \<Rightarrow> db \<Rightarrow> session \<Rightarrow> bool" where
  "live_session sha now req s ses \<longleftrightarrow>
     ses \<in> set (sessions s) \<and> ses_revokedAt ses = None \<and> now \<le> ses_expiresAt ses \<and>
     (\<exists>tok. rawToken req = Some tok \<and> tok \<noteq> [] \<and> ses_tokenHash ses = sha tok)"

text \<open>The key constraints of the schema the lookups rest on.\<close>

definition access_keys :: "db \<Rightarrow> bool" where
  "access_keys s \<longleftrightarrow> distinct (map ses_tokenHash (sessions s)) \<and> distinct (map usr_id (users s)) \<and>
     distinct (map rol_id (roles s)) \<and>
     distinct (map (\<lambda>m. (mem_tenantId m, mem_userId m)) (memberships s))"

lemma session_guard_iff:
  assumes "access_keys s"
  shows "session_guard sha now False req s anonymous = Inr ctx \<longleftrightarrow>
     (\<exists>ses u. live_session sha now req s ses \<and> u \<in> set (users s) \<and> usr_id u = ses_userId ses \<and>
        ctx = \<lparr>ctx_user = Some u, ctx_sessionId = Some (ses_id ses), ctx_membership = None\<rparr>)"
    (is "?L \<longleftrightarrow> ?R")
proof
  assume ?L
  then show ?R
    by (fastforce simp: session_guard_def live_session_def anonymous_def err_simps
        split: option.splits list.splits if_splits dest!: find_SomeD)
next
  assume ?R
  then obtain ses u c cs where h: "ses \<in> set (sessions s)" "ses_revokedAt ses = None"
    "now \<le> ses_expiresAt ses" "rawToken req = Some (c # cs)" "ses_tokenHash ses = sha (c # cs)"
    "u \<in> set (users s)" "usr_id u = ses_userId ses"
    "ctx = \<lparr>ctx_user = Some u, ctx_sessionId = Some (ses_id ses), ctx_membership = None\<rparr>"
    by (auto simp: live_session_def neq_Nil_conv)
  have "List.find (\<lambda>x. ses_tokenHash x = sha (c # cs)) (sessions s) = Some ses"
    "List.find (\<lambda>x. usr_id x = ses_userId ses) (users s) = Some u"
    using assms h by (auto simp: access_keys_def intro!: find_unique_key)
  with h show ?L by (simp add: session_guard_def anonymous_def)
qed

lemma getActiveMembership_iff:
  assumes "access_keys s"
  shows "getActiveMembership uid t s = Some am \<longleftrightarrow>
     (\<exists>m r. m \<in> set (memberships s) \<and> mem_tenantId m = t \<and> mem_userId m = uid \<and> mem_status m = MemACTIVE \<and>
        r \<in> set (roles s) \<and> rol_id r = mem_roleId m \<and>
        am = \<lparr>am_membershipId = mem_id m, am_tenantId = t, am_userId = uid, am_roleId = mem_roleId m,
              am_roleKey = rol_key r, am_branchScope = mem_branchScope m, am_permissions = granted_keys r\<rparr>)"
    (is "?L \<longleftrightarrow> ?R")
proof
  assume ?L
  then show ?R
    by (fastforce simp: getActiveMembership_def split: option.splits if_splits dest!: find_SomeD)
next
  assume ?R
  then obtain m r where h: "m \<in> set (memberships s)" "mem_tenantId m = t" "mem_userId m = uid"
    "mem_status m = MemACTIVE" "r \<in> set (roles s)" "rol_id r = mem_roleId m"
    and am: "am = \<lparr>am_membershipId = mem_id m, am_tenantId = t, am_userId = uid, am_roleId = mem_roleId m,
              am_roleKey = rol_key r, am_branchScope = mem_branchScope m, am_permissions = granted_keys r\<rparr>"
    by blast
  have "List.find (\<lambda>x. (mem_tenantId x, mem_userId x) = (t, uid)) (memberships s) = Some m"
    using assms h by (intro find_unique_key) (auto simp: access_keys_def)
  moreover have "List.find (\<lambda>x. rol_id x = mem_roleId m) (roles s) = Some r"
    using assms h by (intro find_unique_key) (auto simp: access_keys_def)
  ultimately have "List.find (\<lambda>x. mem_tenantId x = t \<and> mem_userId x = uid) (memberships s) = Some m"
    "List.find (\<lambda>x. rol_id x = mem_roleId m) (roles s) = Some r" by simp_all
  with h am show ?L by (simp add: getActiveMembership_def)
qed

lemma rbac_guard_iff:
  "rbac_guard required ctx = Inr ctx' \<longleftrightarrow> ctx' = ctx \<and>
     (required = [] \<or> (\<exists>m. ctx_membership ctx = Some m \<and>
        (\<forall>p\<in>set required. permission_key p \<in> am_permissions m)))"
  by (auto simp: rbac_guard_def hasPermission_def Let_def filter_empty_conv split: option.splits if_splits)

section \<open>Properties\<close>

text \<open>C25: the guard chain of a tenant route admits a request exactly when its token belongs to a
  session that is neither revoked nor expired, the session's user has an ACTIVE membership in the
  tenant the header names, and the membership's role grants every permission the route requires;
  the context it passes on holds that user, session and membership and no other.\<close>
theorem tenant_route_admits_iff:
  assumes "access_keys s"
  shows "authorize_tenant sha now False required req s = Inr ctx \<longleftrightarrow>
     (\<exists>ses u t m r. live_session sha now req s ses \<and> u \<in> set (users s) \<and> usr_id u = ses_userId ses \<and>
        rq_tenantId req = Some t \<and> t \<noteq> [] \<and>
        m \<in> set (memberships s) \<and> mem_tenantId m = t \<and> mem_userId m = usr_id u \<and> mem_status m = MemACTIVE \<and>
        r \<in> set (roles s) \<and> rol_id r = mem_roleId m \<and>
        (\<forall>p\<in>set required. \<exists>rp\<in>set (rol_permissions r). rp_allowed rp \<and> rp_permissionKey rp = permission_key p) \<and>
        ctx = \<lparr>ctx_user = Some u, ctx_sessionId = Some (ses_id ses), ctx_membership =
          Some \<lparr>am_membershipId = mem_id m, am_tenantId = t, am_userId = usr_id u, am_roleId = mem_roleId m,
              am_roleKey = rol_key r, am_branchScope = mem_branchScope m, am_permissions = granted_keys r\<rparr>\<rparr>)"
    (is "?L \<longleftrightarrow> ?R")
proof -
  have g: "(\<forall>p\<in>set required. permission_key p \<in> granted_keys r) \<longleftrightarrow>
      (\<forall>p\<in>set required. \<exists>rp\<in>set (rol_permissions r). rp_allowed rp \<and> rp_permissionKey rp = permission_key p)" for r
    by (force simp: granted_keys_def)
  have "?L \<longleftrightarrow> (\<exists>ses u t m. live_session sha now req s ses \<and> u \<in> set (users s) \<and>
      usr_id u = ses_userId ses \<and> rq_tenantId req = Some t \<and> t \<noteq> [] \<and>
      getActiveMembership (usr_id u) t s = Some m \<and>
      (\<forall>p\<in>set required. permission_key p \<in> am_permissions m) \<and>
      ctx = \<lparr>ctx_user = Some u, ctx_sessionId = Some (ses_id ses), ctx_membership = Some m\<rparr>)"
    unfolding authorize_tenant_def bindE_Inr_iff session_guard_iff [OF assms] rbac_guard_iff
    by (fastforce simp: tenant_guard_def split: option.splits list.splits)
  also have "\<dots> \<longleftrightarrow> ?R"
    unfolding getActiveMembership_iff [OF assms] g [symmetric] by fastforce
  finally show ?thesis .
qed

definition demo_user :: "string \<Rightarrow> bool \<Rightarrow> user" where
  "demo_user uid adm = \<lparr>usr_id = uid, usr_email = uid @ ''@acme.test'', usr_emailVerifiedAt = Some 0,
     usr_passwordHash = None, usr_name = None, usr_mfaEnabled = False, usr_mfaSecretEncrypted = None,
     usr_mfaRecoveryCodesEncrypted = None, usr_isPlatformAdmin = adm\<rparr>"

definition demo_session :: "string \<Rightarrow> string \<Rightarrow> session" where
  "demo_session uid tok = \<lparr>ses_id = ''ses-'' @ uid, ses_userId = uid, ses_deviceId = None,
     ses_tokenHash = tok, ses_ipAddress = None, ses_userAgent = None, ses_expiresAt = 100,
     ses_revokedAt = None, ses_rotatedFromId = None\<rparr>"

definition demo_role :: role where
  "demo_role = \<lparr>rol_id = ''r1'', rol_tenantId = None, rol_key = ''cashier'', rol_name = ''Cashier'',
     rol_isSystem = True, rol_permissions = [\<lparr>rp_permissionKey = ''sales.create'', rp_allowed = True\<rparr>]\<rparr>"

definition demo_membership :: membership where
  "demo_membership = \<lparr>mem_id = ''m1'', mem_tenantId = ''t1'', mem_userId = ''u1'', mem_roleId = ''r1'',
     mem_status = MemACTIVE, mem_branchScope = [], mem_isBillableUser = True\<rparr>"

definition demo_access_db :: db where
  "demo_access_db = empty_db\<lparr>users := [demo_user ''u1'' False, demo_user ''u2'' True],
     sessions := [demo_session ''u1'' ''tok1'', demo_session ''u2'' ''tok2''],
     roles := [demo_role], memberships := [demo_membership]\<rparr>"

lemma demo_access_db_simps [simp]:
  "users demo_access_db = [demo_user ''u1'' False, demo_user ''u2'' True]"
  "sessions demo_access_db = [demo_session ''u1'' ''tok1'', demo_session ''u2'' ''tok2'']"
  "roles demo_access_db = [demo_role]" "memberships demo_access_db = [demo_membership]"
  by (simp_all add: demo_access_db_def)

lemma demo_access_rows [simp]:
  "usr_id (demo_user uid adm) = uid" "usr_isPlatformAdmin (demo_user uid adm) = adm"
  "ses_userId (demo_session uid tok) = uid" "ses_tokenHash (demo_session uid tok) = tok"
  "ses_revokedAt (demo_session uid tok) = None" "ses_expiresAt (demo_session uid tok) = 100"
  "rol_id demo_role = ''r1''" "mem_tenantId demo_membership = ''t1''"
  "rol_permissions demo_role = [\<lparr>rp_permissionKey = ''sales.create'', rp_allowed = True\<rparr>]"
  "mem_userId demo_membership = ''u1''" "mem_roleId demo_membership = ''r1''"
  "mem_status demo_membership = MemACTIVE"
  by (simp_all add: demo_user_def demo_session_def demo_role_def demo_membership_def)

lemma demo_access_keys: "access_keys demo_access_db"
  by (simp add: access_keys_def)

definition demo_request :: "string \<Rightarrow> string \<Rightarrow> request" where
  "demo_request tok t =
     \<lparr>rq_cookie = None, rq_authorization = Some (''Bearer '' @ tok), rq_tenantId = Some t\<rparr>"

theorem tenant_route_admits_iff_witness:
  "(\<exists>ctx. authorize_tenant id 50 False [SALES_CREATE] (demo_request ''tok1'' ''t1'') demo_access_db = Inr ctx) \<and>
   \<not> (\<exists>ctx. authorize_tenant id 50 False [SALES_CREATE] (demo_request ''tok2'' ''t1'') demo_access_db = Inr ctx)"
proof -
  have tok: "rawToken (demo_request tok t) = Some tok" "rq_tenantId (demo_request tok t) = Some t" for tok t
    by (simp_all add: demo_request_def rawToken_def extractBearerToken_def startsWith_def)
  have "\<exists>ses u t m r. live_session id 50 (demo_request ''tok1'' ''t1'') demo_access_db ses \<and>
      u \<in> set (users demo_access_db) \<and> usr_id u = ses_userId ses \<and> t = ''t1'' \<and>
      m \<in> set (memberships demo_access_db) \<and> mem_tenantId m = t \<and> mem_userId m = usr_id u \<and>
      mem_status m = MemACTIVE \<and> r \<in> set (roles demo_access_db) \<and> rol_id r = mem_roleId m"
    by (rule exI [of _ "demo_session ''u1'' ''tok1''"], rule exI [of _ "demo_user ''u1'' False"])
       (simp add: live_session_def tok)
  moreover have "ses = demo_session ''u2'' ''tok2''"
    if "live_session id 50 (demo_request ''tok2'' ''t1'') demo_access_db ses" for ses
    using that by (auto simp: live_session_def tok)
  ultimately show ?thesis
    unfolding tenant_route_admits_iff [OF demo_access_keys] tok by fastforce
qed

text \<open>The admin surface is a separate path: it admits exactly the live sessions of users flagged
  as platform administrators, whatever memberships and roles exist, so no tenant role ever opens
  it; and being an administrator opens no tenant route without a membership in that tenant.\<close>
theorem admin_surface_separate:
  assumes "access_keys s"
  shows "((\<exists>ctx. authorize_admin sha now req s = Inr ctx) \<longleftrightarrow>
       (\<exists>ses u. live_session sha now req s ses \<and> u \<in> set (users s) \<and> usr_id u = ses_userId ses \<and>
          usr_isPlatformAdmin u)) \<and>
     authorize_admin sha now req (s\<lparr>memberships := ms, roles := rs\<rparr>) = authorize_admin sha now req s \<and>
     authorize_tenant sha now False required req (s\<lparr>memberships := []\<rparr>) \<noteq> Inr ctx'"
proof -
  have a: "authorize_admin sha now req s = Inr ctx \<longleftrightarrow>
      session_guard sha now False req s anonymous = Inr ctx \<and>
      (\<exists>u. ctx_user ctx = Some u \<and> usr_isPlatformAdmin u)" for ctx
    by (auto simp: authorize_admin_def platform_admin_guard_def err_simps split: option.splits if_splits)
  have "(\<exists>ctx. authorize_admin sha now req s = Inr ctx) \<longleftrightarrow>
       (\<exists>ses u. live_session sha now req s ses \<and> u \<in> set (users s) \<and> usr_id u = ses_userId ses \<and>
          usr_isPlatformAdmin u)"
    unfolding a session_guard_iff [OF assms] by fastforce
  moreover have "authorize_admin sha now req (s\<lparr>memberships := ms, roles := rs\<rparr>) = authorize_admin sha now req s"
    by (simp add: authorize_admin_def session_guard_def split: option.split list.split)
  moreover have "authorize_tenant sha now False required req (s\<lparr>memberships := []\<rparr>) \<noteq> Inr ctx'"
    by (auto simp: authorize_tenant_def tenant_guard_def getActiveMembership_def err_simps
        split: option.splits list.splits)
  ultimately show ?thesis by blast
qed

theorem admin_surface_separate_witness:
  "(\<exists>ctx. authorize_admin id 50 (demo_request ''tok2'' ''t1'') demo_access_db = Inr ctx) \<and>
   \<not> (\<exists>ctx. authorize_admin id 50 (demo_request ''tok1'' ''t1'') demo_access_db = Inr ctx)"
proof -
  have tok: "rawToken (demo_request tok t) = Some tok" for tok t
    by (simp add: demo_request_def rawToken_def extractBearerToken_def startsWith_def)
  have admits: "(\<exists>ctx. authorize_admin id 50 req demo_access_db = Inr ctx) \<longleftrightarrow>
      (\<exists>ses u. live_session id 50 req demo_access_db ses \<and> u \<in> set (users demo_access_db) \<and>
         usr_id u = ses_userId ses \<and> usr_isPlatformAdmin u)" for req
    using admin_surface_separate [OF demo_access_keys] by blast
  show ?thesis
    unfolding admits by (simp add: live_session_def tok ex_disj_distrib conj_disj_distribR cong: conj_cong)
qed

end
