(* ===== verification/Billing_Engine.thy ===== *)
theory Billing_Engine
  imports Prelude
begin

text \<open>
  \<open>packages/domain/src/billing.ts\<close>: the monthly price of a tenant, in integer cents. The two
  counts arrive as numbers that the function itself checks to be integers; prices and add-on
  quantities are integers.
\<close>

definition DEFAULT_BASE_PRICE_USD_CENTS :: int where
  "DEFAULT_BASE_PRICE_USD_CENTS = 1000"

definition DEFAULT_BRANCH_PRICE_USD_CENTS :: int where
  "DEFAULT_BRANCH_PRICE_USD_CENTS = 500"

definition DEFAULT_USER_PRICE_USD_CENTS :: int where
  "DEFAULT_USER_PRICE_USD_CENTS = 200"

record addon_selection =
  as_key :: string
  as_name :: string
  as_unitPriceUsdCents :: int
  as_quantity :: int

record billing_input =
  bi_activeBranchCount :: rat
  bi_billableUserCount :: rat
  bi_addOns :: "addon_selection list option"
  bi_basePriceUsdCents :: "int option"
  bi_branchPriceUsdCents :: "int option"
  bi_userPriceUsdCents :: "int option"

record line_item =
  li_key :: string
  li_name :: string
  li_quantity :: int
  li_unitPriceUsdCents :: int
  li_totalUsdCents :: int

record billing_result =
  bres_lineItems :: "line_item list"
  bres_totalUsdCents :: int
  bres_totalUsd :: string

definition default :: "'a option \<Rightarrow> 'a \<Rightarrow> 'a" where
  "default x d = (case x of None \<Rightarrow> d | Some y \<Rightarrow> y)"

definition isInteger :: "rat \<Rightarrow> bool" where
  "isInteger x \<longleftrightarrow> of_int \<lfloor>x\<rfloor> = x"

definition line :: "string \<Rightarrow> string \<Rightarrow> int \<Rightarrow> int \<Rightarrow> line_item" where
  "line key name quantity price = \<lparr>li_key = key, li_name = name, li_quantity = quantity,
     li_unitPriceUsdCents = price, li_totalUsdCents = quantity * price\<rparr>"

fun addon_lines :: "addon_selection list \<Rightarrow> line_item list" where
  "addon_lines [] = []"
| "addon_lines (a # as) =
     (if as_quantity a \<le> 0 then addon_lines as
      else line (as_key a) (as_name a) (as_quantity a) (as_unitPriceUsdCents a) # addon_lines as)"

definition lines_total :: "line_item list \<Rightarrow> int" where
  "lines_total items = foldl (\<lambda>sum item. sum + li_totalUsdCents item) 0 items"

definition calculateMonthlyBilling :: "billing_input \<Rightarrow> error + billing_result" where
  "calculateMonthlyBilling input =
     (let addOns = default (bi_addOns input) [];
          basePrice = default (bi_basePriceUsdCents input) DEFAULT_BASE_PRICE_USD_CENTS;
          branchPrice = default (bi_branchPriceUsdCents input) DEFAULT_BRANCH_PRICE_USD_CENTS;
          userPrice = default (bi_userPriceUsdCents input) DEFAULT_USER_PRICE_USD_CENTS
      in
      if \<not> isInteger (bi_activeBranchCount input) \<or> bi_activeBranchCount input < 1
      then Inl (ServerError ''activeBranchCount must be an integer >= 1'')
      else if \<not> isInteger (bi_billableUserCount input) \<or> bi_billableUserCount input < 1
      then Inl (ServerError ''billableUserCount must be an integer >= 1'')
      else
        let extraBranches = max 0 (\<lfloor>bi_activeBranchCount input\<rfloor> - 1);
            extraUsers = max 0 (\<lfloor>bi_billableUserCount input\<rfloor> - 1);
            lineItems =
              [\<lparr>li_key = ''base'', li_name = ''Base subscription (1 branch, 1 user included)'',
                li_quantity = 1, li_unitPriceUsdCents = basePrice, li_totalUsdCents = basePrice\<rparr>]
              @ (if extraBranches > 0
                 then [line ''extra_branch'' ''Additional branch'' extraBranches branchPrice] else [])
              @ (if extraUsers > 0
                 then [line ''extra_user'' ''Additional user'' extraUsers userPrice] else [])
              @ addon_lines addOns;
            totalUsdCents = lines_total lineItems
        in Inr \<lparr>bres_lineItems = lineItems, bres_totalUsdCents = totalUsdCents,
                bres_totalUsd = js_toFixed 2 (of_int totalUsdCents / 100)\<rparr>)"

section \<open>The documented formula\<close>

definition addons_total :: "addon_selection list \<Rightarrow> int" where
  "addons_total as = (\<Sum>a\<leftarrow>as. max 0 (as_quantity a) * as_unitPriceUsdCents a)"

lemma foldl_sum: "foldl (\<lambda>sum x. sum + f x) acc xs = acc + (\<Sum>x\<leftarrow>xs. f x)"
  for acc :: "'a::comm_monoid_add"
  by (induction xs arbitrary: acc) (auto simp: add.assoc)

lemma lines_total_sum: "lines_total items = (\<Sum>i\<leftarrow>items. li_totalUsdCents i)"
  by (simp add: lines_total_def foldl_sum)

lemma addon_lines_total: "(\<Sum>i\<leftarrow>addon_lines as. li_totalUsdCents i) = addons_total as"
  by (induction as) (auto simp: line_def addons_total_def)

lemma isInteger_of_int [simp]: "isInteger (of_int n)"
  by (simp add: isInteger_def)

lemma billing_counts:
  assumes "calculateMonthlyBilling input = Inr r"
  shows "\<exists>b u. bi_activeBranchCount input = of_int b \<and> bi_billableUserCount input = of_int u \<and>
               1 \<le> b \<and> 1 \<le> u"
proof -
  have c: "isInteger (bi_activeBranchCount input)" "\<not> bi_activeBranchCount input < 1"
    "isInteger (bi_billableUserCount input)" "\<not> bi_billableUserCount input < 1"
    using assms by (auto simp: calculateMonthlyBilling_def Let_def split: if_splits)
  then obtain b u where bu: "bi_activeBranchCount input = of_int b" "bi_billableUserCount input = of_int u"
    by (auto simp: isInteger_def)
  with c have "1 \<le> b" "1 \<le> u" by (auto simp: not_less)
  with bu show ?thesis by blast
qed

lemma billing_total:
  assumes "bi_activeBranchCount input = of_int b" "bi_billableUserCount input = of_int u"
    and "1 \<le> b" "1 \<le> u"
  shows "\<exists>r. calculateMonthlyBilling input = Inr r \<and>
    bres_totalUsdCents r =
      default (bi_basePriceUsdCents input) 1000
      + (b - 1) * default (bi_branchPriceUsdCents input) 500
      + (u - 1) * default (bi_userPriceUsdCents input) 200
      + addons_total (default (bi_addOns input) []) \<and>
    bres_totalUsdCents r = (\<Sum>i\<leftarrow>bres_lineItems r. li_totalUsdCents i)"
  using assms
  by (simp add: calculateMonthlyBilling_def Let_def lines_total_sum addon_lines_total line_def
      DEFAULT_BASE_PRICE_USD_CENTS_def DEFAULT_BRANCH_PRICE_USD_CENTS_def
      DEFAULT_USER_PRICE_USD_CENTS_def max_def algebra_simps)

lemma billing_rejects:
  "\<not> (isInteger (bi_activeBranchCount input) \<and> 1 \<le> bi_activeBranchCount input \<and>
      isInteger (bi_billableUserCount input) \<and> 1 \<le> bi_billableUserCount input) \<longleftrightarrow>
   (\<exists>e. calculateMonthlyBilling input = Inl (ServerError e))"
  by (auto simp: calculateMonthlyBilling_def Let_def)

lemma billing_line_keys:
  assumes "calculateMonthlyBilling input = Inr r"
  shows "\<forall>i\<in>set (bres_lineItems r). li_key i \<noteq> ''base'' \<longrightarrow> 0 < li_quantity i"
proof -
  have "\<forall>i\<in>set (addon_lines as). 0 < li_quantity i" for as
    by (induction as) (auto simp: line_def)
  then show ?thesis
    using assms by (auto simp: calculateMonthlyBilling_def Let_def line_def split: if_splits)
qed

end
