(* ===== verification/Audit_Outbox.thy ===== *)
theory Audit_Outbox
  imports Schema
begin

text \<open>
  \<open>AuditService.record\<close> and \<open>OutboxService.publish\<close>, the two services every other
  service writes through, and the shape of a database that keeps what was recorded: both logs are
  append-only.
\<close>

record audit_input =
  ai_tenantId :: "string option"
  ai_actorUserId :: "string option"
  ai_action :: string
  ai_entityType :: string
  ai_entityId :: "string option"
  ai_metadata :: "json option"
  ai_ipAddress :: "string option"

text \<open>The common form of a call: tenant, actor, action, entity and optional metadata.\<close>

definition audit_in ::
  "string option \<Rightarrow> string option \<Rightarrow> string \<Rightarrow> string \<Rightarrow> string \<Rightarrow> json option \<Rightarrow> audit_input"
where
  "audit_in t actor action entity eid meta = \<lparr>ai_tenantId = t, ai_actorUserId = actor,
     ai_action = action, ai_entityType = entity, ai_entityId = Some eid, ai_metadata = meta,
     ai_ipAddress = None\<rparr>"

definition audit_record :: "env \<Rightarrow> audit_input \<Rightarrow> db \<Rightarrow> db" where
  "audit_record E input s =
     s\<lparr>auditEvents := auditEvents s @
         [\<lparr>aud_id = uuid E (seq s), aud_tenantId = ai_tenantId input,
           aud_actorUserId = ai_actorUserId input, aud_action = ai_action input,
           aud_entityType = ai_entityType input, aud_entityId = ai_entityId input,
           aud_metadata = (case ai_metadata input of None \<Rightarrow> JObj [] | Some m \<Rightarrow> m),
           aud_ipAddress = ai_ipAddress input\<rparr>],
       seq := Suc (seq s)\<rparr>"

record publish_input =
  pi_aggregateType :: string
  pi_aggregateId :: string
  pi_eventType :: string
  pi_payload :: json

definition publish :: "env \<Rightarrow> int \<Rightarrow> publish_input \<Rightarrow> db \<Rightarrow> db" where
  "publish E now input s =
     s\<lparr>outboxEvents := outboxEvents s @
         [\<lparr>obx_id = uuid E (seq s), obx_aggregateType = pi_aggregateType input,
           obx_aggregateId = pi_aggregateId input, obx_eventType = pi_eventType input,
           obx_payload = pi_payload input, obx_createdAt = now, obx_processedAt = None,
           obx_attempts = 0, obx_lastError = None\<rparr>],
       seq := Suc (seq s)\<rparr>"

named_theorems log_simps \<open>what the audit and outbox writes leave alone\<close>

lemma audit_record_frame [simp, log_simps]:
  "tenants (audit_record E i s) = tenants s"
  "pricingCatalogItems (audit_record E i s) = pricingCatalogItems s"
  "subscriptions (audit_record E i s) = subscriptions s"
  "subscriptionItems (audit_record E i s) = subscriptionItems s"
  "billingEvents (audit_record E i s) = billingEvents s"
  "users (audit_record E i s) = users s"
  "identityProviderAccounts (audit_record E i s) = identityProviderAccounts s"
  "sessions (audit_record E i s) = sessions s"
  "roles (audit_record E i s) = roles s"
  "memberships (audit_record E i s) = memberships s"
  "invitations (audit_record E i s) = invitations s"
  "branches (audit_record E i s) = branches s"
  "stockLocations (audit_record E i s) = stockLocations s"
  "registers (audit_record E i s) = registers s"
  "categories (audit_record E i s) = categories s"
  "taxClasses (audit_record E i s) = taxClasses s"
  "products (audit_record E i s) = products s"
  "productVariants (audit_record E i s) = productVariants s"
  "inventoryMovements (audit_record E i s) = inventoryMovements s"
  "inventoryBalances (audit_record E i s) = inventoryBalances s"
  "stockTransfers (audit_record E i s) = stockTransfers s"
  "customers (audit_record E i s) = customers s"
  "sales (audit_record E i s) = sales s"
  "quotes (audit_record E i s) = quotes s"
  "invoices (audit_record E i s) = invoices s"
  "expenseCategories (audit_record E i s) = expenseCategories s"
  "expenses (audit_record E i s) = expenses s"
  "outboxEvents (audit_record E i s) = outboxEvents s"
  "commerceConnections (audit_record E i s) = commerceConnections s"
  "externalObjectMaps (audit_record E i s) = externalObjectMaps s"
  "syncJobs (audit_record E i s) = syncJobs s"
  "webhookDeliveries (audit_record E i s) = webhookDeliveries s"
  "seq (audit_record E i s) = Suc (seq s)"
  by (simp_all add: audit_record_def)

lemma publish_frame [simp, log_simps]:
  "tenants (publish E now i s) = tenants s"
  "pricingCatalogItems (publish E now i s) = pricingCatalogItems s"
  "subscriptions (publish E now i s) = subscriptions s"
  "subscriptionItems (publish E now i s) = subscriptionItems s"
  "billingEvents (publish E now i s) = billingEvents s"
  "users (publish E now i s) = users s"
  "identityProviderAccounts (publish E now i s) = identityProviderAccounts s"
  "sessions (publish E now i s) = sessions s"
  "roles (publish E now i s) = roles s"
  "memberships (publish E now i s) = memberships s"
  "invitations (publish E now i s) = invitations s"
  "branches (publish E now i s) = branches s"
  "stockLocations (publish E now i s) = stockLocations s"
  "registers (publish E now i s) = registers s"
  "categories (publish E now i s) = categories s"
  "taxClasses (publish E now i s) = taxClasses s"
  "products (publish E now i s) = products s"
  "productVariants (publish E now i s) = productVariants s"
  "inventoryMovements (publish E now i s) = inventoryMovements s"
  "inventoryBalances (publish E now i s) = inventoryBalances s"
  "stockTransfers (publish E now i s) = stockTransfers s"
  "customers (publish E now i s) = customers s"
  "sales (publish E now i s) = sales s"
  "quotes (publish E now i s) = quotes s"
  "invoices (publish E now i s) = invoices s"
  "expenseCategories (publish E now i s) = expenseCategories s"
  "expenses (publish E now i s) = expenses s"
  "auditEvents (publish E now i s) = auditEvents s"
  "commerceConnections (publish E now i s) = commerceConnections s"
  "externalObjectMaps (publish E now i s) = externalObjectMaps s"
  "syncJobs (publish E now i s) = syncJobs s"
  "webhookDeliveries (publish E now i s) = webhookDeliveries s"
  "seq (publish E now i s) = Suc (seq s)"
  by (simp_all add: publish_def)

lemma audit_record_appends:
  "\<exists>e. auditEvents (audit_record E i s) = auditEvents s @ [e] \<and> aud_tenantId e = ai_tenantId i
     \<and> aud_action e = ai_action i \<and> aud_entityId e = ai_entityId i"
  by (simp add: audit_record_def)

lemma publish_appends:
  "\<exists>e. outboxEvents (publish E now i s) = outboxEvents s @ [e] \<and> obx_eventType e = pi_eventType i
     \<and> obx_aggregateId e = pi_aggregateId i \<and> obx_payload e = pi_payload i \<and> obx_processedAt e = None"
  by (simp add: publish_def)

text \<open>The audit trail after a request extends the trail before it.\<close>

definition audit_extends :: "db \<Rightarrow> db \<Rightarrow> bool" where
  "audit_extends s t \<longleftrightarrow> (\<exists>es. auditEvents t = auditEvents s @ es)"

lemma audit_extends_refl [simp]: "audit_extends s s"
  by (simp add: audit_extends_def)

lemma audit_extends_record [intro]: "audit_extends s t \<Longrightarrow> audit_extends s (audit_record E i t)"
  by (auto simp: audit_extends_def audit_record_def)

lemma audit_extends_same: "auditEvents t = auditEvents s \<Longrightarrow> audit_extends s t"
  by (simp add: audit_extends_def)

end
