(* ===== verification/Billing_Service.thy ===== *)
theory Billing_Service
  imports Billing_Engine Audit_Outbox Money
begin

text \<open>
  \<open>apps/api/src/billing\<close>: the pricing catalog (\<open>pricing-catalog.service.ts\<close>), the billing
  service (\<open>billing.service.ts\<close>) and the provider boundary (\<open>stripe/*.ts\<close>). The external
  provider is a parameter: a record of the operations of \<open>BillingProvider\<close>, acting on an
  abstract outside world \<open>'w\<close>.
\<close>

section \<open>The provider boundary\<close>

record 'w billing_provider =
  bp_isConfigured :: bool
  bp_updateSubscriptionItemQuantity :: "string \<Rightarrow> string \<Rightarrow> int \<Rightarrow> 'w \<Rightarrow> (error + unit) \<times> 'w"
  bp_cancelSubscription :: "string \<Rightarrow> 'w \<Rightarrow> (error + unit) \<times> 'w"

definition NullBillingProvider :: "'w billing_provider" where
  "NullBillingProvider = \<lparr>bp_isConfigured = False,
     bp_updateSubscriptionItemQuantity = (\<lambda>_ _ _ w. (Inr (), w)),
     bp_cancelSubscription = (\<lambda>_ w. (Inr (), w))\<rparr>"

text \<open>The calls of the Stripe client that \<open>StripeBillingProvider\<close> makes.\<close>

record stripe_item =
  si_id :: string
  si_priceId :: string
  si_quantity :: int

record 'w stripe_client =
  sc_retrieve_items :: "string \<Rightarrow> 'w \<Rightarrow> (error + stripe_item list) \<times> 'w"
  sc_item_update :: "string \<Rightarrow> int \<Rightarrow> 'w \<Rightarrow> (error + unit) \<times> 'w"
  sc_item_create :: "string \<Rightarrow> string \<Rightarrow> int \<Rightarrow> 'w \<Rightarrow> (error + unit) \<times> 'w"
  sc_cancel :: "string \<Rightarrow> 'w \<Rightarrow> (error + unit) \<times> 'w"

definition stripe_updateSubscriptionItemQuantity ::
  "'w stripe_client \<Rightarrow> string \<Rightarrow> string \<Rightarrow> int \<Rightarrow> 'w \<Rightarrow> (error + unit) \<times> 'w" where
  "stripe_updateSubscriptionItemQuantity stripe externalSubscriptionId stripePriceId quantity w =
     (case sc_retrieve_items stripe externalSubscriptionId w of
        (Inl e, w1) \<Rightarrow> (Inl e, w1)
      | (Inr items, w1) \<Rightarrow>
          (case List.find (\<lambda>i. si_priceId i = stripePriceId) items of
             Some item \<Rightarrow> sc_item_update stripe (si_id item) quantity w1
           | None \<Rightarrow> sc_item_create stripe externalSubscriptionId stripePriceId quantity w1))"

definition StripeBillingProvider :: "'w stripe_client \<Rightarrow> 'w billing_provider" where
  "StripeBillingProvider stripe = \<lparr>bp_isConfigured = True,
     bp_updateSubscriptionItemQuantity = stripe_updateSubscriptionItemQuantity stripe,
     bp_cancelSubscription = sc_cancel stripe\<rparr>"

section \<open>The pricing catalog\<close>

record resolved_addon =
  ra_key :: string
  ra_name :: string
  ra_unitPriceUsdCents :: int
  ra_stripePriceId :: "string option"

record resolved_catalog =
  rc_basePriceUsdCents :: int
  rc_branchPriceUsdCents :: int
  rc_userPriceUsdCents :: int
  rc_addOns :: "resolved_addon list"

definition price_of_kind :: "pricing_item_kind \<Rightarrow> int \<Rightarrow> pricing_item list \<Rightarrow> int" where
  "price_of_kind k d items =
     (case List.find (\<lambda>i. pri_kind i = k) items of None \<Rightarrow> d | Some i \<Rightarrow> pri_unitPriceUsdCents i)"

definition catalog_resolve :: "db \<Rightarrow> resolved_catalog" where
  "catalog_resolve s =
     (let items = filter pri_isActive (pricingCatalogItems s)
      in \<lparr>rc_basePriceUsdCents = price_of_kind BASE DEFAULT_BASE_PRICE_USD_CENTS items,
          rc_branchPriceUsdCents = price_of_kind BRANCH DEFAULT_BRANCH_PRICE_USD_CENTS items,
          rc_userPriceUsdCents = price_of_kind USER DEFAULT_USER_PRICE_USD_CENTS items,
          rc_addOns = map (\<lambda>a. \<lparr>ra_key = pri_key a, ra_name = pri_name a,
              ra_unitPriceUsdCents = pri_unitPriceUsdCents a, ra_stripePriceId = pri_stripePriceId a\<rparr>)
            (filter (\<lambda>i. pri_kind i = ADDON) items)\<rparr>)"

section \<open>Counting and previewing\<close>

record billing_preview =
  pv_result :: billing_result
  pv_activeBranchCount :: int
  pv_billableUserCount :: int

definition active_branches :: "string \<Rightarrow> db \<Rightarrow> nat" where
  "active_branches tenantId s =
     count_where (\<lambda>b. br_tenantId b = tenantId \<and> br_isActive b) (branches s)"

definition billable_users :: "string \<Rightarrow> db \<Rightarrow> nat" where
  "billable_users tenantId s =
     count_where (\<lambda>m. mem_tenantId m = tenantId \<and> mem_status m = MemACTIVE \<and> mem_isBillableUser m)
       (memberships s)"

definition countBillableUnits :: "string \<Rightarrow> db \<Rightarrow> int \<times> int" where
  "countBillableUnits tenantId s =
     (max 1 (int (active_branches tenantId s)), max 1 (int (billable_users tenantId s)))"

definition billing_args ::
  "resolved_catalog \<Rightarrow> int \<Rightarrow> int \<Rightarrow> addon_selection list option \<Rightarrow> billing_input" where
  "billing_args catalog b u addOns = \<lparr>bi_activeBranchCount = of_int b, bi_billableUserCount = of_int u,
     bi_addOns = addOns, bi_basePriceUsdCents = Some (rc_basePriceUsdCents catalog),
     bi_branchPriceUsdCents = Some (rc_branchPriceUsdCents catalog),
     bi_userPriceUsdCents = Some (rc_userPriceUsdCents catalog)\<rparr>"

definition previewBilling :: "string \<Rightarrow> string list \<Rightarrow> db \<Rightarrow> error + billing_preview" where
  "previewBilling tenantId addOnKeys s =
     (let (activeBranchCount, billableUserCount) = countBillableUnits tenantId s;
          catalog = catalog_resolve s;
          selectedAddOns = filter (\<lambda>a. ra_key a \<in> set addOnKeys) (rc_addOns catalog)
      in bindE (calculateMonthlyBilling (billing_args catalog activeBranchCount billableUserCount
             (Some (map (\<lambda>a. \<lparr>as_key = ra_key a, as_name = ra_name a,
                as_unitPriceUsdCents = ra_unitPriceUsdCents a, as_quantity = 1\<rparr>) selectedAddOns))))
           (\<lambda>result. Inr \<lparr>pv_result = result, pv_activeBranchCount = activeBranchCount,
                            pv_billableUserCount = billableUserCount\<rparr>))"

section \<open>Recomputing the entitlements\<close>

definition at_item :: "string \<Rightarrow> string \<Rightarrow> subscription_item \<Rightarrow> bool" where
  "at_item subId itemId i \<longleftrightarrow> sit_subscriptionId i = subId \<and> sit_pricingCatalogItemId i = itemId"

definition upsert_item ::
  "env \<Rightarrow> subscription \<Rightarrow> pricing_item option \<Rightarrow> int \<Rightarrow> db \<Rightarrow> db" where
  "upsert_item E sub item quantity s =
     (case item of
        None \<Rightarrow> s
      | Some p \<Rightarrow>
          if list_ex (at_item (sub_id sub) (pri_id p)) (subscriptionItems s)
          then s\<lparr>subscriptionItems := update_where (at_item (sub_id sub) (pri_id p))
                   (\<lambda>i. i\<lparr>sit_quantity := quantity\<rparr>) (subscriptionItems s)\<rparr>
          else s\<lparr>subscriptionItems := subscriptionItems s @
                   [\<lparr>sit_id = uuid E (seq s), sit_subscriptionId = sub_id sub,
                     sit_pricingCatalogItemId = pri_id p, sit_quantity = quantity,
                     sit_unitPriceUsdCentsSnapshot = pri_unitPriceUsdCents p\<rparr>],
                 seq := Suc (seq s)\<rparr>)"

definition row_of_key :: "string \<Rightarrow> db \<Rightarrow> pricing_item option" where
  "row_of_key k s = List.find (\<lambda>r. pri_key r = k)
     (filter (\<lambda>r. pri_key r \<in> {''base'', ''extra_branch'', ''extra_user''}) (pricingCatalogItems s))"

text \<open>
  The transaction of \<open>recomputeSubscriptionItems\<close>, in the two parts the database can
  separate: the counts it reads, and everything after them, which takes the counts read.
\<close>

definition recompute_write ::
  "env \<Rightarrow> resolved_catalog \<Rightarrow> string \<Rightarrow> int \<times> int \<Rightarrow> db \<Rightarrow> error + (billing_result \<times> db)" where
  "recompute_write E catalog tenantId counts s =
     (let (activeBranchCount, billableUserCount) = counts in
      bindE (someE (List.find (\<lambda>x. sub_tenantId x = tenantId) (subscriptions s))
               (ServerError (''Tenant '' @ tenantId @ '' has no subscription '' @ em_dash @ '' onboarding did not complete atomically'')))
      (\<lambda>sub.
        let extraBranches = max 0 (activeBranchCount - 1);
            extraUsers = max 0 (billableUserCount - 1);
            s1 = upsert_item E sub (row_of_key ''base'' s) 1 s;
            s2 = upsert_item E sub (row_of_key ''extra_branch'' s) extraBranches s1;
            s3 = upsert_item E sub (row_of_key ''extra_user'' s) extraUsers s2;
            s4 = audit_record E (audit_in (Some tenantId) None ''billing.entitlements_recomputed''
                   ''Subscription'' (sub_id sub)
                   (Some (JObj [(''activeBranchCount'', JNum (of_int activeBranchCount)),
                                (''billableUserCount'', JNum (of_int billableUserCount))]))) s3
        in bindE (calculateMonthlyBilling
                    (billing_args catalog activeBranchCount billableUserCount None))
                 (\<lambda>r. Inr (r, s4))))"

definition recompute_tx :: "env \<Rightarrow> string \<Rightarrow> db \<Rightarrow> (error + billing_result) \<times> db" where
  "recompute_tx E tenantId s =
     run_tx (\<lambda>s. recompute_write E (catalog_resolve s) tenantId (countBillableUnits tenantId s) s) s"

fun push_rows ::
  "'w billing_provider \<Rightarrow> subscription \<Rightarrow> string \<Rightarrow> db \<Rightarrow> pricing_item list \<Rightarrow> 'w \<Rightarrow> (error + unit) \<times> 'w"
where
  "push_rows B sub stripeSub s [] w = (Inr (), w)"
| "push_rows B sub stripeSub s (row # rows) w =
     (case pri_stripePriceId row of
        None \<Rightarrow> push_rows B sub stripeSub s rows w
      | Some price \<Rightarrow>
          (case List.find (at_item (sub_id sub) (pri_id row)) (subscriptionItems s) of
             None \<Rightarrow> push_rows B sub stripeSub s rows w
           | Some item \<Rightarrow>
               (case bp_updateSubscriptionItemQuantity B stripeSub price (sit_quantity item) w of
                  (Inl e, w1) \<Rightarrow> (Inl e, w1)
                | (Inr _, w1) \<Rightarrow> push_rows B sub stripeSub s rows w1)))"

definition push_quantities ::
  "'w billing_provider \<Rightarrow> string \<Rightarrow> db \<Rightarrow> 'w \<Rightarrow> (error + unit) \<times> 'w" where
  "push_quantities B tenantId s w =
     (if \<not> bp_isConfigured B then (Inr (), w)
      else case List.find (\<lambda>x. sub_tenantId x = tenantId) (subscriptions s) of
             None \<Rightarrow> (Inr (), w)
           | Some sub \<Rightarrow>
               (case sub_stripeSubscriptionId sub of
                  None \<Rightarrow> (Inr (), w)
                | Some stripeSub \<Rightarrow>
                    push_rows B sub stripeSub s
                      (filter (\<lambda>r. pri_key r \<in> {''extra_branch'', ''extra_user''})
                         (pricingCatalogItems s)) w))"

definition recomputeSubscriptionItems ::
  "env \<Rightarrow> 'w billing_provider \<Rightarrow> string \<Rightarrow> db \<Rightarrow> 'w \<Rightarrow> (error + billing_preview) \<times> db \<times> 'w" where
  "recomputeSubscriptionItems E B tenantId s w =
     (case recompute_tx E tenantId s of
        (Inl e, s1) \<Rightarrow> (Inl e, s1, w)
      | (Inr r, s1) \<Rightarrow>
          (case push_quantities B tenantId s1 w of
             (Inl e, w1) \<Rightarrow> (Inl e, s1, w1)
           | (Inr _, w1) \<Rightarrow>
               let (b, u) = countBillableUnits tenantId s1
               in (Inr \<lparr>pv_result = r, pv_activeBranchCount = b, pv_billableUserCount = u\<rparr>, s1, w1)))"

definition cancelSubscription ::
  "env \<Rightarrow> 'w billing_provider \<Rightarrow> int \<Rightarrow> string \<Rightarrow> string \<Rightarrow> db \<Rightarrow> 'w \<Rightarrow> (error + unit) \<times> db \<times> 'w" where
  "cancelSubscription E B now tenantId actorUserId s w =
     (case List.find (\<lambda>x. sub_tenantId x = tenantId) (subscriptions s) of
        None \<Rightarrow> (Inl (RecordNotFound ''Subscription''), s, w)
      | Some sub \<Rightarrow>
          (case (if bp_isConfigured B
                 then (case sub_stripeSubscriptionId sub of
                         None \<Rightarrow> (Inr (), w)
                       | Some x \<Rightarrow> bp_cancelSubscription B x w)
                 else (Inr (), w)) of
             (Inl e, w1) \<Rightarrow> (Inl e, s, w1)
           | (Inr _, w1) \<Rightarrow>
               let s1 = s\<lparr>subscriptions := update_where (\<lambda>x. sub_tenantId x = tenantId)
                          (\<lambda>x. x\<lparr>sub_status := SubCANCELED, sub_canceledAt := Some now,
                                 sub_cancelAtPeriodEnd := True\<rparr>) (subscriptions s)\<rparr>;
                   s2 = audit_record E (audit_in (Some tenantId) (Some actorUserId)
                          ''billing.subscription_canceled'' ''Subscription'' (sub_id sub) None) s1
               in (Inr (), s2, w1)))"

section \<open>What an upsert keeps\<close>

lemma upsert_item_frame [simp]:
  "subscriptions (upsert_item E sub item q s) = subscriptions s"
  "pricingCatalogItems (upsert_item E sub item q s) = pricingCatalogItems s"
  "branches (upsert_item E sub item q s) = branches s"
  "memberships (upsert_item E sub item q s) = memberships s"
  "auditEvents (upsert_item E sub item q s) = auditEvents s"
  by (auto simp: upsert_item_def split: option.splits)

lemma row_of_key_frame:
  "pricingCatalogItems t = pricingCatalogItems s \<Longrightarrow> row_of_key k t = row_of_key k s"
  by (simp add: row_of_key_def)

lemma counts_frame:
  assumes "branches t = branches s" and "memberships t = memberships s"
  shows "countBillableUnits x t = countBillableUnits x s"
  using assms by (simp add: countBillableUnits_def active_branches_def billable_users_def)

lemma catalog_resolve_frame:
  "pricingCatalogItems t = pricingCatalogItems s \<Longrightarrow> catalog_resolve t = catalog_resolve s"
  by (simp add: catalog_resolve_def)

lemma at_item_quantity [simp]: "at_item a b (i\<lparr>sit_quantity := q\<rparr>) = at_item a b i"
  by (simp add: at_item_def)

definition quantity_of :: "string \<Rightarrow> string \<Rightarrow> db \<Rightarrow> int option" where
  "quantity_of subId itemId s =
     map_option sit_quantity (List.find (at_item subId itemId) (subscriptionItems s))"

lemma upsert_item_sets:
  "quantity_of (sub_id sub) (pri_id p) (upsert_item E sub (Some p) q s) = Some q"
proof (cases "List.find (at_item (sub_id sub) (pri_id p)) (subscriptionItems s)")
  case None
  then have "\<not> list_ex (at_item (sub_id sub) (pri_id p)) (subscriptionItems s)"
    by (auto simp: find_None_iff list_ex_iff)
  with None show ?thesis by (simp add: quantity_of_def upsert_item_def at_item_def)
next
  case (Some i)
  then have "list_ex (at_item (sub_id sub) (pri_id p)) (subscriptionItems s)" "at_item (sub_id sub) (pri_id p) i"
    by (auto dest: find_SomeD simp: list_ex_iff)
  with Some show ?thesis
    by (simp add: quantity_of_def upsert_item_def find_update_where_same)
qed

lemma upsert_item_other:
  assumes "\<And>p. item = Some p \<Longrightarrow> (x, y) \<noteq> (sub_id sub, pri_id p)"
  shows "quantity_of x y (upsert_item E sub item q s) = quantity_of x y s"
proof (cases item)
  case (Some p)
  have xy: "\<not> (x = sub_id sub \<and> y = pri_id p)" using assms Some by auto
  then have other: "\<not> (at_item x y i \<and> at_item (sub_id sub) (pri_id p) i)" for i
    by (auto simp: at_item_def)
  have "map_option sit_quantity (List.find (at_item x y)
          (update_where (at_item (sub_id sub) (pri_id p)) (\<lambda>i. i\<lparr>sit_quantity := q\<rparr>) (subscriptionItems s)))
      = map_option sit_quantity (List.find (at_item x y) (subscriptionItems s))"
    using other
    by (subst find_update_where_same) (auto simp: option.map_comp split: option.splits dest: find_SomeD
        intro!: map_option_cong)
  then show ?thesis
    using xy Some by (auto simp: quantity_of_def upsert_item_def at_item_def [of x y] split: option.splits)
qed (simp add: upsert_item_def)

lemma upsert_item_twice:
  assumes "quantity_of (sub_id sub) (pri_id p) s = Some q"
    and "distinct (map (\<lambda>i. (sit_subscriptionId i, sit_pricingCatalogItemId i)) (subscriptionItems s))"
  shows "upsert_item E sub (Some p) q s = s"
proof -
  obtain i where i: "List.find (at_item (sub_id sub) (pri_id p)) (subscriptionItems s) = Some i"
    "sit_quantity i = q" using assms(1) by (auto simp: quantity_of_def)
  then have ex: "list_ex (at_item (sub_id sub) (pri_id p)) (subscriptionItems s)"
    by (auto simp: list_ex_iff dest: find_SomeD)
  have "j = i" if "j \<in> set (subscriptionItems s)" "at_item (sub_id sub) (pri_id p) j" for j
    using that i(1) distinct_keyD [OF assms(2)] by (auto simp: at_item_def dest!: find_SomeD)
  then have "update_where (at_item (sub_id sub) (pri_id p)) (\<lambda>i. i\<lparr>sit_quantity := q\<rparr>)
      (subscriptionItems s) = subscriptionItems s"
    using i(2) by (auto simp: update_where_def map_idI)
  with ex show ?thesis by (simp add: upsert_item_def)
qed

lemma upsert_item_keys:
  "distinct (map (\<lambda>i. (sit_subscriptionId i, sit_pricingCatalogItemId i)) (subscriptionItems s)) \<Longrightarrow>
   distinct (map (\<lambda>i. (sit_subscriptionId i, sit_pricingCatalogItemId i))
     (subscriptionItems (upsert_item E sub item q s)))"
  by (auto simp: upsert_item_def map_update_where_same list_ex_iff at_item_def split: option.splits)

lemma row_of_key_distinct:
  assumes "row_of_key k s = Some p" and "row_of_key l s = Some q" and "k \<noteq> l"
    and "distinct (map pri_id (pricingCatalogItems s))"
  shows "pri_id p \<noteq> pri_id q"
proof
  assume "pri_id p = pri_id q"
  moreover have "p \<in> set (pricingCatalogItems s)" "q \<in> set (pricingCatalogItems s)"
    "pri_key p = k" "pri_key q = l"
    using assms(1,2) by (auto simp: row_of_key_def dest!: find_SomeD)
  ultimately show False using distinct_keyD [OF assms(4)] assms(3) by metis
qed

lemma countBillableUnits_ge: "countBillableUnits t s = (b, u) \<Longrightarrow> 1 \<le> b \<and> 1 \<le> u"
  by (auto simp: countBillableUnits_def)

text \<open>What the writing part leaves, for whatever counts it was given.\<close>

lemma recompute_write_spec:
  assumes sub: "List.find (\<lambda>x. sub_tenantId x = t) (subscriptions s) = Some sub"
    and ids: "distinct (map pri_id (pricingCatalogItems s))"
    and counts: "1 \<le> b" "1 \<le> u"
  shows "\<exists>r s'. recompute_write E catalog t (b, u) s = Inr (r, s') \<and>
     bres_totalUsdCents r = rc_basePriceUsdCents catalog + (b - 1) * rc_branchPriceUsdCents catalog
        + (u - 1) * rc_userPriceUsdCents catalog \<and>
     (\<forall>p. row_of_key ''base'' s = Some p \<longrightarrow> quantity_of (sub_id sub) (pri_id p) s' = Some 1) \<and>
     (\<forall>p. row_of_key ''extra_branch'' s = Some p \<longrightarrow> quantity_of (sub_id sub) (pri_id p) s' = Some (b - 1)) \<and>
     (\<forall>p. row_of_key ''extra_user'' s = Some p \<longrightarrow> quantity_of (sub_id sub) (pri_id p) s' = Some (u - 1)) \<and>
     (\<forall>x y. x \<noteq> sub_id sub \<longrightarrow> quantity_of x y s' = quantity_of x y s) \<and>
     subscriptions s' = subscriptions s \<and> pricingCatalogItems s' = pricingCatalogItems s \<and>
     branches s' = branches s \<and> memberships s' = memberships s"
proof -
  obtain r where r: "calculateMonthlyBilling (billing_args catalog b u None) = Inr r"
    "bres_totalUsdCents r = rc_basePriceUsdCents catalog + (b - 1) * rc_branchPriceUsdCents catalog
        + (u - 1) * rc_userPriceUsdCents catalog"
    using billing_total [of "billing_args catalog b u None" b u] counts
    by (auto simp: billing_args_def default_def addons_total_def)
  have aud: "quantity_of x y (audit_record E i z) = quantity_of x y z" for x y i z
    by (simp add: quantity_of_def)
  have neq: "pri_id p \<noteq> pri_id q" if "row_of_key k s = Some p" "row_of_key l s = Some q" "k \<noteq> l" for k l p q
    using that ids by (rule row_of_key_distinct)
  have other: "quantity_of (sub_id sub) (pri_id p) (upsert_item E sub (row_of_key l s) q z)
      = quantity_of (sub_id sub) (pri_id p) z" if "row_of_key k s = Some p" "k \<noteq> l" for k l p q z
    using neq that by (intro upsert_item_other) auto
  note others = other [of "''base''" _ "''extra_branch''"] other [of "''base''" _ "''extra_user''"]
    other [of "''extra_branch''" _ "''extra_user''"]
  show ?thesis
    unfolding recompute_write_def Let_def split_conv sub someE_simps bindE.simps r(1)
    using r(2) counts
    by (auto simp: aud others upsert_item_sets upsert_item_other)
qed

lemma recompute_tx_unfold:
  "recompute_tx E t s =
     run_tx (recompute_write E (catalog_resolve s) t (countBillableUnits t s)) s"
  by (simp add: recompute_tx_def run_tx_def)

lemma recompute_tx_commits:
  assumes "List.find (\<lambda>x. sub_tenantId x = t) (subscriptions s) = Some sub"
    and "distinct (map pri_id (pricingCatalogItems s))"
  shows "\<exists>r s'. recompute_tx E t s = (Inr r, s')"
proof -
  obtain b u where bu: "countBillableUnits t s = (b, u)" "1 \<le> b" "1 \<le> u"
    using countBillableUnits_ge by (metis surj_pair)
  then show ?thesis
    using recompute_write_spec [OF assms bu(2,3), of E "catalog_resolve s"]
    by (auto simp: recompute_tx_unfold err_simps)
qed

section \<open>Properties\<close>


definition demo_billing_db :: db where
  "demo_billing_db = empty_db\<lparr>
     pricingCatalogItems :=
       [\<lparr>pri_id = ''p0'', pri_key = ''base'', pri_name = ''Base'', pri_kind = BASE,
          pri_unitPriceUsdCents = 1000, pri_version = 1, pri_isActive = True, pri_stripePriceId = None\<rparr>,
        \<lparr>pri_id = ''p1'', pri_key = ''extra_branch'', pri_name = ''Branch'', pri_kind = BRANCH,
          pri_unitPriceUsdCents = 500, pri_version = 1, pri_isActive = True,
          pri_stripePriceId = Some ''price_b''\<rparr>],
     subscriptions :=
       [\<lparr>sub_id = ''s1'', sub_tenantId = ''t1'', sub_stripeSubscriptionId = Some ''sub_1'',
          sub_status = SubTRIALING, sub_currentPeriodStart = None, sub_currentPeriodEnd = None,
          sub_trialEndsAt = None, sub_cancelAtPeriodEnd = False, sub_canceledAt = None\<rparr>],
     branches := map (\<lambda>i. \<lparr>br_id = i, br_tenantId = ''t1'', br_name = i, br_address = None,
          br_timezone = ''UTC'', br_currency = ''USD'', br_isActive = True, br_isBillable = True,
          br_archivedAt = None, br_createdAt = 0\<rparr>) [''b1'', ''b2'', ''b3'']\<rparr>"


text \<open>Recomputing is idempotent: run again on the database it leaves, it returns the same
  price and changes no subscription item; an upsert never creates a second row for the same
  subscription and catalog item.\<close>
theorem recompute_idempotent:
  assumes sub: "List.find (\<lambda>x. sub_tenantId x = t) (subscriptions s) = Some sub"
    and ids: "distinct (map pri_id (pricingCatalogItems s))"
    and keys: "distinct (map (\<lambda>i. (sit_subscriptionId i, sit_pricingCatalogItemId i)) (subscriptionItems s))"
    and first: "recompute_tx E t s = (Inr r, s1)"
  shows "\<exists>s2. recompute_tx E t s1 = (Inr r, s2) \<and> subscriptionItems s2 = subscriptionItems s1 \<and>
     distinct (map (\<lambda>i. (sit_subscriptionId i, sit_pricingCatalogItemId i)) (subscriptionItems s2))"
proof -
  obtain b u where bu: "countBillableUnits t s = (b, u)" "1 \<le> b" "1 \<le> u"
    using countBillableUnits_ge by (metis surj_pair)
  have w: "recompute_write E (catalog_resolve s) t (b, u) s = Inr (r, s1)"
    using first by (simp add: recompute_tx_unfold bu err_simps)
  then have keys1: "distinct (map (\<lambda>i. (sit_subscriptionId i, sit_pricingCatalogItemId i)) (subscriptionItems s1))"
    using keys by (auto simp: recompute_write_def sub Let_def err_simps intro!: upsert_item_keys)
  have spec: "(\<forall>p. row_of_key ''base'' s = Some p \<longrightarrow> quantity_of (sub_id sub) (pri_id p) s1 = Some 1)"
    "(\<forall>p. row_of_key ''extra_branch'' s = Some p \<longrightarrow> quantity_of (sub_id sub) (pri_id p) s1 = Some (b - 1))"
    "(\<forall>p. row_of_key ''extra_user'' s = Some p \<longrightarrow> quantity_of (sub_id sub) (pri_id p) s1 = Some (u - 1))"
    "subscriptions s1 = subscriptions s" "pricingCatalogItems s1 = pricingCatalogItems s"
    "branches s1 = branches s" "memberships s1 = memberships s"
    using recompute_write_spec [OF sub ids bu(2,3), of E "catalog_resolve s"] w by auto
  have same: "upsert_item E sub (row_of_key k s) q s1 = s1"
    if "\<forall>p. row_of_key k s = Some p \<longrightarrow> quantity_of (sub_id sub) (pri_id p) s1 = Some q" for k q
    using that upsert_item_twice [OF _ keys1]
    by (cases "row_of_key k s") (auto simp: upsert_item_def)
  have frame: "catalog_resolve s1 = catalog_resolve s" "countBillableUnits t s1 = (b, u)"
    "row_of_key k s1 = row_of_key k s" for k
    using catalog_resolve_frame [OF spec(5)] counts_frame [OF spec(6,7)] row_of_key_frame [OF spec(5)] bu(1)
    by simp_all
  have up: "upsert_item E sub (row_of_key ''base'' s) 1 s1 = s1"
    "upsert_item E sub (row_of_key ''extra_branch'' s) (b - 1) s1 = s1"
    "upsert_item E sub (row_of_key ''extra_user'' s) (u - 1) s1 = s1"
    using spec(1-3) by (auto intro!: same)
  have r: "calculateMonthlyBilling (billing_args (catalog_resolve s) b u None) = Inr r"
    using w by (auto simp: recompute_write_def sub Let_def err_simps)
  show ?thesis
    using bu(2,3) keys1
    by (simp add: recompute_tx_unfold frame recompute_write_def spec(4) sub up r Let_def run_tx_def max_absorb2)
qed

theorem recompute_idempotent_witness:
  "\<exists>r s1 s2. recompute_tx sample_env ''t1'' demo_billing_db = (Inr r, s1) \<and>
     recompute_tx sample_env ''t1'' s1 = (Inr r, s2) \<and> subscriptionItems s2 = subscriptionItems s1"
proof -
  let ?sub = "hd (subscriptions demo_billing_db)"
  have s: "List.find (\<lambda>x. sub_tenantId x = ''t1'') (subscriptions demo_billing_db) = Some ?sub"
    and d: "distinct (map pri_id (pricingCatalogItems demo_billing_db))"
    and k: "distinct (map (\<lambda>i. (sit_subscriptionId i, sit_pricingCatalogItemId i)) (subscriptionItems demo_billing_db))"
    by (simp_all add: demo_billing_db_def empty_db_def)
  obtain r s1 where "recompute_tx sample_env ''t1'' demo_billing_db = (Inr r, s1)"
    using recompute_tx_commits [OF s d] by blast
  then show ?thesis using recompute_idempotent [OF s d k] by blast
qed

text \<open>The counts are read before any row is locked, and the write stores the counts that were
  read, whatever the database has become in between: when another transaction activates a branch
  between the count and the write, the subscription is left charging fewer branches than are
  active.\<close>
theorem recompute_stores_the_counts_read:
  assumes sub: "List.find (\<lambda>x. sub_tenantId x = t) (subscriptions s') = Some sub"
    and ids: "distinct (map pri_id (pricingCatalogItems s'))"
    and row: "row_of_key ''extra_branch'' s' = Some p"
    and late: "recompute_write E catalog t (countBillableUnits t s) s' = Inr (r, s'')"
  shows "quantity_of (sub_id sub) (pri_id p) s'' = Some (int (active_branches t s - 1)) \<and>
     active_branches t s'' = active_branches t s'"
proof -
  let ?b = "max 1 (int (active_branches t s))" and ?u = "max 1 (int (billable_users t s))"
  have "?b - 1 = int (active_branches t s - 1)" by (auto simp: max_def of_nat_diff)
  then show ?thesis
    using recompute_write_spec [OF sub ids, of ?b ?u E catalog] late row
    by (auto simp: countBillableUnits_def active_branches_def)
qed

definition demo_branch_added :: db where
  "demo_branch_added = demo_billing_db\<lparr>branches := branches demo_billing_db @
     [hd (branches demo_billing_db)\<lparr>br_id := ''b4''\<rparr>]\<rparr>"

theorem recompute_stores_the_counts_read_witness:
  "\<exists>r s''. recompute_write sample_env (catalog_resolve demo_billing_db) ''t1''
       (countBillableUnits ''t1'' demo_billing_db) demo_branch_added = Inr (r, s'') \<and>
     quantity_of ''s1'' ''p1'' s'' = Some 2 \<and> active_branches ''t1'' s'' = 4"
proof -
  let ?s = "demo_billing_db" and ?p = "pricingCatalogItems demo_billing_db ! 1"
  let ?sub = "hd (subscriptions demo_billing_db)"
  have s: "List.find (\<lambda>x. sub_tenantId x = ''t1'') (subscriptions demo_branch_added) = Some ?sub"
    and d: "distinct (map pri_id (pricingCatalogItems demo_branch_added))"
    and k: "row_of_key ''extra_branch'' demo_branch_added = Some ?p"
    and n: "pri_id ?p = ''p1''" "sub_id ?sub = ''s1''"
    by (simp_all add: demo_branch_added_def demo_billing_db_def row_of_key_def)
  have c: "active_branches ''t1'' ?s = 3" "active_branches ''t1'' demo_branch_added = 4"
    by (simp_all add: demo_branch_added_def demo_billing_db_def active_branches_def)
  obtain r s'' where w: "recompute_write sample_env (catalog_resolve ?s) ''t1''
      (countBillableUnits ''t1'' ?s) demo_branch_added = Inr (r, s'')"
    using recompute_write_spec [OF s d] countBillableUnits_ge by (metis surj_pair)
  from recompute_stores_the_counts_read [OF s d k w] w n show ?thesis by (simp add: c)
qed

end
