(* ===== verification/Seed.thy ===== *)
theory Seed
  imports Access_Control Billing_Service
begin

text \<open>
  \<open>packages/database/prisma/seed.ts\<close>: the pricing catalog and the system role templates. A role's
  permission rows are kept in the role; their upsert on \<open>(roleId, permissionKey)\<close> is
  \<open>upsert_permission\<close>.
\<close>

definition seed_item :: "env \<Rightarrow> string \<times> string \<times> pricing_item_kind \<times> int \<Rightarrow> db \<Rightarrow> db" where
  "seed_item E item s =
     (case item of (key, name, kind, price) \<Rightarrow>
        if taken pri_key key (pricingCatalogItems s)
        then s\<lparr>pricingCatalogItems := update_where (\<lambda>p. pri_key p = key)
                 (\<lambda>p. p\<lparr>pri_name := name, pri_unitPriceUsdCents := price, pri_kind := kind\<rparr>)
                 (pricingCatalogItems s)\<rparr>
        else s\<lparr>pricingCatalogItems := pricingCatalogItems s @
                 [\<lparr>pri_id = uuid E (seq s), pri_key = key, pri_name = name, pri_kind = kind,
                   pri_unitPriceUsdCents = price, pri_version = 1, pri_isActive = True,
                   pri_stripePriceId = None\<rparr>],
               seq := Suc (seq s)\<rparr>)"

definition seedPricingCatalog :: "env \<Rightarrow> db \<Rightarrow> db" where
  "seedPricingCatalog E s =
     fold (seed_item E)
       [(''base'', ''Base subscription'', BASE, DEFAULT_BASE_PRICE_USD_CENTS),
        (''extra_branch'', ''Additional branch'', BRANCH, DEFAULT_BRANCH_PRICE_USD_CENTS),
        (''extra_user'', ''Additional user'', USER, DEFAULT_USER_PRICE_USD_CENTS)] s"

fun roleLabel :: "system_role \<Rightarrow> string" where
  "roleLabel OWNER = ''Owner''"
| "roleLabel MANAGER = ''Manager''"
| "roleLabel CASHIER = ''Cashier''"
| "roleLabel INVENTORY_CLERK = ''Inventory Clerk''"
| "roleLabel VIEWER = ''Viewer / Accountant''"

definition upsert_permission :: "permission \<Rightarrow> role_permission list \<Rightarrow> role_permission list" where
  "upsert_permission p rps =
     (if taken rp_permissionKey (permission_key p) rps
      then update_where (\<lambda>rp. rp_permissionKey rp = permission_key p) (\<lambda>rp. rp\<lparr>rp_allowed := True\<rparr>) rps
      else rps @ [\<lparr>rp_permissionKey = permission_key p, rp_allowed = True\<rparr>])"

definition is_system_role :: "system_role \<Rightarrow> role \<Rightarrow> bool" where
  "is_system_role k r \<longleftrightarrow> rol_tenantId r = None \<and> rol_key r = system_role_key k"

definition seed_role :: "env \<Rightarrow> system_role \<Rightarrow> db \<Rightarrow> db" where
  "seed_role E k s =
     (let (s1, roleId) =
        (case List.find (is_system_role k) (roles s) of
           Some existing \<Rightarrow>
             (s\<lparr>roles := update_where (\<lambda>r. rol_id r = rol_id existing) (\<lambda>r. r\<lparr>rol_name := roleLabel k\<rparr>)
                           (roles s)\<rparr>, rol_id existing)
         | None \<Rightarrow>
             (s\<lparr>roles := roles s @ [\<lparr>rol_id = uuid E (seq s), rol_tenantId = None,
                   rol_key = system_role_key k, rol_name = roleLabel k, rol_isSystem = True,
                   rol_permissions = []\<rparr>],
                seq := Suc (seq s)\<rparr>, uuid E (seq s)))
      in s1\<lparr>roles := update_where (\<lambda>r. rol_id r = roleId)
              (\<lambda>r. r\<lparr>rol_permissions := fold upsert_permission (default_role_permissions k) (rol_permissions r)\<rparr>)
              (roles s1)\<rparr>)"

definition seedSystemRoles :: "env \<Rightarrow> db \<Rightarrow> db" where
  "seedSystemRoles E s = fold (seed_role E) [OWNER, MANAGER, CASHIER, INVENTORY_CLERK, VIEWER] s"

definition seed_main :: "env \<Rightarrow> db \<Rightarrow> db" where
  "seed_main E s = seedSystemRoles E (seedPricingCatalog E s)"

section \<open>What seeding grants\<close>

definition allowed_keys :: "role_permission list \<Rightarrow> string set" where
  "allowed_keys rps = {rp_permissionKey rp | rp. rp \<in> set rps \<and> rp_allowed rp}"

lemma granted_allowed: "granted_keys r = allowed_keys (rol_permissions r)"
  by (auto simp: granted_keys_def allowed_keys_def)

lemma allowed_keys_simps [simp]:
  "allowed_keys [] = {}"
  "allowed_keys (rp # rps) = (if rp_allowed rp then insert (rp_permissionKey rp) (allowed_keys rps)
                              else allowed_keys rps)"
  "allowed_keys (rps @ qs) = allowed_keys rps \<union> allowed_keys qs"
  by (auto simp: allowed_keys_def)

lemma update_allowed:
  "allowed_keys (update_where (\<lambda>rp. rp_permissionKey rp = k) (\<lambda>rp. rp\<lparr>rp_allowed := True\<rparr>) rps)
     = (if taken rp_permissionKey k rps then insert k (allowed_keys rps) else allowed_keys rps)"
  by (induction rps) auto

lemma upsert_permission_allowed:
  "allowed_keys (upsert_permission p rps) = insert (permission_key p) (allowed_keys rps)"
  by (auto simp: upsert_permission_def update_allowed)

lemma fold_upsert_allowed:
  "allowed_keys (fold upsert_permission ps rps) = permission_key ` set ps \<union> allowed_keys rps"
  by (induction ps arbitrary: rps) (auto simp: upsert_permission_allowed)

lemma find_system_role_other:
  assumes "k \<noteq> l" and "is_system_role k r" shows "\<not> is_system_role l r"
  using assms by (cases k; cases l) (auto simp: is_system_role_def)

text \<open>One role of the seed: it exists afterwards with its default grants, and every other role keeps
  its permissions.\<close>

lemma seed_role_self:
  assumes ids: "distinct (map rol_id (roles s))"
    and fresh: "uuid E (seq s) \<notin> rol_id ` set (roles s)"
  shows "\<exists>r. List.find (is_system_role k) (roles (seed_role E k s)) = Some r \<and>
     granted_keys r = permission_key ` set (default_role_permissions k) \<union>
       (case List.find (is_system_role k) (roles s) of None \<Rightarrow> {} | Some q \<Rightarrow> granted_keys q)"
proof (cases "List.find (is_system_role k) (roles s)")
  case None
  have "update_where (\<lambda>r. rol_id r = uuid E (seq s)) f (roles s) = roles s" for f
    using fresh by (force simp: update_where_def intro!: map_idI)
  with None show ?thesis
    by (simp add: seed_role_def is_system_role_def granted_allowed fold_upsert_allowed)
next
  case (Some q)
  then have q: "q \<in> set (roles s)" "is_system_role k q" by (auto dest: find_SomeD)
  let ?f = "\<lambda>r. r\<lparr>rol_name := roleLabel k\<rparr>"
  let ?g = "\<lambda>r. r\<lparr>rol_permissions := fold upsert_permission (default_role_permissions k) (rol_permissions r)\<rparr>"
  have 1: "List.find (is_system_role k) (update_where (\<lambda>r. rol_id r = i) f rs) =
      map_option (\<lambda>r. if rol_id r = i then f r else r) (List.find (is_system_role k) rs)"
    if "\<And>r. is_system_role k (f r) = is_system_role k r" for i f rs
    using that by (intro find_update_where_same) auto
  have "List.find (is_system_role k) (roles (seed_role E k s)) = Some (?g (?f q))"
    by (simp add: seed_role_def Some 1 is_system_role_def)
  then show ?thesis by (simp add: Some granted_allowed fold_upsert_allowed)
qed

lemma seed_role_ids:
  assumes "distinct (map rol_id (roles s))" and "\<forall>n\<ge>seq s. uuid E n \<notin> rol_id ` set (roles s)"
    and "inj (uuid E)"
  shows "distinct (map rol_id (roles (seed_role E k s))) \<and> seq s \<le> seq (seed_role E k s) \<and>
     (\<forall>n\<ge>seq (seed_role E k s). uuid E n \<notin> rol_id ` set (roles (seed_role E k s)))"
proof -
  have m: "rol_id ` set (update_where P f rs) = rol_id ` set rs" if "\<And>r. rol_id (f r) = rol_id r"
    for P f and rs :: "role list"
    by (metis list.set_map map_update_where_same that)
  show ?thesis
    using assms
    by (auto simp: seed_role_def map_update_where_same m inj_eq split: option.splits)
qed

lemma seed_role_other:
  assumes ids: "distinct (map rol_id (roles s))" and fresh: "uuid E (seq s) \<notin> rol_id ` set (roles s)"
    and "k \<noteq> l" and r: "List.find (is_system_role l) (roles s) = Some r"
  shows "\<exists>q. List.find (is_system_role l) (roles (seed_role E k s)) = Some q \<and> granted_keys q = granted_keys r"
proof -
  have rl: "r \<in> set (roles s)" "is_system_role l r" using r by (auto dest: find_SomeD)
  have nk: "\<not> is_system_role k r" using find_system_role_other [of l k r] rl(2) assms(3) by auto
  have 1: "List.find (is_system_role l) (update_where (\<lambda>r. rol_id r = i) f rs) =
      map_option (\<lambda>r. if rol_id r = i then f r else r) (List.find (is_system_role l) rs)"
    if "\<And>r. is_system_role l (f r) = is_system_role l r" for i f rs
    using that by (intro find_update_where_same) auto
  show ?thesis
  proof (cases "List.find (is_system_role k) (roles s)")
    case None
    moreover have "rol_id r \<noteq> uuid E (seq s)" using rl fresh by force
    ultimately show ?thesis using r
      by (simp add: seed_role_def 1 is_system_role_def granted_allowed)
  next
    case (Some e)
    then have "e \<in> set (roles s)" "is_system_role k e" by (auto dest: find_SomeD)
    then have "rol_id r \<noteq> rol_id e" using distinct_keyD [OF ids] rl nk by metis
    then show ?thesis using r by (simp add: seed_role_def Some 1 is_system_role_def granted_allowed)
  qed
qed

definition role_seeded :: "db \<Rightarrow> system_role \<Rightarrow> bool" where
  "role_seeded s k \<longleftrightarrow> (\<exists>r. List.find (is_system_role k) (roles s) = Some r \<and>
     permission_key ` set (default_role_permissions k) \<subseteq> granted_keys r)"

definition roles_ok :: "env \<Rightarrow> db \<Rightarrow> bool" where
  "roles_ok E s \<longleftrightarrow> distinct (map rol_id (roles s)) \<and> (\<forall>n\<ge>seq s. uuid E n \<notin> rol_id ` set (roles s))"

lemma seed_role_step:
  assumes "roles_ok E s" "inj (uuid E)"
  shows "roles_ok E (seed_role E k s)" "role_seeded (seed_role E k s) k"
    "role_seeded s l \<Longrightarrow> role_seeded (seed_role E k s) l"
proof -
  have fresh: "uuid E (seq s) \<notin> rol_id ` set (roles s)" and ids: "distinct (map rol_id (roles s))"
    using assms by (auto simp: roles_ok_def)
  show "roles_ok E (seed_role E k s)"
    using seed_role_ids assms by (simp add: roles_ok_def)
  show self: "role_seeded (seed_role E k s) k"
    using seed_role_self [OF ids fresh, of k] by (auto simp: role_seeded_def)
  show "role_seeded (seed_role E k s) l" if "role_seeded s l"
  proof (cases "l = k")
    case False
    from that obtain r where r: "List.find (is_system_role l) (roles s) = Some r"
      "permission_key ` set (default_role_permissions l) \<subseteq> granted_keys r"
      by (auto simp: role_seeded_def)
    show ?thesis
      using seed_role_other [OF ids fresh _ r(1), of k] False r(2) by (auto simp: role_seeded_def)
  qed (use self in simp)
qed

lemma seedSystemRoles_seeds:
  assumes "roles_ok E s" "inj (uuid E)"
  shows "role_seeded (seedSystemRoles E s) k"
proof -
  note step = seed_role_step [OF _ assms(2)]
  have "role_seeded (fold (seed_role E) ks t) k" if "roles_ok E t" "role_seeded t k \<or> k \<in> set ks" for ks t
    using that by (induction ks arbitrary: t) (auto intro: step)
  moreover have "k \<in> set [OWNER, MANAGER, CASHIER, INVENTORY_CLERK, VIEWER]" by (cases k) auto
  ultimately show ?thesis using assms(1) unfolding seedSystemRoles_def by blast
qed

lemma seedPricingCatalog_roles [simp]: "roles (seedPricingCatalog E s) = roles s"
  by (simp add: seedPricingCatalog_def seed_item_def)

lemma seed_item_seq: "seq s \<le> seq (seed_item E i s)"
  by (auto simp: seed_item_def split: prod.splits)

lemma seedPricingCatalog_seq: "seq s \<le> seq (seedPricingCatalog E s)"
  unfolding seedPricingCatalog_def
  by simp (meson order_trans seed_item_seq)

section \<open>Properties\<close>

text \<open>after the seed has run, on a new database or again on one in use, each system role exists
  and grants at least its default permissions; a user whose membership carries the seeded owner
  role passes the permission check of every route, and one with the viewer role at least those of
  the viewing routes.\<close>
theorem seed_grants_defaults:
  assumes "roles_ok E s" and "inj (uuid E)"
  shows "\<exists>r. List.find (is_system_role k) (roles (seed_main E s)) = Some r \<and>
     permission_key ` set (default_role_permissions k) \<subseteq> granted_keys r \<and>
     (\<forall>ctx m required. ctx_membership ctx = Some m \<and> am_permissions m = granted_keys r \<and>
        (k = OWNER \<or> set required \<subseteq> set (default_role_permissions k)) \<longrightarrow>
        rbac_guard required ctx = Inr ctx)"
proof -
  have "roles_ok E (seedPricingCatalog E s)"
    using assms seedPricingCatalog_seq [of s E] by (auto simp: roles_ok_def)
  then have "role_seeded (seed_main E s) k"
    unfolding seed_main_def using assms(2) by (rule seedSystemRoles_seeds)
  then obtain r where r: "List.find (is_system_role k) (roles (seed_main E s)) = Some r"
    "permission_key ` set (default_role_permissions k) \<subseteq> granted_keys r"
    by (auto simp: role_seeded_def)
  moreover have "set required \<subseteq> set (default_role_permissions OWNER)" for required
    by (simp add: all_permissions)
  ultimately show ?thesis by (fastforce simp: rbac_guard_iff)
qed

theorem seed_grants_defaults_witness:
  "\<exists>r. List.find (is_system_role OWNER) (roles (seed_main sample_env empty_db)) = Some r \<and>
     ''billing.manage'' \<in> granted_keys r"
proof -
  have "roles_ok sample_env empty_db" by (simp add: roles_ok_def empty_db_def)
  from seed_grants_defaults [OF this, of OWNER] obtain r
    where "List.find (is_system_role OWNER) (roles (seed_main sample_env empty_db)) = Some r"
      "permission_key ` set (default_role_permissions OWNER) \<subseteq> granted_keys r" by auto
  moreover have "''billing.manage'' \<in> permission_key ` set (default_role_permissions OWNER)"
    using rangeI [of permission_key BILLING_MANAGE] by (simp add: all_permissions)
  ultimately show ?thesis by blast
qed

end
