(* ===== verification/Inventory.thy ===== *)
theory Inventory
  imports Audit_Outbox Money
begin

text \<open>
  The inventory ledger: \<open>packages/domain/src/inventory.ts\<close> and
  \<open>apps/api/src/inventory/inventory.service.ts\<close>. Movements are appended, the balance row of a
  (location, variant) cell is the maintained projection. Every caller of \<open>recordMovement\<close> passes
  a location, a branch and a variant it has just read, so the foreign keys of the two inserts hold
  and are not represented; quantities are unbounded integers.
\<close>

section \<open>Stock status and replay\<close>

datatype stock_status = Red | Yellow | Green

definition computeStockStatus :: "int \<Rightarrow> int \<Rightarrow> int \<Rightarrow> stock_status" where
  "computeStockStatus availableQuantity reorderPoint warningBuffer =
     (if availableQuantity \<le> 0 \<or> availableQuantity < reorderPoint then Red
      else if availableQuantity \<le> reorderPoint + max 0 warningBuffer then Yellow
      else Green)"

definition replayBalance :: "int \<Rightarrow> int list \<Rightarrow> int" where
  "replayBalance openingBalance deltas = foldl (\<lambda>balance delta. balance + delta) openingBalance deltas"

lemma replayBalance_sum: "replayBalance b ds = b + sum_list ds"
  by (induction ds arbitrary: b) (auto simp: replayBalance_def)

section \<open>Recording a movement\<close>

record movement_input =
  mi_tenantId :: string
  mi_branchId :: string
  mi_stockLocationId :: string
  mi_variantId :: string
  mi_type :: movement_type
  mi_quantityDelta :: int
  mi_reason :: "string option"
  mi_actorUserId :: "string option"
  mi_sourceType :: "string option"
  mi_sourceId :: "string option"
  mi_idempotencyKey :: "string option"

definition at_cell :: "string \<Rightarrow> string \<Rightarrow> balance \<Rightarrow> bool" where
  "at_cell loc var b \<longleftrightarrow> bal_stockLocationId b = loc \<and> bal_variantId b = var"

text \<open>The upsert returns the quantity after the write.\<close>

definition upsert_balance :: "env \<Rightarrow> movement_input \<Rightarrow> db \<Rightarrow> int \<times> db" where
  "upsert_balance E input s =
     (let cell = at_cell (mi_stockLocationId input) (mi_variantId input) in
      case List.find cell (inventoryBalances s) of
        Some b \<Rightarrow>
          (bal_quantity b + mi_quantityDelta input,
           s\<lparr>inventoryBalances := update_where cell
               (\<lambda>b. b\<lparr>bal_quantity := bal_quantity b + mi_quantityDelta input\<rparr>) (inventoryBalances s)\<rparr>)
      | None \<Rightarrow>
          (mi_quantityDelta input,
           s\<lparr>inventoryBalances := inventoryBalances s @
               [\<lparr>bal_id = uuid E (seq s), bal_tenantId = mi_tenantId input,
                 bal_stockLocationId = mi_stockLocationId input, bal_variantId = mi_variantId input,
                 bal_quantity = mi_quantityDelta input\<rparr>],
             seq := Suc (seq s)\<rparr>))"

definition maybePublishLowStockAlert :: "env \<Rightarrow> int \<Rightarrow> movement_input \<Rightarrow> int \<Rightarrow> db \<Rightarrow> db" where
  "maybePublishLowStockAlert E now input newQuantity s =
     (let previousQuantity = newQuantity - mi_quantityDelta input in
      case List.find (\<lambda>v. var_id v = mi_variantId input) (productVariants s) of
        None \<Rightarrow> s
      | Some variant \<Rightarrow>
          let previousStatus = computeStockStatus previousQuantity (var_reorderPoint variant) (var_reorderBuffer variant);
              newStatus = computeStockStatus newQuantity (var_reorderPoint variant) (var_reorderBuffer variant)
          in if newStatus \<noteq> Red \<or> previousStatus = Red then s
             else publish E now
               \<lparr>pi_aggregateType = ''InventoryBalance'',
                pi_aggregateId = mi_stockLocationId input @ '':'' @ mi_variantId input,
                pi_eventType = ''inventory.low_stock'',
                pi_payload = JObj [(''tenantId'', JStr (mi_tenantId input)),
                  (''variantId'', JStr (mi_variantId input)),
                  (''stockLocationId'', JStr (mi_stockLocationId input)),
                  (''productName'', (case List.find (\<lambda>p. prd_id p = var_productId variant) (products s) of
                      None \<Rightarrow> JNull | Some p \<Rightarrow> JStr (prd_name p))),
                  (''sku'', JStr (var_sku variant)), (''quantity'', JNum (of_int newQuantity))]\<rparr> s)"

definition existing_movement :: "movement_input \<Rightarrow> db \<Rightarrow> movement option" where
  "existing_movement input s =
     (case mi_idempotencyKey input of
        Some (c # cs) \<Rightarrow> List.find (\<lambda>m. mov_idempotencyKey m = Some (c # cs)) (inventoryMovements s)
      | _ \<Rightarrow> None)"

definition recordMovement :: "env \<Rightarrow> int \<Rightarrow> movement_input \<Rightarrow> db \<Rightarrow> movement \<times> db" where
  "recordMovement E now input s =
     (case existing_movement input s of
        Some existing \<Rightarrow> (existing, s)
      | None \<Rightarrow>
          let (quantity, s1) = upsert_balance E input s;
              movement = \<lparr>mov_id = uuid E (seq s1), mov_tenantId = mi_tenantId input,
                mov_branchId = mi_branchId input, mov_stockLocationId = mi_stockLocationId input,
                mov_variantId = mi_variantId input, mov_type = mi_type input,
                mov_quantityDelta = mi_quantityDelta input, mov_resultingBalance = quantity,
                mov_reason = mi_reason input, mov_actorUserId = mi_actorUserId input,
                mov_sourceType = mi_sourceType input, mov_sourceId = mi_sourceId input,
                mov_idempotencyKey = mi_idempotencyKey input, mov_createdAt = now\<rparr>;
              s2 = s1\<lparr>inventoryMovements := inventoryMovements s1 @ [movement], seq := Suc (seq s1)\<rparr>
          in (movement, maybePublishLowStockAlert E now input quantity s2))"

section \<open>Adjusting, transferring and listing\<close>

record adjust_input =
  adj_stockLocationId :: string
  adj_variantId :: string
  adj_quantityDelta :: int
  adj_type :: movement_type
  adj_reason :: "string option"
  adj_idempotencyKey :: "string option"

definition adjustStock ::
  "env \<Rightarrow> int \<Rightarrow> string \<Rightarrow> string \<Rightarrow> adjust_input \<Rightarrow> db \<Rightarrow> (error + movement) \<times> db" where
  "adjustStock E now tenantId actorUserId input s =
     (case List.find (\<lambda>l. loc_id l = adj_stockLocationId input \<and> loc_tenantId l = tenantId) (stockLocations s) of
        None \<Rightarrow> (Inl (NotFound ''Stock location not found''), s)
      | Some stockLocation \<Rightarrow>
          (case List.find (\<lambda>v. var_id v = adj_variantId input \<and> var_tenantId v = tenantId) (productVariants s) of
             None \<Rightarrow> (Inl (NotFound ''Product variant not found''), s)
           | Some _ \<Rightarrow>
               run_tx (\<lambda>s.
                 let (movement, s1) = recordMovement E now
                       \<lparr>mi_tenantId = tenantId, mi_branchId = loc_branchId stockLocation,
                        mi_stockLocationId = adj_stockLocationId input, mi_variantId = adj_variantId input,
                        mi_type = adj_type input, mi_quantityDelta = adj_quantityDelta input,
                        mi_reason = adj_reason input, mi_actorUserId = Some actorUserId,
                        mi_sourceType = Some ''manual'', mi_sourceId = None,
                        mi_idempotencyKey = adj_idempotencyKey input\<rparr> s;
                     s2 = audit_record E (audit_in (Some tenantId) (Some actorUserId) ''inventory.adjusted''
                            ''InventoryMovement'' (mov_id movement)
                            (Some (JObj [(''variantId'', JStr (adj_variantId input)),
                               (''quantityDelta'', JNum (of_int (adj_quantityDelta input))),
                               (''reason'', (case adj_reason input of None \<Rightarrow> JNull | Some r \<Rightarrow> JStr r))]))) s1
                 in Inr (movement, s2)) s))"

record transfer_input =
  ti_fromStockLocationId :: string
  ti_toStockLocationId :: string
  ti_lines :: "transfer_line list"
  ti_note :: "string option"

definition transfer_leg ::
  "string \<Rightarrow> string \<Rightarrow> string \<Rightarrow> stock_location \<Rightarrow> movement_type \<Rightarrow> string \<Rightarrow> int \<Rightarrow> movement_input" where
  "transfer_leg tenantId actorUserId transferId loc ty variantId delta =
     \<lparr>mi_tenantId = tenantId, mi_branchId = loc_branchId loc, mi_stockLocationId = loc_id loc,
      mi_variantId = variantId, mi_type = ty, mi_quantityDelta = delta, mi_reason = None,
      mi_actorUserId = Some actorUserId, mi_sourceType = Some ''stock_transfer'',
      mi_sourceId = Some transferId, mi_idempotencyKey = None\<rparr>"

fun transfer_lines ::
  "env \<Rightarrow> int \<Rightarrow> string \<Rightarrow> string \<Rightarrow> string \<Rightarrow> stock_location \<Rightarrow> stock_location \<Rightarrow> transfer_line list \<Rightarrow> db \<Rightarrow> db"
where
  "transfer_lines E now t actor trf from to [] s = s"
| "transfer_lines E now t actor trf from to (line # ls) s =
     (let s1 = snd (recordMovement E now
                 (transfer_leg t actor trf from TRANSFER_DISPATCH (tl_variantId line) (- tl_quantity line)) s);
          s2 = snd (recordMovement E now
                 (transfer_leg t actor trf to TRANSFER_RECEIPT (tl_variantId line) (tl_quantity line)) s1)
      in transfer_lines E now t actor trf from to ls s2)"

definition transferStock ::
  "env \<Rightarrow> int \<Rightarrow> string \<Rightarrow> string \<Rightarrow> transfer_input \<Rightarrow> db \<Rightarrow> (error + transfer) \<times> db" where
  "transferStock E now tenantId actorUserId input s =
     (if ti_fromStockLocationId input = ti_toStockLocationId input
      then (Inl (BadRequest ''Source and destination stock locations must differ''), s)
      else
        let variantIds = map tl_variantId (ti_lines input);
            from = List.find (\<lambda>l. loc_id l = ti_fromStockLocationId input \<and> loc_tenantId l = tenantId) (stockLocations s);
            to = List.find (\<lambda>l. loc_id l = ti_toStockLocationId input \<and> loc_tenantId l = tenantId) (stockLocations s);
            variants = filter (\<lambda>v. var_id v \<in> set variantIds \<and> var_tenantId v = tenantId) (productVariants s)
        in case (from, to) of
             (Some from, Some to) \<Rightarrow>
               if length variants \<noteq> card (set variantIds)
               then (Inl (NotFound ''One or more product variants not found''), s)
               else run_tx (\<lambda>s.
                 let transfer = \<lparr>trf_id = uuid E (seq s), trf_tenantId = tenantId,
                       trf_fromStockLocationId = loc_id from, trf_toStockLocationId = loc_id to,
                       trf_status = RECEIVED, trf_note = ti_note input, trf_initiatedByUserId = actorUserId,
                       trf_receivedAt = Some now, trf_lines = ti_lines input\<rparr>;
                     s1 = s\<lparr>stockTransfers := stockTransfers s @ [transfer], seq := Suc (seq s)\<rparr>;
                     s2 = transfer_lines E now tenantId actorUserId (trf_id transfer) from to (ti_lines input) s1;
                     s3 = audit_record E (audit_in (Some tenantId) (Some actorUserId) ''inventory.transferred''
                            ''StockTransfer'' (trf_id transfer) None) s2
                 in Inr (transfer, s3)) s
           | _ \<Rightarrow> (Inl (NotFound ''Stock location not found''), s))"

definition listMovements :: "string \<Rightarrow> string \<Rightarrow> string \<Rightarrow> db \<Rightarrow> movement list" where
  "listMovements tenantId stockLocationId variantId s =
     take 200 (sort_key (\<lambda>m. - mov_createdAt m)
       (filter (\<lambda>m. mov_tenantId m = tenantId \<and> mov_stockLocationId m = stockLocationId \<and>
                    mov_variantId m = variantId) (inventoryMovements s)))"

section \<open>What a movement changes\<close>

lemma maybePublish_frame [simp]:
  "tenants (maybePublishLowStockAlert E now i q s) = tenants s"
  "pricingCatalogItems (maybePublishLowStockAlert E now i q s) = pricingCatalogItems s"
  "subscriptions (maybePublishLowStockAlert E now i q s) = subscriptions s"
  "subscriptionItems (maybePublishLowStockAlert E now i q s) = subscriptionItems s"
  "billingEvents (maybePublishLowStockAlert E now i q s) = billingEvents s"
  "users (maybePublishLowStockAlert E now i q s) = users s"
  "identityProviderAccounts (maybePublishLowStockAlert E now i q s) = identityProviderAccounts s"
  "sessions (maybePublishLowStockAlert E now i q s) = sessions s"
  "roles (maybePublishLowStockAlert E now i q s) = roles s"
  "memberships (maybePublishLowStockAlert E now i q s) = memberships s"
  "invitations (maybePublishLowStockAlert E now i q s) = invitations s"
  "branches (maybePublishLowStockAlert E now i q s) = branches s"
  "stockLocations (maybePublishLowStockAlert E now i q s) = stockLocations s"
  "registers (maybePublishLowStockAlert E now i q s) = registers s"
  "taxClasses (maybePublishLowStockAlert E now i q s) = taxClasses s"
  "products (maybePublishLowStockAlert E now i q s) = products s"
  "productVariants (maybePublishLowStockAlert E now i q s) = productVariants s"
  "stockTransfers (maybePublishLowStockAlert E now i q s) = stockTransfers s"
  "customers (maybePublishLowStockAlert E now i q s) = customers s"
  "sales (maybePublishLowStockAlert E now i q s) = sales s"
  "quotes (maybePublishLowStockAlert E now i q s) = quotes s"
  "invoices (maybePublishLowStockAlert E now i q s) = invoices s"
  "expenseCategories (maybePublishLowStockAlert E now i q s) = expenseCategories s"
  "expenses (maybePublishLowStockAlert E now i q s) = expenses s"
  "auditEvents (maybePublishLowStockAlert E now i q s) = auditEvents s"
  "inventoryBalances (maybePublishLowStockAlert E now i q s) = inventoryBalances s"
  "inventoryMovements (maybePublishLowStockAlert E now i q s) = inventoryMovements s"
  by (simp_all add: maybePublishLowStockAlert_def Let_def split: option.split)

lemma upsert_balance_frame [simp]:
  "tenants (snd (upsert_balance E i s)) = tenants s"
  "pricingCatalogItems (snd (upsert_balance E i s)) = pricingCatalogItems s"
  "subscriptions (snd (upsert_balance E i s)) = subscriptions s"
  "subscriptionItems (snd (upsert_balance E i s)) = subscriptionItems s"
  "billingEvents (snd (upsert_balance E i s)) = billingEvents s"
  "users (snd (upsert_balance E i s)) = users s"
  "identityProviderAccounts (snd (upsert_balance E i s)) = identityProviderAccounts s"
  "sessions (snd (upsert_balance E i s)) = sessions s"
  "roles (snd (upsert_balance E i s)) = roles s"
  "memberships (snd (upsert_balance E i s)) = memberships s"
  "invitations (snd (upsert_balance E i s)) = invitations s"
  "branches (snd (upsert_balance E i s)) = branches s"
  "stockLocations (snd (upsert_balance E i s)) = stockLocations s"
  "registers (snd (upsert_balance E i s)) = registers s"
  "taxClasses (snd (upsert_balance E i s)) = taxClasses s"
  "products (snd (upsert_balance E i s)) = products s"
  "productVariants (snd (upsert_balance E i s)) = productVariants s"
  "stockTransfers (snd (upsert_balance E i s)) = stockTransfers s"
  "customers (snd (upsert_balance E i s)) = customers s"
  "sales (snd (upsert_balance E i s)) = sales s"
  "quotes (snd (upsert_balance E i s)) = quotes s"
  "invoices (snd (upsert_balance E i s)) = invoices s"
  "expenseCategories (snd (upsert_balance E i s)) = expenseCategories s"
  "expenses (snd (upsert_balance E i s)) = expenses s"
  "auditEvents (snd (upsert_balance E i s)) = auditEvents s"
  "inventoryMovements (snd (upsert_balance E i s)) = inventoryMovements s"
  "outboxEvents (snd (upsert_balance E i s)) = outboxEvents s"
  by (simp_all add: upsert_balance_def Let_def split: option.split)

lemma recordMovement_unfold:
  "recordMovement E now i s =
     (case existing_movement i s of
        Some m \<Rightarrow> (m, s)
      | None \<Rightarrow>
          let q = fst (upsert_balance E i s); s1 = snd (upsert_balance E i s);
              m = \<lparr>mov_id = uuid E (seq s1), mov_tenantId = mi_tenantId i,
                mov_branchId = mi_branchId i, mov_stockLocationId = mi_stockLocationId i,
                mov_variantId = mi_variantId i, mov_type = mi_type i,
                mov_quantityDelta = mi_quantityDelta i, mov_resultingBalance = q,
                mov_reason = mi_reason i, mov_actorUserId = mi_actorUserId i,
                mov_sourceType = mi_sourceType i, mov_sourceId = mi_sourceId i,
                mov_idempotencyKey = mi_idempotencyKey i, mov_createdAt = now\<rparr>
          in (m, maybePublishLowStockAlert E now i q
                   (s1\<lparr>inventoryMovements := inventoryMovements s1 @ [m], seq := Suc (seq s1)\<rparr>)))"
  by (cases "existing_movement i s") (simp_all add: recordMovement_def case_prod_unfold Let_def)

lemma recordMovement_frame [simp, log_simps]:
  "tenants (snd (recordMovement E now i s)) = tenants s"
  "pricingCatalogItems (snd (recordMovement E now i s)) = pricingCatalogItems s"
  "subscriptions (snd (recordMovement E now i s)) = subscriptions s"
  "subscriptionItems (snd (recordMovement E now i s)) = subscriptionItems s"
  "billingEvents (snd (recordMovement E now i s)) = billingEvents s"
  "users (snd (recordMovement E now i s)) = users s"
  "identityProviderAccounts (snd (recordMovement E now i s)) = identityProviderAccounts s"
  "sessions (snd (recordMovement E now i s)) = sessions s"
  "roles (snd (recordMovement E now i s)) = roles s"
  "memberships (snd (recordMovement E now i s)) = memberships s"
  "invitations (snd (recordMovement E now i s)) = invitations s"
  "branches (snd (recordMovement E now i s)) = branches s"
  "stockLocations (snd (recordMovement E now i s)) = stockLocations s"
  "registers (snd (recordMovement E now i s)) = registers s"
  "taxClasses (snd (recordMovement E now i s)) = taxClasses s"
  "products (snd (recordMovement E now i s)) = products s"
  "productVariants (snd (recordMovement E now i s)) = productVariants s"
  "stockTransfers (snd (recordMovement E now i s)) = stockTransfers s"
  "customers (snd (recordMovement E now i s)) = customers s"
  "sales (snd (recordMovement E now i s)) = sales s"
  "quotes (snd (recordMovement E now i s)) = quotes s"
  "invoices (snd (recordMovement E now i s)) = invoices s"
  "expenseCategories (snd (recordMovement E now i s)) = expenseCategories s"
  "expenses (snd (recordMovement E now i s)) = expenses s"
  "auditEvents (snd (recordMovement E now i s)) = auditEvents s"
  by (simp_all add: recordMovement_unfold Let_def split: option.split)

definition balance_at :: "db \<Rightarrow> string \<Rightarrow> string \<Rightarrow> int" where
  "balance_at s loc var =
     (case List.find (at_cell loc var) (inventoryBalances s) of None \<Rightarrow> 0 | Some b \<Rightarrow> bal_quantity b)"

definition mov_at :: "string \<Rightarrow> string \<Rightarrow> movement \<Rightarrow> bool" where
  "mov_at loc var m \<longleftrightarrow> mov_stockLocationId m = loc \<and> mov_variantId m = var"

definition cell_deltas :: "movement list \<Rightarrow> string \<Rightarrow> string \<Rightarrow> int list" where
  "cell_deltas ms loc var = map mov_quantityDelta (filter (mov_at loc var) ms)"

definition key_used :: "movement_input \<Rightarrow> db \<Rightarrow> bool" where
  "key_used input s \<longleftrightarrow> existing_movement input s \<noteq> None"

lemma key_used_iff:
  "key_used input s \<longleftrightarrow> (\<exists>c cs. mi_idempotencyKey input = Some (c # cs) \<and>
     (\<exists>m\<in>set (inventoryMovements s). mov_idempotencyKey m = Some (c # cs)))"
proof (cases "mi_idempotencyKey input")
  case (Some k)
  have "List.find (\<lambda>m. mov_idempotencyKey m = Some k) ms \<noteq> None \<longleftrightarrow>
      (\<exists>m\<in>set ms. mov_idempotencyKey m = Some k)" for ms
    by (induction ms) auto
  with Some show ?thesis by (cases k) (simp_all add: key_used_def existing_movement_def)
qed (simp add: key_used_def existing_movement_def)

lemma audit_ledger [simp]:
  "balance_at (audit_record E a s) = balance_at s"
  "existing_movement i (audit_record E a s) = existing_movement i s"
  "key_used i (audit_record E a s) = key_used i s"
  by (simp_all add: balance_at_def key_used_def existing_movement_def fun_eq_iff split: option.split list.split)

lemma at_cell_update [simp]: "at_cell l v (b\<lparr>bal_quantity := q\<rparr>) = at_cell l v b"
  by (simp add: at_cell_def)

lemma upsert_balance_result:
  "fst (upsert_balance E i s) = balance_at s (mi_stockLocationId i) (mi_variantId i) + mi_quantityDelta i"
  by (simp add: upsert_balance_def balance_at_def Let_def split: option.split)

lemma upsert_balance_at:
  "balance_at (snd (upsert_balance E i s)) loc var = balance_at s loc var +
     (if loc = mi_stockLocationId i \<and> var = mi_variantId i then mi_quantityDelta i else 0)"
proof (cases "List.find (at_cell (mi_stockLocationId i) (mi_variantId i)) (inventoryBalances s)")
  case None
  then show ?thesis
    by (auto simp: upsert_balance_def balance_at_def at_cell_def split: option.splits)
next
  case (Some b)
  have "List.find (at_cell loc var) (update_where (at_cell (mi_stockLocationId i) (mi_variantId i))
      (\<lambda>b. b\<lparr>bal_quantity := bal_quantity b + mi_quantityDelta i\<rparr>) (inventoryBalances s)) =
    map_option (\<lambda>b. if at_cell (mi_stockLocationId i) (mi_variantId i) b
      then b\<lparr>bal_quantity := bal_quantity b + mi_quantityDelta i\<rparr> else b)
      (List.find (at_cell loc var) (inventoryBalances s))"
    by (rule find_update_where_same) simp
  with Some show ?thesis
    by (auto simp: upsert_balance_def balance_at_def at_cell_def split: option.splits dest!: find_SomeD)
qed

lemma recordMovement_seen: "key_used i s \<Longrightarrow> snd (recordMovement E now i s) = s"
  by (auto simp: key_used_def recordMovement_def)

lemma recordMovement_fresh:
  assumes "\<not> key_used i s"
  shows "inventoryMovements (snd (recordMovement E now i s)) =
           inventoryMovements s @ [fst (recordMovement E now i s)]"
    "mov_stockLocationId (fst (recordMovement E now i s)) = mi_stockLocationId i"
    "mov_variantId (fst (recordMovement E now i s)) = mi_variantId i"
    "mov_quantityDelta (fst (recordMovement E now i s)) = mi_quantityDelta i"
    "mov_idempotencyKey (fst (recordMovement E now i s)) = mi_idempotencyKey i"
    "mov_resultingBalance (fst (recordMovement E now i s)) =
       balance_at s (mi_stockLocationId i) (mi_variantId i) + mi_quantityDelta i"
    "balance_at (snd (recordMovement E now i s)) loc var = balance_at s loc var +
       (if loc = mi_stockLocationId i \<and> var = mi_variantId i then mi_quantityDelta i else 0)"
proof -
  have n: "existing_movement i s = None" using assms by (simp add: key_used_def)
  have b: "balance_at (maybePublishLowStockAlert E now i q (t\<lparr>inventoryMovements := x, seq := y\<rparr>)) loc var
      = balance_at t loc var" for q t x y
    by (simp add: balance_at_def)
  show "inventoryMovements (snd (recordMovement E now i s)) =
           inventoryMovements s @ [fst (recordMovement E now i s)]"
    "mov_stockLocationId (fst (recordMovement E now i s)) = mi_stockLocationId i"
    "mov_variantId (fst (recordMovement E now i s)) = mi_variantId i"
    "mov_quantityDelta (fst (recordMovement E now i s)) = mi_quantityDelta i"
    "mov_idempotencyKey (fst (recordMovement E now i s)) = mi_idempotencyKey i"
    "mov_resultingBalance (fst (recordMovement E now i s)) =
       balance_at s (mi_stockLocationId i) (mi_variantId i) + mi_quantityDelta i"
    "balance_at (snd (recordMovement E now i s)) loc var = balance_at s loc var +
       (if loc = mi_stockLocationId i \<and> var = mi_variantId i then mi_quantityDelta i else 0)"
    by (simp_all add: recordMovement_unfold n Let_def upsert_balance_result b upsert_balance_at)
qed

lemma recordMovement_uses_key:
  assumes "mi_idempotencyKey i = Some (c # cs)"
  shows "key_used i (snd (recordMovement E now i s))"
  using assms recordMovement_seen [of i s E now] recordMovement_fresh(1,5) [of i s E now]
  by (cases "key_used i s") (auto simp: key_used_iff)

lemma recordMovement_keeps_keys: "key_used j s \<Longrightarrow> key_used j (snd (recordMovement E now i s))"
  using recordMovement_seen [of i s E now] recordMovement_fresh(1) [of i s E now]
  by (cases "key_used i s") (auto simp: key_used_iff)

lemma recordMovement_other_key:
  assumes "mi_idempotencyKey i \<noteq> mi_idempotencyKey j \<or> mi_idempotencyKey j = None"
  shows "key_used j (snd (recordMovement E now i s)) = key_used j s"
  using assms recordMovement_seen [of i s E now] recordMovement_fresh(1,5) [of i s E now]
  by (cases "key_used i s") (auto simp: key_used_iff)

section \<open>The ledger as an interface\<close>

text \<open>
  What the services that post movements rely on: a posting whose key has been seen changes
  nothing, any other posting changes the quantity of its own cell by its delta, and its key is seen
  from then on.
\<close>

locale stock_ledger =
  fixes post :: "movement_input \<Rightarrow> 's \<Rightarrow> movement \<times> 's"
    and stock :: "'s \<Rightarrow> string \<Rightarrow> string \<Rightarrow> int"
    and seen :: "movement_input \<Rightarrow> 's \<Rightarrow> bool"
  assumes post_seen: "seen i s \<Longrightarrow> snd (post i s) = s"
    and post_fresh: "\<not> seen i s \<Longrightarrow> stock (snd (post i s)) loc var = stock s loc var +
       (if loc = mi_stockLocationId i \<and> var = mi_variantId i then mi_quantityDelta i else 0)"
    and seen_self: "mi_idempotencyKey i = Some (c # cs) \<Longrightarrow> seen i (snd (post i s))"
    and seen_mono: "seen j s \<Longrightarrow> seen j (snd (post i s))"
    and seen_other: "mi_idempotencyKey i \<noteq> mi_idempotencyKey j \<or> mi_idempotencyKey j = None \<Longrightarrow>
       seen j (snd (post i s)) = seen j s"
begin

definition post_all :: "movement_input list \<Rightarrow> 's \<Rightarrow> 's" where
  "post_all is s = fold (\<lambda>i s. snd (post i s)) is s"

definition delta_at :: "string \<Rightarrow> string \<Rightarrow> movement_input list \<Rightarrow> int" where
  "delta_at loc var is =
     (\<Sum>i\<leftarrow>is. if loc = mi_stockLocationId i \<and> var = mi_variantId i then mi_quantityDelta i else 0)"

lemma post_all_simps [simp]: "post_all [] s = s" "post_all (i # is) s = post_all is (snd (post i s))"
  by (simp_all add: post_all_def)

lemma post_all_append: "post_all (is @ js) s = post_all js (post_all is s)"
  by (simp add: post_all_def)

text \<open>Postings with distinct new keys (or without keys) all count.\<close>

lemma post_all_stock:
  assumes "\<forall>i\<in>set is. \<not> seen i s"
    and "distinct (filter (\<lambda>k. k \<noteq> None) (map mi_idempotencyKey is))"
  shows "stock (post_all is s) loc var = stock s loc var + delta_at loc var is"
  using assms
proof (induction "is" arbitrary: s)
  case (Cons i "is")
  have "\<forall>j\<in>set is. \<not> seen j (snd (post i s))"
  proof
    fix j assume j: "j \<in> set is"
    then have "mi_idempotencyKey i \<noteq> mi_idempotencyKey j \<or> mi_idempotencyKey j = None"
      using Cons.prems(2) by (auto split: if_splits)
    then show "\<not> seen j (snd (post i s))" using Cons.prems(1) j by (simp add: seen_other)
  qed
  with Cons have "stock (post_all is (snd (post i s))) loc var =
      stock (snd (post i s)) loc var + delta_at loc var is"
    by (auto split: if_splits)
  then show ?case using Cons.prems(1) by (simp add: post_fresh delta_at_def)
qed (simp add: delta_at_def)

text \<open>Posting the same keyed movements again changes nothing.\<close>

lemma post_all_seen: "\<forall>i\<in>set is. seen i s \<Longrightarrow> post_all is s = s"
  by (induction "is") (simp_all add: post_seen)

lemma post_all_mono: "seen j s \<Longrightarrow> seen j (post_all is s)"
  by (induction "is" arbitrary: s) (simp_all add: seen_mono)

lemma post_all_again:
  assumes "\<forall>i\<in>set is. \<exists>c cs. mi_idempotencyKey i = Some (c # cs)"
  shows "post_all is (post_all is s) = post_all is s"
proof (rule post_all_seen)
  have "seen i (post_all is s)" if "i \<in> set is" for i
    using that assms
  proof (induction "is" arbitrary: s)
    case (Cons j js)
    then obtain c cs where "mi_idempotencyKey j = Some (c # cs)" by auto
    then have "seen j (post_all js (snd (post j s)))" by (rule post_all_mono [OF seen_self])
    moreover have "seen i (post_all js (snd (post j s)))" if "i \<in> set js"
      using Cons.IH that Cons.prems(2) by simp
    ultimately show ?case using Cons.prems(1) by auto
  qed simp
  then show "\<forall>i\<in>set is. seen i (post_all is s)" by blast
qed

end

interpretation ledger: stock_ledger "recordMovement E now" balance_at key_used for E now
proof unfold_locales
  show "snd (recordMovement E now i s) = s" if "key_used i s" for i s
    using that by (rule recordMovement_seen)
  show "balance_at (snd (recordMovement E now i s)) loc var = balance_at s loc var +
       (if loc = mi_stockLocationId i \<and> var = mi_variantId i then mi_quantityDelta i else 0)"
    if "\<not> key_used i s" for i s loc var
    using that by (rule recordMovement_fresh(7))
qed (simp_all add: recordMovement_uses_key recordMovement_keeps_keys recordMovement_other_key)

section \<open>The ledger invariant\<close>

text \<open>
  Every movement carries the balance of its cell at its place in the log, every balance row is the
  replay of its cell's movements, a cell has at most one balance row, and no idempotency key is
  used twice.
\<close>

definition running_ok :: "movement list \<Rightarrow> bool" where
  "running_ok ms \<longleftrightarrow> (\<forall>xs m ys. ms = xs @ m # ys \<longrightarrow> mov_resultingBalance m =
     replayBalance 0 (cell_deltas (xs @ [m]) (mov_stockLocationId m) (mov_variantId m)))"

definition balance_key :: "balance \<Rightarrow> string \<times> string" where
  "balance_key b = (bal_stockLocationId b, bal_variantId b)"

definition ledger_ok :: "db \<Rightarrow> bool" where
  "ledger_ok s \<longleftrightarrow>
     distinct (map balance_key (inventoryBalances s)) \<and>
     (\<forall>loc var. balance_at s loc var = replayBalance 0 (cell_deltas (inventoryMovements s) loc var)) \<and>
     running_ok (inventoryMovements s) \<and>
     distinct (filter (\<lambda>k. k \<noteq> None \<and> k \<noteq> Some []) (map mov_idempotencyKey (inventoryMovements s)))"

lemma running_ok_snoc:
  "running_ok (ms @ [m]) \<longleftrightarrow> running_ok ms \<and> mov_resultingBalance m =
     replayBalance 0 (cell_deltas (ms @ [m]) (mov_stockLocationId m) (mov_variantId m))"
    (is "?L \<longleftrightarrow> ?R")
proof
  assume L: ?L
  have "mov_resultingBalance x = replayBalance 0 (cell_deltas (xs @ [x]) (mov_stockLocationId x) (mov_variantId x))"
    if "ms = xs @ x # ys" for xs x ys
  proof -
    have "ms @ [m] = xs @ x # (ys @ [m])" using that by simp
    with L show ?thesis unfolding running_ok_def by blast
  qed
  moreover have "mov_resultingBalance m =
     replayBalance 0 (cell_deltas (ms @ [m]) (mov_stockLocationId m) (mov_variantId m))"
    using L unfolding running_ok_def by blast
  ultimately show ?R unfolding running_ok_def by blast
next
  assume R: ?R
  show ?L unfolding running_ok_def
  proof (intro allI impI)
    fix xs x ys assume eq: "ms @ [m] = xs @ x # ys"
    show "mov_resultingBalance x =
        replayBalance 0 (cell_deltas (xs @ [x]) (mov_stockLocationId x) (mov_variantId x))"
    proof (cases ys rule: rev_cases)
      case Nil
      with eq R show ?thesis by simp
    next
      case (snoc zs z)
      with eq have "ms = xs @ x # zs" by simp
      with R show ?thesis unfolding running_ok_def by blast
    qed
  qed
qed

lemma cell_deltas_snoc [simp]:
  "cell_deltas (ms @ [m]) loc var =
     cell_deltas ms loc var @ (if mov_at loc var m then [mov_quantityDelta m] else [])"
  by (simp add: cell_deltas_def)

lemma recordMovement_cells:
  assumes "distinct (map balance_key (inventoryBalances s))"
  shows "distinct (map balance_key (inventoryBalances (snd (recordMovement E now i s))))"
proof -
  have "distinct (map balance_key (inventoryBalances (snd (upsert_balance E i s))))"
    using assms
    by (auto simp: upsert_balance_def Let_def map_update_where_same balance_key_def at_cell_def
        split: option.splits dest!: find_NoneD)
  then show ?thesis using assms by (simp add: recordMovement_unfold Let_def split: option.split)
qed

lemma recordMovement_ledger:
  assumes "ledger_ok s" shows "ledger_ok (snd (recordMovement E now i s))"
proof (cases "key_used i s")
  case False
  note f = recordMovement_fresh [OF False, of E now]
  let ?m = "fst (recordMovement E now i s)"
  have bal: "balance_at s loc var = replayBalance 0 (cell_deltas (inventoryMovements s) loc var)" for loc var
    using assms by (simp add: ledger_ok_def)
  have key: "mi_idempotencyKey i = None \<or> mi_idempotencyKey i = Some [] \<or>
      mi_idempotencyKey i \<notin> set (map mov_idempotencyKey (inventoryMovements s))"
    using False by (auto simp: key_used_iff image_iff neq_Nil_conv)
  show ?thesis
    unfolding ledger_ok_def
  proof (intro conjI)
    show "\<forall>loc var. balance_at (snd (recordMovement E now i s)) loc var =
        replayBalance 0 (cell_deltas (inventoryMovements (snd (recordMovement E now i s))) loc var)"
      by (simp add: f bal replayBalance_sum mov_at_def)
    show "running_ok (inventoryMovements (snd (recordMovement E now i s)))"
      using assms by (simp add: f(1) running_ok_snoc ledger_ok_def)
         (simp add: f bal replayBalance_sum mov_at_def)
    show "distinct (filter (\<lambda>k. k \<noteq> None \<and> k \<noteq> Some [])
        (map mov_idempotencyKey (inventoryMovements (snd (recordMovement E now i s)))))"
      using assms key by (auto simp: f(1,5) ledger_ok_def)
  qed (use assms in \<open>simp add: ledger_ok_def recordMovement_cells\<close>)
qed (use assms in \<open>simp add: recordMovement_seen\<close>)

lemma ledger_ok_frame:
  "inventoryBalances t = inventoryBalances s \<Longrightarrow> inventoryMovements t = inventoryMovements s \<Longrightarrow>
   ledger_ok t = ledger_ok s"
  by (simp add: ledger_ok_def balance_at_def)

lemma post_all_ledger: "ledger_ok s \<Longrightarrow> ledger_ok (ledger.post_all E now is s)"
  by (induction "is" arbitrary: s) (simp_all add: recordMovement_ledger ledger.post_all_def)

text \<open>The loop of a transfer posts its legs in order.\<close>

definition transfer_legs ::
  "string \<Rightarrow> string \<Rightarrow> string \<Rightarrow> stock_location \<Rightarrow> stock_location \<Rightarrow> transfer_line list \<Rightarrow> movement_input list"
where
  "transfer_legs t actor trf from to ls = concat (map (\<lambda>line.
     [transfer_leg t actor trf from TRANSFER_DISPATCH (tl_variantId line) (- tl_quantity line),
      transfer_leg t actor trf to TRANSFER_RECEIPT (tl_variantId line) (tl_quantity line)]) ls)"

lemma transfer_lines_post_all:
  "transfer_lines E now t actor trf from to ls s =
     ledger.post_all E now (transfer_legs t actor trf from to ls) s"
  by (induction ls arbitrary: s) (simp_all add: transfer_legs_def ledger.post_all_def Let_def)

definition quantity_for :: "string \<Rightarrow> transfer_line list \<Rightarrow> int" where
  "quantity_for var ls = (\<Sum>l\<leftarrow>ls. if tl_variantId l = var then tl_quantity l else 0)"

lemma transfer_legs_delta:
  assumes "loc_id from \<noteq> loc_id to"
  shows "ledger.delta_at loc var (transfer_legs t actor trf from to ls) =
     (if loc = loc_id from then - quantity_for var ls
      else if loc = loc_id to then quantity_for var ls else 0)"
  using assms
  by (induction ls) (auto simp: transfer_legs_def ledger.delta_at_def quantity_for_def transfer_leg_def)

lemma transfer_legs_unkeyed:
  "i \<in> set (transfer_legs t actor trf from to ls) \<Longrightarrow> mi_idempotencyKey i = None"
  by (auto simp: transfer_legs_def transfer_leg_def)

lemma balance_at_frame:
  "inventoryBalances t = inventoryBalances s \<Longrightarrow> balance_at t loc var = balance_at s loc var"
  by (simp add: balance_at_def)

lemma transfer_lines_stock:
  assumes "loc_id from \<noteq> loc_id to"
  shows "balance_at (transfer_lines E now t actor trf from to ls s) loc var =
     balance_at s loc var + (if loc = loc_id from then - quantity_for var ls
      else if loc = loc_id to then quantity_for var ls else 0)"
proof -
  have "\<forall>i\<in>set (transfer_legs t actor trf from to ls). \<not> key_used i s"
    by (auto dest: transfer_legs_unkeyed simp: key_used_iff)
  moreover have "distinct (filter (\<lambda>k. k \<noteq> None)
      (map mi_idempotencyKey (transfer_legs t actor trf from to ls)))"
    using transfer_legs_unkeyed by (subst filter_False) force+
  ultimately show ?thesis
    unfolding transfer_lines_post_all by (simp add: ledger.post_all_stock transfer_legs_delta [OF assms])
qed

section \<open>Properties\<close>

text \<open>C24: the inventory invariant. Stock adjustments and transfers, successful or refused, keep every
  balance row equal to the replay of its cell's movements, every movement's resulting balance equal
  to the replay up to it, one balance row per cell and idempotency keys unique.\<close>
theorem inventory_operations_keep_ledger:
  assumes "ledger_ok s"
  shows "ledger_ok (snd (adjustStock E now t actor adj s)) \<and>
         ledger_ok (snd (transferStock E now t actor trf s))"
proof -
  note frame = ledger_ok_frame [THEN iffD2, rotated 2]
  have 1: "ledger_ok (snd (recordMovement E now i s))" for i
    using assms by (rule recordMovement_ledger)
  have 2: "ledger_ok (transfer_lines E now t actor tid src dst ls (s\<lparr>stockTransfers := x, seq := y\<rparr>))"
    for tid src dst ls x y
    unfolding transfer_lines_post_all
    by (rule post_all_ledger) (use assms in \<open>simp add: ledger_ok_def balance_at_def\<close>)
  have 3: "ledger_ok (audit_record E a s') = ledger_ok s'" for a s'
    by (rule ledger_ok_frame) simp_all
  show ?thesis
    using assms 1 2
    by (auto simp: adjustStock_def transferStock_def run_tx_def case_prod_unfold Let_def 3
        split: option.split)
qed

text \<open>C29: a transfer moves stock and creates none: when it succeeds, the source cell of each variant
  loses exactly the quantity its lines name, the destination cell gains it, so their sum and every
  other cell stay the same; when it is refused, nothing changes.\<close>
theorem transfer_conserves_stock:
  "case transferStock E now t actor input s of
     (Inr trf, s') \<Rightarrow>
       ti_fromStockLocationId input \<noteq> ti_toStockLocationId input \<and>
       (\<forall>loc var. balance_at s' loc var = balance_at s loc var +
         (if loc = ti_fromStockLocationId input then - quantity_for var (ti_lines input)
          else if loc = ti_toStockLocationId input then quantity_for var (ti_lines input) else 0)) \<and>
       (\<forall>var. balance_at s' (ti_fromStockLocationId input) var + balance_at s' (ti_toStockLocationId input) var
            = balance_at s (ti_fromStockLocationId input) var + balance_at s (ti_toStockLocationId input) var)
   | (Inl e, s') \<Rightarrow> s' = s"
proof (cases "transferStock E now t actor input s")
  case (Pair r s')
  show ?thesis
  proof (cases r)
    case (Inl e)
    then show ?thesis
      using Pair by (auto simp: transferStock_def run_tx_def Let_def split: option.splits if_splits)
  next
    case (Inr trf)
    obtain src dst where ends: "ti_fromStockLocationId input \<noteq> ti_toStockLocationId input"
      "loc_id src = ti_fromStockLocationId input" "loc_id dst = ti_toStockLocationId input"
      and s': "inventoryBalances s' = inventoryBalances (transfer_lines E now t actor (trf_id trf) src dst (ti_lines input)
         (s\<lparr>stockTransfers := stockTransfers s @ [trf], seq := Suc (seq s)\<rparr>))"
      using Pair Inr
      by (auto simp: transferStock_def run_tx_def Let_def split: option.splits if_splits dest!: find_SomeD)
    have "balance_at s' loc var = balance_at s loc var +
         (if loc = ti_fromStockLocationId input then - quantity_for var (ti_lines input)
          else if loc = ti_toStockLocationId input then quantity_for var (ti_lines input) else 0)" for loc var
      using transfer_lines_stock [of src dst] ends
      by (simp add: balance_at_frame [OF s'] balance_at_frame [of "s\<lparr>stockTransfers := _, seq := _\<rparr>" s])
    then show ?thesis using Pair Inr ends(1) by simp
  qed
qed

definition demo_location :: "string \<Rightarrow> stock_location" where
  "demo_location l = \<lparr>loc_id = l, loc_tenantId = ''t1'', loc_branchId = ''b1'', loc_name = l, loc_isDefault = True\<rparr>"

definition demo_variant :: variant where
  "demo_variant = \<lparr>var_id = ''v1'', var_tenantId = ''t1'', var_productId = ''p1'', var_sku = ''SKU-1'',
     var_barcode = None, var_attributes = [], var_costPrice = 4, var_retailPrice = 10,
     var_wholesalePrice = None, var_taxClassId = None, var_reorderPoint = 5, var_reorderBuffer = 2,
     var_status = ProdACTIVE\<rparr>"

definition demo_inventory_db :: db where
  "demo_inventory_db = empty_db\<lparr>stockLocations := [demo_location ''l1'', demo_location ''l2''],
     productVariants := [demo_variant]\<rparr>"

definition demo_adjust :: "int \<Rightarrow> adjust_input" where
  "demo_adjust n = \<lparr>adj_stockLocationId = ''l1'', adj_variantId = ''v1'', adj_quantityDelta = n,
     adj_type = ADJUSTMENT, adj_reason = None, adj_idempotencyKey = Some ''k1''\<rparr>"

lemma demo_inventory_simps [simp]:
  "stockLocations demo_inventory_db = [demo_location ''l1'', demo_location ''l2'']"
  "productVariants demo_inventory_db = [demo_variant]" "inventoryMovements demo_inventory_db = []"
  "inventoryBalances demo_inventory_db = []" "outboxEvents demo_inventory_db = []"
  "loc_id (demo_location l) = l" "loc_tenantId (demo_location l) = ''t1''"
  "var_id demo_variant = ''v1''" "var_tenantId demo_variant = ''t1''"
  "var_reorderPoint demo_variant = 5" "var_reorderBuffer demo_variant = 2"
  by (simp_all add: demo_inventory_db_def demo_location_def demo_variant_def empty_db_def)

lemma demo_inventory_ledger: "ledger_ok demo_inventory_db"
  by (simp add: ledger_ok_def balance_at_def replayBalance_def cell_deltas_def running_ok_def)

theorem inventory_operations_keep_ledger_witness:
  "ledger_ok (snd (transferStock sample_env 2 ''t1'' ''u1''
      \<lparr>ti_fromStockLocationId = ''l1'', ti_toStockLocationId = ''l2'',
       ti_lines = [\<lparr>tl_variantId = ''v1'', tl_quantity = 3\<rparr>], ti_note = None\<rparr>
      (snd (adjustStock sample_env 1 ''t1'' ''u1'' (demo_adjust 10) demo_inventory_db))))"
  using inventory_operations_keep_ledger [OF inventory_operations_keep_ledger [OF demo_inventory_ledger, THEN conjunct1]]
  by blast

lemma adjustStock_unfold:
  assumes "List.find (\<lambda>l. loc_id l = adj_stockLocationId input \<and> loc_tenantId l = t) (stockLocations s) = Some l"
    and "List.find (\<lambda>v. var_id v = adj_variantId input \<and> var_tenantId v = t) (productVariants s) = Some v"
  shows "\<exists>i a. mi_stockLocationId i = adj_stockLocationId input \<and> mi_variantId i = adj_variantId input \<and>
     mi_quantityDelta i = adj_quantityDelta input \<and> mi_idempotencyKey i = adj_idempotencyKey input \<and>
     mi_tenantId i = t \<and>
     adjustStock E now t actor input s =
       (Inr (fst (recordMovement E now i s)), audit_record E a (snd (recordMovement E now i s)))"
  unfolding adjustStock_def assms by (simp add: run_tx_def case_prod_unfold Let_def) force

lemma adjustStock_cases:
  assumes "adjustStock E now t actor input s = (Inr m, s1)"
  obtains l v where
    "List.find (\<lambda>l. loc_id l = adj_stockLocationId input \<and> loc_tenantId l = t) (stockLocations s) = Some l"
    "List.find (\<lambda>v. var_id v = adj_variantId input \<and> var_tenantId v = t) (productVariants s) = Some v"
  using assms by (auto simp: adjustStock_def split: option.splits)

lemma existing_after_record:
  assumes "mi_idempotencyKey i = Some (c # cs)" and "mi_idempotencyKey j = Some (c # cs)"
  shows "existing_movement j (snd (recordMovement E now i s)) = Some (fst (recordMovement E now i s))"
proof (cases "existing_movement i s")
  case (Some m)
  with assms show ?thesis by (simp add: existing_movement_def recordMovement_def)
next
  case None
  then have f: "\<not> key_used i s" by (simp add: key_used_def)
  from None have "List.find (\<lambda>m. mov_idempotencyKey m = Some (c # cs)) (inventoryMovements s) = None"
    using assms by (simp add: existing_movement_def)
  with assms show ?thesis
    by (simp add: existing_movement_def recordMovement_fresh(1,5) [OF f])
qed

text \<open>C38: a stock adjustment sent again with its idempotency key returns the movement of the first
  request and moves no stock, whoever repeats it and whenever.\<close>
theorem adjust_once:
  assumes first: "adjustStock E now t actor input s = (Inr m, s1)"
    and key: "adj_idempotencyKey input = Some (c # cs)"
  shows "\<exists>s2. adjustStock E later t actor2 input s1 = (Inr m, s2) \<and>
     inventoryMovements s2 = inventoryMovements s1 \<and> inventoryBalances s2 = inventoryBalances s1 \<and>
     outboxEvents s2 = outboxEvents s1"
proof -
  obtain l v where lv: "List.find (\<lambda>l. loc_id l = adj_stockLocationId input \<and> loc_tenantId l = t) (stockLocations s) = Some l"
    "List.find (\<lambda>v. var_id v = adj_variantId input \<and> var_tenantId v = t) (productVariants s) = Some v"
    using first by (rule adjustStock_cases)
  obtain i a where i: "mi_idempotencyKey i = Some (c # cs)" "m = fst (recordMovement E now i s)"
    "s1 = audit_record E a (snd (recordMovement E now i s))"
    using adjustStock_unfold [OF lv, of E now actor] first key by auto
  have "stockLocations s1 = stockLocations s" "productVariants s1 = productVariants s" by (simp_all add: i)
  then obtain j b where j: "mi_idempotencyKey j = Some (c # cs)"
    "adjustStock E later t actor2 input s1 =
       (Inr (fst (recordMovement E later j s1)), audit_record E b (snd (recordMovement E later j s1)))"
    using adjustStock_unfold [of input t s1 l v E later actor2] lv key by auto
  have "existing_movement j s1 = Some m"
    using existing_after_record [OF i(1) j(1)] by (simp add: i)
  then have "recordMovement E later j s1 = (m, s1)" by (simp add: recordMovement_def)
  with j show ?thesis by simp
qed

lemma demo_adjust_runs:
  "\<exists>m s1. adjustStock sample_env 1 ''t1'' ''u1'' (demo_adjust n) demo_inventory_db = (Inr m, s1) \<and>
     balance_at s1 ''l1'' ''v1'' = n"
proof -
  have lv: "List.find (\<lambda>l. loc_id l = adj_stockLocationId (demo_adjust n) \<and> loc_tenantId l = ''t1'')
      (stockLocations demo_inventory_db) = Some (demo_location ''l1'')"
    "List.find (\<lambda>v. var_id v = adj_variantId (demo_adjust n) \<and> var_tenantId v = ''t1'')
      (productVariants demo_inventory_db) = Some demo_variant"
    by (simp_all add: demo_adjust_def)
  obtain i a where i: "mi_stockLocationId i = ''l1''" "mi_variantId i = ''v1''" "mi_quantityDelta i = n"
    "adjustStock sample_env 1 ''t1'' ''u1'' (demo_adjust n) demo_inventory_db =
       (Inr (fst (recordMovement sample_env 1 i demo_inventory_db)),
        audit_record sample_env a (snd (recordMovement sample_env 1 i demo_inventory_db)))"
    using adjustStock_unfold [OF lv, of sample_env 1 "''u1''"] by (auto simp: demo_adjust_def)
  moreover have "\<not> key_used i demo_inventory_db" "balance_at demo_inventory_db ''l1'' ''v1'' = 0"
    by (simp_all add: key_used_iff balance_at_def)
  then have "balance_at (snd (recordMovement sample_env 1 i demo_inventory_db)) ''l1'' ''v1'' = n"
    using i by (simp add: recordMovement_fresh(7))
  ultimately show ?thesis by simp
qed

theorem adjust_once_witness:
  "\<exists>m s1 s2. adjustStock sample_env 1 ''t1'' ''u1'' (demo_adjust 4) demo_inventory_db = (Inr m, s1) \<and>
     adjustStock sample_env 9 ''t1'' ''u2'' (demo_adjust 4) s1 = (Inr m, s2) \<and>
     balance_at s1 ''l1'' ''v1'' = 4 \<and> inventoryBalances s2 = inventoryBalances s1"
proof -
  obtain m s1 where f: "adjustStock sample_env 1 ''t1'' ''u1'' (demo_adjust 4) demo_inventory_db = (Inr m, s1)"
    "balance_at s1 ''l1'' ''v1'' = 4" using demo_adjust_runs by blast
  have "adj_idempotencyKey (demo_adjust 4) = Some (CHR ''k'' # ''1'')" by (simp add: demo_adjust_def)
  from adjust_once [OF f(1) this] f show ?thesis by blast
qed

text \<open>a low-stock alert is published exactly when a movement takes a variant from a non-red
  status into red; a movement that starts or stays in red, or ends outside it, publishes nothing,
  and a repeated movement publishes nothing.\<close>
theorem low_stock_alert_on_transition:
  assumes var: "List.find (\<lambda>v. var_id v = mi_variantId i) (productVariants s) = Some v"
  defines "status q \<equiv> computeStockStatus q (var_reorderPoint v) (var_reorderBuffer v)"
  defines "old \<equiv> balance_at s (mi_stockLocationId i) (mi_variantId i)"
  shows "if \<not> key_used i s \<and> status old \<noteq> Red \<and> status (old + mi_quantityDelta i) = Red
    then \<exists>e. outboxEvents (snd (recordMovement E now i s)) = outboxEvents s @ [e] \<and>
       obx_eventType e = ''inventory.low_stock'' \<and> obx_processedAt e = None \<and>
       obx_aggregateId e = mi_stockLocationId i @ '':'' @ mi_variantId i
    else outboxEvents (snd (recordMovement E now i s)) = outboxEvents s"
proof (cases "key_used i s")
  case False
  then have n: "existing_movement i s = None" by (simp add: key_used_def)
  show ?thesis
    using False
    by (auto simp: recordMovement_unfold n Let_def upsert_balance_result maybePublishLowStockAlert_def var
        publish_def status_def old_def)
qed (simp add: recordMovement_seen)

definition demo_movement :: "int \<Rightarrow> movement_input" where
  "demo_movement n = \<lparr>mi_tenantId = ''t1'', mi_branchId = ''b1'', mi_stockLocationId = ''l1'',
     mi_variantId = ''v1'', mi_type = ADJUSTMENT, mi_quantityDelta = n, mi_reason = None,
     mi_actorUserId = None, mi_sourceType = None, mi_sourceId = None, mi_idempotencyKey = None\<rparr>"

theorem low_stock_alert_on_transition_witness:
  "\<exists>s1 e. s1 = snd (recordMovement sample_env 1 (demo_movement 8) demo_inventory_db) \<and>
     outboxEvents s1 = [] \<and>
     outboxEvents (snd (recordMovement sample_env 2 (demo_movement (-4)) s1)) = [e] \<and>
     obx_eventType e = ''inventory.low_stock''"
proof -
  let ?s1 = "snd (recordMovement sample_env 1 (demo_movement 8) demo_inventory_db)"
  have v: "List.find (\<lambda>v. var_id v = mi_variantId (demo_movement n)) (productVariants demo_inventory_db) = Some demo_variant"
    "List.find (\<lambda>v. var_id v = mi_variantId (demo_movement n)) (productVariants ?s1) = Some demo_variant" for n
    by (simp_all add: demo_movement_def)
  have k: "\<not> key_used (demo_movement n) t" for n t by (simp add: key_used_iff demo_movement_def)
  have b: "balance_at demo_inventory_db ''l1'' ''v1'' = 0" "balance_at ?s1 ''l1'' ''v1'' = 8"
    by (simp_all add: recordMovement_fresh(7) [OF k]) (simp_all add: balance_at_def demo_movement_def)
  have c: "mi_stockLocationId (demo_movement n) = ''l1''" "mi_variantId (demo_movement n) = ''v1''"
    "mi_quantityDelta (demo_movement n) = n" for n by (simp_all add: demo_movement_def)
  have "outboxEvents ?s1 = []"
    using low_stock_alert_on_transition [OF v(1), of 8 sample_env 1]
    by (simp add: c b k computeStockStatus_def)
  moreover from this have "\<exists>e. outboxEvents (snd (recordMovement sample_env 2 (demo_movement (-4)) ?s1)) = [e] \<and>
      obx_eventType e = ''inventory.low_stock''"
    using low_stock_alert_on_transition [OF v(2), of "-4" sample_env 2]
    by (auto simp: c b k computeStockStatus_def)
  ultimately show ?thesis by blast
qed

text \<open>Idempotency keys are looked up without their tenant: an adjustment whose key another
  tenant has already used answers with that tenant's movement and moves no stock of its own.\<close>
theorem adjust_with_foreign_key:
  assumes loc: "List.find (\<lambda>l. loc_id l = adj_stockLocationId input \<and> loc_tenantId l = t) (stockLocations s) = Some l"
    and var: "List.find (\<lambda>v. var_id v = adj_variantId input \<and> var_tenantId v = t) (productVariants s) = Some v"
    and key: "adj_idempotencyKey input = Some (c # cs)"
    and other: "List.find (\<lambda>m. mov_idempotencyKey m = Some (c # cs)) (inventoryMovements s) = Some m"
  shows "\<exists>s'. adjustStock E now t actor input s = (Inr m, s') \<and>
     inventoryBalances s' = inventoryBalances s \<and> inventoryMovements s' = inventoryMovements s"
proof -
  obtain i a where i: "mi_idempotencyKey i = Some (c # cs)"
    "adjustStock E now t actor input s =
       (Inr (fst (recordMovement E now i s)), audit_record E a (snd (recordMovement E now i s)))"
    using adjustStock_unfold [OF loc var, of E now actor] key by auto
  then have "recordMovement E now i s = (m, s)"
    using other by (simp add: recordMovement_def existing_movement_def)
  with i show ?thesis by simp
qed

definition foreign_movement :: movement where
  "foreign_movement = \<lparr>mov_id = ''m9'', mov_tenantId = ''t2'', mov_branchId = ''b9'',
     mov_stockLocationId = ''l9'', mov_variantId = ''v9'', mov_type = ADJUSTMENT, mov_quantityDelta = 1,
     mov_resultingBalance = 1, mov_reason = None, mov_actorUserId = None, mov_sourceType = None,
     mov_sourceId = None, mov_idempotencyKey = Some ''k1'', mov_createdAt = 0\<rparr>"

lemma foreign_movement_simps:
  "mov_tenantId foreign_movement = ''t2''" "mov_idempotencyKey foreign_movement = Some ''k1''"
  by (simp_all add: foreign_movement_def)

lemma demo_adjust_simps:
  "adj_stockLocationId (demo_adjust n) = ''l1''" "adj_variantId (demo_adjust n) = ''v1''"
  "adj_idempotencyKey (demo_adjust n) = Some ''k1''"
  by (simp_all add: demo_adjust_def)

theorem adjust_with_foreign_key_witness:
  "\<exists>s'. adjustStock sample_env 1 ''t1'' ''u1'' (demo_adjust 4)
      (demo_inventory_db\<lparr>inventoryMovements := [foreign_movement]\<rparr>) = (Inr foreign_movement, s') \<and>
     mov_tenantId foreign_movement = ''t2'' \<and> inventoryBalances s' = []"
  using adjust_with_foreign_key [of "demo_adjust 4" "''t1''" "demo_inventory_db\<lparr>inventoryMovements := [foreign_movement]\<rparr>"
      "demo_location ''l1''" demo_variant "CHR ''k''" "''1''" foreign_movement sample_env 1 "''u1''"]
  by (auto simp add: demo_adjust_simps foreign_movement_simps)

end
