(* ===== verification/Sales.thy ===== *)
theory Sales
  imports Inventory
begin

text \<open>
  \<open>apps/api/src/sales/sales.service.ts\<close>: creating, refunding, voiding, listing and reading sales.
  The lines, payments and refunds of a sale are kept in its row. An insert outside a column's range
  or with a dangling register or customer is refused by the database and rolls the transaction
  back. \<open>refundSale\<close> is written in the two parts the code has: the decision, taken on the row
  read before the transaction, and the transaction.
\<close>

section \<open>Inputs\<close>

record create_sale_line =
  csl_variantId :: string
  csl_quantity :: int
  csl_unitPriceOverride :: "rat option"
  csl_discountAmount :: rat

record create_payment =
  cp_method :: payment_method
  cp_amount :: rat
  cp_reference :: "string option"

record create_sale_input =
  csi_clientMutationId :: string
  csi_branchId :: string
  csi_registerId :: "string option"
  csi_stockLocationId :: string
  csi_customerId :: "string option"
  csi_lines :: "create_sale_line list"
  csi_payments :: "create_payment list"
  csi_note :: "string option"
  csi_currency :: string

record refund_input =
  ri_amount :: "rat option"
  ri_reason :: "string option"
  ri_restock :: bool

record sales_query =
  sq_branchId :: "string option"
  sq_customerId :: "string option"
  sq_status :: "sale_status option"
  sq_from :: "int option"
  sq_to :: "int option"
  sq_page :: nat
  sq_pageSize :: nat

fun sale_status_text :: "sale_status \<Rightarrow> string" where
  "sale_status_text SaleOPEN = ''OPEN''"
| "sale_status_text SaleHELD = ''HELD''"
| "sale_status_text SaleCOMPLETED = ''COMPLETED''"
| "sale_status_text SaleVOIDED = ''VOIDED''"
| "sale_status_text SaleREFUNDED = ''REFUNDED''"
| "sale_status_text SalePARTIALLY_REFUNDED = ''PARTIALLY_REFUNDED''"

section \<open>Creating a sale\<close>

record computed_line =
  cl_variant :: variant
  cl_quantity :: int
  cl_unitPrice :: money
  cl_unitCost :: money
  cl_taxAmount :: money
  cl_discountAmount :: money
  cl_lineTotal :: money

record sale_totals =
  st_subtotal :: money
  st_taxTotal :: money
  st_discountTotal :: money
  st_lines :: "computed_line list"

definition tax_rate :: "db \<Rightarrow> variant \<Rightarrow> rat" where
  "tax_rate s v =
     (case var_taxClassId v of
        None \<Rightarrow> 0
      | Some t \<Rightarrow> (case List.find (\<lambda>c. tax_id c = t) (taxClasses s) of None \<Rightarrow> 0 | Some c \<Rightarrow> tax_ratePercent c))"

definition variant_for :: "string \<Rightarrow> db \<Rightarrow> string \<Rightarrow> variant option" where
  "variant_for tenantId s variantId =
     List.find (\<lambda>v. var_id v = variantId) (filter (\<lambda>v. var_tenantId v = tenantId) (productVariants s))"

definition line_price :: "create_sale_line \<Rightarrow> variant \<Rightarrow> rat" where
  "line_price line variant =
     (case csl_unitPriceOverride line of None \<Rightarrow> var_retailPrice variant | Some p \<Rightarrow> p)"

definition compute_line ::
  "env \<Rightarrow> string \<Rightarrow> db \<Rightarrow> string \<Rightarrow> create_sale_line \<Rightarrow> sale_totals \<Rightarrow> error + sale_totals" where
  "compute_line E tenantId s currency line totals =
     bindE (someE (variant_for tenantId s (csl_variantId line))
             (NotFound (''Product variant '' @ csl_variantId line @ '' not found'')))
     (\<lambda>variant.
      let unitPrice = money_of (line_price line variant) currency;
          discount = money_of (csl_discountAmount line) currency
      in bindE (money_subtract E (money_multiply E unitPrice (of_int (csl_quantity line))) discount)
      (\<lambda>lineSubtotal.
      let tax = money_round E 2 (money_percentage E lineSubtotal (tax_rate s variant))
      in bindE (money_add E lineSubtotal tax)
      (\<lambda>lineTotal.
      bindE (money_add E (st_subtotal totals) (money_multiply E unitPrice (of_int (csl_quantity line))))
      (\<lambda>subtotal.
      bindE (money_add E (st_taxTotal totals) tax)
      (\<lambda>taxTotal.
      bindE (money_add E (st_discountTotal totals) discount)
      (\<lambda>discountTotal.
        Inr \<lparr>st_subtotal = subtotal, st_taxTotal = taxTotal, st_discountTotal = discountTotal,
             st_lines = st_lines totals @
               [\<lparr>cl_variant = variant, cl_quantity = csl_quantity line, cl_unitPrice = unitPrice,
                 cl_unitCost = money_of (var_costPrice variant) currency, cl_taxAmount = tax,
                 cl_discountAmount = discount, cl_lineTotal = lineTotal\<rparr>]\<rparr>))))))"

definition zero_totals :: "string \<Rightarrow> sale_totals" where
  "zero_totals currency = \<lparr>st_subtotal = money_zero currency, st_taxTotal = money_zero currency,
     st_discountTotal = money_zero currency, st_lines = []\<rparr>"

definition compute_totals ::
  "env \<Rightarrow> string \<Rightarrow> db \<Rightarrow> create_sale_input \<Rightarrow> error + (sale_totals \<times> money)" where
  "compute_totals E tenantId s input =
     bindE (foldE (compute_line E tenantId s (csi_currency input)) (csi_lines input)
              (zero_totals (csi_currency input)))
     (\<lambda>t. bindE (money_subtract E (st_subtotal t) (st_discountTotal t))
     (\<lambda>d. bindE (money_add E d (st_taxTotal t)) (\<lambda>grand. Inr (t, grand))))"

definition sale_line_row :: "env \<Rightarrow> computed_line \<Rightarrow> sale_line" where
  "sale_line_row E l = \<lparr>sl_variantId = var_id (cl_variant l), sl_quantity = cl_quantity l,
     sl_unitPrice = toDecimalString E (cl_unitPrice l), sl_unitCost = toDecimalString E (cl_unitCost l),
     sl_taxAmount = toDecimalString E (cl_taxAmount l),
     sl_discountAmount = toDecimalString E (cl_discountAmount l),
     sl_lineTotal = toDecimalString E (cl_lineTotal l)\<rparr>"

definition payment_row :: "env \<Rightarrow> string \<Rightarrow> create_payment \<Rightarrow> payment" where
  "payment_row E currency p = \<lparr>pay_method = cp_method p, pay_amount = dec_col E (cp_amount p),
     pay_currency = currency, pay_reference = cp_reference p, pay_status = PayCOMPLETED\<rparr>"

definition sale_row ::
  "env \<Rightarrow> int \<Rightarrow> string \<Rightarrow> string \<Rightarrow> create_sale_input \<Rightarrow> sale_totals \<Rightarrow> money \<Rightarrow> string \<Rightarrow> sale" where
  "sale_row E now tenantId actorUserId input t grand sid =
     \<lparr>sale_id = sid, sale_tenantId = tenantId, sale_branchId = csi_branchId input,
      sale_registerId = csi_registerId input, sale_customerId = csi_customerId input,
      sale_salespersonUserId = Some actorUserId, sale_status = SaleCOMPLETED,
      sale_subtotal = toDecimalString E (st_subtotal t), sale_taxTotal = toDecimalString E (st_taxTotal t),
      sale_discountTotal = toDecimalString E (st_discountTotal t), sale_total = toDecimalString E grand,
      sale_currency = csi_currency input, sale_note = csi_note input,
      sale_clientMutationId = Some (csi_clientMutationId input), sale_createdAt = now,
      sale_voidedAt = None, sale_lines = map (sale_line_row E) (st_lines t),
      sale_payments = map (payment_row E (csi_currency input)) (csi_payments input),
      sale_refunds = []\<rparr>"

definition sale_in_range :: "sale \<Rightarrow> bool" where
  "sale_in_range x \<longleftrightarrow>
     column_range (sale_subtotal x) \<and> column_range (sale_taxTotal x) \<and>
     column_range (sale_discountTotal x) \<and> column_range (sale_total x) \<and>
     list_all (\<lambda>l. column_range (sl_unitPrice l) \<and> column_range (sl_unitCost l) \<and>
       column_range (sl_taxAmount l) \<and> column_range (sl_discountAmount l) \<and> column_range (sl_lineTotal l))
       (sale_lines x) \<and>
     list_all (\<lambda>p. column_range (pay_amount p)) (sale_payments x)"

definition insert_sale :: "sale \<Rightarrow> db \<Rightarrow> error + db" where
  "insert_sale x s =
     bindE (guardE (case sale_registerId x of None \<Rightarrow> True | Some r \<Rightarrow> taken reg_id r (registers s))
              (ForeignKeyViolation ''registerId''))
     (\<lambda>_. bindE (guardE (case sale_customerId x of None \<Rightarrow> True | Some c \<Rightarrow> taken cus_id c (customers s))
              (ForeignKeyViolation ''customerId''))
     (\<lambda>_. bindE (guardE (sale_in_range x) (ServerError ''numeric field overflow''))
     (\<lambda>_. Inr (s\<lparr>sales := sales s @ [x], seq := Suc (seq s)\<rparr>))))"

definition sale_movement ::
  "string \<Rightarrow> string \<Rightarrow> create_sale_input \<Rightarrow> string \<Rightarrow> computed_line \<Rightarrow> movement_input" where
  "sale_movement tenantId actorUserId input saleId l =
     \<lparr>mi_tenantId = tenantId, mi_branchId = csi_branchId input,
      mi_stockLocationId = csi_stockLocationId input, mi_variantId = var_id (cl_variant l),
      mi_type = SALE, mi_quantityDelta = - cl_quantity l, mi_reason = None,
      mi_actorUserId = Some actorUserId, mi_sourceType = Some ''sale'', mi_sourceId = Some saleId,
      mi_idempotencyKey = Some (''sale:'' @ saleId @ '':'' @ var_id (cl_variant l))\<rparr>"

fun sale_movements ::
  "env \<Rightarrow> int \<Rightarrow> string \<Rightarrow> string \<Rightarrow> create_sale_input \<Rightarrow> string \<Rightarrow> computed_line list \<Rightarrow> db \<Rightarrow> db" where
  "sale_movements E now t actor input saleId [] s = s"
| "sale_movements E now t actor input saleId (l # ls) s =
     sale_movements E now t actor input saleId ls
       (snd (recordMovement E now (sale_movement t actor input saleId l) s))"

definition charge_customer :: "env \<Rightarrow> create_sale_input \<Rightarrow> db \<Rightarrow> error + db" where
  "charge_customer E input s =
     (case csi_customerId input of
        None \<Rightarrow> Inr s
      | Some c \<Rightarrow>
          if c = [] then Inr s
          else bindE (money_sum E (\<lambda>p. money_of (cp_amount p) (csi_currency input))
                  (filter (\<lambda>p. cp_method p = CUSTOMER_CREDIT) (csi_payments input))
                  (money_zero (csi_currency input)))
             (\<lambda>creditPortion.
               if money_isZero creditPortion then Inr s
               else if taken cus_id c (customers s)
               then Inr (s\<lparr>customers := update_where (\<lambda>x. cus_id x = c)
                      (\<lambda>x. x\<lparr>cus_balance := cus_balance x + toDecimalString E creditPortion\<rparr>) (customers s)\<rparr>)
               else Inl (RecordNotFound ''Customer'')))"

definition sale_tx ::
  "env \<Rightarrow> int \<Rightarrow> string \<Rightarrow> string \<Rightarrow> create_sale_input \<Rightarrow> sale_totals \<Rightarrow> money \<Rightarrow> db \<Rightarrow> error + (sale \<times> db)" where
  "sale_tx E now tenantId actorUserId input t grand s =
     (let sale = sale_row E now tenantId actorUserId input t grand (uuid E (seq s)) in
      bindE (insert_sale sale s)
      (\<lambda>s1. let s2 = sale_movements E now tenantId actorUserId input (sale_id sale) (st_lines t) s1 in
      bindE (charge_customer E input s2)
      (\<lambda>s3. let s4 = audit_record E (audit_in (Some tenantId) (Some actorUserId) ''sales.created'' ''Sale''
                      (sale_id sale) (Some (JObj [(''total'', JStr (decimalText E grand))]))) s3;
                 s5 = publish E now \<lparr>pi_aggregateType = ''Sale'', pi_aggregateId = sale_id sale,
                      pi_eventType = ''sale.created'',
                      pi_payload = JObj [(''saleId'', JStr (sale_id sale)), (''tenantId'', JStr tenantId)]\<rparr> s4
             in Inr (sale, s5))))"

definition createSale ::
  "env \<Rightarrow> int \<Rightarrow> string \<Rightarrow> string \<Rightarrow> create_sale_input \<Rightarrow> db \<Rightarrow> (error + sale) \<times> db" where
  "createSale E now tenantId actorUserId input s =
     (case List.find (\<lambda>x. sale_tenantId x = tenantId \<and>
                          sale_clientMutationId x = Some (csi_clientMutationId input)) (sales s) of
        Some existing \<Rightarrow> (Inr existing, s)
      | None \<Rightarrow>
          (case List.find (\<lambda>b. br_id b = csi_branchId input \<and> br_tenantId b = tenantId) (branches s) of
             None \<Rightarrow> (Inl (NotFound ''Branch not found''), s)
           | Some _ \<Rightarrow>
               (case List.find (\<lambda>l. loc_id l = csi_stockLocationId input \<and> loc_tenantId l = tenantId \<and>
                                    loc_branchId l = csi_branchId input) (stockLocations s) of
                  None \<Rightarrow> (Inl (NotFound ''Stock location not found for this branch''), s)
                | Some _ \<Rightarrow>
                    (case bindE (compute_totals E tenantId s input)
                       (\<lambda>(t, grand).
                          bindE (money_sum E (\<lambda>p. money_of (cp_amount p) (csi_currency input)) (csi_payments input)
                                   (money_zero (csi_currency input)))
                          (\<lambda>paymentsTotal. bindE (money_compare paymentsTotal grand)
                          (\<lambda>c. if c \<noteq> 0
                               then Inl (BadRequest (''Payments ('' @ decimalText E paymentsTotal @
                                 '') must equal the sale total ('' @ decimalText E grand @ '')''))
                               else Inr (t, grand)))) of
                       Inl e \<Rightarrow> (Inl e, s)
                     | Inr (t, grand) \<Rightarrow> run_tx (sale_tx E now tenantId actorUserId input t grand) s))))"

section \<open>Refunding\<close>

definition refunded_so_far :: "env \<Rightarrow> sale \<Rightarrow> error + money" where
  "refunded_so_far E x =
     money_sum E (\<lambda>r. money_of (ref_amount r) (sale_currency x)) (sale_refunds x) (money_zero (sale_currency x))"

definition refund_decision :: "env \<Rightarrow> refund_input \<Rightarrow> sale \<Rightarrow> error + (money \<times> bool)" where
  "refund_decision E input sale =
     bindE (guardE (sale_status sale = SaleCOMPLETED \<or> sale_status sale = SalePARTIALLY_REFUNDED)
              (BadRequest (''Cannot refund a sale with status '' @ sale_status_text (sale_status sale))))
     (\<lambda>_. let grand = money_of (sale_total sale) (sale_currency sale) in
     bindE (refunded_so_far E sale)
     (\<lambda>alreadyRefunded.
     bindE (case ri_amount input of
              Some a \<Rightarrow> Inr (money_of a (sale_currency sale))
            | None \<Rightarrow> money_subtract E grand alreadyRefunded)
     (\<lambda>refundAmount.
     bindE (guardE (\<not> (money_isNegative refundAmount \<or> money_isZero refundAmount))
              (BadRequest ''Refund amount must be positive''))
     (\<lambda>_. bindE (money_add E alreadyRefunded refundAmount)
     (\<lambda>sum. bindE (money_compare sum grand)
     (\<lambda>c. if c > 0 then Inl (BadRequest ''Refund amount exceeds the remaining refundable balance'')
           else Inr (refundAmount, c = 0)))))))"

definition restock_movement ::
  "string \<Rightarrow> string \<Rightarrow> sale \<Rightarrow> stock_location \<Rightarrow> string \<Rightarrow> sale_line \<Rightarrow> movement_input" where
  "restock_movement tenantId actorUserId sale loc refundId line =
     \<lparr>mi_tenantId = tenantId, mi_branchId = sale_branchId sale, mi_stockLocationId = loc_id loc,
      mi_variantId = sl_variantId line, mi_type = SALE_RETURN, mi_quantityDelta = sl_quantity line,
      mi_reason = None, mi_actorUserId = Some actorUserId, mi_sourceType = Some ''refund'',
      mi_sourceId = Some refundId,
      mi_idempotencyKey = Some (''refund:'' @ refundId @ '':'' @ sl_variantId line)\<rparr>"

fun restock ::
  "env \<Rightarrow> int \<Rightarrow> string \<Rightarrow> string \<Rightarrow> sale \<Rightarrow> stock_location \<Rightarrow> string \<Rightarrow> sale_line list \<Rightarrow> db \<Rightarrow> db" where
  "restock E now t actor sale loc refundId [] s = s"
| "restock E now t actor sale loc refundId (l # ls) s =
     restock E now t actor sale loc refundId ls
       (snd (recordMovement E now (restock_movement t actor sale loc refundId l) s))"

definition refund_tx ::
  "env \<Rightarrow> int \<Rightarrow> string \<Rightarrow> string \<Rightarrow> refund_input \<Rightarrow> sale \<Rightarrow> money \<Rightarrow> bool \<Rightarrow> db \<Rightarrow> error + (refund \<times> db)" where
  "refund_tx E now tenantId actorUserId input sale refundAmount isFullRefund s =
     (let refund = \<lparr>ref_id = uuid E (seq s), ref_amount = toDecimalString E refundAmount,
            ref_reason = ri_reason input, ref_processedByUserId = actorUserId\<rparr> in
      bindE (guardE (column_range (ref_amount refund)) (ServerError ''numeric field overflow''))
      (\<lambda>_.
      let s1 = s\<lparr>sales := update_where (\<lambda>x. sale_id x = sale_id sale)
                (\<lambda>x. x\<lparr>sale_refunds := sale_refunds x @ [refund],
                       sale_status := (if isFullRefund then SaleREFUNDED else SalePARTIALLY_REFUNDED)\<rparr>)
                (sales s), seq := Suc (seq s)\<rparr>;
          s2 = (if ri_restock input \<and> isFullRefund
                then (case List.find (\<lambda>l. loc_tenantId l = tenantId \<and> loc_branchId l = sale_branchId sale \<and>
                                          loc_isDefault l) (stockLocations s1) of
                        None \<Rightarrow> s1
                      | Some loc \<Rightarrow>
                          restock E now tenantId actorUserId sale loc (ref_id refund) (sale_lines sale) s1)
                else s1);
          s3 = audit_record E (audit_in (Some tenantId) (Some actorUserId) ''sales.refunded'' ''Sale'' (sale_id sale)
                 (Some (JObj [(''amount'', JStr (decimalText E refundAmount))]))) s2;
          s4 = publish E now \<lparr>pi_aggregateType = ''Sale'', pi_aggregateId = sale_id sale,
                 pi_eventType = ''sale.refunded'',
                 pi_payload = JObj [(''saleId'', JStr (sale_id sale)), (''tenantId'', JStr tenantId),
                   (''amount'', JStr (decimalText E refundAmount))]\<rparr> s3
      in Inr (refund, s4)))"

definition refundSale ::
  "env \<Rightarrow> int \<Rightarrow> string \<Rightarrow> string \<Rightarrow> string \<Rightarrow> refund_input \<Rightarrow> db \<Rightarrow> (error + refund) \<times> db" where
  "refundSale E now tenantId actorUserId saleId input s =
     (case List.find (\<lambda>x. sale_id x = saleId \<and> sale_tenantId x = tenantId) (sales s) of
        None \<Rightarrow> (Inl (NotFound ''Sale not found''), s)
      | Some sale \<Rightarrow>
          (case refund_decision E input sale of
             Inl e \<Rightarrow> (Inl e, s)
           | Inr (refundAmount, isFullRefund) \<Rightarrow>
               run_tx (refund_tx E now tenantId actorUserId input sale refundAmount isFullRefund) s))"

section \<open>Voiding and reading\<close>

definition voidSale ::
  "env \<Rightarrow> int \<Rightarrow> string \<Rightarrow> string \<Rightarrow> string \<Rightarrow> db \<Rightarrow> (error + sale) \<times> db" where
  "voidSale E now tenantId actorUserId saleId s =
     (case List.find (\<lambda>x. sale_id x = saleId \<and> sale_tenantId x = tenantId) (sales s) of
        None \<Rightarrow> (Inl (NotFound ''Sale not found''), s)
      | Some sale \<Rightarrow>
          if sale_status sale \<noteq> SaleOPEN
          then (Inl (Forbidden ''Only open (uncompleted) sales can be voided; completed sales must be refunded''), s)
          else
            let f = (\<lambda>x. x\<lparr>sale_status := SaleVOIDED, sale_voidedAt := Some now\<rparr>);
                s1 = s\<lparr>sales := update_where (\<lambda>x. sale_id x = saleId) f (sales s)\<rparr>;
                s2 = audit_record E (audit_in (Some tenantId) (Some actorUserId) ''sales.voided'' ''Sale'' saleId None) s1
            in (Inr (f sale), s2))"

definition sale_matches :: "string \<Rightarrow> sales_query \<Rightarrow> sale \<Rightarrow> bool" where
  "sale_matches tenantId q x \<longleftrightarrow>
     sale_tenantId x = tenantId \<and>
     (case sq_branchId q of None \<Rightarrow> True | Some b \<Rightarrow> sale_branchId x = b) \<and>
     (case sq_customerId q of None \<Rightarrow> True | Some c \<Rightarrow> sale_customerId x = Some c) \<and>
     (case sq_status q of None \<Rightarrow> True | Some st \<Rightarrow> sale_status x = st) \<and>
     (case sq_from q of None \<Rightarrow> True | Some f \<Rightarrow> f \<le> sale_createdAt x) \<and>
     (case sq_to q of None \<Rightarrow> True | Some t \<Rightarrow> sale_createdAt x \<le> t)"

definition list_sales :: "string \<Rightarrow> sales_query \<Rightarrow> db \<Rightarrow> sale list" where
  "list_sales tenantId q s =
     page_of (sq_page q) (sq_pageSize q)
       (sort_key (\<lambda>x. - sale_createdAt x) (filter (sale_matches tenantId q) (sales s)))"

definition get_sale :: "string \<Rightarrow> string \<Rightarrow> db \<Rightarrow> error + sale" where
  "get_sale tenantId saleId s =
     someE (List.find (\<lambda>x. sale_id x = saleId \<and> sale_tenantId x = tenantId) (sales s)) (NotFound ''Sale not found'')"

end
