(* ===== verification/Sales_Facts.thy ===== *)
theory Sales_Facts
  imports Sales
begin

text \<open>
  What the sales service guarantees: exact totals, idempotent replay, stock, refunds within the
  total, and the cases the code does not guard.
\<close>

section \<open>The shape of a successful sale\<close>

lemma charge_customer_frame:
  assumes "charge_customer E input s = Inr s'"
  shows "s' = s \<or> (\<exists>cs. s' = s\<lparr>customers := cs\<rparr>)"
  using assms by (auto simp: charge_customer_def err_simps split: option.splits if_splits)

lemma sale_movements_post_all:
  "sale_movements E now t actor input sid ls s =
     ledger.post_all E now (map (sale_movement t actor input sid) ls) s"
  by (induction ls arbitrary: s) (simp_all add: ledger.post_all_def)

lemma restock_post_all:
  "restock E now t actor sale loc rid ls s =
     ledger.post_all E now (map (restock_movement t actor sale loc rid) ls) s"
  by (induction ls arbitrary: s) (simp_all add: ledger.post_all_def)

lemma post_all_frame [simp]:
  "sales (ledger.post_all E now is s) = sales s"
  "branches (ledger.post_all E now is s) = branches s"
  "stockLocations (ledger.post_all E now is s) = stockLocations s"
  "productVariants (ledger.post_all E now is s) = productVariants s"
  "taxClasses (ledger.post_all E now is s) = taxClasses s"
  "customers (ledger.post_all E now is s) = customers s"
  by (induction "is" arbitrary: s) (simp_all add: ledger.post_all_def)

lemma insert_sale_Inr:
  "insert_sale x s = Inr s' \<longleftrightarrow>
     (\<forall>r. sale_registerId x = Some r \<longrightarrow> taken reg_id r (registers s)) \<and>
     (\<forall>c. sale_customerId x = Some c \<longrightarrow> taken cus_id c (customers s)) \<and> sale_in_range x \<and>
     s' = s\<lparr>sales := sales s @ [x], seq := Suc (seq s)\<rparr>"
  by (auto simp: insert_sale_def err_simps split: option.splits)

lemma publish_ledger [simp]:
  "balance_at (publish E now i s) = balance_at s" "ledger_ok (publish E now i s) = ledger_ok s"
  by (simp_all add: balance_at_def ledger_ok_def fun_eq_iff)

lemma audit_ledger_ok [simp]: "ledger_ok (audit_record E a s) = ledger_ok s"
  by (rule ledger_ok_frame) simp_all

lemma sale_tx_spec:
  assumes "sale_tx E now t actor input tt grand s = Inr (x, s')"
  shows "x = sale_row E now t actor input tt grand (uuid E (seq s)) \<and> sale_in_range x \<and>
     sales s' = sales s @ [x] \<and> branches s' = branches s \<and> stockLocations s' = stockLocations s \<and>
     productVariants s' = productVariants s \<and> taxClasses s' = taxClasses s \<and>
     inventoryBalances s' = inventoryBalances (ledger.post_all E now
        (map (sale_movement t actor input (uuid E (seq s))) (st_lines tt))
        (s\<lparr>sales := sales s @ [x], seq := Suc (seq s)\<rparr>)) \<and>
     inventoryMovements s' = inventoryMovements (ledger.post_all E now
        (map (sale_movement t actor input (uuid E (seq s))) (st_lines tt))
        (s\<lparr>sales := sales s @ [x], seq := Suc (seq s)\<rparr>))"
proof -
  let ?x = "sale_row E now t actor input tt grand (uuid E (seq s))"
  have id: "sale_id ?x = uuid E (seq s)" by (simp add: sale_row_def)
  from assms obtain s1 s3 where 1: "insert_sale ?x s = Inr s1"
    and 3: "charge_customer E input (sale_movements E now t actor input (uuid E (seq s)) (st_lines tt) s1) = Inr s3"
    and eq: "x = ?x" and "\<exists>a p. s' = publish E now p (audit_record E a s3)"
    by (auto simp: sale_tx_def Let_def err_simps id)
  then obtain a p where s': "s' = publish E now p (audit_record E a s3)" by blast
  have s1: "s1 = s\<lparr>sales := sales s @ [?x], seq := Suc (seq s)\<rparr>" and r: "sale_in_range ?x"
    using 1 by (auto simp: insert_sale_Inr)
  show ?thesis
    using charge_customer_frame [OF 3] r
    by (auto simp: s' eq s1 sale_movements_post_all)
qed

lemma createSale_cases:
  assumes "createSale E now t actor input s = (Inr x, s')"
  obtains (replay) "List.find (\<lambda>x. sale_tenantId x = t \<and>
      sale_clientMutationId x = Some (csi_clientMutationId input)) (sales s) = Some x" "s' = s"
  | (new) tt grand paid where "List.find (\<lambda>x. sale_tenantId x = t \<and>
      sale_clientMutationId x = Some (csi_clientMutationId input)) (sales s) = None"
      "compute_totals E t s input = Inr (tt, grand)"
      "money_sum E (\<lambda>p. money_of (cp_amount p) (csi_currency input)) (csi_payments input)
         (money_zero (csi_currency input)) = Inr paid"
      "money_compare paid grand = Inr 0"
      "sale_tx E now t actor input tt grand s = Inr (x, s')"
  using assms
  by (auto simp: createSale_def err_simps split: option.splits sum.splits if_splits)

lemma createSale_failed: "createSale E now t actor input s = (Inl e, s') \<Longrightarrow> s' = s"
  by (auto simp: createSale_def err_simps split: option.splits sum.splits if_splits)

lemma createSale_replay:
  assumes "List.find (\<lambda>x. sale_tenantId x = t \<and>
      sale_clientMutationId x = Some (csi_clientMutationId input)) (sales s) = Some x"
  shows "createSale E now t actor input s = (Inr x, s)"
  using assms by (simp add: createSale_def)

lemma createSale_recorded:
  assumes "createSale E now t actor input s = (Inr x, s')"
  shows "List.find (\<lambda>x. sale_tenantId x = t \<and>
      sale_clientMutationId x = Some (csi_clientMutationId input)) (sales s') = Some x"
  using assms
proof (cases rule: createSale_cases)
  case (new tt grand paid)
  have "x = sale_row E now t actor input tt grand (uuid E (seq s))" "sales s' = sales s @ [x]"
    using sale_tx_spec [OF new(5)] by auto
  then show ?thesis using new(1) by (simp add: sale_row_def)
qed simp

section \<open>Exact totals\<close>

text \<open>The documented arithmetic of a line, and amounts for which 28 digits are enough.\<close>

definition gross_of :: "string \<Rightarrow> db \<Rightarrow> create_sale_line \<Rightarrow> rat" where
  "gross_of t s line = (case variant_for t s (csl_variantId line) of None \<Rightarrow> 0
     | Some v \<Rightarrow> line_price line v * of_int (csl_quantity line))"

definition net_of :: "string \<Rightarrow> db \<Rightarrow> create_sale_line \<Rightarrow> rat" where
  "net_of t s line = gross_of t s line - csl_discountAmount line"

definition tax_of :: "string \<Rightarrow> db \<Rightarrow> create_sale_line \<Rightarrow> rat" where
  "tax_of t s line = (case variant_for t s (csl_variantId line) of None \<Rightarrow> 0
     | Some v \<Rightarrow> half_up 2 (net_of t s line * tax_rate s v / 100))"

definition line_in_bounds :: "string \<Rightarrow> db \<Rightarrow> create_sale_line \<Rightarrow> bool" where
  "line_in_bounds t s line \<longleftrightarrow> (\<exists>v. variant_for t s (csl_variantId line) = Some v \<and>
     scaled 2 (line_price line v) \<and> scaled 2 (csl_discountAmount line) \<and> scaled 3 (tax_rate s v) \<and>
     \<bar>gross_of t s line\<bar> \<le> 10 ^ 11 \<and> \<bar>csl_discountAmount line\<bar> \<le> 10 ^ 11 \<and> \<bar>tax_rate s v\<bar> \<le> 1000)"

definition sums_to :: "string \<Rightarrow> sale_totals \<Rightarrow> rat \<Rightarrow> rat \<Rightarrow> rat \<Rightarrow> bool" where
  "sums_to c tt a b d \<longleftrightarrow> st_subtotal tt = money_of a c \<and> st_taxTotal tt = money_of b c \<and>
     st_discountTotal tt = money_of d c"

lemma line_in_boundsD:
  assumes "line_in_bounds t s line"
  obtains v where "variant_for t s (csl_variantId line) = Some v"
    "scaled 2 (line_price line v * of_int (csl_quantity line))"
    "scaled 2 (net_of t s line)" "scaled 2 (tax_of t s line)" "scaled 2 (csl_discountAmount line)"
    "scaled 5 (net_of t s line * tax_rate s v)" "scaled 7 (net_of t s line * tax_rate s v / 100)"
    "\<bar>net_of t s line\<bar> \<le> 2 * 10 ^ 11" "\<bar>net_of t s line * tax_rate s v\<bar> \<le> 2 * 10 ^ 14"
    "\<bar>tax_of t s line\<bar> \<le> 3 * 10 ^ 12"
proof -
  from assms obtain v where v: "variant_for t s (csl_variantId line) = Some v"
    and sc: "scaled 2 (line_price line v)" "scaled 2 (csl_discountAmount line)" "scaled 3 (tax_rate s v)"
    and bd: "\<bar>gross_of t s line\<bar> \<le> 10 ^ 11" "\<bar>csl_discountAmount line\<bar> \<le> 10 ^ 11" "\<bar>tax_rate s v\<bar> \<le> 1000"
    unfolding line_in_bounds_def by blast
  have g: "gross_of t s line = line_price line v * of_int (csl_quantity line)" by (simp add: gross_of_def v)
  have s1: "scaled 2 (line_price line v * of_int (csl_quantity line))" using sc(1) by (rule scaled_mult_int)
  have s2: "scaled 2 (net_of t s line)" unfolding net_of_def g using s1 sc(2) by (rule scaled_diff)
  have s5: "scaled 5 (net_of t s line * tax_rate s v)" using scaled_mult [OF s2 sc(3)] by simp
  have s7: "scaled 7 (net_of t s line * tax_rate s v / 100)" using scaled_div_100 [OF s5] by simp
  have b1: "\<bar>net_of t s line\<bar> \<le> 2 * 10 ^ 11" using bd unfolding net_of_def by linarith
  have "\<bar>net_of t s line * tax_rate s v\<bar> \<le> (2 * 10 ^ 11) * 1000"
    unfolding abs_mult using b1 bd(3) by (intro mult_mono) auto
  then have b2: "\<bar>net_of t s line * tax_rate s v\<bar> \<le> 2 * 10 ^ 14" by simp
  have tx: "tax_of t s line = half_up 2 (net_of t s line * tax_rate s v / 100)" by (simp add: tax_of_def v)
  have "\<bar>half_up 2 (net_of t s line * tax_rate s v / 100) - net_of t s line * tax_rate s v / 100\<bar> \<le> 1"
    using half_up_error [of 2 "net_of t s line * tax_rate s v / 100"] by simp
  then have b3: "\<bar>tax_of t s line\<bar> \<le> 3 * 10 ^ 12" unfolding tx using b2 by (simp add: abs_if split: if_splits)
  show ?thesis using that [OF v s1 s2 _ sc(2) s5 s7 b1 b2 b3] by (simp add: tx)
qed

lemma compute_line_exact:
  assumes D: "decimal_lib (dec_round E) (dec_places E)" and line: "line_in_bounds t s line"
    and tt: "sums_to c tt a b d" "scaled 2 a" "scaled 2 b" "scaled 2 d"
      "\<bar>a\<bar> \<le> 10 ^ 16" "\<bar>b\<bar> \<le> 10 ^ 16" "\<bar>d\<bar> \<le> 10 ^ 16"
  shows "\<exists>tt' l v. compute_line E t s c line tt = Inr tt' \<and>
     sums_to c tt' (a + gross_of t s line) (b + tax_of t s line) (d + csl_discountAmount line) \<and>
     st_lines tt' = st_lines tt @ [l] \<and> variant_for t s (csl_variantId line) = Some v \<and> cl_variant l = v \<and>
     cl_quantity l = csl_quantity line \<and> cl_unitPrice l = money_of (line_price line v) c \<and>
     cl_taxAmount l = money_of (tax_of t s line) c \<and> cl_discountAmount l = money_of (csl_discountAmount line) c \<and>
     cl_lineTotal l = money_of (net_of t s line + tax_of t s line) c"
proof -
  note rnd = decimal_lib.rnd_scaled [OF D] and places = decimal_lib.places_half_up [OF D]
  obtain v where v: "variant_for t s (csl_variantId line) = Some v"
    and sc: "scaled 2 (line_price line v * of_int (csl_quantity line))" "scaled 2 (net_of t s line)"
      "scaled 2 (tax_of t s line)" "scaled 2 (csl_discountAmount line)"
      "scaled 5 (net_of t s line * tax_rate s v)" "scaled 7 (net_of t s line * tax_rate s v / 100)"
    and bd: "\<bar>net_of t s line\<bar> \<le> 2 * 10 ^ 11" "\<bar>net_of t s line * tax_rate s v\<bar> \<le> 2 * 10 ^ 14"
      "\<bar>tax_of t s line\<bar> \<le> 3 * 10 ^ 12"
    using line by (rule line_in_boundsD)
  have g: "line_price line v * of_int (csl_quantity line) = gross_of t s line"
    by (simp add: gross_of_def v)
  have gb: "\<bar>gross_of t s line\<bar> \<le> 10 ^ 11" "\<bar>csl_discountAmount line\<bar> \<le> 10 ^ 11"
    using line by (auto simp: line_in_bounds_def)
  have net: "gross_of t s line - csl_discountAmount line = net_of t s line" by (simp add: net_of_def)
  have tx: "half_up 2 (net_of t s line * tax_rate s v / 100) = tax_of t s line" by (simp add: tax_of_def v)
  have r: "dec_round E (gross_of t s line) = gross_of t s line"
    "dec_round E (net_of t s line) = net_of t s line"
    "dec_round E (net_of t s line * tax_rate s v) = net_of t s line * tax_rate s v"
    "dec_round E (net_of t s line * tax_rate s v / 100) = net_of t s line * tax_rate s v / 100"
    "dec_round E (net_of t s line + tax_of t s line) = net_of t s line + tax_of t s line"
    "dec_round E (a + gross_of t s line) = a + gross_of t s line"
    "dec_round E (b + tax_of t s line) = b + tax_of t s line"
    "dec_round E (d + csl_discountAmount line) = d + csl_discountAmount line"
  proof -
    show "dec_round E (gross_of t s line) = gross_of t s line"
      using sc(1) gb by (intro rnd [of 2]) (simp_all add: g)
    show "dec_round E (net_of t s line) = net_of t s line" using sc(2) bd by (intro rnd [of 2]) simp_all
    show "dec_round E (net_of t s line * tax_rate s v) = net_of t s line * tax_rate s v"
      using sc(5) bd by (intro rnd [of 5]) simp_all
    show "dec_round E (net_of t s line * tax_rate s v / 100) = net_of t s line * tax_rate s v / 100"
      using sc(6) bd by (intro rnd [of 7]) simp_all
    show "dec_round E (net_of t s line + tax_of t s line) = net_of t s line + tax_of t s line"
      using sc(2,3) bd by (intro rnd [of 2] scaled_add) (auto simp: abs_if split: if_splits)
    show "dec_round E (a + gross_of t s line) = a + gross_of t s line"
      using sc(1) tt(2,5) gb by (intro rnd [of 2] scaled_add) (auto simp: g abs_if split: if_splits)
    show "dec_round E (b + tax_of t s line) = b + tax_of t s line"
      using sc(3) tt(3,6) bd by (intro rnd [of 2] scaled_add) (auto simp: abs_if split: if_splits)
    show "dec_round E (d + csl_discountAmount line) = d + csl_discountAmount line"
      using sc(4) tt(4,7) gb by (intro rnd [of 2] scaled_add) (auto simp: abs_if split: if_splits)
  qed
  show ?thesis
    using tt(1) by (simp add: compute_line_def v sums_to_def money_simps g net r places tx)
qed

lemma compute_lines_exact:
  assumes D: "decimal_lib (dec_round E) (dec_places E)"
    and lines: "\<forall>line\<in>set ls. line_in_bounds t s line"
    and tt: "sums_to c tt a b d" "scaled 2 a" "scaled 2 b" "scaled 2 d"
      "\<bar>a\<bar> + of_nat (length ls) * 10 ^ 13 \<le> 10 ^ 16" "\<bar>b\<bar> + of_nat (length ls) * 10 ^ 13 \<le> 10 ^ 16"
      "\<bar>d\<bar> + of_nat (length ls) * 10 ^ 13 \<le> 10 ^ 16"
  shows "\<exists>tt' cls. foldE (compute_line E t s c) ls tt = Inr tt' \<and>
     sums_to c tt' (a + (\<Sum>l\<leftarrow>ls. gross_of t s l)) (b + (\<Sum>l\<leftarrow>ls. tax_of t s l))
        (d + (\<Sum>l\<leftarrow>ls. csl_discountAmount l)) \<and>
     st_lines tt' = st_lines tt @ cls \<and>
     map (\<lambda>l. Some (cl_variant l)) cls = map (\<lambda>l. variant_for t s (csl_variantId l)) ls \<and>
     map cl_quantity cls = map csl_quantity ls \<and>
     map cl_lineTotal cls = map (\<lambda>l. money_of (net_of t s l + tax_of t s l) c) ls"
  using lines tt
proof (induction ls arbitrary: tt a b d)
  case (Cons l ls)
  have len: "of_nat (length (l # ls)) * 10 ^ 13 = of_nat (length ls) * 10 ^ 13 + (10 ^ 13 :: rat)"
    by (simp add: algebra_simps)
  have pos: "0 \<le> of_nat (length ls) * (10::rat) ^ 13" by simp
  have lb: "line_in_bounds t s l" using Cons.prems(1) by simp
  obtain v where sc: "scaled 2 (gross_of t s l)" "scaled 2 (tax_of t s l)" "scaled 2 (csl_discountAmount l)"
    and bd: "\<bar>tax_of t s l\<bar> \<le> 3 * 10 ^ 12"
    using line_in_boundsD [OF lb] by (metis gross_of_def option.simps(5))
  have gb: "\<bar>gross_of t s l\<bar> \<le> 10 ^ 11" "\<bar>csl_discountAmount l\<bar> \<le> 10 ^ 11"
    using lb by (auto simp: line_in_bounds_def)
  obtain tt' cl v where 1: "compute_line E t s c l tt = Inr tt'"
    "sums_to c tt' (a + gross_of t s l) (b + tax_of t s l) (d + csl_discountAmount l)"
    "st_lines tt' = st_lines tt @ [cl]" "variant_for t s (csl_variantId l) = Some v" "cl_variant cl = v"
    "cl_quantity cl = csl_quantity l" "cl_lineTotal cl = money_of (net_of t s l + tax_of t s l) c"
    using compute_line_exact [OF D lb Cons.prems(2-5)] Cons.prems(6-8) len pos by force
  have step: "\<bar>x + y\<bar> + n \<le> 10 ^ 16" if "\<bar>x\<bar> + (n + 10 ^ 13) \<le> 10 ^ 16" "\<bar>y\<bar> \<le> 3 * 10 ^ 12"
    for x y n :: rat using that by (simp add: abs_if split: if_splits)
  have "\<bar>a + gross_of t s l\<bar> + of_nat (length ls) * 10 ^ 13 \<le> 10 ^ 16"
    "\<bar>b + tax_of t s l\<bar> + of_nat (length ls) * 10 ^ 13 \<le> 10 ^ 16"
    "\<bar>d + csl_discountAmount l\<bar> + of_nat (length ls) * 10 ^ 13 \<le> 10 ^ 16"
    using step [OF _ _, of a _ "gross_of t s l"] step [OF _ _, of b _ "tax_of t s l"]
      step [OF _ _, of d _ "csl_discountAmount l"] Cons.prems(6-8) gb bd
    unfolding len by auto
  from Cons.IH [OF _ 1(2) _ _ _ this] Cons.prems(1,3-5) sc
  obtain tt'' cls where 2: "foldE (compute_line E t s c) ls tt' = Inr tt''"
    "sums_to c tt'' (a + gross_of t s l + (\<Sum>l\<leftarrow>ls. gross_of t s l)) (b + tax_of t s l + (\<Sum>l\<leftarrow>ls. tax_of t s l))
        (d + csl_discountAmount l + (\<Sum>l\<leftarrow>ls. csl_discountAmount l))"
    "st_lines tt'' = st_lines tt' @ cls"
    "map (\<lambda>l. Some (cl_variant l)) cls = map (\<lambda>l. variant_for t s (csl_variantId l)) ls"
    "map cl_quantity cls = map csl_quantity ls"
    "map cl_lineTotal cls = map (\<lambda>l. money_of (net_of t s l + tax_of t s l) c) ls"
    by (auto intro: scaled_add)
  show ?case
    using 1 2 by (intro exI [of _ tt''] exI [of _ "cl # cls"]) (simp add: add.assoc)
qed simp

lemma money_sum_exact:
  assumes D: "decimal_lib (dec_round E) (dec_places E)"
    and xs: "\<forall>x\<in>set xs. scaled k (g x) \<and> \<bar>g x\<bar> \<le> B" and a: "scaled k a"
    and small: "(\<bar>a\<bar> + of_nat (length xs) * B) * 10 ^ k < 10 ^ 28" and "0 \<le> B"
  shows "money_sum E (\<lambda>x. money_of (g x) c) xs (money_of a c) = Inr (money_of (a + (\<Sum>x\<leftarrow>xs. g x)) c)"
  using xs a small
proof (induction xs arbitrary: a)
  case (Cons x xs)
  have len: "of_nat (length (x # xs)) * B = B + of_nat (length xs) * B" by (simp add: algebra_simps)
  have p: "0 \<le> of_nat (length xs) * B" using assms(5) by simp
  have sx: "scaled k (a + g x)" using Cons.prems by (auto intro: scaled_add)
  have le: "\<bar>a + g x\<bar> + of_nat (length xs) * B \<le> \<bar>a\<bar> + of_nat (length (x # xs)) * B"
    using Cons.prems(1) len by (simp add: abs_if split: if_splits) linarith?
  have k: "(0::rat) < 10 ^ k" by simp
  have less: "(\<bar>a + g x\<bar> + of_nat (length xs) * B) * 10 ^ k < 10 ^ 28"
    by (rule order.strict_trans1 [OF mult_right_mono [OF le] Cons.prems(3)]) simp
  moreover have "\<bar>a + g x\<bar> * 10 ^ k \<le> (\<bar>a + g x\<bar> + of_nat (length xs) * B) * 10 ^ k"
    using p by (intro mult_right_mono) auto
  ultimately have "dec_round E (a + g x) = a + g x"
    by (intro decimal_lib.rnd_scaled [OF D sx]) linarith
  then show ?case using Cons.IH [OF _ sx less] Cons.prems(1) by (simp add: money_simps add.assoc)
qed simp

text \<open>The hypotheses on a request under which every intermediate result is exact.\<close>

definition request_in_bounds :: "string \<Rightarrow> db \<Rightarrow> create_sale_input \<Rightarrow> bool" where
  "request_in_bounds t s input \<longleftrightarrow>
     (\<forall>line\<in>set (csi_lines input). line_in_bounds t s line) \<and> length (csi_lines input) \<le> 1000 \<and>
     (\<forall>p\<in>set (csi_payments input). scaled 4 (cp_amount p) \<and> \<bar>cp_amount p\<bar> \<le> 10 ^ 11) \<and>
     length (csi_payments input) \<le> 1000"

definition sale_amount :: "string \<Rightarrow> db \<Rightarrow> create_sale_input \<Rightarrow> rat" where
  "sale_amount t s input = (\<Sum>l\<leftarrow>csi_lines input. net_of t s l + tax_of t s l)"

lemma sum_list_bound: "\<forall>x\<in>set xs. \<bar>f x\<bar> \<le> B \<Longrightarrow> \<bar>\<Sum>x\<leftarrow>xs. f x\<bar> \<le> of_nat (length xs) * (B::rat)"
proof (induction xs)
  case (Cons x xs)
  then have "\<bar>f x\<bar> \<le> B" "\<bar>\<Sum>x\<leftarrow>xs. f x\<bar> \<le> of_nat (length xs) * B" by auto
  then show ?case by (simp add: algebra_simps abs_if split: if_splits)
qed simp

lemma compute_totals_exact:
  assumes D: "decimal_lib (dec_round E) (dec_places E)" and ok: "request_in_bounds t s input"
  shows "\<exists>tt. compute_totals E t s input = Inr (tt, money_of (sale_amount t s input) (csi_currency input)) \<and>
     sums_to (csi_currency input) tt (\<Sum>l\<leftarrow>csi_lines input. gross_of t s l) (\<Sum>l\<leftarrow>csi_lines input. tax_of t s l)
        (\<Sum>l\<leftarrow>csi_lines input. csl_discountAmount l) \<and>
     map (\<lambda>l. Some (cl_variant l)) (st_lines tt) = map (\<lambda>l. variant_for t s (csl_variantId l)) (csi_lines input) \<and>
     map cl_quantity (st_lines tt) = map csl_quantity (csi_lines input) \<and>
     map cl_lineTotal (st_lines tt) = map (\<lambda>l. money_of (net_of t s l + tax_of t s l) (csi_currency input)) (csi_lines input)"
proof -
  let ?ls = "csi_lines input" and ?c = "csi_currency input"
  let ?G = "\<Sum>l\<leftarrow>?ls. gross_of t s l" and ?T = "\<Sum>l\<leftarrow>?ls. tax_of t s l" and ?D = "\<Sum>l\<leftarrow>?ls. csl_discountAmount l"
  have lines: "\<forall>l\<in>set ?ls. line_in_bounds t s l" and "length ?ls \<le> 1000"
    using ok by (auto simp: request_in_bounds_def)
  then have n: "of_nat (length ?ls) \<le> (1000 :: rat)" by (metis of_nat_le_iff of_nat_numeral)
  have z: "sums_to ?c (zero_totals ?c) 0 0 0" by (simp add: sums_to_def zero_totals_def money_zero_of)
  have len: "\<bar>0\<bar> + of_nat (length ?ls) * 10 ^ 13 \<le> (10 ^ 16 :: rat)" using n by simp
  obtain tt cls where tt: "foldE (compute_line E t s ?c) ?ls (zero_totals ?c) = Inr tt"
    "sums_to ?c tt ?G ?T ?D" "st_lines tt = cls"
    "map (\<lambda>l. Some (cl_variant l)) cls = map (\<lambda>l. variant_for t s (csl_variantId l)) ?ls"
    "map cl_quantity cls = map csl_quantity ?ls"
    "map cl_lineTotal cls = map (\<lambda>l. money_of (net_of t s l + tax_of t s l) ?c) ?ls"
    using compute_lines_exact [OF D lines z _ _ _ len len len] by (auto simp: zero_totals_def)
  have each: "scaled 2 (gross_of t s l) \<and> scaled 2 (tax_of t s l) \<and> scaled 2 (csl_discountAmount l) \<and>
      \<bar>gross_of t s l\<bar> \<le> 10 ^ 13 \<and> \<bar>csl_discountAmount l\<bar> \<le> 10 ^ 13 \<and> \<bar>tax_of t s l\<bar> \<le> 10 ^ 13"
    if "l \<in> set ?ls" for l
  proof -
    have lb: "line_in_bounds t s l" using that lines by blast
    then have "\<bar>gross_of t s l\<bar> \<le> 10 ^ 11" "\<bar>csl_discountAmount l\<bar> \<le> 10 ^ 11" by (auto simp: line_in_bounds_def)
    moreover obtain v where "scaled 2 (gross_of t s l)" "scaled 2 (tax_of t s l)" "scaled 2 (csl_discountAmount l)"
      "\<bar>tax_of t s l\<bar> \<le> 3 * 10 ^ 12"
      using line_in_boundsD [OF lb] by (metis gross_of_def option.simps(5))
    ultimately show ?thesis by simp
  qed
  have sc: "scaled 2 ?G" "scaled 2 ?T" "scaled 2 ?D" using each by (auto intro!: scaled_sum_list)
  have b: "\<bar>?G\<bar> \<le> of_nat (length ?ls) * 10 ^ 13" "\<bar>?T\<bar> \<le> of_nat (length ?ls) * 10 ^ 13"
    "\<bar>?D\<bar> \<le> of_nat (length ?ls) * 10 ^ 13"
    using each by (auto intro!: sum_list_bound)
  have big: "of_nat (length ?ls) * 10 ^ 13 \<le> (10 ^ 16 :: rat)" using n by simp
  have bd: "\<bar>?G\<bar> \<le> 10 ^ 16" "\<bar>?T\<bar> \<le> 10 ^ 16" "\<bar>?D\<bar> \<le> 10 ^ 16"
    using order.trans [OF b(1) big] order.trans [OF b(2) big] order.trans [OF b(3) big] by simp_all
  have r1: "dec_round E (?G - ?D) = ?G - ?D"
    using sc bd by (intro decimal_lib.rnd_scaled [OF D, of 2] scaled_diff) (auto simp: abs_if split: if_splits)
  have r2: "dec_round E (?G - ?D + ?T) = ?G - ?D + ?T"
    using sc bd by (intro decimal_lib.rnd_scaled [OF D, of 2] scaled_diff scaled_add) (auto simp: abs_if split: if_splits)
  have sum: "?G - ?D + ?T = sale_amount t s input"
    by (simp add: sale_amount_def net_of_def sum_list_addf sum_list_subtractf)
  have "compute_totals E t s input = Inr (tt, money_of (sale_amount t s input) ?c)"
    using tt(2) by (simp add: compute_totals_def tt(1) sums_to_def money_simps r1 r2 flip: sum)
  with tt show ?thesis by (intro exI [of _ tt]) simp
qed

lemma payments_exact:
  assumes D: "decimal_lib (dec_round E) (dec_places E)" and ok: "request_in_bounds t s input"
  shows "money_sum E (\<lambda>p. money_of (cp_amount p) (csi_currency input)) (csi_payments input)
      (money_zero (csi_currency input)) = Inr (money_of (\<Sum>p\<leftarrow>csi_payments input. cp_amount p) (csi_currency input))"
proof -
  have n: "of_nat (length (csi_payments input)) \<le> (1000 :: rat)"
    using ok unfolding request_in_bounds_def by (metis of_nat_le_iff of_nat_numeral)
  show ?thesis
    using money_sum_exact [OF D, of "csi_payments input" 4 cp_amount "10 ^ 11" 0 "csi_currency input"] ok n
    by (simp add: request_in_bounds_def money_zero_of)
qed

section \<open>Lines and movements\<close>

lemma compute_line_shape:
  assumes "compute_line E t s c line tt = Inr tt'"
  shows "\<exists>l. st_lines tt' = st_lines tt @ [l] \<and> var_id (cl_variant l) = csl_variantId line \<and>
     cl_quantity l = csl_quantity line"
  using assms by (auto simp: compute_line_def Let_def err_simps variant_for_def dest!: find_SomeD)

lemma compute_lines_shape:
  assumes "foldE (compute_line E t s c) ls tt = Inr tt'"
  shows "\<exists>cls. st_lines tt' = st_lines tt @ cls \<and> map (\<lambda>l. var_id (cl_variant l)) cls = map csl_variantId ls \<and>
     map cl_quantity cls = map csl_quantity ls"
  using assms
proof (induction ls arbitrary: tt)
  case (Cons l ls)
  then obtain tt1 where 1: "compute_line E t s c l tt = Inr tt1" "foldE (compute_line E t s c) ls tt1 = Inr tt'"
    by (auto simp: err_simps)
  obtain cl where cl: "st_lines tt1 = st_lines tt @ [cl]" "var_id (cl_variant cl) = csl_variantId l"
    "cl_quantity cl = csl_quantity l" using compute_line_shape [OF 1(1)] by blast
  obtain cls where "st_lines tt' = st_lines tt1 @ cls" "map (\<lambda>l. var_id (cl_variant l)) cls = map csl_variantId ls"
     "map cl_quantity cls = map csl_quantity ls" using Cons.IH [OF 1(2)] by blast
  with cl show ?case by (intro exI [of _ "cl # cls"]) simp
qed simp

lemma compute_totals_shape:
  assumes "compute_totals E t s input = Inr (tt, grand)"
  shows "map (\<lambda>l. var_id (cl_variant l)) (st_lines tt) = map csl_variantId (csi_lines input) \<and>
     map cl_quantity (st_lines tt) = map csl_quantity (csi_lines input)"
  using assms compute_lines_shape [of E t s "csi_currency input" "csi_lines input" "zero_totals (csi_currency input)"]
  by (fastforce simp: compute_totals_def err_simps zero_totals_def)

definition sold :: "string \<Rightarrow> create_sale_line list \<Rightarrow> int" where
  "sold var ls = (\<Sum>l\<leftarrow>ls. if csl_variantId l = var then csl_quantity l else 0)"

lemma sale_movements_delta:
  assumes "map (\<lambda>l. var_id (cl_variant l)) cls = map csl_variantId ls" "map cl_quantity cls = map csl_quantity ls"
  shows "ledger.delta_at loc var (map (sale_movement t actor input sid) cls) =
     (if loc = csi_stockLocationId input then - sold var ls else 0)"
  using assms
proof (induction cls arbitrary: ls)
  case (Cons cl cls)
  then obtain l ls' where ls: "ls = l # ls'" by (cases ls) auto
  show ?case using Cons.IH [of ls'] Cons.prems
    by (auto simp: ls ledger.delta_at_def sold_def sale_movement_def)
qed (simp add: ledger.delta_at_def sold_def)

text \<open>No movement has been recorded yet under the key of a sale or refund with this identifier.\<close>

definition fresh_keys :: "string \<Rightarrow> string \<Rightarrow> db \<Rightarrow> bool" where
  "fresh_keys kind i s \<longleftrightarrow>
     (\<forall>m\<in>set (inventoryMovements s). \<forall>v. mov_idempotencyKey m \<noteq> Some (kind @ i @ '':'' @ v))"

lemma sale_movements_stock:
  assumes shape: "map (\<lambda>l. var_id (cl_variant l)) cls = map csl_variantId ls" "map cl_quantity cls = map csl_quantity ls"
    and d: "distinct (map csl_variantId ls)" and fresh: "fresh_keys ''sale:'' sid s"
  shows "balance_at (ledger.post_all E now (map (sale_movement t actor input sid) cls) s) loc var =
     balance_at s loc var - (if loc = csi_stockLocationId input then sold var ls else 0)"
proof -
  have "\<forall>i\<in>set (map (sale_movement t actor input sid) cls). \<not> key_used i s"
    using fresh by (fastforce simp: key_used_iff sale_movement_def fresh_keys_def)
  moreover have "distinct (map mi_idempotencyKey (map (sale_movement t actor input sid) cls))"
  proof -
    have "map mi_idempotencyKey (map (sale_movement t actor input sid) cls) =
        map (\<lambda>v. Some (''sale:'' @ sid @ '':'' @ v)) (map (\<lambda>l. var_id (cl_variant l)) cls)"
      by (simp add: sale_movement_def)
    then show ?thesis using d unfolding shape by (simp add: distinct_map inj_on_def)
  qed
  ultimately show ?thesis
    by (simp add: ledger.post_all_stock sale_movements_delta [OF shape])
qed

lemma new_sale_stock:
  assumes run: "createSale E now t actor input s = (Inr x, s')"
    and new: "List.find (\<lambda>x. sale_tenantId x = t \<and>
      sale_clientMutationId x = Some (csi_clientMutationId input)) (sales s) = None"
    and d: "distinct (map csl_variantId (csi_lines input))" and fresh: "fresh_keys ''sale:'' (uuid E (seq s)) s"
  shows "balance_at s' loc var = balance_at s loc var -
     (if loc = csi_stockLocationId input then sold var (csi_lines input) else 0)"
  using run
proof (cases rule: createSale_cases)
  case (new tt grand paid)
  note shape = compute_totals_shape [OF new(2)]
  have "inventoryBalances s' = inventoryBalances (ledger.post_all E now
        (map (sale_movement t actor input (uuid E (seq s))) (st_lines tt))
        (s\<lparr>sales := sales s @ [x], seq := Suc (seq s)\<rparr>))"
    using sale_tx_spec [OF new(5)] by blast
  moreover have "fresh_keys ''sale:'' (uuid E (seq s)) (s\<lparr>sales := sales s @ [x], seq := Suc (seq s)\<rparr>)"
    using fresh by (simp add: fresh_keys_def)
  ultimately show ?thesis
    using sale_movements_stock [OF _ _ d, of "st_lines tt"] shape
    by (simp add: balance_at_frame [of s'] balance_at_frame [of "s\<lparr>sales := _, seq := _\<rparr>" s])
qed (use new in simp)

section \<open>Properties\<close>


definition demo_sale_db :: db where
  "demo_sale_db = empty_db\<lparr>
     branches := [\<lparr>br_id = ''b1'', br_tenantId = ''t1'', br_name = ''Main'', br_address = None,
       br_timezone = ''UTC'', br_currency = ''USD'', br_isActive = True, br_isBillable = False,
       br_archivedAt = None, br_createdAt = 0\<rparr>],
     stockLocations := [demo_location ''l1''],
     taxClasses := [\<lparr>tax_id = ''x1'', tax_tenantId = ''t1'', tax_ratePercent = 10\<rparr>],
     productVariants := [demo_variant\<lparr>var_taxClassId := Some ''x1''\<rparr>]\<rparr>"

definition demo_line :: create_sale_line where
  "demo_line = \<lparr>csl_variantId = ''v1'', csl_quantity = 2, csl_unitPriceOverride = None, csl_discountAmount = 1\<rparr>"

definition demo_sale :: "rat \<Rightarrow> create_sale_input" where
  "demo_sale paid = \<lparr>csi_clientMutationId = ''cm1'', csi_branchId = ''b1'', csi_registerId = None,
     csi_stockLocationId = ''l1'', csi_customerId = None, csi_lines = [demo_line],
     csi_payments = [\<lparr>cp_method = CASH, cp_amount = paid, cp_reference = None\<rparr>],
     csi_note = None, csi_currency = ''USD''\<rparr>"

lemma demo_sale_simps [simp]:
  "csi_clientMutationId (demo_sale p) = ''cm1''" "csi_branchId (demo_sale p) = ''b1''"
  "csi_registerId (demo_sale p) = None" "csi_stockLocationId (demo_sale p) = ''l1''"
  "csi_customerId (demo_sale p) = None" "csi_currency (demo_sale p) = ''USD''"
  "csi_lines (demo_sale p) = [demo_line]"
  "csi_payments (demo_sale p) = [\<lparr>cp_method = CASH, cp_amount = p, cp_reference = None\<rparr>]"
  "csl_variantId demo_line = ''v1''" "csl_quantity demo_line = 2"
  "csl_unitPriceOverride demo_line = None" "csl_discountAmount demo_line = 1"
  by (simp_all add: demo_sale_def demo_line_def)

lemma demo_sale_db_simps [simp]:
  "sales demo_sale_db = []" "stockLocations demo_sale_db = [demo_location ''l1'']"
  "taxClasses demo_sale_db = [\<lparr>tax_id = ''x1'', tax_tenantId = ''t1'', tax_ratePercent = 10\<rparr>]"
  "productVariants demo_sale_db = [demo_variant\<lparr>var_taxClassId := Some ''x1''\<rparr>]"
  "inventoryMovements demo_sale_db = []" "inventoryBalances demo_sale_db = []" "outboxEvents demo_sale_db = []"
  "seq demo_sale_db = 0" "loc_branchId (demo_location l) = ''b1''" "loc_isDefault (demo_location l)"
  "var_retailPrice demo_variant = 10" "var_costPrice demo_variant = 4"
  by (simp_all add: demo_sale_db_def empty_db_def demo_location_def demo_variant_def)

lemma demo_branch:
  "\<exists>b. List.find (\<lambda>b. br_id b = ''b1'' \<and> br_tenantId b = ''t1'') (branches demo_sale_db) = Some b"
  by (simp add: demo_sale_db_def)

lemma demo_half_up [simp]:
  "half_up 2 (19 / 10) = 19 / 10" "half_up 2 20 = 20" "half_up 2 1 = 1" "half_up 2 10 = 10"
  "half_up 2 4 = 4" "half_up 2 (209 / 10) = 209 / 10" "half_up 4 (209 / 10) = 209 / 10"
  by code_simp+

lemma demo_sale_runs:
  "\<exists>x s'. createSale exact_env now ''t1'' ''u1'' (demo_sale (209 / 10)) demo_sale_db = (Inr x, s')"
  using demo_branch
  by (auto simp: createSale_def compute_totals_def compute_line_def zero_totals_def variant_for_def line_price_def
      tax_rate_def money_ops money_zero_of run_tx_def sale_tx_def insert_sale_def sale_row_def sale_in_range_def
      sale_line_row_def payment_row_def column_range_def charge_customer_def Let_def comparedTo_def)

lemma demo_request_in_bounds: "\<bar>p\<bar> \<le> 10 ^ 11 \<Longrightarrow> scaled 4 p \<Longrightarrow> request_in_bounds ''t1'' demo_sale_db (demo_sale p)"
  by (simp add: request_in_bounds_def line_in_bounds_def gross_of_def variant_for_def line_price_def tax_rate_def
      scaled_def)

lemma demo_sale_amount: "sale_amount ''t1'' demo_sale_db (demo_sale p) = 209 / 10"
  by (simp add: sale_amount_def net_of_def tax_of_def gross_of_def variant_for_def line_price_def tax_rate_def)




text \<open>C9: a new sale takes exactly what it sold: when its lines name different variants, the sale's
  stock location loses the sold quantity of each and no other cell changes; nothing looks at the
  quantity on hand, so a sale of more than the stock succeeds and leaves it negative.\<close>
theorem sale_moves_stock:
  assumes "createSale E now t actor input s = (Inr x, s')"
    and "List.find (\<lambda>x. sale_tenantId x = t \<and>
      sale_clientMutationId x = Some (csi_clientMutationId input)) (sales s) = None"
    and "distinct (map csl_variantId (csi_lines input))" and "fresh_keys ''sale:'' (uuid E (seq s)) s"
  shows "\<forall>loc var. balance_at s' loc var = balance_at s loc var -
     (if loc = csi_stockLocationId input then sold var (csi_lines input) else 0)"
  using new_sale_stock [OF assms] by blast

theorem sale_moves_stock_witness:
  "\<exists>x s'. createSale exact_env 5 ''t1'' ''u1'' (demo_sale (209 / 10)) demo_sale_db = (Inr x, s') \<and>
     balance_at demo_sale_db ''l1'' ''v1'' = 0 \<and> balance_at s' ''l1'' ''v1'' = -2"
proof -
  obtain x s' where run: "createSale exact_env 5 ''t1'' ''u1'' (demo_sale (209 / 10)) demo_sale_db = (Inr x, s')"
    using demo_sale_runs by blast
  have "balance_at demo_sale_db ''l1'' ''v1'' = 0" by (simp add: balance_at_def)
  then show ?thesis
    using sale_moves_stock [OF run] run by (simp add: fresh_keys_def sold_def)
qed

text \<open>The movement keys name the sale and the variant only, so when two lines of a sale carry the
  same variant the second movement is taken for a repetition: both lines are sold and paid, but the
  stock goes down by the first quantity alone.\<close>
theorem duplicate_lines_undercount:
  assumes run: "createSale E now t actor input s = (Inr x, s')"
    and new: "List.find (\<lambda>x. sale_tenantId x = t \<and>
      sale_clientMutationId x = Some (csi_clientMutationId input)) (sales s) = None"
    and lines: "csi_lines input = [l1, l2]" "csl_variantId l1 = v" "csl_variantId l2 = v"
    and fresh: "fresh_keys ''sale:'' (uuid E (seq s)) s"
  shows "map sl_quantity (sale_lines x) = [csl_quantity l1, csl_quantity l2] \<and>
     balance_at s' (csi_stockLocationId input) v =
       balance_at s (csi_stockLocationId input) v - csl_quantity l1"
  using run
proof (cases rule: createSale_cases)
  case (new tt grand paid)
  let ?sid = "uuid E (seq s)" and ?s1 = "s\<lparr>sales := sales s @ [x], seq := Suc (seq s)\<rparr>"
  obtain c1 c2 where cls: "st_lines tt = [c1, c2]"
    and c: "var_id (cl_variant c1) = v" "var_id (cl_variant c2) = v" "cl_quantity c1 = csl_quantity l1"
      "cl_quantity c2 = csl_quantity l2"
    using compute_totals_shape [OF new(2)] lines by (auto simp: map_eq_Cons_conv)
  let ?m1 = "sale_movement t actor input ?sid c1" and ?m2 = "sale_movement t actor input ?sid c2"
  have x: "x = sale_row E now t actor input tt grand ?sid"
    and bal: "inventoryBalances s' = inventoryBalances (snd (recordMovement E now ?m2 (snd (recordMovement E now ?m1 ?s1))))"
    using sale_tx_spec [OF new(5)] by (simp_all add: cls ledger.post_all_def)
  have k: "mi_idempotencyKey ?m1 = mi_idempotencyKey ?m2" by (simp add: sale_movement_def c)
  have n1: "\<not> key_used ?m1 ?s1"
    using fresh by (fastforce simp: key_used_iff sale_movement_def fresh_keys_def)
  have "key_used ?m2 (snd (recordMovement E now ?m1 ?s1))"
    using recordMovement_uses_key [of ?m1 _ _ E now ?s1] k
    by (simp add: key_used_iff sale_movement_def c) 
  then have "inventoryBalances s' = inventoryBalances (snd (recordMovement E now ?m1 ?s1))"
    using bal by (simp add: recordMovement_seen)
  then have "balance_at s' (csi_stockLocationId input) v =
      balance_at (snd (recordMovement E now ?m1 ?s1)) (csi_stockLocationId input) v"
    by (rule balance_at_frame)
  also have "\<dots> = balance_at s (csi_stockLocationId input) v - csl_quantity l1"
    unfolding recordMovement_fresh(7) [OF n1]
    by (simp add: sale_movement_def c balance_at_frame [of ?s1 s])
  finally show ?thesis by (simp add: x sale_row_def cls sale_line_row_def c)
qed (use new in simp)

definition demo_twice :: "rat \<Rightarrow> create_sale_input" where
  "demo_twice p = (demo_sale p)\<lparr>csi_lines := [demo_line, demo_line]\<rparr>"

theorem duplicate_lines_undercount_witness:
  "\<exists>x s'. createSale exact_env 5 ''t1'' ''u1'' (demo_twice (209 / 5)) demo_sale_db = (Inr x, s') \<and>
     map sl_quantity (sale_lines x) = [2, 2] \<and> balance_at s' ''l1'' ''v1'' = -2"
proof -
  have h: "half_up 2 40 = 40" "half_up 2 2 = 2" "half_up 2 (19 / 5) = 19 / 5" "half_up 2 (209 / 5) = 209 / 5"
    "half_up 4 (209 / 5) = 209 / 5" by code_simp+
  have i: "csi_lines (demo_twice p) = [demo_line, demo_line]" "csi_currency (demo_twice p) = ''USD''"
    "csi_payments (demo_twice p) = [\<lparr>cp_method = CASH, cp_amount = p, cp_reference = None\<rparr>]"
    "csi_branchId (demo_twice p) = ''b1''" "csi_stockLocationId (demo_twice p) = ''l1''"
    "csi_registerId (demo_twice p) = None" "csi_customerId (demo_twice p) = None" for p
    by (simp_all add: demo_twice_def)
  obtain x s' where run: "createSale exact_env 5 ''t1'' ''u1'' (demo_twice (209 / 5)) demo_sale_db = (Inr x, s')"
    using demo_branch
    by (auto simp: createSale_def compute_totals_def compute_line_def zero_totals_def variant_for_def line_price_def
      tax_rate_def money_ops money_zero_of run_tx_def sale_tx_def insert_sale_def sale_row_def sale_in_range_def
      sale_line_row_def payment_row_def column_range_def charge_customer_def Let_def comparedTo_def i h)
  have "balance_at demo_sale_db ''l1'' ''v1'' = 0" by (simp add: balance_at_def)
  then show ?thesis
    using duplicate_lines_undercount [OF run _ i(1), of "''v1''"] run by (simp add: fresh_keys_def i)
qed

text \<open>The customer of a sale is not checked against the tenant: the part of the payment made on
  account is added to the balance of whichever customer row has the given identifier, another
  tenant's included.\<close>
theorem sale_charges_any_customer:
  assumes run: "createSale E now t actor input s = (Inr x, s')"
    and new: "List.find (\<lambda>x. sale_tenantId x = t \<and>
      sale_clientMutationId x = Some (csi_clientMutationId input)) (sales s) = None"
    and cust: "csi_customerId input = Some c" "c \<noteq> []"
    and credit: "money_sum E (\<lambda>p. money_of (cp_amount p) (csi_currency input))
        (filter (\<lambda>p. cp_method p = CUSTOMER_CREDIT) (csi_payments input)) (money_zero (csi_currency input))
      = Inr (money_of a (csi_currency input))" "a \<noteq> 0"
  shows "taken cus_id c (customers s) \<and>
     customers s' = update_where (\<lambda>r. cus_id r = c)
       (\<lambda>r. r\<lparr>cus_balance := cus_balance r + dec_places E 2 a\<rparr>) (customers s)"
  using run
proof (cases rule: createSale_cases)
  case (new tt grand paid)
  let ?x = "sale_row E now t actor input tt grand (uuid E (seq s))"
  obtain s1 where 1: "insert_sale ?x s = Inr s1"
    "\<exists>s3. charge_customer E input (sale_movements E now t actor input (uuid E (seq s)) (st_lines tt) s1) = Inr s3 \<and>
       customers s' = customers s3"
    using new(5) by (auto simp: sale_tx_def Let_def err_simps sale_row_def)
  then have s1: "s1 = s\<lparr>sales := sales s @ [?x], seq := Suc (seq s)\<rparr>" and tk: "taken cus_id c (customers s)"
    using cust by (auto simp: insert_sale_Inr sale_row_def)
  have cs: "customers (sale_movements E now t actor input (uuid E (seq s)) (st_lines tt) s1) = customers s"
    by (simp add: sale_movements_post_all s1)
  obtain d cs' where c: "c = d # cs'" using cust(2) by (cases c) auto
  show ?thesis
    using 1(2) cs tk credit
    by (auto simp: charge_customer_def cust money_simps c)
qed (use new in simp)

definition foreign_customer :: customer where
  "foreign_customer = \<lparr>cus_id = ''c9'', cus_tenantId = ''t2'', cus_name = ''Other'', cus_company = None,
     cus_email = None, cus_phone = None, cus_birthday = None, cus_taxId = None, cus_notes = None,
     cus_creditLimit = 0, cus_balance = 0, cus_paymentTermsDays = 0, cus_tags = [],
     cus_consentMarketing = False, cus_status = CustACTIVE, cus_createdAt = 0\<rparr>"

definition demo_credit_sale :: create_sale_input where
  "demo_credit_sale = (demo_sale 0)\<lparr>csi_customerId := Some ''c9'',
     csi_payments := [\<lparr>cp_method = CUSTOMER_CREDIT, cp_amount = 209 / 10, cp_reference = None\<rparr>]\<rparr>"

theorem sale_charges_any_customer_witness:
  "\<exists>x s'. createSale exact_env 5 ''t1'' ''u1'' demo_credit_sale (demo_sale_db\<lparr>customers := [foreign_customer]\<rparr>)
       = (Inr x, s') \<and>
     map (\<lambda>r. (cus_tenantId r, cus_balance r)) (customers s') = [(''t2'', 209 / 10)]"
proof -
  let ?s = "demo_sale_db\<lparr>customers := [foreign_customer]\<rparr>"
  have i: "csi_lines demo_credit_sale = [demo_line]" "csi_currency demo_credit_sale = ''USD''"
    "csi_payments demo_credit_sale = [\<lparr>cp_method = CUSTOMER_CREDIT, cp_amount = 209 / 10, cp_reference = None\<rparr>]"
    "csi_branchId demo_credit_sale = ''b1''" "csi_stockLocationId demo_credit_sale = ''l1''"
    "csi_registerId demo_credit_sale = None" "csi_customerId demo_credit_sale = Some ''c9''"
    "csi_clientMutationId demo_credit_sale = ''cm1''"
    by (simp_all add: demo_credit_sale_def)
  have f: "cus_id foreign_customer = ''c9''" "cus_tenantId foreign_customer = ''t2''" "cus_balance foreign_customer = 0"
    by (simp_all add: foreign_customer_def)
  have b: "\<exists>b. List.find (\<lambda>b. br_id b = ''b1'' \<and> br_tenantId b = ''t1'') (branches ?s) = Some b"
    using demo_branch by simp
  obtain x s' where run: "createSale exact_env 5 ''t1'' ''u1'' demo_credit_sale ?s = (Inr x, s')"
    using b
    by (auto simp: createSale_def compute_totals_def compute_line_def zero_totals_def variant_for_def line_price_def
      tax_rate_def money_ops money_zero_of run_tx_def sale_tx_def insert_sale_def sale_row_def sale_in_range_def
      sale_line_row_def payment_row_def column_range_def charge_customer_def Let_def comparedTo_def i f
      sale_movements_post_all money_isZero_def)
  show ?thesis
    using sale_charges_any_customer [OF run _ i(7), of "209 / 10"] run
    by (simp add: i f money_ops money_zero_of)
qed

end
