(* ===== verification/Sales_Lifecycle.thy ===== *)
theory Sales_Lifecycle
  imports Sales_Facts
begin

text \<open>
  Sales over time: replay of requests, refunds against the total of the sale, and the invariant of
  every database the sales service can reach.
\<close>

section \<open>Replay\<close>

type_synonym sale_request = "int \<times> string \<times> string \<times> create_sale_input"

fun create_all :: "env \<Rightarrow> sale_request list \<Rightarrow> db \<Rightarrow> db" where
  "create_all E [] s = s"
| "create_all E ((now, t, actor, input) # rs) s = create_all E rs (snd (createSale E now t actor input s))"

definition mutation_key :: "sale \<Rightarrow> string \<times> string option" where
  "mutation_key x = (sale_tenantId x, sale_clientMutationId x)"

lemma createSale_appends: "\<exists>xs. sales (snd (createSale E now t actor input s)) = sales s @ xs"
proof (cases "createSale E now t actor input s")
  case (Pair r s')
  show ?thesis
  proof (cases r)
    case (Inl e)
    then show ?thesis using Pair createSale_failed [of E now t actor input s e s'] by simp
  next
    case (Inr x)
    with Pair have "createSale E now t actor input s = (Inr x, s')" by simp
    then show ?thesis
      by (cases rule: createSale_cases) (use Pair sale_tx_spec in \<open>fastforce+\<close>)
  qed
qed

lemma create_all_appends: "\<exists>xs. sales (create_all E rs s) = sales s @ xs"
proof (induction E rs s rule: create_all.induct)
  case (2 E now t actor input rs s)
  then show ?case using createSale_appends [of E now t actor input s] by auto
qed simp

lemma createSale_keys:
  assumes "distinct (map mutation_key (sales s))"
  shows "distinct (map mutation_key (sales (snd (createSale E now t actor input s))))"
proof (cases "createSale E now t actor input s")
  case (Pair r s')
  show ?thesis
  proof (cases r)
    case (Inl e)
    then show ?thesis using Pair assms createSale_failed [of E now t actor input s e s'] by simp
  next
    case (Inr x)
    with Pair have "createSale E now t actor input s = (Inr x, s')" by simp
    then show ?thesis
    proof (cases rule: createSale_cases)
      case (new tt grand paid)
      have "x = sale_row E now t actor input tt grand (uuid E (seq s))" "sales s' = sales s @ [x]"
        using sale_tx_spec [OF new(5)] by auto
      then show ?thesis
        using assms new(1) Pair by (auto simp: mutation_key_def sale_row_def find_None_iff)
    qed (use assms Pair in simp)
  qed
qed

lemma create_all_keys:
  "distinct (map mutation_key (sales s)) \<Longrightarrow> distinct (map mutation_key (sales (create_all E rs s)))"
  by (induction E rs s rule: create_all.induct) (simp_all add: createSale_keys)

section \<open>Refunds within the total\<close>

definition refunds_total :: "sale \<Rightarrow> rat" where
  "refunds_total x = (\<Sum>r\<leftarrow>sale_refunds x. ref_amount r)"

text \<open>
  The invariant of a sale row: cents, refunds that never exceed the total, and a REFUNDED sale is
  refunded completely. The service never stores any other status than these three.
\<close>

definition sale_ok :: "sale \<Rightarrow> bool" where
  "sale_ok x \<longleftrightarrow>
     scaled 2 (sale_total x) \<and> column_range (sale_total x) \<and>
     (\<forall>r\<in>set (sale_refunds x). scaled 2 (ref_amount r) \<and> 0 \<le> ref_amount r) \<and>
     refunds_total x \<le> max 0 (sale_total x) \<and>
     (sale_status x = SaleCOMPLETED \<and> sale_refunds x = [] \<or> sale_status x = SalePARTIALLY_REFUNDED \<or>
      sale_status x = SaleREFUNDED \<and> refunds_total x = sale_total x)"

lemma refunded_exact:
  assumes D: "decimal_lib (dec_round E) (dec_places E)"
    and rs: "\<forall>r\<in>set rs. scaled 2 (ref_amount r) \<and> 0 \<le> ref_amount r"
    and a: "scaled 2 a" "0 \<le> a" and le: "a + (\<Sum>r\<leftarrow>rs. ref_amount r) < 10 ^ 10"
  shows "money_sum E (\<lambda>r. money_of (ref_amount r) c) rs (money_of a c) =
     Inr (money_of (a + (\<Sum>r\<leftarrow>rs. ref_amount r)) c)"
  using rs a le
proof (induction rs arbitrary: a)
  case (Cons r rs)
  have nn: "0 \<le> (\<Sum>r\<leftarrow>rs. ref_amount r)" using Cons.prems(1) by (auto intro!: sum_list_nonneg)
  have sc: "scaled 2 (a + ref_amount r)" using Cons.prems by (auto intro: scaled_add)
  have "dec_round E (a + ref_amount r) = a + ref_amount r"
    using Cons.prems nn by (intro decimal_lib.rnd_scaled [OF D sc]) auto
  then show ?case using Cons.IH [OF _ sc] Cons.prems by (simp add: money_ops add.assoc)
qed simp

lemma refund_decision_sound:
  assumes D: "decimal_lib (dec_round E) (dec_places E)" and ok: "sale_ok x"
    and d: "refund_decision E input x = Inr (amount, full)"
  shows "0 \<le> toDecimalString E amount \<and> scaled 2 (toDecimalString E amount) \<and>
     refunds_total x + toDecimalString E amount \<le> sale_total x \<and>
     (full \<longrightarrow> refunds_total x + toDecimalString E amount = sale_total x) \<and>
     (ri_amount input = None \<longrightarrow> full \<and> toDecimalString E amount = sale_total x - refunds_total x)"
proof -
  let ?c = "sale_currency x" and ?a = "refunds_total x" and ?t = "sale_total x"
  have rs: "\<forall>r\<in>set (sale_refunds x). scaled 2 (ref_amount r) \<and> 0 \<le> ref_amount r"
    and t: "scaled 2 ?t" "\<bar>?t\<bar> < 10 ^ 10" and le: "?a \<le> max 0 ?t"
    using ok by (auto simp: sale_ok_def column_range_def)
  have a: "scaled 2 ?a" "0 \<le> ?a"
    using rs unfolding refunds_total_def by (auto intro!: scaled_sum_list sum_list_nonneg)
  have "?a < 10 ^ 10" using le t(2) by (auto simp: max_def split: if_splits)
  then have sum: "refunded_so_far E x = Inr (money_of ?a ?c)"
    using refunded_exact [OF D rs, of 0 ?c] by (simp add: refunded_so_far_def money_zero_of refunds_total_def)
  have sub: "dec_round E (?t - ?a) = ?t - ?a"
    using t a le by (intro decimal_lib.rnd_scaled [OF D, of 2] scaled_diff) (auto simp: max_def abs_if split: if_splits)
  from d obtain y where y: "amount = money_of y ?c" "0 < y" "dec_round E (?a + y) \<le> ?t"
    "full \<longleftrightarrow> dec_round E (?a + y) = ?t" "ri_amount input = None \<longrightarrow> y = ?t - ?a"
    by (auto simp: refund_decision_def err_simps Let_def sum money_ops sub comparedTo_def not_less
        split: option.splits if_splits)
  have str: "toDecimalString E amount = dec_places E 2 y" by (simp add: y money_ops)
  have tlt: "?t < 10 ^ 10" using t(2) by simp
  have w: "?a + dec_places E 2 y \<le> ?t"
    using y(2) by (intro decimal_lib.stored_within [OF D a t(1) tlt _ y(3)]) simp
  have r: "full \<longrightarrow> ?a + dec_places E 2 y = ?t"
    using y(2,4) by (auto intro!: decimal_lib.stored_reaches [OF D a t(1) tlt])
  have "0 \<le> dec_places E 2 y" using y(2) by (simp add: decimal_lib.places_half_up [OF D] half_up_nonneg)
  moreover have "scaled 2 (dec_places E 2 y)" by (rule decimal_lib.places_scaled [OF D])
  moreover have "ri_amount input = None \<longrightarrow> full \<and> dec_places E 2 y = ?t - ?a"
  proof
    assume "ri_amount input = None"
    then have ty: "y = ?t - ?a" using y(5) by simp
    have "dec_round E ?t = ?t" using t by (intro decimal_lib.rnd_scaled [OF D, of 2]) auto
    then show "full \<and> dec_places E 2 y = ?t - ?a"
      using y(4) ty a t by (simp add: decimal_lib.places_exact [OF D] scaled_diff)
  qed
  ultimately show ?thesis using w r str by simp
qed

lemma refund_tx_spec:
  assumes "refund_tx E now t actor input sale amount full s = Inr (r, s')"
  shows "ref_amount r = toDecimalString E amount \<and> ref_id r = uuid E (seq s) \<and>
     sales s' = update_where (\<lambda>x. sale_id x = sale_id sale)
       (\<lambda>x. x\<lparr>sale_refunds := sale_refunds x @ [r],
              sale_status := (if full then SaleREFUNDED else SalePARTIALLY_REFUNDED)\<rparr>) (sales s) \<and>
     (let s1 = s\<lparr>sales := sales s', seq := Suc (seq s)\<rparr>;
          s2 = (if ri_restock input \<and> full
                then (case List.find (\<lambda>l. loc_tenantId l = t \<and> loc_branchId l = sale_branchId sale \<and> loc_isDefault l)
                        (stockLocations s) of
                        None \<Rightarrow> s1
                      | Some loc \<Rightarrow> ledger.post_all E now (map (restock_movement t actor sale loc (ref_id r)) (sale_lines sale)) s1)
                else s1)
      in inventoryBalances s' = inventoryBalances s2 \<and> inventoryMovements s' = inventoryMovements s2)"
  using assms
  by (auto simp: refund_tx_def Let_def err_simps restock_post_all split: option.split)

section \<open>Reachable databases\<close>

lemma recordMovement_seq: "seq s \<le> seq (snd (recordMovement E now i s))"
proof -
  have u: "seq s \<le> seq (snd (upsert_balance E i s))" by (simp add: upsert_balance_def Let_def split: option.split)
  have m: "seq t \<le> seq (maybePublishLowStockAlert E now i q t)" for q t
    by (simp add: maybePublishLowStockAlert_def Let_def split: option.split)
  show ?thesis
    using u order_trans [OF _ m] by (simp add: recordMovement_unfold Let_def split: option.split)
qed

lemma post_all_seq: "seq s \<le> seq (ledger.post_all E now is s)"
proof (induction "is" arbitrary: s)
  case (Cons i "is")
  show ?case using order_trans [OF recordMovement_seq Cons.IH] by (simp add: ledger.post_all_def)
qed (simp add: ledger.post_all_def)

lemma sale_tx_seq:
  assumes "sale_tx E now t actor input tt grand s = Inr (x, s')" shows "seq s < seq s'"
proof -
  let ?x = "sale_row E now t actor input tt grand (uuid E (seq s))"
  have id: "sale_id ?x = uuid E (seq s)" by (simp add: sale_row_def)
  obtain s1 s3 where i: "insert_sale ?x s = Inr s1"
    and 3: "charge_customer E input (ledger.post_all E now
       (map (sale_movement t actor input (uuid E (seq s))) (st_lines tt)) s1) = Inr s3"
    and "\<exists>p a. s' = publish E now p (audit_record E a s3)"
    using assms by (auto simp: sale_tx_def Let_def err_simps id sale_movements_post_all)
  then have "seq s3 \<le> seq s'" by auto
  moreover have 1: "seq s1 = Suc (seq s)" using i by (simp add: insert_sale_Inr)
  moreover have "seq s1 \<le> seq s3" using charge_customer_frame [OF 3] post_all_seq [of s1] by auto
  ultimately show ?thesis by linarith
qed

lemma refund_tx_seq:
  assumes "refund_tx E now t actor input sale amount full s = Inr (r, s')" shows "seq s \<le> seq s'"
proof -
  have p: "seq s \<le> seq (ledger.post_all E now is (s\<lparr>sales := y, seq := Suc (seq s)\<rparr>))" for "is" y
    using post_all_seq [of "s\<lparr>sales := y, seq := Suc (seq s)\<rparr>" E now "is"] by simp
  show ?thesis
    using assms p by (auto simp: refund_tx_def Let_def err_simps restock_post_all le_Suc_eq split: option.splits if_splits)
qed

definition sales_inv :: "env \<Rightarrow> db \<Rightarrow> bool" where
  "sales_inv E s \<longleftrightarrow> (\<forall>x\<in>set (sales s). sale_ok x) \<and> distinct (map sale_id (sales s)) \<and>
     (\<forall>x\<in>set (sales s). \<exists>n<seq s. sale_id x = uuid E n) \<and> ledger_ok s"

inductive sales_step :: "env \<Rightarrow> db \<Rightarrow> db \<Rightarrow> bool" for E where
  create: "sales_step E s (snd (createSale E now t actor input s))"
| refund: "sales_step E s (snd (refundSale E now t actor saleId rinput s))"
| void: "sales_step E s (snd (voidSale E now t actor saleId s))"

lemma post_all_ledger_sales:
  assumes "ledger_ok s" shows "ledger_ok (ledger.post_all E now is (s\<lparr>sales := xs, seq := n\<rparr>))"
  by (rule post_all_ledger) (use assms in \<open>simp add: ledger_ok_def balance_at_def\<close>)

lemma createSale_inv:
  assumes D: "decimal_lib (dec_round E) (dec_places E)" and I: "inj (uuid E)" and inv: "sales_inv E s"
  shows "sales_inv E (snd (createSale E now t actor input s))"
proof (cases "createSale E now t actor input s")
  case (Pair r s')
  show ?thesis
  proof (cases r)
    case (Inl e)
    then show ?thesis using Pair inv createSale_failed [of E now t actor input s e s'] by simp
  next
    case (Inr x)
    with Pair have "createSale E now t actor input s = (Inr x, s')" by simp
    then show ?thesis
    proof (cases rule: createSale_cases)
      case (new tt grand paid)
      have x: "x = sale_row E now t actor input tt grand (uuid E (seq s))" "sale_in_range x" "sales s' = sales s @ [x]"
        and bal: "inventoryBalances s' = inventoryBalances (ledger.post_all E now
          (map (sale_movement t actor input (uuid E (seq s))) (st_lines tt)) (s\<lparr>sales := sales s @ [x], seq := Suc (seq s)\<rparr>))"
        "inventoryMovements s' = inventoryMovements (ledger.post_all E now
          (map (sale_movement t actor input (uuid E (seq s))) (st_lines tt)) (s\<lparr>sales := sales s @ [x], seq := Suc (seq s)\<rparr>))"
        using sale_tx_spec [OF new(5)] by auto
      have "sale_ok x"
        using x(2) decimal_lib.places_scaled [OF D, of 2]
        by (simp add: x(1) sale_ok_def sale_in_range_def sale_row_def refunds_total_def toDecimalString_def)
      moreover have "ledger_ok s'"
        using ledger_ok_frame [OF bal] post_all_ledger_sales inv by (simp add: sales_inv_def)
      moreover have "sale_id x = uuid E (seq s)" by (simp add: x(1) sale_row_def)
      moreover have "seq s < seq s'" by (rule sale_tx_seq [OF new(5)])
      ultimately show ?thesis
        using inv I x(3) Pair by (fastforce simp: sales_inv_def inj_eq)
    qed (use inv Pair in simp)
  qed
qed

lemma refundSale_inv:
  assumes D: "decimal_lib (dec_round E) (dec_places E)" and inv: "sales_inv E s"
  shows "sales_inv E (snd (refundSale E now t actor saleId input s))"
proof (cases "refundSale E now t actor saleId input s")
  case (Pair r s')
  show ?thesis
  proof (cases r)
    case (Inl e)
    then have "s' = s" using Pair by (auto simp: refundSale_def run_tx_def split: option.splits sum.splits prod.splits)
    then show ?thesis using Pair inv by simp
  next
    case (Inr rf)
    then obtain x amount full where x: "List.find (\<lambda>x. sale_id x = saleId \<and> sale_tenantId x = t) (sales s) = Some x"
      and d: "refund_decision E input x = Inr (amount, full)"
      and tx: "refund_tx E now t actor input x amount full s = Inr (rf, s')"
      using Pair by (auto simp: refundSale_def run_tx_def split: option.splits sum.splits prod.splits)
    have xs: "x \<in> set (sales s)" using x by (auto dest: find_SomeD)
    then have ok: "sale_ok x" using inv by (simp add: sales_inv_def)
    let ?f = "\<lambda>x. x\<lparr>sale_refunds := sale_refunds x @ [rf], sale_status := (if full then SaleREFUNDED else SalePARTIALLY_REFUNDED)\<rparr>"
    have sales: "sales s' = update_where (\<lambda>y. sale_id y = sale_id x) ?f (sales s)"
      and amt: "ref_amount rf = toDecimalString E amount"
      using refund_tx_spec [OF tx] by auto
    have okf: "sale_ok (?f x)"
      using refund_decision_sound [OF D ok d] ok by (auto simp: sale_ok_def refunds_total_def amt)
    have uniq: "y = x" if "y \<in> set (sales s)" "sale_id y = sale_id x" for y
      using that xs inv distinct_keyD by (fastforce simp: sales_inv_def)
    have "sale_ok (if sale_id y = sale_id x then ?f y else y)" if "y \<in> set (sales s)" for y
    proof (cases "sale_id y = sale_id x")
      case True
      then have "y = x" using uniq that by blast
      then show ?thesis using okf by simp
    qed (use that inv in \<open>simp add: sales_inv_def\<close>)
    then have "\<forall>y\<in>set (sales s'). sale_ok y"
      unfolding sales update_where_def set_map ball_simps by (rule ballI)
    moreover have "map sale_id (sales s') = map sale_id (sales s)"
      by (simp add: sales map_update_where_same)
    then have "sale_id ` set (sales s') = sale_id ` set (sales s)" "distinct (map sale_id (sales s'))"
      using inv by (metis list.set_map, simp add: sales_inv_def)
    moreover have "seq s \<le> seq s'" by (rule refund_tx_seq [OF tx])
    moreover have "ledger_ok s'"
    proof -
      have lok: "ledger_ok s" using inv by (simp add: sales_inv_def)
      have same: "ledger_ok (s\<lparr>sales := ys, seq := n\<rparr>)" for ys n
        using lok by (simp add: ledger_ok_def balance_at_def)
      obtain s2 where "inventoryBalances s' = inventoryBalances s2" "inventoryMovements s' = inventoryMovements s2"
        "ledger_ok s2"
        using refund_tx_spec [OF tx] same post_all_ledger_sales [OF lok]
        by (auto simp: Let_def split: if_splits option.splits)
      then show ?thesis using ledger_ok_frame [of s' s2] by simp
    qed
    ultimately show ?thesis
      using inv Pair unfolding sales_inv_def
      by simp (metis (no_types, lifting) image_iff order.strict_trans2)
  qed
qed

lemma voidSale_inv:
  assumes "sales_inv E s" shows "voidSale E now t actor saleId s = (Inl (Forbidden
      ''Only open (uncompleted) sales can be voided; completed sales must be refunded''), s) \<or>
    voidSale E now t actor saleId s = (Inl (NotFound ''Sale not found''), s)"
  using assms
  by (auto simp: voidSale_def sales_inv_def sale_ok_def split: option.splits dest!: find_SomeD)

lemma sales_step_inv:
  assumes D: "decimal_lib (dec_round E) (dec_places E)" and I: "inj (uuid E)"
    and inv: "sales_inv E s" and step: "sales_step E s s'"
  shows "sales_inv E s'"
  using step
proof cases
  case (void now t actor saleId)
  then show ?thesis using voidSale_inv [OF inv, of now t actor saleId] inv by auto
qed (simp_all add: createSale_inv [OF D I inv] refundSale_inv [OF D inv])

section \<open>Restocking\<close>

lemma post_all_keys:
  assumes "m \<in> set (inventoryMovements (ledger.post_all E now is s))"
  shows "m \<in> set (inventoryMovements s) \<or> mov_idempotencyKey m \<in> mi_idempotencyKey ` set is"
  using assms
proof (induction "is" arbitrary: s)
  case (Cons i "is")
  have "m \<in> set (inventoryMovements s) \<or> mov_idempotencyKey m = mi_idempotencyKey i"
    if "m \<in> set (inventoryMovements (snd (recordMovement E now i s)))"
    using that recordMovement_seen [of i s E now] recordMovement_fresh(1,5) [of i s E now]
    by (cases "key_used i s") auto
  then show ?case using Cons.IH [of "snd (recordMovement E now i s)"] Cons.prems by (auto simp: ledger.post_all_def)
qed (simp add: ledger.post_all_def)

lemma restock_delta:
  assumes "map sl_variantId lines = map csl_variantId ls" "map sl_quantity lines = map csl_quantity ls"
  shows "ledger.delta_at loc var (map (restock_movement t actor sale l rid) lines) =
     (if loc = loc_id l then sold var ls else 0)"
  using assms
proof (induction lines arbitrary: ls)
  case (Cons x xs)
  then obtain y ys where ls: "ls = y # ys" by (cases ls) auto
  show ?case using Cons.IH [of ys] Cons.prems
    by (auto simp: ls ledger.delta_at_def sold_def restock_movement_def)
qed (simp add: ledger.delta_at_def sold_def)

lemma restock_stock:
  assumes shape: "map sl_variantId lines = map csl_variantId ls" "map sl_quantity lines = map csl_quantity ls"
    and d: "distinct (map csl_variantId ls)" and fresh: "fresh_keys ''refund:'' rid s"
  shows "balance_at (ledger.post_all E now (map (restock_movement t actor sale l rid) lines) s) loc var =
     balance_at s loc var + (if loc = loc_id l then sold var ls else 0)"
proof -
  have "\<forall>i\<in>set (map (restock_movement t actor sale l rid) lines). \<not> key_used i s"
    using fresh by (fastforce simp: key_used_iff restock_movement_def fresh_keys_def)
  moreover have "distinct (map mi_idempotencyKey (map (restock_movement t actor sale l rid) lines))"
  proof -
    have "map mi_idempotencyKey (map (restock_movement t actor sale l rid) lines) =
        map (\<lambda>v. Some (''refund:'' @ rid @ '':'' @ v)) (map sl_variantId lines)"
      by (simp add: restock_movement_def)
    then show ?thesis using d unfolding shape by (simp add: distinct_map inj_on_def)
  qed
  ultimately show ?thesis by (simp add: ledger.post_all_stock restock_delta [OF shape])
qed

section \<open>Properties\<close>




lemma demo_sales_inv: "sales_inv exact_env demo_sale_db"
  by (simp add: sales_inv_def ledger_ok_def balance_at_def replayBalance_def cell_deltas_def running_ok_def)


text \<open>The balance check of a refund is taken on the sale read before the transaction. Two full
  refunds decided on the same unrefunded sale both commit, and the sale is paid back twice.\<close>
theorem concurrent_refunds_overpay:
  assumes D: "decimal_lib (dec_round E) (dec_places E)" and ok: "sale_ok x" "0 < sale_total x" "sale_refunds x = []"
    and xs: "sales s = [x]" and full: "ri_amount input = None"
    and dec: "refund_decision E input x = Inr (amount, isFull)"
    and one: "refund_tx E now t actor input x amount isFull s = Inr (r1, s1)"
    and two: "refund_tx E now' t actor' input x amount isFull s1 = Inr (r2, s2)"
  shows "map refunds_total (sales s2) = [2 * sale_total x] \<and> map sale_status (sales s2) = [SaleREFUNDED]"
proof -
  have a: "isFull" "toDecimalString E amount = sale_total x"
    using refund_decision_sound [OF D ok(1) dec] full ok(3) by (simp_all add: refunds_total_def)
  have 1: "sales s1 = update_where (\<lambda>y. sale_id y = sale_id x)
      (\<lambda>x. x\<lparr>sale_refunds := sale_refunds x @ [r1], sale_status := SaleREFUNDED\<rparr>) (sales s)"
    "ref_amount r1 = sale_total x"
    using refund_tx_spec [OF one] a by simp_all
  have 2: "sales s2 = update_where (\<lambda>y. sale_id y = sale_id x)
      (\<lambda>x. x\<lparr>sale_refunds := sale_refunds x @ [r2], sale_status := SaleREFUNDED\<rparr>) (sales s1)"
    "ref_amount r2 = sale_total x"
    using refund_tx_spec [OF two] a by simp_all
  show ?thesis by (simp add: 2(1) 1(1) xs refunds_total_def 1(2) 2(2) ok(3))
qed

definition demo_completed :: sale where
  "demo_completed = \<lparr>sale_id = ''s1'', sale_tenantId = ''t1'', sale_branchId = ''b1'', sale_registerId = None,
     sale_customerId = None, sale_salespersonUserId = None, sale_status = SaleCOMPLETED, sale_subtotal = 10,
     sale_taxTotal = 0, sale_discountTotal = 0, sale_total = 10, sale_currency = ''USD'', sale_note = None,
     sale_clientMutationId = Some ''cm0'', sale_createdAt = 0, sale_voidedAt = None, sale_lines = [],
     sale_payments = [], sale_refunds = []\<rparr>"

lemma demo_completed_simps [simp]:
  "sale_id demo_completed = ''s1''" "sale_tenantId demo_completed = ''t1''" "sale_total demo_completed = 10"
  "sale_refunds demo_completed = []" "sale_status demo_completed = SaleCOMPLETED"
  "sale_currency demo_completed = ''USD''"
  by (simp_all add: demo_completed_def)

lemma demo_completed_ok: "sale_ok demo_completed"
  by (simp add: sale_ok_def refunds_total_def column_range_def scaled_def)

definition full_refund :: refund_input where
  "full_refund = \<lparr>ri_amount = None, ri_reason = None, ri_restock = False\<rparr>"

lemma refund_tx_commits:
  assumes "column_range (toDecimalString E amount)"
  shows "\<exists>r s'. refund_tx E now t actor input x amount isFull s = Inr (r, s')"
  using assms by (simp add: refund_tx_def Let_def)

theorem concurrent_refunds_overpay_witness:
  "\<exists>amount full r1 s1 r2 s2.
     refund_decision exact_env full_refund demo_completed = Inr (amount, full) \<and>
     refund_tx exact_env 1 ''t1'' ''u1'' full_refund demo_completed amount full
       (demo_sale_db\<lparr>sales := [demo_completed]\<rparr>) = Inr (r1, s1) \<and>
     refund_tx exact_env 2 ''t1'' ''u2'' full_refund demo_completed amount full s1 = Inr (r2, s2) \<and>
     map refunds_total (sales s2) = [20]"
proof -
  have d: "refund_decision exact_env full_refund demo_completed = Inr (money_of 10 ''USD'', True)"
    by (simp add: refund_decision_def full_refund_def refunded_so_far_def money_zero_of money_ops comparedTo_def Let_def)
  have c: "column_range (toDecimalString exact_env (money_of 10 ''USD''))"
    by (simp add: money_ops column_range_def)
  let ?s = "demo_sale_db\<lparr>sales := [demo_completed]\<rparr>"
  obtain r1 s1 where 1: "refund_tx exact_env 1 ''t1'' ''u1'' full_refund demo_completed (money_of 10 ''USD'') True ?s
      = Inr (r1, s1)" using refund_tx_commits [OF c] by blast
  obtain r2 s2 where 2: "refund_tx exact_env 2 ''t1'' ''u2'' full_refund demo_completed (money_of 10 ''USD'') True s1
      = Inr (r2, s2)" using refund_tx_commits [OF c] by blast
  have "ri_amount full_refund = None" by (simp add: full_refund_def)
  then show ?thesis
    using concurrent_refunds_overpay [OF _ demo_completed_ok _ _ _ _ d 1 2] d 1 2 by auto
qed

text \<open>A refund is compared unrounded but stored in cents: a refund that rounds up to the whole
  remaining amount leaves the sale fully refunded yet PARTIALLY_REFUNDED, without restocking, and
  every later refund of it, of a cent or more or of the rest, is refused.\<close>
theorem rounded_refund_strands_sale:
  assumes D: "decimal_lib (dec_round E) (dec_places E)" and ok: "sale_ok x" "sale_refunds x = []"
    and dec: "refund_decision E input x = Inr (amount, isFull)"
    and up: "money_amount amount < sale_total x" "scaled 6 (money_amount amount)"
      "half_up 2 (money_amount amount) = sale_total x"
    and xs: "sales s = [x]" and tx: "refund_tx E now t actor input x amount isFull s = Inr (r, s')"
  shows "\<not> isFull \<and> map refunds_total (sales s') = [sale_total x] \<and>
     map sale_status (sales s') = [SalePARTIALLY_REFUNDED] \<and>
     inventoryMovements s' = inventoryMovements s \<and>
     (\<forall>x'\<in>set (sales s'). \<forall>again. (\<forall>a. ri_amount again = Some a \<longrightarrow> 1 / 100 \<le> a) \<longrightarrow>
        (\<exists>e. refund_decision E again x' = Inl e))"
proof -
  let ?t = "sale_total x" and ?c = "sale_currency x"
  have t: "scaled 2 ?t" "\<bar>?t\<bar> < 10 ^ 10" using ok(1) by (simp_all add: sale_ok_def column_range_def)
  obtain y where y: "amount = money_of y ?c" "0 < y" "isFull \<longleftrightarrow> dec_round E y = ?t"
    using dec ok(2)
    by (auto simp: refund_decision_def err_simps Let_def refunded_so_far_def money_zero_of money_ops comparedTo_def
        decimal_lib.rnd_0 [OF D] split: option.splits if_splits)
  have ry: "dec_round E y = y"
    using up y t by (intro decimal_lib.rnd_scaled [OF D, of 6]) auto
  then have nf: "\<not> isFull" using y up by simp
  have rt: "ref_amount r = ?t" "sales s' = update_where (\<lambda>z. sale_id z = sale_id x)
      (\<lambda>x. x\<lparr>sale_refunds := sale_refunds x @ [r], sale_status := SalePARTIALLY_REFUNDED\<rparr>) (sales s)"
    "inventoryMovements s' = inventoryMovements s"
    using refund_tx_spec [OF tx] nf up y by (simp_all add: money_ops decimal_lib.places_half_up [OF D])
  let ?x' = "x\<lparr>sale_refunds := [r], sale_status := SalePARTIALLY_REFUNDED\<rparr>"
  have s': "sales s' = [?x']" using rt(2) xs ok(2) by simp
  have tpos: "0 \<le> ?t" using up y by (metis half_up_nonneg less_imp_le money_of_simps(1))
  have okx: "sale_ok ?x'" using ok(1) t rt(1) tpos by (simp add: sale_ok_def refunds_total_def)
  have "\<exists>e. refund_decision E again ?x' = Inl e" if cent: "\<forall>a. ri_amount again = Some a \<longrightarrow> 1 / 100 \<le> a" for again
  proof (cases "refund_decision E again ?x'")
    case (Inr p)
    then obtain am f where p: "refund_decision E again ?x' = Inr (am, f)" by (cases p) auto
    have rd: "dec_round E ?t = ?t" using t by (intro decimal_lib.rnd_scaled [OF D, of 2]) auto
    have "0 < toDecimalString E am"
    proof (cases "ri_amount again")
      case None
      then have "money_isZero am"
        using p by (auto simp: refund_decision_def err_simps Let_def refunded_so_far_def money_zero_of money_ops rt(1)
            rd decimal_lib.rnd_0 [OF D])
      then show ?thesis
        using p by (auto simp: refund_decision_def err_simps Let_def split: if_splits)
    next
      case (Some z)
      then have z: "1 / 100 \<le> z" "am = money_of z ?c"
        using p cent by (auto simp: refund_decision_def err_simps Let_def split: if_splits)
      have "1 / 100 \<le> half_up 2 z" using z(1) by (rule half_up_ge) (simp add: scaled_def)
      then show ?thesis by (simp add: z(2) money_ops decimal_lib.places_half_up [OF D])
    qed
    moreover have "?t + toDecimalString E am \<le> ?t"
      using refund_decision_sound [OF D okx p] by (simp add: refunds_total_def rt(1))
    ultimately show ?thesis by simp
  qed simp
  then show ?thesis using nf rt(1,3) unfolding s' by (simp add: refunds_total_def)
qed

definition partial_refund :: refund_input where
  "partial_refund = \<lparr>ri_amount = Some (9996 / 1000), ri_reason = None, ri_restock = True\<rparr>"

theorem rounded_refund_strands_sale_witness:
  "\<exists>amount r s'. refund_decision exact_env partial_refund demo_completed = Inr (amount, False) \<and>
     refund_tx exact_env 1 ''t1'' ''u1'' partial_refund demo_completed amount False
       (demo_sale_db\<lparr>sales := [demo_completed]\<rparr>) = Inr (r, s') \<and>
     map refunds_total (sales s') = [10] \<and> map sale_status (sales s') = [SalePARTIALLY_REFUNDED]"
proof -
  let ?m = "money_of (9996 / 1000) ''USD''" and ?s = "demo_sale_db\<lparr>sales := [demo_completed]\<rparr>"
  have h: "half_up 2 (9996 / 1000) = 10" by code_simp
  have d: "refund_decision exact_env partial_refund demo_completed = Inr (?m, False)"
    by (simp add: refund_decision_def partial_refund_def refunded_so_far_def money_zero_of money_ops comparedTo_def Let_def)
  have c: "column_range (toDecimalString exact_env ?m)" by (simp only: money_ops exact_env_simps h) (simp add: column_range_def)
  obtain r s' where tx: "refund_tx exact_env 1 ''t1'' ''u1'' partial_refund demo_completed ?m False ?s = Inr (r, s')"
    using refund_tx_commits [OF c] by blast
  have "scaled 6 (9996 / 1000)" by (simp add: scaled_def)
  then show ?thesis
    using rounded_refund_strands_sale [OF _ demo_completed_ok _ d _ _ _ _ tx] d tx h by auto
qed


lemma demo_sale_result:
  "\<exists>x s'. createSale exact_env now ''t1'' ''u1'' (demo_sale (209 / 10)) demo_sale_db = (Inr x, s') \<and>
     sale_total x = 209 / 10 \<and> sale_status x = SaleCOMPLETED \<and> sale_refunds x = []"
  using demo_branch
  by (auto simp: createSale_def compute_totals_def compute_line_def zero_totals_def variant_for_def line_price_def
      tax_rate_def money_ops money_zero_of run_tx_def sale_tx_def insert_sale_def sale_row_def sale_in_range_def
      sale_line_row_def payment_row_def column_range_def charge_customer_def Let_def comparedTo_def)

lemma full_refund_commits:
  assumes "List.find (\<lambda>y. sale_id y = i \<and> sale_tenantId y = t) (sales s) = Some x"
    and "0 < sale_total x" "column_range (half_up 2 (sale_total x))" "sale_refunds x = []" "sale_status x = SaleCOMPLETED"
    and "ri_amount rinput = None"
  shows "\<exists>r s'. refundSale exact_env now t actor i rinput s = (Inr r, s')"
proof -
  let ?m = "money_of (sale_total x) (sale_currency x)"
  have d: "refund_decision exact_env rinput x = Inr (?m, True)"
    using assms by (simp add: refund_decision_def refunded_so_far_def money_zero_of money_ops comparedTo_def Let_def)
  have "column_range (toDecimalString exact_env ?m)" using assms(3) by (simp add: money_ops)
  then obtain r s' where "refund_tx exact_env now t actor rinput x ?m True s = Inr (r, s')"
    using refund_tx_commits by blast
  then show ?thesis by (simp add: refundSale_def assms(1) d run_tx_def)
qed


end
