(* ===== verification/Invoices.thy ===== *)
theory Invoices
  imports Audit_Outbox Money
begin

text \<open>
  \<open>apps/api/src/invoices/invoices.service.ts\<close>: invoices, their payments, public links and delivery,
  and quotes. The email and SMS adapters and the QR encoder are parameters. Creating an invoice
  counts the tenant's invoices and inserts the next number; other transactions may commit between
  the two, which the parameter \<open>others\<close> describes for each of the three attempts. Recording a payment
  is written in the two parts the code has, the check on the row read before the transaction and
  the transaction.
\<close>

section \<open>Inputs\<close>

record invoice_line_input =
  ili_variantId :: "string option"
  ili_description :: string
  ili_quantity :: int
  ili_unitPrice :: rat
  ili_taxAmount :: rat
  ili_discountAmount :: rat

record create_invoice_input =
  cii_branchId :: string
  cii_customerId :: string
  cii_dueDate :: "int option"
  cii_currency :: string
  cii_notes :: "string option"
  cii_termsText :: "string option"
  cii_lines :: "invoice_line_input list"

record payment_input =
  pin_amount :: rat
  pin_method :: payment_method
  pin_reference :: "string option"

datatype channel = Email | Sms

record delivery_result =
  dr_delivered :: bool
  dr_provider :: string

record quote_line_input =
  qli_variantId :: string
  qli_description :: "string option"
  qli_quantity :: int
  qli_unitPrice :: rat

record create_quote_input =
  cqi_branchId :: string
  cqi_customerId :: string
  cqi_expiresAt :: "int option"
  cqi_currency :: string
  cqi_lines :: "quote_line_input list"

section \<open>Creating an invoice\<close>

record invoice_totals =
  it_subtotal :: money
  it_taxTotal :: money
  it_discountTotal :: money
  it_lines :: "invoice_line list"

definition compute_invoice_line ::
  "env \<Rightarrow> string \<Rightarrow> invoice_line_input \<Rightarrow> invoice_totals \<Rightarrow> error + invoice_totals" where
  "compute_invoice_line E currency line totals =
     (let unitPrice = money_of (ili_unitPrice line) currency;
          tax = money_of (ili_taxAmount line) currency;
          discount = money_of (ili_discountAmount line) currency;
          lineSubtotal = money_multiply E unitPrice (of_int (ili_quantity line))
      in bindE (bindE (money_subtract E lineSubtotal discount) (\<lambda>d. money_add E d tax))
      (\<lambda>lineTotal.
      bindE (money_add E (it_subtotal totals) lineSubtotal)
      (\<lambda>subtotal. bindE (money_add E (it_taxTotal totals) tax)
      (\<lambda>taxTotal. bindE (money_add E (it_discountTotal totals) discount)
      (\<lambda>discountTotal.
        Inr \<lparr>it_subtotal = subtotal, it_taxTotal = taxTotal, it_discountTotal = discountTotal,
             it_lines = it_lines totals @
               [\<lparr>il_variantId = ili_variantId line, il_description = ili_description line,
                 il_quantity = ili_quantity line, il_unitPrice = toDecimalString E unitPrice,
                 il_taxAmount = toDecimalString E tax, il_discountAmount = toDecimalString E discount,
                 il_lineTotal = toDecimalString E lineTotal\<rparr>]\<rparr>)))))"

definition invoice_totals_of ::
  "env \<Rightarrow> create_invoice_input \<Rightarrow> error + (invoice_totals \<times> money)" where
  "invoice_totals_of E input =
     (let z = money_zero (cii_currency input) in
      bindE (foldE (compute_invoice_line E (cii_currency input)) (cii_lines input)
               \<lparr>it_subtotal = z, it_taxTotal = z, it_discountTotal = z, it_lines = []\<rparr>)
      (\<lambda>t. bindE (money_subtract E (it_subtotal t) (it_discountTotal t))
      (\<lambda>d. bindE (money_add E d (it_taxTotal t)) (\<lambda>grand. Inr (t, grand)))))"

definition invoice_count :: "string \<Rightarrow> db \<Rightarrow> nat" where
  "invoice_count tenantId s = count_where (\<lambda>x. inv_tenantId x = tenantId) (invoices s)"

definition invoice_number :: "nat \<Rightarrow> nat \<Rightarrow> string" where
  "invoice_number year n = ''INV-'' @ nat_str year @ ''-'' @ padStart 5 (CHR ''0'') (nat_str n)"

definition generateInvoiceNumber :: "nat \<Rightarrow> string \<Rightarrow> db \<Rightarrow> string" where
  "generateInvoiceNumber year tenantId s = invoice_number year (invoice_count tenantId s + 1)"

definition invoice_in_range :: "invoice \<Rightarrow> bool" where
  "invoice_in_range x \<longleftrightarrow>
     column_range (inv_subtotal x) \<and> column_range (inv_taxTotal x) \<and> column_range (inv_discountTotal x) \<and>
     column_range (inv_total x) \<and>
     list_all (\<lambda>l. column_range (il_unitPrice l) \<and> column_range (il_taxAmount l) \<and>
       column_range (il_discountAmount l) \<and> column_range (il_lineTotal l)) (inv_lines x)"

definition insert_invoice :: "invoice \<Rightarrow> db \<Rightarrow> error + db" where
  "insert_invoice x s =
     bindE (guardE (\<not> taken (\<lambda>y. (inv_tenantId y, inv_number y)) (inv_tenantId x, inv_number x) (invoices s) \<and>
                    \<not> taken inv_publicToken (inv_publicToken x) (invoices s))
              (UniqueViolation ''Invoice''))
     (\<lambda>_. bindE (guardE (list_all (\<lambda>l. case il_variantId l of None \<Rightarrow> True
                             | Some v \<Rightarrow> taken var_id v (productVariants s)) (inv_lines x))
                   (ForeignKeyViolation ''variantId''))
     (\<lambda>_. bindE (guardE (invoice_in_range x) (ServerError ''numeric field overflow''))
     (\<lambda>_. Inr (s\<lparr>invoices := invoices s @ [x], seq := Suc (seq s)\<rparr>))))"

definition invoice_row ::
  "env \<Rightarrow> int \<Rightarrow> string \<Rightarrow> create_invoice_input \<Rightarrow> invoice_totals \<Rightarrow> money \<Rightarrow> string \<Rightarrow> nat \<Rightarrow> invoice" where
  "invoice_row E now tenantId input t grand number n =
     \<lparr>inv_id = uuid E n, inv_tenantId = tenantId, inv_branchId = cii_branchId input,
      inv_customerId = cii_customerId input, inv_number = number, inv_status = InvISSUED,
      inv_dueDate = cii_dueDate input, inv_subtotal = toDecimalString E (it_subtotal t),
      inv_taxTotal = toDecimalString E (it_taxTotal t),
      inv_discountTotal = toDecimalString E (it_discountTotal t), inv_total = toDecimalString E grand,
      inv_amountPaid = 0, inv_currency = cii_currency input, inv_notes = cii_notes input,
      inv_termsText = cii_termsText input, inv_publicToken = nanoid32 E n,
      inv_publicTokenRevokedAt = None, inv_createdAt = now, inv_voidedAt = None,
      inv_lines = it_lines t, inv_payments = []\<rparr>"

definition invoice_tx ::
  "env \<Rightarrow> int \<Rightarrow> string \<Rightarrow> string \<Rightarrow> create_invoice_input \<Rightarrow> invoice_totals \<Rightarrow> money \<Rightarrow> string \<Rightarrow> db
     \<Rightarrow> error + (invoice \<times> db)" where
  "invoice_tx E now tenantId actorUserId input t grand number s =
     (let x = invoice_row E now tenantId input t grand number (seq s) in
      bindE (insert_invoice x s)
      (\<lambda>s1. let s2 = audit_record E (audit_in (Some tenantId) (Some actorUserId) ''invoices.created''
                       ''Invoice'' (inv_id x) None) s1;
                 s3 = publish E now \<lparr>pi_aggregateType = ''Invoice'', pi_aggregateId = inv_id x,
                       pi_eventType = ''invoice.issued'',
                       pi_payload = JObj [(''invoiceId'', JStr (inv_id x)), (''tenantId'', JStr tenantId)]\<rparr> s2
             in Inr (x, s3)))"

text \<open>The retry loop; \<open>attempt\<close> counts up from 0 and the third failure is thrown.\<close>

fun invoice_attempts ::
  "env \<Rightarrow> int \<Rightarrow> nat \<Rightarrow> (nat \<Rightarrow> db \<Rightarrow> db) \<Rightarrow> string \<Rightarrow> string \<Rightarrow> create_invoice_input \<Rightarrow> invoice_totals \<Rightarrow> money
    \<Rightarrow> nat \<Rightarrow> nat \<Rightarrow> db \<Rightarrow> (error + invoice) \<times> db" where
  "invoice_attempts E now year others t actor input tot grand attempt 0 s =
     (Inl (ServerError ''Failed to allocate a unique invoice number after retries''), s)"
| "invoice_attempts E now year others t actor input tot grand attempt (Suc left) s =
     (let number = generateInvoiceNumber year t s;
          s0 = others attempt s
      in case run_tx (invoice_tx E now t actor input tot grand number) s0 of
           (Inr x, s1) \<Rightarrow> (Inr x, s1)
         | (Inl (UniqueViolation c), s1) \<Rightarrow>
             if attempt < 2 then invoice_attempts E now year others t actor input tot grand (attempt + 1) left s1
             else (Inl (UniqueViolation c), s1)
         | (Inl e, s1) \<Rightarrow> (Inl e, s1))"

definition createInvoice ::
  "env \<Rightarrow> int \<Rightarrow> nat \<Rightarrow> (nat \<Rightarrow> db \<Rightarrow> db) \<Rightarrow> string \<Rightarrow> string \<Rightarrow> create_invoice_input \<Rightarrow> db
    \<Rightarrow> (error + invoice) \<times> db" where
  "createInvoice E now year others tenantId actorUserId input s =
     (case List.find (\<lambda>b. br_id b = cii_branchId input \<and> br_tenantId b = tenantId) (branches s) of
        None \<Rightarrow> (Inl (NotFound ''Branch not found''), s)
      | Some _ \<Rightarrow>
          (case List.find (\<lambda>c. cus_id c = cii_customerId input \<and> cus_tenantId c = tenantId) (customers s) of
             None \<Rightarrow> (Inl (NotFound ''Customer not found''), s)
           | Some _ \<Rightarrow>
               (case invoice_totals_of E input of
                  Inl e \<Rightarrow> (Inl e, s)
                | Inr (t, grand) \<Rightarrow>
                    invoice_attempts E now year others tenantId actorUserId input t grand 0 3 s)))"

section \<open>Payments, voiding, links and delivery\<close>

definition find_invoice :: "string \<Rightarrow> string \<Rightarrow> db \<Rightarrow> invoice option" where
  "find_invoice tenantId invoiceId s =
     List.find (\<lambda>x. inv_id x = invoiceId \<and> inv_tenantId x = tenantId) (invoices s)"

definition payment_decision :: "env \<Rightarrow> payment_input \<Rightarrow> invoice \<Rightarrow> error + (money \<times> money \<times> invoice_status)" where
  "payment_decision E input x =
     bindE (guardE (inv_status x \<noteq> InvVOID) (BadRequest ''Cannot record a payment on a void invoice''))
     (\<lambda>_. let amount = money_of (pin_amount input) (inv_currency x);
              grand = money_of (inv_total x) (inv_currency x);
              alreadyPaid = money_of (inv_amountPaid x) (inv_currency x)
     in bindE (money_add E alreadyPaid amount)
     (\<lambda>newPaid. bindE (money_compare newPaid grand)
     (\<lambda>c. if c > 0 then Inl (BadRequest ''Payment exceeds the outstanding invoice balance'')
           else Inr (amount, newPaid, if c = 0 then InvPAID else InvPARTIALLY_PAID))))"

definition payment_tx ::
  "env \<Rightarrow> int \<Rightarrow> string \<Rightarrow> string \<Rightarrow> payment_input \<Rightarrow> invoice \<Rightarrow> money \<Rightarrow> money \<Rightarrow> invoice_status \<Rightarrow> db
     \<Rightarrow> error + (invoice \<times> db)" where
  "payment_tx E now tenantId actorUserId input x amount newPaid status s =
     (let p = \<lparr>pay_method = pin_method input, pay_amount = toDecimalString E amount,
               pay_currency = inv_currency x, pay_reference = pin_reference input,
               pay_status = PayCOMPLETED\<rparr> in
      bindE (guardE (column_range (pay_amount p) \<and> column_range (toDecimalString E newPaid))
               (ServerError ''numeric field overflow''))
      (\<lambda>_. let f = (\<lambda>y. y\<lparr>inv_payments := inv_payments y @ [p],
                   inv_amountPaid := toDecimalString E newPaid, inv_status := status\<rparr>);
          s1 = s\<lparr>invoices := update_where (\<lambda>y. inv_id y = inv_id x) f (invoices s), seq := Suc (seq s)\<rparr>;
          s2 = audit_record E (audit_in (Some tenantId) (Some actorUserId) ''invoices.payment_recorded''
                 ''Invoice'' (inv_id x) (Some (JObj [(''amount'', JStr (decimalText E amount))]))) s1;
          s3 = (if status = InvPAID
                then publish E now \<lparr>pi_aggregateType = ''Invoice'', pi_aggregateId = inv_id x,
                       pi_eventType = ''invoice.paid'',
                       pi_payload = JObj [(''invoiceId'', JStr (inv_id x)), (''tenantId'', JStr tenantId)]\<rparr> s2
                else s2)
      in bindE (someE (List.find (\<lambda>y. inv_id y = inv_id x) (invoices s3)) (RecordNotFound ''Invoice''))
           (\<lambda>updated. Inr (updated, s3))))"

definition recordPayment ::
  "env \<Rightarrow> int \<Rightarrow> string \<Rightarrow> string \<Rightarrow> string \<Rightarrow> payment_input \<Rightarrow> db \<Rightarrow> (error + invoice) \<times> db" where
  "recordPayment E now tenantId actorUserId invoiceId input s =
     (case find_invoice tenantId invoiceId s of
        None \<Rightarrow> (Inl (NotFound ''Invoice not found''), s)
      | Some x \<Rightarrow>
          (case payment_decision E input x of
             Inl e \<Rightarrow> (Inl e, s)
           | Inr (amount, newPaid, status) \<Rightarrow>
               run_tx (payment_tx E now tenantId actorUserId input x amount newPaid status) s))"

definition update_invoice ::
  "env \<Rightarrow> string \<Rightarrow> string \<Rightarrow> string \<Rightarrow> (invoice \<Rightarrow> invoice) \<Rightarrow> invoice \<Rightarrow> db \<Rightarrow> (error + invoice) \<times> db" where
  "update_invoice E tenantId actorUserId action f x s =
     (let s1 = s\<lparr>invoices := update_where (\<lambda>y. inv_id y = inv_id x) f (invoices s)\<rparr>
      in (Inr (f x), audit_record E (audit_in (Some tenantId) (Some actorUserId) action ''Invoice'' (inv_id x) None) s1))"

definition voidInvoice ::
  "env \<Rightarrow> int \<Rightarrow> string \<Rightarrow> string \<Rightarrow> string \<Rightarrow> db \<Rightarrow> (error + invoice) \<times> db" where
  "voidInvoice E now tenantId actorUserId invoiceId s =
     (case find_invoice tenantId invoiceId s of
        None \<Rightarrow> (Inl (NotFound ''Invoice not found''), s)
      | Some x \<Rightarrow>
          if inv_status x = InvPAID
          then (Inl (BadRequest ''A fully paid invoice cannot be voided; issue a credit note instead''), s)
          else update_invoice E tenantId actorUserId ''invoices.voided''
                 (\<lambda>y. y\<lparr>inv_status := InvVOID, inv_voidedAt := Some now\<rparr>) x s)"

definition revokePublicLink ::
  "env \<Rightarrow> int \<Rightarrow> string \<Rightarrow> string \<Rightarrow> string \<Rightarrow> db \<Rightarrow> (error + invoice) \<times> db" where
  "revokePublicLink E now tenantId actorUserId invoiceId s =
     (case find_invoice tenantId invoiceId s of
        None \<Rightarrow> (Inl (NotFound ''Invoice not found''), s)
      | Some x \<Rightarrow>
          update_invoice E tenantId actorUserId ''invoices.public_link_revoked''
            (\<lambda>y. y\<lparr>inv_publicTokenRevokedAt := Some now\<rparr>) x s)"

definition getPublicInvoice :: "string \<Rightarrow> db \<Rightarrow> error + invoice" where
  "getPublicInvoice token s =
     (case List.find (\<lambda>x. inv_publicToken x = token) (invoices s) of
        None \<Rightarrow> Inl (NotFound ''Invoice link not found or revoked'')
      | Some x \<Rightarrow>
          if inv_publicTokenRevokedAt x \<noteq> None then Inl (NotFound ''Invoice link not found or revoked'')
          else Inr x)"

definition invoice_view_url :: "env \<Rightarrow> invoice \<Rightarrow> string" where
  "invoice_view_url E x = appUrl E @ ''/public/invoices/'' @ inv_publicToken x"

definition getQrCode ::
  "env \<Rightarrow> (string \<Rightarrow> string) \<Rightarrow> string \<Rightarrow> string \<Rightarrow> db \<Rightarrow> error + (string \<times> string)" where
  "getQrCode E qr tenantId invoiceId s =
     (case find_invoice tenantId invoiceId s of
        None \<Rightarrow> Inl (NotFound ''Invoice not found'')
      | Some x \<Rightarrow> Inr (qr (invoice_view_url E x), invoice_view_url E x))"

definition send_invoice ::
  "env \<Rightarrow> (rat \<Rightarrow> string) \<Rightarrow> (string \<Rightarrow> string \<Rightarrow> string \<Rightarrow> error + delivery_result)
    \<Rightarrow> (string \<Rightarrow> string \<Rightarrow> error + delivery_result)
    \<Rightarrow> string \<Rightarrow> string \<Rightarrow> string \<Rightarrow> channel \<Rightarrow> db \<Rightarrow> (error + delivery_result) \<times> db" where
  "send_invoice E amountText email sms tenantId actorUserId invoiceId ch s =
     (case find_invoice tenantId invoiceId s of
        None \<Rightarrow> (Inl (NotFound ''Invoice not found''), s)
      | Some x \<Rightarrow>
          if inv_publicTokenRevokedAt x \<noteq> None
          then (Inl (BadRequest ''This invoice's public link has been revoked''), s)
          else
            let customer = List.find (\<lambda>c. cus_id c = inv_customerId x) (customers s);
                sender = (case List.find (\<lambda>t. ten_id t = inv_tenantId x) (tenants s) of
                            None \<Rightarrow> [] | Some t \<Rightarrow> ten_displayName t);
                message = ''Invoice '' @ inv_number x @ '' from '' @ sender @ '': '' @ inv_currency x @ '' ''
                  @ amountText (inv_total x) @ ''. View and pay: '' @ invoice_view_url E x;
                result = (case ch of
                  Email \<Rightarrow> (case Option.bind customer cus_email of
                      Some (c # cs) \<Rightarrow> email (c # cs) (''Invoice '' @ inv_number x @ '' from '' @ sender) message
                    | _ \<Rightarrow> Inl (BadRequest ''This customer has no email address on file''))
                | Sms \<Rightarrow> (case Option.bind customer cus_phone of
                      Some (c # cs) \<Rightarrow> sms (c # cs) message
                    | _ \<Rightarrow> Inl (BadRequest ''This customer has no phone number on file'')))
            in case result of
                 Inl e \<Rightarrow> (Inl e, s)
               | Inr r \<Rightarrow>
                   (Inr r, audit_record E (audit_in (Some tenantId) (Some actorUserId) ''invoices.sent'' ''Invoice''
                      (inv_id x) (Some (JObj [(''channel'', JStr (case ch of Email \<Rightarrow> ''email'' | Sms \<Rightarrow> ''sms'')),
                        (''delivered'', JBool (dr_delivered r)), (''provider'', JStr (dr_provider r))]))) s))"

definition list_invoices :: "string \<Rightarrow> db \<Rightarrow> invoice list" where
  "list_invoices tenantId s =
     take 100 (sort_key (\<lambda>x. - inv_createdAt x) (filter (\<lambda>x. inv_tenantId x = tenantId) (invoices s)))"

definition get_invoice :: "string \<Rightarrow> string \<Rightarrow> db \<Rightarrow> error + invoice" where
  "get_invoice tenantId invoiceId s = someE (find_invoice tenantId invoiceId s) (NotFound ''Invoice not found'')"

section \<open>Quotes\<close>

definition compute_quote_line :: "env \<Rightarrow> string \<Rightarrow> quote_line_input \<Rightarrow> money \<times> quote_line list \<Rightarrow> error + (money \<times> quote_line list)" where
  "compute_quote_line E currency l acc =
     (let unitPrice = money_of (qli_unitPrice l) currency;
          lineTotal = money_multiply E unitPrice (of_int (qli_quantity l))
      in bindE (money_add E (fst acc) lineTotal)
         (\<lambda>subtotal. Inr (subtotal, snd acc @
            [\<lparr>ql_variantId = qli_variantId l, ql_description = qli_description l, ql_quantity = qli_quantity l,
              ql_unitPrice = toDecimalString E unitPrice, ql_lineTotal = toDecimalString E lineTotal\<rparr>])))"

definition createQuote :: "env \<Rightarrow> string \<Rightarrow> create_quote_input \<Rightarrow> db \<Rightarrow> (error + quote) \<times> db" where
  "createQuote E tenantId input s = run_tx (\<lambda>s.
     bindE (foldE (compute_quote_line E (cqi_currency input)) (cqi_lines input) (money_zero (cqi_currency input), []))
     (\<lambda>(subtotal, lines).
      let q = \<lparr>qt_id = uuid E (seq s), qt_tenantId = tenantId, qt_branchId = cqi_branchId input,
            qt_customerId = cqi_customerId input, qt_status = QuoteDRAFT,
            qt_subtotal = toDecimalString E subtotal, qt_total = toDecimalString E subtotal,
            qt_currency = cqi_currency input, qt_expiresAt = cqi_expiresAt input,
            qt_convertedInvoiceId = None, qt_lines = lines\<rparr>
      in bindE (guardE (taken br_id (qt_branchId q) (branches s) \<and> taken cus_id (qt_customerId q) (customers s))
                  (ForeignKeyViolation ''Quote''))
      (\<lambda>_. bindE (guardE (column_range (qt_total q) \<and>
                     list_all (\<lambda>l. column_range (ql_unitPrice l) \<and> column_range (ql_lineTotal l)) lines)
                  (ServerError ''numeric field overflow''))
      (\<lambda>_. Inr (q, s\<lparr>quotes := quotes s @ [q], seq := Suc (seq s)\<rparr>))))) s"

definition quote_as_invoice :: "quote \<Rightarrow> create_invoice_input" where
  "quote_as_invoice q =
     \<lparr>cii_branchId = qt_branchId q, cii_customerId = qt_customerId q, cii_dueDate = None,
      cii_currency = qt_currency q, cii_notes = None, cii_termsText = None,
      cii_lines = map (\<lambda>l. \<lparr>ili_variantId = Some (ql_variantId l),
          ili_description = (case ql_description l of None \<Rightarrow> ''Item'' | Some d \<Rightarrow> d),
          ili_quantity = ql_quantity l, ili_unitPrice = ql_unitPrice l, ili_taxAmount = 0,
          ili_discountAmount = 0\<rparr>) (qt_lines q)\<rparr>"

definition find_quote :: "string \<Rightarrow> string \<Rightarrow> db \<Rightarrow> quote option" where
  "find_quote tenantId quoteId s = List.find (\<lambda>q. qt_id q = quoteId \<and> qt_tenantId q = tenantId) (quotes s)"

definition mark_converted :: "string \<Rightarrow> string \<Rightarrow> db \<Rightarrow> error + db" where
  "mark_converted quoteId invoiceId s =
     bindE (guardE (taken qt_id quoteId (quotes s)) (RecordNotFound ''Quote''))
     (\<lambda>_. bindE (guardE (\<not> list_ex (\<lambda>q. qt_convertedInvoiceId q = Some invoiceId \<and> qt_id q \<noteq> quoteId) (quotes s))
                  (UniqueViolation ''convertedInvoiceId''))
     (\<lambda>_. Inr (s\<lparr>quotes := update_where (\<lambda>q. qt_id q = quoteId)
            (\<lambda>q. q\<lparr>qt_status := QuoteCONVERTED, qt_convertedInvoiceId := Some invoiceId\<rparr>) (quotes s)\<rparr>)))"

definition convertQuoteToInvoice ::
  "env \<Rightarrow> int \<Rightarrow> nat \<Rightarrow> (nat \<Rightarrow> db \<Rightarrow> db) \<Rightarrow> string \<Rightarrow> string \<Rightarrow> string \<Rightarrow> db \<Rightarrow> (error + invoice) \<times> db" where
  "convertQuoteToInvoice E now year others tenantId actorUserId quoteId s =
     (case find_quote tenantId quoteId s of
        None \<Rightarrow> (Inl (NotFound ''Quote not found''), s)
      | Some q \<Rightarrow>
          if qt_status q = QuoteCONVERTED then (Inl (BadRequest ''Quote already converted''), s)
          else case createInvoice E now year others tenantId actorUserId (quote_as_invoice q) s of
                 (Inl e, s1) \<Rightarrow> (Inl e, s1)
               | (Inr x, s1) \<Rightarrow>
                   (case mark_converted quoteId (inv_id x) s1 of
                      Inl e \<Rightarrow> (Inl e, s1)
                    | Inr s2 \<Rightarrow> (Inr x, s2)))"

end
