(* ===== verification/Invoices_Facts.thy ===== *)
theory Invoices_Facts
  imports Invoices Inventory
begin

text \<open>
  What the invoice service guarantees: payments within the total, unique sequential numbers, links
  that stay revoked, quotes converted once; and the lost update of concurrent payments.
\<close>

section \<open>Invoice numbers\<close>

lemma invoice_number_inj [simp]: "invoice_number y k = invoice_number z l \<longleftrightarrow> y = z \<and> k = l"
proof
  assume eq: "invoice_number y k = invoice_number z l"
  let ?p = "\<lambda>n. padStart 5 (CHR ''0'') (nat_str n)"
  have nodash: "CHR ''-'' \<notin> set (nat_str n)" "CHR ''-'' \<notin> set (?p n)" for n
    using dash_not_digit by (auto simp: padStart_def)
  have form: "invoice_number y k = join ''-'' [''INV'', nat_str y, ?p k]" for y k
    by (simp add: invoice_number_def)
  have sp: "split (CHR ''-'') (invoice_number y k) = [''INV'', nat_str y, ?p k]" for y k
    unfolding form by (rule split_join) (simp_all add: nodash)
  have "[''INV'', nat_str y, ?p k] = [''INV'', nat_str z, ?p l]"
    using sp [of y k] sp [of z l] unfolding eq by (simp only:)
  then have "y = z" "digits_value (?p k) = digits_value (?p l)" by simp_all
  then show "y = z \<and> k = l" by simp
qed simp

section \<open>The invariant\<close>

definition paid_total :: "invoice \<Rightarrow> rat" where
  "paid_total x = (\<Sum>p\<leftarrow>inv_payments x. pay_amount p)"

definition invoice_ok :: "invoice \<Rightarrow> bool" where
  "invoice_ok x \<longleftrightarrow>
     scaled 2 (inv_total x) \<and> column_range (inv_total x) \<and> scaled 2 (inv_amountPaid x) \<and>
     0 \<le> inv_amountPaid x \<and> inv_amountPaid x \<le> max 0 (inv_total x) \<and>
     paid_total x = inv_amountPaid x \<and>
     (inv_status x = InvPAID \<longrightarrow> inv_amountPaid x = inv_total x) \<and>
     inv_status x \<in> {InvISSUED, InvPARTIALLY_PAID, InvPAID, InvVOID}"

definition number_key :: "invoice \<Rightarrow> string \<times> string" where
  "number_key x = (inv_tenantId x, inv_number x)"

definition invoices_inv :: "env \<Rightarrow> db \<Rightarrow> bool" where
  "invoices_inv E s \<longleftrightarrow>
     (\<forall>x\<in>set (invoices s). invoice_ok x) \<and>
     distinct (map inv_id (invoices s)) \<and> distinct (map inv_publicToken (invoices s)) \<and>
     distinct (map number_key (invoices s)) \<and>
     (\<forall>x\<in>set (invoices s). \<exists>n<seq s. inv_id x = uuid E n \<and> inv_publicToken x = nanoid32 E n) \<and>
     (\<forall>x\<in>set (invoices s). \<exists>y k. inv_number x = invoice_number y k \<and> k \<le> invoice_count (inv_tenantId x) s)"

lemma insert_invoice_Inr:
  "insert_invoice x s = Inr s' \<longleftrightarrow>
     \<not> taken number_key (number_key x) (invoices s) \<and> \<not> taken inv_publicToken (inv_publicToken x) (invoices s) \<and>
     list_all (\<lambda>l. case il_variantId l of None \<Rightarrow> True | Some v \<Rightarrow> taken var_id v (productVariants s)) (inv_lines x) \<and>
     invoice_in_range x \<and> s' = s\<lparr>invoices := invoices s @ [x], seq := Suc (seq s)\<rparr>"
  by (auto simp: insert_invoice_def err_simps number_key_def taken_iff)

lemma invoice_tx_Inr:
  assumes "invoice_tx E now t actor input tot grand number s = Inr (x, s')"
  shows "x = invoice_row E now t input tot grand number (seq s) \<and> invoice_in_range x \<and>
     invoices s' = invoices s @ [x] \<and> seq s < seq s' \<and> quotes s' = quotes s \<and>
     \<not> taken number_key (number_key x) (invoices s)"
  using assms by (auto simp: invoice_tx_def Let_def err_simps insert_invoice_Inr)

lemma next_number_free:
  assumes inv: "invoices_inv E s" and x: "inv_tenantId x = t" "inv_number x = generateInvoiceNumber year t s"
  shows "\<not> taken number_key (number_key x) (invoices s)"
proof
  assume "taken number_key (number_key x) (invoices s)"
  then obtain y where y: "y \<in> set (invoices s)" "inv_tenantId y = t" "inv_number y = inv_number x"
    using x by (auto simp: taken_iff number_key_def)
  obtain z k where "inv_number y = invoice_number z k" "k \<le> invoice_count t s"
    using inv y(1,2) unfolding invoices_inv_def by blast
  then show False using y(3) x(2) by (simp add: generateInvoiceNumber_def)
qed

lemma next_token_free:
  assumes "invoices_inv E s" and "inj (nanoid32 E)"
  shows "\<not> taken inv_publicToken (nanoid32 E (seq s)) (invoices s)"
  using assms by (fastforce simp: invoices_inv_def taken_iff inj_eq)

lemma next_insert_no_conflict:
  assumes inv: "invoices_inv E s" and tok: "inj (nanoid32 E)"
  shows "invoice_tx E now t actor input tot grand (generateInvoiceNumber year t s) s \<noteq> Inl (UniqueViolation c)"
proof -
  let ?x = "invoice_row E now t input tot grand (generateInvoiceNumber year t s) (seq s)"
  have "\<not> taken number_key (number_key ?x) (invoices s)"
    by (rule next_number_free [OF inv]) (simp_all add: invoice_row_def)
  then show ?thesis
    using next_token_free [OF inv tok]
    by (auto simp: invoice_tx_def Let_def err_simps insert_invoice_def number_key_def taken_iff invoice_row_def)
qed

lemma invoice_totals_no_conflict: "invoice_totals_of E input \<noteq> Inl (UniqueViolation d)"
proof -
  have line: "compute_invoice_line E c l a \<noteq> Inl (UniqueViolation d)" for c l a d
    by (auto simp: compute_invoice_line_def Let_def err_simps money_add_def money_subtract_def assertSameCurrency_def)
  have lines: "foldE (compute_invoice_line E c) ls a \<noteq> Inl (UniqueViolation d)" for c ls a d
    by (induction ls arbitrary: a) (auto simp: err_simps line)
  show ?thesis
    by (auto simp: invoice_totals_of_def Let_def err_simps lines money_add_def money_subtract_def assertSameCurrency_def)
qed

lemma attempts_sequential:
  assumes inv: "invoices_inv E s" and tok: "inj (nanoid32 E)"
  shows "invoice_attempts E now year (\<lambda>_ s. s) t actor input tot grand 0 3 s =
     run_tx (invoice_tx E now t actor input tot grand (generateInvoiceNumber year t s)) s"
  using next_insert_no_conflict [OF assms]
  by (auto simp: numeral_3_eq_3 Let_def run_tx_def split: sum.splits error.splits)

lemma createInvoice_cases:
  assumes inv: "invoices_inv E s" and tok: "inj (nanoid32 E)"
    and run: "createInvoice E now year (\<lambda>_ s. s) t actor input s = (r, s')"
  obtains (failed) e where "r = Inl e" "s' = s" "\<nexists>c. e = UniqueViolation c"
  | (created) x tot grand where "r = Inr x"
      "invoice_tx E now t actor input tot grand (generateInvoiceNumber year t s) s = Inr (x, s')"
      "List.find (\<lambda>c. cus_id c = cii_customerId input \<and> cus_tenantId c = t) (customers s) \<noteq> None"
      "List.find (\<lambda>b. br_id b = cii_branchId input \<and> br_tenantId b = t) (branches s) \<noteq> None"
proof (cases r)
  case (Inl e)
  have "e \<noteq> UniqueViolation c" for c
  proof
    assume "e = UniqueViolation c"
    then show False
      using run Inl next_insert_no_conflict [OF inv tok] invoice_totals_no_conflict
      by (auto simp: createInvoice_def attempts_sequential [OF inv tok] run_tx_def
          split: option.splits sum.splits prod.splits)
  qed
  moreover have "s' = s"
    using run Inl
    by (auto simp: createInvoice_def attempts_sequential [OF inv tok] run_tx_def
        split: option.splits sum.splits prod.splits)
  ultimately show ?thesis using Inl failed by blast
next
  case (Inr x)
  then show ?thesis
    using run created
    by (auto simp: createInvoice_def attempts_sequential [OF inv tok] run_tx_def
        split: option.splits sum.splits prod.splits)
qed

text \<open>Other transactions may commit between the count and the insert of an attempt.\<close>

lemma attempts_disturbed:
  assumes tok: "inj (nanoid32 E)" and keep: "\<And>k s. invoices_inv E s \<Longrightarrow> invoices_inv E (others k s)"
    and quiet: "\<And>s. others 2 s = s"
  shows "invoices_inv E s \<Longrightarrow> attempt + left = 3 \<Longrightarrow> 0 < left \<Longrightarrow>
     invoice_attempts E now year others t actor input tot grand attempt left s = (r, s') \<Longrightarrow>
     (\<forall>c. r \<noteq> Inl (UniqueViolation c)) \<and>
     (\<forall>x. r = Inr x \<longrightarrow> (\<exists>s1 number. invoices_inv E s1 \<and>
        invoice_tx E now t actor input tot grand number s1 = Inr (x, s')))"
proof (induction left arbitrary: attempt s)
  case (Suc left)
  let ?n = "generateInvoiceNumber year t s" and ?s0 = "others attempt s"
  have i0: "invoices_inv E ?s0" by (rule keep [OF Suc.prems(1)])
  show ?case
  proof (cases "invoice_tx E now t actor input tot grand ?n ?s0")
    case (Inl e)
    show ?thesis
    proof (cases "(\<exists>c. e = UniqueViolation c) \<and> attempt < 2")
      case True
      then have "attempt + 1 + left = 3" "0 < left"
        "invoice_attempts E now year others t actor input tot grand (attempt + 1) left ?s0 = (r, s')"
        using Suc.prems(2,4) Inl by (auto simp: run_tx_def)
      then show ?thesis by (intro Suc.IH [OF i0])
    next
      case False
      have "e \<noteq> UniqueViolation c" for c
      proof
        assume "e = UniqueViolation c"
        then have "attempt = 2" using False Suc.prems(2) by auto
        then have "invoice_tx E now t actor input tot grand ?n s = Inl (UniqueViolation c)"
          using Inl quiet \<open>e = UniqueViolation c\<close> by simp
        then show False using next_insert_no_conflict [OF Suc.prems(1) tok] by blast
      qed
      then show ?thesis using Suc.prems(4) Inl by (auto simp: run_tx_def Let_def split: error.splits)
    qed
  next
    case (Inr p)
    then show ?thesis
      using Suc.prems(4) i0
      by (cases p) (auto simp: run_tx_def intro!: exI [of _ "others attempt s"] exI [of _ ?n])
  qed
qed simp

lemma createInvoice_inv:
  assumes D: "decimal_lib (dec_round E) (dec_places E)" and I: "inj (uuid E)" "inj (nanoid32 E)"
    and inv: "invoices_inv E s" and run: "createInvoice E now year (\<lambda>_ s. s) t actor input s = (r, s')"
  shows "invoices_inv E s' \<and> (\<forall>c. r \<noteq> Inl (UniqueViolation c))"
  using inv I(2) run
proof (cases rule: createInvoice_cases)
  case (created x tot grand)
  have x: "x = invoice_row E now t input tot grand (generateInvoiceNumber year t s) (seq s)" "invoice_in_range x"
    "invoices s' = invoices s @ [x]" "seq s < seq s'" "\<not> taken number_key (number_key x) (invoices s)"
    using invoice_tx_Inr [OF created(2)] by auto
  have ok: "invoice_ok x"
    using x(2) decimal_lib.places_scaled [OF D, of 2]
    by (simp add: x(1) invoice_ok_def invoice_in_range_def invoice_row_def paid_total_def toDecimalString_def)
  have cnt: "invoice_count t' s' = invoice_count t' s + (if t' = t then 1 else 0)" for t'
    by (simp add: invoice_count_def x(3)) (simp add: x(1) invoice_row_def)
  have ids: "inv_id x = uuid E (seq s)" "inv_publicToken x = nanoid32 E (seq s)" "inv_tenantId x = t"
    "inv_number x = invoice_number year (invoice_count t s + 1)"
    by (simp_all add: x(1) invoice_row_def generateInvoiceNumber_def)
  have "inv_id x \<notin> inv_id ` set (invoices s)"
    using inv I(1) by (fastforce simp: ids invoices_inv_def inj_eq)
  moreover have "inv_publicToken x \<notin> inv_publicToken ` set (invoices s)"
    using next_token_free [OF inv I(2)] by (force simp: ids taken_iff)
  moreover have "number_key x \<notin> number_key ` set (invoices s)" using x(5) by (force simp: taken_iff)
  moreover have "\<exists>y k. inv_number z = invoice_number y k \<and> k \<le> invoice_count (inv_tenantId z) s'"
    if "z \<in> set (invoices s)" for z
    using inv that by (fastforce simp: invoices_inv_def cnt)
  moreover have "\<exists>y k. inv_number x = invoice_number y k \<and> k \<le> invoice_count (inv_tenantId x) s'"
    by (simp add: ids cnt)
  moreover have "\<exists>n<seq s'. inv_id z = uuid E n \<and> inv_publicToken z = nanoid32 E n" if "z \<in> set (invoices s)" for z
    using inv that x(4) by (meson invoices_inv_def order.strict_trans)
  moreover have "\<exists>n<seq s'. inv_id x = uuid E n \<and> inv_publicToken x = nanoid32 E n"
    using x(4) ids by blast
  ultimately have "invoices_inv E s'"
    using inv ok unfolding invoices_inv_def x(3) by simp
  then show ?thesis using created(1) by simp
qed (use inv in auto)

section \<open>Payments\<close>

text \<open>An amount a client can send: positive, with at most six decimals.\<close>

definition payable :: "rat \<Rightarrow> bool" where
  "payable a \<longleftrightarrow> 0 < a \<and> a < 10 ^ 15 \<and> scaled 6 a"

lemma payment_decision_sound:
  assumes D: "decimal_lib (dec_round E) (dec_places E)" and ok: "invoice_ok x" and pay: "payable (pin_amount input)"
    and d: "payment_decision E input x = Inr (amount, newPaid, st)"
  shows "inv_status x \<noteq> InvVOID \<and> toDecimalString E newPaid = inv_amountPaid x + toDecimalString E amount \<and>
     toDecimalString E amount = half_up 2 (pin_amount input) \<and> 0 \<le> toDecimalString E amount \<and>
     scaled 2 (toDecimalString E newPaid) \<and> toDecimalString E newPaid \<le> inv_total x \<and>
     inv_amountPaid x + pin_amount input \<le> inv_total x \<and>
     st = (if inv_amountPaid x + pin_amount input = inv_total x then InvPAID else InvPARTIALLY_PAID)"
proof -
  let ?c = "inv_currency x" and ?a = "inv_amountPaid x" and ?p = "pin_amount input" and ?t = "inv_total x"
  have t: "scaled 2 ?t" "\<bar>?t\<bar> < 10 ^ 10" and a: "scaled 2 ?a" "0 \<le> ?a" "?a \<le> max 0 ?t"
    using ok by (simp_all add: invoice_ok_def column_range_def)
  have p: "0 < ?p" "?p < 10 ^ 15" "scaled 6 ?p" using pay by (simp_all add: payable_def)
  have ab: "?a < 10 ^ 10" using a t by (auto simp: max_def split: if_splits)
  have "scaled 6 ?a" using a(1) by (rule scaled_mono) simp
  then have r: "dec_round E (?a + ?p) = ?a + ?p"
    using p ab a(2) by (intro decimal_lib.rnd_scaled [OF D, of 6] scaled_add) auto
  have eq: "amount = money_of ?p ?c" "newPaid = money_of (?a + ?p) ?c" "?a + ?p \<le> ?t"
    "st = (if ?a + ?p = ?t then InvPAID else InvPARTIALLY_PAID)" "inv_status x \<noteq> InvVOID"
    using d by (auto simp: payment_decision_def err_simps Let_def money_ops r comparedTo_def not_less split: if_splits)
  have sum: "half_up 2 (?a + ?p) = ?a + half_up 2 ?p" using a p by (intro half_up_shift) auto
  have "half_up 2 (?a + ?p) \<le> ?t" using eq(3) t(1) by (rule half_up_le)
  then show ?thesis
    using eq sum p half_up_nonneg [of ?p 2] half_up_scaled [of 2 "?a + ?p"]
    by (simp add: money_ops decimal_lib.places_half_up [OF D])
qed

lemma payment_tx_Inr:
  assumes "payment_tx E now t actor input x amount newPaid st s = Inr (y, s')"
  shows "\<exists>p. pay_amount p = toDecimalString E amount \<and>
     invoices s' = update_where (\<lambda>y. inv_id y = inv_id x) (\<lambda>y. y\<lparr>inv_payments := inv_payments y @ [p],
        inv_amountPaid := toDecimalString E newPaid, inv_status := st\<rparr>) (invoices s) \<and>
     seq s \<le> seq s' \<and> quotes s' = quotes s"
proof -
  let ?p = "\<lparr>pay_method = pin_method input, pay_amount = toDecimalString E amount,
     pay_currency = inv_currency x, pay_reference = pin_reference input, pay_status = PayCOMPLETED\<rparr>"
  show ?thesis
    by (rule exI [of _ ?p]) (use assms in \<open>auto simp: payment_tx_def Let_def err_simps\<close>)
qed

text \<open>A row update that keeps the keys keeps the rest of the invariant.\<close>

lemma invoices_inv_update:
  assumes inv: "invoices_inv E s" and x: "x \<in> set (invoices s)" and ok: "invoice_ok (f x)"
    and keys: "\<And>y. inv_id (f y) = inv_id y \<and> inv_publicToken (f y) = inv_publicToken y \<and> number_key (f y) = number_key y"
    and upd: "invoices s' = update_where (\<lambda>y. inv_id y = inv_id x) f (invoices s)" and seq: "seq s \<le> seq s'"
  shows "invoices_inv E s'"
proof -
  have t: "inv_tenantId (f y) = inv_tenantId y" "inv_number (f y) = inv_number y" for y
    using keys by (simp_all add: number_key_def)
  have m: "map inv_id (invoices s') = map inv_id (invoices s)"
    "map inv_publicToken (invoices s') = map inv_publicToken (invoices s)"
    "map number_key (invoices s') = map number_key (invoices s)"
    using keys by (simp_all add: upd map_update_where_same)
  have cnt: "invoice_count t' s' = invoice_count t' s" for t'
    unfolding invoice_count_def upd by (rule count_where_update_same) (simp add: t)
  have uniq: "y = x" if "y \<in> set (invoices s)" "inv_id y = inv_id x" for y
    using that x inv distinct_keyD by (fastforce simp: invoices_inv_def)
  have each: "\<exists>q\<in>set (invoices s). inv_id y = inv_id q \<and> inv_publicToken y = inv_publicToken q \<and>
      inv_tenantId y = inv_tenantId q \<and> inv_number y = inv_number q \<and> (y = q \<or> y = f x)"
    if "y \<in> set (invoices s')" for y
  proof -
    from that obtain q where q: "q \<in> set (invoices s)" "y = (if inv_id q = inv_id x then f q else q)"
      by (auto simp: upd set_update_where)
    show ?thesis
    proof (cases "inv_id q = inv_id x")
      case True
      then have "q = x" using uniq q(1) by blast
      with q keys t show ?thesis by (intro bexI [of _ q]) simp_all
    next
      case False
      with q show ?thesis by (intro bexI [of _ q]) simp_all
    qed
  qed
  have "invoice_ok y" if "y \<in> set (invoices s')" for y
    using each [OF that] inv ok by (auto simp: invoices_inv_def)
  moreover have "\<exists>n<seq s'. inv_id y = uuid E n \<and> inv_publicToken y = nanoid32 E n" if "y \<in> set (invoices s')" for y
    using each [OF that] inv seq by (metis (no_types, lifting) invoices_inv_def order.strict_trans2)
  moreover have "\<exists>z k. inv_number y = invoice_number z k \<and> k \<le> invoice_count (inv_tenantId y) s'"
    if "y \<in> set (invoices s')" for y
    using each [OF that] inv unfolding cnt invoices_inv_def by metis
  ultimately show ?thesis using inv unfolding invoices_inv_def m by blast
qed

lemma find_invoice_Some: "find_invoice t i s = Some x \<Longrightarrow> x \<in> set (invoices s) \<and> inv_id x = i \<and> inv_tenantId x = t"
  by (auto simp: find_invoice_def dest!: find_SomeD)

lemma recordPayment_inv:
  assumes D: "decimal_lib (dec_round E) (dec_places E)" and inv: "invoices_inv E s" and pay: "payable (pin_amount input)"
    and run: "recordPayment E now t actor i input s = (r, s')"
  shows "invoices_inv E s'"
proof (cases r)
  case (Inl e)
  then show ?thesis
    using run inv by (auto simp: recordPayment_def run_tx_def split: option.splits sum.splits prod.splits)
next
  case (Inr y)
  then obtain x amount newPaid st where x: "find_invoice t i s = Some x"
    and d: "payment_decision E input x = Inr (amount, newPaid, st)"
    and tx: "payment_tx E now t actor input x amount newPaid st s = Inr (y, s')"
    using run by (auto simp: recordPayment_def run_tx_def split: option.splits sum.splits prod.splits)
  have ok: "invoice_ok x" and xs: "x \<in> set (invoices s)"
    using find_invoice_Some [OF x] inv by (auto simp: invoices_inv_def)
  note snd = payment_decision_sound [OF D ok pay d]
  obtain p where p: "pay_amount p = toDecimalString E amount"
    and upd: "invoices s' = update_where (\<lambda>y. inv_id y = inv_id x) (\<lambda>y. y\<lparr>inv_payments := inv_payments y @ [p],
        inv_amountPaid := toDecimalString E newPaid, inv_status := st\<rparr>) (invoices s)" and sq: "seq s \<le> seq s'"
    using payment_tx_Inr [OF tx] by blast
  let ?f = "\<lambda>y. y\<lparr>inv_payments := inv_payments y @ [p], inv_amountPaid := toDecimalString E newPaid, inv_status := st\<rparr>"
  have eqt: "half_up 2 (inv_total x) = inv_total x" using ok by (simp add: invoice_ok_def half_up_exact)
  have full: "toDecimalString E newPaid = inv_total x" if "st = InvPAID"
  proof -
    have "inv_amountPaid x + pin_amount input = inv_total x" using snd that by (auto split: if_splits)
    moreover have "half_up 2 (inv_amountPaid x + pin_amount input) = inv_amountPaid x + half_up 2 (pin_amount input)"
      using ok pay by (intro half_up_shift) (auto simp: invoice_ok_def payable_def)
    ultimately show ?thesis using snd eqt by simp
  qed
  have "invoice_ok (?f x)"
    using ok snd full p by (auto simp: invoice_ok_def paid_total_def)
  then show ?thesis
    by (rule invoices_inv_update [OF inv xs _ _ upd sq]) (simp add: number_key_def)
qed

lemma update_invoice_inv:
  assumes inv: "invoices_inv E s" and x: "find_invoice t i s = Some x" and ok: "invoice_ok x \<Longrightarrow> invoice_ok (f x)"
    and keys: "\<And>y. inv_id (f y) = inv_id y \<and> inv_publicToken (f y) = inv_publicToken y \<and> number_key (f y) = number_key y"
  shows "invoices_inv E (snd (update_invoice E t actor action f x s))"
proof (rule invoices_inv_update [OF inv _ _ keys])
  show "x \<in> set (invoices s)" using find_invoice_Some [OF x] by simp
  then show "invoice_ok (f x)" using inv ok by (simp add: invoices_inv_def)
qed (simp_all add: update_invoice_def Let_def)

lemma voidInvoice_inv:
  assumes "invoices_inv E s" shows "invoices_inv E (snd (voidInvoice E now t actor i s))"
  unfolding voidInvoice_def using assms
  by (auto split: option.split intro!: update_invoice_inv simp: invoice_ok_def paid_total_def number_key_def)

lemma revokePublicLink_inv:
  assumes "invoices_inv E s" shows "invoices_inv E (snd (revokePublicLink E now t actor i s))"
  unfolding revokePublicLink_def using assms
  by (auto split: option.split intro!: update_invoice_inv simp: invoice_ok_def paid_total_def number_key_def)

lemma invoices_inv_frame:
  "invoices t = invoices s \<Longrightarrow> seq s \<le> seq t \<Longrightarrow> invoices_inv E s \<Longrightarrow> invoices_inv E t"
  unfolding invoices_inv_def invoice_count_def by (force intro: order.strict_trans2)

lemma createQuote_frame:
  "invoices (snd (createQuote E t input s)) = invoices s \<and> seq s \<le> seq (snd (createQuote E t input s))"
  by (auto simp: createQuote_def run_tx_def Let_def err_simps split: sum.split prod.split)

lemma mark_converted_frame:
  "mark_converted q i s = Inr s' \<Longrightarrow> invoices s' = invoices s \<and> seq s' = seq s"
  by (auto simp: mark_converted_def err_simps)

lemma convertQuote_inv:
  assumes D: "decimal_lib (dec_round E) (dec_places E)" and I: "inj (uuid E)" "inj (nanoid32 E)"
    and inv: "invoices_inv E s"
  shows "invoices_inv E (snd (convertQuoteToInvoice E now year (\<lambda>_ s. s) t actor q s))"
proof (cases "find_quote t q s")
  case (Some qt)
  obtain r s1 where c: "createInvoice E now year (\<lambda>_ s. s) t actor (quote_as_invoice qt) s = (r, s1)"
    by (cases "createInvoice E now year (\<lambda>_ s. s) t actor (quote_as_invoice qt) s") blast
  have i1: "invoices_inv E s1" using createInvoice_inv [OF D I inv c] by blast
  have "invoices_inv E s2" if "mark_converted q i s1 = Inr s2" for i s2
    using mark_converted_frame [OF that] invoices_inv_frame [of s2 s1 E] i1 by simp
  then show ?thesis
    using inv i1 by (simp add: convertQuoteToInvoice_def Some c split: sum.split)
qed (use inv in \<open>simp add: convertQuoteToInvoice_def\<close>)

section \<open>Reachable databases\<close>

inductive invoice_step :: "env \<Rightarrow> db \<Rightarrow> db \<Rightarrow> bool" for E where
  create: "invoice_step E s (snd (createInvoice E now year (\<lambda>_ s. s) t actor input s))"
| pay: "payable (pin_amount p) \<Longrightarrow> invoice_step E s (snd (recordPayment E now t actor i p s))"
| void: "invoice_step E s (snd (voidInvoice E now t actor i s))"
| revoke: "invoice_step E s (snd (revokePublicLink E now t actor i s))"
| quote: "invoice_step E s (snd (createQuote E t qinput s))"
| convert: "invoice_step E s (snd (convertQuoteToInvoice E now year (\<lambda>_ s. s) t actor q s))"

lemma invoice_step_inv:
  assumes D: "decimal_lib (dec_round E) (dec_places E)" and I: "inj (uuid E)" "inj (nanoid32 E)"
    and inv: "invoices_inv E s" and step: "invoice_step E s s'"
  shows "invoices_inv E s'"
  using step
proof cases
  case (create now year t actor input)
  then show ?thesis using createInvoice_inv [OF D I inv] by (metis prod.collapse)
next
  case (pay p now t actor i)
  then show ?thesis using recordPayment_inv [OF D inv] by (metis prod.collapse)
next
  case (quote t qinput)
  then show ?thesis using createQuote_frame invoices_inv_frame inv by metis
qed (simp_all add: voidInvoice_inv [OF inv] revokePublicLink_inv [OF inv] convertQuote_inv [OF D I inv])

section \<open>A concrete invoice\<close>

definition demo_invoice_db :: db where
  "demo_invoice_db = empty_db\<lparr>
     branches := [\<lparr>br_id = ''b1'', br_tenantId = ''t1'', br_name = ''Main'', br_address = None,
       br_timezone = ''UTC'', br_currency = ''USD'', br_isActive = True, br_isBillable = False,
       br_archivedAt = None, br_createdAt = 0\<rparr>],
     customers := [\<lparr>cus_id = ''c1'', cus_tenantId = ''t1'', cus_name = ''Ann'', cus_company = None,
       cus_email = None, cus_phone = None, cus_birthday = None, cus_taxId = None, cus_notes = None,
       cus_creditLimit = 0, cus_balance = 0, cus_paymentTermsDays = 0, cus_tags = [],
       cus_consentMarketing = False, cus_status = CustACTIVE, cus_createdAt = 0\<rparr>]\<rparr>"

definition demo_invoice :: create_invoice_input where
  "demo_invoice = \<lparr>cii_branchId = ''b1'', cii_customerId = ''c1'', cii_dueDate = None,
     cii_currency = ''USD'', cii_notes = None, cii_termsText = None,
     cii_lines = [\<lparr>ili_variantId = None, ili_description = ''Work'', ili_quantity = 2, ili_unitPrice = 50,
       ili_taxAmount = 0, ili_discountAmount = 0\<rparr>]\<rparr>"

definition demo_payment :: "rat \<Rightarrow> payment_input" where
  "demo_payment a = \<lparr>pin_amount = a, pin_method = CASH, pin_reference = None\<rparr>"

lemma demo_invoices_empty [simp]: "invoices demo_invoice_db = []" "seq demo_invoice_db = 0"
  by (simp_all add: demo_invoice_db_def empty_db_def)

lemma demo_invoices_inv: "invoices_inv exact_env demo_invoice_db"
  by (simp add: invoices_inv_def)

lemma demo_invoice_totals:
  "\<exists>tot. invoice_totals_of exact_env demo_invoice = Inr (tot, money_of 100 ''USD'') \<and>
     it_subtotal tot = money_of 100 ''USD'' \<and> it_taxTotal tot = money_of 0 ''USD'' \<and>
     it_discountTotal tot = money_of 0 ''USD'' \<and>
     it_lines tot = [\<lparr>il_variantId = None, il_description = ''Work'', il_quantity = 2, il_unitPrice = 50,
       il_taxAmount = 0, il_discountAmount = 0, il_lineTotal = 100\<rparr>]"
proof -
  have h: "half_up 2 100 = 100" "half_up 2 50 = 50" by code_simp+
  show ?thesis
    by (simp add: invoice_totals_of_def compute_invoice_line_def demo_invoice_def money_zero_of money_ops Let_def h)
qed

lemma demo_invoice_runs:
  "\<exists>x s'. createInvoice exact_env now year (\<lambda>_ s. s) ''t1'' ''u1'' demo_invoice demo_invoice_db = (Inr x, s') \<and>
     invoices s' = [x] \<and> inv_total x = 100 \<and> inv_status x = InvISSUED \<and> inv_tenantId x = ''t1'' \<and>
     inv_number x = invoice_number year 1 \<and> inv_currency x = ''USD'' \<and> inv_amountPaid x = 0 \<and>
     inv_payments x = [] \<and> invoices_inv exact_env s'"
proof -
  have h: "half_up 2 100 = 100" by code_simp
  obtain tot where tot: "invoice_totals_of exact_env demo_invoice = Inr (tot, money_of 100 ''USD'')"
    "it_subtotal tot = money_of 100 ''USD''" "it_taxTotal tot = money_of 0 ''USD''"
    "it_discountTotal tot = money_of 0 ''USD''"
    "it_lines tot = [\<lparr>il_variantId = None, il_description = ''Work'', il_quantity = 2, il_unitPrice = 50,
       il_taxAmount = 0, il_discountAmount = 0, il_lineTotal = 100\<rparr>]"
    using demo_invoice_totals by blast
  have f: "\<exists>b. List.find (\<lambda>b. br_id b = cii_branchId demo_invoice \<and> br_tenantId b = ''t1'') (branches demo_invoice_db) = Some b"
    "\<exists>c. List.find (\<lambda>c. cus_id c = cii_customerId demo_invoice \<and> cus_tenantId c = ''t1'') (customers demo_invoice_db) = Some c"
    by (simp_all add: demo_invoice_db_def demo_invoice_def)
  have c: "cii_currency demo_invoice = ''USD''" by (simp add: demo_invoice_def)
  obtain x s' where x: "createInvoice exact_env now year (\<lambda>_ s. s) ''t1'' ''u1'' demo_invoice demo_invoice_db = (Inr x, s')"
    "invoices s' = [x]" "inv_total x = 100" "inv_status x = InvISSUED" "inv_tenantId x = ''t1''"
    "inv_number x = invoice_number year 1" "inv_currency x = ''USD''" "inv_amountPaid x = 0" "inv_payments x = []"
    using f
    by (auto simp: createInvoice_def tot attempts_sequential [OF demo_invoices_inv] run_tx_def invoice_tx_def Let_def
        insert_invoice_def invoice_row_def invoice_in_range_def column_range_def money_ops h c
        generateInvoiceNumber_def invoice_count_def)
  moreover have "invoices_inv exact_env s'"
    using createInvoice_inv [OF _ _ _ demo_invoices_inv x(1)] by simp
  ultimately show ?thesis by blast
qed

section \<open>Properties\<close>



text \<open>the retry loop survives two lost races for the next number: whatever transactions that keep
  the invariant commit between the count and the insert of the first two attempts, the request never
  ends in a uniqueness violation, and an invoice that is returned was appended under a number no
  other invoice of the tenant carries.\<close>
theorem invoice_number_retry:
  assumes inv: "invoices_inv E s" and tok: "inj (nanoid32 E)"
    and others: "\<And>k s. invoices_inv E s \<Longrightarrow> invoices_inv E (others k s)" "\<And>s. others 2 s = s"
    and run: "createInvoice E now year others t actor input s = (r, s')"
  shows "(\<forall>c. r \<noteq> Inl (UniqueViolation c)) \<and>
     (\<forall>x. r = Inr x \<longrightarrow> inv_tenantId x = t \<and> distinct (map number_key (invoices s')) \<and>
       (\<exists>before. invoices s' = before @ [x]))"
proof -
  have a: "(\<forall>c. q \<noteq> Inl (UniqueViolation c)) \<and>
      (\<forall>x. q = Inr x \<longrightarrow> (\<exists>s1 number. invoices_inv E s1 \<and>
         invoice_tx E now t actor input tot grand number s1 = Inr (x, q')))"
    if "invoice_attempts E now year others t actor input tot grand 0 3 s = (q, q')" for tot grand q q'
    by (rule attempts_disturbed [OF tok others inv _ _ that]) simp_all
  have no: "r \<noteq> Inl (UniqueViolation c)" for c
    using run a invoice_totals_no_conflict
    by (auto simp: createInvoice_def split: option.splits sum.splits prod.splits)
  have yes: "inv_tenantId x = t \<and> distinct (map number_key (invoices s')) \<and>
       (\<exists>before. invoices s' = before @ [x])" if "r = Inr x" for x
  proof -
  from that obtain tot grand where
    "invoice_attempts E now year others t actor input tot grand 0 3 s = (Inr x, s')"
    using run by (auto simp: createInvoice_def split: option.splits sum.splits prod.splits)
  from a [OF this] obtain s1 number where i1: "invoices_inv E s1"
    and tx: "invoice_tx E now t actor input tot grand number s1 = Inr (x, s')" by blast
  have f: "\<not> taken number_key (number_key x) (invoices s1)" "invoices s' = invoices s1 @ [x]"
    "inv_tenantId x = t"
    using invoice_tx_Inr [OF tx] by (auto simp: invoice_row_def)
  have "number_key x \<notin> number_key ` set (invoices s1)" using f(1) by (force simp: taken_iff)
  with i1 f show ?thesis by (simp add: invoices_inv_def)
  qed
  from no yes show ?thesis by blast
qed

theorem invoice_number_retry_witness:
  "let others = (\<lambda>k s. if k < 2 then snd (createInvoice exact_env 0 2024 (\<lambda>_ s. s) ''t1'' ''u2'' demo_invoice s) else s)
   in \<forall>c. fst (createInvoice exact_env 1 2024 others ''t1'' ''u1'' demo_invoice demo_invoice_db) \<noteq> Inl (UniqueViolation c)"
proof -
  define others where "others = (\<lambda>k::nat. \<lambda>s. if k < 2
    then snd (createInvoice exact_env 0 2024 (\<lambda>_ s. s) ''t1'' ''u2'' demo_invoice s) else s)"
  have keep: "invoices_inv exact_env s \<Longrightarrow> invoices_inv exact_env (others k s)" for k s
    using createInvoice_inv [of exact_env s 0 2024 "''t1''" "''u2''" demo_invoice]
    by (cases "createInvoice exact_env 0 2024 (\<lambda>_ s. s) ''t1'' ''u2'' demo_invoice s") (simp add: others_def)
  obtain r s' where run: "createInvoice exact_env 1 2024 others ''t1'' ''u1'' demo_invoice demo_invoice_db = (r, s')"
    by fastforce
  have "\<forall>c. r \<noteq> Inl (UniqueViolation c)"
    using invoice_number_retry [OF demo_invoices_inv _ keep _ run] by (simp add: others_def)
  then show ?thesis using run by (simp add: others_def [symmetric] Let_def)
qed

section \<open>Concurrent payments\<close>

text \<open>The balance of an invoice is read before the transaction that pays it. Of two payments
  decided on the same invoice both commit, but the amount paid is the first balance plus the second
  payment alone: the first payment is on record and lost from the balance.\<close>
theorem concurrent_payment_lost:
  assumes D: "decimal_lib (dec_round E) (dec_places E)" and ok: "invoice_ok x" and xs: "invoices s = [x]"
    and p: "payable (pin_amount p1)" "payable (pin_amount p2)"
    and d1: "payment_decision E p1 x = Inr (a1, n1, st1)" and d2: "payment_decision E p2 x = Inr (a2, n2, st2)"
    and one: "payment_tx E now t actor p1 x a1 n1 st1 s = Inr (r1, s1)"
    and two: "payment_tx E now' t actor' p2 x a2 n2 st2 s1 = Inr (r2, s2)"
  shows "map paid_total (invoices s2) =
       [inv_amountPaid x + half_up 2 (pin_amount p1) + half_up 2 (pin_amount p2)] \<and>
     map inv_amountPaid (invoices s2) = [inv_amountPaid x + half_up 2 (pin_amount p2)]"
proof -
  note f1 = payment_decision_sound [OF D ok p(1) d1] and f2 = payment_decision_sound [OF D ok p(2) d2]
  obtain q1 where q1: "pay_amount q1 = toDecimalString E a1" "invoices s1 = update_where (\<lambda>y. inv_id y = inv_id x)
      (\<lambda>y. y\<lparr>inv_payments := inv_payments y @ [q1], inv_amountPaid := toDecimalString E n1, inv_status := st1\<rparr>)
      (invoices s)"
    using payment_tx_Inr [OF one] by blast
  obtain q2 where q2: "pay_amount q2 = toDecimalString E a2" "invoices s2 = update_where (\<lambda>y. inv_id y = inv_id x)
      (\<lambda>y. y\<lparr>inv_payments := inv_payments y @ [q2], inv_amountPaid := toDecimalString E n2, inv_status := st2\<rparr>)
      (invoices s1)"
    using payment_tx_Inr [OF two] by blast
  have "paid_total x = inv_amountPaid x" using ok by (simp add: invoice_ok_def)
  then show ?thesis using f1 f2 q1(1) q2(1) by (simp add: q1(2) q2(2) xs paid_total_def)
qed

lemma payment_tx_commits:
  assumes "column_range (toDecimalString E amount)" "column_range (toDecimalString E newPaid)"
    "\<exists>y\<in>set (invoices s). inv_id y = inv_id x"
  shows "\<exists>y s'. payment_tx E now t actor input x amount newPaid st s = Inr (y, s') \<and>
     map inv_id (invoices s') = map inv_id (invoices s)"
proof -
  obtain y where y: "List.find (\<lambda>y. inv_id y = inv_id x) (invoices s) = Some y"
    using assms(3) by (cases "List.find (\<lambda>y. inv_id y = inv_id x) (invoices s)") (auto simp: find_None_iff)
  have "List.find (\<lambda>y. inv_id y = inv_id x) (update_where (\<lambda>y. inv_id y = inv_id x) f (invoices s)) = Some (f y)"
    if "\<And>y. inv_id (f y) = inv_id y" for f
    using y find_SomeD [OF y] that by (subst find_update_where_same) auto
  then show ?thesis
    using assms(1,2) by (simp add: payment_tx_def Let_def map_update_where_same)
qed

theorem concurrent_payment_lost_witness:
  "\<exists>x a1 n1 st1 r1 s1 a2 n2 st2 r2 s2. payment_decision exact_env (demo_payment 30) x = Inr (a1, n1, st1) \<and>
     payment_decision exact_env (demo_payment 50) x = Inr (a2, n2, st2) \<and>
     payment_tx exact_env 1 ''t1'' ''u1'' (demo_payment 30) x a1 n1 st1 (demo_invoice_db\<lparr>invoices := [x]\<rparr>) = Inr (r1, s1) \<and>
     payment_tx exact_env 2 ''t1'' ''u2'' (demo_payment 50) x a2 n2 st2 s1 = Inr (r2, s2) \<and>
     map paid_total (invoices s2) = [80] \<and> map inv_amountPaid (invoices s2) = [50]"
proof -
  obtain x s' where x: "createInvoice exact_env 0 2024 (\<lambda>_ s. s) ''t1'' ''u1'' demo_invoice demo_invoice_db = (Inr x, s')"
    "invoices s' = [x]" "inv_total x = 100" "inv_status x = InvISSUED" "inv_currency x = ''USD''"
    "inv_amountPaid x = 0" "invoices_inv exact_env s'"
    using demo_invoice_runs by blast
  then have ok: "invoice_ok x" by (simp add: invoices_inv_def)
  have d: "payment_decision exact_env (demo_payment a) x = Inr (money_of a ''USD'', money_of a ''USD'', InvPARTIALLY_PAID)"
    if "a < 100" for a
    using that x by (simp add: payment_decision_def demo_payment_def money_ops comparedTo_def Let_def)
  have h: "half_up 2 30 = 30" "half_up 2 50 = 50" by code_simp+
  have pay: "payable (pin_amount (demo_payment 30))" "payable (pin_amount (demo_payment 50))"
    by (simp_all add: payable_def demo_payment_def scaled_def)
  have c: "column_range (toDecimalString exact_env (money_of 30 ''USD''))"
    "column_range (toDecimalString exact_env (money_of 50 ''USD''))"
    by (simp_all add: money_ops column_range_def h)
  let ?s = "demo_invoice_db\<lparr>invoices := [x]\<rparr>"
  obtain r1 s1 where 1: "payment_tx exact_env 1 ''t1'' ''u1'' (demo_payment 30) x (money_of 30 ''USD'') (money_of 30 ''USD'')
      InvPARTIALLY_PAID ?s = Inr (r1, s1)" "map inv_id (invoices s1) = [inv_id x]"
    using payment_tx_commits [OF c(1) c(1), of ?s x] by fastforce
  have "inv_id x \<in> set (map inv_id (invoices s1))" unfolding 1(2) by simp
  then have "\<exists>y\<in>set (invoices s1). inv_id y = inv_id x" by fastforce
  then obtain r2 s2 where 2: "payment_tx exact_env 2 ''t1'' ''u2'' (demo_payment 50) x (money_of 50 ''USD'')
      (money_of 50 ''USD'') InvPARTIALLY_PAID s1 = Inr (r2, s2)"
    using payment_tx_commits [OF c(2) c(2)] by meson
  have "map paid_total (invoices s2) = [80] \<and> map inv_amountPaid (invoices s2) = [50]"
    using concurrent_payment_lost [OF _ ok _ pay d d 1(1) 2] x(6) h by (simp add: demo_payment_def)
  with 1 2 d show ?thesis
    by (intro exI [of _ x] exI [of _ "money_of 30 ''USD''"] exI [of _ InvPARTIALLY_PAID] exI [of _ r1] exI [of _ s1]
        exI [of _ "money_of 50 ''USD''"] exI [of _ r2] exI [of _ s2]) simp
qed

section \<open>Links and quotes\<close>

definition link_hidden :: "string \<Rightarrow> db \<Rightarrow> bool" where
  "link_hidden token s \<longleftrightarrow>
     (\<exists>x. List.find (\<lambda>x. inv_publicToken x = token) (invoices s) = Some x \<and> inv_publicTokenRevokedAt x \<noteq> None)"

definition quote_converted :: "string \<Rightarrow> string \<Rightarrow> db \<Rightarrow> bool" where
  "quote_converted t q s \<longleftrightarrow> (\<exists>x. find_quote t q s = Some x \<and> qt_status x = QuoteCONVERTED)"

lemma find_append_Some: "List.find P xs = Some x \<Longrightarrow> List.find P (xs @ ys) = Some x"
  by (induction xs) auto

lemma find_update_Some:
  "List.find Q rows = Some x \<Longrightarrow> (\<And>r. Q (f r) \<longleftrightarrow> Q r) \<Longrightarrow>
   List.find Q (update_where P f rows) = Some (if P x then f x else x)"
  by (subst find_update_where_same) auto

lemma link_hidden_append: "link_hidden k s \<Longrightarrow> invoices s' = invoices s @ ys \<Longrightarrow> link_hidden k s'"
  by (auto simp: link_hidden_def find_append_Some)

lemma link_hidden_update:
  assumes "link_hidden k s" and "invoices s' = update_where P f (invoices s)"
    and f: "\<And>y. inv_publicToken (f y) = inv_publicToken y"
      "\<And>y. inv_publicTokenRevokedAt y \<noteq> None \<Longrightarrow> inv_publicTokenRevokedAt (f y) \<noteq> None"
  shows "link_hidden k s'"
proof -
  from assms(1) obtain x where x: "List.find (\<lambda>x. inv_publicToken x = k) (invoices s) = Some x"
    "inv_publicTokenRevokedAt x \<noteq> None" unfolding link_hidden_def by blast
  have "List.find (\<lambda>x. inv_publicToken x = k) (invoices s') = Some (if P x then f x else x)"
    unfolding assms(2) by (rule find_update_Some [OF x(1)]) (simp add: f(1))
  then show ?thesis using f(2) [OF x(2)] x(2) unfolding link_hidden_def by auto
qed

lemma quote_converted_append: "quote_converted t q s \<Longrightarrow> quotes s' = quotes s @ ys \<Longrightarrow> quote_converted t q s'"
  by (auto simp: quote_converted_def find_quote_def find_append_Some)

lemma mark_converted_Inr:
  assumes "mark_converted k i s = Inr s'"
  shows "quotes s' = update_where (\<lambda>q. qt_id q = k)
     (\<lambda>q. q\<lparr>qt_status := QuoteCONVERTED, qt_convertedInvoiceId := Some i\<rparr>) (quotes s)"
  using assms by (auto simp: mark_converted_def err_simps)

lemma quote_converted_mark:
  "mark_converted k i s = Inr s' \<Longrightarrow> quote_converted t q s \<or> find_quote t q s \<noteq> None \<and> q = k \<Longrightarrow> quote_converted t q s'"
proof -
  assume m: "mark_converted k i s = Inr s'" and q: "quote_converted t q s \<or> find_quote t q s \<noteq> None \<and> q = k"
  then obtain x where x: "find_quote t q s = Some x" "qt_status x = QuoteCONVERTED \<or> q = k"
    unfolding quote_converted_def by auto
  let ?f = "\<lambda>q. q\<lparr>qt_status := QuoteCONVERTED, qt_convertedInvoiceId := Some i\<rparr>"
  have "find_quote t q s' = Some (if qt_id x = k then ?f x else x)"
    unfolding find_quote_def mark_converted_Inr [OF m]
    by (rule find_update_Some) (use x(1) in \<open>simp_all add: find_quote_def\<close>)
  moreover have "qt_id x = q" using x(1) by (auto simp: find_quote_def dest: find_SomeD)
  ultimately show ?thesis using x(2) unfolding quote_converted_def by auto
qed

text \<open>What each operation does to the rows of invoices and quotes.\<close>

lemma createInvoice_rows:
  assumes "invoices_inv E s" and "inj (nanoid32 E)"
    and "createInvoice E now year (\<lambda>_ s. s) t actor input s = (r, s')"
  shows "(\<exists>ys. invoices s' = invoices s @ ys) \<and> quotes s' = quotes s"
  using assms
proof (cases rule: createInvoice_cases)
  case (created x tot grand)
  from invoice_tx_Inr [OF created(2)] show ?thesis by simp
qed simp

lemma convert_rows:
  assumes "invoices_inv E s" and "inj (nanoid32 E)"
  shows "\<exists>ys. invoices (snd (convertQuoteToInvoice E now year (\<lambda>_ s. s) t actor k s)) = invoices s @ ys"
    and "quote_converted t' q s \<Longrightarrow>
      quote_converted t' q (snd (convertQuoteToInvoice E now year (\<lambda>_ s. s) t actor k s))"
proof -
  define r where "r = (\<lambda>q. fst (createInvoice E now year (\<lambda>_ s. s) t actor (quote_as_invoice q) s))"
  define s1 where "s1 = (\<lambda>q. snd (createInvoice E now year (\<lambda>_ s. s) t actor (quote_as_invoice q) s))"
  have c: "createInvoice E now year (\<lambda>_ s. s) t actor (quote_as_invoice q) s = (r q, s1 q)" for q
    by (simp add: r_def s1_def)
  note rows = createInvoice_rows [OF assms c]
  show "\<exists>ys. invoices (snd (convertQuoteToInvoice E now year (\<lambda>_ s. s) t actor k s)) = invoices s @ ys"
    using rows mark_converted_frame
    by (auto simp: convertQuoteToInvoice_def c split: option.split sum.split)
  assume "quote_converted t' q s"
  then have "quote_converted t' q (s1 x)" for x using rows by (simp add: quote_converted_def find_quote_def)
  then show "quote_converted t' q (snd (convertQuoteToInvoice E now year (\<lambda>_ s. s) t actor k s))"
    using quote_converted_mark \<open>quote_converted t' q s\<close>
    by (auto simp: convertQuoteToInvoice_def c split: option.split sum.split)
qed

lemma recordPayment_rows:
  "invoices (snd (recordPayment E now t actor i p s)) = invoices s \<and> quotes (snd (recordPayment E now t actor i p s)) = quotes s \<or>
   (\<exists>k q a st. invoices (snd (recordPayment E now t actor i p s)) = update_where (\<lambda>y. inv_id y = k)
      (\<lambda>y. y\<lparr>inv_payments := inv_payments y @ [q], inv_amountPaid := a, inv_status := st\<rparr>) (invoices s)
    \<and> quotes (snd (recordPayment E now t actor i p s)) = quotes s)"
proof (cases "recordPayment E now t actor i p s")
  case (Pair r s')
  show ?thesis
  proof (cases r)
    case (Inl e)
    then show ?thesis using Pair by (auto simp: recordPayment_def run_tx_def split: option.splits sum.splits prod.splits)
  next
    case (Inr y)
    then obtain x amount newPaid st where "payment_tx E now t actor p x amount newPaid st s = Inr (y, s')"
      using Pair by (auto simp: recordPayment_def run_tx_def split: option.splits sum.splits prod.splits)
    from payment_tx_Inr [OF this] show ?thesis using Pair by auto
  qed
qed

lemma invoice_step_stable:
  assumes I: "inj (nanoid32 E)" and inv: "invoices_inv E s" and step: "invoice_step E s s'"
  shows "(link_hidden k s \<longrightarrow> link_hidden k s') \<and> (quote_converted t' q' s \<longrightarrow> quote_converted t' q' s')"
  using step
proof cases
  case (create now year t actor input)
  obtain r where "createInvoice E now year (\<lambda>_ s. s) t actor input s = (r, s')" using create by (metis prod.collapse)
  from createInvoice_rows [OF inv I this] show ?thesis
    using link_hidden_append by (auto simp: quote_converted_def find_quote_def)
next
  case (pay p now t actor i)
  have "quotes s' = quotes s" using recordPayment_rows pay(1) by metis
  moreover have "link_hidden k s'" if "link_hidden k s"
    using recordPayment_rows [of E now t actor i p s]
  proof (elim disjE exE conjE)
    fix j q a st assume "invoices (snd (recordPayment E now t actor i p s)) = update_where (\<lambda>y. inv_id y = j)
      (\<lambda>y. y\<lparr>inv_payments := inv_payments y @ [q], inv_amountPaid := a, inv_status := st\<rparr>) (invoices s)"
    then show ?thesis
      unfolding pay(1) [symmetric] by (rule link_hidden_update [OF that]) simp_all
  qed (use that pay(1) in \<open>simp add: link_hidden_def\<close>)
  ultimately show ?thesis by (simp add: quote_converted_def find_quote_def)
next
  case (void now t actor i)
  then show ?thesis
    by (auto simp: voidInvoice_def update_invoice_def Let_def quote_converted_def find_quote_def
        split: option.split elim!: link_hidden_update)
next
  case (revoke now t actor i)
  then show ?thesis
    by (auto simp: revokePublicLink_def update_invoice_def Let_def quote_converted_def find_quote_def
        split: option.split elim!: link_hidden_update)
next
  case (quote t qinput)
  have "\<exists>ys. quotes s' = quotes s @ ys"
    using quote by (auto simp: createQuote_def run_tx_def Let_def err_simps split: sum.split prod.split)
  then show ?thesis
    using quote createQuote_frame quote_converted_append by (auto simp: link_hidden_def)
next
  case (convert now year t actor q)
  then show ?thesis using convert_rows [OF inv I] link_hidden_append by metis
qed

lemma invoice_steps_stable:
  assumes D: "decimal_lib (dec_round E) (dec_places E)" and I: "inj (uuid E)" "inj (nanoid32 E)"
    and inv: "invoices_inv E s" and steps: "(invoice_step E)\<^sup>*\<^sup>* s s'"
  shows "invoices_inv E s' \<and> (link_hidden k s \<longrightarrow> link_hidden k s') \<and>
     (quote_converted t' q' s \<longrightarrow> quote_converted t' q' s')"
  using steps
proof induction
  case (step u v)
  then show ?case
    using invoice_step_inv [OF D I _ step(2)] invoice_step_stable [OF I(2) _ step(2)] by blast
qed (use inv in simp)

text \<open>C37: revoking the public link of an invoice is final: whatever the service does afterwards, the
  link answers with the same 404 as an unknown link.\<close>
theorem revoked_link_stays_hidden:
  assumes D: "decimal_lib (dec_round E) (dec_places E)" and I: "inj (uuid E)" "inj (nanoid32 E)"
    and inv: "invoices_inv E s" and run: "revokePublicLink E now t actor i s = (Inr x, s1)"
    and steps: "(invoice_step E)\<^sup>*\<^sup>* s1 s2"
  shows "getPublicInvoice (inv_publicToken x) s2 = Inl (NotFound ''Invoice link not found or revoked'')"
proof -
  obtain y where y: "find_invoice t i s = Some y" and x: "x = y\<lparr>inv_publicTokenRevokedAt := Some now\<rparr>"
    and s1: "invoices s1 = update_where (\<lambda>z. inv_id z = inv_id y) (\<lambda>z. z\<lparr>inv_publicTokenRevokedAt := Some now\<rparr>) (invoices s)"
    using run by (auto simp: revokePublicLink_def update_invoice_def Let_def split: option.splits)
  have ys: "y \<in> set (invoices s)" using find_invoice_Some [OF y] by simp
  have "List.find (\<lambda>z. inv_publicToken z = inv_publicToken y) (invoices s) = Some y"
    by (rule find_unique_key [OF _ ys refl]) (use inv in \<open>simp add: invoices_inv_def\<close>)
  then have "link_hidden (inv_publicToken x) s1"
    unfolding link_hidden_def s1 x by (subst find_update_where_same) auto
  moreover have "invoices_inv E s1" using revokePublicLink_inv [OF inv] run by (metis snd_conv)
  ultimately have "link_hidden (inv_publicToken x) s2" using invoice_steps_stable [OF D I _ steps] by blast
  then show ?thesis by (auto simp: link_hidden_def getPublicInvoice_def)
qed

theorem revoked_link_stays_hidden_witness:
  "\<exists>x s1 s2. (invoice_step exact_env)\<^sup>*\<^sup>* demo_invoice_db s1 \<and> invoices s1 = [x] \<and>
     revokePublicLink exact_env 5 ''t1'' ''u1'' (inv_id x) s1 = (Inr (x\<lparr>inv_publicTokenRevokedAt := Some 5\<rparr>), s2) \<and>
     getPublicInvoice (inv_publicToken x) s2 = Inl (NotFound ''Invoice link not found or revoked'')"
proof -
  obtain x s1 where x: "createInvoice exact_env 0 2024 (\<lambda>_ s. s) ''t1'' ''u1'' demo_invoice demo_invoice_db = (Inr x, s1)"
    "invoices s1 = [x]" "inv_tenantId x = ''t1''" "invoices_inv exact_env s1"
    using demo_invoice_runs by blast
  have step: "invoice_step exact_env demo_invoice_db s1"
    using invoice_step.create [of exact_env demo_invoice_db 0 2024 "''t1''" "''u1''" demo_invoice] x(1) by simp
  obtain s2 where run: "revokePublicLink exact_env 5 ''t1'' ''u1'' (inv_id x) s1
      = (Inr (x\<lparr>inv_publicTokenRevokedAt := Some 5\<rparr>), s2)"
    by (simp add: revokePublicLink_def find_invoice_def x(2,3) update_invoice_def Let_def)
  have "getPublicInvoice (inv_publicToken (x\<lparr>inv_publicTokenRevokedAt := Some 5\<rparr>)) s2
      = Inl (NotFound ''Invoice link not found or revoked'')"
    by (rule revoked_link_stays_hidden [OF _ _ _ x(4) run rtranclp.rtrancl_refl]) simp_all
  then show ?thesis
    using run x(2) step by (intro exI [of _ x] exI [of _ s1] exI [of _ s2] conjI r_into_rtranclp) simp_all
qed

text \<open>a quote becomes an invoice once: after a conversion, whatever the service does, converting
  the quote again is refused and changes nothing.\<close>
theorem quote_converted_once:
  assumes D: "decimal_lib (dec_round E) (dec_places E)" and I: "inj (uuid E)" "inj (nanoid32 E)"
    and inv: "invoices_inv E s"
    and run: "convertQuoteToInvoice E now year (\<lambda>_ s. s) t actor q s = (Inr x, s1)"
    and steps: "(invoice_step E)\<^sup>*\<^sup>* s1 s2"
  shows "convertQuoteToInvoice E now' year' others t actor' q s2 = (Inl (BadRequest ''Quote already converted''), s2)"
proof -
  obtain qt s0 where qt: "find_quote t q s = Some qt"
    and c: "createInvoice E now year (\<lambda>_ s. s) t actor (quote_as_invoice qt) s = (Inr x, s0)"
    and m: "mark_converted q (inv_id x) s0 = Inr s1"
    using run by (auto simp: convertQuoteToInvoice_def split: option.splits if_splits prod.splits sum.splits)
  have "find_quote t q s0 = Some qt"
    using createInvoice_rows [OF inv I(2) c] qt by (simp add: find_quote_def)
  then have "quote_converted t q s1" using quote_converted_mark [OF m] by simp
  moreover have "invoices_inv E s1" using convertQuote_inv [OF D I inv] run by (metis snd_conv)
  ultimately have "quote_converted t q s2" using invoice_steps_stable [OF D I _ steps] by blast
  then show ?thesis by (auto simp: quote_converted_def convertQuoteToInvoice_def)
qed

definition demo_quote_db :: db where
  "demo_quote_db = demo_invoice_db\<lparr>
     productVariants := [demo_variant],
     quotes := [\<lparr>qt_id = ''q1'', qt_tenantId = ''t1'', qt_branchId = ''b1'', qt_customerId = ''c1'',
       qt_status = QuoteDRAFT, qt_subtotal = 100, qt_total = 100, qt_currency = ''USD'', qt_expiresAt = None,
       qt_convertedInvoiceId = None, qt_lines = [\<lparr>ql_variantId = ''v1'', ql_description = None,
         ql_quantity = 2, ql_unitPrice = 50, ql_lineTotal = 100\<rparr>]\<rparr>]\<rparr>"

lemma demo_quote_db_simps:
  "invoices demo_quote_db = []" "seq demo_quote_db = 0" "productVariants demo_quote_db = [demo_variant]"
  "quotes demo_quote_db = [\<lparr>qt_id = ''q1'', qt_tenantId = ''t1'', qt_branchId = ''b1'', qt_customerId = ''c1'',
       qt_status = QuoteDRAFT, qt_subtotal = 100, qt_total = 100, qt_currency = ''USD'', qt_expiresAt = None,
       qt_convertedInvoiceId = None, qt_lines = [\<lparr>ql_variantId = ''v1'', ql_description = None,
         ql_quantity = 2, ql_unitPrice = 50, ql_lineTotal = 100\<rparr>]\<rparr>]"
  "\<exists>b. List.find (\<lambda>b. br_id b = ''b1'' \<and> br_tenantId b = ''t1'') (branches demo_quote_db) = Some b"
  "\<exists>c. List.find (\<lambda>c. cus_id c = ''c1'' \<and> cus_tenantId c = ''t1'') (customers demo_quote_db) = Some c"
  by (simp_all add: demo_quote_db_def demo_invoice_db_def empty_db_def)

theorem quote_converted_once_witness:
  "\<exists>x s1. convertQuoteToInvoice exact_env 1 2024 (\<lambda>_ s. s) ''t1'' ''u1'' ''q1'' demo_quote_db = (Inr x, s1) \<and>
     convertQuoteToInvoice exact_env 2 2024 (\<lambda>_ s. s) ''t1'' ''u2'' ''q1'' s1
       = (Inl (BadRequest ''Quote already converted''), s1)"
proof -
  have h: "half_up 2 100 = 100" "half_up 2 50 = 50" by code_simp+
  have inv: "invoices_inv exact_env demo_quote_db" by (simp add: invoices_inv_def demo_quote_db_simps)
  obtain b c where f:
    "List.find (\<lambda>b. br_id b = ''b1'' \<and> br_tenantId b = ''t1'') (branches demo_quote_db) = Some b"
    "List.find (\<lambda>c. cus_id c = ''c1'' \<and> cus_tenantId c = ''t1'') (customers demo_quote_db) = Some c"
    using demo_quote_db_simps(5,6) by blast
  have "\<exists>x s1. convertQuoteToInvoice exact_env 1 2024 (\<lambda>_ s. s) ''t1'' ''u1'' ''q1'' demo_quote_db = (Inr x, s1)"
    by (simp add: convertQuoteToInvoice_def find_quote_def createInvoice_def attempts_sequential [OF inv]
        invoice_totals_of_def compute_invoice_line_def quote_as_invoice_def money_zero_of money_ops Let_def h
        run_tx_def invoice_tx_def insert_invoice_def invoice_row_def invoice_in_range_def column_range_def
        mark_converted_def demo_quote_db_simps(1-4) f taken_iff)
  then obtain x s1 where run:
    "convertQuoteToInvoice exact_env 1 2024 (\<lambda>_ s. s) ''t1'' ''u1'' ''q1'' demo_quote_db = (Inr x, s1)" by blast
  have "convertQuoteToInvoice exact_env 2 2024 (\<lambda>_ s. s) ''t1'' ''u2'' ''q1'' s1
       = (Inl (BadRequest ''Quote already converted''), s1)"
    by (rule quote_converted_once [OF _ _ _ inv run rtranclp.rtrancl_refl]) simp_all
  with run show ?thesis by blast
qed

end
