(* ===== verification/Onboarding.thy ===== *)
theory Onboarding
  imports Billing_Service Access_Control Seed
begin

text \<open>
  \<open>apps/api/src/onboarding/onboarding.service.ts\<close>: the creation of a tenant with its first
  branch, owner and trial in one transaction, the invitation of users and the acceptance of an
  invitation, which recomputes the entitlements through the billing service. \<open>now\<close> is the
  clock reading of the request.
\<close>

definition TRIAL_DAYS :: int where
  "TRIAL_DAYS = 14"

definition day_ms :: int where
  "day_ms = 24 * 60 * 60 * 1000"

record create_tenant_input =
  cti_legalName :: string
  cti_displayName :: string
  cti_category :: "string option"
  cti_country :: string
  cti_locale :: string
  cti_timezone :: string
  cti_baseCurrency :: string
  cti_firstBranchName :: string
  cti_firstBranchAddress :: "string option"

record invite_input =
  ii_email :: string
  ii_roleKey :: string
  ii_branchScope :: "string list"

section \<open>Creating a tenant\<close>

text \<open>The rows the transaction creates, in its order; \<open>n\<close> counts the identifiers drawn before.\<close>

definition new_tenant :: "env \<Rightarrow> nat \<Rightarrow> create_tenant_input \<Rightarrow> tenant" where
  "new_tenant E n input = \<lparr>ten_id = uuid E n, ten_legalName = cti_legalName input,
     ten_displayName = cti_displayName input, ten_category = cti_category input,
     ten_country = cti_country input, ten_locale = cti_locale input, ten_timezone = cti_timezone input,
     ten_baseCurrency = cti_baseCurrency input, ten_status = TenantTRIALING\<rparr>"

definition first_branch :: "env \<Rightarrow> nat \<Rightarrow> int \<Rightarrow> string \<Rightarrow> create_tenant_input \<Rightarrow> branch" where
  "first_branch E n now tenantId input = \<lparr>br_id = uuid E n, br_tenantId = tenantId,
     br_name = cti_firstBranchName input, br_address = cti_firstBranchAddress input,
     br_timezone = cti_timezone input, br_currency = cti_baseCurrency input, br_isActive = True,
     br_isBillable = False, br_archivedAt = None, br_createdAt = now\<rparr>"

definition main_stock :: "env \<Rightarrow> nat \<Rightarrow> branch \<Rightarrow> stock_location" where
  "main_stock E n b = \<lparr>loc_id = uuid E n, loc_tenantId = br_tenantId b, loc_branchId = br_id b,
     loc_name = br_name b @ '' '' @ em_dash @ '' Main Stock'', loc_isDefault = True\<rparr>"

definition first_register :: "env \<Rightarrow> nat \<Rightarrow> branch \<Rightarrow> register" where
  "first_register E n b = \<lparr>reg_id = uuid E n, reg_tenantId = br_tenantId b, reg_branchId = br_id b,
     reg_name = ''Register 1''\<rparr>"

definition active_member :: "env \<Rightarrow> nat \<Rightarrow> string \<Rightarrow> string \<Rightarrow> string \<Rightarrow> membership" where
  "active_member E n tenantId userId roleId = \<lparr>mem_id = uuid E n, mem_tenantId = tenantId,
     mem_userId = userId, mem_roleId = roleId, mem_status = MemACTIVE, mem_branchScope = [],
     mem_isBillableUser = True\<rparr>"

definition trial_subscription :: "env \<Rightarrow> nat \<Rightarrow> int \<Rightarrow> string \<Rightarrow> subscription" where
  "trial_subscription E n now tenantId = \<lparr>sub_id = uuid E n, sub_tenantId = tenantId,
     sub_stripeSubscriptionId = None, sub_status = SubTRIALING, sub_currentPeriodStart = None,
     sub_currentPeriodEnd = None, sub_trialEndsAt = Some (now + TRIAL_DAYS * day_ms),
     sub_cancelAtPeriodEnd = False, sub_canceledAt = None\<rparr>"

definition base_item :: "env \<Rightarrow> int \<Rightarrow> subscription \<Rightarrow> db \<Rightarrow> db" where
  "base_item E basePrice sub s =
     (case List.find (\<lambda>p. pri_key p = ''base'') (pricingCatalogItems s) of
        None \<Rightarrow> s
      | Some p \<Rightarrow> s\<lparr>subscriptionItems := subscriptionItems s @
            [\<lparr>sit_id = uuid E (seq s), sit_subscriptionId = sub_id sub,
              sit_pricingCatalogItemId = pri_id p, sit_quantity = 1,
              sit_unitPriceUsdCentsSnapshot = basePrice\<rparr>],
          seq := Suc (seq s)\<rparr>)"

definition createTenant_tx ::
  "env \<Rightarrow> int \<Rightarrow> resolved_catalog \<Rightarrow> user \<Rightarrow> create_tenant_input \<Rightarrow> db \<Rightarrow> error + ((tenant \<times> branch) \<times> db)" where
  "createTenant_tx E now catalog owner input s =
     bindE (guardE (\<not> list_ex (\<lambda>m. mem_userId m = usr_id owner) (memberships s))
              (BadRequest ''This user already belongs to a tenant. Multi-tenant membership for a single onboarding flow is not yet supported.''))
     (\<lambda>_. let n = seq s;
              tenant = new_tenant E n input;
              branch = first_branch E (n + 1) now (ten_id tenant) input
     in bindE (someE (List.find (\<lambda>r. rol_tenantId r = None \<and> rol_key r = ''owner'') (roles s))
                (ServerError ''System role \"owner\" is not seeded. Run `pnpm db:seed` before onboarding.''))
     (\<lambda>ownerRole.
       let sub = trial_subscription E (n + 5) now (ten_id tenant);
           s1 = s\<lparr>tenants := tenants s @ [tenant], branches := branches s @ [branch],
             stockLocations := stockLocations s @ [main_stock E (n + 2) branch],
             registers := registers s @ [first_register E (n + 3) branch],
             memberships := memberships s @ [active_member E (n + 4) (ten_id tenant) (usr_id owner) (rol_id ownerRole)],
             subscriptions := subscriptions s @ [sub], seq := n + 6\<rparr>;
           s2 = base_item E (rc_basePriceUsdCents catalog) sub s1;
           s3 = audit_record E (audit_in (Some (ten_id tenant)) (Some (usr_id owner)) ''onboarding.tenant_created''
                  ''Tenant'' (ten_id tenant) None) s2;
           s4 = publish E now \<lparr>pi_aggregateType = ''Tenant'', pi_aggregateId = ten_id tenant,
                  pi_eventType = ''tenant.created'',
                  pi_payload = JObj [(''tenantId'', JStr (ten_id tenant)), (''ownerUserId'', JStr (usr_id owner)),
                    (''ownerEmail'', JStr (usr_email owner))]\<rparr> s3
       in Inr ((tenant, branch), s4)))"

definition createTenant ::
  "env \<Rightarrow> int \<Rightarrow> user \<Rightarrow> create_tenant_input \<Rightarrow> db \<Rightarrow> (error + (tenant \<times> branch)) \<times> db" where
  "createTenant E now owner input s = run_tx (createTenant_tx E now (catalog_resolve s) owner input) s"

section \<open>Invitations\<close>

definition inviteUser ::
  "env \<Rightarrow> int \<Rightarrow> string \<Rightarrow> string \<Rightarrow> invite_input \<Rightarrow> db \<Rightarrow> (error + invitation) \<times> db" where
  "inviteUser E now tenantId inviterUserId input s =
     (case List.find (\<lambda>r. rol_key r = ii_roleKey input \<and> (rol_tenantId r = Some tenantId \<or> rol_tenantId r = None))
             (roles s) of
        None \<Rightarrow> (Inl (NotFound (''Role '' @ ii_roleKey input @ '' not found'')), s)
      | Some r \<Rightarrow>
          if (case List.find (\<lambda>u. usr_email u = ii_email input) (users s) of
                None \<Rightarrow> False
              | Some u \<Rightarrow> list_ex (\<lambda>m. mem_tenantId m = tenantId \<and> mem_userId m = usr_id u) (memberships s))
          then (Inl (BadRequest ''This user is already a member of this tenant''), s)
          else if taken ivt_token (nanoid32 E (seq s)) (invitations s)
          then (Inl (UniqueViolation ''token''), s)
          else
            let i = \<lparr>ivt_id = uuid E (seq s), ivt_tenantId = tenantId, ivt_email = ii_email input,
                  ivt_roleId = rol_id r, ivt_token = nanoid32 E (seq s), ivt_invitedByUserId = inviterUserId,
                  ivt_expiresAt = now + 7 * day_ms, ivt_acceptedAt = None, ivt_revokedAt = None\<rparr>;
                s1 = s\<lparr>invitations := invitations s @ [i], seq := Suc (seq s)\<rparr>;
                s2 = publish E now \<lparr>pi_aggregateType = ''Invitation'', pi_aggregateId = ivt_id i,
                       pi_eventType = ''invitation.created'',
                       pi_payload = JObj [(''tenantId'', JStr tenantId), (''email'', JStr (ii_email input)),
                         (''token'', JStr (ivt_token i))]\<rparr> s1
            in (Inr i, audit_record E (audit_in (Some tenantId) (Some inviterUserId) ''onboarding.user_invited''
                  ''Invitation'' (ivt_id i) (Some (JObj [(''email'', JStr (ii_email input)),
                    (''roleKey'', JStr (ii_roleKey input))]))) s2))"

definition accept_tx :: "env \<Rightarrow> int \<Rightarrow> user \<Rightarrow> invitation \<Rightarrow> db \<Rightarrow> error + (unit \<times> db)" where
  "accept_tx E now acceptingUser i s =
     bindE (guardE (\<not> list_ex (\<lambda>m. mem_tenantId m = ivt_tenantId i \<and> mem_userId m = usr_id acceptingUser) (memberships s))
              (UniqueViolation ''tenantId_userId''))
     (\<lambda>_. bindE (guardE (taken ivt_id (ivt_id i) (invitations s)) (RecordNotFound ''Invitation''))
     (\<lambda>_. let s1 = s\<lparr>memberships := memberships s @
                 [active_member E (seq s) (ivt_tenantId i) (usr_id acceptingUser) (ivt_roleId i)],
               invitations := update_where (\<lambda>x. ivt_id x = ivt_id i) (\<lambda>x. x\<lparr>ivt_acceptedAt := Some now\<rparr>) (invitations s),
               seq := Suc (seq s)\<rparr>
         in Inr ((), audit_record E (audit_in (Some (ivt_tenantId i)) (Some (usr_id acceptingUser))
               ''onboarding.invitation_accepted'' ''Invitation'' (ivt_id i) None) s1)))"

definition acceptInvitation ::
  "env \<Rightarrow> 'w billing_provider \<Rightarrow> int \<Rightarrow> string \<Rightarrow> user \<Rightarrow> db \<Rightarrow> 'w \<Rightarrow> (error + string) \<times> db \<times> 'w" where
  "acceptInvitation E B now token acceptingUser s w =
     (case List.find (\<lambda>x. ivt_token x = token) (invitations s) of
        None \<Rightarrow> (Inl (BadRequest ''This invitation is invalid or has expired''), s, w)
      | Some i \<Rightarrow>
          if ivt_acceptedAt i \<noteq> None \<or> ivt_revokedAt i \<noteq> None \<or> ivt_expiresAt i < now
          then (Inl (BadRequest ''This invitation is invalid or has expired''), s, w)
          else if ivt_email i \<noteq> usr_email acceptingUser
          then (Inl (BadRequest ''This invitation was issued to a different email address''), s, w)
          else case run_tx (accept_tx E now acceptingUser i) s of
                 (Inl e, s1) \<Rightarrow> (Inl e, s1, w)
               | (Inr _, s1) \<Rightarrow>
                   (case recomputeSubscriptionItems E B (ivt_tenantId i) s1 w of
                      (Inl e, s2, w1) \<Rightarrow> (Inl e, s2, w1)
                    | (Inr _, s2, w1) \<Rightarrow> (Inr (ivt_tenantId i), s2, w1)))"

section \<open>What the transaction leaves\<close>

lemma base_item_frame [simp]:
  "tenants (base_item E p x s) = tenants s" "branches (base_item E p x s) = branches s"
  "memberships (base_item E p x s) = memberships s" "roles (base_item E p x s) = roles s"
  "subscriptions (base_item E p x s) = subscriptions s" "users (base_item E p x s) = users s"
  "sessions (base_item E p x s) = sessions s" "invitations (base_item E p x s) = invitations s"
  "pricingCatalogItems (base_item E p x s) = pricingCatalogItems s"
  by (simp_all add: base_item_def split: option.split)

lemma createTenant_Inr:
  assumes "createTenant E now owner input s = (Inr (t, b), s')"
  shows "ten_id t = uuid E (seq s) \<and> b = first_branch E (seq s + 1) now (ten_id t) input \<and>
     tenants s' = tenants s @ [t] \<and> branches s' = branches s @ [b] \<and>
     (\<forall>m\<in>set (memberships s). mem_userId m \<noteq> usr_id owner) \<and>
     (\<exists>r. List.find (is_system_role OWNER) (roles s) = Some r \<and>
        memberships s' = memberships s @ [active_member E (seq s + 4) (ten_id t) (usr_id owner) (rol_id r)]) \<and>
     subscriptions s' = subscriptions s @ [trial_subscription E (seq s + 5) now (ten_id t)] \<and>
     users s' = users s \<and> sessions s' = sessions s \<and> roles s' = roles s \<and> invitations s' = invitations s \<and>
     pricingCatalogItems s' = pricingCatalogItems s"
  using assms
  by (auto simp: createTenant_def createTenant_tx_def run_tx_def Let_def err_simps new_tenant_def
      is_system_role_def [abs_def] list_ex_iff split: sum.splits prod.splits)

lemma createTenant_commits:
  assumes "\<forall>m\<in>set (memberships s). mem_userId m \<noteq> usr_id owner"
    and "List.find (is_system_role OWNER) (roles s) = Some r"
  shows "\<exists>t b s'. createTenant E now owner input s = (Inr (t, b), s')"
  using assms
  by (auto simp: createTenant_def createTenant_tx_def run_tx_def Let_def list_ex_iff is_system_role_def [abs_def])

text \<open>What accepting an invitation writes before the entitlements are recomputed.\<close>

lemma accept_tx_Inr:
  assumes "accept_tx E now u i s = Inr (x, s')"
  shows "memberships s' = memberships s @ [active_member E (seq s) (ivt_tenantId i) (usr_id u) (ivt_roleId i)] \<and>
     invitations s' = update_where (\<lambda>x. ivt_id x = ivt_id i) (\<lambda>x. x\<lparr>ivt_acceptedAt := Some now\<rparr>) (invitations s) \<and>
     subscriptions s' = subscriptions s \<and> branches s' = branches s \<and>
     pricingCatalogItems s' = pricingCatalogItems s \<and> subscriptionItems s' = subscriptionItems s \<and>
     \<not> list_ex (\<lambda>m. mem_tenantId m = ivt_tenantId i \<and> mem_userId m = usr_id u) (memberships s)"
  using assms by (auto simp: accept_tx_def err_simps Let_def)

lemma upsert_item_invitations [simp]: "invitations (upsert_item E sub item q s) = invitations s"
  by (auto simp: upsert_item_def split: option.splits)

lemma recompute_invitations:
  "invitations (fst (snd (recomputeSubscriptionItems E B t s w))) = invitations s"
proof -
  have "invitations (snd (recompute_tx E t s)) = invitations s"
    by (auto simp: recompute_tx_def run_tx_def recompute_write_def Let_def err_simps
        split: sum.splits prod.splits)
  then show ?thesis
    by (auto simp: recomputeSubscriptionItems_def split: sum.splits prod.splits)
qed

lemma acceptInvitation_Inr:
  assumes "acceptInvitation E B now token u s w = (Inr t, s', w')"
  obtains i s1 v where "List.find (\<lambda>x. ivt_token x = token) (invitations s) = Some i" "t = ivt_tenantId i"
    "ivt_acceptedAt i = None" "accept_tx E now u i s = Inr ((), s1)"
    "recomputeSubscriptionItems E B t s1 w = (Inr v, s', w')"
  using assms
  by (auto simp: acceptInvitation_def run_tx_def split: option.splits if_splits sum.splits prod.splits)

section \<open>The life of an invitation\<close>

definition invitation_used :: "string \<Rightarrow> db \<Rightarrow> bool" where
  "invitation_used token s \<longleftrightarrow>
     (\<exists>i. List.find (\<lambda>x. ivt_token x = token) (invitations s) = Some i \<and> ivt_acceptedAt i \<noteq> None)"

inductive onboarding_step :: "env \<Rightarrow> 'w billing_provider \<Rightarrow> db \<times> 'w \<Rightarrow> db \<times> 'w \<Rightarrow> bool" for E B where
  create: "onboarding_step E B (s, w) (snd (createTenant E now owner input s), w)"
| invite: "onboarding_step E B (s, w) (snd (inviteUser E now t inviter iinput s), w)"
| accept: "onboarding_step E B (s, w) (snd (acceptInvitation E B now token u s w))"

lemma invitation_used_append:
  "invitation_used k s \<Longrightarrow> invitations s' = invitations s @ ys \<Longrightarrow> invitation_used k s'"
  by (auto simp: invitation_used_def)

lemma invitation_used_accept:
  assumes "invitation_used k s"
    and "invitations s' = update_where (\<lambda>x. ivt_id x = i) (\<lambda>x. x\<lparr>ivt_acceptedAt := Some now\<rparr>) (invitations s)"
  shows "invitation_used k s'"
proof -
  from assms(1) obtain x where x: "List.find (\<lambda>x. ivt_token x = k) (invitations s) = Some x" "ivt_acceptedAt x \<noteq> None"
    by (auto simp: invitation_used_def)
  have "List.find (\<lambda>x. ivt_token x = k) (invitations s') =
      map_option (\<lambda>x. if ivt_id x = i then x\<lparr>ivt_acceptedAt := Some now\<rparr> else x)
        (List.find (\<lambda>x. ivt_token x = k) (invitations s))"
    unfolding assms(2) by (rule find_update_where_same) simp
  with x show ?thesis by (simp add: invitation_used_def)
qed

lemma acceptInvitation_invitations:
  "invitations (fst (snd (acceptInvitation E B now token u s w))) = invitations s \<or>
   (\<exists>i. invitations (fst (snd (acceptInvitation E B now token u s w))) =
      update_where (\<lambda>x. ivt_id x = i) (\<lambda>x. x\<lparr>ivt_acceptedAt := Some now\<rparr>) (invitations s))"
proof -
  have "invitations s' = update_where (\<lambda>x. ivt_id x = ivt_id i) (\<lambda>x. x\<lparr>ivt_acceptedAt := Some now\<rparr>) (invitations s)"
    if "run_tx (accept_tx E now u i) s = (Inr y, s1)" "recomputeSubscriptionItems E B t s1 w = (r, s', w')"
    for y s1 t r s' w' i
    using that accept_tx_Inr [of E now u i s y s1] recompute_invitations [of E B t s1 w] by (auto simp: err_simps)
  then show ?thesis
    by (fastforce simp: acceptInvitation_def err_simps split: option.splits if_splits sum.splits prod.splits)
qed

lemma onboarding_step_used:
  assumes "onboarding_step E B (s, w) (s', w')" and "invitation_used k s"
  shows "invitation_used k s'"
  using assms(1)
proof cases
  case (create now owner input)
  have "invitations s' = invitations s"
    using create
    by (auto simp: createTenant_def createTenant_tx_def run_tx_def Let_def err_simps split: sum.splits prod.splits)
  with assms(2) show ?thesis by (simp add: invitation_used_def)
next
  case (invite now t inviter iinput)
  have "\<exists>ys. invitations s' = invitations s @ ys"
    using invite by (auto simp: inviteUser_def Let_def split: option.splits if_splits)
  with assms(2) show ?thesis using invitation_used_append by blast
next
  case (accept now token u)
  have "s' = fst (snd (acceptInvitation E B now token u s w))" using accept by (metis fst_conv)
  then show ?thesis
    using acceptInvitation_invitations [of E B now token u s w] assms(2) invitation_used_accept
    by (metis (no_types, lifting) invitation_used_def)
qed

lemma onboarding_steps_used:
  assumes "(onboarding_step E B)\<^sup>*\<^sup>* x y" and "invitation_used k (fst x)"
  shows "invitation_used k (fst y)"
  using assms
  by (induction rule: rtranclp_induct) (auto dest: onboarding_step_used)

section \<open>Properties\<close>

text \<open>No row mentions the tenant \<open>t\<close> yet.\<close>

definition tenant_fresh :: "string \<Rightarrow> db \<Rightarrow> bool" where
  "tenant_fresh t s \<longleftrightarrow> (\<forall>x\<in>set (subscriptions s). sub_tenantId x \<noteq> t) \<and>
     (\<forall>b\<in>set (branches s). br_tenantId b \<noteq> t) \<and> (\<forall>m\<in>set (memberships s). mem_tenantId m \<noteq> t)"

lemma fresh_counts:
  assumes fresh: "tenant_fresh t s" and s': "branches s' = branches s @ [b]" "memberships s' = memberships s @ [m]"
    and new: "br_tenantId b = t" "br_isActive b" "mem_tenantId m = t" "mem_status m = MemACTIVE" "mem_isBillableUser m"
  shows "countBillableUnits t s' = (1, 1)"
proof -
  have "count_where (\<lambda>b. br_tenantId b = t \<and> br_isActive b) (branches s) = 0"
    "count_where (\<lambda>m. mem_tenantId m = t \<and> mem_status m = MemACTIVE \<and> mem_isBillableUser m) (memberships s) = 0"
    using fresh by (auto simp: tenant_fresh_def count_where_def filter_empty_conv)
  with s' new show ?thesis by (simp add: countBillableUnits_def active_branches_def billable_users_def)
qed

lemma find_last: "List.find P xs = None \<Longrightarrow> P x \<Longrightarrow> List.find P (xs @ [x]) = Some x"
  by simp

text \<open>C28: onboarding is complete in one transaction. A signed-in user without a membership always
  gets a tenant once the system roles are seeded, and right after it the same session passes the
  guards of every route of the new tenant, whatever permissions it requires, and the tenant has one
  active branch, one billable user and the base price to pay.\<close>
theorem onboarded_owner_operates:
  assumes seeded: "role_seeded s OWNER" and ids: "distinct (map rol_id (roles s))"
    and catalog: "distinct (map pri_id (pricingCatalogItems s))"
    and alone: "\<forall>m\<in>set (memberships s). mem_userId m \<noteq> usr_id owner"
    and fresh: "tenant_fresh (uuid E (seq s)) s" "uuid E (seq s) \<noteq> []"
    and signed: "session_guard sha now' False req s anonymous = Inr ctx0" "ctx_user ctx0 = Some owner"
    and header: "rq_tenantId req = Some (uuid E (seq s))"
  shows "\<exists>t b s'. createTenant E now owner input s = (Inr (t, b), s') \<and> ten_id t = uuid E (seq s) \<and>
     br_tenantId b = ten_id t \<and>
     (\<forall>required. \<exists>ctx. authorize_tenant sha now' False required req s' = Inr ctx) \<and>
     countBillableUnits (ten_id t) s' = (1, 1) \<and>
     (\<exists>r s''. recompute_tx E (ten_id t) s' = (Inr r, s'') \<and>
        bres_totalUsdCents r = rc_basePriceUsdCents (catalog_resolve s))"
proof -
  obtain r where r: "List.find (is_system_role OWNER) (roles s) = Some r"
    "permission_key ` set (default_role_permissions OWNER) \<subseteq> granted_keys r"
    using seeded by (auto simp: role_seeded_def)
  obtain t b s' where run: "createTenant E now owner input s = (Inr (t, b), s')"
    using createTenant_commits [OF alone r(1)] by blast
  note made = createTenant_Inr [OF run]
  let ?m = "active_member E (seq s + 4) (ten_id t) (usr_id owner) (rol_id r)"
  let ?sub = "trial_subscription E (seq s + 5) now (ten_id t)"
  have mem: "memberships s' = memberships s @ [?m]" using made r(1) by auto
  have b: "br_tenantId b = ten_id t" "br_isActive b" using made by (simp_all add: first_branch_def)
  have tid: "ten_id t = uuid E (seq s)" using made by simp
  have nofind: "List.find (\<lambda>m. mem_tenantId m = uuid E (seq s) \<and> mem_userId m = usr_id owner) (memberships s) = None"
    using alone by (auto simp: find_None_iff)
  have role: "List.find (\<lambda>q. rol_id q = rol_id r) (roles s') = Some r"
    using find_unique_key [OF ids] r(1) made by (auto dest: find_SomeD)
  have am: "getActiveMembership (usr_id owner) (uuid E (seq s)) s' = Some \<lparr>am_membershipId = mem_id ?m,
      am_tenantId = ten_id t, am_userId = usr_id owner, am_roleId = rol_id r, am_roleKey = rol_key r,
      am_branchScope = [], am_permissions = granted_keys r\<rparr>"
    using role by (simp add: getActiveMembership_def mem nofind active_member_def tid)
  have guard: "session_guard sha now' False req s' anonymous = Inr ctx0"
  proof -
    have fr: "users s' = users s" "sessions s' = sessions s" using made by simp_all
    show ?thesis using signed(1) unfolding session_guard_def fr .
  qed
  have all: "permission_key p \<in> granted_keys r" for p
    using r(2) by (auto simp: all_permissions)
  obtain c cs where tok: "uuid E (seq s) = c # cs" using fresh(2) by (cases "uuid E (seq s)") auto
  have admits: "\<exists>ctx. authorize_tenant sha now' False required req s' = Inr ctx" for required
    using am all
    by (simp add: authorize_tenant_def guard tenant_guard_def header signed(2) tok rbac_guard_def hasPermission_def)
  have counts: "countBillableUnits (ten_id t) s' = (1, 1)"
    using fresh(1) made b by (intro fresh_counts [OF _ _ mem]) (simp_all add: active_member_def)
  have sub: "List.find (\<lambda>x. sub_tenantId x = ten_id t) (subscriptions s') = Some ?sub"
  proof -
    have "List.find (\<lambda>x. sub_tenantId x = ten_id t) (subscriptions s) = None"
      using fresh(1) tid by (auto simp: tenant_fresh_def find_None_iff)
    moreover have "subscriptions s' = subscriptions s @ [?sub]" using made by simp
    ultimately show ?thesis by (simp add: trial_subscription_def)
  qed
  have cat: "catalog_resolve s' = catalog_resolve s" "distinct (map pri_id (pricingCatalogItems s'))"
    using made catalog by (auto intro: catalog_resolve_frame)
  have "\<exists>v s''. recompute_tx E (ten_id t) s' = (Inr v, s'') \<and>
      bres_totalUsdCents v = rc_basePriceUsdCents (catalog_resolve s)"
    using recompute_write_spec [OF sub cat(2), of 1 1 E "catalog_resolve s'"]
    by (auto simp: recompute_tx_unfold counts cat(1) err_simps)
  with run tid b admits counts show ?thesis by blast
qed

definition demo_owner_db :: db where
  "demo_owner_db = (seed_main exact_env empty_db)\<lparr>users := [demo_user ''u1'' False],
     sessions := [demo_session ''u1'' ''tok1'']\<rparr>"

definition demo_tenant_input :: create_tenant_input where
  "demo_tenant_input = \<lparr>cti_legalName = ''Acme Ltd'', cti_displayName = ''Acme'', cti_category = None,
     cti_country = ''US'', cti_locale = ''en-US'', cti_timezone = ''UTC'', cti_baseCurrency = ''USD'',
     cti_firstBranchName = ''Main'', cti_firstBranchAddress = None\<rparr>"

lemma demo_owner_spec:
  "sessions demo_owner_db = [demo_session ''u1'' ''tok1'']" "users demo_owner_db = [demo_user ''u1'' False]"
  "memberships demo_owner_db = []" "subscriptions demo_owner_db = []" "branches demo_owner_db = []"
  "role_seeded demo_owner_db OWNER" "distinct (map rol_id (roles demo_owner_db))"
  "distinct (map pri_id (pricingCatalogItems demo_owner_db))"
proof -
  have item: "memberships (seed_item E i s) = memberships s \<and> subscriptions (seed_item E i s) = subscriptions s \<and>
      branches (seed_item E i s) = branches s" for E i s
    by (auto simp: seed_item_def split: prod.split)
  have role: "memberships (seed_role E k s) = memberships s \<and> subscriptions (seed_role E k s) = subscriptions s \<and>
      branches (seed_role E k s) = branches s \<and> pricingCatalogItems (seed_role E k s) = pricingCatalogItems s" for E k s
    by (auto simp: seed_role_def split: option.split)
  show "sessions demo_owner_db = [demo_session ''u1'' ''tok1'']" "users demo_owner_db = [demo_user ''u1'' False]"
    "memberships demo_owner_db = []" "subscriptions demo_owner_db = []" "branches demo_owner_db = []"
    by (simp_all add: demo_owner_db_def seed_main_def seedSystemRoles_def seedPricingCatalog_def item role empty_db_def)
  have e: "roles_ok exact_env empty_db" by (simp add: roles_ok_def empty_db_def)
  then have c: "roles_ok exact_env (seedPricingCatalog exact_env empty_db)"
    using seedPricingCatalog_seq [of empty_db exact_env] by (auto simp: roles_ok_def)
  have step: "roles_ok exact_env (fold (seed_role exact_env) ks s)" if "roles_ok exact_env s" for ks s
    using that by (induction ks arbitrary: s) (simp_all add: seed_role_step(1))
  show "role_seeded demo_owner_db OWNER"
    using seedSystemRoles_seeds [OF c, of OWNER] by (simp add: role_seeded_def demo_owner_db_def seed_main_def)
  show "distinct (map rol_id (roles demo_owner_db))"
    using step [OF c] by (simp add: roles_ok_def demo_owner_db_def seed_main_def seedSystemRoles_def del: fold.simps)
  have "pricingCatalogItems demo_owner_db = pricingCatalogItems (seedPricingCatalog exact_env empty_db)"
    by (simp add: demo_owner_db_def seed_main_def seedSystemRoles_def role)
  then show "distinct (map pri_id (pricingCatalogItems demo_owner_db))"
    by (simp add: seedPricingCatalog_def seed_item_def empty_db_def exact_env_def sample_env_def)
qed

theorem onboarded_owner_operates_witness:
  "\<exists>t b s'. createTenant exact_env 0 (demo_user ''u1'' False) demo_tenant_input demo_owner_db = (Inr (t, b), s') \<and>
     (\<exists>ctx. authorize_tenant id 50 False [BILLING_MANAGE, SALES_CREATE]
        (demo_request ''tok1'' (uuid exact_env (seq demo_owner_db))) s' = Inr ctx) \<and>
     countBillableUnits (ten_id t) s' = (1, 1)"
proof -
  let ?req = "demo_request ''tok1'' (uuid exact_env (seq demo_owner_db))"
  have tok: "rawToken ?req = Some ''tok1''" "rq_tenantId ?req = Some (uuid exact_env (seq demo_owner_db))"
    by (simp_all add: demo_request_def rawToken_def extractBearerToken_def startsWith_def)
  have fresh: "tenant_fresh (uuid exact_env (seq demo_owner_db)) demo_owner_db"
    by (simp add: tenant_fresh_def demo_owner_spec)
  have id: "uuid exact_env (seq demo_owner_db) \<noteq> []"
    by (simp add: exact_env_def sample_env_def nat_str.simps)
  have alone: "\<forall>m\<in>set (memberships demo_owner_db). mem_userId m \<noteq> usr_id (demo_user ''u1'' False)"
    by (simp add: demo_owner_spec)
  have signed: "\<exists>ctx. session_guard id 50 False ?req demo_owner_db anonymous = Inr ctx \<and>
      ctx_user ctx = Some (demo_user ''u1'' False)"
    by (simp add: session_guard_def tok demo_owner_spec demo_session_def demo_user_def)
  then obtain ctx where "session_guard id 50 False ?req demo_owner_db anonymous = Inr ctx"
      "ctx_user ctx = Some (demo_user ''u1'' False)" by blast
  from onboarded_owner_operates [OF demo_owner_spec(6-8) alone fresh id this tok(2), of 0 demo_tenant_input]
  show ?thesis by blast
qed

text \<open>C35: an invitation admits one user once and is billed. When it is accepted, a user who was not a
  member becomes an active one, the extra-user row of the tenant's subscription is set to the number
  of billable users it had before, and whatever onboarding does afterwards, whoever presents the
  token again is refused and nothing changes.\<close>
theorem invitation_single_use:
  assumes sub: "List.find (\<lambda>x. sub_tenantId x = t) (subscriptions s) = Some sub"
    and catalog: "distinct (map pri_id (pricingCatalogItems s))"
    and run: "acceptInvitation E B now token u s w = (Inr t, s1, w1)"
    and steps: "(onboarding_step E B)\<^sup>*\<^sup>* (s1, w1) (s2, w2)"
  shows "(\<exists>m. memberships s1 = memberships s @ [m] \<and> mem_tenantId m = t \<and> mem_userId m = usr_id u \<and>
       mem_status m = MemACTIVE) \<and>
     (\<forall>p. row_of_key ''extra_user'' s = Some p \<longrightarrow>
       quantity_of (sub_id sub) (pri_id p) s1 = Some (int (billable_users t s))) \<and>
     acceptInvitation E B now' token u' s2 w2 = (Inl (BadRequest ''This invitation is invalid or has expired''), s2, w2)"
proof -
  from run obtain i s0 v where i: "List.find (\<lambda>x. ivt_token x = token) (invitations s) = Some i" "t = ivt_tenantId i"
    and tx: "accept_tx E now u i s = Inr ((), s0)"
    and rec: "recomputeSubscriptionItems E B t s0 w = (Inr v, s1, w1)"
    by (rule acceptInvitation_Inr)
  note wrote = accept_tx_Inr [OF tx]
  let ?m = "active_member E (seq s) t (usr_id u) (ivt_roleId i)"
  have m: "memberships s0 = memberships s @ [?m]" using wrote i(2) by simp
  have sub0: "List.find (\<lambda>x. sub_tenantId x = t) (subscriptions s0) = Some sub"
    and cat0: "distinct (map pri_id (pricingCatalogItems s0))" using sub catalog wrote by simp_all
  obtain b where c: "countBillableUnits t s0 = (b, int (billable_users t s) + 1)" "1 \<le> b"
    by (auto simp: countBillableUnits_def billable_users_def m active_member_def)
  obtain r where r: "recompute_tx E t s0 = (Inr r, s1)"
    using rec by (auto simp: recomputeSubscriptionItems_def split: sum.splits prod.splits)
  obtain r' s1' where w: "recompute_write E (catalog_resolve s0) t (b, int (billable_users t s) + 1) s0 = Inr (r', s1')"
    "\<forall>p. row_of_key ''extra_user'' s0 = Some p \<longrightarrow>
       quantity_of (sub_id sub) (pri_id p) s1' = Some (int (billable_users t s) + 1 - 1)"
    "memberships s1' = memberships s0"
    using recompute_write_spec [OF sub0 cat0 c(2), of "int (billable_users t s) + 1" E "catalog_resolve s0"] by auto
  have eq: "s1' = s1" using r w(1) c(1) by (simp add: recompute_tx_unfold run_tx_def)
  have row: "row_of_key ''extra_user'' s0 = row_of_key ''extra_user'' s"
    using wrote by (intro row_of_key_frame) simp
  have used: "invitation_used token s1"
  proof -
    have "List.find (\<lambda>x. ivt_token x = token) (invitations s0) = Some (i\<lparr>ivt_acceptedAt := Some now\<rparr>)"
      using i(1) wrote by (simp add: find_update_where_same)
    moreover have "invitations s1 = invitations s0"
      using recompute_invitations [of E B t s0 w] rec by simp
    ultimately show ?thesis by (simp add: invitation_used_def)
  qed
  then have "invitation_used token s2" using onboarding_steps_used [OF steps] by simp
  then have "acceptInvitation E B now' token u' s2 w2
      = (Inl (BadRequest ''This invitation is invalid or has expired''), s2, w2)"
    by (auto simp: invitation_used_def acceptInvitation_def)
  moreover have "\<exists>m. memberships s1 = memberships s @ [m] \<and> mem_tenantId m = t \<and> mem_userId m = usr_id u \<and>
       mem_status m = MemACTIVE"
    using w(3) m unfolding eq by (simp add: active_member_def)
  ultimately show ?thesis using w(2) unfolding eq row by simp
qed

definition demo_invited_db :: db where
  "demo_invited_db = demo_billing_db\<lparr>invitations := [\<lparr>ivt_id = ''i1'', ivt_tenantId = ''t1'',
     ivt_email = ''u9@acme.test'', ivt_roleId = ''r1'', ivt_token = ''tok'', ivt_invitedByUserId = ''u1'',
     ivt_expiresAt = 100, ivt_acceptedAt = None, ivt_revokedAt = None\<rparr>]\<rparr>"

theorem invitation_single_use_witness:
  "\<exists>s1 w1. acceptInvitation exact_env NullBillingProvider 5 ''tok'' (demo_user ''u9'' False) demo_invited_db () =
       (Inr ''t1'', s1, w1) \<and>
     acceptInvitation exact_env NullBillingProvider 6 ''tok'' (demo_user ''u9'' False) s1 w1 =
       (Inl (BadRequest ''This invitation is invalid or has expired''), s1, w1)"
proof -
  let ?sub = "hd (subscriptions demo_billing_db)"
  have db: "subscriptions demo_invited_db = subscriptions demo_billing_db"
    "pricingCatalogItems demo_invited_db = pricingCatalogItems demo_billing_db" "memberships demo_invited_db = []"
    "branches demo_invited_db = branches demo_billing_db"
    by (simp_all add: demo_invited_db_def demo_billing_db_def empty_db_def)
  have demo_none: "memberships demo_billing_db = []" by (simp add: demo_billing_db_def empty_db_def)
  have s: "List.find (\<lambda>x. sub_tenantId x = ''t1'') (subscriptions demo_invited_db) = Some ?sub"
    and d: "distinct (map pri_id (pricingCatalogItems demo_invited_db))"
    by (simp_all add: db demo_billing_db_def)
  let ?i = "hd (invitations demo_invited_db)"
  obtain s0 where tx: "accept_tx exact_env 5 (demo_user ''u9'' False) ?i demo_invited_db = Inr ((), s0)"
    by (simp add: accept_tx_def demo_none Let_def demo_invited_db_def)
  have s0: "List.find (\<lambda>x. sub_tenantId x = ''t1'') (subscriptions s0) = Some ?sub"
    "distinct (map pri_id (pricingCatalogItems s0))"
    using accept_tx_Inr [OF tx] s d by simp_all
  obtain r s1 where "recompute_tx exact_env ''t1'' s0 = (Inr r, s1)"
    using recompute_tx_commits [OF s0] by blast
  then have run: "\<exists>s1 w1. acceptInvitation exact_env NullBillingProvider 5 ''tok'' (demo_user ''u9'' False) demo_invited_db () =
      (Inr ''t1'', s1, w1)"
    using tx
    by (simp add: acceptInvitation_def run_tx_def recomputeSubscriptionItems_def push_quantities_def
        NullBillingProvider_def demo_invited_db_def demo_user_def split: prod.split)
  then obtain s1 w1 where "acceptInvitation exact_env NullBillingProvider 5 ''tok'' (demo_user ''u9'' False)
      demo_invited_db () = (Inr ''t1'', s1, w1)" by blast
  with invitation_single_use [OF s d this rtranclp.rtrancl_refl] show ?thesis by blast
qed

end
