(* ===== verification/Encodings.thy ===== *)
theory Encodings
  imports Prelude
begin

text \<open>
  Text encodings of the standard library the services use, on strings as lists of bytes: the
  hexadecimal digits of a buffer, base64 as \<open>Buffer.toString('base64')\<close> writes it and
  \<open>Buffer.from(s, 'base64')\<close> reads it, \<open>encodeURIComponent\<close> and the form encoding of
  \<open>URLSearchParams\<close>.
\<close>

section \<open>Base64\<close>

definition b64_char :: "nat \<Rightarrow> char" where
  "b64_char n = (if n < 26 then char_of (65 + n) else if n < 52 then char_of (71 + n)
     else if n < 62 then char_of (n - 4) else if n = 62 then CHR ''+'' else CHR ''/'')"

text \<open>The reader also takes the two characters of the URL alphabet, and skips every other one.\<close>

definition b64_value :: "char \<Rightarrow> nat option" where
  "b64_value c = (let k = of_char c :: nat in
     if 65 \<le> k \<and> k \<le> 90 then Some (k - 65) else if 97 \<le> k \<and> k \<le> 122 then Some (k - 71)
     else if 48 \<le> k \<and> k \<le> 57 then Some (k + 4)
     else if c = CHR ''+'' \<or> c = CHR ''-'' then Some 62
     else if c = CHR ''/'' \<or> c = CHR ''_'' then Some 63 else None)"

fun base64_bytes :: "nat list \<Rightarrow> string" where
  "base64_bytes [] = []"
| "base64_bytes [a] = [b64_char (a div 4), b64_char (a mod 4 * 16)] @ ''==''"
| "base64_bytes [a, b] = [b64_char (a div 4), b64_char (a mod 4 * 16 + b div 16), b64_char (b mod 16 * 4)] @ ''=''"
| "base64_bytes (a # b # c # bs) =
     [b64_char (a div 4), b64_char (a mod 4 * 16 + b div 16), b64_char (b mod 16 * 4 + c div 64), b64_char (c mod 64)]
       @ base64_bytes bs"

fun unbase64_values :: "nat list \<Rightarrow> nat list" where
  "unbase64_values (p # q # r # s # vs) =
     [p * 4 + q div 16, q mod 16 * 16 + r div 4, r mod 4 * 64 + s] @ unbase64_values vs"
| "unbase64_values [p, q, r] = [p * 4 + q div 16, q mod 16 * 16 + r div 4]"
| "unbase64_values [p, q] = [p * 4 + q div 16]"
| "unbase64_values _ = []"

fun b64_values :: "string \<Rightarrow> nat list" where
  "b64_values [] = []"
| "b64_values (c # cs) = (case b64_value c of None \<Rightarrow> b64_values cs | Some v \<Rightarrow> v # b64_values cs)"

definition base64 :: "string \<Rightarrow> string" where
  "base64 s = base64_bytes (map of_char s)"

definition unbase64 :: "string \<Rightarrow> string" where
  "unbase64 s = map char_of (unbase64_values (b64_values s))"

lemma b64_value_char [simp]: "n < 64 \<Longrightarrow> b64_value (b64_char n) = Some n"
  by (auto simp: b64_char_def b64_value_def Let_def)

lemma b64_value_pad [simp]: "b64_value (CHR ''='') = None"
  by (simp add: b64_value_def)

lemma byte_bounds:
  "a < 256 \<Longrightarrow> a div 4 < (64 :: nat)"
  "b < 256 \<Longrightarrow> a mod 4 * 16 + b div 16 < (64 :: nat)"
  "c < 256 \<Longrightarrow> b mod 16 * 4 + c div 64 < (64 :: nat)"
  "c mod 64 < (64 :: nat)" "a mod 4 * 16 < (64 :: nat)" "b mod 16 * 4 < (64 :: nat)"
proof -
  have m: "a mod 4 < 4" "b mod 16 < 16" by simp_all
  then show "a mod 4 * 16 < 64" "b mod 16 * 4 < 64" by linarith+
  show "c mod 64 < 64" by simp
  show "a div 4 < 64" if "a < 256" using that by simp
  show "a mod 4 * 16 + b div 16 < 64" if "b < 256"
  proof -
    have "b div 16 < 16" using that by simp
    with m show ?thesis by linarith
  qed
  show "b mod 16 * 4 + c div 64 < 64" if "c < 256"
  proof -
    have "c div 64 < 4" using that by simp
    with m show ?thesis by linarith
  qed
qed

lemma byte_digits:
  assumes "b < (256 :: nat)"
  shows "b div 16 < 16" "b div 64 < 4" "b div 16 div 16 = 0" "b div 16 mod 16 = b div 16"
    "b div 64 div 4 = 0" "b div 64 mod 4 = b div 64"
proof -
  show 1: "b div 16 < 16" "b div 64 < 4" using assms by simp_all
  show "b div 16 div 16 = 0" "b div 16 mod 16 = b div 16" "b div 64 div 4 = 0" "b div 64 mod 4 = b div 64"
    using 1 by simp_all
qed

lemma unbase64_bytes:
  "\<forall>b\<in>set bs. b < 256 \<Longrightarrow> unbase64_values (b64_values (base64_bytes bs)) = bs"
  by (induction bs rule: base64_bytes.induct)
    (simp_all add: byte_bounds byte_digits)

text \<open>Reading back what was written gives the bytes.\<close>

lemma unbase64_base64 [simp]: "unbase64 (base64 s) = s"
proof -
  have "\<forall>b\<in>set (map of_char s). b < (256 :: nat)" by simp
  then show ?thesis by (simp add: unbase64_def base64_def unbase64_bytes)
qed

lemma base64_Nil_iff [simp]: "base64 s = [] \<longleftrightarrow> s = []"
  by (metis base64_bytes.simps(1) base64_def list.map_disc_iff list.simps(8) unbase64_base64)

lemma b64_char_not_dot: "n < 64 \<Longrightarrow> b64_char n \<noteq> CHR ''.''"
proof
  assume "n < 64" "b64_char n = CHR ''.''"
  then have "b64_value (CHR ''.'') = Some n" using b64_value_char by metis
  then show False by (simp add: b64_value_def)
qed

lemma base64_no_dot: "CHR ''.'' \<notin> set (base64 s)"
proof -
  have "CHR ''.'' \<notin> set (base64_bytes bs)" if "\<forall>b\<in>set bs. b < 256" for bs
    using that
    by (induction bs rule: base64_bytes.induct) (auto simp: byte_bounds dest: sym [THEN b64_char_not_dot [THEN notE, rotated]])
  then show ?thesis by (simp add: base64_def)
qed

section \<open>Hexadecimal\<close>

definition hex_digit :: "nat \<Rightarrow> char" where
  "hex_digit n = (if n < 10 then char_of (48 + n) else char_of (87 + n))"

definition hex :: "string \<Rightarrow> string" where
  "hex s = concat (map (\<lambda>c. let n = of_char c :: nat in [hex_digit (n div 16), hex_digit (n mod 16)]) s)"

lemma hex_Nil_iff [simp]: "hex s = [] \<longleftrightarrow> s = []"
  by (cases s) (simp_all add: hex_def Let_def)

lemma hex_no_comma: "CHR '','' \<notin> set (hex s)"
proof -
  have d: "hex_digit n \<noteq> CHR '',''" if "n < 16" for n
  proof -
    have "(of_char (hex_digit n) :: nat) \<noteq> of_char (CHR '','')" using that by (simp add: hex_digit_def)
    then show ?thesis by metis
  qed
  have "x \<in> hex_digit ` {..<16}" if "x \<in> set (hex s)" for x
  proof -
    from that obtain c where "x = hex_digit (of_char c div 16) \<or> x = hex_digit (of_char c mod 16)"
      by (auto simp: hex_def Let_def)
    moreover have "(of_char c :: nat) div 16 < 16" by (rule byte_digits(1)) simp
    ultimately show ?thesis by auto
  qed
  then show ?thesis using d by fastforce
qed

section \<open>URL encodings\<close>

definition upper_hex :: "nat \<Rightarrow> char" where
  "upper_hex n = (if n < 10 then char_of (48 + n) else char_of (55 + n))"

definition percent :: "char \<Rightarrow> string" where
  "percent c = (let n = of_char c :: nat in [CHR ''%'', upper_hex (n div 16), upper_hex (n mod 16)])"

definition alphanumeric :: "char \<Rightarrow> bool" where
  "alphanumeric c = (let k = of_char c :: nat in
     (65 \<le> k \<and> k \<le> 90) \<or> (97 \<le> k \<and> k \<le> 122) \<or> (48 \<le> k \<and> k \<le> 57))"

definition uri_char :: "char \<Rightarrow> string" where
  "uri_char c = (if alphanumeric c \<or> c \<in> set ''-_.!~*()'' \<or> c = CHR 0x27 then [c] else percent c)"

definition encodeURIComponent :: "string \<Rightarrow> string" where
  "encodeURIComponent s = concat (map uri_char s)"

definition form_char :: "char \<Rightarrow> string" where
  "form_char c = (if alphanumeric c \<or> c \<in> set ''*-._'' then [c] else if c = CHR '' '' then ''+'' else percent c)"

definition URLSearchParams :: "(string \<times> string) list \<Rightarrow> string" where
  "URLSearchParams kvs = join ''&'' (map (\<lambda>(k, v). concat (map form_char k) @ ''='' @ concat (map form_char v)) kvs)"

section \<open>The URL alphabet of base64\<close>

text \<open>The replacement of \<open>+\<close> and \<open>/\<close> and the removal of the padding.\<close>

definition base64url :: "string \<Rightarrow> string" where
  "base64url s = map (\<lambda>c. if c = CHR ''+'' then CHR ''-'' else if c = CHR ''/'' then CHR ''_'' else c)
     (rev (dropWhile (\<lambda>c. c = CHR ''='') (rev (base64 s))))"

end
