(* ===== verification/Js_Values.thy ===== *)
theory Js_Values
  imports Encodings
begin

text \<open>
  Values of the source language: JSON fields, truth values, the conversions \<open>String(v)\<close> and
  \<open>Number(v)\<close>, and string operations. Numbers are finite rationals; \<open>None\<close> stands for
  \<open>undefined\<close>, and for a conversion whose result is no finite number.
\<close>

section \<open>JSON values and truth values\<close>

text \<open>The JSON reader and writer of the platform, as parameters of the code that uses them.\<close>

record json_lib =
  js_stringify :: "json \<Rightarrow> string"
  js_parse :: "string \<Rightarrow> json option"

definition js_field :: "string \<Rightarrow> json \<Rightarrow> json option" where
  "js_field k j = (case j of JObj kvs \<Rightarrow> map_of kvs k | _ \<Rightarrow> None)"

definition js_string_field :: "string \<Rightarrow> json \<Rightarrow> string option" where
  "js_string_field k j = (case js_field k j of Some (JStr s) \<Rightarrow> Some s | _ \<Rightarrow> None)"

text \<open>A string that is neither unset nor empty, the truth value of a string in the source.\<close>

definition truthy :: "string option \<Rightarrow> bool" where
  "truthy s = (case s of Some (c # cs) \<Rightarrow> True | _ \<Rightarrow> False)"

lemma truthy_Some [simp]: "truthy (Some s) \<longleftrightarrow> s \<noteq> []" "\<not> truthy None"
  by (auto simp: truthy_def split: list.split)

text \<open>The truth value of a JSON field; an absent one is undefined.\<close>

fun js_truthy :: "json option \<Rightarrow> bool" where
  "js_truthy None = False"
| "js_truthy (Some JNull) = False"
| "js_truthy (Some (JBool b)) = b"
| "js_truthy (Some (JNum x)) = (x \<noteq> 0)"
| "js_truthy (Some (JStr s)) = (s \<noteq> [])"
| "js_truthy (Some _) = True"

section \<open>Strings as the language sees them\<close>

text \<open>\<open>s.length\<close> of a string given by its UTF-8 bytes: the code units of UTF-16, one for every
  byte that starts a character and one more for a character of four bytes.\<close>

definition js_length :: "string \<Rightarrow> nat" where
  "js_length s = length (filter (\<lambda>c. \<not> (128 \<le> (of_char c :: nat) \<and> (of_char c :: nat) < 192)) s)
     + length (filter (\<lambda>c. 240 \<le> (of_char c :: nat)) s)"

text \<open>The white space of ASCII; the other code points \<open>trim\<close> removes are not represented.\<close>

definition is_space :: "char \<Rightarrow> bool" where
  "is_space c \<longleftrightarrow> (of_char c :: nat) \<in> {9, 10, 11, 12, 13, 32}"

definition js_trim :: "string \<Rightarrow> string" where
  "js_trim s = rev (dropWhile is_space (rev (dropWhile is_space s)))"

definition lower_char :: "char \<Rightarrow> char" where
  "lower_char c = (let n = of_char c :: nat in if 65 \<le> n \<and> n \<le> 90 then char_of (n + 32) else c)"

definition toLowerCase :: "string \<Rightarrow> string" where
  "toLowerCase s = map lower_char s"

definition is_digit :: "char \<Rightarrow> bool" where
  "is_digit c \<longleftrightarrow> 48 \<le> (of_char c :: nat) \<and> (of_char c :: nat) \<le> 57"

section \<open>Conversions\<close>

fun split_digits :: "string \<Rightarrow> string \<times> string" where
  "split_digits [] = ([], [])"
| "split_digits (c # cs) = (if is_digit c then (let (ds, r) = split_digits cs in (c # ds, r)) else ([], c # cs))"

text \<open>The decimal literals of the language: digits, a fraction and an exponent, each optional but
  not the digits and the fraction both. Hexadecimal, octal and binary literals are not
  represented.\<close>

definition unsigned_number :: "string \<Rightarrow> rat option" where
  "unsigned_number s =
     (let (whole, r1) = split_digits s;
          (frac, r2) = (case r1 of CHR ''.'' # r \<Rightarrow> split_digits r | _ \<Rightarrow> ([], r1));
          mantissa = of_nat (digits_value (whole @ frac)) / 10 ^ length frac
      in if whole = [] \<and> frac = [] then None
         else case r2 of
           [] \<Rightarrow> Some mantissa
         | c # r \<Rightarrow>
             if c = CHR ''e'' \<or> c = CHR ''E''
             then (let (negative, r3) = (case r of CHR ''-'' # x \<Rightarrow> (True, x) | CHR ''+'' # x \<Rightarrow> (False, x) | _ \<Rightarrow> (False, r));
                       (e, r4) = split_digits r3
                   in if e = [] \<or> r4 \<noteq> [] then None
                      else Some (if negative then mantissa / 10 ^ digits_value e else mantissa * 10 ^ digits_value e))
             else None)"

definition Number_of_string :: "string \<Rightarrow> rat option" where
  "Number_of_string s =
     (case js_trim s of
        [] \<Rightarrow> Some 0
      | c # cs \<Rightarrow>
          if c = CHR ''-'' then map_option uminus (unsigned_number cs)
          else if c = CHR ''+'' then unsigned_number cs
          else unsigned_number (c # cs))"

text \<open>A number is written as its digits when it is an integer, else as the JSON writer writes it.\<close>

definition number_text :: "json_lib \<Rightarrow> rat \<Rightarrow> string" where
  "number_text J x = (if of_int \<lfloor>x\<rfloor> = x then int_str \<lfloor>x\<rfloor> else js_stringify J (JNum x))"

fun js_String :: "json_lib \<Rightarrow> json \<Rightarrow> string" where
  "js_String J JNull = ''null''"
| "js_String J (JBool b) = (if b then ''true'' else ''false'')"
| "js_String J (JNum x) = number_text J x"
| "js_String J (JStr s) = s"
| "js_String J (JArr js) = join '','' (map (\<lambda>j. if j = JNull then [] else js_String J j) js)"
| "js_String J (JObj _) = ''[object Object]''"

fun js_Number :: "json_lib \<Rightarrow> json option \<Rightarrow> rat option" where
  "js_Number J None = None"
| "js_Number J (Some JNull) = Some 0"
| "js_Number J (Some (JBool b)) = Some (if b then 1 else 0)"
| "js_Number J (Some (JNum x)) = Some x"
| "js_Number J (Some (JStr s)) = Number_of_string s"
| "js_Number J (Some (JArr js)) = Number_of_string (js_String J (JArr js))"
| "js_Number J (Some (JObj _)) = None"

lemma split_digits_all: "\<forall>c\<in>set s. is_digit c \<Longrightarrow> split_digits s = (s, [])"
  by (induction s) auto

lemma nat_str_all_digits: "\<forall>c\<in>set (nat_str n). is_digit c"
  using nat_str_digits by (auto simp: is_digit_def)

lemma nat_str_not_Nil [simp]: "nat_str n \<noteq> []"
  by (subst nat_str.simps) simp

lemma js_trim_digits: "\<forall>c\<in>set s. is_digit c \<Longrightarrow> js_trim s = s"
proof -
  have d: "\<forall>c\<in>set t. is_digit c \<Longrightarrow> dropWhile is_space t = t" for t
    by (cases t) (auto simp: is_digit_def is_space_def)
  assume "\<forall>c\<in>set s. is_digit c"
  then show ?thesis by (simp add: js_trim_def d)
qed

text \<open>Reading back what was written.\<close>

lemma Number_of_nat_str [simp]: "Number_of_string (nat_str n) = Some (of_nat n)"
proof -
  obtain c cs where n: "nat_str n = c # cs" by (cases "nat_str n") auto
  then have "is_digit c" using nat_str_all_digits [of n] by simp
  then have "c \<noteq> CHR ''-'' \<and> c \<noteq> CHR ''+''" by (auto simp: is_digit_def)
  moreover have "unsigned_number (nat_str n) = Some (of_nat n)"
    using split_digits_all [OF nat_str_all_digits [of n]] by (simp add: unsigned_number_def Let_def)
  ultimately show ?thesis
    using js_trim_digits [OF nat_str_all_digits [of n]] n by (simp add: Number_of_string_def)
qed

end
