(* ===== verification/Notifications.thy ===== *)
theory Notifications
  imports Js_Values
begin

text \<open>
  \<open>packages/notifications/src\<close>: the email and SMS adapters and their selection from the
  environment. The network is the parameter \<open>fetch\<close>, a function of the request and the
  outside world \<open>'w\<close> which may throw; the log line of the console adapters is the
  \<open>logw\<close> parameter. The API wraps the same adapters.
\<close>

section \<open>HTTP\<close>

record http_request =
  hq_method :: string
  hq_url :: string
  hq_headers :: "(string \<times> string) list"
  hq_body :: "string option"

record http_response =
  hr_status :: nat
  hr_headers :: "(string \<times> string) list"
  hr_body :: string

definition hr_ok :: "http_response \<Rightarrow> bool" where
  "hr_ok r \<longleftrightarrow> 200 \<le> hr_status r \<and> hr_status r \<le> 299"

type_synonym 'w fetch = "http_request \<Rightarrow> 'w \<Rightarrow> (error + http_response) \<times> 'w"

section \<open>Email\<close>

record send_email_input =
  em_to :: string
  em_subject :: string
  em_text :: string
  em_html :: "string option"

record send_result =
  sn_delivered :: bool
  sn_provider :: string
  sn_providerMessageId :: "string option"

type_synonym 'w email_adapter = "send_email_input \<Rightarrow> 'w \<Rightarrow> (error + send_result) \<times> 'w"

definition ConsoleEmailAdapter :: "(string \<Rightarrow> 'w \<Rightarrow> 'w) \<Rightarrow> 'w email_adapter" where
  "ConsoleEmailAdapter logw input w =
     (Inr \<lparr>sn_delivered = False, sn_provider = ''console'', sn_providerMessageId = None\<rparr>,
      logw (''[console-email] to='' @ em_to input @ '' subject='' @ [CHR 0x22] @ em_subject input @ [CHR 0x22] @
        [CHR 0x0A] @ em_text input) w)"

definition resend_request :: "json_lib \<Rightarrow> string \<Rightarrow> string \<Rightarrow> send_email_input \<Rightarrow> http_request" where
  "resend_request J apiKey fromAddress input =
     \<lparr>hq_method = ''POST'', hq_url = ''https://api.resend.com/emails'',
      hq_headers = [(''Authorization'', ''Bearer '' @ apiKey), (''Content-Type'', ''application/json'')],
      hq_body = Some (js_stringify J (JObj ([(''from'', JStr fromAddress), (''to'', JArr [JStr (em_to input)]),
        (''subject'', JStr (em_subject input)), (''text'', JStr (em_text input))]
        @ (case em_html input of None \<Rightarrow> [] | Some h \<Rightarrow> [(''html'', JStr h)]))))\<rparr>"

definition ResendEmailAdapter :: "json_lib \<Rightarrow> 'w fetch \<Rightarrow> string \<Rightarrow> string \<Rightarrow> 'w email_adapter" where
  "ResendEmailAdapter J fetch apiKey fromAddress input w =
     (case fetch (resend_request J apiKey fromAddress input) w of
        (Inl e, w1) \<Rightarrow> (Inl e, w1)
      | (Inr res, w1) \<Rightarrow>
          if \<not> hr_ok res
          then (Inl (ServerError (''Resend send failed: HTTP '' @ nat_str (hr_status res) @ '' '' @ hr_body res)), w1)
          else case js_parse J (hr_body res) of
                 None \<Rightarrow> (Inl (ServerError ''Unexpected token in JSON''), w1)
               | Some data \<Rightarrow>
                   (Inr \<lparr>sn_delivered = True, sn_provider = ''resend'', sn_providerMessageId = js_string_field ''id'' data\<rparr>, w1))"

section \<open>SMS\<close>

record send_sms_input =
  sms_to :: string
  sms_body :: string

type_synonym 'w sms_adapter = "send_sms_input \<Rightarrow> 'w \<Rightarrow> (error + send_result) \<times> 'w"

definition ConsoleSmsAdapter :: "(string \<Rightarrow> 'w \<Rightarrow> 'w) \<Rightarrow> 'w sms_adapter" where
  "ConsoleSmsAdapter logw input w =
     (Inr \<lparr>sn_delivered = False, sn_provider = ''none'', sn_providerMessageId = None\<rparr>,
      logw (''[console-sms] to='' @ sms_to input @ [CHR 0x0A] @ sms_body input) w)"

definition twilio_request :: "string \<Rightarrow> string \<Rightarrow> string \<Rightarrow> send_sms_input \<Rightarrow> http_request" where
  "twilio_request accountSid authToken fromNumber input =
     \<lparr>hq_method = ''POST'',
      hq_url = ''https://api.twilio.com/2010-04-01/Accounts/'' @ accountSid @ ''/Messages.json'',
      hq_headers = [(''Authorization'', ''Basic '' @ base64 (accountSid @ '':'' @ authToken)),
        (''Content-Type'', ''application/x-www-form-urlencoded'')],
      hq_body = Some (URLSearchParams [(''To'', sms_to input), (''From'', fromNumber), (''Body'', sms_body input)])\<rparr>"

definition TwilioSmsAdapter :: "json_lib \<Rightarrow> 'w fetch \<Rightarrow> string \<Rightarrow> string \<Rightarrow> string \<Rightarrow> 'w sms_adapter" where
  "TwilioSmsAdapter J fetch accountSid authToken fromNumber input w =
     (case fetch (twilio_request accountSid authToken fromNumber input) w of
        (Inl e, w1) \<Rightarrow> (Inl e, w1)
      | (Inr res, w1) \<Rightarrow>
          if \<not> hr_ok res
          then (Inl (ServerError (''Twilio send failed: HTTP '' @ nat_str (hr_status res) @ '' '' @ hr_body res)), w1)
          else case js_parse J (hr_body res) of
                 None \<Rightarrow> (Inl (ServerError ''Unexpected token in JSON''), w1)
               | Some data \<Rightarrow>
                   (Inr \<lparr>sn_delivered = True, sn_provider = ''twilio'', sn_providerMessageId = js_string_field ''sid'' data\<rparr>, w1))"

section \<open>Selection (\<open>resolve.ts\<close>)\<close>

text \<open>The provider names the configuration admits, and its credentials; an unset one is \<open>None\<close>.\<close>

datatype email_provider = EmailConsole | EmailResend | EmailSendgrid
datatype sms_provider = SmsNone | SmsTwilio

record notify_env =
  ne_EMAIL_PROVIDER :: email_provider
  ne_RESEND_API_KEY :: "string option"
  ne_EMAIL_FROM_ADDRESS :: string
  ne_SMS_PROVIDER :: sms_provider
  ne_TWILIO_ACCOUNT_SID :: "string option"
  ne_TWILIO_AUTH_TOKEN :: "string option"
  ne_TWILIO_FROM_NUMBER :: "string option"

definition resolveEmailAdapter ::
  "json_lib \<Rightarrow> 'w fetch \<Rightarrow> (string \<Rightarrow> 'w \<Rightarrow> 'w) \<Rightarrow> notify_env \<Rightarrow> error + 'w email_adapter" where
  "resolveEmailAdapter J fetch logw e =
     (case ne_EMAIL_PROVIDER e of
        EmailConsole \<Rightarrow> Inr (ConsoleEmailAdapter logw)
      | EmailResend \<Rightarrow>
          if \<not> truthy (ne_RESEND_API_KEY e)
          then Inl (ServerError ''EMAIL_PROVIDER=resend requires RESEND_API_KEY to be set.'')
          else Inr (ResendEmailAdapter J fetch (the (ne_RESEND_API_KEY e)) (ne_EMAIL_FROM_ADDRESS e))
      | EmailSendgrid \<Rightarrow>
          Inl (ServerError (''EMAIL_PROVIDER=sendgrid has no adapter implementation yet '' @ em_dash @
            '' use \"resend\" or \"console\".'')))"

definition resolveSmsAdapter ::
  "json_lib \<Rightarrow> 'w fetch \<Rightarrow> (string \<Rightarrow> 'w \<Rightarrow> 'w) \<Rightarrow> notify_env \<Rightarrow> error + 'w sms_adapter" where
  "resolveSmsAdapter J fetch logw e =
     (case ne_SMS_PROVIDER e of
        SmsNone \<Rightarrow> Inr (ConsoleSmsAdapter logw)
      | SmsTwilio \<Rightarrow>
          if \<not> truthy (ne_TWILIO_ACCOUNT_SID e) \<or> \<not> truthy (ne_TWILIO_AUTH_TOKEN e) \<or> \<not> truthy (ne_TWILIO_FROM_NUMBER e)
          then Inl (ServerError ''SMS_PROVIDER=twilio requires TWILIO_ACCOUNT_SID, TWILIO_AUTH_TOKEN, and TWILIO_FROM_NUMBER to be set.'')
          else Inr (TwilioSmsAdapter J fetch (the (ne_TWILIO_ACCOUNT_SID e)) (the (ne_TWILIO_AUTH_TOKEN e))
            (the (ne_TWILIO_FROM_NUMBER e))))"

section \<open>A delivery is only claimed when the provider accepted it\<close>

lemma email_delivered:
  assumes "resolveEmailAdapter J fetch logw e = Inr send" and "send input w = (Inr r, w')" and "sn_delivered r"
  shows "\<exists>key res. ne_EMAIL_PROVIDER e = EmailResend \<and> ne_RESEND_API_KEY e = Some key \<and>
     fetch (resend_request J key (ne_EMAIL_FROM_ADDRESS e) input) w = (Inr res, w') \<and> hr_ok res"
  using assms
  by (auto simp: resolveEmailAdapter_def ConsoleEmailAdapter_def ResendEmailAdapter_def truthy_def
      split: email_provider.splits if_splits option.splits list.splits prod.splits sum.splits)

lemma sms_delivered:
  assumes "resolveSmsAdapter J fetch logw e = Inr send" and "send input w = (Inr r, w')" and "sn_delivered r"
  shows "\<exists>res. ne_SMS_PROVIDER e = SmsTwilio \<and>
     fetch (twilio_request (the (ne_TWILIO_ACCOUNT_SID e)) (the (ne_TWILIO_AUTH_TOKEN e))
       (the (ne_TWILIO_FROM_NUMBER e)) input) w = (Inr res, w') \<and> hr_ok res"
  using assms
  by (auto simp: resolveSmsAdapter_def ConsoleSmsAdapter_def TwilioSmsAdapter_def
      split: sms_provider.splits if_splits option.splits prod.splits sum.splits)

end
