(* ===== verification/Crypto.thy ===== *)
theory Crypto
  imports Notifications Schema
begin

text \<open>
  \<open>common/crypto/encryption.service.ts\<close>, \<open>auth/password.service.ts\<close>,
  \<open>auth/mfa.service.ts\<close>, \<open>auth/oauth-handshake.service.ts\<close> and the one-time tokens of
  \<open>auth/token.service.ts\<close>. The primitives of the crypto libraries are the fields of
  \<open>crypto\<close>; what the services rely on is \<open>crypto_laws\<close>. A random draw is indexed by a
  counter. Strings are their UTF-8 bytes.
\<close>

record crypto =
  cr_sha256 :: "string \<Rightarrow> string"
  cr_random :: "nat \<Rightarrow> nat \<Rightarrow> string"
  cr_gcm_encrypt :: "string \<Rightarrow> string \<Rightarrow> string \<Rightarrow> string \<times> string"
  cr_gcm_decrypt :: "string \<Rightarrow> string \<Rightarrow> string \<Rightarrow> string \<Rightarrow> string option"
  cr_argon2_hash :: "nat \<Rightarrow> string \<Rightarrow> string"
  cr_argon2_verify :: "string \<Rightarrow> string \<Rightarrow> bool option"
  cr_totp_secret :: "nat \<Rightarrow> string"
  cr_totp_check :: "int \<Rightarrow> string \<Rightarrow> string \<Rightarrow> bool"
  cr_keyuri :: "string \<Rightarrow> string \<Rightarrow> string \<Rightarrow> string"
  cr_jwt_sign :: "(string \<times> json) list \<Rightarrow> int \<Rightarrow> int \<Rightarrow> string"
  cr_jwt_verify :: "int \<Rightarrow> string \<Rightarrow> (string \<times> json) list option"

text \<open>
  Documented behaviour: random buffers have the length asked for; AES-GCM decrypts what it
  encrypted under the same key and nonce, its tag has 16 bytes and its ciphertext the length of the
  plaintext; argon2 verifies exactly the password hashed; a signed token verifies with its claims
  until it expires and not after.
\<close>

definition crypto_laws :: "crypto \<Rightarrow> bool" where
  "crypto_laws C \<longleftrightarrow>
     (\<forall>n i. length (cr_random C n i) = n) \<and>
     (\<forall>k iv p. cr_gcm_decrypt C k iv (fst (cr_gcm_encrypt C k iv p)) (snd (cr_gcm_encrypt C k iv p)) = Some p \<and>
        length (fst (cr_gcm_encrypt C k iv p)) = 16 \<and> length (snd (cr_gcm_encrypt C k iv p)) = length p) \<and>
     (\<forall>i p q. cr_argon2_verify C (cr_argon2_hash C i p) q = Some (q = p)) \<and>
     (\<forall>p iat exp now. iat \<le> now \<longrightarrow>
        (if now < exp
         then \<exists>c. cr_jwt_verify C now (cr_jwt_sign C p iat exp) = Some c \<and>
           (\<forall>k. k \<noteq> ''iat'' \<and> k \<noteq> ''exp'' \<longrightarrow> map_of c k = map_of p k)
         else cr_jwt_verify C now (cr_jwt_sign C p iat exp) = None))"

section \<open>Field encryption\<close>

definition sha256Hex :: "crypto \<Rightarrow> string \<Rightarrow> string" where
  "sha256Hex C s = hex (cr_sha256 C s)"

definition encryption_key :: "crypto \<Rightarrow> string option \<Rightarrow> error + string" where
  "encryption_key C configured =
     (if truthy configured then Inr (cr_sha256 C (the configured))
      else Inl (ServerError ''AUTH_ENCRYPTION_KEY must be set to encrypt provider secrets at rest.''))"

definition encrypt :: "crypto \<Rightarrow> string \<Rightarrow> nat \<Rightarrow> string \<Rightarrow> string" where
  "encrypt C key draw plaintext =
     (let iv = cr_random C 12 draw; (authTag, encrypted) = cr_gcm_encrypt C key iv plaintext
      in join ''.'' [base64 iv, base64 authTag, base64 encrypted])"

text \<open>The destructuring reads the first three parts; a missing part is undefined.\<close>

definition part :: "nat \<Rightarrow> string list \<Rightarrow> string option" where
  "part i xs = (if i < length xs then Some (xs ! i) else None)"

definition decrypt :: "crypto \<Rightarrow> string \<Rightarrow> string \<Rightarrow> error + string" where
  "decrypt C key payload =
     (let ps = split (CHR ''.'') payload; ivB64 = part 0 ps; authTagB64 = part 1 ps; dataB64 = part 2 ps
      in if \<not> truthy ivB64 \<or> \<not> truthy authTagB64 \<or> \<not> truthy dataB64
         then Inl (ServerError ''Malformed encrypted payload'')
         else someE (cr_gcm_decrypt C key (unbase64 (the ivB64)) (unbase64 (the authTagB64)) (unbase64 (the dataB64)))
                (ServerError ''Unsupported state or unable to authenticate data''))"

lemma join_split_three:
  "split (CHR ''.'') (join ''.'' [base64 a, base64 b, base64 c]) = [base64 a, base64 b, base64 c]"
  by (rule split_join) (simp_all add: base64_no_dot)

text \<open>Decryption inverts encryption, except that the empty text is written as a payload the reader
  takes for malformed.\<close>

lemma decrypt_encrypt:
  assumes "crypto_laws C"
  shows "decrypt C key (encrypt C key draw p) =
     (if p = [] then Inl (ServerError ''Malformed encrypted payload'') else Inr p)"
proof -
  obtain t d where e: "cr_gcm_encrypt C key (cr_random C 12 draw) p = (t, d)" by fastforce
  have l: "length t = 16" "length d = length p" "length (cr_random C 12 draw) = 12"
    "cr_gcm_decrypt C key (cr_random C 12 draw) t d = Some p"
    using assms e by (metis crypto_laws_def fst_conv snd_conv)+
  then have "t \<noteq> []" "cr_random C 12 draw \<noteq> []" "d = [] \<longleftrightarrow> p = []" by auto
  then show ?thesis
    using l(4)
    by (simp add: encrypt_def decrypt_def e join_split_three part_def Let_def del: join.simps)
qed

section \<open>Passwords\<close>

definition password_hash :: "crypto \<Rightarrow> nat \<Rightarrow> string \<Rightarrow> string" where
  "password_hash C salt plaintext = cr_argon2_hash C salt plaintext"

definition password_verify :: "crypto \<Rightarrow> string \<Rightarrow> string \<Rightarrow> bool" where
  "password_verify C h plaintext = (case cr_argon2_verify C h plaintext of Some b \<Rightarrow> b | None \<Rightarrow> False)"

lemma password_verify_hash: "crypto_laws C \<Longrightarrow> password_verify C (password_hash C i p) q \<longleftrightarrow> q = p"
  by (simp add: crypto_laws_def password_verify_def password_hash_def)

section \<open>Multi-factor authentication\<close>

record mfa_enrollment =
  enr_secret :: string
  enr_otpauthUrl :: string
  enr_recoveryCodes :: "string list"

definition generateEnrollment :: "crypto \<Rightarrow> nat \<Rightarrow> string \<Rightarrow> mfa_enrollment" where
  "generateEnrollment C draw accountLabel =
     (let secret = cr_totp_secret C draw
      in \<lparr>enr_secret = secret, enr_otpauthUrl = cr_keyuri C accountLabel ''SalesMaster Pro'' secret,
          enr_recoveryCodes = map (\<lambda>i. hex (cr_random C 5 (draw + 1 + i))) [0..<10]\<rparr>)"

definition verifyCode :: "crypto \<Rightarrow> int \<Rightarrow> string \<Rightarrow> string \<Rightarrow> bool" where
  "verifyCode C now secret code = cr_totp_check C now code secret"

definition hashRecoveryCodes :: "crypto \<Rightarrow> string list \<Rightarrow> string" where
  "hashRecoveryCodes C codes = join '','' (map (sha256Hex C) codes)"

definition verifyRecoveryCode :: "crypto \<Rightarrow> string \<Rightarrow> string \<Rightarrow> bool \<times> string" where
  "verifyRecoveryCode C hashedCodesCsv candidate =
     (let hashes = filter (\<lambda>h. h \<noteq> []) (split (CHR '','') hashedCodesCsv); candidateHash = sha256Hex C candidate
      in if candidateHash \<notin> set hashes then (False, hashedCodesCsv)
         else (True, join '','' (remove1 candidateHash hashes)))"

lemma hashes_of_csv:
  assumes "\<forall>h\<in>set hs. h \<noteq> [] \<and> CHR '','' \<notin> set h"
  shows "filter (\<lambda>h. h \<noteq> []) (split (CHR '','') (join '','' hs)) = hs"
proof (cases hs)
  case Nil
  then show ?thesis by (simp add: split_def)
next
  case (Cons h t)
  then have "split (CHR '','') (join '','' hs) = hs" using assms by (intro split_join) auto
  then show ?thesis using assms by (simp add: filter_id_conv)
qed

lemma verifyRecoveryCode_spec:
  assumes "\<forall>s. cr_sha256 C s \<noteq> []"
  shows "verifyRecoveryCode C (hashRecoveryCodes C codes) c =
     (if sha256Hex C c \<in> sha256Hex C ` set codes
      then (True, join '','' (remove1 (sha256Hex C c) (map (sha256Hex C) codes)))
      else (False, hashRecoveryCodes C codes))"
proof -
  have "filter (\<lambda>h. h \<noteq> []) (split (CHR '','') (hashRecoveryCodes C codes)) = map (sha256Hex C) codes"
    unfolding hashRecoveryCodes_def
    by (rule hashes_of_csv) (simp add: sha256Hex_def hex_no_comma assms)
  then show ?thesis by (simp add: verifyRecoveryCode_def Let_def)
qed

section \<open>The OAuth handshake\<close>

definition HANDSHAKE_TTL_MS :: int where
  "HANDSHAKE_TTL_MS = 10 * 60000"

record handshake =
  hs_state :: string
  hs_nonce :: string
  hs_codeVerifier :: string
  hs_createdAt :: int

definition handshake_json :: "handshake \<Rightarrow> json" where
  "handshake_json h = JObj [(''state'', JStr (hs_state h)), (''nonce'', JStr (hs_nonce h)),
     (''codeVerifier'', JStr (hs_codeVerifier h)), (''createdAt'', JNum (of_int (hs_createdAt h)))]"

definition handshake_create ::
  "crypto \<Rightarrow> json_lib \<Rightarrow> string \<Rightarrow> int \<Rightarrow> nat \<Rightarrow> handshake \<times> string \<times> string" where
  "handshake_create C J key now draw =
     (let h = \<lparr>hs_state = hex (cr_random C 24 draw), hs_nonce = hex (cr_random C 24 (draw + 1)),
            hs_codeVerifier = base64url (cr_random C 32 (draw + 2)), hs_createdAt = now\<rparr>;
          codeChallenge = base64url (cr_sha256 C (hs_codeVerifier h));
          cookieValue = encrypt C key (draw + 3) (js_stringify J (handshake_json h))
      in (h, cookieValue, codeChallenge))"

text \<open>The parsed cookie is used as it is: fields that are not there stay undefined.\<close>

record consumed_handshake =
  ch_nonce :: "json option"
  ch_codeVerifier :: "json option"

definition handshake_consume ::
  "crypto \<Rightarrow> json_lib \<Rightarrow> string \<Rightarrow> int \<Rightarrow> string option \<Rightarrow> string \<Rightarrow> error + consumed_handshake" where
  "handshake_consume C J key now cookieValue expectedState =
     (if \<not> truthy cookieValue then Inl (ServerError ''Missing OAuth handshake cookie'')
      else bindE (decrypt C key (the cookieValue))
       (\<lambda>text. bindE (someE (js_parse J text) (ServerError ''Unexpected token in JSON''))
       (\<lambda>h. if h = JNull then Inl (ServerError ''Cannot read properties of null'')
            else if (case js_field ''createdAt'' h of Some (JNum c) \<Rightarrow> of_int HANDSHAKE_TTL_MS < of_int now - c | _ \<Rightarrow> False)
            then Inl (ServerError ''OAuth handshake expired'')
            else if js_field ''state'' h \<noteq> Some (JStr expectedState)
            then Inl (ServerError (''OAuth state mismatch '' @ em_dash @ '' possible CSRF''))
            else Inr \<lparr>ch_nonce = js_field ''nonce'' h, ch_codeVerifier = js_field ''codeVerifier'' h\<rparr>)))"

lemma handshake_consume_created:
  assumes laws: "crypto_laws C" and json: "\<forall>j. js_parse J (js_stringify J j) = Some j" "\<forall>j. js_stringify J j \<noteq> []"
    and made: "handshake_create C J key now draw = (h, cookie, challenge)"
  shows "handshake_consume C J key later (Some cookie) st =
     (if HANDSHAKE_TTL_MS < later - now then Inl (ServerError ''OAuth handshake expired'')
      else if st \<noteq> hs_state h then Inl (ServerError (''OAuth state mismatch '' @ em_dash @ '' possible CSRF''))
      else Inr \<lparr>ch_nonce = Some (JStr (hs_nonce h)), ch_codeVerifier = Some (JStr (hs_codeVerifier h))\<rparr>)"
proof -
  have c: "cookie = encrypt C key (draw + 3) (js_stringify J (handshake_json h))" "hs_createdAt h = now"
    using made by (auto simp: handshake_create_def Let_def)
  have "(of_int HANDSHAKE_TTL_MS :: rat) < of_int later - of_int now \<longleftrightarrow> HANDSHAKE_TTL_MS < later - now"
    by (metis of_int_diff of_int_less_iff)
  moreover have "cookie \<noteq> []" by (simp add: c(1) encrypt_def Let_def split: prod.split)
  moreover have "decrypt C key cookie = Inr (js_stringify J (handshake_json h))"
    using decrypt_encrypt [OF laws, of key "draw + 3" "js_stringify J (handshake_json h)"] json(2) c(1) by simp
  ultimately show ?thesis
    using json(1) c(2) by (simp add: handshake_consume_def) (auto simp: handshake_json_def js_field_def)
qed

section \<open>One-time tokens\<close>

datatype token_purpose = Magic_link | Password_reset | Email_verification | Invitation_accept | Mfa_challenge

fun purpose_text :: "token_purpose \<Rightarrow> string" where
  "purpose_text Magic_link = ''magic_link''"
| "purpose_text Password_reset = ''password_reset''"
| "purpose_text Email_verification = ''email_verification''"
| "purpose_text Invitation_accept = ''invitation_accept''"
| "purpose_text Mfa_challenge = ''mfa_challenge''"

text \<open>The library counts in whole seconds.\<close>

definition signOneTimeToken ::
  "crypto \<Rightarrow> int \<Rightarrow> token_purpose \<Rightarrow> (string \<times> json) list \<Rightarrow> int \<Rightarrow> string" where
  "signOneTimeToken C now purpose payload ttlMinutes =
     cr_jwt_sign C ((''purpose'', JStr (purpose_text purpose)) # payload) (now div 1000)
       (now div 1000 + ttlMinutes * 60)"

definition verifyOneTimeToken ::
  "crypto \<Rightarrow> int \<Rightarrow> token_purpose \<Rightarrow> string \<Rightarrow> error + (string \<times> json) list" where
  "verifyOneTimeToken C now purpose token =
     (case cr_jwt_verify C (now div 1000) token of
        None \<Rightarrow> Inl (Unauthorized ''Invalid or expired token'')
      | Some payload \<Rightarrow>
          if map_of payload ''purpose'' \<noteq> Some (JStr (purpose_text purpose))
          then Inl (Unauthorized ''Invalid or expired token'')
          else Inr payload)"

lemma purpose_text_inj [simp]: "purpose_text p = purpose_text q \<longleftrightarrow> p = q"
  by (cases p; cases q) simp_all

text \<open>A token serves its own purpose only, within its lifetime.\<close>

lemma verify_signed:
  assumes "crypto_laws C" and "now div 1000 \<le> later div 1000"
  shows "(\<exists>c. verifyOneTimeToken C later q (signOneTimeToken C now p payload ttl) = Inr c \<and>
       (\<forall>k. k \<notin> {''iat'', ''exp'', ''purpose''} \<longrightarrow> map_of c k = map_of payload k)) \<longleftrightarrow>
     q = p \<and> later div 1000 < now div 1000 + ttl * 60"
proof -
  let ?claims = "(''purpose'', JStr (purpose_text p)) # payload"
  have law: "if later div 1000 < now div 1000 + ttl * 60
     then \<exists>c. cr_jwt_verify C (later div 1000) (cr_jwt_sign C ?claims (now div 1000) (now div 1000 + ttl * 60)) = Some c \<and>
       (\<forall>k. k \<noteq> ''iat'' \<and> k \<noteq> ''exp'' \<longrightarrow> map_of c k = map_of ?claims k)
     else cr_jwt_verify C (later div 1000) (cr_jwt_sign C ?claims (now div 1000) (now div 1000 + ttl * 60)) = None"
    using assms unfolding crypto_laws_def by blast
  show ?thesis
  proof (cases "later div 1000 < now div 1000 + ttl * 60")
    case True
    then obtain c where c: "cr_jwt_verify C (later div 1000) (signOneTimeToken C now p payload ttl) = Some c"
      "\<forall>k. k \<noteq> ''iat'' \<and> k \<noteq> ''exp'' \<longrightarrow> map_of c k = map_of ?claims k"
      using law by (auto simp: signOneTimeToken_def)
    then have "map_of c ''purpose'' = Some (JStr (purpose_text p))" by simp
    with c True show ?thesis by (auto simp: verifyOneTimeToken_def)
  next
    case False
    then show ?thesis using law by (simp add: verifyOneTimeToken_def signOneTimeToken_def)
  qed
qed

end
