(* ===== verification/Validation.thy ===== *)
theory Validation
  imports Js_Values
begin

text \<open>
  The schema combinators of the validation library as the contracts use them, and the pipe that
  applies a schema to a request body (\<open>common/pipes/zod-validation.pipe.ts\<close>). A schema maps a
  value (\<open>None\<close> is undefined) to the parsed value or to failure; the issue list of a failure is
  dropped, as the exception filter drops it. The format tests of the library (email, UUID, URL) and
  the platform's date parser are the fields of \<open>formats\<close>. Numbers are finite.
\<close>

section \<open>Schemas\<close>

record formats =
  fm_email :: "string \<Rightarrow> bool"
  fm_uuid :: "string \<Rightarrow> bool"
  fm_url :: "string \<Rightarrow> bool"
  fm_date :: "json \<Rightarrow> int option"

type_synonym 'a schema = "json option \<Rightarrow> 'a option"

fun z_string :: "string schema" where
  "z_string (Some (JStr s)) = Some s"
| "z_string _ = None"

fun z_number :: "rat schema" where
  "z_number (Some (JNum x)) = Some x"
| "z_number _ = None"

fun z_boolean :: "bool schema" where
  "z_boolean (Some (JBool b)) = Some b"
| "z_boolean _ = None"

definition z_check :: "('a \<Rightarrow> bool) \<Rightarrow> 'a schema \<Rightarrow> 'a schema" where
  "z_check P p v = Option.bind (p v) (\<lambda>x. if P x then Some x else None)"

definition z_map :: "('a \<Rightarrow> 'b) \<Rightarrow> 'a schema \<Rightarrow> 'b schema" where
  "z_map f p v = map_option f (p v)"

definition z_trim :: "string schema \<Rightarrow> string schema" where
  "z_trim = z_map js_trim"

definition z_min :: "nat \<Rightarrow> string schema \<Rightarrow> string schema" where
  "z_min n = z_check (\<lambda>s. n \<le> js_length s)"

definition z_max :: "nat \<Rightarrow> string schema \<Rightarrow> string schema" where
  "z_max n = z_check (\<lambda>s. js_length s \<le> n)"

definition z_length :: "nat \<Rightarrow> string schema \<Rightarrow> string schema" where
  "z_length n = z_check (\<lambda>s. js_length s = n)"

definition z_int :: "rat schema \<Rightarrow> int schema" where
  "z_int p = z_map floor (z_check (\<lambda>x. of_int \<lfloor>x\<rfloor> = x) p)"

definition z_optional :: "'a schema \<Rightarrow> 'a option schema" where
  "z_optional p v = (case v of None \<Rightarrow> Some None | Some _ \<Rightarrow> map_option Some (p v))"

definition z_default :: "'a \<Rightarrow> 'a schema \<Rightarrow> 'a schema" where
  "z_default d p v = (case v of None \<Rightarrow> Some d | Some _ \<Rightarrow> p v)"

definition z_nullable :: "'a schema \<Rightarrow> 'a option schema" where
  "z_nullable p v = (if v = Some JNull then Some None else map_option Some (p v))"

definition z_enum :: "(string \<times> 'a) list \<Rightarrow> 'a schema" where
  "z_enum table v = Option.bind (z_string v) (map_of table)"

fun all_some :: "'a option list \<Rightarrow> 'a list option" where
  "all_some [] = Some []"
| "all_some (None # xs) = None"
| "all_some (Some x # xs) = map_option (Cons x) (all_some xs)"

definition z_array :: "'a schema \<Rightarrow> 'a list schema" where
  "z_array p v = (case v of Some (JArr js) \<Rightarrow> all_some (map (\<lambda>j. p (Some j)) js) | _ \<Rightarrow> None)"

text \<open>\<open>z.record\<close>: every value of the object.\<close>

definition z_record :: "'a schema \<Rightarrow> (string \<times> 'a) list schema" where
  "z_record p v = (case v of
     Some (JObj kvs) \<Rightarrow> all_some (map (\<lambda>(k, j). map_option (Pair k) (p (Some j))) kvs) | _ \<Rightarrow> None)"

text \<open>\<open>z.object\<close>: the fields are read by name, unknown ones are stripped.\<close>

definition z_object :: "((string \<Rightarrow> json option) \<Rightarrow> 'a option) \<Rightarrow> 'a schema" where
  "z_object f v = (case v of Some (JObj kvs) \<Rightarrow> f (map_of kvs) | _ \<Rightarrow> None)"

text \<open>\<open>z.coerce.number()\<close> on what a query string or a JSON body can hold.\<close>

definition coerced_number :: "json_lib \<Rightarrow> rat schema" where
  "coerced_number J v = js_Number J v"

definition coerced_date :: "formats \<Rightarrow> int schema" where
  "coerced_date F v = Option.bind v (fm_date F)"

section \<open>The pipe\<close>

definition validate :: "'a schema \<Rightarrow> json \<Rightarrow> error + 'a" where
  "validate p body = someE (p (Some body)) (BadRequest ''Validation failed'')"

section \<open>What a schema accepts\<close>

named_theorems schema_simps \<open>what a schema accepts\<close>

lemma bind_Some_iff: "Option.bind m f = Some y \<longleftrightarrow> (\<exists>x. m = Some x \<and> f x = Some y)"
  by (cases m) simp_all

lemma z_string_Some [schema_simps]: "z_string v = Some s \<longleftrightarrow> v = Some (JStr s)"
  by (cases v rule: z_string.cases) auto

lemma z_number_Some [schema_simps]: "z_number v = Some x \<longleftrightarrow> v = Some (JNum x)"
  by (cases v rule: z_number.cases) auto

lemma z_boolean_Some [schema_simps]: "z_boolean v = Some b \<longleftrightarrow> v = Some (JBool b)"
  by (cases v rule: z_boolean.cases) auto

lemma z_check_Some [schema_simps]: "z_check P p v = Some x \<longleftrightarrow> p v = Some x \<and> P x"
  by (auto simp: z_check_def bind_Some_iff split: if_splits)

lemma z_map_Some [schema_simps]: "z_map f p v = Some y \<longleftrightarrow> (\<exists>x. p v = Some x \<and> f x = y)"
  by (auto simp: z_map_def)

lemma z_optional_Some [schema_simps]:
  "z_optional p v = Some x \<longleftrightarrow> (v = None \<and> x = None) \<or> (v \<noteq> None \<and> (\<exists>y. p v = Some y \<and> x = Some y))"
  by (auto simp: z_optional_def split: option.splits)

lemma z_default_Some [schema_simps]:
  "z_default d p v = Some x \<longleftrightarrow> (v = None \<and> x = d) \<or> (v \<noteq> None \<and> p v = Some x)"
  by (auto simp: z_default_def split: option.splits)

lemma z_int_Some [schema_simps]: "z_int p v = Some i \<longleftrightarrow> p v = Some (of_int i)"
  by (auto simp: z_int_def schema_simps)

lemma all_some_Some: "all_some xs = Some ys \<longleftrightarrow> xs = map Some ys"
  by (induction xs arbitrary: ys rule: all_some.induct) (auto simp: map_eq_Cons_conv Cons_eq_map_conv)

lemma z_array_all:
  assumes "z_array p v = Some xs" and "\<And>j x. p j = Some x \<Longrightarrow> P x"
  shows "\<forall>x\<in>set xs. P x"
proof -
  obtain js where "map (\<lambda>j. p (Some j)) js = map Some xs"
    using assms(1) by (auto simp: z_array_def all_some_Some split: option.splits json.splits)
  then have "\<exists>j. p j = Some x" if "x \<in> set xs" for x
    using that by (metis (mono_tags, lifting) image_iff list.set_map)
  with assms(2) show ?thesis by blast
qed

lemma z_object_Some [schema_simps]: "z_object f v = Some x \<longleftrightarrow> (\<exists>kvs. v = Some (JObj kvs) \<and> f (map_of kvs) = Some x)"
  by (auto simp: z_object_def split: option.splits json.splits)

lemma validate_Inr [err_simps]: "validate p body = Inr x \<longleftrightarrow> p (Some body) = Some x"
  by (simp add: validate_def err_simps)

section \<open>Identity contracts (\<open>contracts/auth.ts\<close>)\<close>

definition emailSchema :: "formats \<Rightarrow> string schema" where
  "emailSchema F = z_check (fm_email F) (z_map toLowerCase (z_trim z_string))"

record register_input =
  rgi_email :: string
  rgi_password :: string
  rgi_name :: string

definition registerWithPasswordSchema :: "formats \<Rightarrow> register_input schema" where
  "registerWithPasswordSchema F = z_object (\<lambda>get.
     Option.bind (emailSchema F (get ''email'')) (\<lambda>email.
     Option.bind (z_max 128 (z_min 10 z_string) (get ''password'')) (\<lambda>password.
     Option.bind (z_max 200 (z_min 1 (z_trim z_string)) (get ''name'')) (\<lambda>name.
       Some \<lparr>rgi_email = email, rgi_password = password, rgi_name = name\<rparr>))))"

definition loginWithPasswordSchema :: "formats \<Rightarrow> (string \<times> string) schema" where
  "loginWithPasswordSchema F = z_object (\<lambda>get.
     Option.bind (emailSchema F (get ''email'')) (\<lambda>email.
     Option.bind (z_max 128 (z_min 1 z_string) (get ''password'')) (\<lambda>password. Some (email, password))))"

definition requestMagicLinkSchema :: "formats \<Rightarrow> string schema" where
  "requestMagicLinkSchema F = z_object (\<lambda>get. emailSchema F (get ''email''))"

definition consumeMagicLinkSchema :: "string schema" where
  "consumeMagicLinkSchema = z_object (\<lambda>get. z_min 1 z_string (get ''token''))"

definition requestPasswordResetSchema :: "formats \<Rightarrow> string schema" where
  "requestPasswordResetSchema F = z_object (\<lambda>get. emailSchema F (get ''email''))"

definition resetPasswordSchema :: "(string \<times> string) schema" where
  "resetPasswordSchema = z_object (\<lambda>get.
     Option.bind (z_min 1 z_string (get ''token'')) (\<lambda>token.
     Option.bind (z_max 128 (z_min 10 z_string) (get ''newPassword'')) (\<lambda>newPassword. Some (token, newPassword))))"

definition verifyMfaSchema :: "string schema" where
  "verifyMfaSchema = z_object (\<lambda>get.
     z_check (\<lambda>s. length s = 6 \<and> list_all is_digit s) (z_length 6 z_string) (get ''code''))"

end
