(* ===== verification/Auth_Service.thy ===== *)
theory Auth_Service
  imports Crypto Access_Control Audit_Outbox Validation
begin

text \<open>
  \<open>apps/api/src/auth/auth.service.ts\<close> and the sessions of \<open>auth/token.service.ts\<close>:
  registration, password and magic-link sign-in, the second factor, the linking of provider
  identities, password reset and sessions. The service's configuration and libraries are the record
  \<open>auth_config\<close>; mail goes out through an email adapter acting on the outside world \<open>'w\<close>.
  Random draws are numbered by \<open>seq\<close>.
\<close>

record auth_config =
  ac_crypto :: crypto
  ac_key :: string
  ac_MAGIC_LINK_TTL_MINUTES :: int
  ac_SESSION_TTL_MINUTES :: int

section \<open>Sessions\<close>

record session_params =
  sp_userId :: string
  sp_deviceId :: "string option"
  sp_ipAddress :: "string option"
  sp_userAgent :: "string option"
  sp_ttlMinutes :: int
  sp_rotatedFromId :: "string option"

record issued_session =
  is_rawToken :: string
  is_sessionId :: string
  is_expiresAt :: int

definition createSession :: "env \<Rightarrow> crypto \<Rightarrow> int \<Rightarrow> session_params \<Rightarrow> db \<Rightarrow> (error + issued_session) \<times> db" where
  "createSession E C now params s =
     (let rawToken = hex (cr_random C 32 (seq s));
          tokenHash = sha256Hex C rawToken;
          expiresAt = now + sp_ttlMinutes params * 60000
      in if taken ses_tokenHash tokenHash (sessions s) then (Inl (UniqueViolation ''tokenHash''), s)
         else if \<not> taken usr_id (sp_userId params) (users s) then (Inl (ForeignKeyViolation ''userId''), s)
         else (Inr \<lparr>is_rawToken = rawToken, is_sessionId = uuid E (seq s), is_expiresAt = expiresAt\<rparr>,
               s\<lparr>sessions := sessions s @ [\<lparr>ses_id = uuid E (seq s), ses_userId = sp_userId params,
                   ses_deviceId = sp_deviceId params, ses_tokenHash = tokenHash,
                   ses_ipAddress = sp_ipAddress params, ses_userAgent = sp_userAgent params,
                   ses_expiresAt = expiresAt, ses_revokedAt = None,
                   ses_rotatedFromId = sp_rotatedFromId params\<rparr>],
                 seq := Suc (seq s)\<rparr>))"

definition revokeSession :: "int \<Rightarrow> string \<Rightarrow> db \<Rightarrow> (error + unit) \<times> db" where
  "revokeSession now sessionId s =
     (if taken ses_id sessionId (sessions s)
      then (Inr (), s\<lparr>sessions := update_where (\<lambda>x. ses_id x = sessionId)
              (\<lambda>x. x\<lparr>ses_revokedAt := Some now\<rparr>) (sessions s)\<rparr>)
      else (Inl (RecordNotFound ''Session''), s))"

definition revokeAllSessionsForUser :: "int \<Rightarrow> string \<Rightarrow> string option \<Rightarrow> db \<Rightarrow> db" where
  "revokeAllSessionsForUser now userId exceptSessionId s =
     s\<lparr>sessions := update_where
         (\<lambda>x. ses_userId x = userId \<and> ses_revokedAt x = None \<and>
              (truthy exceptSessionId \<longrightarrow> Some (ses_id x) \<noteq> exceptSessionId))
         (\<lambda>x. x\<lparr>ses_revokedAt := Some now\<rparr>) (sessions s)\<rparr>"

definition issueSession ::
  "env \<Rightarrow> auth_config \<Rightarrow> int \<Rightarrow> user \<Rightarrow> string option \<Rightarrow> string option \<Rightarrow> string option \<Rightarrow> db
    \<Rightarrow> (error + issued_session) \<times> db" where
  "issueSession E A now u deviceId ipAddress userAgent s =
     createSession E (ac_crypto A) now \<lparr>sp_userId = usr_id u, sp_deviceId = deviceId, sp_ipAddress = ipAddress,
       sp_userAgent = userAgent, sp_ttlMinutes = ac_SESSION_TTL_MINUTES A, sp_rotatedFromId = None\<rparr> s"

section \<open>Registration and email verification\<close>

definition claim :: "string \<Rightarrow> (string \<times> json) list \<Rightarrow> string option" where
  "claim k payload = (case map_of payload k of Some (JStr v) \<Rightarrow> Some v | _ \<Rightarrow> None)"

definition find_user :: "string \<Rightarrow> db \<Rightarrow> user option" where
  "find_user uid s = List.find (\<lambda>u. usr_id u = uid) (users s)"

definition find_email :: "string \<Rightarrow> db \<Rightarrow> user option" where
  "find_email email s = List.find (\<lambda>u. usr_email u = email) (users s)"

definition update_user :: "string option \<Rightarrow> (user \<Rightarrow> user) \<Rightarrow> db \<Rightarrow> (error + unit) \<times> db" where
  "update_user uid f s =
     (case uid of
        None \<Rightarrow> (Inl (ServerError ''Argument where needs at least one of id or email''), s)
      | Some i \<Rightarrow>
          if taken usr_id i (users s)
          then (Inr (), s\<lparr>users := update_where (\<lambda>u. usr_id u = i) f (users s)\<rparr>)
          else (Inl (RecordNotFound ''User''), s))"

definition new_user :: "string \<Rightarrow> string \<Rightarrow> int option \<Rightarrow> string option \<Rightarrow> string option \<Rightarrow> user" where
  "new_user uid email verifiedAt passwordHash name = \<lparr>usr_id = uid, usr_email = email,
     usr_emailVerifiedAt = verifiedAt, usr_passwordHash = passwordHash, usr_name = name, usr_mfaEnabled = False,
     usr_mfaSecretEncrypted = None, usr_mfaRecoveryCodesEncrypted = None, usr_isPlatformAdmin = False\<rparr>"

definition sendEmailVerification ::
  "env \<Rightarrow> auth_config \<Rightarrow> 'w email_adapter \<Rightarrow> int \<Rightarrow> user \<Rightarrow> 'w \<Rightarrow> (error + send_result) \<times> 'w" where
  "sendEmailVerification E A mail now u w =
     (let token = signOneTimeToken (ac_crypto A) now Email_verification [(''userId'', JStr (usr_id u))] (24 * 60);
          verifyUrl = appUrl E @ ''/verify-email?token='' @ encodeURIComponent token
      in mail \<lparr>em_to = usr_email u, em_subject = ''Verify your SalesMaster Pro email'',
                em_text = ''Verify your email: '' @ verifyUrl, em_html = None\<rparr> w)"

definition register_user ::
  "env \<Rightarrow> auth_config \<Rightarrow> 'w email_adapter \<Rightarrow> int \<Rightarrow> register_input \<Rightarrow> db \<Rightarrow> 'w \<Rightarrow> (error + user) \<times> db \<times> 'w" where
  "register_user E A mail now input s w =
     (case find_email (rgi_email input) s of
        Some _ \<Rightarrow> (Inl (BadRequest ''An account with this email already exists''), s, w)
      | None \<Rightarrow>
          let passwordHash = password_hash (ac_crypto A) (seq s) (rgi_password input);
              u = new_user (uuid E (seq s)) (rgi_email input) None (Some passwordHash) (Some (rgi_name input));
              s1 = s\<lparr>users := users s @ [u], seq := Suc (seq s)\<rparr>
          in case sendEmailVerification E A mail now u w of
               (Inl e, w1) \<Rightarrow> (Inl e, s1, w1)
             | (Inr _, w1) \<Rightarrow>
                 (Inr u, audit_record E (audit_in None (Some (usr_id u)) ''auth.register'' ''User'' (usr_id u) None) s1, w1))"

definition verifyEmail :: "auth_config \<Rightarrow> int \<Rightarrow> string \<Rightarrow> db \<Rightarrow> (error + unit) \<times> db" where
  "verifyEmail A now token s =
     (case verifyOneTimeToken (ac_crypto A) now Email_verification token of
        Inl e \<Rightarrow> (Inl e, s)
      | Inr payload \<Rightarrow> update_user (claim ''userId'' payload) (\<lambda>u. u\<lparr>usr_emailVerifiedAt := Some now\<rparr>) s)"

section \<open>Password sign-in and the second factor\<close>

datatype login_result = MfaRequired string | LoggedIn user

definition loginWithPassword :: "auth_config \<Rightarrow> int \<Rightarrow> string \<Rightarrow> string \<Rightarrow> db \<Rightarrow> error + login_result" where
  "loginWithPassword A now email password s =
     (case find_email email s of
        None \<Rightarrow> Inl (Unauthorized ''Invalid email or password'')
      | Some u \<Rightarrow>
          if \<not> truthy (usr_passwordHash u) \<or> \<not> password_verify (ac_crypto A) (the (usr_passwordHash u)) password
          then Inl (Unauthorized ''Invalid email or password'')
          else if usr_mfaEnabled u
          then Inr (MfaRequired (signOneTimeToken (ac_crypto A) now Mfa_challenge [(''userId'', JStr (usr_id u))] 10))
          else Inr (LoggedIn u))"

definition valid_totp :: "auth_config \<Rightarrow> int \<Rightarrow> user \<Rightarrow> string \<Rightarrow> error + bool" where
  "valid_totp A now u code =
     (if truthy (usr_mfaSecretEncrypted u)
      then bindE (decrypt (ac_crypto A) (ac_key A) (the (usr_mfaSecretEncrypted u)))
             (\<lambda>secret. Inr (verifyCode (ac_crypto A) now secret code))
      else Inr False)"

definition completeMfaChallenge :: "auth_config \<Rightarrow> int \<Rightarrow> string \<Rightarrow> string \<Rightarrow> db \<Rightarrow> (error + user) \<times> db" where
  "completeMfaChallenge A now mfaChallengeToken code s =
     (case verifyOneTimeToken (ac_crypto A) now Mfa_challenge mfaChallengeToken of
        Inl e \<Rightarrow> (Inl e, s)
      | Inr payload \<Rightarrow>
          (case Option.bind (claim ''userId'' payload) (\<lambda>uid. find_user uid s) of
             None \<Rightarrow> (Inl (RecordNotFound ''User''), s)
           | Some u \<Rightarrow>
               (case valid_totp A now u code of
                  Inl e \<Rightarrow> (Inl e, s)
                | Inr True \<Rightarrow> (Inr u, s)
                | Inr False \<Rightarrow>
                    if \<not> truthy (usr_mfaRecoveryCodesEncrypted u) then (Inl (Unauthorized ''Invalid MFA code''), s)
                    else (case decrypt (ac_crypto A) (ac_key A) (the (usr_mfaRecoveryCodesEncrypted u)) of
                            Inl e \<Rightarrow> (Inl e, s)
                          | Inr stored \<Rightarrow>
                              (case verifyRecoveryCode (ac_crypto A) stored code of
                                 (False, _) \<Rightarrow> (Inl (Unauthorized ''Invalid MFA code''), s)
                               | (True, remaining) \<Rightarrow>
                                   (Inr u, s\<lparr>users := update_where (\<lambda>x. usr_id x = usr_id u)
                                      (\<lambda>x. x\<lparr>usr_mfaRecoveryCodesEncrypted :=
                                         Some (encrypt (ac_crypto A) (ac_key A) (seq s) remaining)\<rparr>) (users s),
                                    seq := Suc (seq s)\<rparr>))))))"

section \<open>Magic links\<close>

definition requestMagicLink ::
  "env \<Rightarrow> auth_config \<Rightarrow> 'w email_adapter \<Rightarrow> int \<Rightarrow> string \<Rightarrow> 'w \<Rightarrow> (error + send_result) \<times> 'w" where
  "requestMagicLink E A mail now email w =
     (let token = signOneTimeToken (ac_crypto A) now Magic_link [(''email'', JStr email)] (ac_MAGIC_LINK_TTL_MINUTES A);
          link = appUrl E @ ''/auth/magic-link?token='' @ encodeURIComponent token
      in mail \<lparr>em_to = email, em_subject = ''Your SalesMaster Pro sign-in link'',
                em_text = ''Sign in: '' @ link @ [CHR 0x0A] @ ''This link expires in '' @
                  int_str (ac_MAGIC_LINK_TTL_MINUTES A) @ '' minutes.'', em_html = None\<rparr> w)"

definition consumeMagicLink :: "env \<Rightarrow> auth_config \<Rightarrow> int \<Rightarrow> string \<Rightarrow> db \<Rightarrow> (error + user) \<times> db" where
  "consumeMagicLink E A now token s =
     (case verifyOneTimeToken (ac_crypto A) now Magic_link token of
        Inl e \<Rightarrow> (Inl e, s)
      | Inr payload \<Rightarrow>
          (case claim ''email'' payload of
             None \<Rightarrow> (Inl (ServerError ''Argument where needs at least one of id or email''), s)
           | Some email \<Rightarrow>
               (case find_email email s of
                  None \<Rightarrow>
                    let u = new_user (uuid E (seq s)) email (Some now) None None
                    in (Inr u, s\<lparr>users := users s @ [u], seq := Suc (seq s)\<rparr>)
                | Some u \<Rightarrow>
                    if usr_emailVerifiedAt u = None
                    then (Inr (u\<lparr>usr_emailVerifiedAt := Some now\<rparr>),
                          s\<lparr>users := update_where (\<lambda>x. usr_id x = usr_id u)
                              (\<lambda>x. x\<lparr>usr_emailVerifiedAt := Some now\<rparr>) (users s)\<rparr>)
                    else (Inr u, s))))"

section \<open>Provider identities\<close>

record provider_identity =
  pid_subject :: string
  pid_email :: "string option"
  pid_emailVerified :: bool
  pid_name :: "string option"
  pid_isPrivateRelayEmail :: bool
  pid_rawAccessToken :: "string option"
  pid_rawRefreshToken :: "string option"
  pid_tokenExpiresAt :: "int option"

fun provider_text :: "identity_provider \<Rightarrow> string" where
  "provider_text GOOGLE = ''google''"
| "provider_text APPLE = ''apple''"
| "provider_text EMAIL = ''email''"

definition encrypted_token :: "auth_config \<Rightarrow> nat \<Rightarrow> string option \<Rightarrow> string option" where
  "encrypted_token A draw raw = (if truthy raw then Some (encrypt (ac_crypto A) (ac_key A) draw (the raw)) else None)"

text \<open>An undefined field of an update leaves the column alone.\<close>

definition kept :: "'a option \<Rightarrow> 'a option \<Rightarrow> 'a option" where
  "kept new old = (case new of None \<Rightarrow> old | Some x \<Rightarrow> Some x)"

definition refresh_account :: "auth_config \<Rightarrow> provider_identity \<Rightarrow> identity_account \<Rightarrow> db \<Rightarrow> db" where
  "refresh_account A pid acc s =
     s\<lparr>identityProviderAccounts := update_where (\<lambda>x. ida_id x = ida_id acc)
         (\<lambda>x. x\<lparr>ida_providerEmail := pid_email pid,
               ida_accessTokenEncrypted := kept (encrypted_token A (seq s) (pid_rawAccessToken pid)) (ida_accessTokenEncrypted x),
               ida_refreshTokenEncrypted := kept (encrypted_token A (Suc (seq s)) (pid_rawRefreshToken pid)) (ida_refreshTokenEncrypted x),
               ida_tokenExpiresAt := kept (pid_tokenExpiresAt pid) (ida_tokenExpiresAt x)\<rparr>)
         (identityProviderAccounts s),
       seq := seq s + 2\<rparr>"

definition safe_candidate :: "provider_identity \<Rightarrow> db \<Rightarrow> user option" where
  "safe_candidate pid s =
     (if truthy (pid_email pid) \<and> pid_emailVerified pid
      then (case find_email (the (pid_email pid)) s of
              Some c \<Rightarrow> if usr_emailVerifiedAt c \<noteq> None then Some c else None
            | None \<Rightarrow> None)
      else None)"

definition identity_email :: "identity_provider \<Rightarrow> provider_identity \<Rightarrow> string" where
  "identity_email p pid =
     (case pid_email pid of Some e \<Rightarrow> e
      | None \<Rightarrow> provider_text p @ ''-'' @ pid_subject pid @ ''@no-email.salesmasterpro.invalid'')"

definition link_account ::
  "env \<Rightarrow> auth_config \<Rightarrow> identity_provider \<Rightarrow> provider_identity \<Rightarrow> user \<Rightarrow> db \<Rightarrow> db" where
  "link_account E A p pid u s =
     (let acc = \<lparr>ida_id = uuid E (seq s), ida_userId = usr_id u, ida_provider = p, ida_providerSubject = pid_subject pid,
            ida_providerEmail = pid_email pid, ida_isPrivateRelayEmail = pid_isPrivateRelayEmail pid,
            ida_refreshTokenEncrypted = encrypted_token A (Suc (seq s)) (pid_rawRefreshToken pid),
            ida_accessTokenEncrypted = encrypted_token A (seq s) (pid_rawAccessToken pid),
            ida_tokenExpiresAt = pid_tokenExpiresAt pid\<rparr>;
          s1 = s\<lparr>identityProviderAccounts := identityProviderAccounts s @ [acc], seq := seq s + 2\<rparr>
      in audit_record E (audit_in None (Some (usr_id u)) (''auth.oauth_link.'' @ provider_text p) ''User'' (usr_id u) None) s1)"

definition linkOrCreateUserForIdentity ::
  "env \<Rightarrow> auth_config \<Rightarrow> int \<Rightarrow> identity_provider \<Rightarrow> provider_identity \<Rightarrow> db \<Rightarrow> (error + user) \<times> db" where
  "linkOrCreateUserForIdentity E A now p pid s =
     (case List.find (\<lambda>x. ida_provider x = p \<and> ida_providerSubject x = pid_subject pid) (identityProviderAccounts s) of
        Some acc \<Rightarrow>
          (case find_user (ida_userId acc) s of
             Some u \<Rightarrow> (Inr u, refresh_account A pid acc s)
           | None \<Rightarrow> (Inl (ServerError ''account without user''), s))
      | None \<Rightarrow>
          (case safe_candidate pid s of
             Some u \<Rightarrow> (Inr u, link_account E A p pid u s)
           | None \<Rightarrow>
               let u = new_user (uuid E (seq s)) (identity_email p pid)
                         (if pid_emailVerified pid then Some now else None) None (pid_name pid)
               in if taken usr_email (usr_email u) (users s) then (Inl (UniqueViolation ''email''), s)
                  else (Inr u, link_account E A p pid u (s\<lparr>users := users s @ [u], seq := Suc (seq s)\<rparr>))))"

section \<open>Password reset\<close>

definition requestPasswordReset ::
  "env \<Rightarrow> auth_config \<Rightarrow> 'w email_adapter \<Rightarrow> int \<Rightarrow> string \<Rightarrow> db \<Rightarrow> 'w \<Rightarrow> (error + unit) \<times> 'w" where
  "requestPasswordReset E A mail now email s w =
     (case find_email email s of
        None \<Rightarrow> (Inr (), w)
      | Some u \<Rightarrow>
          let token = signOneTimeToken (ac_crypto A) now Password_reset [(''userId'', JStr (usr_id u))] 30;
              resetUrl = appUrl E @ ''/reset-password?token='' @ encodeURIComponent token
          in case mail \<lparr>em_to = email, em_subject = ''Reset your SalesMaster Pro password'', em_text = resetUrl,
                         em_html = None\<rparr> w of
               (Inl e, w1) \<Rightarrow> (Inl e, w1)
             | (Inr _, w1) \<Rightarrow> (Inr (), w1))"

definition resetPassword :: "auth_config \<Rightarrow> int \<Rightarrow> string \<Rightarrow> string \<Rightarrow> db \<Rightarrow> (error + unit) \<times> db" where
  "resetPassword A now token newPassword s =
     (case verifyOneTimeToken (ac_crypto A) now Password_reset token of
        Inl e \<Rightarrow> (Inl e, s)
      | Inr payload \<Rightarrow>
          let passwordHash = password_hash (ac_crypto A) (seq s) newPassword;
              userId = claim ''userId'' payload
          in case update_user userId (\<lambda>u. u\<lparr>usr_passwordHash := Some passwordHash\<rparr>) (s\<lparr>seq := Suc (seq s)\<rparr>) of
               (Inl e, s1) \<Rightarrow> (Inl e, s1)
             | (Inr _, s1) \<Rightarrow> (Inr (), revokeAllSessionsForUser now (the userId) None s1))"

end
