(* ===== verification/OAuth.thy ===== *)
theory OAuth
  imports Auth_Service
begin

text \<open>
  \<open>auth/strategies/google-oauth.service.ts\<close> and \<open>apple-oauth.service.ts\<close>: the authorization
  URL and the exchange of a code for a verified identity. The network, the JWT verifier with its
  remote key set and the ES256 signer are parameters; a verifier returns the claims of a token it
  accepts or throws.
\<close>

record oauth_env =
  oe_GOOGLE_CLIENT_ID :: "string option"
  oe_GOOGLE_CLIENT_SECRET :: "string option"
  oe_GOOGLE_REDIRECT_URI :: "string option"
  oe_APPLE_CLIENT_ID :: "string option"
  oe_APPLE_TEAM_ID :: "string option"
  oe_APPLE_KEY_ID :: "string option"
  oe_APPLE_PRIVATE_KEY_BASE64 :: "string option"
  oe_APPLE_REDIRECT_URI :: "string option"

text \<open>The verifier takes the key set, the admitted issuers, the audience and the token as the
  response carried it; the signer the PEM text, the key id, the claims and the lifetime.\<close>

type_synonym 'w jwt_verify =
  "string \<Rightarrow> string list \<Rightarrow> string \<Rightarrow> json option \<Rightarrow> 'w \<Rightarrow> (error + (string \<times> json) list) \<times> 'w"
type_synonym es256_sign = "int \<Rightarrow> string \<Rightarrow> string \<Rightarrow> (string \<times> json) list \<Rightarrow> string \<Rightarrow> error + string"

definition url_with :: "string \<Rightarrow> (string \<times> string) list \<Rightarrow> string" where
  "url_with base params = base @ ''?'' @ URLSearchParams params"

definition form_post :: "string \<Rightarrow> (string \<times> string) list \<Rightarrow> http_request" where
  "form_post url params = \<lparr>hq_method = ''POST'', hq_url = url,
     hq_headers = [(''Content-Type'', ''application/x-www-form-urlencoded'')],
     hq_body = Some (URLSearchParams params)\<rparr>"

text \<open>\<open>expires_in\<close> counts seconds; the expiry is a date, in whole milliseconds.\<close>

definition token_expiry :: "int \<Rightarrow> json \<Rightarrow> int option" where
  "token_expiry now tokens =
     (case js_field ''expires_in'' tokens of
        Some (JNum x) \<Rightarrow> if x \<noteq> 0 then Some (now + \<lfloor>x * 1000\<rfloor>) else None
      | _ \<Rightarrow> None)"

text \<open>The exchange common to both providers: post the form, read the tokens, verify the identity
  token and compare its nonce with the one of the handshake.\<close>

definition exchange ::
  "string \<Rightarrow> json_lib \<Rightarrow> 'w fetch \<Rightarrow> 'w jwt_verify \<Rightarrow> http_request \<Rightarrow> string \<Rightarrow> string list \<Rightarrow> string
    \<Rightarrow> json option \<Rightarrow> 'w \<Rightarrow> (error + json \<times> (string \<times> json) list) \<times> 'w" where
  "exchange provider J fetch jwtVerify req jwks issuers audience expectedNonce w =
     (case fetch req w of
        (Inl e, w1) \<Rightarrow> (Inl e, w1)
      | (Inr res, w1) \<Rightarrow>
          if \<not> hr_ok res
          then (Inl (ServerError (provider @ '' token exchange failed: '' @ nat_str (hr_status res) @ '' '' @ hr_body res)), w1)
          else (case js_parse J (hr_body res) of
                  None \<Rightarrow> (Inl (ServerError ''Unexpected token in JSON''), w1)
                | Some tokens \<Rightarrow>
                    if tokens = JNull then (Inl (ServerError ''Cannot read properties of null''), w1)
                    else (case jwtVerify jwks issuers audience (js_field ''id_token'' tokens) w1 of
                            (Inl e, w2) \<Rightarrow> (Inl e, w2)
                          | (Inr payload, w2) \<Rightarrow>
                              if map_of payload ''nonce'' \<noteq> expectedNonce
                              then (Inl (ServerError (provider @ '' ID token nonce mismatch'')), w2)
                              else (Inr (tokens, payload), w2))))"

text \<open>The identity read from both: the \<open>sub\<close> claim is asserted to be there; without it the
  account lookup that follows throws.\<close>

definition identity_of ::
  "int \<Rightarrow> (json option \<Rightarrow> bool) \<Rightarrow> (string \<times> json) list \<Rightarrow> string option \<Rightarrow> bool \<Rightarrow> json \<Rightarrow> error + provider_identity" where
  "identity_of now verified payload name privateRelay tokens =
     (case claim ''sub'' payload of
        None \<Rightarrow> Inl (ServerError ''Argument providerSubject is missing'')
      | Some sub \<Rightarrow> Inr \<lparr>pid_subject = sub, pid_email = claim ''email'' payload,
          pid_emailVerified = verified (map_of payload ''email_verified''), pid_name = name,
          pid_isPrivateRelayEmail = privateRelay, pid_rawAccessToken = js_string_field ''access_token'' tokens,
          pid_rawRefreshToken = js_string_field ''refresh_token'' tokens,
          pid_tokenExpiresAt = token_expiry now tokens\<rparr>)"

section \<open>Google\<close>

definition google_isConfigured :: "oauth_env \<Rightarrow> bool" where
  "google_isConfigured V \<longleftrightarrow> truthy (oe_GOOGLE_CLIENT_ID V) \<and> truthy (oe_GOOGLE_CLIENT_SECRET V) \<and>
     truthy (oe_GOOGLE_REDIRECT_URI V)"

definition google_buildAuthorizationUrl :: "oauth_env \<Rightarrow> string \<Rightarrow> string \<Rightarrow> string \<Rightarrow> error + string" where
  "google_buildAuthorizationUrl V state nonce codeChallenge =
     (if \<not> google_isConfigured V then Inl (ServerError ''Google OAuth is not configured'')
      else Inr (url_with ''https://accounts.google.com/o/oauth2/v2/auth''
        [(''client_id'', the (oe_GOOGLE_CLIENT_ID V)), (''redirect_uri'', the (oe_GOOGLE_REDIRECT_URI V)),
         (''response_type'', ''code''), (''scope'', ''openid email profile''), (''state'', state),
         (''nonce'', nonce), (''code_challenge'', codeChallenge), (''code_challenge_method'', ''S256''),
         (''access_type'', ''offline''), (''prompt'', ''consent'')]))"

text \<open>A field of the parsed handshake that is no string becomes the text of its conversion; the
  handshake writes a string.\<close>

definition json_text :: "json_lib \<Rightarrow> json option \<Rightarrow> string" where
  "json_text J v = (case v of None \<Rightarrow> ''undefined'' | Some (JStr s) \<Rightarrow> s | Some j \<Rightarrow> js_stringify J j)"

definition google_exchangeCodeForIdentity ::
  "oauth_env \<Rightarrow> json_lib \<Rightarrow> 'w fetch \<Rightarrow> 'w jwt_verify \<Rightarrow> int \<Rightarrow> string \<Rightarrow> consumed_handshake \<Rightarrow> 'w
    \<Rightarrow> (error + provider_identity) \<times> 'w" where
  "google_exchangeCodeForIdentity V J fetch jwtVerify now code h w =
     (if \<not> google_isConfigured V then (Inl (ServerError ''Google OAuth is not configured''), w)
      else case exchange ''Google'' J fetch jwtVerify
             (form_post ''https://oauth2.googleapis.com/token''
               [(''client_id'', the (oe_GOOGLE_CLIENT_ID V)), (''client_secret'', the (oe_GOOGLE_CLIENT_SECRET V)),
                (''redirect_uri'', the (oe_GOOGLE_REDIRECT_URI V)), (''grant_type'', ''authorization_code''),
                (''code'', code), (''code_verifier'', json_text J (ch_codeVerifier h))])
             ''https://www.googleapis.com/oauth2/v3/certs'' [''https://accounts.google.com'', ''accounts.google.com'']
             (the (oe_GOOGLE_CLIENT_ID V)) (ch_nonce h) w of
           (Inl e, w1) \<Rightarrow> (Inl e, w1)
         | (Inr (tokens, payload), w1) \<Rightarrow> (identity_of now js_truthy payload (claim ''name'' payload) False tokens, w1))"

section \<open>Apple\<close>

definition apple_isConfigured :: "oauth_env \<Rightarrow> bool" where
  "apple_isConfigured V \<longleftrightarrow> truthy (oe_APPLE_CLIENT_ID V) \<and> truthy (oe_APPLE_TEAM_ID V) \<and> truthy (oe_APPLE_KEY_ID V) \<and>
     truthy (oe_APPLE_PRIVATE_KEY_BASE64 V) \<and> truthy (oe_APPLE_REDIRECT_URI V)"

definition apple_buildAuthorizationUrl :: "oauth_env \<Rightarrow> string \<Rightarrow> string \<Rightarrow> error + string" where
  "apple_buildAuthorizationUrl V state nonce =
     (if \<not> apple_isConfigured V then Inl (ServerError ''Apple OAuth is not configured'')
      else Inr (url_with ''https://appleid.apple.com/auth/authorize''
        [(''client_id'', the (oe_APPLE_CLIENT_ID V)), (''redirect_uri'', the (oe_APPLE_REDIRECT_URI V)),
         (''response_type'', ''code''), (''scope'', ''name email''), (''response_mode'', ''form_post''),
         (''state'', state), (''nonce'', nonce)]))"

definition buildClientSecret :: "oauth_env \<Rightarrow> es256_sign \<Rightarrow> int \<Rightarrow> error + string" where
  "buildClientSecret V sign now =
     sign now (unbase64 (the (oe_APPLE_PRIVATE_KEY_BASE64 V))) (the (oe_APPLE_KEY_ID V))
       [(''iss'', JStr (the (oe_APPLE_TEAM_ID V))), (''sub'', JStr (the (oe_APPLE_CLIENT_ID V))),
        (''aud'', JStr ''https://appleid.apple.com'')] ''5m''"

definition yes :: "json option \<Rightarrow> bool" where
  "yes v \<longleftrightarrow> v = Some (JBool True) \<or> v = Some (JStr ''true'')"

definition apple_exchangeCodeForIdentity ::
  "oauth_env \<Rightarrow> es256_sign \<Rightarrow> json_lib \<Rightarrow> 'w fetch \<Rightarrow> 'w jwt_verify \<Rightarrow> int \<Rightarrow> string \<Rightarrow> consumed_handshake \<Rightarrow> 'w
    \<Rightarrow> (error + provider_identity) \<times> 'w" where
  "apple_exchangeCodeForIdentity V sign J fetch jwtVerify now code h w =
     (if \<not> apple_isConfigured V then (Inl (ServerError ''Apple OAuth is not configured''), w)
      else case buildClientSecret V sign now of
        Inl e \<Rightarrow> (Inl e, w)
      | Inr clientSecret \<Rightarrow>
          (case exchange ''Apple'' J fetch jwtVerify
             (form_post ''https://appleid.apple.com/auth/token''
               [(''client_id'', the (oe_APPLE_CLIENT_ID V)), (''client_secret'', clientSecret),
                (''redirect_uri'', the (oe_APPLE_REDIRECT_URI V)), (''grant_type'', ''authorization_code''), (''code'', code)])
             ''https://appleid.apple.com/auth/keys'' [''https://appleid.apple.com'']
             (the (oe_APPLE_CLIENT_ID V)) (ch_nonce h) w of
             (Inl e, w1) \<Rightarrow> (Inl e, w1)
           | (Inr (tokens, payload), w1) \<Rightarrow>
               (identity_of now yes payload None (yes (map_of payload ''is_private_email'')) tokens, w1)))"

section \<open>An identity is only returned for a token the verifier accepted\<close>

lemma exchange_Inr:
  assumes "exchange provider J fetch jwtVerify req jwks issuers audience nonce w = (Inr (tokens, payload), w')"
  shows "\<exists>res w1. fetch req w = (Inr res, w1) \<and> hr_ok res \<and> js_parse J (hr_body res) = Some tokens \<and>
     jwtVerify jwks issuers audience (js_field ''id_token'' tokens) w1 = (Inr payload, w') \<and>
     map_of payload ''nonce'' = nonce"
  using assms by (auto simp: exchange_def split: prod.splits sum.splits option.splits if_splits)

lemma google_identity_verified:
  assumes "google_exchangeCodeForIdentity V J fetch jwtVerify now code h w = (Inr pid, w')"
  shows "\<exists>token w1 payload. jwtVerify ''https://www.googleapis.com/oauth2/v3/certs''
       [''https://accounts.google.com'', ''accounts.google.com''] (the (oe_GOOGLE_CLIENT_ID V)) token w1 = (Inr payload, w') \<and>
     map_of payload ''nonce'' = ch_nonce h \<and> claim ''sub'' payload = Some (pid_subject pid) \<and>
     pid_email pid = claim ''email'' payload \<and>
     pid_emailVerified pid = js_truthy (map_of payload ''email_verified'')"
proof -
  obtain tokens payload where "exchange ''Google'' J fetch jwtVerify
      (form_post ''https://oauth2.googleapis.com/token''
         [(''client_id'', the (oe_GOOGLE_CLIENT_ID V)), (''client_secret'', the (oe_GOOGLE_CLIENT_SECRET V)),
          (''redirect_uri'', the (oe_GOOGLE_REDIRECT_URI V)), (''grant_type'', ''authorization_code''),
          (''code'', code), (''code_verifier'', json_text J (ch_codeVerifier h))])
      ''https://www.googleapis.com/oauth2/v3/certs'' [''https://accounts.google.com'', ''accounts.google.com'']
      (the (oe_GOOGLE_CLIENT_ID V)) (ch_nonce h) w = (Inr (tokens, payload), w')"
    and "identity_of now js_truthy payload (claim ''name'' payload) False tokens = Inr pid"
    using assms by (auto simp: google_exchangeCodeForIdentity_def split: if_splits prod.splits sum.splits)
  moreover from exchange_Inr [OF this(1)] obtain w1 where
    "jwtVerify ''https://www.googleapis.com/oauth2/v3/certs'' [''https://accounts.google.com'', ''accounts.google.com'']
       (the (oe_GOOGLE_CLIENT_ID V)) (js_field ''id_token'' tokens) w1 = (Inr payload, w')"
    "map_of payload ''nonce'' = ch_nonce h" by blast
  moreover have "claim ''sub'' payload = Some (pid_subject pid) \<and> pid_email pid = claim ''email'' payload \<and>
      pid_emailVerified pid = js_truthy (map_of payload ''email_verified'')"
    using calculation(2) by (auto simp: identity_of_def split: option.splits)
  ultimately show ?thesis by blast
qed

end
