(* ===== verification/Auth_Controller.thy ===== *)
theory Auth_Controller
  imports OAuth
begin

text \<open>
  \<open>auth/auth.controller.ts\<close>: the routes of sign-in, second factor, password reset, magic link,
  provider callbacks and sessions, over the services of \<open>Auth_Service\<close> and \<open>OAuth\<close>.
  \<open>auth_server\<close> is everything the deployment supplies; \<open>'w\<close> is the outside world the mail
  and HTTP calls act on. The rate limits of the routes are not modelled.
\<close>

record 'w auth_server =
  as_env :: env
  as_config :: auth_config
  as_oauth :: oauth_env
  as_formats :: formats
  as_json :: json_lib
  as_mail :: "'w email_adapter"
  as_fetch :: "'w fetch"
  as_jwtVerify :: "'w jwt_verify"
  as_sign :: es256_sign
  as_NODE_ENV :: string

record client =
  cl_ip :: "string option"
  cl_userAgent :: "string option"
  cl_cookies :: "(string \<times> string) list"

abbreviation server_crypto :: "'w auth_server \<Rightarrow> crypto" where
  "server_crypto S \<equiv> ac_crypto (as_config S)"

section \<open>Replies\<close>

record set_cookie =
  sc_name :: string
  sc_value :: string
  sc_httpOnly :: bool
  sc_secure :: bool
  sc_sameSite :: string
  sc_path :: string
  sc_expires :: "int option"
  sc_maxAge :: "int option"

definition SESSION_COOKIE_NAME :: string where
  "SESSION_COOKIE_NAME = ''sm_session''"

definition OAUTH_HANDSHAKE_COOKIE_PREFIX :: string where
  "OAUTH_HANDSHAKE_COOKIE_PREFIX = ''sm_oauth_''"

definition SESSION_COOKIE_OPTIONS ::
  "'w auth_server \<Rightarrow> string \<Rightarrow> string \<Rightarrow> int option \<Rightarrow> int option \<Rightarrow> set_cookie" where
  "SESSION_COOKIE_OPTIONS S name v expires maxAge = \<lparr>sc_name = name, sc_value = v, sc_httpOnly = True,
     sc_secure = (as_NODE_ENV S = ''production''), sc_sameSite = ''lax'', sc_path = ''/'',
     sc_expires = expires, sc_maxAge = maxAge\<rparr>"

record user_view =
  uv_id :: string
  uv_email :: string
  uv_name :: "string option"
  uv_mfaEnabled :: bool

definition view_user :: "user \<Rightarrow> user_view" where
  "view_user u = \<lparr>uv_id = usr_id u, uv_email = usr_email u, uv_name = usr_name u, uv_mfaEnabled = usr_mfaEnabled u\<rparr>"

record session_reply =
  sre_user :: user_view
  sre_sessionToken :: string
  sre_sessionExpiresAt :: int
  sre_cookie :: set_cookie

definition respondWithSession ::
  "'w auth_server \<Rightarrow> int \<Rightarrow> client \<Rightarrow> user \<Rightarrow> db \<Rightarrow> (error + session_reply) \<times> db" where
  "respondWithSession S now cl u s =
     (case issueSession (as_env S) (as_config S) now u None (cl_ip cl) (cl_userAgent cl) s of
        (Inl e, s1) \<Rightarrow> (Inl e, s1)
      | (Inr iss, s1) \<Rightarrow>
          (Inr \<lparr>sre_user = view_user u, sre_sessionToken = is_rawToken iss, sre_sessionExpiresAt = is_expiresAt iss,
             sre_cookie = SESSION_COOKIE_OPTIONS S SESSION_COOKIE_NAME (is_rawToken iss) (Some (is_expiresAt iss)) None\<rparr>, s1))"

section \<open>Email, password and the second factor\<close>

definition post_register :: "'w auth_server \<Rightarrow> int \<Rightarrow> json \<Rightarrow> db \<Rightarrow> 'w \<Rightarrow> (error + string \<times> string) \<times> db \<times> 'w" where
  "post_register S now body s w =
     (case validate (registerWithPasswordSchema (as_formats S)) body of
        Inl e \<Rightarrow> (Inl e, s, w)
      | Inr input \<Rightarrow>
          (case register_user (as_env S) (as_config S) (as_mail S) now input s w of
             (Inl e, s1, w1) \<Rightarrow> (Inl e, s1, w1)
           | (Inr u, s1, w1) \<Rightarrow> (Inr (usr_id u, usr_email u), s1, w1)))"

datatype login_reply = MfaChallenge string | SignedIn session_reply

definition post_login :: "'w auth_server \<Rightarrow> int \<Rightarrow> json \<Rightarrow> client \<Rightarrow> db \<Rightarrow> (error + login_reply) \<times> db" where
  "post_login S now body cl s =
     (case validate (loginWithPasswordSchema (as_formats S)) body of
        Inl e \<Rightarrow> (Inl e, s)
      | Inr (email, password) \<Rightarrow>
          (case loginWithPassword (as_config S) now email password s of
             Inl e \<Rightarrow> (Inl e, s)
           | Inr (MfaRequired challenge) \<Rightarrow> (Inr (MfaChallenge challenge), s)
           | Inr (LoggedIn u) \<Rightarrow>
               (case respondWithSession S now cl u s of
                  (Inl e, s1) \<Rightarrow> (Inl e, s1)
                | (Inr r, s1) \<Rightarrow> (Inr (SignedIn r), s1))))"

text \<open>\<open>verifyMfaSchema.parse\<close> throws the library's own error, no HTTP exception.\<close>

definition verifyMfaLogin :: "'w auth_server \<Rightarrow> int \<Rightarrow> json \<Rightarrow> client \<Rightarrow> db \<Rightarrow> (error + session_reply) \<times> db" where
  "verifyMfaLogin S now body cl s =
     (case verifyMfaSchema (Some (JObj (case js_field ''code'' body of None \<Rightarrow> [] | Some c \<Rightarrow> [(''code'', c)]))) of
        None \<Rightarrow> (Inl (ServerError ''ZodError''), s)
      | Some code \<Rightarrow>
          (case js_string_field ''mfaChallengeToken'' body of
             None \<Rightarrow> (Inl (Unauthorized ''Invalid or expired token''), s)
           | Some token \<Rightarrow>
               (case completeMfaChallenge (as_config S) now token code s of
                  (Inl e, s1) \<Rightarrow> (Inl e, s1)
                | (Inr u, s1) \<Rightarrow> respondWithSession S now cl u s1)))"

definition post_forgot :: "'w auth_server \<Rightarrow> int \<Rightarrow> json \<Rightarrow> db \<Rightarrow> 'w \<Rightarrow> (error + unit) \<times> 'w" where
  "post_forgot S now body s w =
     (case validate (requestPasswordResetSchema (as_formats S)) body of
        Inl e \<Rightarrow> (Inl e, w)
      | Inr email \<Rightarrow> requestPasswordReset (as_env S) (as_config S) (as_mail S) now email s w)"

definition post_reset :: "'w auth_server \<Rightarrow> int \<Rightarrow> json \<Rightarrow> db \<Rightarrow> (error + unit) \<times> db" where
  "post_reset S now body s =
     (case validate resetPasswordSchema body of
        Inl e \<Rightarrow> (Inl e, s)
      | Inr (token, newPassword) \<Rightarrow> resetPassword (as_config S) now token newPassword s)"

section \<open>Magic links\<close>

definition post_magic_request :: "'w auth_server \<Rightarrow> int \<Rightarrow> json \<Rightarrow> 'w \<Rightarrow> (error + unit) \<times> 'w" where
  "post_magic_request S now body w =
     (case validate (requestMagicLinkSchema (as_formats S)) body of
        Inl e \<Rightarrow> (Inl e, w)
      | Inr email \<Rightarrow>
          (case requestMagicLink (as_env S) (as_config S) (as_mail S) now email w of
             (Inl e, w1) \<Rightarrow> (Inl e, w1)
           | (Inr _, w1) \<Rightarrow> (Inr (), w1)))"

definition post_magic_consume :: "'w auth_server \<Rightarrow> int \<Rightarrow> json \<Rightarrow> client \<Rightarrow> db \<Rightarrow> (error + session_reply) \<times> db" where
  "post_magic_consume S now body cl s =
     (case validate consumeMagicLinkSchema body of
        Inl e \<Rightarrow> (Inl e, s)
      | Inr token \<Rightarrow>
          (case consumeMagicLink (as_env S) (as_config S) now token s of
             (Inl e, s1) \<Rightarrow> (Inl e, s1)
           | (Inr u, s1) \<Rightarrow> respondWithSession S now cl u s1))"

section \<open>Provider sign-in\<close>

record redirect_reply =
  rr_url :: string
  rr_cookie :: set_cookie

definition handshake_cookie :: "'w auth_server \<Rightarrow> string \<Rightarrow> string \<Rightarrow> set_cookie" where
  "handshake_cookie S provider v =
     SESSION_COOKIE_OPTIONS S (OAUTH_HANDSHAKE_COOKIE_PREFIX @ provider) v None (Some (10 * 60000))"

definition googleStart :: "'w auth_server \<Rightarrow> int \<Rightarrow> db \<Rightarrow> (error + redirect_reply) \<times> db" where
  "googleStart S now s =
     (let (h, cookieValue, codeChallenge) =
        handshake_create (server_crypto S) (as_json S) (ac_key (as_config S)) now (seq s)
      in (bindE (google_buildAuthorizationUrl (as_oauth S) (hs_state h) (hs_nonce h) codeChallenge)
            (\<lambda>url. Inr \<lparr>rr_url = url, rr_cookie = handshake_cookie S ''google'' cookieValue\<rparr>),
          s\<lparr>seq := seq s + 4\<rparr>))"

definition appleStart :: "'w auth_server \<Rightarrow> int \<Rightarrow> db \<Rightarrow> (error + redirect_reply) \<times> db" where
  "appleStart S now s =
     (let (h, cookieValue, codeChallenge) =
        handshake_create (server_crypto S) (as_json S) (ac_key (as_config S)) now (seq s)
      in (bindE (apple_buildAuthorizationUrl (as_oauth S) (hs_state h) (hs_nonce h))
            (\<lambda>url. Inr \<lparr>rr_url = url, rr_cookie = handshake_cookie S ''apple'' cookieValue\<rparr>),
          s\<lparr>seq := seq s + 4\<rparr>))"

definition consume_cookie :: "'w auth_server \<Rightarrow> int \<Rightarrow> string \<Rightarrow> client \<Rightarrow> string \<Rightarrow> error + consumed_handshake" where
  "consume_cookie S now provider cl state =
     handshake_consume (server_crypto S) (as_json S) (ac_key (as_config S)) now
       (map_of (cl_cookies cl) (OAUTH_HANDSHAKE_COOKIE_PREFIX @ provider)) state"

definition sign_in_identity ::
  "'w auth_server \<Rightarrow> int \<Rightarrow> identity_provider \<Rightarrow> client \<Rightarrow> (error + provider_identity) \<times> 'w \<Rightarrow> db
    \<Rightarrow> (error + session_reply) \<times> db \<times> 'w" where
  "sign_in_identity S now p cl exchanged s =
     (case exchanged of
        (Inl e, w) \<Rightarrow> (Inl e, s, w)
      | (Inr pid, w) \<Rightarrow>
          (case linkOrCreateUserForIdentity (as_env S) (as_config S) now p pid s of
             (Inl e, s1) \<Rightarrow> (Inl e, s1, w)
           | (Inr u, s1) \<Rightarrow> (let (r, s2) = respondWithSession S now cl u s1 in (r, s2, w))))"

definition googleCallback ::
  "'w auth_server \<Rightarrow> int \<Rightarrow> string \<Rightarrow> string \<Rightarrow> client \<Rightarrow> db \<Rightarrow> 'w \<Rightarrow> (error + session_reply) \<times> db \<times> 'w" where
  "googleCallback S now code state cl s w =
     (case consume_cookie S now ''google'' cl state of
        Inl e \<Rightarrow> (Inl e, s, w)
      | Inr h \<Rightarrow> sign_in_identity S now GOOGLE cl
          (google_exchangeCodeForIdentity (as_oauth S) (as_json S) (as_fetch S) (as_jwtVerify S) now code h w) s)"

definition appleCallback ::
  "'w auth_server \<Rightarrow> int \<Rightarrow> string \<Rightarrow> string \<Rightarrow> client \<Rightarrow> db \<Rightarrow> 'w \<Rightarrow> (error + session_reply) \<times> db \<times> 'w" where
  "appleCallback S now code state cl s w =
     (case consume_cookie S now ''apple'' cl state of
        Inl e \<Rightarrow> (Inl e, s, w)
      | Inr h \<Rightarrow> sign_in_identity S now APPLE cl
          (apple_exchangeCodeForIdentity (as_oauth S) (as_sign S) (as_json S) (as_fetch S) (as_jwtVerify S) now code h w) s)"

section \<open>Enrollment of the second factor\<close>

text \<open>The routes below run behind the session guard; \<open>u\<close> is the user it read.\<close>

definition enrollMfa :: "'w auth_server \<Rightarrow> user \<Rightarrow> db \<Rightarrow> (error + string \<times> string list) \<times> db" where
  "enrollMfa S u s =
     (let C = server_crypto S; key = ac_key (as_config S); enrollment = generateEnrollment C (seq s) (usr_email u);
          secretEncrypted = encrypt C key (seq s + 11) (enr_secret enrollment);
          codesEncrypted = encrypt C key (seq s + 12) (hashRecoveryCodes C (enr_recoveryCodes enrollment))
      in case update_user (Some (usr_id u))
                (\<lambda>x. x\<lparr>usr_mfaSecretEncrypted := Some secretEncrypted, usr_mfaRecoveryCodesEncrypted := Some codesEncrypted\<rparr>)
                (s\<lparr>seq := seq s + 13\<rparr>) of
           (Inl e, s1) \<Rightarrow> (Inl e, s1)
         | (Inr _, s1) \<Rightarrow> (Inr (enr_otpauthUrl enrollment, enr_recoveryCodes enrollment), s1))"

definition activateMfa :: "'w auth_server \<Rightarrow> int \<Rightarrow> user \<Rightarrow> json \<Rightarrow> db \<Rightarrow> (error + unit) \<times> db" where
  "activateMfa S now u body s =
     (case validate verifyMfaSchema body of
        Inl e \<Rightarrow> (Inl e, s)
      | Inr code \<Rightarrow>
          (case find_user (usr_id u) s of
             None \<Rightarrow> (Inl (RecordNotFound ''User''), s)
           | Some fresh \<Rightarrow>
               if \<not> truthy (usr_mfaSecretEncrypted fresh)
               then (Inl (Unauthorized ''Call /auth/mfa/enroll first''), s)
               else (case decrypt (server_crypto S) (ac_key (as_config S)) (the (usr_mfaSecretEncrypted fresh)) of
                       Inl e \<Rightarrow> (Inl e, s)
                     | Inr secret \<Rightarrow>
                         if \<not> verifyCode (server_crypto S) now secret code
                         then (Inl (Unauthorized ''Invalid MFA code''), s)
                         else update_user (Some (usr_id u)) (\<lambda>x. x\<lparr>usr_mfaEnabled := True\<rparr>) s)))"

definition disableMfa :: "user \<Rightarrow> db \<Rightarrow> (error + unit) \<times> db" where
  "disableMfa u s =
     update_user (Some (usr_id u))
       (\<lambda>x. x\<lparr>usr_mfaEnabled := False, usr_mfaSecretEncrypted := None, usr_mfaRecoveryCodesEncrypted := None\<rparr>) s"

record membership_view =
  mv_tenantId :: string
  mv_tenantName :: string
  mv_roleKey :: string

definition get_me :: "user \<Rightarrow> db \<Rightarrow> user_view \<times> membership_view list" where
  "get_me u s = (view_user u,
     map (\<lambda>m. \<lparr>mv_tenantId = mem_tenantId m,
              mv_tenantName = (case List.find (\<lambda>t. ten_id t = mem_tenantId m) (tenants s) of
                 Some t \<Rightarrow> ten_displayName t | None \<Rightarrow> []),
              mv_roleKey = (case List.find (\<lambda>r. rol_id r = mem_roleId m) (roles s) of
                 Some r \<Rightarrow> rol_key r | None \<Rightarrow> [])\<rparr>)
       (filter (\<lambda>m. mem_userId m = usr_id u \<and> mem_status m = MemACTIVE) (memberships s)))"

section \<open>Session management\<close>

text \<open>The newest first: rows are inserted in the order of their creation.\<close>

definition listSessions :: "int \<Rightarrow> user \<Rightarrow> db \<Rightarrow> session list" where
  "listSessions now u s =
     rev (filter (\<lambda>x. ses_userId x = usr_id u \<and> ses_revokedAt x = None \<and> now < ses_expiresAt x) (sessions s))"

definition post_logout :: "int \<Rightarrow> string option \<Rightarrow> db \<Rightarrow> (error + unit) \<times> db" where
  "post_logout now sessionId s = (if truthy sessionId then revokeSession now (the sessionId) s else (Inr (), s))"

definition revokeAllOtherSessions :: "int \<Rightarrow> user \<Rightarrow> string option \<Rightarrow> db \<Rightarrow> (error + unit) \<times> db" where
  "revokeAllOtherSessions now u sessionId s = (Inr (), revokeAllSessionsForUser now (usr_id u) sessionId s)"

section \<open>The routes\<close>

datatype auth_route =
    Register json
  | VerifyEmail string
  | Login json
  | VerifyMfa json
  | Forgot json
  | Reset json
  | MagicRequest json
  | MagicConsume json
  | GoogleStart
  | GoogleCallback string string
  | AppleStart
  | AppleCallback string string
  | EnrollMfa
  | ActivateMfa json
  | DisableMfa
  | Me
  | ListSessions
  | Logout
  | RevokeAll

fun is_public :: "auth_route \<Rightarrow> bool" where
  "is_public EnrollMfa = False"
| "is_public (ActivateMfa _) = False"
| "is_public DisableMfa = False"
| "is_public Me = False"
| "is_public ListSessions = False"
| "is_public Logout = False"
| "is_public RevokeAll = False"
| "is_public _ = True"

text \<open>What a route leaves of the database and the world; the guard has admitted the request and its
  context holds the user and the session of a route that is not public.\<close>

fun auth_effect ::
  "'w auth_server \<Rightarrow> int \<Rightarrow> client \<Rightarrow> request_context \<Rightarrow> auth_route \<Rightarrow> db \<times> 'w \<Rightarrow> db \<times> 'w" where
  "auth_effect S now cl ctx (Register body) (s, w) = snd (post_register S now body s w)"
| "auth_effect S now cl ctx (VerifyEmail token) (s, w) = (snd (verifyEmail (as_config S) now token s), w)"
| "auth_effect S now cl ctx (Login body) (s, w) = (snd (post_login S now body cl s), w)"
| "auth_effect S now cl ctx (VerifyMfa body) (s, w) = (snd (verifyMfaLogin S now body cl s), w)"
| "auth_effect S now cl ctx (Forgot body) (s, w) = (s, snd (post_forgot S now body s w))"
| "auth_effect S now cl ctx (Reset body) (s, w) = (snd (post_reset S now body s), w)"
| "auth_effect S now cl ctx (MagicRequest body) (s, w) = (s, snd (post_magic_request S now body w))"
| "auth_effect S now cl ctx (MagicConsume body) (s, w) = (snd (post_magic_consume S now body cl s), w)"
| "auth_effect S now cl ctx GoogleStart (s, w) = (snd (googleStart S now s), w)"
| "auth_effect S now cl ctx (GoogleCallback code state) (s, w) = snd (googleCallback S now code state cl s w)"
| "auth_effect S now cl ctx AppleStart (s, w) = (snd (appleStart S now s), w)"
| "auth_effect S now cl ctx (AppleCallback code state) (s, w) = snd (appleCallback S now code state cl s w)"
| "auth_effect S now cl ctx EnrollMfa (s, w) =
     (case ctx_user ctx of Some u \<Rightarrow> snd (enrollMfa S u s) | None \<Rightarrow> s, w)"
| "auth_effect S now cl ctx (ActivateMfa body) (s, w) =
     (case ctx_user ctx of Some u \<Rightarrow> snd (activateMfa S now u body s) | None \<Rightarrow> s, w)"
| "auth_effect S now cl ctx DisableMfa (s, w) =
     (case ctx_user ctx of Some u \<Rightarrow> snd (disableMfa u s) | None \<Rightarrow> s, w)"
| "auth_effect S now cl ctx Me (s, w) = (s, w)"
| "auth_effect S now cl ctx ListSessions (s, w) = (s, w)"
| "auth_effect S now cl ctx Logout (s, w) = (snd (post_logout now (ctx_sessionId ctx) s), w)"
| "auth_effect S now cl ctx RevokeAll (s, w) =
     (case ctx_user ctx of Some u \<Rightarrow> snd (revokeAllOtherSessions now u (ctx_sessionId ctx) s) | None \<Rightarrow> s, w)"

text \<open>A request passes the session guard first.\<close>

definition auth_handle ::
  "'w auth_server \<Rightarrow> int \<Rightarrow> request \<Rightarrow> client \<Rightarrow> auth_route \<Rightarrow> db \<times> 'w \<Rightarrow> db \<times> 'w" where
  "auth_handle S now req cl route st =
     (case session_guard (sha256Hex (server_crypto S)) now (is_public route) req (fst st) anonymous of
        Inl e \<Rightarrow> st
      | Inr ctx \<Rightarrow> auth_effect S now cl ctx route st)"

text \<open>The states the routes reach, in any order, at any time and from any client.\<close>

inductive auth_step :: "'w auth_server \<Rightarrow> db \<times> 'w \<Rightarrow> db \<times> 'w \<Rightarrow> bool" for S where
  handled: "auth_step S st (auth_handle S now req cl route st)"

inductive_cases auth_stepE: "auth_step S st st'"

end
