(* ===== verification/Auth_Facts.thy ===== *)
theory Auth_Facts
  imports Auth_Controller
begin

text \<open>
  What the authentication routes guarantee: sessions, users and linked accounts are never deleted
  nor handed to someone else; a reset password ends every session of the user for good; an issued
  token opens its own session until it expires; a provider identity is attached to an existing
  account only when both sides verified the address, and keeps it whatever happens later. The last
  sections show where the second factor is not what it means to be.
\<close>

section \<open>How the identity tables evolve\<close>

definition same_session :: "session \<Rightarrow> session \<Rightarrow> bool" where
  "same_session x y \<longleftrightarrow> ses_tokenHash y = ses_tokenHash x \<and> ses_id y = ses_id x \<and> ses_userId y = ses_userId x \<and>
     ses_expiresAt y = ses_expiresAt x \<and> (ses_revokedAt x \<noteq> None \<longrightarrow> ses_revokedAt y \<noteq> None)"

definition same_account :: "identity_account \<Rightarrow> identity_account \<Rightarrow> bool" where
  "same_account x y \<longleftrightarrow> ida_provider y = ida_provider x \<and> ida_providerSubject y = ida_providerSubject x \<and>
     ida_userId y = ida_userId x"

definition same_user :: "user \<Rightarrow> user \<Rightarrow> bool" where
  "same_user x y \<longleftrightarrow> usr_id y = usr_id x \<and> usr_email y = usr_email x \<and> usr_isPlatformAdmin y = usr_isPlatformAdmin x \<and>
     (usr_emailVerifiedAt x \<noteq> None \<longrightarrow> usr_emailVerifiedAt y \<noteq> None)"

lemmas same_defs = same_session_def same_account_def same_user_def

lemma same_refl [simp, intro]: "reflp same_session" "reflp same_account" "reflp same_user"
  by (auto simp: same_defs intro!: reflpI)

lemma same_trans [simp, intro]: "transp same_session" "transp same_account" "transp same_user"
  by (auto simp: same_defs intro!: transpI)

definition identity_evolves :: "db \<Rightarrow> db \<Rightarrow> bool" where
  "identity_evolves s t \<longleftrightarrow> rows_evolve same_session (sessions s) (sessions t) \<and>
     rows_evolve same_account (identityProviderAccounts s) (identityProviderAccounts t) \<and>
     rows_evolve same_user (users s) (users t)"

lemma identity_evolves_refl [simp, intro]: "identity_evolves s s"
  by (simp add: identity_evolves_def rows_evolve_refl)

lemma identity_evolves_trans: "identity_evolves s t \<Longrightarrow> identity_evolves t u \<Longrightarrow> identity_evolves s u"
  unfolding identity_evolves_def by (meson rows_evolve_trans same_trans)

lemma identity_evolves_sessions:
  "users t = users s \<Longrightarrow> identityProviderAccounts t = identityProviderAccounts s \<Longrightarrow>
   rows_evolve same_session (sessions s) (sessions t) \<Longrightarrow> identity_evolves s t"
  by (simp add: identity_evolves_def rows_evolve_refl)

lemma identity_evolves_users:
  "sessions t = sessions s \<Longrightarrow> identityProviderAccounts t = identityProviderAccounts s \<Longrightarrow>
   rows_evolve same_user (users s) (users t) \<Longrightarrow> identity_evolves s t"
  by (simp add: identity_evolves_def rows_evolve_refl)

lemma createSession_evolves: "identity_evolves s (snd (createSession E C now p s))"
  by (rule identity_evolves_sessions)
     (auto simp: createSession_def Let_def rows_evolve_refl rows_evolve_append)

lemma respondWithSession_evolves: "identity_evolves s (snd (respondWithSession S now cl u s))"
  using createSession_evolves
  by (auto simp: respondWithSession_def issueSession_def split: prod.split sum.split) (metis snd_conv)+

lemma revoke_evolves: "identity_evolves s (s\<lparr>sessions := update_where P (\<lambda>x. x\<lparr>ses_revokedAt := Some now\<rparr>) (sessions s)\<rparr>)"
  by (rule identity_evolves_sessions) (auto intro!: rows_evolve_update simp: same_session_def)

lemma update_users_evolves:
  assumes "\<And>x. same_user x (f x)"
  shows "identity_evolves s (s\<lparr>users := update_where P f (users s), seq := n\<rparr>)"
    and "identity_evolves s (s\<lparr>users := update_where P f (users s)\<rparr>)"
  by (rule identity_evolves_users; auto intro!: rows_evolve_update simp: assms)+

lemma seq_evolves [simp]: "identity_evolves s (t\<lparr>seq := n\<rparr>) \<longleftrightarrow> identity_evolves s t"
  "identity_evolves (s\<lparr>seq := n\<rparr>) t \<longleftrightarrow> identity_evolves s t"
  by (simp_all add: identity_evolves_def)

lemma audit_evolves [simp]: "identity_evolves s (audit_record E i t) \<longleftrightarrow> identity_evolves s t"
  by (simp add: identity_evolves_def)

lemma new_user_evolves:
  "identity_evolves s (s\<lparr>users := users s @ [u], seq := n\<rparr>)" "identity_evolves s (s\<lparr>users := users s @ [u]\<rparr>)"
  by (rule identity_evolves_users; simp add: rows_evolve_append)+

lemma respond_after:
  "identity_evolves s s1 \<Longrightarrow> identity_evolves s (snd (respondWithSession S now cl u s1))"
  by (blast intro: identity_evolves_trans respondWithSession_evolves)

lemma update_user_evolves:
  assumes "\<And>x. same_user x (f x)"
  shows "identity_evolves s (snd (update_user uid f s))"
  using assms by (auto simp: update_user_def update_users_evolves split: option.split)


section \<open>Every route lets them evolve\<close>

lemma post_register_evolves: "identity_evolves s (fst (snd (post_register S now body s w)))"
  by (auto simp: post_register_def register_user_def Let_def new_user_evolves split: sum.split option.split prod.split)

lemma verifyEmail_evolves: "identity_evolves s (snd (verifyEmail A now token s))"
  by (auto simp: verifyEmail_def same_user_def intro!: update_user_evolves split: sum.split)

lemma post_login_evolves: "identity_evolves s (snd (post_login S now body cl s))"
  using respondWithSession_evolves [of s S now cl]
  by (auto simp: post_login_def split: sum.split login_result.split prod.split) (metis snd_conv)+

lemma completeMfaChallenge_evolves: "identity_evolves s (snd (completeMfaChallenge A now token code s))"
  by (auto simp: completeMfaChallenge_def same_user_def intro!: update_users_evolves
      split: sum.split option.split prod.split bool.split)

lemma verifyMfaLogin_evolves: "identity_evolves s (snd (verifyMfaLogin S now body cl s))"
proof -
  have "identity_evolves s s1" if "completeMfaChallenge A now token code s = (r, s1)" for A token code r s1
    using that completeMfaChallenge_evolves [of s A now token code] by simp
  then show ?thesis
    by (auto simp: verifyMfaLogin_def intro!: respond_after split: option.split prod.split sum.split)
qed

lemma post_reset_evolves: "identity_evolves s (snd (post_reset S now body s))"
proof -
  have u: "identity_evolves s (snd (update_user uid (\<lambda>u. u\<lparr>usr_passwordHash := h\<rparr>) (s\<lparr>seq := n\<rparr>)))" for uid h n
    using update_user_evolves [of "\<lambda>u. u\<lparr>usr_passwordHash := h\<rparr>" "s\<lparr>seq := n\<rparr>" uid] by (simp add: same_user_def)
  have "identity_evolves s (revokeAllSessionsForUser now uid None s1)"
    if "identity_evolves s s1" for uid s1
    using that revoke_evolves identity_evolves_trans unfolding revokeAllSessionsForUser_def by blast
  with u show ?thesis
    by (auto simp: post_reset_def resetPassword_def Let_def split: sum.split prod.split) (metis snd_conv)+
qed

lemma consumeMagicLink_evolves: "identity_evolves s (snd (consumeMagicLink E A now token s))"
  by (auto simp: consumeMagicLink_def Let_def same_user_def new_user_evolves intro!: update_users_evolves
      split: sum.split option.split)

lemma post_magic_consume_evolves: "identity_evolves s (snd (post_magic_consume S now body cl s))"
proof -
  have "identity_evolves s s1" if "consumeMagicLink E A now token s = (r, s1)" for E A token r s1
    using that consumeMagicLink_evolves [of s E A now token] by simp
  then show ?thesis
    by (auto simp: post_magic_consume_def intro!: respond_after split: sum.split prod.split)
qed

lemma link_account_evolves: "identity_evolves s (link_account E A p pid u s)"
  by (auto simp: link_account_def Let_def identity_evolves_def intro: evolve_intros)

lemma refresh_account_evolves: "identity_evolves s (refresh_account A pid acc s)"
  by (auto simp: refresh_account_def identity_evolves_def same_account_def intro!: evolve_intros)

lemma linkOrCreate_evolves: "identity_evolves s (snd (linkOrCreateUserForIdentity E A now p pid s))"
  by (auto simp: linkOrCreateUserForIdentity_def Let_def link_account_evolves refresh_account_evolves
      intro: identity_evolves_trans [OF new_user_evolves(1) link_account_evolves] split: option.split)

lemma sign_in_identity_evolves: "identity_evolves s (fst (snd (sign_in_identity S now p cl ex s)))"
  by (cases ex) (auto simp: sign_in_identity_def case_prod_unfold Let_def linkOrCreate_evolves
      respond_after [OF linkOrCreate_evolves] split: sum.split)

lemma callback_evolves:
  "identity_evolves s (fst (snd (googleCallback S now code state cl s w)))"
  "identity_evolves s (fst (snd (appleCallback S now code state cl s w)))"
  by (auto simp: googleCallback_def appleCallback_def sign_in_identity_evolves split: sum.split)

lemma start_evolves:
  "identity_evolves s (snd (googleStart S now s))" "identity_evolves s (snd (appleStart S now s))"
  by (auto simp: googleStart_def appleStart_def split: prod.split)

lemma enrollMfa_evolves: "identity_evolves s (snd (enrollMfa S u s))"
proof -
  have "identity_evolves s (snd (update_user uid (\<lambda>x. x\<lparr>usr_mfaSecretEncrypted := a, usr_mfaRecoveryCodesEncrypted := b\<rparr>)
      (s\<lparr>seq := n\<rparr>)))" for uid a b n
    using update_user_evolves [of "\<lambda>x. x\<lparr>usr_mfaSecretEncrypted := a, usr_mfaRecoveryCodesEncrypted := b\<rparr>" "s\<lparr>seq := n\<rparr>" uid]
    by (simp add: same_user_def)
  then show ?thesis by (auto simp: enrollMfa_def Let_def split: prod.split sum.split) (metis snd_conv)+
qed

lemma mfa_switch_evolves:
  "identity_evolves s (snd (activateMfa S now u body s))" "identity_evolves s (snd (disableMfa u s))"
  by (auto simp: activateMfa_def disableMfa_def same_user_def intro!: update_user_evolves split: sum.split option.split)

lemma logout_evolves:
  "identity_evolves s (snd (post_logout now sid s))" "identity_evolves s (snd (revokeAllOtherSessions now u sid s))"
  by (auto simp: post_logout_def revokeSession_def revokeAllOtherSessions_def revokeAllSessionsForUser_def revoke_evolves)

lemmas route_evolves = post_register_evolves verifyEmail_evolves post_login_evolves verifyMfaLogin_evolves
  post_reset_evolves post_magic_consume_evolves callback_evolves start_evolves enrollMfa_evolves
  mfa_switch_evolves logout_evolves

lemma auth_effect_evolves: "identity_evolves s (fst (auth_effect S now cl ctx route (s, w)))"
  by (cases route) (auto simp: route_evolves split: option.split)

lemma auth_steps_evolve:
  assumes "(auth_step S)\<^sup>*\<^sup>* st st'"
  shows "identity_evolves (fst st) (fst st')"
  using assms
proof (induction rule: rtranclp_induct)
  case (step st1 st2)
  have "identity_evolves (fst st1) (fst st2)" using step(2)
    by (cases st1) (auto elim!: auth_stepE simp: auth_handle_def auth_effect_evolves split: sum.split)
  with step.IH show ?case by (rule identity_evolves_trans)
qed simp


section \<open>What the guard still admits\<close>

lemma guard_rejects:
  assumes "rawToken req = Some tok" and "tok \<noteq> []"
    and "List.find (\<lambda>x. ses_tokenHash x = sha tok) (sessions t) = Some ses"
    and "ses_revokedAt ses \<noteq> None \<or> ses_expiresAt ses < now"
  shows "session_guard sha now False req t anonymous = Inl (Unauthorized ''Session expired or revoked'')"
  using assms by (cases tok) (auto simp: session_guard_def)

lemma guard_admits:
  assumes "rawToken req = Some tok" and "tok \<noteq> []"
    and "List.find (\<lambda>x. ses_tokenHash x = sha tok) (sessions t) = Some ses"
    and "session_guard sha now False req t anonymous = Inr ctx"
  shows "ses_revokedAt ses = None \<and> now \<le> ses_expiresAt ses \<and> ctx_sessionId ctx = Some (ses_id ses) \<and>
     (\<exists>u. ctx_user ctx = Some u \<and> usr_id u = ses_userId ses)"
  using assms by (cases tok) (auto simp: session_guard_def err_simps split: if_splits dest!: find_SomeD)

text \<open>The session a token opens stays the one it opens.\<close>

lemma session_of_token_evolves:
  assumes "identity_evolves s t" and "List.find (\<lambda>x. ses_tokenHash x = h) (sessions s) = Some ses"
  shows "\<exists>ses'. List.find (\<lambda>x. ses_tokenHash x = h) (sessions t) = Some ses' \<and> same_session ses ses'"
proof -
  have "rows_evolve same_session (sessions s) (sessions t)" using assms(1) by (simp add: identity_evolves_def)
  moreover have "ses_tokenHash y = ses_tokenHash x" if "same_session x y" for x y
    using that by (simp add: same_session_def)
  ultimately show ?thesis using assms(2) find_rows_evolve [where key = ses_tokenHash] by blast
qed

lemma revoked_by_reset:
  assumes "List.find (\<lambda>x. ses_tokenHash x = h) xs = Some ses" and "ses_userId ses = uid"
  shows "\<exists>ses'. List.find (\<lambda>x. ses_tokenHash x = h)
     (update_where (\<lambda>x. ses_userId x = uid \<and> ses_revokedAt x = None \<and> (truthy None \<longrightarrow> Some (ses_id x) \<noteq> None))
        (\<lambda>x. x\<lparr>ses_revokedAt := Some now\<rparr>) xs) = Some ses' \<and> ses_revokedAt ses' \<noteq> None"
proof -
  have "List.find (\<lambda>x. ses_tokenHash x = h)
     (update_where (\<lambda>x. ses_userId x = uid \<and> ses_revokedAt x = None \<and> (truthy None \<longrightarrow> Some (ses_id x) \<noteq> None))
        (\<lambda>x. x\<lparr>ses_revokedAt := Some now\<rparr>) xs) =
     map_option (\<lambda>x. if ses_userId x = uid \<and> ses_revokedAt x = None \<and> (truthy None \<longrightarrow> Some (ses_id x) \<noteq> None)
        then x\<lparr>ses_revokedAt := Some now\<rparr> else x) (List.find (\<lambda>x. ses_tokenHash x = h) xs)"
    by (rule find_update_where_same) auto
  then show ?thesis using assms by auto
qed

text \<open>C10: a successful password reset ends every session the user had, for good: whatever the
  authentication routes do afterwards, in any order, at any time and for any client, the guard
  refuses every token issued to the user before the reset.\<close>
theorem password_reset_signs_out:
  assumes reset: "post_reset S now body s = (Inr (), s1)"
    and body: "resetPasswordSchema (Some body) = Some (token, newPassword)"
    and token: "verifyOneTimeToken (server_crypto S) now Password_reset token = Inr payload"
      "claim ''userId'' payload = Some uid"
    and ses: "List.find (\<lambda>x. ses_tokenHash x = sha256Hex (server_crypto S) tok) (sessions s) = Some ses" "ses_userId ses = uid"
    and steps: "(auth_step S)\<^sup>*\<^sup>* (s1, w) (t, w')"
    and req: "rawToken req = Some tok" "tok \<noteq> []"
  shows "session_guard (sha256Hex (server_crypto S)) later False req t anonymous =
     Inl (Unauthorized ''Session expired or revoked'')"
proof -
  have "sessions s1 = update_where
      (\<lambda>x. ses_userId x = uid \<and> ses_revokedAt x = None \<and> (truthy None \<longrightarrow> Some (ses_id x) \<noteq> None))
      (\<lambda>x. x\<lparr>ses_revokedAt := Some now\<rparr>) (sessions s)"
    using reset token
    by (auto simp: post_reset_def validate_def body resetPassword_def update_user_def revokeAllSessionsForUser_def
        Let_def split: if_splits)
  then obtain ses1 where "List.find (\<lambda>x. ses_tokenHash x = sha256Hex (server_crypto S) tok) (sessions s1) = Some ses1"
    "ses_revokedAt ses1 \<noteq> None"
    using revoked_by_reset [OF ses, of now] by auto
  moreover have "identity_evolves s1 t" using auth_steps_evolve [OF steps] by simp
  ultimately obtain ses2 where "List.find (\<lambda>x. ses_tokenHash x = sha256Hex (server_crypto S) tok) (sessions t) = Some ses2"
    "ses_revokedAt ses2 \<noteq> None"
    using session_of_token_evolves unfolding same_session_def by blast
  then show ?thesis using guard_rejects [OF req] by blast
qed

text \<open>the token a sign-in returns opens exactly its own session: right after the sign-in the
  guard admits it until the expiry announced with it and not later, as the user who signed in; and
  whatever the routes do afterwards it never opens another session, never acts for another user and
  never outlives that expiry.\<close>
theorem issued_token_opens_its_session:
  assumes random: "length (cr_random (server_crypto S) 32 (seq s)) = 32"
    and issued: "respondWithSession S now cl u s = (Inr r, s1)" and user: "find_user (usr_id u) s = Some u0"
    and steps: "(auth_step S)\<^sup>*\<^sup>* (s1, w) (t, w')"
    and req: "rawToken req = Some (sre_sessionToken r)"
  shows "session_guard (sha256Hex (server_crypto S)) later False req s1 anonymous =
       (if later \<le> now + ac_SESSION_TTL_MINUTES (as_config S) * 60000
        then Inr \<lparr>ctx_user = Some u0, ctx_sessionId = Some (uuid (as_env S) (seq s)), ctx_membership = None\<rparr>
        else Inl (Unauthorized ''Session expired or revoked'')) \<and>
     sre_sessionExpiresAt r = now + ac_SESSION_TTL_MINUTES (as_config S) * 60000 \<and>
     (session_guard (sha256Hex (server_crypto S)) later False req t anonymous = Inr ctx \<longrightarrow>
        later \<le> sre_sessionExpiresAt r \<and> ctx_sessionId ctx = Some (uuid (as_env S) (seq s)) \<and>
        (\<exists>u'. ctx_user ctx = Some u' \<and> usr_id u' = usr_id u))"
proof -
  let ?sha = "sha256Hex (server_crypto S)"
  let ?tok = "hex (cr_random (server_crypto S) 32 (seq s))"
  let ?exp = "now + ac_SESSION_TTL_MINUTES (as_config S) * 60000"
  have fresh: "\<not> taken ses_tokenHash (?sha ?tok) (sessions s)"
    and r: "sre_sessionToken r = ?tok" "sre_sessionExpiresAt r = ?exp" "users s1 = users s"
    and row: "\<exists>ses. sessions s1 = sessions s @ [ses] \<and> ses_tokenHash ses = ?sha ?tok \<and>
       ses_id ses = uuid (as_env S) (seq s) \<and> ses_userId ses = usr_id u \<and> ses_expiresAt ses = ?exp \<and>
       ses_revokedAt ses = None"
    using issued
    by (auto simp: respondWithSession_def issueSession_def createSession_def Let_def split: if_splits)
  have "List.find (\<lambda>x. ses_tokenHash x = ?sha ?tok) (sessions s) = None"
    using fresh by (simp add: table_simps find_None_iff)
  then have new: "\<exists>ses. List.find (\<lambda>x. ses_tokenHash x = ?sha ?tok) (sessions s1) = Some ses \<and>
       ses_id ses = uuid (as_env S) (seq s) \<and> ses_userId ses = usr_id u \<and> ses_expiresAt ses = ?exp \<and>
       ses_revokedAt ses = None"
    using row by auto
  obtain ses where ses: "List.find (\<lambda>x. ses_tokenHash x = ?sha ?tok) (sessions s1) = Some ses"
    "ses_id ses = uuid (as_env S) (seq s)" "ses_userId ses = usr_id u" "ses_expiresAt ses = ?exp" "ses_revokedAt ses = None"
    using new by blast
  have tok: "?tok \<noteq> []" using random by auto
  have now: "session_guard ?sha later False req s1 anonymous =
      (if later \<le> ?exp
       then Inr \<lparr>ctx_user = Some u0, ctx_sessionId = Some (uuid (as_env S) (seq s)), ctx_membership = None\<rparr>
       else Inl (Unauthorized ''Session expired or revoked''))"
    using tok ses user req r
    by (cases ?tok) (auto simp: session_guard_def find_user_def anonymous_def)
  have "identity_evolves s1 t" using auth_steps_evolve [OF steps] by simp
  from session_of_token_evolves [OF this ses(1)]
  obtain ses' where "List.find (\<lambda>x. ses_tokenHash x = ?sha ?tok) (sessions t) = Some ses'" "same_session ses ses'"
    by blast
  then have "session_guard ?sha later False req t anonymous = Inr ctx \<longrightarrow>
        later \<le> sre_sessionExpiresAt r \<and> ctx_sessionId ctx = Some (uuid (as_env S) (seq s)) \<and>
        (\<exists>u'. ctx_user ctx = Some u' \<and> usr_id u' = usr_id u)"
    using guard_admits [OF req, of ?sha t ses' later ctx] tok ses r by (auto simp: same_session_def)
  with now r show ?thesis by blast
qed


section \<open>Linked identities\<close>

lemma linkOrCreate_cases:
  assumes "linkOrCreateUserForIdentity E A now p pid s = (Inr u, s1)"
  shows "(\<exists>acc\<in>set (identityProviderAccounts s). ida_provider acc = p \<and> ida_providerSubject acc = pid_subject pid \<and>
        ida_userId acc = usr_id u) \<or>
     (u \<in> set (users s) \<and> pid_email pid = Some (usr_email u) \<and> pid_emailVerified pid \<and> usr_emailVerifiedAt u \<noteq> None) \<or>
     (u \<notin> set (users s) \<and> \<not> taken usr_email (usr_email u) (users s))"
proof (cases "List.find (\<lambda>x. ida_provider x = p \<and> ida_providerSubject x = pid_subject pid) (identityProviderAccounts s)")
  case (Some acc)
  then show ?thesis using assms
    by (auto simp: linkOrCreateUserForIdentity_def find_user_def split: option.splits dest!: find_SomeD)
next
  case none: None
  show ?thesis
  proof (cases "safe_candidate pid s")
    case (Some c)
    then have "c = u" using assms none by (simp add: linkOrCreateUserForIdentity_def)
    moreover have "c \<in> set (users s) \<and> pid_email pid = Some (usr_email c) \<and> pid_emailVerified pid \<and> usr_emailVerifiedAt c \<noteq> None"
      using Some by (cases "pid_email pid")
        (auto simp: safe_candidate_def find_email_def split: if_splits option.splits dest!: find_SomeD)
    ultimately show ?thesis by blast
  next
    case None
    then have "\<not> taken usr_email (usr_email u) (users s)"
      using assms none by (auto simp: linkOrCreateUserForIdentity_def Let_def split: if_splits)
    then show ?thesis by (auto simp: table_simps)
  qed
qed

text \<open>After a sign-in the subject is linked to the user it signed in.\<close>

lemma linkOrCreate_linked:
  assumes "linkOrCreateUserForIdentity E A now p pid s = (Inr u, s1)"
  shows "\<exists>acc u0. List.find (\<lambda>x. (ida_provider x, ida_providerSubject x) = (p, pid_subject pid)) (identityProviderAccounts s1) = Some acc \<and>
     ida_userId acc = usr_id u \<and> List.find (\<lambda>x. usr_id x = usr_id u) (users s1) = Some u0"
proof (cases "List.find (\<lambda>x. ida_provider x = p \<and> ida_providerSubject x = pid_subject pid) (identityProviderAccounts s)")
  case (Some acc)
  then have s1: "s1 = refresh_account A pid acc s" and u: "find_user (ida_userId acc) s = Some u"
    using assms by (auto simp: linkOrCreateUserForIdentity_def split: option.splits)
  have "rows_evolve same_account (identityProviderAccounts s) (identityProviderAccounts s1)" "users s1 = users s"
    using refresh_account_evolves [of s A pid acc] by (auto simp: s1 identity_evolves_def) (simp add: refresh_account_def)
  moreover have "(ida_provider y, ida_providerSubject y) = (ida_provider x, ida_providerSubject x)" if "same_account x y" for x y
    using that by (simp add: same_account_def)
  ultimately obtain acc' where "List.find (\<lambda>x. (ida_provider x, ida_providerSubject x) = (p, pid_subject pid))
      (identityProviderAccounts s1) = Some acc'" "same_account acc acc'"
    using Some find_rows_evolve [where key = "\<lambda>x. (ida_provider x, ida_providerSubject x)" and keep = same_account] by fastforce
  moreover have "ida_userId acc = usr_id u" using u by (auto simp: find_user_def dest: find_SomeD)
  ultimately show ?thesis using u \<open>users s1 = users s\<close> by (auto simp: same_account_def find_user_def)
next
  case None
  then have "\<exists>s0. s1 = link_account E A p pid u s0 \<and> identityProviderAccounts s0 = identityProviderAccounts s \<and>
      taken usr_id (usr_id u) (users s0)"
    using assms
    by (auto simp: linkOrCreateUserForIdentity_def Let_def table_simps safe_candidate_def find_email_def
        split: option.splits if_splits dest!: find_SomeD)
  then obtain s0 where s0: "s1 = link_account E A p pid u s0" "identityProviderAccounts s0 = identityProviderAccounts s"
    "taken usr_id (usr_id u) (users s0)" by blast
  then have "users s1 = users s0" by (simp add: link_account_def Let_def)
  moreover have "\<exists>u0. List.find (\<lambda>x. usr_id x = usr_id u) (users s0) = Some u0"
    using s0(3) by (auto simp: table_simps find_None_iff not_None_eq [symmetric] simp del: not_None_eq)
  ultimately show ?thesis using None s0 by (auto simp: link_account_def Let_def)
qed

text \<open>C27: a provider identity signs in as the owner of the account its subject is linked to, and
  else as an existing user only when the provider vouches for the address and the user verified the
  same address, and otherwise as a new user whose address nobody had; and the link is durable: after
  any further authentication requests the same subject signs in as the same user, whatever address
  the provider then reports.\<close>
theorem linked_identity_is_durable:
  assumes first: "linkOrCreateUserForIdentity E A now p pid s = (Inr u, s1)"
    and steps: "(auth_step S)\<^sup>*\<^sup>* (s1, w) (t, w')" and again: "pid_subject pid' = pid_subject pid"
  shows "((\<exists>acc\<in>set (identityProviderAccounts s). ida_provider acc = p \<and> ida_providerSubject acc = pid_subject pid \<and>
        ida_userId acc = usr_id u) \<or>
      (u \<in> set (users s) \<and> pid_email pid = Some (usr_email u) \<and> pid_emailVerified pid \<and> usr_emailVerifiedAt u \<noteq> None) \<or>
      (u \<notin> set (users s) \<and> \<not> taken usr_email (usr_email u) (users s))) \<and>
    (\<exists>u'. fst (linkOrCreateUserForIdentity E A later p pid' t) = Inr u' \<and> usr_id u' = usr_id u)"
proof -
  have ev: "rows_evolve same_account (identityProviderAccounts s1) (identityProviderAccounts t)"
    "rows_evolve same_user (users s1) (users t)"
    using auth_steps_evolve [OF steps] by (simp_all add: identity_evolves_def)
  obtain acc u0 where acc: "List.find (\<lambda>x. (ida_provider x, ida_providerSubject x) = (p, pid_subject pid))
       (identityProviderAccounts s1) = Some acc" "ida_userId acc = usr_id u"
    and u0: "List.find (\<lambda>x. usr_id x = usr_id u) (users s1) = Some u0"
    using linkOrCreate_linked [OF first] by blast
  have "(ida_provider y, ida_providerSubject y) = (ida_provider x, ida_providerSubject x)" if "same_account x y" for x y
    using that by (simp add: same_account_def)
  from find_rows_evolve [where key = "\<lambda>x. (ida_provider x, ida_providerSubject x)", OF ev(1) this acc(1)]
  obtain acc' where acc': "List.find (\<lambda>x. ida_provider x = p \<and> ida_providerSubject x = pid_subject pid)
      (identityProviderAccounts t) = Some acc'" "ida_userId acc' = usr_id u"
    using acc(2) by (auto simp: same_account_def)
  have "usr_id y = usr_id x" if "same_user x y" for x y using that by (simp add: same_user_def)
  from find_rows_evolve [where key = usr_id, OF ev(2) this u0]
  obtain u' where u': "List.find (\<lambda>x. usr_id x = usr_id u) (users t) = Some u'" by blast
  then have "usr_id u' = usr_id u" by (auto dest: find_SomeD)
  with acc' u' again linkOrCreate_cases [OF first] show ?thesis
    by (simp add: linkOrCreateUserForIdentity_def find_user_def)
qed

section \<open>Where the second factor and the callbacks fall short\<close>

lemma length_hex: "length (hex s) = 2 * length s"
  by (induction s) (auto simp: hex_def Let_def)

text \<open>The recovery codes an enrollment hands out can never be used: the sign-in route takes six
  digits only, a recovery code has ten, so the request fails with the validation library's error,
  before the challenge is looked at and without changing anything.\<close>
theorem recovery_codes_never_accepted:
  assumes enrolled: "enrollMfa S u s = (Inr (url, codes), s1)" and code: "code \<in> set codes"
    and random: "\<forall>n i. length (cr_random (server_crypto S) n i) = n"
    and body: "js_field ''code'' body = Some (JStr code)"
  shows "verifyMfaLogin S now body cl t = (Inl (ServerError ''ZodError''), t)"
proof -
  have "codes = enr_recoveryCodes (generateEnrollment (server_crypto S) (seq s) (usr_email u))"
    using enrolled by (auto simp: enrollMfa_def Let_def split: prod.splits sum.splits)
  then have "length code = 10" using code random by (auto simp: generateEnrollment_def Let_def length_hex)
  then have "verifyMfaSchema (Some (JObj [(''code'', JStr code)])) = None"
    by (simp add: verifyMfaSchema_def z_object_def z_check_def z_length_def)
  then show ?thesis by (simp add: verifyMfaLogin_def body)
qed

text \<open>An address the provider verified and a local account has not ends in a unique violation, an
  internal error for the user.\<close>

lemma unverified_account_blocks_provider:
  assumes "List.find (\<lambda>x. ida_provider x = p \<and> ida_providerSubject x = pid_subject pid) (identityProviderAccounts s) = None"
    and "find_email e s = Some c" and "usr_emailVerifiedAt c = None" and "pid_email pid = Some e"
  shows "linkOrCreateUserForIdentity E A now p pid s = (Inl (UniqueViolation ''email''), s)"
proof -
  have "taken usr_email e (users s)" using assms(2) by (auto simp: find_email_def table_simps dest: find_SomeD)
  moreover have "safe_candidate pid s = None" using assms(2-4) by (simp add: safe_candidate_def)
  ultimately show ?thesis
    using assms(1,4) by (simp add: linkOrCreateUserForIdentity_def Let_def new_user_def identity_email_def)
qed

text \<open>A browser does not send a \<open>SameSite=Lax\<close> cookie with the provider's cross-site POST, and
  without the cookie the callback fails.\<close>

lemma apple_callback_without_cookie:
  assumes "map_of (cl_cookies cl) ''sm_oauth_apple'' = None"
  shows "appleCallback S now code state cl s w = (Inl (ServerError ''Missing OAuth handshake cookie''), s, w)"
  using assms
  by (simp add: appleCallback_def consume_cookie_def handshake_consume_def OAUTH_HANDSHAKE_COOKIE_PREFIX_def)

text \<open>Once the last recovery code is used the stored list is unreadable.\<close>

lemma last_recovery_code_breaks:
  assumes laws: "crypto_laws C" and sha: "\<forall>s. cr_sha256 C s \<noteq> []"
  shows "(let stored = snd (verifyRecoveryCode C (hashRecoveryCodes C [code]) code)
     in decrypt C key (encrypt C key draw stored)) = Inl (ServerError ''Malformed encrypted payload'')"
  by (simp add: verifyRecoveryCode_spec [OF sha] decrypt_encrypt [OF laws])

text \<open>A magic link signs in a user with a second factor without asking for it.\<close>

lemma magic_link_skips_second_factor:
  assumes "verifyOneTimeToken (ac_crypto A) now Magic_link token = Inr payload" and "claim ''email'' payload = Some e"
    and "find_email e s = Some u" and "usr_mfaEnabled u" and "usr_emailVerifiedAt u \<noteq> None"
  shows "consumeMagicLink E A now token s = (Inr u, s)"
  using assms by (auto simp: consumeMagicLink_def)


section \<open>A concrete deployment\<close>

definition demo_crypto :: crypto where
  "demo_crypto = \<lparr>cr_sha256 = id, cr_random = (\<lambda>n i. replicate n (CHR ''r'')),
     cr_gcm_encrypt = (\<lambda>k iv p. (replicate 16 (CHR ''t''), p)), cr_gcm_decrypt = (\<lambda>k iv tag d. Some d),
     cr_argon2_hash = (\<lambda>i p. p), cr_argon2_verify = (\<lambda>h p. Some (p = h)), cr_totp_secret = (\<lambda>i. ''secret''),
     cr_totp_check = (\<lambda>now code secret. code = ''123456''), cr_keyuri = (\<lambda>l i secret. secret),
     cr_jwt_sign = (\<lambda>p iat exp. ''jwt''),
     cr_jwt_verify = (\<lambda>now tok. if tok = ''jwt''
        then Some [(''purpose'', JStr ''password_reset''), (''userId'', JStr ''u1'')] else None)\<rparr>"

definition demo_env :: env where
  "demo_env = \<lparr>uuid = nat_str, nanoid32 = nat_str, dec_round = id, dec_places = (\<lambda>n x. x), dec_text = (\<lambda>n x. []),
     dec_col = id, appUrl = ''https://pos.test''\<rparr>"

definition demo_server :: "unit auth_server" where
  "demo_server = \<lparr>as_env = demo_env,
     as_config = \<lparr>ac_crypto = demo_crypto, ac_key = ''key'', ac_MAGIC_LINK_TTL_MINUTES = 15, ac_SESSION_TTL_MINUTES = 60\<rparr>,
     as_oauth = \<lparr>oe_GOOGLE_CLIENT_ID = None, oe_GOOGLE_CLIENT_SECRET = None, oe_GOOGLE_REDIRECT_URI = None,
       oe_APPLE_CLIENT_ID = None, oe_APPLE_TEAM_ID = None, oe_APPLE_KEY_ID = None, oe_APPLE_PRIVATE_KEY_BASE64 = None,
       oe_APPLE_REDIRECT_URI = None\<rparr>,
     as_formats = \<lparr>fm_email = (\<lambda>_. True), fm_uuid = (\<lambda>_. True), fm_url = (\<lambda>_. True), fm_date = (\<lambda>_. None)\<rparr>,
     as_json = \<lparr>js_stringify = (\<lambda>_. []), js_parse = (\<lambda>_. None)\<rparr>,
     as_mail = ConsoleEmailAdapter (\<lambda>_ w. w), as_fetch = (\<lambda>_ w. (Inl (ServerError ''offline''), w)),
     as_jwtVerify = (\<lambda>_ _ _ _ w. (Inl (ServerError ''offline''), w)), as_sign = (\<lambda>_ _ _ _ _. Inl (ServerError ''no key'')),
     as_NODE_ENV = ''production''\<rparr>"

lemma demo_server_simps [simp]:
  "ac_crypto (as_config demo_server) = demo_crypto" "as_env demo_server = demo_env"
  "ac_SESSION_TTL_MINUTES (as_config demo_server) = 60"
  "cr_random demo_crypto n i = replicate n (CHR ''r'')" "uuid demo_env = nat_str"
  by (simp_all add: demo_server_def demo_crypto_def demo_env_def)

definition demo_client :: client where
  "demo_client = \<lparr>cl_ip = None, cl_userAgent = None, cl_cookies = []\<rparr>"

definition demo_auth_db :: db where
  "demo_auth_db = empty_db\<lparr>users := [demo_user ''u1'' False],
     sessions := [(demo_session ''u1'' (sha256Hex demo_crypto ''tok1''))]\<rparr>"

lemma demo_auth_db_simps [simp]:
  "users demo_auth_db = [demo_user ''u1'' False]"
  "sessions demo_auth_db = [demo_session ''u1'' (sha256Hex demo_crypto ''tok1'')]"
  "identityProviderAccounts demo_auth_db = []" "seq demo_auth_db = 0"
  by (simp_all add: demo_auth_db_def empty_db_def)

definition demo_reset :: json where
  "demo_reset = JObj [(''token'', JStr ''jwt''), (''newPassword'', JStr ''correct horse'')]"

lemma demo_reset_parsed: "resetPasswordSchema (Some demo_reset) = Some (''jwt'', ''correct horse'')"
  by (simp add: resetPasswordSchema_def demo_reset_def z_object_def z_min_def z_max_def z_check_def js_length_def)

lemma demo_reset_token:
  "verifyOneTimeToken demo_crypto now Password_reset ''jwt'' =
     Inr [(''purpose'', JStr ''password_reset''), (''userId'', JStr ''u1'')]"
  by (simp add: verifyOneTimeToken_def demo_crypto_def)

lemma demo_reset_claim: "claim ''userId'' [(''purpose'', JStr ''password_reset''), (''userId'', JStr ''u1'')] = Some ''u1''"
  by (simp add: claim_def)

lemma demo_reset_done: "\<exists>s1. post_reset demo_server 5 demo_reset demo_auth_db = (Inr (), s1)"
  using demo_reset_token
  by (simp add: post_reset_def validate_def demo_reset_parsed resetPassword_def update_user_def claim_def Let_def)

theorem password_reset_signs_out_witness:
  "\<exists>s1 t w. post_reset demo_server 5 demo_reset demo_auth_db = (Inr (), s1) \<and>
     auth_handle demo_server 10 (demo_request ''tok1'' ''t1'') demo_client (VerifyEmail ''jwt'') (s1, ()) = (t, w) \<and>
     session_guard (sha256Hex demo_crypto) 60 False (demo_request ''tok1'' ''t1'') t anonymous =
       Inl (Unauthorized ''Session expired or revoked'')"
proof -
  obtain s1 where s1: "post_reset demo_server 5 demo_reset demo_auth_db = (Inr (), s1)" using demo_reset_done by blast
  obtain t w where t: "auth_handle demo_server 10 (demo_request ''tok1'' ''t1'') demo_client (VerifyEmail ''jwt'') (s1, ()) = (t, w)"
    by (metis prod.exhaust)
  have steps: "(auth_step demo_server)\<^sup>*\<^sup>* (s1, ()) (t, w)"
    using auth_step.handled [of demo_server "(s1, ())"] t by (metis r_into_rtranclp)
  have tok: "rawToken (demo_request ''tok1'' ''t1'') = Some ''tok1''"
    by (simp add: demo_request_def rawToken_def extractBearerToken_def startsWith_def)
  have "session_guard (sha256Hex (server_crypto demo_server)) 60 False (demo_request ''tok1'' ''t1'') t anonymous =
      Inl (Unauthorized ''Session expired or revoked'')"
    by (rule password_reset_signs_out [where ses = "demo_session ''u1'' (sha256Hex demo_crypto ''tok1'')",
          OF s1 demo_reset_parsed _ demo_reset_claim _ _ steps tok])
       (simp_all add: demo_reset_token)
  with s1 t show ?thesis by auto
qed

theorem issued_token_opens_its_session_witness:
  "\<exists>r s1. respondWithSession demo_server 5 demo_client (demo_user ''u1'' False) demo_auth_db = (Inr r, s1) \<and>
     session_guard (sha256Hex demo_crypto) 3600005 False (demo_request (sre_sessionToken r) ''t1'') s1 anonymous =
       Inr \<lparr>ctx_user = Some (demo_user ''u1'' False), ctx_sessionId = Some (nat_str 0), ctx_membership = None\<rparr> \<and>
     session_guard (sha256Hex demo_crypto) 3600006 False (demo_request (sre_sessionToken r) ''t1'') s1 anonymous =
       Inl (Unauthorized ''Session expired or revoked'')"
proof -
  have "length (sha256Hex demo_crypto (hex (replicate 32 (CHR ''r'')))) = 128"
    "length (sha256Hex demo_crypto ''tok1'') = 8"
    by (simp_all only: sha256Hex_def length_hex) (simp_all add: demo_crypto_def length_hex)
  then have "sha256Hex demo_crypto ''tok1'' \<noteq> sha256Hex demo_crypto (hex (replicate 32 (CHR ''r'')))" by auto
  then obtain r s1 where rs: "respondWithSession demo_server 5 demo_client (demo_user ''u1'' False) demo_auth_db = (Inr r, s1)"
    by (simp add: respondWithSession_def issueSession_def createSession_def Let_def)
  have random: "length (cr_random (ac_crypto (as_config demo_server)) 32 (seq demo_auth_db)) = 32" by simp
  have user: "find_user (usr_id (demo_user ''u1'' False)) demo_auth_db = Some (demo_user ''u1'' False)"
    by (simp add: find_user_def)
  have "rawToken (demo_request (sre_sessionToken r) ''t1'') = Some (sre_sessionToken r)"
    by (simp add: demo_request_def rawToken_def extractBearerToken_def startsWith_def)
  from issued_token_opens_its_session [OF random rs user rtranclp.rtrancl_refl this, of 3600005]
    issued_token_opens_its_session [OF random rs user rtranclp.rtrancl_refl this, of 3600006] rs
  show ?thesis by simp
qed


definition demo_pid :: "string option \<Rightarrow> provider_identity" where
  "demo_pid email = \<lparr>pid_subject = ''sub-1'', pid_email = email, pid_emailVerified = True, pid_name = None,
     pid_isPrivateRelayEmail = False, pid_rawAccessToken = None, pid_rawRefreshToken = None, pid_tokenExpiresAt = None\<rparr>"

lemma demo_link: "\<exists>s1. linkOrCreateUserForIdentity demo_env (as_config demo_server) 5 GOOGLE (demo_pid (Some ''u1@acme.test'')) demo_auth_db
     = (Inr (demo_user ''u1'' False), s1)"
  by (simp add: linkOrCreateUserForIdentity_def demo_pid_def safe_candidate_def find_email_def demo_user_def)

theorem linked_identity_is_durable_witness:
  "\<exists>s1 t w u'. linkOrCreateUserForIdentity demo_env (as_config demo_server) 5 GOOGLE (demo_pid (Some ''u1@acme.test'')) demo_auth_db
       = (Inr (demo_user ''u1'' False), s1) \<and>
     auth_handle demo_server 10 (demo_request ''tok1'' ''t1'') demo_client DisableMfa (s1, ()) = (t, w) \<and>
     fst (linkOrCreateUserForIdentity demo_env (as_config demo_server) 20 GOOGLE (demo_pid None) t) = Inr u' \<and>
     usr_id u' = ''u1''"
proof -
  obtain s1 where s1: "linkOrCreateUserForIdentity demo_env (as_config demo_server) 5 GOOGLE (demo_pid (Some ''u1@acme.test''))
      demo_auth_db = (Inr (demo_user ''u1'' False), s1)" using demo_link by blast
  obtain t w where t: "auth_handle demo_server 10 (demo_request ''tok1'' ''t1'') demo_client DisableMfa (s1, ()) = (t, w)"
    by (metis prod.exhaust)
  have steps: "(auth_step demo_server)\<^sup>*\<^sup>* (s1, ()) (t, w)"
    using auth_step.handled [of demo_server "(s1, ())"] t by (metis r_into_rtranclp)
  have same: "pid_subject (demo_pid None) = pid_subject (demo_pid (Some ''u1@acme.test''))" by (simp add: demo_pid_def)
  from linked_identity_is_durable [OF s1 steps same] s1 t show ?thesis by fastforce
qed

definition demo_code_body :: json where
  "demo_code_body = JObj [(''mfaChallengeToken'', JStr ''jwt''), (''code'', JStr (hex (replicate 5 (CHR ''r''))))]"

theorem recovery_codes_never_accepted_witness:
  "\<exists>url codes s1. enrollMfa demo_server (demo_user ''u1'' False) demo_auth_db = (Inr (url, codes), s1) \<and>
     hex (replicate 5 (CHR ''r'')) \<in> set codes \<and>
     verifyMfaLogin demo_server 10 demo_code_body demo_client s1 = (Inl (ServerError ''ZodError''), s1)"
proof -
  obtain url codes s1 where e: "enrollMfa demo_server (demo_user ''u1'' False) demo_auth_db = (Inr (url, codes), s1)"
    "codes = enr_recoveryCodes (generateEnrollment demo_crypto 0 (usr_email (demo_user ''u1'' False)))"
    by (simp add: enrollMfa_def update_user_def Let_def)
  then have c: "hex (replicate 5 (CHR ''r'')) \<in> set codes" by (auto simp: generateEnrollment_def Let_def intro!: image_eqI [of _ _ 0])
  have b: "js_field ''code'' demo_code_body = Some (JStr (hex (replicate 5 (CHR ''r''))))"
    by (simp add: demo_code_body_def js_field_def)
  from recovery_codes_never_accepted [OF e(1) c _ b] e c show ?thesis by auto
qed

end
