(* ===== verification/Connectors.thy ===== *)
theory Connectors
  imports Crypto
begin

text \<open>
  \<open>packages/integrations/src\<close>: the canonical commerce models, the retry helper, the dot-path field
  mapping, the universal REST connector and its WooCommerce configuration. The network is the
  parameter \<open>fetch\<close>, waiting is \<open>sleep\<close>, both acting on the outside world \<open>'w\<close>; the
  keyed hash of the webhook signature is \<open>hmac\<close>.
\<close>

section \<open>Canonical models (\<open>types.ts\<close>)\<close>

record canonical_money =
  cm_amount :: string
  cm_currencyCode :: string

record canonical_variant =
  cv_externalId :: string
  cv_sku :: string
  cv_barcode :: "string option"
  cv_price :: canonical_money
  cv_inventoryQuantity :: "rat option"
  cv_attributes :: "(string \<times> string) list"

record canonical_product =
  cp_externalId :: string
  cp_name :: string
  cp_description :: "string option"
  cp_images :: json
  cp_variants :: "canonical_variant list"

record canonical_order_line =
  cl_externalProductId :: "string option"
  cl_externalVariantId :: "string option"
  cl_sku :: "string option"
  cl_name :: string
  cl_quantity :: "rat option"
  cl_unitPrice :: canonical_money

datatype canonical_order_status = OrdOPEN | OrdPAID | OrdFULFILLED | OrdCANCELLED | OrdREFUNDED

record canonical_order =
  co_externalId :: string
  co_orderNumber :: string
  co_status :: canonical_order_status
  co_currencyCode :: string
  co_subtotal :: canonical_money
  co_taxTotal :: canonical_money
  co_shippingTotal :: canonical_money
  co_total :: canonical_money
  co_lines :: "canonical_order_line list"
  co_customerEmail :: "string option"
  co_createdAt :: string

record canonical_customer =
  cc_externalId :: string
  cc_name :: string
  cc_email :: "string option"
  cc_phone :: "string option"

datatype commerce_event = ProductUpdated canonical_product | OrderCreated canonical_order | OrderUpdated canonical_order
  | OrderCancelled string | CustomerUpdated canonical_customer

type_synonym credentials = "(string \<times> string) list"

record 'a page_result =
  pg_items :: "'a list"
  pg_nextCursor :: "string option"

record health_result =
  he_healthy :: bool
  he_message :: "string option"

record connection_result =
  cr_externalAccountId :: string
  cr_credentials :: credentials

record inventory_update =
  iu_externalVariantId :: string
  iu_quantity :: int

record push_result =
  ps_succeeded :: "string list"
  ps_failed :: "(string \<times> string) list"

record raw_webhook =
  rw_headers :: "(string \<times> string) list"
  rw_rawBody :: string

record verified_webhook =
  vw_eventId :: string
  vw_eventType :: string
  vw_payload :: json

text \<open>The contract every connector implements.\<close>

record 'w connector =
  cn_providerName :: string
  cn_authorize :: "credentials \<Rightarrow> 'w \<Rightarrow> (error + connection_result) \<times> 'w"
  cn_testConnection :: "credentials \<Rightarrow> 'w \<Rightarrow> health_result \<times> 'w"
  cn_pullProducts :: "credentials \<Rightarrow> string option \<Rightarrow> 'w \<Rightarrow> (error + canonical_product page_result) \<times> 'w"
  cn_pushProduct :: "'w \<Rightarrow> (error + string) \<times> 'w"
  cn_pullOrders :: "credentials \<Rightarrow> string option \<Rightarrow> 'w \<Rightarrow> (error + canonical_order page_result) \<times> 'w"
  cn_pushInventory :: "credentials \<Rightarrow> inventory_update list \<Rightarrow> 'w \<Rightarrow> push_result \<times> 'w"
  cn_registerWebhooks :: "credentials \<Rightarrow> string \<Rightarrow> 'w \<Rightarrow> (error + string list) \<times> 'w"
  cn_verifyWebhook :: "credentials \<Rightarrow> int \<Rightarrow> raw_webhook \<Rightarrow> error + verified_webhook"
  cn_normalize :: "int \<Rightarrow> json \<Rightarrow> error + commerce_event list"

text \<open>\<open>err.message\<close> of an error.\<close>

fun error_message :: "error \<Rightarrow> string" where
  "error_message (BadRequest m) = m"
| "error_message (NotFound m) = m"
| "error_message (Forbidden m) = m"
| "error_message (Unauthorized m) = m"
| "error_message (ServerError m) = m"
| "error_message (UniqueViolation m) = m"
| "error_message (ForeignKeyViolation m) = m"
| "error_message (RecordNotFound m) = m"

section \<open>Retry (\<open>retry.ts\<close>)\<close>

definition isRetryableHttpStatus :: "nat \<Rightarrow> bool" where
  "isRetryableHttpStatus status \<longleftrightarrow> status = 429 \<or> 500 \<le> status"

text \<open>The loop of \<open>withRetry\<close> from an attempt on; \<open>left\<close> counts the attempts not yet made.\<close>

fun retry_from ::
  "nat \<Rightarrow> nat \<Rightarrow> (nat \<Rightarrow> 'w \<Rightarrow> 'w) \<Rightarrow> (nat \<Rightarrow> 'w \<Rightarrow> (error + 'a) \<times> 'w) \<Rightarrow> nat \<Rightarrow> error option \<Rightarrow> nat \<Rightarrow> 'w
    \<Rightarrow> (error + 'a) \<times> 'w" where
  "retry_from maxAttempts baseDelayMs sleep fn attempt lastError 0 w =
     (Inl (ServerError (''Retry exhausted after '' @ nat_str maxAttempts @ '' attempts: '' @
        (case lastError of Some e \<Rightarrow> error_message e | None \<Rightarrow> ''undefined''))), w)"
| "retry_from maxAttempts baseDelayMs sleep fn attempt lastError (Suc left) w =
     (case fn attempt w of
        (Inr x, w1) \<Rightarrow> (Inr x, w1)
      | (Inl e, w1) \<Rightarrow>
          retry_from maxAttempts baseDelayMs sleep fn (Suc attempt) (Some e) left
            (if attempt < maxAttempts then sleep (baseDelayMs * 2 ^ (attempt - 1)) w1 else w1))"

definition withRetry ::
  "nat \<Rightarrow> nat \<Rightarrow> (nat \<Rightarrow> 'w \<Rightarrow> 'w) \<Rightarrow> (nat \<Rightarrow> 'w \<Rightarrow> (error + 'a) \<times> 'w) \<Rightarrow> 'w \<Rightarrow> (error + 'a) \<times> 'w" where
  "withRetry maxAttempts baseDelayMs sleep fn w = retry_from maxAttempts baseDelayMs sleep fn 1 None maxAttempts w"

section \<open>Field mapping (\<open>field-mapping.ts\<close>)\<close>

text \<open>One step of a path: the own properties of objects, arrays and strings.\<close>

definition array_index :: "string \<Rightarrow> nat option" where
  "array_index key = (if key \<noteq> [] \<and> list_all is_digit key \<and> nat_str (digits_value key) = key
     then Some (digits_value key) else None)"

definition step_path :: "json option \<Rightarrow> string \<Rightarrow> json option" where
  "step_path acc key =
     (case acc of
        None \<Rightarrow> None
      | Some JNull \<Rightarrow> None
      | Some (JObj kvs) \<Rightarrow> map_of kvs key
      | Some (JArr js) \<Rightarrow>
          if key = ''*'' then Some (JArr js)
          else if key = ''length'' then Some (JNum (of_nat (length js)))
          else (case array_index key of Some i \<Rightarrow> if i < length js then Some (js ! i) else None | None \<Rightarrow> None)
      | Some (JStr s) \<Rightarrow>
          if key = ''length'' then Some (JNum (of_nat (js_length s)))
          else (case array_index key of Some i \<Rightarrow> if i < length s then Some (JStr [s ! i]) else None | None \<Rightarrow> None)
      | Some _ \<Rightarrow> None)"

definition getByPath :: "json option \<Rightarrow> string \<Rightarrow> json option" where
  "getByPath obj path = foldl step_path obj (split (CHR ''.'') path)"

definition nullish :: "json option \<Rightarrow> bool" where
  "nullish v \<longleftrightarrow> v = None \<or> v = Some JNull"

definition getStringByPath :: "json_lib \<Rightarrow> json option \<Rightarrow> string \<Rightarrow> string \<Rightarrow> string" where
  "getStringByPath J obj path fallback =
     (let v = getByPath obj path in if nullish v then fallback else js_String J (the v))"

definition getNumberByPath :: "json_lib \<Rightarrow> json option \<Rightarrow> string \<Rightarrow> rat \<Rightarrow> rat" where
  "getNumberByPath J obj path fallback =
     (case js_Number J (getByPath obj path) of Some x \<Rightarrow> x | None \<Rightarrow> fallback)"

section \<open>The universal REST connector (\<open>universal-rest-connector.ts\<close>)\<close>

record product_field_mapping =
  pm_externalId :: string
  pm_name :: string
  pm_description :: "string option"
  pm_images :: "string option"
  pm_variants :: string
  pm_variantExternalId :: string
  pm_variantSku :: string
  pm_variantBarcode :: "string option"
  pm_variantPrice :: string
  pm_variantCurrency :: "string option"
  pm_variantInventoryQuantity :: "string option"

record order_field_mapping =
  om_externalId :: string
  om_orderNumber :: string
  om_status :: string
  om_statusMap :: "(string \<times> canonical_order_status) list"
  om_currency :: string
  om_subtotal :: string
  om_taxTotal :: string
  om_shippingTotal :: string
  om_total :: string
  om_customerEmail :: "string option"
  om_createdAt :: string
  om_lines :: string
  om_lineName :: string
  om_lineQuantity :: string
  om_lineUnitPrice :: string
  om_lineSku :: "string option"

record 'w rest_config =
  urc_providerName :: string
  urc_baseUrl :: string
  urc_buildAuthHeaders :: "credentials \<Rightarrow> (string \<times> string) list"
  urc_listProducts :: string
  urc_listOrders :: string
  urc_updateInventory :: "string \<Rightarrow> string"
  urc_testConnection :: string
  urc_parsePage :: "json \<Rightarrow> (string \<times> string) list \<Rightarrow> string option \<Rightarrow> json page_result"
  urc_applyCursor :: "string \<Rightarrow> string \<Rightarrow> string"
  urc_productFieldMapping :: product_field_mapping
  urc_orderFieldMapping :: order_field_mapping
  urc_registerWebhooks :: "credentials \<Rightarrow> string \<Rightarrow> 'w \<Rightarrow> (error + string list) \<times> 'w"
  urc_verifyWebhook :: "credentials \<Rightarrow> int \<Rightarrow> raw_webhook \<Rightarrow> error + verified_webhook"
  urc_normalizeWebhookPayload :: "int \<Rightarrow> json \<Rightarrow> error + commerce_event list"
  urc_fetchImpl :: "'w fetch"

definition auth_headers :: "'w rest_config \<Rightarrow> credentials \<Rightarrow> (string \<times> string) list" where
  "auth_headers R cred = urc_buildAuthHeaders R cred @ [(''Accept'', ''application/json'')]"

definition rest_testConnection :: "'w rest_config \<Rightarrow> credentials \<Rightarrow> 'w \<Rightarrow> health_result \<times> 'w" where
  "rest_testConnection R cred w =
     (case urc_fetchImpl R \<lparr>hq_method = ''GET'', hq_url = urc_baseUrl R @ urc_testConnection R,
             hq_headers = auth_headers R cred, hq_body = None\<rparr> w of
        (Inl e, w1) \<Rightarrow> (\<lparr>he_healthy = False, he_message = Some (error_message e)\<rparr>, w1)
      | (Inr res, w1) \<Rightarrow>
          (if \<not> hr_ok res then \<lparr>he_healthy = False, he_message = Some (''HTTP '' @ nat_str (hr_status res))\<rparr>
           else \<lparr>he_healthy = True, he_message = None\<rparr>, w1))"

definition rest_authorize :: "'w rest_config \<Rightarrow> credentials \<Rightarrow> 'w \<Rightarrow> (error + connection_result) \<times> 'w" where
  "rest_authorize R cred w =
     (case rest_testConnection R cred w of
        (health, w1) \<Rightarrow>
          (if \<not> he_healthy health
           then Inl (ServerError (''Could not authorize '' @ urc_providerName R @ '': '' @
                  (case he_message health of Some m \<Rightarrow> m | None \<Rightarrow> ''unknown error'')))
           else Inr \<lparr>cr_externalAccountId = urc_baseUrl R, cr_credentials = cred\<rparr>, w1))"

definition fetchPage ::
  "'w rest_config \<Rightarrow> json_lib \<Rightarrow> (nat \<Rightarrow> 'w \<Rightarrow> 'w) \<Rightarrow> string \<Rightarrow> credentials \<Rightarrow> string option \<Rightarrow> 'w
    \<Rightarrow> (error + json page_result) \<times> 'w" where
  "fetchPage R J sleep endpoint cred cursor w =
     (let base = urc_baseUrl R @ endpoint;
          url = (if truthy cursor then urc_applyCursor R base (the cursor) else base)
      in withRetry 4 500 sleep
           (\<lambda>attempt w.
              case urc_fetchImpl R \<lparr>hq_method = ''GET'', hq_url = url, hq_headers = auth_headers R cred, hq_body = None\<rparr> w of
                (Inl e, w1) \<Rightarrow> (Inl e, w1)
              | (Inr res, w1) \<Rightarrow>
                  (if \<not> hr_ok res
                   then Inl (ServerError (urc_providerName R @ '' request failed: HTTP '' @ nat_str (hr_status res)))
                   else case js_parse J (hr_body res) of
                          None \<Rightarrow> Inl (ServerError ''Unexpected token in JSON'')
                        | Some body \<Rightarrow> Inr (urc_parsePage R body (hr_headers res) cursor), w1)) w)"

text \<open>An array read by a path; a missing one is empty, anything else has no \<open>map\<close>.\<close>

definition array_at :: "json option \<Rightarrow> string \<Rightarrow> error + json list" where
  "array_at raw path =
     (case getByPath raw path of
        None \<Rightarrow> Inr []
      | Some JNull \<Rightarrow> Inr []
      | Some (JArr js) \<Rightarrow> Inr js
      | Some _ \<Rightarrow> Inl (ServerError ''map is not a function''))"

definition or_undefined :: "string \<Rightarrow> string option" where
  "or_undefined s = (if s = [] then None else Some s)"

definition map_variant :: "product_field_mapping \<Rightarrow> json_lib \<Rightarrow> json \<Rightarrow> canonical_variant" where
  "map_variant m J rv =
     \<lparr>cv_externalId = getStringByPath J (Some rv) (pm_variantExternalId m) [],
      cv_sku = getStringByPath J (Some rv) (pm_variantSku m) [],
      cv_barcode = (if truthy (pm_variantBarcode m)
        then or_undefined (getStringByPath J (Some rv) (the (pm_variantBarcode m)) []) else None),
      cv_price = \<lparr>cm_amount = getStringByPath J (Some rv) (pm_variantPrice m) ''0'',
        cm_currencyCode = (if truthy (pm_variantCurrency m)
          then getStringByPath J (Some rv) (the (pm_variantCurrency m)) ''USD'' else ''USD'')\<rparr>,
      cv_inventoryQuantity = (if truthy (pm_variantInventoryQuantity m)
        then Some (getNumberByPath J (Some rv) (the (pm_variantInventoryQuantity m)) 0) else None),
      cv_attributes = []\<rparr>"

definition mapProduct :: "'w rest_config \<Rightarrow> json_lib \<Rightarrow> json \<Rightarrow> error + canonical_product" where
  "mapProduct R J raw =
     (let m = urc_productFieldMapping R in
      bindE (if pm_variants m \<noteq> [] then array_at (Some raw) (pm_variants m) else Inr [raw]) (\<lambda>rawVariants.
      Inr \<lparr>cp_externalId = getStringByPath J (Some raw) (pm_externalId m) [],
           cp_name = getStringByPath J (Some raw) (pm_name m) [],
           cp_description = (if truthy (pm_description m)
             then Some (getStringByPath J (Some raw) (the (pm_description m)) []) else None),
           cp_images = (if truthy (pm_images m)
             then (let v = getByPath (Some raw) (the (pm_images m)) in if nullish v then JArr [] else the v) else JArr []),
           cp_variants = map (map_variant m J) rawVariants\<rparr>))"

definition map_order_line :: "order_field_mapping \<Rightarrow> json_lib \<Rightarrow> string \<Rightarrow> json \<Rightarrow> canonical_order_line" where
  "map_order_line m J currency rl =
     \<lparr>cl_externalProductId = None, cl_externalVariantId = None,
      cl_sku = (if truthy (om_lineSku m) then or_undefined (getStringByPath J (Some rl) (the (om_lineSku m)) []) else None),
      cl_name = getStringByPath J (Some rl) (om_lineName m) [],
      cl_quantity = Some (getNumberByPath J (Some rl) (om_lineQuantity m) 1),
      cl_unitPrice = \<lparr>cm_amount = getStringByPath J (Some rl) (om_lineUnitPrice m) ''0'', cm_currencyCode = currency\<rparr>\<rparr>"

definition mapOrder :: "'w rest_config \<Rightarrow> json_lib \<Rightarrow> string \<Rightarrow> json \<Rightarrow> error + canonical_order" where
  "mapOrder R J nowIso raw =
     (let m = urc_orderFieldMapping R;
          rawStatus = getStringByPath J (Some raw) (om_status m) [];
          status = (case map_of (om_statusMap m) rawStatus of Some st \<Rightarrow> st | None \<Rightarrow> OrdOPEN);
          currency = getStringByPath J (Some raw) (om_currency m) ''USD'';
          money = (\<lambda>path. \<lparr>cm_amount = getStringByPath J (Some raw) path ''0'', cm_currencyCode = currency\<rparr>)
      in bindE (array_at (Some raw) (om_lines m)) (\<lambda>rawLines.
         Inr \<lparr>co_externalId = getStringByPath J (Some raw) (om_externalId m) [],
              co_orderNumber = getStringByPath J (Some raw) (om_orderNumber m) [],
              co_status = status, co_currencyCode = currency,
              co_subtotal = money (om_subtotal m), co_taxTotal = money (om_taxTotal m),
              co_shippingTotal = money (om_shippingTotal m), co_total = money (om_total m),
              co_lines = map (map_order_line m J currency) rawLines,
              co_customerEmail = (if truthy (om_customerEmail m)
                then or_undefined (getStringByPath J (Some raw) (the (om_customerEmail m)) []) else None),
              co_createdAt = getStringByPath J (Some raw) (om_createdAt m) nowIso\<rparr>))"

definition pull_page ::
  "(json \<Rightarrow> error + 'a) \<Rightarrow> (error + json page_result) \<times> 'w \<Rightarrow> (error + 'a page_result) \<times> 'w" where
  "pull_page f fetched =
     (bindE (fst fetched) (\<lambda>p. bindE (mapE f (pg_items p))
        (\<lambda>xs. Inr \<lparr>pg_items = xs, pg_nextCursor = pg_nextCursor p\<rparr>)), snd fetched)"

definition rest_pullProducts ::
  "'w rest_config \<Rightarrow> json_lib \<Rightarrow> (nat \<Rightarrow> 'w \<Rightarrow> 'w) \<Rightarrow> credentials \<Rightarrow> string option \<Rightarrow> 'w
    \<Rightarrow> (error + canonical_product page_result) \<times> 'w" where
  "rest_pullProducts R J sleep cred cursor w =
     pull_page (mapProduct R J) (fetchPage R J sleep (urc_listProducts R) cred cursor w)"

definition rest_pullOrders ::
  "'w rest_config \<Rightarrow> json_lib \<Rightarrow> (nat \<Rightarrow> 'w \<Rightarrow> 'w) \<Rightarrow> string \<Rightarrow> credentials \<Rightarrow> string option \<Rightarrow> 'w
    \<Rightarrow> (error + canonical_order page_result) \<times> 'w" where
  "rest_pullOrders R J sleep nowIso cred cursor w =
     pull_page (mapOrder R J nowIso) (fetchPage R J sleep (urc_listOrders R) cred cursor w)"

definition inventory_request :: "'w rest_config \<Rightarrow> json_lib \<Rightarrow> credentials \<Rightarrow> inventory_update \<Rightarrow> http_request" where
  "inventory_request R J cred u =
     \<lparr>hq_method = ''PUT'', hq_url = urc_baseUrl R @ urc_updateInventory R (iu_externalVariantId u),
      hq_headers = auth_headers R cred @ [(''Content-Type'', ''application/json'')],
      hq_body = Some (js_stringify J (JObj [(''quantity'', JNum (of_int (iu_quantity u)))]))\<rparr>"

fun rest_pushInventory ::
  "'w rest_config \<Rightarrow> json_lib \<Rightarrow> credentials \<Rightarrow> inventory_update list \<Rightarrow> 'w \<Rightarrow> push_result \<times> 'w" where
  "rest_pushInventory R J cred [] w = (\<lparr>ps_succeeded = [], ps_failed = []\<rparr>, w)"
| "rest_pushInventory R J cred (u # us) w =
     (let (outcome, w1) = urc_fetchImpl R (inventory_request R J cred u) w;
          (rest, w2) = rest_pushInventory R J cred us w1;
          failed = (\<lambda>m. rest\<lparr>ps_failed := (iu_externalVariantId u, m) # ps_failed rest\<rparr>)
      in (case outcome of
            Inl e \<Rightarrow> failed (error_message e)
          | Inr res \<Rightarrow>
              if \<not> hr_ok res then failed (''HTTP '' @ nat_str (hr_status res))
              else rest\<lparr>ps_succeeded := iu_externalVariantId u # ps_succeeded rest\<rparr>, w2))"

definition UniversalRestConnector ::
  "json_lib \<Rightarrow> (nat \<Rightarrow> 'w \<Rightarrow> 'w) \<Rightarrow> string \<Rightarrow> 'w rest_config \<Rightarrow> 'w connector" where
  "UniversalRestConnector J sleep nowIso R =
     \<lparr>cn_providerName = urc_providerName R,
      cn_authorize = rest_authorize R,
      cn_testConnection = rest_testConnection R,
      cn_pullProducts = rest_pullProducts R J sleep,
      cn_pushProduct = (\<lambda>w. (Inl (ServerError (urc_providerName R @
        '': pushProduct is not supported by the universal REST connector'')), w)),
      cn_pullOrders = rest_pullOrders R J sleep nowIso,
      cn_pushInventory = rest_pushInventory R J,
      cn_registerWebhooks = urc_registerWebhooks R,
      cn_verifyWebhook = urc_verifyWebhook R,
      cn_normalize = urc_normalizeWebhookPayload R\<rparr>"

end
