(* ===== verification/WooCommerce.thy ===== *)
theory WooCommerce
  imports Connectors
begin

text \<open>
  \<open>connectors/woocommerce-connector.ts\<close>: the WooCommerce configuration of the universal REST
  connector, its signed webhooks and the mappers of the webhook path; and
  \<open>apps/api/src/integrations/connector-registry.ts\<close>.
\<close>

definition WOO_STATUS_MAP :: "(string \<times> canonical_order_status) list" where
  "WOO_STATUS_MAP = [(''pending'', OrdOPEN), (''processing'', OrdPAID), (''on-hold'', OrdOPEN), (''completed'', OrdFULFILLED),
     (''cancelled'', OrdCANCELLED), (''refunded'', OrdREFUNDED), (''failed'', OrdCANCELLED)]"

definition strip_slash :: "string \<Rightarrow> string" where
  "strip_slash s = (if s \<noteq> [] \<and> last s = CHR ''/'' then butlast s else s)"

definition credential :: "credentials \<Rightarrow> string \<Rightarrow> string" where
  "credential cred k = (case map_of cred k of Some v \<Rightarrow> v | None \<Rightarrow> ''undefined'')"

definition woo_basic :: "credentials \<Rightarrow> string" where
  "woo_basic cred = ''Basic '' @ base64 (credential cred ''consumerKey'' @ '':'' @ credential cred ''consumerSecret'')"

text \<open>\<open>url.searchParams.set('page', cursor)\<close> on a URL that has no such parameter yet.\<close>

definition woo_applyCursor :: "string \<Rightarrow> string \<Rightarrow> string" where
  "woo_applyCursor url cursor = url @ (if CHR ''?'' \<in> set url then ''&'' else ''?'') @ URLSearchParams [(''page'', cursor)]"

text \<open>Header names are compared in lower case.\<close>

definition header :: "(string \<times> string) list \<Rightarrow> string \<Rightarrow> string option" where
  "header hs k = map_of (map (\<lambda>(n, v). (toLowerCase n, v)) hs) k"

definition woo_parsePage :: "json_lib \<Rightarrow> json \<Rightarrow> (string \<times> string) list \<Rightarrow> string option \<Rightarrow> json page_result" where
  "woo_parsePage J body headers requestedCursor =
     (let currentPage = (if truthy requestedCursor then Number_of_string (the requestedCursor) else Some 1);
          totalPages = Number_of_string (case header headers ''x-wp-totalpages'' of Some v \<Rightarrow> v | None \<Rightarrow> ''1'');
          items = (case body of JArr js \<Rightarrow> js | _ \<Rightarrow> [])
      in \<lparr>pg_items = items,
          pg_nextCursor = (case (currentPage, totalPages) of
             (Some c, Some t) \<Rightarrow> if c < t then Some (number_text J (c + 1)) else None
           | _ \<Rightarrow> None)\<rparr>)"

definition woo_product_mapping :: product_field_mapping where
  "woo_product_mapping = \<lparr>pm_externalId = ''id'', pm_name = ''name'', pm_description = Some ''description'',
     pm_images = Some ''images'', pm_variants = [], pm_variantExternalId = ''id'', pm_variantSku = ''sku'',
     pm_variantBarcode = None, pm_variantPrice = ''price'', pm_variantCurrency = None,
     pm_variantInventoryQuantity = Some ''stock_quantity''\<rparr>"

definition woo_order_mapping :: order_field_mapping where
  "woo_order_mapping = \<lparr>om_externalId = ''id'', om_orderNumber = ''number'', om_status = ''status'',
     om_statusMap = WOO_STATUS_MAP, om_currency = ''currency'', om_subtotal = ''total'', om_taxTotal = ''total_tax'',
     om_shippingTotal = ''shipping_total'', om_total = ''total'', om_customerEmail = Some ''billing.email'',
     om_createdAt = ''date_created'', om_lines = ''line_items'', om_lineName = ''name'', om_lineQuantity = ''quantity'',
     om_lineUnitPrice = ''price'', om_lineSku = Some ''sku''\<rparr>"

text \<open>Registration stops at the first topic the store refuses; the topics before it stay registered.\<close>

definition woo_topics :: "string list" where
  "woo_topics = [''product.updated'', ''order.created'', ''order.updated'']"

fun register_topics ::
  "json_lib \<Rightarrow> 'w fetch \<Rightarrow> string \<Rightarrow> credentials \<Rightarrow> string \<Rightarrow> string list \<Rightarrow> 'w \<Rightarrow> (error + unit) \<times> 'w" where
  "register_topics J fetch storeBaseUrl cred callbackUrl [] w = (Inr (), w)"
| "register_topics J fetch storeBaseUrl cred callbackUrl (topic # topics) w =
     (case fetch \<lparr>hq_method = ''POST'', hq_url = strip_slash storeBaseUrl @ ''/wp-json/wc/v3/webhooks'',
             hq_headers = [(''Authorization'', woo_basic cred), (''Content-Type'', ''application/json'')],
             hq_body = Some (js_stringify J (JObj [(''name'', JStr (''salesmaster-'' @ topic)), (''topic'', JStr topic),
               (''delivery_url'', JStr callbackUrl)]))\<rparr> w of
        (Inl e, w1) \<Rightarrow> (Inl e, w1)
      | (Inr res, w1) \<Rightarrow>
          if \<not> hr_ok res
          then (Inl (ServerError (''Failed to register WooCommerce webhook '' @ topic @ '': HTTP '' @ nat_str (hr_status res))), w1)
          else register_topics J fetch storeBaseUrl cred callbackUrl topics w1)"

definition woo_registerWebhooks ::
  "json_lib \<Rightarrow> 'w fetch \<Rightarrow> string \<Rightarrow> credentials \<Rightarrow> string \<Rightarrow> 'w \<Rightarrow> (error + string list) \<times> 'w" where
  "woo_registerWebhooks J fetch storeBaseUrl cred callbackUrl w =
     (case register_topics J fetch storeBaseUrl cred callbackUrl woo_topics w of
        (Inl e, w1) \<Rightarrow> (Inl e, w1) | (Inr _, w1) \<Rightarrow> (Inr woo_topics, w1))"

text \<open>The base64 of the keyed hash of the raw body must be the signature header.\<close>

definition woo_verifyWebhook ::
  "json_lib \<Rightarrow> (string \<Rightarrow> string \<Rightarrow> string) \<Rightarrow> credentials \<Rightarrow> int \<Rightarrow> raw_webhook \<Rightarrow> error + verified_webhook" where
  "woo_verifyWebhook J hmac cred now req =
     (let secret = map_of cred ''webhookSecret''; signature = map_of (rw_headers req) ''x-wc-webhook-signature''
      in if \<not> truthy secret \<or> \<not> truthy signature
         then Inl (ServerError ''Missing WooCommerce webhook secret or signature header'')
         else if base64 (hmac (the secret) (rw_rawBody req)) \<noteq> the signature
         then Inl (ServerError ''WooCommerce webhook signature verification failed'')
         else bindE (someE (js_parse J (rw_rawBody req)) (ServerError ''Unexpected token in JSON'')) (\<lambda>payload.
           Inr \<lparr>vw_eventId = (case map_of (rw_headers req) ''x-wc-webhook-delivery-id'' of Some i \<Rightarrow> i | None \<Rightarrow> int_str now),
                vw_eventType = (case map_of (rw_headers req) ''x-wc-webhook-topic'' of Some t \<Rightarrow> t | None \<Rightarrow> ''unknown''),
                vw_payload = payload\<rparr>))"

section \<open>The mappers of the webhook path\<close>

definition text_or :: "json_lib \<Rightarrow> json option \<Rightarrow> string \<Rightarrow> string" where
  "text_or J v d = (if nullish v then d else js_String J (the v))"

text \<open>\<open>String(v)\<close> of a field that may be missing.\<close>

definition text_of :: "json_lib \<Rightarrow> json option \<Rightarrow> string" where
  "text_of J v = (case v of None \<Rightarrow> ''undefined'' | Some j \<Rightarrow> js_String J j)"

definition event_line :: "json_lib \<Rightarrow> string \<Rightarrow> json \<Rightarrow> canonical_order_line" where
  "event_line J currency l =
     \<lparr>cl_externalProductId = None, cl_externalVariantId = None,
      cl_sku = (if js_truthy (js_field ''sku'' l) then Some (js_String J (the (js_field ''sku'' l))) else None),
      cl_name = text_or J (js_field ''name'' l) [],
      cl_quantity = (if nullish (js_field ''quantity'' l) then Some 1 else js_Number J (js_field ''quantity'' l)),
      cl_unitPrice = \<lparr>cm_amount = text_or J (js_field ''price'' l) ''0'', cm_currencyCode = currency\<rparr>\<rparr>"

definition mapWooOrderForEvent :: "json_lib \<Rightarrow> string \<Rightarrow> json \<Rightarrow> canonical_order" where
  "mapWooOrderForEvent J nowIso raw =
     (let currency = text_or J (js_field ''currency'' raw) ''USD'';
          lines = (case js_field ''line_items'' raw of Some (JArr js) \<Rightarrow> js | _ \<Rightarrow> []);
          status = (case map_of WOO_STATUS_MAP (text_of J (js_field ''status'' raw)) of Some st \<Rightarrow> st | None \<Rightarrow> OrdOPEN);
          money = (\<lambda>k. \<lparr>cm_amount = text_or J (js_field k raw) ''0'', cm_currencyCode = currency\<rparr>)
      in \<lparr>co_externalId = text_of J (js_field ''id'' raw),
          co_orderNumber = (if nullish (js_field ''number'' raw) then text_of J (js_field ''id'' raw)
            else js_String J (the (js_field ''number'' raw))),
          co_status = status, co_currencyCode = currency, co_subtotal = money ''total'', co_taxTotal = money ''total_tax'',
          co_shippingTotal = money ''shipping_total'', co_total = money ''total'',
          co_lines = map (event_line J currency) lines,
          co_customerEmail = Option.bind (js_field ''billing'' raw) (js_string_field ''email''),
          co_createdAt = text_or J (js_field ''date_created'' raw) nowIso\<rparr>)"

definition image_src :: "json \<Rightarrow> json option" where
  "image_src i = js_field ''src'' i"

definition mapWooProductForEvent :: "json_lib \<Rightarrow> json \<Rightarrow> canonical_product" where
  "mapWooProductForEvent J raw =
     \<lparr>cp_externalId = text_of J (js_field ''id'' raw),
      cp_name = text_or J (js_field ''name'' raw) [],
      cp_description = (if js_truthy (js_field ''description'' raw) then Some (js_String J (the (js_field ''description'' raw))) else None),
      cp_images = JArr (case js_field ''images'' raw of
         Some (JArr js) \<Rightarrow> map the (filter js_truthy (map image_src js)) | _ \<Rightarrow> []),
      cp_variants = [\<lparr>cv_externalId = text_of J (js_field ''id'' raw),
         cv_sku = text_or J (js_field ''sku'' raw) [], cv_barcode = None,
         cv_price = \<lparr>cm_amount = text_or J (js_field ''price'' raw) ''0'', cm_currencyCode = ''USD''\<rparr>,
         cv_inventoryQuantity = (if js_field ''stock_quantity'' raw = None then None
           else js_Number J (js_field ''stock_quantity'' raw)), cv_attributes = []\<rparr>]\<rparr>"

fun is_number :: "json option \<Rightarrow> bool" where
  "is_number (Some (JNum _)) = True"
| "is_number _ = False"

fun is_string :: "json option \<Rightarrow> bool" where
  "is_string (Some (JStr _)) = True"
| "is_string _ = False"

definition woo_normalize :: "json_lib \<Rightarrow> string \<Rightarrow> json \<Rightarrow> error + commerce_event list" where
  "woo_normalize J nowIso raw =
     (if raw = JNull then Inl (ServerError ''Cannot read properties of null'')
      else if is_number (js_field ''id'' raw) \<and> is_string (js_field ''status'' raw) \<and> js_field ''line_items'' raw \<noteq> None
      then Inr [OrderCreated (mapWooOrderForEvent J nowIso raw)]
      else if is_number (js_field ''id'' raw) \<and> js_field ''sku'' raw \<noteq> None
      then Inr [ProductUpdated (mapWooProductForEvent J raw)]
      else Inr [])"

section \<open>The connector and the registry\<close>

text \<open>What the deployment supplies to the connectors.\<close>

record 'w commerce_env =
  ce_json :: json_lib
  ce_fetch :: "'w fetch"
  ce_sleep :: "nat \<Rightarrow> 'w \<Rightarrow> 'w"
  ce_hmac :: "string \<Rightarrow> string \<Rightarrow> string"
  ce_iso :: "int \<Rightarrow> string"

definition woo_config :: "'w commerce_env \<Rightarrow> string \<Rightarrow> 'w rest_config" where
  "woo_config V storeBaseUrl =
     \<lparr>urc_providerName = ''woocommerce'',
      urc_baseUrl = strip_slash storeBaseUrl @ ''/wp-json/wc/v3'',
      urc_buildAuthHeaders = (\<lambda>cred. [(''Authorization'', woo_basic cred)]),
      urc_listProducts = ''/products?per_page=50'', urc_listOrders = ''/orders?per_page=50'',
      urc_updateInventory = (\<lambda>i. ''/products/'' @ i), urc_testConnection = ''/products?per_page=1'',
      urc_parsePage = woo_parsePage (ce_json V), urc_applyCursor = woo_applyCursor,
      urc_productFieldMapping = woo_product_mapping, urc_orderFieldMapping = woo_order_mapping,
      urc_registerWebhooks = woo_registerWebhooks (ce_json V) (ce_fetch V) storeBaseUrl,
      urc_verifyWebhook = woo_verifyWebhook (ce_json V) (ce_hmac V),
      urc_normalizeWebhookPayload = (\<lambda>now. woo_normalize (ce_json V) (ce_iso V now)),
      urc_fetchImpl = ce_fetch V\<rparr>"

definition createWooCommerceConnector :: "'w commerce_env \<Rightarrow> int \<Rightarrow> string \<Rightarrow> 'w connector" where
  "createWooCommerceConnector V now storeBaseUrl =
     UniversalRestConnector (ce_json V) (ce_sleep V) (ce_iso V now) (woo_config V storeBaseUrl)"

fun resolve_connector :: "'w commerce_env \<Rightarrow> int \<Rightarrow> commerce_provider \<Rightarrow> string \<Rightarrow> error + 'w connector" where
  "resolve_connector V now WOOCOMMERCE storeUrl = Inr (createWooCommerceConnector V now storeUrl)"
| "resolve_connector V now SHOPIFY storeUrl =
     Inl (ServerError (''Shopify connector is not implemented in this phase '' @ em_dash @ '' see docs/integrations.md''))"
| "resolve_connector V now UNIVERSAL_REST storeUrl =
     Inl (ServerError (''A universal REST connection requires per-store field-mapping configuration supplied by the caller; '' @
       ''use the UniversalRestConnector class directly rather than the registry for now.''))"

end
