(* ===== verification/Integrations.thy ===== *)
theory Integrations
  imports WooCommerce Audit_Outbox
begin

text \<open>
  \<open>apps/api/src/integrations/integrations.service.ts\<close>: connections to external stores, the product
  pull, the inventory push and inbound webhooks. The connector is resolved from the provider; the
  database is written step by step, outside any transaction. \<open>decimal\<close> is the text the database
  client takes for a decimal.
\<close>

record integration_env =
  ie_env :: env
  ie_crypto :: crypto
  ie_key :: string
  ie_decimal :: "string \<Rightarrow> rat option"

section \<open>Connections\<close>

record connection_input =
  cni_provider :: commerce_provider
  cni_name :: string
  cni_storeUrl :: string
  cni_credentials :: credentials

text \<open>The columns a client sees: all but the credentials.\<close>

record connection_view =
  cnv_id :: string
  cnv_tenantId :: string
  cnv_provider :: commerce_provider
  cnv_name :: string
  cnv_storeUrl :: "string option"
  cnv_status :: connection_status
  cnv_lastSyncAt :: "int option"
  cnv_lastErrorAt :: "int option"
  cnv_lastError :: "string option"

definition sanitize :: "commerce_connection \<Rightarrow> connection_view" where
  "sanitize c = \<lparr>cnv_id = con_id c, cnv_tenantId = con_tenantId c, cnv_provider = con_provider c, cnv_name = con_name c,
     cnv_storeUrl = con_storeUrl c, cnv_status = con_status c, cnv_lastSyncAt = con_lastSyncAt c,
     cnv_lastErrorAt = con_lastErrorAt c, cnv_lastError = con_lastError c\<rparr>"

fun provider_name :: "commerce_provider \<Rightarrow> string" where
  "provider_name WOOCOMMERCE = ''WOOCOMMERCE''"
| "provider_name SHOPIFY = ''SHOPIFY''"
| "provider_name UNIVERSAL_REST = ''UNIVERSAL_REST''"

definition credentials_json :: "credentials \<Rightarrow> json" where
  "credentials_json cred = JObj (map (\<lambda>(k, v). (k, JStr v)) cred)"

fun json_credentials :: "json \<Rightarrow> credentials" where
  "json_credentials (JObj kvs) = map (\<lambda>(k, v). (k, case v of JStr s \<Rightarrow> s | _ \<Rightarrow> [])) kvs"
| "json_credentials _ = []"

definition getOwnedConnection :: "string \<Rightarrow> string \<Rightarrow> db \<Rightarrow> error + commerce_connection" where
  "getOwnedConnection tenantId connectionId s =
     someE (List.find (\<lambda>c. con_id c = connectionId \<and> con_tenantId c = tenantId) (commerceConnections s))
       (NotFound ''Connection not found'')"

definition decryptCredentials :: "integration_env \<Rightarrow> json_lib \<Rightarrow> string \<Rightarrow> error + credentials" where
  "decryptCredentials I J encrypted =
     bindE (decrypt (ie_crypto I) (ie_key I) encrypted) (\<lambda>t.
     bindE (someE (js_parse J t) (ServerError ''Unexpected token in JSON'')) (\<lambda>j. Inr (json_credentials j)))"

definition update_connection :: "string \<Rightarrow> (commerce_connection \<Rightarrow> commerce_connection) \<Rightarrow> db \<Rightarrow> db" where
  "update_connection cid f s =
     s\<lparr>commerceConnections := update_where (\<lambda>c. con_id c = cid) f (commerceConnections s)\<rparr>"

definition createConnection ::
  "integration_env \<Rightarrow> 'w commerce_env \<Rightarrow> int \<Rightarrow> string \<Rightarrow> string \<Rightarrow> connection_input \<Rightarrow> db \<Rightarrow> 'w
    \<Rightarrow> (error + connection_view) \<times> db \<times> 'w" where
  "createConnection I V now tenantId actorUserId input s w =
     (case resolve_connector V now (cni_provider input) (cni_storeUrl input) of
        Inl e \<Rightarrow> (Inl e, s, w)
      | Inr connector \<Rightarrow>
          (case cn_authorize connector (cni_credentials input) w of
             (Inl e, w1) \<Rightarrow>
               (Inl (BadRequest (''Could not connect to '' @ provider_name (cni_provider input) @ '': '' @ error_message e)), s, w1)
           | (Inr authorized, w1) \<Rightarrow>
               let E = ie_env I;
                   c = \<lparr>con_id = uuid E (seq s), con_tenantId = tenantId, con_provider = cni_provider input,
                        con_name = cni_name input, con_storeUrl = Some (cni_storeUrl input),
                        con_credentialsEncrypted = encrypt (ie_crypto I) (ie_key I) (seq s)
                          (js_stringify (ce_json V) (credentials_json (cr_credentials authorized))),
                        con_status = ConnCONNECTED, con_lastSyncAt = None, con_lastErrorAt = None, con_lastError = None\<rparr>;
                   s1 = s\<lparr>commerceConnections := commerceConnections s @ [c], seq := Suc (seq s)\<rparr>
               in (Inr (sanitize c),
                   audit_record E (audit_in (Some tenantId) (Some actorUserId) ''integrations.connection_created''
                     ''CommerceConnection'' (con_id c) (Some (JObj [(''provider'', JStr (provider_name (cni_provider input))),
                       (''storeUrl'', JStr (cni_storeUrl input))]))) s1, w1)))"

text \<open>The newest first: rows are inserted in the order of their creation.\<close>

definition listConnections :: "string \<Rightarrow> db \<Rightarrow> connection_view list" where
  "listConnections tenantId s = map sanitize (rev (filter (\<lambda>c. con_tenantId c = tenantId) (commerceConnections s)))"

record connection_health =
  chl_connection :: connection_view
  chl_recentSyncJobs :: "sync_job list"
  chl_webhooksDelivered :: nat
  chl_webhooksFailed :: nat

definition getConnectionHealth :: "string \<Rightarrow> string \<Rightarrow> db \<Rightarrow> error + connection_health" where
  "getConnectionHealth tenantId connectionId s =
     bindE (getOwnedConnection tenantId connectionId s) (\<lambda>c.
     Inr \<lparr>chl_connection = sanitize c,
          chl_recentSyncJobs = take 5 (rev (filter (\<lambda>j. syj_connectionId j = connectionId) (syncJobs s))),
          chl_webhooksDelivered =
            count_where (\<lambda>d. whd_connectionId d = connectionId \<and> whd_processedAt d \<noteq> None) (webhookDeliveries s),
          chl_webhooksFailed =
            count_where (\<lambda>d. whd_connectionId d = connectionId \<and> whd_error d \<noteq> None) (webhookDeliveries s)\<rparr>)"

text \<open>What \<open>testConnection\<close>, \<open>syncProducts\<close> and \<open>pushInventory\<close> start with.\<close>

definition open_connection ::
  "integration_env \<Rightarrow> 'w commerce_env \<Rightarrow> int \<Rightarrow> commerce_connection \<Rightarrow> error + 'w connector \<times> credentials" where
  "open_connection I V now c =
     bindE (resolve_connector V now (con_provider c) (case con_storeUrl c of Some u \<Rightarrow> u | None \<Rightarrow> [])) (\<lambda>connector.
     bindE (decryptCredentials I (ce_json V) (con_credentialsEncrypted c)) (\<lambda>cred. Inr (connector, cred)))"

definition testConnection ::
  "integration_env \<Rightarrow> 'w commerce_env \<Rightarrow> int \<Rightarrow> string \<Rightarrow> string \<Rightarrow> db \<Rightarrow> 'w \<Rightarrow> (error + health_result) \<times> db \<times> 'w" where
  "testConnection I V now tenantId connectionId s w =
     (case bindE (getOwnedConnection tenantId connectionId s) (open_connection I V now) of
        Inl e \<Rightarrow> (Inl e, s, w)
      | Inr (connector, cred) \<Rightarrow>
          (case cn_testConnection connector cred w of
             (health, w1) \<Rightarrow>
               (Inr health, update_connection connectionId
                  (\<lambda>c. if he_healthy health then c\<lparr>con_status := ConnCONNECTED, con_lastError := None\<rparr>
                       else c\<lparr>con_status := ConnERROR,
                              con_lastError := (case he_message health of Some m \<Rightarrow> Some m | None \<Rightarrow> con_lastError c),
                              con_lastErrorAt := Some now\<rparr>) s, w1)))"

definition disconnect ::
  "integration_env \<Rightarrow> string \<Rightarrow> string \<Rightarrow> string \<Rightarrow> db \<Rightarrow> (error + connection_view) \<times> db" where
  "disconnect I tenantId actorUserId connectionId s =
     (case getOwnedConnection tenantId connectionId s of
        Inl e \<Rightarrow> (Inl e, s)
      | Inr c \<Rightarrow>
          (Inr (sanitize (c\<lparr>con_status := ConnDISCONNECTED\<rparr>)),
           audit_record (ie_env I) (audit_in (Some tenantId) (Some actorUserId) ''integrations.connection_disconnected''
             ''CommerceConnection'' connectionId None)
             (update_connection connectionId (\<lambda>c. c\<lparr>con_status := ConnDISCONNECTED\<rparr>) s)))"

section \<open>The canonical catalog\<close>

definition find_map :: "string \<Rightarrow> external_object_type \<Rightarrow> string \<Rightarrow> db \<Rightarrow> external_object_map option" where
  "find_map connectionId ty externalId s =
     List.find (\<lambda>m. eom_connectionId m = connectionId \<and> eom_externalType m = ty \<and> eom_externalId m = externalId)
       (externalObjectMaps s)"

definition create_map ::
  "env \<Rightarrow> string \<Rightarrow> string \<Rightarrow> external_object_type \<Rightarrow> string \<Rightarrow> string \<Rightarrow> string \<Rightarrow> db \<Rightarrow> db" where
  "create_map E tenantId connectionId ty externalId canonicalType canonicalId s =
     s\<lparr>externalObjectMaps := externalObjectMaps s @ [\<lparr>eom_id = uuid E (seq s), eom_tenantId = tenantId,
         eom_connectionId = connectionId, eom_externalType = ty, eom_externalId = externalId,
         eom_canonicalType = canonicalType, eom_canonicalId = canonicalId\<rparr>],
       seq := Suc (seq s)\<rparr>"

definition price_column :: "integration_env \<Rightarrow> canonical_variant \<Rightarrow> error + rat" where
  "price_column I v = (case ie_decimal I (cm_amount (cv_price v)) of
     Some x \<Rightarrow> Inr (dec_col (ie_env I) x) | None \<Rightarrow> Inl (ServerError ''Invalid value for argument retailPrice''))"

definition variant_sku :: "canonical_variant \<Rightarrow> string" where
  "variant_sku v = (if cv_sku v \<noteq> [] then cv_sku v else ''EXT-'' @ cv_externalId v)"

text \<open>The variant an external one is written to when it is not mapped yet: the tenant's variant with
  the same SKU, else a new one.\<close>

definition target_variant ::
  "integration_env \<Rightarrow> string \<Rightarrow> string \<Rightarrow> canonical_variant \<Rightarrow> db \<Rightarrow> (error + string) \<times> db" where
  "target_variant I tenantId productId v s =
     (case (if cv_sku v \<noteq> [] then List.find (\<lambda>x. var_tenantId x = tenantId \<and> var_sku x = cv_sku v) (productVariants s)
            else None) of
        Some x \<Rightarrow> (Inr (var_id x), s)
      | None \<Rightarrow>
          (case price_column I v of
             Inl e \<Rightarrow> (Inl e, s)
           | Inr price \<Rightarrow>
               if list_ex (\<lambda>x. var_tenantId x = tenantId \<and> var_sku x = variant_sku v) (productVariants s)
               then (Inl (UniqueViolation ''tenantId,sku''), s)
               else (Inr (uuid (ie_env I) (seq s)),
                     s\<lparr>productVariants := productVariants s @ [\<lparr>var_id = uuid (ie_env I) (seq s), var_tenantId = tenantId,
                         var_productId = productId, var_sku = variant_sku v, var_barcode = cv_barcode v, var_attributes = [],
                         var_costPrice = 0, var_retailPrice = price, var_wholesalePrice = None, var_taxClassId = None,
                         var_reorderPoint = 0, var_reorderBuffer = 0, var_status = ProdACTIVE\<rparr>],
                       seq := Suc (seq s)\<rparr>)))"

definition upsertCanonicalVariant ::
  "integration_env \<Rightarrow> string \<Rightarrow> string \<Rightarrow> string \<Rightarrow> canonical_variant \<Rightarrow> db \<Rightarrow> (error + unit) \<times> db" where
  "upsertCanonicalVariant I tenantId connectionId productId v s =
     (case find_map connectionId ExtVARIANT (cv_externalId v) s of
        Some m \<Rightarrow>
          (case price_column I v of
             Inl e \<Rightarrow> (Inl e, s)
           | Inr price \<Rightarrow>
               if taken var_id (eom_canonicalId m) (productVariants s)
               then (Inr (), s\<lparr>productVariants := update_where (\<lambda>x. var_id x = eom_canonicalId m)
                       (\<lambda>x. x\<lparr>var_retailPrice := price,
                             var_barcode := (case cv_barcode v of Some b \<Rightarrow> Some b | None \<Rightarrow> var_barcode x)\<rparr>) (productVariants s)\<rparr>)
               else (Inl (RecordNotFound ''ProductVariant''), s))
      | None \<Rightarrow>
          (case target_variant I tenantId productId v s of
             (Inl e, s1) \<Rightarrow> (Inl e, s1)
           | (Inr vid, s1) \<Rightarrow>
               (Inr (), create_map (ie_env I) tenantId connectionId ExtVARIANT (cv_externalId v) ''ProductVariant'' vid s1)))"

fun upsert_variants ::
  "integration_env \<Rightarrow> string \<Rightarrow> string \<Rightarrow> string \<Rightarrow> canonical_variant list \<Rightarrow> db \<Rightarrow> (error + unit) \<times> db" where
  "upsert_variants I tenantId connectionId productId [] s = (Inr (), s)"
| "upsert_variants I tenantId connectionId productId (v # vs) s =
     (case upsertCanonicalVariant I tenantId connectionId productId v s of
        (Inl e, s1) \<Rightarrow> (Inl e, s1)
      | (Inr _, s1) \<Rightarrow> upsert_variants I tenantId connectionId productId vs s1)"

definition upsert_product_row ::
  "integration_env \<Rightarrow> int \<Rightarrow> string \<Rightarrow> string \<Rightarrow> canonical_product \<Rightarrow> db \<Rightarrow> (error + string) \<times> db" where
  "upsert_product_row I now tenantId connectionId p s =
     (case find_map connectionId ExtPRODUCT (cp_externalId p) s of
        Some m \<Rightarrow>
          if taken prd_id (eom_canonicalId m) (products s)
          then (Inr (eom_canonicalId m), s\<lparr>products := update_where (\<lambda>x. prd_id x = eom_canonicalId m)
                  (\<lambda>x. x\<lparr>prd_name := cp_name p,
                        prd_description := (case cp_description p of Some d \<Rightarrow> Some d | None \<Rightarrow> prd_description x)\<rparr>) (products s)\<rparr>)
          else (Inl (RecordNotFound ''Product''), s)
      | None \<Rightarrow>
          let pid = uuid (ie_env I) (seq s);
              s1 = s\<lparr>products := products s @ [\<lparr>prd_id = pid, prd_tenantId = tenantId, prd_name = cp_name p,
                       prd_description = cp_description p, prd_brand = None, prd_categoryId = None,
                       prd_unitOfMeasure = ''each'', prd_status = ProdACTIVE, prd_createdAt = now\<rparr>],
                     seq := Suc (seq s)\<rparr>
          in (Inr pid, create_map (ie_env I) tenantId connectionId ExtPRODUCT (cp_externalId p) ''Product'' pid s1))"

definition upsertCanonicalProduct ::
  "integration_env \<Rightarrow> int \<Rightarrow> string \<Rightarrow> string \<Rightarrow> canonical_product \<Rightarrow> db \<Rightarrow> (error + unit) \<times> db" where
  "upsertCanonicalProduct I now tenantId connectionId p s =
     (case upsert_product_row I now tenantId connectionId p s of
        (Inl e, s1) \<Rightarrow> (Inl e, s1)
      | (Inr productId, s1) \<Rightarrow> upsert_variants I tenantId connectionId productId (cp_variants p) s1)"

section \<open>The product pull\<close>

definition create_job :: "env \<Rightarrow> int \<Rightarrow> string \<Rightarrow> string \<Rightarrow> sync_domain \<Rightarrow> sync_direction \<Rightarrow> db \<Rightarrow> db" where
  "create_job E now tenantId connectionId domn dir s =
     s\<lparr>syncJobs := syncJobs s @ [\<lparr>syj_id = uuid E (seq s), syj_tenantId = tenantId, syj_connectionId = connectionId,
         syj_domain = domn, syj_direction = dir, syj_status = JobRUNNING, syj_itemsProcessed = 0, syj_error = None,
         syj_startedAt = now, syj_finishedAt = None\<rparr>],
       seq := Suc (seq s)\<rparr>"

definition finish_job :: "string \<Rightarrow> int \<Rightarrow> sync_job_status \<Rightarrow> nat \<Rightarrow> string option \<Rightarrow> db \<Rightarrow> db" where
  "finish_job jid now st n err s =
     s\<lparr>syncJobs := update_where (\<lambda>j. syj_id j = jid)
         (\<lambda>j. j\<lparr>syj_status := st, syj_itemsProcessed := n,
               syj_error := (case err of Some m \<Rightarrow> Some m | None \<Rightarrow> syj_error j), syj_finishedAt := Some now\<rparr>) (syncJobs s)\<rparr>"

text \<open>The products of a page, in order; the count of those processed survives a failure.\<close>

fun upsert_products ::
  "integration_env \<Rightarrow> int \<Rightarrow> string \<Rightarrow> string \<Rightarrow> canonical_product list \<Rightarrow> nat \<Rightarrow> db \<Rightarrow> (error + unit) \<times> nat \<times> db" where
  "upsert_products I now tenantId connectionId [] n s = (Inr (), n, s)"
| "upsert_products I now tenantId connectionId (p # ps) n s =
     (case upsertCanonicalProduct I now tenantId connectionId p s of
        (Inl e, s1) \<Rightarrow> (Inl e, n, s1)
      | (Inr _, s1) \<Rightarrow> upsert_products I now tenantId connectionId ps (Suc n) s1)"

text \<open>The loop over the pages ends when a page announces no next cursor. A store that always announces
  one keeps it running: the value is \<open>None\<close>.\<close>

partial_function (option) pull_loop ::
  "integration_env \<Rightarrow> int \<Rightarrow> 'w connector \<Rightarrow> credentials \<Rightarrow> string \<Rightarrow> string \<Rightarrow> string option \<Rightarrow> nat \<Rightarrow> db \<Rightarrow> 'w
    \<Rightarrow> ((error + unit) \<times> nat \<times> db \<times> 'w) option" where
  "pull_loop I now connector cred tenantId connectionId cursor n s w =
     (case cn_pullProducts connector cred cursor w of
        (Inl e, w1) \<Rightarrow> Some (Inl e, n, s, w1)
      | (Inr page, w1) \<Rightarrow>
          (case upsert_products I now tenantId connectionId (pg_items page) n s of
             (Inl e, n1, s1) \<Rightarrow> Some (Inl e, n1, s1, w1)
           | (Inr _, n1, s1) \<Rightarrow>
               if truthy (pg_nextCursor page)
               then pull_loop I now connector cred tenantId connectionId (pg_nextCursor page) n1 s1 w1
               else Some (Inr (), n1, s1, w1)))"

definition syncProducts ::
  "integration_env \<Rightarrow> 'w commerce_env \<Rightarrow> int \<Rightarrow> string \<Rightarrow> string \<Rightarrow> string \<Rightarrow> db \<Rightarrow> 'w
    \<Rightarrow> ((error + nat) \<times> db \<times> 'w) option" where
  "syncProducts I V now tenantId actorUserId connectionId s w =
     (case bindE (getOwnedConnection tenantId connectionId s) (open_connection I V now) of
        Inl e \<Rightarrow> Some (Inl e, s, w)
      | Inr (connector, cred) \<Rightarrow>
          let jid = uuid (ie_env I) (seq s);
              s0 = create_job (ie_env I) now tenantId connectionId DomPRODUCTS PULL s
          in Option.bind (pull_loop I now connector cred tenantId connectionId None 0 s0 w)
               (\<lambda>(outcome, n, s1, w1).
                  case outcome of
                    Inl e \<Rightarrow>
                      Some (Inl e, update_connection connectionId
                        (\<lambda>c. c\<lparr>con_status := ConnERROR, con_lastError := Some (error_message e), con_lastErrorAt := Some now\<rparr>)
                        (finish_job jid now JobFAILED n (Some (error_message e)) s1), w1)
                  | Inr _ \<Rightarrow>
                      Some (Inr n,
                        audit_record (ie_env I) (audit_in (Some tenantId) (Some actorUserId) ''integrations.products_synced''
                          ''CommerceConnection'' connectionId (Some (JObj [(''itemsProcessed'', JNum (of_nat n))])))
                          (update_connection connectionId
                            (\<lambda>c. c\<lparr>con_lastSyncAt := Some now, con_status := ConnCONNECTED, con_lastError := None\<rparr>)
                            (finish_job jid now JobSUCCEEDED n None s1)), w1)))"

section \<open>The inventory push\<close>

definition stock_of :: "string \<Rightarrow> string \<Rightarrow> db \<Rightarrow> int" where
  "stock_of tenantId variantId s =
     sum_list (map bal_quantity (filter (\<lambda>b. bal_tenantId b = tenantId \<and> bal_variantId b = variantId) (inventoryBalances s)))"

definition inventory_updates :: "string \<Rightarrow> string \<Rightarrow> db \<Rightarrow> inventory_update list" where
  "inventory_updates tenantId connectionId s =
     map (\<lambda>m. \<lparr>iu_externalVariantId = eom_externalId m, iu_quantity = stock_of tenantId (eom_canonicalId m) s\<rparr>)
       (filter (\<lambda>m. eom_tenantId m = tenantId \<and> eom_connectionId m = connectionId \<and> eom_externalType m = ExtVARIANT)
         (externalObjectMaps s))"

definition failed_json :: "(string \<times> string) list \<Rightarrow> json" where
  "failed_json fs = JArr (map (\<lambda>(i, e). JObj [(''externalVariantId'', JStr i), (''error'', JStr e)]) fs)"

definition pushInventory ::
  "integration_env \<Rightarrow> 'w commerce_env \<Rightarrow> int \<Rightarrow> string \<Rightarrow> string \<Rightarrow> string \<Rightarrow> db \<Rightarrow> 'w
    \<Rightarrow> (error + push_result) \<times> db \<times> 'w" where
  "pushInventory I V now tenantId actorUserId connectionId s w =
     (case bindE (getOwnedConnection tenantId connectionId s) (open_connection I V now) of
        Inl e \<Rightarrow> (Inl e, s, w)
      | Inr (connector, cred) \<Rightarrow>
          let jid = uuid (ie_env I) (seq s);
              s0 = create_job (ie_env I) now tenantId connectionId DomINVENTORY PUSH s;
              (result, w1) = cn_pushInventory connector cred (inventory_updates tenantId connectionId s) w;
              s1 = finish_job jid now (if ps_failed result = [] then JobSUCCEEDED else JobFAILED) (length (ps_succeeded result))
                     (if ps_failed result \<noteq> [] then Some (js_stringify (ce_json V) (failed_json (ps_failed result))) else None) s0;
              s2 = update_connection connectionId (\<lambda>c. c\<lparr>con_lastSyncAt := Some now\<rparr>) s1
          in (Inr result,
              audit_record (ie_env I) (audit_in (Some tenantId) (Some actorUserId) ''integrations.inventory_pushed''
                ''CommerceConnection'' connectionId (Some (JObj [(''succeeded'', JNum (of_nat (length (ps_succeeded result)))),
                  (''failed'', JNum (of_nat (length (ps_failed result))))]))) s2, w1))"

section \<open>Inbound webhooks\<close>

text \<open>The events of a delivery: product updates go to the catalog, every other event is kept as the delivery
  row only.\<close>

fun apply_events ::
  "integration_env \<Rightarrow> int \<Rightarrow> string \<Rightarrow> string \<Rightarrow> commerce_event list \<Rightarrow> db \<Rightarrow> (error + unit) \<times> db" where
  "apply_events I now tenantId connectionId [] s = (Inr (), s)"
| "apply_events I now tenantId connectionId (ProductUpdated p # es) s =
     (case upsertCanonicalProduct I now tenantId connectionId p s of
        (Inl e, s1) \<Rightarrow> (Inl e, s1)
      | (Inr _, s1) \<Rightarrow> apply_events I now tenantId connectionId es s1)"
| "apply_events I now tenantId connectionId (e # es) s = apply_events I now tenantId connectionId es s"

definition update_delivery :: "string \<Rightarrow> string \<Rightarrow> (webhook_delivery \<Rightarrow> webhook_delivery) \<Rightarrow> db \<Rightarrow> db" where
  "update_delivery connectionId eventId f s =
     s\<lparr>webhookDeliveries := update_where (\<lambda>d. whd_connectionId d = connectionId \<and> whd_externalEventId d = eventId) f
         (webhookDeliveries s)\<rparr>"

definition process_delivery ::
  "integration_env \<Rightarrow> 'w connector \<Rightarrow> int \<Rightarrow> commerce_connection \<Rightarrow> verified_webhook \<Rightarrow> db \<Rightarrow> db" where
  "process_delivery I connector now c v s =
     (let (outcome, s1) =
        (case cn_normalize connector now (vw_payload v) of
           Inl e \<Rightarrow> (Inl e, s)
         | Inr events \<Rightarrow> apply_events I now (con_tenantId c) (con_id c) events s)
      in case outcome of
           Inr _ \<Rightarrow> update_delivery (con_id c) (vw_eventId v) (\<lambda>d. d\<lparr>whd_processedAt := Some now\<rparr>) s1
         | Inl e \<Rightarrow> update_delivery (con_id c) (vw_eventId v) (\<lambda>d. d\<lparr>whd_error := Some (error_message e)\<rparr>) s1)"

definition handleWebhook ::
  "integration_env \<Rightarrow> 'w commerce_env \<Rightarrow> int \<Rightarrow> string \<Rightarrow> raw_webhook \<Rightarrow> db \<Rightarrow> (error + bool) \<times> db" where
  "handleWebhook I V now connectionId req s =
     (case List.find (\<lambda>c. con_id c = connectionId) (commerceConnections s) of
        None \<Rightarrow> (Inl (NotFound ''Unknown connection''), s)
      | Some c \<Rightarrow>
          (case open_connection I V now c of
             Inl e \<Rightarrow> (Inl e, s)
           | Inr (connector, cred) \<Rightarrow>
               (case cn_verifyWebhook connector cred now req of
                  Inl e \<Rightarrow> (Inl (Unauthorized (error_message e)), s)
                | Inr v \<Rightarrow>
                    if list_ex (\<lambda>d. whd_connectionId d = connectionId \<and> whd_externalEventId d = vw_eventId v) (webhookDeliveries s)
                    then (Inr True, s)
                    else
                      let s1 = s\<lparr>webhookDeliveries := webhookDeliveries s @ [\<lparr>whd_id = uuid (ie_env I) (seq s),
                                   whd_tenantId = con_tenantId c, whd_connectionId = connectionId,
                                   whd_externalEventId = vw_eventId v, whd_eventType = vw_eventType v,
                                   whd_payload = vw_payload v, whd_signatureVerified = True, whd_processedAt = None,
                                   whd_error = None\<rparr>],
                                 seq := Suc (seq s)\<rparr>
                      in (Inr False, process_delivery I connector now c v s1))))"

end
