(* ===== verification/Integrations_Facts.thy ===== *)
theory Integrations_Facts
  imports Integrations Auth_Facts
begin

text \<open>
  What the commerce integration guarantees: the retry helper and the push account for every call,
  the two mappers of a product agree, the pull ends, a resynchronisation creates nothing, a
  connection writes its own tenant's catalog only, and a webhook is applied at most once.
\<close>

section \<open>Retrying\<close>

text \<open>The attempts that fail before attempt \<open>k\<close>, with the waits between them.\<close>

inductive fails_until ::
  "nat \<Rightarrow> nat \<Rightarrow> (nat \<Rightarrow> 'w \<Rightarrow> 'w) \<Rightarrow> (nat \<Rightarrow> 'w \<Rightarrow> (error + 'a) \<times> 'w) \<Rightarrow> nat \<Rightarrow> 'w \<Rightarrow> nat \<Rightarrow> 'w \<Rightarrow> bool"
  for m base sleep fn k w where
  fails_refl: "fails_until m base sleep fn k w k w"
| fails_step: "fails_until m base sleep fn k w j v \<Longrightarrow> fn j v = (Inl e, v') \<Longrightarrow>
     fails_until m base sleep fn k w (Suc j) (if j < m then sleep (base * 2 ^ (j - 1)) v' else v')"

lemma fails_until_mono: "fails_until m base sleep fn k w j v \<Longrightarrow> k \<le> j"
  by (induction rule: fails_until.induct) auto

lemma fails_until_first:
  assumes "fn k w = (Inl e, v)" and "fails_until m base sleep fn (Suc k) (if k < m then sleep (base * 2 ^ (k - 1)) v else v) j u"
  shows "fails_until m base sleep fn k w j u"
  using assms(2,1)
proof (induction rule: fails_until.induct)
  case fails_refl
  from fails_until.fails_step [where fn = fn, OF fails_until.fails_refl fails_refl] show ?case .
next
  case (fails_step j u e v')
  then show ?case by (intro fails_until.fails_step)
qed

lemma retry_from_Inr:
  assumes "retry_from m base sleep fn k le n w = (Inr x, w')"
  shows "\<exists>j u. k \<le> j \<and> j < k + n \<and> fails_until m base sleep fn k w j u \<and> fn j u = (Inr x, w')"
  using assms
proof (induction n arbitrary: k w le)
  case (Suc n)
  show ?case
  proof (cases "fn k w")
    case (Pair r v)
    show ?thesis
    proof (cases r)
      case (Inl e)
      with Pair Suc.prems have "retry_from m base sleep fn (Suc k) (Some e) n
          (if k < m then sleep (base * 2 ^ (k - 1)) v else v) = (Inr x, w')" by simp
      from Suc.IH [OF this] obtain j u where "Suc k \<le> j" "j < Suc k + n"
        "fails_until m base sleep fn (Suc k) (if k < m then sleep (base * 2 ^ (k - 1)) v else v) j u" "fn j u = (Inr x, w')"
        by blast
      with fails_until_first [of fn k w e v] Pair Inl show ?thesis
        by (intro exI [of _ j] exI [of _ u]) auto
    next
      case (Inr y)
      with Pair Suc.prems show ?thesis
        by (intro exI [of _ k] exI [of _ w]) (auto intro: fails_until.fails_refl)
    qed
  qed
qed simp

text \<open>The helper returns the first success among its attempts, at most \<open>maxAttempts\<close> of them.\<close>

lemma withRetry_first_success:
  assumes "withRetry m base sleep fn w = (Inr x, w')"
  shows "\<exists>j u. 1 \<le> j \<and> j \<le> m \<and> fails_until m base sleep fn 1 w j u \<and> fn j u = (Inr x, w')"
  using retry_from_Inr [OF assms [unfolded withRetry_def]] by (metis add.commute less_Suc_eq_le plus_1_eq_Suc)

section \<open>Pushing\<close>

lemma push_accounts:
  "set (ps_succeeded (fst (rest_pushInventory R J cred us w))) \<union> fst ` set (ps_failed (fst (rest_pushInventory R J cred us w)))
     = iu_externalVariantId ` set us \<and>
   length (ps_succeeded (fst (rest_pushInventory R J cred us w))) +
     length (ps_failed (fst (rest_pushInventory R J cred us w))) = length us"
proof (induction us arbitrary: w)
  case (Cons u us)
  obtain r w1 where f: "urc_fetchImpl R (inventory_request R J cred u) w = (r, w1)" by fastforce
  obtain p w2 where p: "rest_pushInventory R J cred us w1 = (p, w2)" by fastforce
  from Cons.IH [of w1] show ?case
    by (cases r) (auto simp: f p Let_def)
qed simp

section \<open>The two mappers of a product\<close>

lemma split_none: "c \<notin> set s \<Longrightarrow> split c s = [s]"
  by (simp add: split_def split_acc_no_sep)

lemma getByPath_field: "CHR ''.'' \<notin> set k \<Longrightarrow> getByPath (Some (JObj kvs)) k = js_field k (JObj kvs)"
  by (simp add: getByPath_def split_none step_path_def js_field_def)

lemma getString_field:
  "CHR ''.'' \<notin> set k \<Longrightarrow> getStringByPath J (Some (JObj kvs)) k d = text_or J (js_field k (JObj kvs)) d"
  by (simp add: getStringByPath_def getByPath_field text_or_def Let_def)

text \<open>The mapper of the product pull and the mapper of the webhooks, two hand-written functions kept
  in step by convention, do agree: for every product object of the store they give the same external
  id, name and variant, with the same SKU, price and, where the store reports a stock number, the
  same quantity; so a product arrives the same by either path.\<close>
theorem product_mappers_agree:
  assumes id: "js_field ''id'' (JObj kvs) = Some (JNum n)"
    and pulled: "mapProduct (woo_config V url) J (JObj kvs) = Inr p"
  shows "\<exists>v v'. cp_variants p = [v] \<and> cp_variants (mapWooProductForEvent J (JObj kvs)) = [v'] \<and>
     cp_externalId p = cp_externalId (mapWooProductForEvent J (JObj kvs)) \<and>
     cp_name p = cp_name (mapWooProductForEvent J (JObj kvs)) \<and>
     cv_externalId v = cv_externalId v' \<and> cv_sku v = cv_sku v' \<and> cv_price v = cv_price v' \<and> cv_barcode v = cv_barcode v' \<and>
     (\<forall>q. js_field ''stock_quantity'' (JObj kvs) = Some (JNum q) \<longrightarrow>
        cv_inventoryQuantity v = Some q \<and> cv_inventoryQuantity v' = Some q)"
  using pulled id
  by (auto simp: mapProduct_def woo_config_def woo_product_mapping_def map_variant_def mapWooProductForEvent_def Let_def
      getString_field getByPath_field getNumberByPath_def text_or_def text_of_def nullish_def)

definition demo_commerce :: "nat commerce_env" where
  "demo_commerce = \<lparr>ce_json = \<lparr>js_stringify = (\<lambda>_. ''{}''), js_parse = (\<lambda>_. Some (JObj [(''webhookSecret'', JStr ''k'')]))\<rparr>,
     ce_fetch = (\<lambda>req w. (Inr \<lparr>hr_status = 200, hr_headers = [(''x-wp-totalpages'', ''1'')], hr_body = ''[]''\<rparr>, Suc w)),
     ce_sleep = (\<lambda>n w. w), ce_hmac = (\<lambda>k b. k @ b), ce_iso = int_str\<rparr>"

definition demo_store_product :: "(string \<times> json) list" where
  "demo_store_product = [(''id'', JNum 7), (''name'', JStr ''Mug''), (''sku'', JStr ''MUG''), (''price'', JStr ''9.5''),
     (''stock_quantity'', JNum 3)]"

theorem product_mappers_agree_witness:
  "\<exists>p. mapProduct (woo_config demo_commerce ''https://shop.test'') (ce_json demo_commerce) (JObj demo_store_product) = Inr p \<and>
     cp_externalId p = cp_externalId (mapWooProductForEvent (ce_json demo_commerce) (JObj demo_store_product))"
proof -
  have id: "js_field ''id'' (JObj demo_store_product) = Some (JNum 7)" by (simp add: js_field_def demo_store_product_def)
  obtain p where "mapProduct (woo_config demo_commerce ''https://shop.test'') (ce_json demo_commerce) (JObj demo_store_product) = Inr p"
    by (simp add: mapProduct_def woo_config_def woo_product_mapping_def Let_def)
  with product_mappers_agree [OF id this] show ?thesis by blast
qed


section \<open>The pull ends\<close>

text \<open>A store whose pages never announce more than \<open>N\<close> pages in all.\<close>

definition pages_within :: "'w fetch \<Rightarrow> nat \<Rightarrow> bool" where
  "pages_within fetch N \<longleftrightarrow>
     (\<forall>req w res w1. fetch req w = (Inr res, w1) \<longrightarrow>
        (\<exists>t \<le> of_nat N. Number_of_string (case header (hr_headers res) ''x-wp-totalpages'' of Some v \<Rightarrow> v | None \<Rightarrow> ''1'') = Some t) \<or>
        Number_of_string (case header (hr_headers res) ''x-wp-totalpages'' of Some v \<Rightarrow> v | None \<Rightarrow> ''1'') = None)"

text \<open>The page a cursor stands for.\<close>

fun cursor_of :: "nat \<Rightarrow> string option" where
  "cursor_of 0 = None"
| "cursor_of (Suc k) = Some (nat_str (Suc (Suc k)))"

lemma parsePage_next:
  assumes "pg_nextCursor (woo_parsePage J body hs (cursor_of k)) = Some c"
  shows "c = nat_str (Suc (Suc k)) \<and>
     (\<exists>t. Number_of_string (case header hs ''x-wp-totalpages'' of Some v \<Rightarrow> v | None \<Rightarrow> ''1'') = Some t \<and> of_nat (Suc k) < t)"
proof -
  have cur: "(if truthy (cursor_of k) then Number_of_string (the (cursor_of k)) else Some 1) = Some (of_nat (Suc k))"
    by (cases k) auto
  have written: "number_text J (of_nat n) = nat_str n" for n
    by (simp add: number_text_def int_str_def)
  obtain t where t: "Number_of_string (case header hs ''x-wp-totalpages'' of Some v \<Rightarrow> v | None \<Rightarrow> ''1'') = Some t"
    "of_nat (Suc k) < t" "c = number_text J (of_nat (Suc k) + 1)"
    using assms unfolding woo_parsePage_def cur Let_def by (auto split: option.splits if_splits)
  have "of_nat (Suc k) + 1 = (of_nat (Suc (Suc k)) :: rat)" by simp
  with t(3) have "c = nat_str (Suc (Suc k))" using written by metis
  with t show ?thesis by blast
qed

lemma fetchPage_Inr:
  assumes "fetchPage R J sleep endpoint cred cursor w = (Inr page, w1)"
  shows "\<exists>req u res u' body. urc_fetchImpl R req u = (Inr res, u') \<and> page = urc_parsePage R body (hr_headers res) cursor"
proof -
  let ?req = "\<lparr>hq_method = ''GET'', hq_url = (if truthy cursor then urc_applyCursor R (urc_baseUrl R @ endpoint) (the cursor)
      else urc_baseUrl R @ endpoint), hq_headers = auth_headers R cred, hq_body = None\<rparr>"
  obtain u where h: "(case urc_fetchImpl R ?req u of
      (Inl e, w1) \<Rightarrow> (Inl e, w1)
    | (Inr res, w1) \<Rightarrow>
        (if \<not> hr_ok res
         then Inl (ServerError (urc_providerName R @ '' request failed: HTTP '' @ nat_str (hr_status res)))
         else case js_parse J (hr_body res) of
                None \<Rightarrow> Inl (ServerError ''Unexpected token in JSON'')
              | Some body \<Rightarrow> Inr (urc_parsePage R body (hr_headers res) cursor), w1)) = (Inr page, w1)"
    using withRetry_first_success [OF assms [unfolded fetchPage_def Let_def]] by blast
  obtain r v where f: "urc_fetchImpl R ?req u = (r, v)" by fastforce
  with h obtain res body where "r = Inr res" "page = urc_parsePage R body (hr_headers res) cursor"
    by (cases r) (auto split: if_splits option.splits)
  with f show ?thesis by blast
qed

lemma woo_next_page:
  assumes "cn_pullProducts (createWooCommerceConnector V now url) cred (cursor_of k) w = (Inr page, w1)"
    and "pages_within (ce_fetch V) N" and "truthy (pg_nextCursor page)"
  shows "pg_nextCursor page = cursor_of (Suc k) \<and> Suc k < N"
proof -
  obtain raw where raw: "fetchPage (woo_config V url) (ce_json V) (ce_sleep V) (urc_listProducts (woo_config V url)) cred
      (cursor_of k) w = (Inr raw, w1)" "pg_nextCursor page = pg_nextCursor raw"
    using assms(1)
    by (cases "fetchPage (woo_config V url) (ce_json V) (ce_sleep V) (urc_listProducts (woo_config V url)) cred (cursor_of k) w")
       (auto simp: createWooCommerceConnector_def UniversalRestConnector_def rest_pullProducts_def pull_page_def err_simps)
  from fetchPage_Inr [OF raw(1)] obtain req u res u' body where
    f: "ce_fetch V req u = (Inr res, u')" "raw = woo_parsePage (ce_json V) body (hr_headers res) (cursor_of k)"
    by (auto simp: woo_config_def)
  obtain c where c: "pg_nextCursor raw = Some c" using assms(3) raw(2) by (cases "pg_nextCursor raw") auto
  from parsePage_next [of "ce_json V" body "hr_headers res" k c] f(2) c obtain t where
    "c = nat_str (Suc (Suc k))" and
    t: "Number_of_string (case header (hr_headers res) ''x-wp-totalpages'' of Some v \<Rightarrow> v | None \<Rightarrow> ''1'') = Some t" "of_nat (Suc k) < t"
    by auto
  moreover have "t \<le> of_nat N" using assms(2) f(1) t(1) unfolding pages_within_def by fastforce
  then have "(of_nat (Suc k) :: rat) < of_nat N" using t(2) by linarith
  then have "Suc k < N" by (metis of_nat_less_iff)
  ultimately show ?thesis using raw(2) c by simp
qed

lemma pull_loop_ends:
  assumes "pages_within (ce_fetch V) N"
  shows "\<exists>r. pull_loop I now (createWooCommerceConnector V now' url) cred tenantId connectionId (cursor_of k) n s w = Some r"
proof (induction "N - k" arbitrary: k n s w rule: less_induct)
  case less
  obtain r w1 where pull: "cn_pullProducts (createWooCommerceConnector V now' url) cred (cursor_of k) w = (r, w1)" by fastforce
  show ?case
  proof (cases r)
    case (Inl e)
    with pull show ?thesis by (subst pull_loop.simps) simp
  next
    case (Inr page)
    obtain r' n1 s1 where up: "upsert_products I now tenantId connectionId (pg_items page) n s = (r', n1, s1)"
      by (cases "upsert_products I now tenantId connectionId (pg_items page) n s") auto
    show ?thesis
    proof (cases "\<exists>u. r' = Inr u \<and> truthy (pg_nextCursor page)")
      case True
      from woo_next_page [OF _ assms] pull Inr True
      have next_page: "pg_nextCursor page = cursor_of (Suc k)" "Suc k < N" by auto
      then have "N - Suc k < N - k" by simp
      from less [OF this, of n1 s1 w1]
      obtain r2 where "pull_loop I now (createWooCommerceConnector V now' url) cred tenantId connectionId (cursor_of (Suc k)) n1 s1 w1 = Some r2"
        by blast
      with pull Inr up True next_page(1) show ?thesis by (subst pull_loop.simps) (cases r2; auto)
    next
      case False
      with pull Inr up show ?thesis by (subst pull_loop.simps) (auto split: sum.split)
    qed
  qed
qed

lemma finish_job_rows:
  assumes "j \<in> set (syncJobs (finish_job jid now st n err s))" and "syj_id j = jid"
  shows "syj_status j = st \<and> syj_itemsProcessed j = n \<and> syj_finishedAt j = Some now \<and> (\<forall>m. err = Some m \<longrightarrow> syj_error j = Some m)"
proof -
  let ?f = "\<lambda>j. j\<lparr>syj_status := st, syj_itemsProcessed := n,
    syj_error := (case err of Some m \<Rightarrow> Some m | None \<Rightarrow> syj_error j), syj_finishedAt := Some now\<rparr>"
  from assms(1) obtain q where "j = (if syj_id q = jid then ?f q else q)"
    unfolding finish_job_def by (simp add: set_update_where) blast
  with assms(2) have "j = ?f q" by (cases "syj_id q = jid") simp_all
  then show ?thesis by simp
qed

lemma update_connection_rows:
  assumes "c \<in> set (commerceConnections (update_connection cid f s))" and "con_id c = cid" and "\<And>c. con_id (f c) = con_id c"
  shows "\<exists>c0. c = f c0"
proof -
  from assms(1) obtain q where "c = (if con_id q = cid then f q else q)"
    unfolding update_connection_def by (simp add: set_update_where) blast
  with assms(2,3) have "c = f q" by (cases "con_id q = cid") simp_all
  then show ?thesis ..
qed

lemma job_frame [simp]:
  "commerceConnections (finish_job jid now st n err s) = commerceConnections s"
  "syncJobs (update_connection cid f s) = syncJobs s"
  by (simp_all add: finish_job_def update_connection_def)

text \<open>a product synchronisation always comes to an end when the store's page count is bounded, on
  success and on every failure alike, and leaves its job finished: succeeded with the number of
  products processed, or failed with the error, which the connection then shows too.\<close>
theorem product_sync_ends:
  assumes bounded: "pages_within (ce_fetch V) N" and own: "getOwnedConnection tenantId connectionId s = Inr c"
    and opened: "open_connection I V now c = Inr opening"
  shows "\<exists>outcome t w'. syncProducts I V now tenantId actor connectionId s w = Some (outcome, t, w') \<and>
     (\<forall>j\<in>set (syncJobs t). syj_id j = uuid (ie_env I) (seq s) \<longrightarrow>
        (case outcome of Inr n \<Rightarrow> syj_status j = JobSUCCEEDED \<and> syj_itemsProcessed j = n
         | Inl e \<Rightarrow> syj_status j = JobFAILED \<and> syj_error j = Some (error_message e)) \<and> syj_finishedAt j = Some now) \<and>
     (\<forall>x\<in>set (commerceConnections t). con_id x = connectionId \<longrightarrow>
        (case outcome of Inr n \<Rightarrow> con_status x = ConnCONNECTED \<and> con_lastSyncAt x = Some now
         | Inl e \<Rightarrow> con_status x = ConnERROR \<and> con_lastError x = Some (error_message e)))"
proof -
  obtain connector cred where o: "opening = (connector, cred)" by fastforce
  obtain url where conn: "connector = createWooCommerceConnector V now url"
    using opened o by (cases "con_provider c") (auto simp: open_connection_def err_simps)
  let ?s0 = "create_job (ie_env I) now tenantId connectionId DomPRODUCTS PULL s"
  obtain r where "pull_loop I now connector cred tenantId connectionId (cursor_of 0) 0 ?s0 w = Some r"
    using pull_loop_ends [OF bounded] conn by blast
  then obtain outcome n s1 w1 where run: "pull_loop I now connector cred tenantId connectionId None 0 ?s0 w = Some (outcome, n, s1, w1)"
    by (cases r) auto
  have sync: "syncProducts I V now tenantId actor connectionId s w =
     (case outcome of
        Inl e \<Rightarrow> Some (Inl e, update_connection connectionId
            (\<lambda>c. c\<lparr>con_status := ConnERROR, con_lastError := Some (error_message e), con_lastErrorAt := Some now\<rparr>)
            (finish_job (uuid (ie_env I) (seq s)) now JobFAILED n (Some (error_message e)) s1), w1)
      | Inr _ \<Rightarrow> Some (Inr n, audit_record (ie_env I) (audit_in (Some tenantId) (Some actor) ''integrations.products_synced''
            ''CommerceConnection'' connectionId (Some (JObj [(''itemsProcessed'', JNum (of_nat n))])))
            (update_connection connectionId (\<lambda>c. c\<lparr>con_lastSyncAt := Some now, con_status := ConnCONNECTED, con_lastError := None\<rparr>)
              (finish_job (uuid (ie_env I) (seq s)) now JobSUCCEEDED n None s1)), w1))"
    using own opened o run by (simp add: syncProducts_def Let_def)
  show ?thesis
    by (cases outcome) (auto simp: sync dest!: finish_job_rows update_connection_rows)
qed


section \<open>How the integration tables evolve\<close>

definition same_product :: "product \<Rightarrow> product \<Rightarrow> bool" where
  "same_product x y \<longleftrightarrow> prd_id y = prd_id x \<and> prd_tenantId y = prd_tenantId x"

definition same_variant :: "variant \<Rightarrow> variant \<Rightarrow> bool" where
  "same_variant x y \<longleftrightarrow> var_id y = var_id x \<and> var_tenantId y = var_tenantId x \<and> var_sku y = var_sku x \<and>
     var_productId y = var_productId x"

definition same_connection :: "commerce_connection \<Rightarrow> commerce_connection \<Rightarrow> bool" where
  "same_connection x y \<longleftrightarrow> con_id y = con_id x \<and> con_tenantId y = con_tenantId x \<and> con_provider y = con_provider x \<and>
     con_storeUrl y = con_storeUrl x \<and> con_credentialsEncrypted y = con_credentialsEncrypted x"

definition same_delivery :: "webhook_delivery \<Rightarrow> webhook_delivery \<Rightarrow> bool" where
  "same_delivery x y \<longleftrightarrow> whd_connectionId y = whd_connectionId x \<and> whd_externalEventId y = whd_externalEventId x \<and>
     whd_tenantId y = whd_tenantId x \<and> whd_payload y = whd_payload x"

lemmas shop_same_defs = same_product_def same_variant_def same_connection_def same_delivery_def

lemma shop_same_refl [simp, intro]:
  "reflp same_product" "reflp same_variant" "reflp same_connection" "reflp same_delivery" "reflp ((=) :: external_object_map \<Rightarrow> _)"
  by (auto simp: shop_same_defs intro!: reflpI)

lemma shop_same_trans [simp, intro]:
  "transp same_product" "transp same_variant" "transp same_connection" "transp same_delivery" "transp ((=) :: external_object_map \<Rightarrow> _)"
  by (auto simp: shop_same_defs intro!: transpI)

definition shop_evolves :: "db \<Rightarrow> db \<Rightarrow> bool" where
  "shop_evolves s t \<longleftrightarrow> rows_evolve same_product (products s) (products t) \<and>
     rows_evolve same_variant (productVariants s) (productVariants t) \<and>
     rows_evolve (=) (externalObjectMaps s) (externalObjectMaps t) \<and>
     rows_evolve same_connection (commerceConnections s) (commerceConnections t) \<and>
     rows_evolve same_delivery (webhookDeliveries s) (webhookDeliveries t)"

lemma shop_evolves_refl [simp, intro]: "shop_evolves s s"
  by (simp add: shop_evolves_def rows_evolve_refl)

lemma shop_evolves_trans: "shop_evolves s t \<Longrightarrow> shop_evolves t u \<Longrightarrow> shop_evolves s u"
  unfolding shop_evolves_def by (meson rows_evolve_trans shop_same_trans)

lemma shop_evolves_same:
  assumes "products t = products s" "productVariants t = productVariants s" "externalObjectMaps t = externalObjectMaps s"
    "commerceConnections t = commerceConnections s" "webhookDeliveries t = webhookDeliveries s"
  shows "shop_evolves s t"
  using assms by (simp add: shop_evolves_def rows_evolve_refl)

lemma create_map_evolves: "shop_evolves s (create_map E ten con ty ext ct cid s)"
  by (auto simp: shop_evolves_def create_map_def intro: evolve_intros)

lemma update_connection_evolves: "(\<And>c. same_connection c (f c)) \<Longrightarrow> shop_evolves s (update_connection cid f s)"
  by (auto simp: shop_evolves_def update_connection_def intro: evolve_intros)

lemma update_delivery_evolves: "(\<And>d. same_delivery d (f d)) \<Longrightarrow> shop_evolves s (update_delivery cid eid f s)"
  by (auto simp: shop_evolves_def update_delivery_def intro: evolve_intros)

lemma job_evolves: "shop_evolves s (create_job E now ten con d dir s)" "shop_evolves s (finish_job jid now st n err s)"
  by (rule shop_evolves_same; simp add: create_job_def finish_job_def)+

lemma audit_shop_evolves [simp]: "shop_evolves s (audit_record E i t) \<longleftrightarrow> shop_evolves s t"
  by (simp add: shop_evolves_def)

lemma target_variant_evolves: "shop_evolves s (snd (target_variant I ten pid v s))"
  by (auto simp: target_variant_def shop_evolves_def intro: evolve_intros split: option.split sum.split)

lemma upsertCanonicalVariant_evolves: "shop_evolves s (snd (upsertCanonicalVariant I ten con pid v s))"
proof (cases "find_map con ExtVARIANT (cv_externalId v) s")
  case None
  then show ?thesis
    using target_variant_evolves [of s I ten pid v] create_map_evolves shop_evolves_trans
    by (cases "target_variant I ten pid v s") (auto simp: upsertCanonicalVariant_def split: sum.split)
next
  case (Some m)
  then show ?thesis
    by (auto simp: upsertCanonicalVariant_def shop_evolves_def same_variant_def intro!: evolve_intros split: sum.split)
qed

lemma upsert_variants_evolves: "shop_evolves s (snd (upsert_variants I ten con pid vs s))"
proof (induction vs arbitrary: s)
  case (Cons v vs)
  obtain r s1 where u: "upsertCanonicalVariant I ten con pid v s = (r, s1)" by fastforce
  then have "shop_evolves s s1" using upsertCanonicalVariant_evolves [of s I ten con pid v] by simp
  with u Cons.IH [of s1] show ?case by (cases r) (auto intro: shop_evolves_trans)
qed simp

lemma upsert_product_row_evolves: "shop_evolves s (snd (upsert_product_row I now ten con p s))"
proof (cases "find_map con ExtPRODUCT (cp_externalId p) s")
  case None
  have "shop_evolves s (s\<lparr>products := products s @ [q], seq := n\<rparr>)" for q n
    by (auto simp: shop_evolves_def intro: evolve_intros)
  with None show ?thesis
    using create_map_evolves shop_evolves_trans by (auto simp: upsert_product_row_def Let_def) blast
next
  case (Some m)
  then show ?thesis
    by (auto simp: upsert_product_row_def shop_evolves_def same_product_def intro!: evolve_intros)
qed

lemma upsertCanonicalProduct_evolves: "shop_evolves s (snd (upsertCanonicalProduct I now ten con p s))"
proof -
  obtain r s1 where u: "upsert_product_row I now ten con p s = (r, s1)" by fastforce
  then have "shop_evolves s s1" using upsert_product_row_evolves [of s I now ten con p] by simp
  with u show ?thesis
    by (cases r) (auto simp: upsertCanonicalProduct_def intro: shop_evolves_trans upsert_variants_evolves)
qed

lemma upsert_products_evolves: "shop_evolves s (snd (snd (upsert_products I now ten con ps n s)))"
proof (induction ps arbitrary: n s)
  case (Cons p ps)
  obtain r s1 where u: "upsertCanonicalProduct I now ten con p s = (r, s1)" by fastforce
  then have "shop_evolves s s1" using upsertCanonicalProduct_evolves [of s I now ten con p] by simp
  with u Cons.IH [where n = "Suc n" and s = s1] show ?case by (cases r) (auto intro: shop_evolves_trans)
qed simp

lemma apply_events_evolves: "shop_evolves s (snd (apply_events I now ten con es s))"
proof (induction es arbitrary: s)
  case (Cons e es)
  show ?case
  proof (cases e)
    case (ProductUpdated p)
    obtain r s1 where u: "upsertCanonicalProduct I now ten con p s = (r, s1)" by fastforce
    then have "shop_evolves s s1" using upsertCanonicalProduct_evolves [of s I now ten con p] by simp
    with u ProductUpdated Cons.IH [of s1] show ?thesis by (cases r) (auto intro: shop_evolves_trans)
  qed (simp_all add: Cons.IH)
qed simp

text \<open>The loop keeps every reflexive and transitive relation its pages keep.\<close>

lemma pull_loop_keeps:
  assumes "pull_loop I now connector cred ten con cursor n s w = Some (r, n', t, w')"
    and page: "\<And>ps n s. R s (snd (snd (upsert_products I now ten con ps n s)))"
    and refl: "\<And>s. R s s" and trans: "\<And>s t u. R s t \<Longrightarrow> R t u \<Longrightarrow> R s u"
  shows "R s t"
proof -
  have "I = I \<and> now = now \<and> ten = ten \<and> con = con \<longrightarrow> (\<forall>r n' t w'. y = (r, n', t, w') \<longrightarrow> R s t)"
    if "pull_loop I now connector cred ten con cursor n s w = Some y" for y
  proof (rule pull_loop.raw_induct [where P = "\<lambda>I' now' connector cred ten' con' cursor n s w y.
        I' = I \<and> now' = now \<and> ten' = ten \<and> con' = con \<longrightarrow> (\<forall>r n' t w'. y = (r, n', t, w') \<longrightarrow> R s t)", OF _ that])
    fix loop :: "integration_env \<Rightarrow> int \<Rightarrow> 'a connector \<Rightarrow> credentials \<Rightarrow> string \<Rightarrow> string \<Rightarrow> string option \<Rightarrow> nat \<Rightarrow> db \<Rightarrow> 'a
        \<Rightarrow> ((error + unit) \<times> nat \<times> db \<times> 'a) option"
      and I' now' and connector :: "'a connector" and cred ten' con' cursor n s w y
    assume IH: "\<And>I' now' connector cred ten' con' cursor n s w y. loop I' now' connector cred ten' con' cursor n s w = Some y \<Longrightarrow>
        I' = I \<and> now' = now \<and> ten' = ten \<and> con' = con \<longrightarrow> (\<forall>r n' t w'. y = (r, n', t, w') \<longrightarrow> R s t)"
      and body: "(case cn_pullProducts connector cred cursor w of
          (Inl e, w1) \<Rightarrow> Some (Inl e, n, s, w1)
        | (Inr page, w1) \<Rightarrow>
            (case upsert_products I' now' ten' con' (pg_items page) n s of
               (Inl e, n1, s1) \<Rightarrow> Some (Inl e, n1, s1, w1)
             | (Inr _, n1, s1) \<Rightarrow>
                 if truthy (pg_nextCursor page)
                 then loop I' now' connector cred ten' con' (pg_nextCursor page) n1 s1 w1
                 else Some (Inr (), n1, s1, w1))) = Some y"
    show "I' = I \<and> now' = now \<and> ten' = ten \<and> con' = con \<longrightarrow> (\<forall>r n' t w'. y = (r, n', t, w') \<longrightarrow> R s t)"
    proof (intro impI allI)
      fix r n' t w' assume eq: "I' = I \<and> now' = now \<and> ten' = ten \<and> con' = con" "y = (r, n', t, w')"
    obtain rp w1 where pull: "cn_pullProducts connector cred cursor w = (rp, w1)" by fastforce
      show "R s t"
      proof (cases rp)
        case (Inl e)
        with body pull eq refl show ?thesis by auto
      next
        case (Inr pg)
        obtain r' n1 s1 where up: "upsert_products I now ten con (pg_items pg) n s = (r', n1, s1)"
          by (cases "upsert_products I now ten con (pg_items pg) n s") auto
        then have s1: "R s s1" using page [where ps = "pg_items pg" and n = n and s = s] by simp
        show ?thesis
        proof (cases "\<exists>u. r' = Inr u \<and> truthy (pg_nextCursor pg)")
          case True
          with body pull Inr up eq have "loop I now connector cred ten con (pg_nextCursor pg) n1 s1 w1 = Some (r, n', t, w')" by auto
          from IH [OF this] have "R s1 t" by blast
          with s1 trans show ?thesis by blast
        next
          case False
          with body pull Inr up eq s1 show ?thesis by (auto split: sum.splits if_splits)
        qed
      qed
    qed
  qed
  with assms(1) show ?thesis by blast
qed


section \<open>Every request lets them evolve\<close>

lemma createConnection_evolves: "shop_evolves s (fst (snd (createConnection I V now ten actor input s w)))"
  by (auto simp: createConnection_def Let_def shop_evolves_def intro!: evolve_intros split: sum.split prod.split)

lemma testConnection_evolves: "shop_evolves s (fst (snd (testConnection I V now ten con s w)))"
  by (auto simp: testConnection_def same_connection_def intro!: update_connection_evolves split: sum.split prod.split)

lemma disconnect_evolves: "shop_evolves s (snd (disconnect I ten actor con s))"
  by (auto simp: disconnect_def same_connection_def intro!: update_connection_evolves split: sum.split)

lemma syncProducts_evolves:
  assumes "syncProducts I V now ten actor con s w = Some (r, t, w')"
  shows "shop_evolves s t"
proof (cases "bindE (getOwnedConnection ten con s) (open_connection I V now)")
  case (Inl e)
  with assms show ?thesis by (simp add: syncProducts_def)
next
  case (Inr a)
  obtain connector cred where a: "a = (connector, cred)" by fastforce
  let ?s0 = "create_job (ie_env I) now ten con DomPRODUCTS PULL s"
  obtain r1 n s1 w1 where run: "pull_loop I now connector cred ten con None 0 ?s0 w = Some (r1, n, s1, w1)"
    using assms Inr a by (auto simp: syncProducts_def Let_def bind_eq_Some_conv)
  have "shop_evolves ?s0 s1"
    by (rule pull_loop_keeps [OF run]) (auto intro: upsert_products_evolves shop_evolves_trans)
  then have s1: "shop_evolves s s1" using job_evolves(1) shop_evolves_trans by blast
  have f: "shop_evolves s (update_connection con f (finish_job jid now st k err s1))"
    if "\<And>c. same_connection c (f c)" for f jid st k err
    by (rule shop_evolves_trans [OF shop_evolves_trans [OF s1 job_evolves(2)] update_connection_evolves [OF that]])
  show ?thesis
    using assms Inr a run by (cases r1) (auto simp: syncProducts_def Let_def same_connection_def intro!: f)
qed

lemma pushInventory_evolves: "shop_evolves s (fst (snd (pushInventory I V now ten actor con s w)))"
proof -
  have "shop_evolves s (update_connection con f (finish_job jid now st k err (create_job (ie_env I) now ten con d dir s)))"
    if "\<And>c. same_connection c (f c)" for f jid st k err d dir
    by (rule shop_evolves_trans [OF shop_evolves_trans [OF job_evolves] update_connection_evolves [OF that]])
  then show ?thesis
    by (auto simp: pushInventory_def Let_def same_connection_def split: sum.split prod.split)
qed

lemma process_delivery_evolves: "shop_evolves s (process_delivery I connector now c v s)"
proof -
  have f: "shop_evolves s (update_delivery con eid f (snd (apply_events I now ten con' es s)))"
    if "\<And>d. same_delivery d (f d)" for con eid f ten con' es
    by (rule shop_evolves_trans [OF apply_events_evolves update_delivery_evolves [OF that]])
  show ?thesis
    by (cases "cn_normalize connector now (vw_payload v)")
       (auto simp: process_delivery_def Let_def case_prod_unfold same_delivery_def intro!: f update_delivery_evolves split: sum.split)
qed

lemma handleWebhook_evolves: "shop_evolves s (snd (handleWebhook I V now con req s))"
proof -
  have n: "shop_evolves s (s\<lparr>webhookDeliveries := webhookDeliveries s @ [d], seq := k\<rparr>)" for d k
    by (auto simp: shop_evolves_def intro: evolve_intros)
  show ?thesis
    by (auto simp: handleWebhook_def Let_def intro!: shop_evolves_trans [OF n process_delivery_evolves] split: option.split sum.split)
qed

text \<open>The requests of the integration service, in any order and at any time.\<close>

inductive integration_step :: "integration_env \<Rightarrow> 'w commerce_env \<Rightarrow> db \<times> 'w \<Rightarrow> db \<times> 'w \<Rightarrow> bool" for I V where
  created: "createConnection I V now ten actor input s w = (r, t, w') \<Longrightarrow> integration_step I V (s, w) (t, w')"
| tested: "testConnection I V now ten con s w = (r, t, w') \<Longrightarrow> integration_step I V (s, w) (t, w')"
| disconnected: "disconnect I ten actor con s = (r, t) \<Longrightarrow> integration_step I V (s, w) (t, w)"
| synced: "syncProducts I V now ten actor con s w = Some (r, t, w') \<Longrightarrow> integration_step I V (s, w) (t, w')"
| pushed: "pushInventory I V now ten actor con s w = (r, t, w') \<Longrightarrow> integration_step I V (s, w) (t, w')"
| received: "handleWebhook I V now con req s = (r, t) \<Longrightarrow> integration_step I V (s, w) (t, w)"

lemma integration_step_evolves: "integration_step I V (s, w) (t, w') \<Longrightarrow> shop_evolves s t"
proof (induction "(s, w)" "(t, w')" rule: integration_step.induct)
  case (created now ten actor input r)
  then show ?case using createConnection_evolves [of s I V now ten actor input w] by simp
next
  case (tested now ten con r)
  then show ?case using testConnection_evolves [of s I V now ten con w] by simp
next
  case (disconnected ten actor con r)
  then show ?case using disconnect_evolves [of s I ten actor con] by simp
next
  case (synced now ten actor con r)
  then show ?case by (rule syncProducts_evolves)
next
  case (pushed now ten actor con r)
  then show ?case using pushInventory_evolves [of s I V now ten actor con w] by simp
next
  case (received now con req r)
  then show ?case using handleWebhook_evolves [of s I V now con req] by simp
qed

lemma integration_steps_evolve:
  assumes "(integration_step I V)\<^sup>*\<^sup>* (s, w) (t, w')"
  shows "shop_evolves s t"
  using assms by (induction rule: rtranclp_induct2) (auto intro: shop_evolves_trans integration_step_evolves)

section \<open>Webhooks\<close>

text \<open>What a connection is opened with does not change.\<close>

lemma opened_evolves:
  assumes "shop_evolves s t" and "List.find (\<lambda>c. con_id c = cid) (commerceConnections s) = Some c"
    and "open_connection I V now c = Inr (connector, cred)"
  shows "\<exists>c' connector'. List.find (\<lambda>c. con_id c = cid) (commerceConnections t) = Some c' \<and> con_tenantId c' = con_tenantId c \<and>
     open_connection I V later c' = Inr (connector', cred) \<and> cn_verifyWebhook connector' = cn_verifyWebhook connector"
proof -
  have k: "con_id y = con_id x" if "same_connection x y" for x y using that by (simp add: same_connection_def)
  have "rows_evolve same_connection (commerceConnections s) (commerceConnections t)" using assms(1) by (simp add: shop_evolves_def)
  from find_rows_evolve [where key = con_id, OF this k assms(2)]
  obtain c' where c': "List.find (\<lambda>c. con_id c = cid) (commerceConnections t) = Some c'" "same_connection c c'" by blast
  have "con_provider c = WOOCOMMERCE" using assms(3) by (cases "con_provider c") (auto simp: open_connection_def)
  with assms(3) c' show ?thesis
    by (auto simp: open_connection_def same_connection_def err_simps createWooCommerceConnector_def
        UniversalRestConnector_def woo_config_def)
qed

abbreviation delivered :: "string \<Rightarrow> string \<Rightarrow> db \<Rightarrow> bool" where
  "delivered cid eid s \<equiv> list_ex (\<lambda>d. whd_connectionId d = cid \<and> whd_externalEventId d = eid) (webhookDeliveries s)"

lemma delivered_evolves:
  assumes "shop_evolves s t" and "delivered cid eid s"
  shows "delivered cid eid t"
proof -
  obtain f new where f: "webhookDeliveries t = map f (webhookDeliveries s) @ new" "\<And>x. same_delivery x (f x)"
    using assms(1) unfolding shop_evolves_def rows_evolve_def by blast
  obtain d where "d \<in> set (webhookDeliveries s)" "whd_connectionId d = cid" "whd_externalEventId d = eid"
    using assms(2) by (auto simp: list_ex_iff)
  with f(2) [of d] have "f d \<in> set (webhookDeliveries t)" "whd_connectionId (f d) = cid" "whd_externalEventId (f d) = eid"
    by (simp_all add: f(1) same_delivery_def)
  then show ?thesis unfolding list_ex_iff by blast
qed

lemma handleWebhook_Inr:
  assumes "handleWebhook I V now cid req s = (Inr b, t)"
  shows "\<exists>c connector cred v. List.find (\<lambda>c. con_id c = cid) (commerceConnections s) = Some c \<and>
     open_connection I V now c = Inr (connector, cred) \<and> cn_verifyWebhook connector cred now req = Inr v \<and>
     b = list_ex (\<lambda>d. whd_connectionId d = cid \<and> whd_externalEventId d = vw_eventId v) (webhookDeliveries s) \<and>
     (b \<longrightarrow> t = s) \<and>
     list_ex (\<lambda>d. whd_connectionId d = cid \<and> whd_externalEventId d = vw_eventId v) (webhookDeliveries t)"
proof -
  obtain c connector cred v where h: "List.find (\<lambda>c. con_id c = cid) (commerceConnections s) = Some c"
    "open_connection I V now c = Inr (connector, cred)" "cn_verifyWebhook connector cred now req = Inr v"
    using assms by (auto simp: handleWebhook_def split: option.splits sum.splits)
  show ?thesis
  proof (cases "list_ex (\<lambda>d. whd_connectionId d = cid \<and> whd_externalEventId d = vw_eventId v) (webhookDeliveries s)")
    case True
    with assms h show ?thesis by (simp add: handleWebhook_def)
  next
    case False
    define s1 where "s1 = s\<lparr>webhookDeliveries := webhookDeliveries s @ [\<lparr>whd_id = uuid (ie_env I) (seq s),
         whd_tenantId = con_tenantId c, whd_connectionId = cid, whd_externalEventId = vw_eventId v,
         whd_eventType = vw_eventType v, whd_payload = vw_payload v, whd_signatureVerified = True,
         whd_processedAt = None, whd_error = None\<rparr>], seq := Suc (seq s)\<rparr>"
    have b: "b = False" and t: "t = process_delivery I connector now c v s1"
      using assms h False by (auto simp: handleWebhook_def s1_def Let_def)
    have "shop_evolves s1 t" using process_delivery_evolves [of s1 I connector now c v] t by simp
    moreover have "delivered cid (vw_eventId v) s1" by (simp add: s1_def)
    ultimately have "delivered cid (vw_eventId v) t" by (rule delivered_evolves)
    with h b False show ?thesis by blast
  qed
qed



section \<open>Resynchronisation\<close>

text \<open>An external object with a map row whose target exists.\<close>

definition mapped_product :: "string \<Rightarrow> string \<Rightarrow> db \<Rightarrow> bool" where
  "mapped_product con ext s \<longleftrightarrow> (\<exists>m. find_map con ExtPRODUCT ext s = Some m \<and> taken prd_id (eom_canonicalId m) (products s))"

definition mapped_variant :: "string \<Rightarrow> string \<Rightarrow> db \<Rightarrow> bool" where
  "mapped_variant con ext s \<longleftrightarrow> (\<exists>m. find_map con ExtVARIANT ext s = Some m \<and> taken var_id (eom_canonicalId m) (productVariants s))"

lemma find_map_key:
  "find_map con ty ext s = List.find (\<lambda>m. (eom_connectionId m, eom_externalType m, eom_externalId m) = (con, ty, ext)) (externalObjectMaps s)"
  by (simp add: find_map_def)

lemma find_map_evolves:
  assumes "shop_evolves s t" and "find_map con ty ext s = Some m"
  shows "find_map con ty ext t = Some m"
proof -
  have "rows_evolve (=) (externalObjectMaps s) (externalObjectMaps t)" using assms(1) by (simp add: shop_evolves_def)
  from find_rows_evolve [where key = "\<lambda>m. (eom_connectionId m, eom_externalType m, eom_externalId m)", OF this _
      assms(2) [unfolded find_map_key]]
  show ?thesis unfolding find_map_key by auto
qed

lemma find_map_frame [simp]:
  "find_map con ty ext (s\<lparr>productVariants := vs\<rparr>) = find_map con ty ext s"
  "find_map con ty ext (s\<lparr>products := ps\<rparr>) = find_map con ty ext s"
  "find_map con ty ext (s\<lparr>seq := n\<rparr>) = find_map con ty ext s"
  by (simp_all add: find_map_def)

lemma taken_update_where: "(\<And>x. key (f x) = key x) \<Longrightarrow> taken key k (update_where P f rows) = taken key k rows"
  by (induction rows) auto

lemma taken_evolves:
  assumes "rows_evolve keep xs ys" and "\<And>x y. keep x y \<Longrightarrow> key y = key x" and "taken key k xs"
  shows "taken key k ys"
proof -
  obtain f new where f: "ys = map f xs @ new" "\<And>x. keep x (f x)" using assms(1) unfolding rows_evolve_def by blast
  obtain x where "x \<in> set xs" "key x = k" using assms(3) by (auto simp: table_simps)
  with f assms(2) have "f x \<in> set ys" "key (f x) = k" by auto
  then show ?thesis unfolding taken_iff by blast
qed

lemma mapped_evolves:
  assumes "shop_evolves s t"
  shows "mapped_product con ext s \<Longrightarrow> mapped_product con ext t" "mapped_variant con ext s \<Longrightarrow> mapped_variant con ext t"
proof -
  have p: "taken prd_id k (products t)" if "taken prd_id k (products s)" for k
    using assms that unfolding shop_evolves_def by (meson taken_evolves same_product_def)
  have v: "taken var_id k (productVariants t)" if "taken var_id k (productVariants s)" for k
    using assms that unfolding shop_evolves_def by (meson taken_evolves same_variant_def)
  show "mapped_product con ext t" if "mapped_product con ext s"
    using that p find_map_evolves [OF assms] unfolding mapped_product_def by blast
  show "mapped_variant con ext t" if "mapped_variant con ext s"
    using that v find_map_evolves [OF assms] unfolding mapped_variant_def by blast
qed

lemma find_map_create_other:
  "find_map con ty ext (create_map E ten con ty ext ct cid s) =
     (case find_map con ty ext s of Some m \<Rightarrow> Some m
      | None \<Rightarrow> Some \<lparr>eom_id = uuid E (seq s), eom_tenantId = ten, eom_connectionId = con, eom_externalType = ty,
          eom_externalId = ext, eom_canonicalType = ct, eom_canonicalId = cid\<rparr>)"
  by (simp add: find_map_def create_map_def split: option.split)

lemma upsert_variant_maps:
  assumes "upsertCanonicalVariant I ten con pid v s = (Inr (), t)"
  shows "mapped_variant con (cv_externalId v) t"
proof (cases "find_map con ExtVARIANT (cv_externalId v) s")
  case (Some m)
  with assms show ?thesis
    by (auto simp: upsertCanonicalVariant_def mapped_variant_def taken_update_where split: sum.splits if_splits)
next
  case None
  then obtain vid s1 where s1: "target_variant I ten pid v s = (Inr vid, s1)"
    "t = create_map (ie_env I) ten con ExtVARIANT (cv_externalId v) ''ProductVariant'' vid s1"
    using assms by (auto simp: upsertCanonicalVariant_def split: prod.splits sum.splits)
  then have "find_map con ExtVARIANT (cv_externalId v) s1 = None" "taken var_id vid (productVariants s1)"
    using None by (auto simp: target_variant_def find_map_def table_simps split: option.splits sum.splits if_splits dest!: find_SomeD)
  then show ?thesis by (auto simp: mapped_variant_def s1(2) find_map_create_other) (auto simp: create_map_def)
qed

lemma upsert_variants_map:
  assumes "upsert_variants I ten con pid vs s = (Inr (), t)" and "v \<in> set vs"
  shows "mapped_variant con (cv_externalId v) t"
  using assms
proof (induction vs arbitrary: s)
  case (Cons x xs)
  then obtain s1 where s1: "upsertCanonicalVariant I ten con pid x s = (Inr (), s1)" "upsert_variants I ten con pid xs s1 = (Inr (), t)"
    by (auto split: prod.splits sum.splits)
  show ?case
  proof (cases "v = x")
    case True
    have "shop_evolves s1 t" using upsert_variants_evolves [of s1 I ten con pid xs] s1(2) by simp
    with True upsert_variant_maps [OF s1(1)] mapped_evolves(2) show ?thesis by blast
  next
    case False
    with Cons.IH [OF s1(2)] Cons.prems(2) show ?thesis by simp
  qed
qed simp

lemma upsert_product_maps:
  assumes "upsertCanonicalProduct I now ten con p s = (Inr (), t)"
  shows "mapped_product con (cp_externalId p) t \<and> (\<forall>v\<in>set (cp_variants p). mapped_variant con (cv_externalId v) t)"
proof -
  obtain pid s1 where s1: "upsert_product_row I now ten con p s = (Inr pid, s1)" "upsert_variants I ten con pid (cp_variants p) s1 = (Inr (), t)"
    using assms by (auto simp: upsertCanonicalProduct_def split: prod.splits sum.splits)
  have "mapped_product con (cp_externalId p) s1"
  proof (cases "find_map con ExtPRODUCT (cp_externalId p) s")
    case (Some m)
    with s1(1) show ?thesis
      by (auto simp: upsert_product_row_def mapped_product_def taken_update_where split: if_splits)
  next
    case None
    with s1(1) show ?thesis
      by (auto simp: upsert_product_row_def mapped_product_def Let_def find_map_create_other)
         (auto simp: create_map_def find_map_def)
  qed
  moreover have "shop_evolves s1 t" using upsert_variants_evolves [of s1 I ten con pid "cp_variants p"] s1(2) by simp
  ultimately show ?thesis using mapped_evolves(1) upsert_variants_map [OF s1(2)] by blast
qed

text \<open>Writing what is already mapped changes prices, names and barcodes only.\<close>

definition no_new_rows :: "db \<Rightarrow> db \<Rightarrow> bool" where
  "no_new_rows s t \<longleftrightarrow> externalObjectMaps t = externalObjectMaps s \<and> map prd_id (products t) = map prd_id (products s) \<and>
     map (\<lambda>x. (var_id x, var_sku x)) (productVariants t) = map (\<lambda>x. (var_id x, var_sku x)) (productVariants s)"

lemma no_new_rows_trans: "no_new_rows s t \<Longrightarrow> no_new_rows t u \<Longrightarrow> no_new_rows s u"
  by (simp add: no_new_rows_def)

lemma upsert_mapped_variant:
  assumes "mapped_variant con (cv_externalId v) s" and "ie_decimal I (cm_amount (cv_price v)) \<noteq> None"
  shows "\<exists>t. upsertCanonicalVariant I ten con pid v s = (Inr (), t) \<and> no_new_rows s t"
  using assms
  by (auto simp: mapped_variant_def upsertCanonicalVariant_def price_column_def no_new_rows_def map_update_where_same)

lemma upsert_mapped_variants:
  assumes "\<forall>v\<in>set vs. mapped_variant con (cv_externalId v) s \<and> ie_decimal I (cm_amount (cv_price v)) \<noteq> None"
  shows "\<exists>t. upsert_variants I ten con pid vs s = (Inr (), t) \<and> no_new_rows s t"
  using assms
proof (induction vs arbitrary: s)
  case Nil
  then show ?case by (simp add: no_new_rows_def)
next
  case (Cons v vs)
  then obtain s1 where s1: "upsertCanonicalVariant I ten con pid v s = (Inr (), s1)" "no_new_rows s s1"
    using upsert_mapped_variant [of con v s I ten pid] by auto
  have "shop_evolves s s1" using upsertCanonicalVariant_evolves [of s I ten con pid v] s1(1) by simp
  with Cons.prems have "\<forall>v\<in>set vs. mapped_variant con (cv_externalId v) s1 \<and> ie_decimal I (cm_amount (cv_price v)) \<noteq> None"
    using mapped_evolves(2) by auto
  from Cons.IH [OF this] s1 show ?case by (auto intro: no_new_rows_trans)
qed

text \<open>a product that was synchronised once is never created again: after any further requests of the
  service, another pull or webhook for the same external product, whatever its new name and prices,
  succeeds and adds no product, no variant and no map row.\<close>
theorem resync_creates_nothing:
  assumes first: "upsertCanonicalProduct I now ten con p s = (Inr (), s1)"
    and steps: "(integration_step I V)\<^sup>*\<^sup>* (s1, w) (t, w')"
    and again: "cp_externalId p' = cp_externalId p" "cv_externalId ` set (cp_variants p') \<subseteq> cv_externalId ` set (cp_variants p)"
      "\<forall>v\<in>set (cp_variants p'). ie_decimal I (cm_amount (cv_price v)) \<noteq> None"
  shows "\<exists>t'. upsertCanonicalProduct I later ten con p' t = (Inr (), t') \<and> externalObjectMaps t' = externalObjectMaps t \<and>
     map prd_id (products t') = map prd_id (products t) \<and>
     map (\<lambda>x. (var_id x, var_sku x)) (productVariants t') = map (\<lambda>x. (var_id x, var_sku x)) (productVariants t)"
proof -
  have ev: "shop_evolves s1 t" using steps by (rule integration_steps_evolve)
  have mp: "mapped_product con (cp_externalId p') t"
    using upsert_product_maps [OF first] mapped_evolves(1) [OF ev] again(1) by simp
  then obtain pid t1 where t1: "upsert_product_row I later ten con p' t = (Inr pid, t1)" "no_new_rows t t1" "shop_evolves t t1"
    using upsert_product_row_evolves [of t I later ten con p']
    by (auto simp: mapped_product_def upsert_product_row_def no_new_rows_def map_update_where_same)
  have "\<forall>v\<in>set (cp_variants p'). mapped_variant con (cv_externalId v) t1 \<and> ie_decimal I (cm_amount (cv_price v)) \<noteq> None"
  proof
    fix v assume v: "v \<in> set (cp_variants p')"
    then obtain u where "u \<in> set (cp_variants p)" "cv_externalId u = cv_externalId v" using again(2) by (metis (no_types, lifting) image_iff subsetD)
    then have "mapped_variant con (cv_externalId v) s1" using upsert_product_maps [OF first] by metis
    with v again(3) show "mapped_variant con (cv_externalId v) t1 \<and> ie_decimal I (cm_amount (cv_price v)) \<noteq> None"
      using mapped_evolves(2) [OF ev] mapped_evolves(2) [OF t1(3)] by blast
  qed
  from upsert_mapped_variants [OF this, of ten pid] t1(1,2) show ?thesis
    by (auto simp: upsertCanonicalProduct_def no_new_rows_def)
qed


section \<open>A connection writes its own tenant's catalog\<close>

definition own_maps :: "string \<Rightarrow> string \<Rightarrow> db \<Rightarrow> bool" where
  "own_maps ten con s \<longleftrightarrow> (\<forall>m\<in>set (externalObjectMaps s). eom_connectionId m = con \<longrightarrow>
     (eom_externalType m = ExtPRODUCT \<longrightarrow> (\<forall>x\<in>set (products s). prd_id x = eom_canonicalId m \<longrightarrow> prd_tenantId x = ten)) \<and>
     (eom_externalType m = ExtVARIANT \<longrightarrow> (\<forall>x\<in>set (productVariants s). var_id x = eom_canonicalId m \<longrightarrow> var_tenantId x = ten)))"

definition ids_ahead :: "env \<Rightarrow> db \<Rightarrow> bool" where
  "ids_ahead E s \<longleftrightarrow> (\<forall>n\<ge>seq s. \<not> taken prd_id (uuid E n) (products s) \<and> \<not> taken var_id (uuid E n) (productVariants s))"

text \<open>The catalog and the maps a connection of \<open>ten\<close> may turn \<open>s\<close> into.\<close>

definition own_writes :: "env \<Rightarrow> string \<Rightarrow> string \<Rightarrow> db \<Rightarrow> db \<Rightarrow> bool" where
  "own_writes E ten con s t \<longleftrightarrow> (own_maps ten con s \<and> ids_ahead E s \<and> distinct (map var_id (productVariants s)) \<longrightarrow>
     own_maps ten con t \<and> ids_ahead E t \<and> distinct (map var_id (productVariants t)) \<and>
     filter (\<lambda>x. prd_tenantId x \<noteq> ten) (products t) = filter (\<lambda>x. prd_tenantId x \<noteq> ten) (products s) \<and>
     filter (\<lambda>x. var_tenantId x \<noteq> ten) (productVariants t) = filter (\<lambda>x. var_tenantId x \<noteq> ten) (productVariants s))"

lemma own_writes_refl [simp, intro]: "own_writes E ten con s s"
  by (simp add: own_writes_def)

lemma own_writes_trans: "own_writes E ten con s t \<Longrightarrow> own_writes E ten con t u \<Longrightarrow> own_writes E ten con s u"
  by (simp add: own_writes_def)

lemma own_writes_same:
  assumes "products t = products s" "productVariants t = productVariants s" "externalObjectMaps t = externalObjectMaps s" "seq s \<le> seq t"
  shows "own_writes E ten con s t"
  using assms by (auto simp: own_writes_def own_maps_def ids_ahead_def)

lemma filter_update_own:
  assumes "\<And>x. x \<in> set xs \<Longrightarrow> P x \<Longrightarrow> tid x = ten" and "\<And>x. tid (f x) = tid x"
  shows "filter (\<lambda>x. tid x \<noteq> ten) (update_where P f xs) = filter (\<lambda>x. tid x \<noteq> ten) xs"
  using assms by (induction xs) auto

lemma distinct_fresh_append: "distinct (map key xs) \<Longrightarrow> \<not> taken key (key x) xs \<Longrightarrow> distinct (map key (xs @ [x]))"
  by (auto simp: taken_iff)

lemma insert_variant_own:
  assumes inj: "inj (uuid E)" and x: "var_id x = uuid E (seq s)" "var_tenantId x = ten"
  shows "own_writes E ten con s (create_map E ten con ExtVARIANT ext ct (uuid E (seq s))
      (s\<lparr>productVariants := productVariants s @ [x], seq := Suc (seq s)\<rparr>))" (is "own_writes E ten con s ?t")
  unfolding own_writes_def
proof (intro impI, elim conjE)
  assume h: "own_maps ten con s" "ids_ahead E s" "distinct (map var_id (productVariants s))"
  have new: "\<not> taken var_id (uuid E (seq s)) (productVariants s)" using h(2) by (simp add: ids_ahead_def)
  have t: "products ?t = products s" "productVariants ?t = productVariants s @ [x]" "seq ?t = Suc (Suc (seq s))"
    "externalObjectMaps ?t = externalObjectMaps s @ [\<lparr>eom_id = uuid E (Suc (seq s)), eom_tenantId = ten,
         eom_connectionId = con, eom_externalType = ExtVARIANT, eom_externalId = ext, eom_canonicalType = ct,
         eom_canonicalId = uuid E (seq s)\<rparr>]"
    by (simp_all add: create_map_def)
  have "own_maps ten con ?t"
    unfolding own_maps_def t
  proof (intro ballI impI conjI)
    fix m y assume m: "m \<in> set (externalObjectMaps s @ [\<lparr>eom_id = uuid E (Suc (seq s)), eom_tenantId = ten,
         eom_connectionId = con, eom_externalType = ExtVARIANT, eom_externalId = ext, eom_canonicalType = ct,
         eom_canonicalId = uuid E (seq s)\<rparr>])" "eom_connectionId m = con"
    from m(1) have m': "m \<in> set (externalObjectMaps s) \<or> (eom_externalType m = ExtVARIANT \<and> eom_canonicalId m = uuid E (seq s))"
      by auto
    { assume "eom_externalType m = ExtPRODUCT" "y \<in> set (products s)" "prd_id y = eom_canonicalId m"
      then show "prd_tenantId y = ten" using m' m(2) h(1) x new by (auto simp: own_maps_def taken_iff) }
    { assume "eom_externalType m = ExtVARIANT" "y \<in> set (productVariants s @ [x])" "var_id y = eom_canonicalId m"
      then show "var_tenantId y = ten" using m' m(2) h(1) x new by (auto simp: own_maps_def taken_iff) }
  qed
  moreover have "ids_ahead E ?t"
    using h(2) x(1) injD [OF inj] unfolding ids_ahead_def t by fastforce
  moreover have "distinct (map var_id (productVariants ?t))"
    unfolding t by (rule distinct_fresh_append [OF h(3)]) (use new x(1) in simp)
  ultimately show "own_maps ten con ?t \<and> ids_ahead E ?t \<and> distinct (map var_id (productVariants ?t)) \<and>
      filter (\<lambda>x. prd_tenantId x \<noteq> ten) (products ?t) = filter (\<lambda>x. prd_tenantId x \<noteq> ten) (products s) \<and>
      filter (\<lambda>x. var_tenantId x \<noteq> ten) (productVariants ?t) = filter (\<lambda>x. var_tenantId x \<noteq> ten) (productVariants s)"
    unfolding t using x(2) by simp
qed

lemma insert_product_own:
  assumes inj: "inj (uuid E)" and x: "prd_id x = uuid E (seq s)" "prd_tenantId x = ten"
  shows "own_writes E ten con s (create_map E ten con ExtPRODUCT ext ct (uuid E (seq s))
      (s\<lparr>products := products s @ [x], seq := Suc (seq s)\<rparr>))" (is "own_writes E ten con s ?t")
  unfolding own_writes_def
proof (intro impI, elim conjE)
  assume h: "own_maps ten con s" "ids_ahead E s" "distinct (map var_id (productVariants s))"
  have new: "\<not> taken prd_id (uuid E (seq s)) (products s)" using h(2) by (simp add: ids_ahead_def)
  have t: "products ?t = products s @ [x]" "productVariants ?t = productVariants s" "seq ?t = Suc (Suc (seq s))"
    "externalObjectMaps ?t = externalObjectMaps s @ [\<lparr>eom_id = uuid E (Suc (seq s)), eom_tenantId = ten,
         eom_connectionId = con, eom_externalType = ExtPRODUCT, eom_externalId = ext, eom_canonicalType = ct,
         eom_canonicalId = uuid E (seq s)\<rparr>]"
    by (simp_all add: create_map_def)
  have "own_maps ten con ?t"
    unfolding own_maps_def t
  proof (intro ballI impI conjI)
    fix m y assume m: "m \<in> set (externalObjectMaps s @ [\<lparr>eom_id = uuid E (Suc (seq s)), eom_tenantId = ten,
         eom_connectionId = con, eom_externalType = ExtPRODUCT, eom_externalId = ext, eom_canonicalType = ct,
         eom_canonicalId = uuid E (seq s)\<rparr>])" "eom_connectionId m = con"
    from m(1) have m': "m \<in> set (externalObjectMaps s) \<or> (eom_externalType m = ExtPRODUCT \<and> eom_canonicalId m = uuid E (seq s))"
      by auto
    { assume "eom_externalType m = ExtPRODUCT" "y \<in> set (products s @ [x])" "prd_id y = eom_canonicalId m"
      then show "prd_tenantId y = ten" using m' m(2) h(1) x new by (auto simp: own_maps_def taken_iff) }
    { assume "eom_externalType m = ExtVARIANT" "y \<in> set (productVariants s)" "var_id y = eom_canonicalId m"
      then show "var_tenantId y = ten" using m' m(2) h(1) x new by (auto simp: own_maps_def taken_iff) }
  qed
  moreover have "ids_ahead E ?t"
    using h(2) x(1) injD [OF inj] unfolding ids_ahead_def t by fastforce
  ultimately show "own_maps ten con ?t \<and> ids_ahead E ?t \<and> distinct (map var_id (productVariants ?t)) \<and>
      filter (\<lambda>x. prd_tenantId x \<noteq> ten) (products ?t) = filter (\<lambda>x. prd_tenantId x \<noteq> ten) (products s) \<and>
      filter (\<lambda>x. var_tenantId x \<noteq> ten) (productVariants ?t) = filter (\<lambda>x. var_tenantId x \<noteq> ten) (productVariants s)"
    unfolding t using x(2) h(3) by simp
qed

lemma upsertCanonicalVariant_own:
  assumes inj: "inj (uuid (ie_env I))"
  shows "own_writes (ie_env I) ten con s (snd (upsertCanonicalVariant I ten con pid v s))"
proof (cases "find_map con ExtVARIANT (cv_externalId v) s")
  case (Some m)
  then have m: "m \<in> set (externalObjectMaps s)" "eom_connectionId m = con" "eom_externalType m = ExtVARIANT"
    by (auto simp: find_map_def dest!: find_SomeD)
  have "own_writes (ie_env I) ten con s (s\<lparr>productVariants := update_where (\<lambda>x. var_id x = eom_canonicalId m) f (productVariants s)\<rparr>)"
    if f: "\<And>x. var_id (f x) = var_id x \<and> var_tenantId (f x) = var_tenantId x" for f
    unfolding own_writes_def
  proof (intro impI)
    assume h: "own_maps ten con s \<and> ids_ahead (ie_env I) s \<and> distinct (map var_id (productVariants s))"
    let ?vs = "update_where (\<lambda>x. var_id x = eom_canonicalId m) f (productVariants s)"
    have own: "\<And>x. x \<in> set (productVariants s) \<Longrightarrow> var_id x = eom_canonicalId m \<Longrightarrow> var_tenantId x = ten"
      using h m by (auto simp: own_maps_def)
    have ids: "map (\<lambda>x. (var_id x, var_tenantId x)) ?vs = map (\<lambda>x. (var_id x, var_tenantId x)) (productVariants s)"
      using f by (simp add: map_update_where_same)
    then have "map var_id ?vs = map var_id (productVariants s)"
      using f by (simp add: map_update_where_same)
    moreover have "(\<forall>x\<in>set ?vs. var_id x = k \<longrightarrow> var_tenantId x = ten) \<longleftrightarrow> (\<forall>x\<in>set (productVariants s). var_id x = k \<longrightarrow> var_tenantId x = ten)" for k
    proof -
      have e: "(\<forall>x\<in>set l. var_id x = k \<longrightarrow> var_tenantId x = ten) \<longleftrightarrow>
          (\<forall>q\<in>set (map (\<lambda>x. (var_id x, var_tenantId x)) l). fst q = k \<longrightarrow> snd q = ten)" for l by auto
      show ?thesis using e [of ?vs] e [of "productVariants s"] unfolding ids by blast
    qed
    ultimately show "own_maps ten con (s\<lparr>productVariants := ?vs\<rparr>) \<and> ids_ahead (ie_env I) (s\<lparr>productVariants := ?vs\<rparr>) \<and>
        distinct (map var_id (productVariants (s\<lparr>productVariants := ?vs\<rparr>))) \<and>
        filter (\<lambda>x. prd_tenantId x \<noteq> ten) (products (s\<lparr>productVariants := ?vs\<rparr>)) = filter (\<lambda>x. prd_tenantId x \<noteq> ten) (products s) \<and>
        filter (\<lambda>x. var_tenantId x \<noteq> ten) (productVariants (s\<lparr>productVariants := ?vs\<rparr>)) = filter (\<lambda>x. var_tenantId x \<noteq> ten) (productVariants s)"
      using h f own by (simp add: own_maps_def ids_ahead_def taken_update_where filter_update_own)
  qed
  with Some show ?thesis by (auto simp: upsertCanonicalVariant_def split: sum.split)
next
  case None
  have link: "own_writes (ie_env I) ten con s (create_map (ie_env I) ten con ExtVARIANT ext ct (var_id x) s)"
    if "x \<in> set (productVariants s)" "var_tenantId x = ten" for x ext ct
    using that by (auto simp: own_writes_def own_maps_def ids_ahead_def create_map_def dest: distinct_keyD)
  show ?thesis
    using None link insert_variant_own [OF inj]
    by (auto simp: upsertCanonicalVariant_def target_variant_def split: option.split sum.split dest!: find_SomeD)
qed


lemma upsert_variants_own:
  assumes "inj (uuid (ie_env I))"
  shows "own_writes (ie_env I) ten con s (snd (upsert_variants I ten con pid vs s))"
proof (induction vs arbitrary: s)
  case (Cons v vs)
  obtain r s1 where u: "upsertCanonicalVariant I ten con pid v s = (r, s1)" by fastforce
  then have "own_writes (ie_env I) ten con s s1" using upsertCanonicalVariant_own [OF assms, of ten con s pid v] by simp
  with u Cons.IH [of s1] show ?case by (cases r) (auto intro: own_writes_trans)
qed simp

lemma upsert_product_row_own:
  assumes inj: "inj (uuid (ie_env I))"
  shows "own_writes (ie_env I) ten con s (snd (upsert_product_row I now ten con p s))"
proof (cases "find_map con ExtPRODUCT (cp_externalId p) s")
  case (Some m)
  then have m: "m \<in> set (externalObjectMaps s)" "eom_connectionId m = con" "eom_externalType m = ExtPRODUCT"
    by (auto simp: find_map_def dest!: find_SomeD)
  have "own_writes (ie_env I) ten con s (s\<lparr>products := update_where (\<lambda>x. prd_id x = eom_canonicalId m) f (products s)\<rparr>)"
    if f: "\<And>x. prd_id (f x) = prd_id x \<and> prd_tenantId (f x) = prd_tenantId x" for f
    unfolding own_writes_def
  proof (intro impI)
    assume h: "own_maps ten con s \<and> ids_ahead (ie_env I) s \<and> distinct (map var_id (productVariants s))"
    let ?ps = "update_where (\<lambda>x. prd_id x = eom_canonicalId m) f (products s)"
    have own: "\<And>x. x \<in> set (products s) \<Longrightarrow> prd_id x = eom_canonicalId m \<Longrightarrow> prd_tenantId x = ten"
      using h m by (auto simp: own_maps_def)
    have ids: "map (\<lambda>x. (prd_id x, prd_tenantId x)) ?ps = map (\<lambda>x. (prd_id x, prd_tenantId x)) (products s)"
      using f by (simp add: map_update_where_same)
    have e: "(\<forall>x\<in>set l. prd_id x = k \<longrightarrow> prd_tenantId x = ten) \<longleftrightarrow>
        (\<forall>q\<in>set (map (\<lambda>x. (prd_id x, prd_tenantId x)) l). fst q = k \<longrightarrow> snd q = ten)" for k l by auto
    have "(\<forall>x\<in>set ?ps. prd_id x = k \<longrightarrow> prd_tenantId x = ten) \<longleftrightarrow> (\<forall>x\<in>set (products s). prd_id x = k \<longrightarrow> prd_tenantId x = ten)" for k
      using e [of ?ps k] e [of "products s" k] unfolding ids by blast
    then show "own_maps ten con (s\<lparr>products := ?ps\<rparr>) \<and> ids_ahead (ie_env I) (s\<lparr>products := ?ps\<rparr>) \<and>
        distinct (map var_id (productVariants (s\<lparr>products := ?ps\<rparr>))) \<and>
        filter (\<lambda>x. prd_tenantId x \<noteq> ten) (products (s\<lparr>products := ?ps\<rparr>)) = filter (\<lambda>x. prd_tenantId x \<noteq> ten) (products s) \<and>
        filter (\<lambda>x. var_tenantId x \<noteq> ten) (productVariants (s\<lparr>products := ?ps\<rparr>)) = filter (\<lambda>x. var_tenantId x \<noteq> ten) (productVariants s)"
      using h f own by (simp add: own_maps_def ids_ahead_def taken_update_where filter_update_own)
  qed
  with Some show ?thesis by (auto simp: upsert_product_row_def)
next
  case None
  with insert_product_own [OF inj] show ?thesis by (auto simp: upsert_product_row_def Let_def)
qed

lemma upsertCanonicalProduct_own:
  assumes "inj (uuid (ie_env I))"
  shows "own_writes (ie_env I) ten con s (snd (upsertCanonicalProduct I now ten con p s))"
proof -
  obtain r s1 where u: "upsert_product_row I now ten con p s = (r, s1)" by fastforce
  then have "own_writes (ie_env I) ten con s s1" using upsert_product_row_own [OF assms, of ten con s now p] by simp
  with u show ?thesis
    by (cases r) (auto simp: upsertCanonicalProduct_def intro: own_writes_trans upsert_variants_own [OF assms])
qed

lemma upsert_products_own:
  assumes "inj (uuid (ie_env I))"
  shows "own_writes (ie_env I) ten con s (snd (snd (upsert_products I now ten con ps n s)))"
proof (induction ps arbitrary: n s)
  case (Cons p ps)
  obtain r s1 where u: "upsertCanonicalProduct I now ten con p s = (r, s1)" by fastforce
  then have "own_writes (ie_env I) ten con s s1" using upsertCanonicalProduct_own [OF assms, of ten con s now p] by simp
  with u Cons.IH [where n = "Suc n" and s = s1] show ?case by (cases r) (auto intro: own_writes_trans)
qed simp

lemma apply_events_own:
  assumes "inj (uuid (ie_env I))"
  shows "own_writes (ie_env I) ten con s (snd (apply_events I now ten con es s))"
proof (induction es arbitrary: s)
  case (Cons e es)
  show ?case
  proof (cases e)
    case (ProductUpdated p)
    obtain r s1 where u: "upsertCanonicalProduct I now ten con p s = (r, s1)" by fastforce
    then have "own_writes (ie_env I) ten con s s1" using upsertCanonicalProduct_own [OF assms, of ten con s now p] by simp
    with u ProductUpdated Cons.IH [of s1] show ?thesis by (cases r) (auto intro: own_writes_trans)
  qed (simp_all add: Cons.IH)
qed simp

text \<open>C20: a connection writes its own tenant's catalog only: whatever a store's pages or webhooks contain,
  the products and variants of every other tenant stay as they were, even when SKUs and external ids
  coincide; and the maps keep pointing into the tenant's catalog.\<close>
theorem store_writes_own_catalog:
  assumes inj: "inj (uuid (ie_env I))" and fresh: "ids_ahead (ie_env I) s" "distinct (map var_id (productVariants s))"
    and con: "List.find (\<lambda>c. con_id c = con) (commerceConnections s) = Some c" "con_tenantId c = ten" and maps: "own_maps ten con s"
    and run: "syncProducts I V now ten actor con s w = Some (r, t, w') \<or> handleWebhook I V now con req s = (r', t)"
  shows "filter (\<lambda>x. prd_tenantId x \<noteq> ten) (products t) = filter (\<lambda>x. prd_tenantId x \<noteq> ten) (products s) \<and>
     filter (\<lambda>x. var_tenantId x \<noteq> ten) (productVariants t) = filter (\<lambda>x. var_tenantId x \<noteq> ten) (productVariants s) \<and>
     own_maps ten con t"
proof -
  have "own_writes (ie_env I) ten con s t" using run
  proof
    assume run: "syncProducts I V now ten actor con s w = Some (r, t, w')"
    show ?thesis
    proof (cases "bindE (getOwnedConnection ten con s) (open_connection I V now)")
      case (Inl e)
      with run show ?thesis by (simp add: syncProducts_def)
    next
      case (Inr a)
      obtain connector cred where a: "a = (connector, cred)" by fastforce
      let ?s0 = "create_job (ie_env I) now ten con DomPRODUCTS PULL s"
      obtain r1 n s1 w1 where loop: "pull_loop I now connector cred ten con None 0 ?s0 w = Some (r1, n, s1, w1)"
        using run Inr a by (auto simp: syncProducts_def Let_def bind_eq_Some_conv)
      have "own_writes (ie_env I) ten con ?s0 s1"
        by (rule pull_loop_keeps [OF loop]) (auto intro: upsert_products_own [OF inj] own_writes_trans)
      moreover have "own_writes (ie_env I) ten con s ?s0" by (rule own_writes_same) (simp_all add: create_job_def)
      ultimately have s1: "own_writes (ie_env I) ten con s s1" using own_writes_trans by blast
      have "products t = products s1 \<and> productVariants t = productVariants s1 \<and> externalObjectMaps t = externalObjectMaps s1 \<and> seq s1 \<le> seq t"
        using run Inr a loop by (cases r1) (auto simp: syncProducts_def Let_def update_connection_def finish_job_def)
      then have "own_writes (ie_env I) ten con s1 t" by (auto intro: own_writes_same)
      with s1 show ?thesis by (rule own_writes_trans)
    qed
  next
    assume run: "handleWebhook I V now con req s = (r', t)"
    have d: "own_writes (ie_env I) ten con s (s\<lparr>webhookDeliveries := ds, seq := Suc (seq s)\<rparr>)" for ds
      by (rule own_writes_same) simp_all
    have p: "own_writes (ie_env I) ten con u (process_delivery I connector now c v u)" for u connector v
    proof -
      have "con_id c = con" using con(1) by (auto dest: find_SomeD)
      moreover have e: "own_writes (ie_env I) ten con u (update_delivery k e f (snd (apply_events I now ten con es u)))" for k e f es
      proof -
        have "own_writes (ie_env I) ten con u' (update_delivery k e f u')" for u'
          by (rule own_writes_same) (simp_all add: update_delivery_def)
        with apply_events_own [OF inj] show ?thesis by (rule own_writes_trans)
      qed
      moreover have "own_writes (ie_env I) ten con u (update_delivery k e f u)" for k e f
        by (rule own_writes_same) (simp_all add: update_delivery_def)
      ultimately show ?thesis using con(2)
        by (cases "cn_normalize connector now (vw_payload v)")
           (auto simp: process_delivery_def Let_def case_prod_unfold split: sum.split)
    qed
    show ?thesis
      using run con(1) own_writes_trans [OF d p]
      by (auto simp: handleWebhook_def Let_def split: sum.splits if_splits)
  qed
  with fresh maps show ?thesis by (simp add: own_writes_def)
qed

section \<open>A concrete connection\<close>

definition demo_integration :: integration_env where
  "demo_integration = \<lparr>ie_env = demo_env, ie_crypto = demo_crypto, ie_key = ''key'', ie_decimal = (\<lambda>_. Some 5)\<rparr>"

definition demo_connection :: commerce_connection where
  "demo_connection = \<lparr>con_id = ''c1'', con_tenantId = ''t1'', con_provider = WOOCOMMERCE, con_name = ''shop'',
     con_storeUrl = Some ''https://shop.test'', con_credentialsEncrypted = ''aa.aa.aa'', con_status = ConnCONNECTED,
     con_lastSyncAt = None, con_lastErrorAt = None, con_lastError = None\<rparr>"

definition demo_shop_db :: db where
  "demo_shop_db = empty_db\<lparr>commerceConnections := [demo_connection]\<rparr>"

lemma demo_shop_simps [simp]:
  "ie_env demo_integration = demo_env" "commerceConnections demo_shop_db = [demo_connection]" "syncJobs demo_shop_db = []"
  "webhookDeliveries demo_shop_db = []" "externalObjectMaps demo_shop_db = []" "products demo_shop_db = []"
  "productVariants demo_shop_db = []" "seq demo_shop_db = 0" "con_id demo_connection = ''c1''"
  "con_tenantId demo_connection = ''t1''"
  by (simp_all add: demo_integration_def demo_shop_db_def demo_connection_def empty_db_def)

lemma demo_owned: "getOwnedConnection ''t1'' ''c1'' demo_shop_db = Inr demo_connection"
  by (simp add: getOwnedConnection_def)

lemma demo_opened:
  "open_connection demo_integration demo_commerce now demo_connection =
     Inr (createWooCommerceConnector demo_commerce now ''https://shop.test'', [(''webhookSecret'', ''k'')])"
  by (simp add: open_connection_def demo_connection_def decryptCredentials_def decrypt_def demo_integration_def part_def
      demo_crypto_def demo_commerce_def split_def Let_def)

lemma demo_pages: "pages_within (ce_fetch demo_commerce) 1"
proof -
  have "nat_str 1 = ''1''" by code_simp
  then have "Number_of_string ''1'' = Some 1" using Number_of_nat_str [of 1] by simp
  then show ?thesis by (auto simp: pages_within_def demo_commerce_def header_def)
qed

theorem product_sync_ends_witness:
  "\<exists>outcome t w'. syncProducts demo_integration demo_commerce 9 ''t1'' ''u1'' ''c1'' demo_shop_db 0 = Some (outcome, t, w') \<and>
     (\<forall>j\<in>set (syncJobs t). syj_id j = uuid (ie_env demo_integration) (seq demo_shop_db) \<longrightarrow> syj_finishedAt j = Some 9)"
  using product_sync_ends [OF demo_pages demo_owned demo_opened, of 9 "''u1''" 0] by blast

definition demo_delivery :: raw_webhook where
  "demo_delivery = \<lparr>rw_headers = [(''x-wc-webhook-signature'', base64 ''kbody''), (''x-wc-webhook-delivery-id'', ''e1'')],
     rw_rawBody = ''body''\<rparr>"

lemma demo_verified:
  "cn_verifyWebhook (createWooCommerceConnector demo_commerce now url) [(''webhookSecret'', ''k'')] now' demo_delivery =
     Inr \<lparr>vw_eventId = ''e1'', vw_eventType = ''unknown'', vw_payload = JObj [(''webhookSecret'', JStr ''k'')]\<rparr>"
  by (simp add: createWooCommerceConnector_def UniversalRestConnector_def woo_config_def
      woo_verifyWebhook_def demo_delivery_def demo_commerce_def Let_def)

lemma demo_delivery_handled: "\<exists>s1. handleWebhook demo_integration demo_commerce 9 ''c1'' demo_delivery demo_shop_db = (Inr False, s1)"
  by (simp add: handleWebhook_def demo_opened demo_verified Let_def)


definition demo_product :: canonical_product where
  "demo_product = mapWooProductForEvent (ce_json demo_commerce) (JObj demo_store_product)"

lemma demo_product_created: "\<exists>s1. upsertCanonicalProduct demo_integration 9 ''t1'' ''c1'' demo_product demo_shop_db = (Inr (), s1)"
  by (simp add: upsertCanonicalProduct_def upsert_product_row_def find_map_def create_map_def demo_product_def
      mapWooProductForEvent_def upsertCanonicalVariant_def target_variant_def price_column_def demo_integration_def Let_def)

theorem resync_creates_nothing_witness:
  "\<exists>s1 t'. upsertCanonicalProduct demo_integration 9 ''t1'' ''c1'' demo_product demo_shop_db = (Inr (), s1) \<and>
     upsertCanonicalProduct demo_integration 12 ''t1'' ''c1'' (demo_product\<lparr>cp_name := ''Cup''\<rparr>) s1 = (Inr (), t') \<and>
     externalObjectMaps t' = externalObjectMaps s1"
proof -
  obtain s1 where s1: "upsertCanonicalProduct demo_integration 9 ''t1'' ''c1'' demo_product demo_shop_db = (Inr (), s1)"
    using demo_product_created by blast
  have d: "\<forall>v\<in>set (cp_variants (demo_product\<lparr>cp_name := ''Cup''\<rparr>)). ie_decimal demo_integration (cm_amount (cv_price v)) \<noteq> None"
    by (simp add: demo_integration_def)
  have "(integration_step demo_integration demo_commerce)\<^sup>*\<^sup>* (s1, 0) (s1, 0)" by simp
  from resync_creates_nothing [OF s1 this _ _ d, of 12] s1 show ?thesis by auto
qed

theorem store_writes_own_catalog_witness:
  "\<exists>t. handleWebhook demo_integration demo_commerce 9 ''c1'' demo_delivery demo_shop_db = (Inr False, t) \<and> own_maps ''t1'' ''c1'' t"
proof -
  obtain s1 where s1: "handleWebhook demo_integration demo_commerce 9 ''c1'' demo_delivery demo_shop_db = (Inr False, s1)"
    using demo_delivery_handled by blast
  have "inj (uuid (ie_env demo_integration))" by (simp add: demo_env_def inj_def)
  moreover have "ids_ahead (ie_env demo_integration) demo_shop_db" "distinct (map var_id (productVariants demo_shop_db))"
    "List.find (\<lambda>c. con_id c = ''c1'') (commerceConnections demo_shop_db) = Some demo_connection" "con_tenantId demo_connection = ''t1''"
    "own_maps ''t1'' ''c1'' demo_shop_db"
    by (simp_all add: ids_ahead_def own_maps_def)
  moreover have "syncProducts demo_integration demo_commerce 9 ''t1'' ''u'' ''c1'' demo_shop_db 0 = Some (r, s1, w') \<or>
      handleWebhook demo_integration demo_commerce 9 ''c1'' demo_delivery demo_shop_db = (Inr False, s1)" for r w'
    using s1 by simp
  ultimately have "own_maps ''t1'' ''c1'' s1" by (metis store_writes_own_catalog)
  with s1 show ?thesis by blast
qed

end
