(* ===== verification/Calendar.thy ===== *)
theory Calendar
  imports Js_Values
begin

text \<open>
  Dates as the source language has them: a date is a number of milliseconds since the epoch, read in
  UTC through the proleptic Gregorian calendar. The functions are those of the language's
  \<open>Date\<close> that the reports and the billing code use.
\<close>

section \<open>Days and years\<close>

definition DAY :: int where
  "DAY = 86400000"

definition day_of :: "int \<Rightarrow> int" where
  "day_of t = t div DAY"

definition is_leap :: "int \<Rightarrow> bool" where
  "is_leap y \<longleftrightarrow> y mod 4 = 0 \<and> (y mod 100 \<noteq> 0 \<or> y mod 400 = 0)"

definition year_days :: "int \<Rightarrow> int" where
  "year_days y = (if is_leap y then 366 else 365)"

definition month_days :: "int \<Rightarrow> nat \<Rightarrow> int" where
  "month_days y m = (if m = 1 then (if is_leap y then 29 else 28) else if m \<in> {3, 5, 8, 10} then 30 else 31)"

text \<open>The day number of the first of January.\<close>

definition year_start :: "int \<Rightarrow> int" where
  "year_start y = 365 * (y - 1970) + (y - 1969) div 4 - (y - 1901) div 100 + (y - 1601) div 400"

fun month_start :: "int \<Rightarrow> nat \<Rightarrow> int" where
  "month_start y 0 = 0"
| "month_start y (Suc m) = month_start y m + month_days y m"

lemma year_days_bounds: "365 \<le> year_days y" "year_days y \<le> 366"
  by (auto simp: year_days_def)

lemma month_days_bounds: "28 \<le> month_days y m" "month_days y m \<le> 31"
  by (auto simp: month_days_def)

lemma div_Suc_int: "0 < n \<Longrightarrow> (x + 1) div n = x div n + (if (x + 1) mod n = 0 then 1 else 0)" for n :: int
proof -
  assume n: "0 < n"
  have x: "x = n * (x div n) + x mod n" by simp
  have b: "0 \<le> x mod n" "x mod n < n" using n by simp_all
  show ?thesis
  proof (cases "x mod n + 1 = n")
    case True
    have "x + 1 = n * (x div n) + (x mod n + 1)" using x by linarith
    also have "\<dots> = n * (x div n + 1)" using True by (simp add: distrib_left)
    finally have "x + 1 = n * (x div n + 1)" .
    then show ?thesis using n by simp
  next
    case False
    have e: "x + 1 = n * (x div n) + (x mod n + 1)" using x by linarith
    have r: "0 \<le> x mod n + 1" "x mod n + 1 < n" using b False by auto
    have "(n * q + s) div n = q + s div n" "(n * q + s) mod n = s mod n" for q s using n by simp_all
    from this [of "x div n" "x mod n + 1"]
    have "(x + 1) div n = x div n + (x mod n + 1) div n" "(x + 1) mod n = (x mod n + 1) mod n"
      unfolding e [symmetric] .
    with r have "(x + 1) div n = x div n" "(x + 1) mod n = x mod n + 1" by (simp_all add: div_pos_pos_trivial mod_pos_pos_trivial)
    then show ?thesis using b by simp
  qed
qed

lemma leap_cases:
  "(r \<longrightarrow> q) \<Longrightarrow> (q \<longrightarrow> p) \<Longrightarrow>
     (if p \<and> (\<not> q \<or> r) then 366 else 365 :: int) = 365 + (if p then 1 else 0) - (if q then 1 else 0) + (if r then 1 else 0)"
  by (cases p; cases q; cases r; simp)

lemma year_days_leaps:
  "year_days y = 365 + (if y mod 4 = 0 then 1 else 0) - (if y mod 100 = 0 then 1 else 0) + (if y mod 400 = 0 then 1 else 0)"
proof -
  have "y mod 400 = 0 \<Longrightarrow> y mod 100 = 0" "y mod 100 = 0 \<Longrightarrow> y mod 4 = 0"
    unfolding mod_eq_0_iff_dvd by (erule dvd_trans [rotated], simp)+
  then show ?thesis unfolding year_days_def is_leap_def by (intro leap_cases) blast+
qed

lemma div_next_year: "0 < n \<Longrightarrow> (y - k * n) div n = (y - (k * n + 1)) div n + (if y mod n = 0 then 1 else 0)" for n :: int
proof -
  assume n: "0 < n"
  have "(y - k * n) mod n = 0 \<longleftrightarrow> y mod n = 0"
    by (simp add: mod_eq_0_iff_dvd dvd_diff_left_iff)
  moreover have "y - (k * n + 1) + 1 = y - k * n" by simp
  ultimately show ?thesis using div_Suc_int [OF n, of "y - (k * n + 1)"] by presburger
qed

lemma year_sum:
  "a' = a + u \<Longrightarrow> b' = b + v \<Longrightarrow> c' = c + w \<Longrightarrow>
     365 * (y + 1 - 1970) + a' - b' + c' = 365 * (y - 1970) + a - b + c + (365 + u - v + w)" for y :: int
  by simp

lemma year_start_next: "year_start (y + 1) = year_start y + year_days y"
proof -
  have "(492 * 4 :: int) = 1968" "(19 * 100 :: int) = 1900" "(4 * 400 :: int) = 1600"
    "(1968 + 1 :: int) = 1969" "(1900 + 1 :: int) = 1901" "(1600 + 1 :: int) = 1601" by simp_all
  note d = div_next_year [of 4 y 492, unfolded this] div_next_year [of 100 y 19, unfolded this] div_next_year [of 400 y 4, unfolded this]
  have s: "y + 1 - 1969 = y - 1968" "y + 1 - 1901 = y - 1900" "y + 1 - 1601 = y - 1600" by simp_all
  show ?thesis
    unfolding year_start_def year_days_leaps s by (rule year_sum; rule d; simp)
qed

section \<open>From a day number to a date\<close>

text \<open>The year of the day \<open>d\<close> days after the start of \<open>y\<close>, and the day in it.\<close>

function year_of :: "int \<Rightarrow> int \<Rightarrow> int \<times> int" where
  "year_of y d =
     (if d < 0 then year_of (y - 1) (d + year_days (y - 1))
      else if year_days y \<le> d then year_of (y + 1) (d - year_days y)
      else (y, d))"
  by pat_completeness auto
termination
proof (relation "measure (\<lambda>(y, d). if d < 0 then nat (400 - d) else nat d)")
  show "((y - 1, d + year_days (y - 1)), (y, d)) \<in> measure (\<lambda>(y, d). if d < 0 then nat (400 - d) else nat d)"
    if "d < 0" for y d
    using that year_days_bounds [of "y - 1"] by auto
  show "((y + 1, d - year_days y), (y, d)) \<in> measure (\<lambda>(y, d). if d < 0 then nat (400 - d) else nat d)"
    if "\<not> d < 0" "year_days y \<le> d" for y d
    using that year_days_bounds [of y] by auto
qed simp

declare year_of.simps [simp del]

function month_of :: "int \<Rightarrow> nat \<Rightarrow> int \<Rightarrow> nat \<times> int" where
  "month_of y m d = (if m < 11 \<and> month_days y m \<le> d then month_of y (Suc m) (d - month_days y m) else (m, d))"
  by pat_completeness auto
termination by (relation "measure (\<lambda>(y, m, d). 12 - m)") auto

declare month_of.simps [simp del]

text \<open>Year, month from 0 and day of the month from 1.\<close>

definition civil :: "int \<Rightarrow> int \<times> nat \<times> int" where
  "civil n = (let (y, d) = year_of 1970 n; (m, k) = month_of y 0 d in (y, m, k + 1))"

lemma year_of_spec:
  "year_of y d = (y', d') \<Longrightarrow> year_start y' + d' = year_start y + d \<and> 0 \<le> d' \<and> d' < year_days y' \<and> (0 \<le> d \<longrightarrow> y \<le> y')"
proof (induction y d arbitrary: y' d' rule: year_of.induct)
  case (1 y d)
  show ?case
  proof (cases "d < 0")
    case True
    then have "year_of (y - 1) (d + year_days (y - 1)) = (y', d')" using "1.prems" by (simp add: year_of.simps [of y d])
    from "1.IH"(1) [OF True this] True show ?thesis using year_start_next [of "y - 1"] by auto
  next
    case nonneg: False
    show ?thesis
    proof (cases "year_days y \<le> d")
      case True
      then have "year_of (y + 1) (d - year_days y) = (y', d')" using "1.prems" nonneg by (simp add: year_of.simps [of y d])
      from "1.IH"(2) [OF nonneg True this] True show ?thesis using year_start_next [of y] by auto
    next
      case False
      with nonneg "1.prems" show ?thesis by (auto simp: year_of.simps [of y d])
    qed
  qed
qed

lemma month_of_spec:
  "month_of y m d = (m', d') \<Longrightarrow> m \<le> 11 \<Longrightarrow> 0 \<le> d \<Longrightarrow>
     month_start y m' + d' = month_start y m + d \<and> 0 \<le> d' \<and> m' \<le> 11 \<and> (m' < 11 \<longrightarrow> d' < month_days y m')"
proof (induction y m d arbitrary: m' d' rule: month_of.induct)
  case (1 y m d)
  show ?case
  proof (cases "m < 11 \<and> month_days y m \<le> d")
    case True
    then have "month_of y (Suc m) (d - month_days y m) = (m', d')" using "1.prems"(1) by (simp add: month_of.simps [of y m d])
    from "1.IH" [OF True this] True show ?thesis by auto
  next
    case False
    with "1.prems" show ?thesis by (auto simp: month_of.simps [of y m d])
  qed
qed

lemma year_start_0: "year_start 1970 = 0"
  by (simp add: year_start_def)

lemma civil_spec:
  assumes "civil n = (y, m, k)"
  shows "year_start y + month_start y m + k - 1 = n" "1 \<le> k" "m \<le> 11" "0 \<le> n \<Longrightarrow> 1970 \<le> y"
proof -
  obtain d where d: "year_of 1970 n = (y, d)" "month_of y 0 d = (m, k - 1)"
    using assms by (auto simp: civil_def Let_def split: prod.splits)
  note yr = year_of_spec [OF d(1)]
  then have mo: "month_start y m + (k - 1) = d \<and> 0 \<le> k - 1 \<and> m \<le> 11" using month_of_spec [OF d(2)] by simp
  from yr mo show "year_start y + month_start y m + k - 1 = n" "1 \<le> k" "m \<le> 11" "0 \<le> n \<Longrightarrow> 1970 \<le> y"
    by (auto simp: year_start_0)
qed

section \<open>The methods of \<open>Date\<close>\<close>

definition getUTCFullYear :: "int \<Rightarrow> int" where
  "getUTCFullYear t = fst (civil (day_of t))"

definition getUTCMonth :: "int \<Rightarrow> nat" where
  "getUTCMonth t = fst (snd (civil (day_of t)))"

definition getUTCDate :: "int \<Rightarrow> int" where
  "getUTCDate t = snd (snd (civil (day_of t)))"

definition getUTCDay :: "int \<Rightarrow> int" where
  "getUTCDay t = (day_of t + 4) mod 7"

text \<open>The day of a month, whose number may run over the month's end; \<open>Date.UTC\<close> reads a year
  of at most two digits as one of the twentieth century.\<close>

definition make_day :: "int \<Rightarrow> nat \<Rightarrow> int \<Rightarrow> int" where
  "make_day y m k = year_start y + month_start y m + k - 1"

definition Date_UTC :: "int \<Rightarrow> nat \<Rightarrow> int \<Rightarrow> int" where
  "Date_UTC y m k = make_day (if 0 \<le> y \<and> y \<le> 99 then 1900 + y else y) m k * DAY"

definition setUTCDate :: "int \<Rightarrow> int \<Rightarrow> int" where
  "setUTCDate t k = make_day (getUTCFullYear t) (getUTCMonth t) k * DAY + t mod DAY"

fun pad_start :: "nat \<Rightarrow> string \<Rightarrow> string" where
  "pad_start n s = replicate (n - length s) (CHR ''0'') @ s"

text \<open>Years beyond four digits are written with a sign and six digits.\<close>

definition iso_year :: "int \<Rightarrow> string" where
  "iso_year y = (if 0 \<le> y \<and> y \<le> 9999 then pad_start 4 (nat_str (nat y))
     else (if y < 0 then ''-'' else ''+'') @ pad_start 6 (nat_str (nat \<bar>y\<bar>)))"

definition iso_day :: "int \<Rightarrow> string" where
  "iso_day t = iso_year (getUTCFullYear t) @ ''-'' @ pad_start 2 (nat_str (getUTCMonth t + 1)) @ ''-'' @
     pad_start 2 (nat_str (nat (getUTCDate t)))"

definition toISOString :: "int \<Rightarrow> string" where
  "toISOString t =
     (let ms = t mod DAY; part = (\<lambda>n k. pad_start n (nat_str (nat k)))
      in iso_day t @ ''T'' @ part 2 (ms div 3600000) @ '':'' @ part 2 (ms div 60000 mod 60) @ '':'' @
           part 2 (ms div 1000 mod 60) @ ''.'' @ part 3 (ms mod 1000) @ ''Z'')"

text \<open>\<open>toISOString().slice(0, 10)\<close>\<close>

definition iso_date :: "int \<Rightarrow> string" where
  "iso_date t = take 10 (toISOString t)"

lemma iso_date_day: "iso_date t = take 10 (iso_day t)"
proof -
  have p: "n \<le> length (pad_start n s)" for n s by simp
  have "4 \<le> length (iso_year (getUTCFullYear t))"
    using p [of 4 "nat_str (nat (getUTCFullYear t))"] p [of 6 "nat_str (nat \<bar>getUTCFullYear t\<bar>)"]
    unfolding iso_year_def by (auto simp del: pad_start.simps)
  then have "10 \<le> length (iso_day t)"
    using p [of 2 "nat_str (getUTCMonth t + 1)"] p [of 2 "nat_str (nat (getUTCDate t))"]
    by (simp add: iso_day_def del: pad_start.simps)
  then show ?thesis by (simp add: iso_date_def toISOString_def Let_def)
qed

text \<open>Reading a date and writing its parts back gives the day; a day's number may be moved.\<close>

lemma make_day_shift: "make_day (getUTCFullYear t) (getUTCMonth t) (getUTCDate t + k) = day_of t + k"
proof -
  obtain y m d where c: "civil (day_of t) = (y, m, d)" by (cases "civil (day_of t)") auto
  from civil_spec(1) [OF c] show ?thesis
    by (simp add: make_day_def getUTCFullYear_def getUTCMonth_def getUTCDate_def c)
qed

lemma setUTCDate_shift: "setUTCDate t (getUTCDate t + k) = t + k * DAY"
proof -
  have "day_of t * DAY + t mod DAY = t" by (simp add: day_of_def)
  then show ?thesis unfolding setUTCDate_def make_day_shift distrib_right by linarith
qed

lemma day_of_nonneg: "0 \<le> t \<Longrightarrow> 0 \<le> day_of t"
  by (simp add: day_of_def DAY_def)

lemma Date_UTC_shift:
  assumes "0 \<le> t"
  shows "Date_UTC (getUTCFullYear t) (getUTCMonth t) (getUTCDate t + k) = (day_of t + k) * DAY"
proof -
  obtain y m d where c: "civil (day_of t) = (y, m, d)" by (cases "civil (day_of t)") auto
  have "1970 \<le> getUTCFullYear t" using civil_spec(4) [OF c day_of_nonneg [OF assms]] by (simp add: getUTCFullYear_def c)
  then show ?thesis by (simp add: Date_UTC_def make_day_shift)
qed

lemmas Date_UTC_same = Date_UTC_shift [where k = 0, simplified]

lemma day_of_midnight [simp]: "day_of (n * DAY) = n"
  by (simp add: day_of_def DAY_def)

lemma day_of_less: "t < n * DAY \<longleftrightarrow> day_of t < n"
  unfolding day_of_def DAY_def by linarith

lemma day_of_mono: "t \<le> u \<Longrightarrow> day_of t \<le> day_of u"
  unfolding day_of_def DAY_def by linarith

text \<open>The getters depend on the day only.\<close>

lemma getters_day:
  assumes "day_of t = day_of u"
  shows "getUTCFullYear t = getUTCFullYear u" "getUTCMonth t = getUTCMonth u" "getUTCDate t = getUTCDate u"
    "getUTCDay t = getUTCDay u" "iso_date t = iso_date u"
  using assms by (simp_all add: getUTCFullYear_def getUTCMonth_def getUTCDate_def getUTCDay_def iso_date_day iso_day_def)

end
