(* ===== verification/Reports.thy ===== *)
theory Reports
  imports Calendar Inventory "HOL-Library.AList"
begin

text \<open>
  \<open>apps/api/src/reports/reports.service.ts\<close>: the dashboard, the sales report by period with its CSV
  form, the inventory valuation and the low-stock list. The server's time zone is UTC, as the service
  documents. Sums of the database are exact; an amount is the number its text denotes, and a missing
  sum is 0. The JavaScript \<open>Map\<close> of the buckets is an association list in insertion order.
\<close>

section \<open>Periods\<close>

datatype group_by = ByDay | ByWeek | ByMonth

definition startOfWeekUTC :: "int \<Rightarrow> int" where
  "startOfWeekUTC date =
     (let d = Date_UTC (getUTCFullYear date) (getUTCMonth date) (getUTCDate date);
          day = getUTCDay d;
          diff = (day + 6) mod 7
      in setUTCDate d (getUTCDate d - diff))"

fun periodLabel :: "int \<Rightarrow> group_by \<Rightarrow> string" where
  "periodLabel date ByMonth =
     int_str (getUTCFullYear date) @ ''-'' @ pad_start 2 (nat_str (getUTCMonth date + 1))"
| "periodLabel date ByWeek = iso_date (startOfWeekUTC date)"
| "periodLabel date ByDay = iso_date date"

fun period_start :: "int \<Rightarrow> group_by \<Rightarrow> int" where
  "period_start cursor ByWeek = startOfWeekUTC cursor"
| "period_start cursor ByMonth = Date_UTC (getUTCFullYear cursor) (getUTCMonth cursor) 1"
| "period_start cursor ByDay = cursor"

lemma next_day: "setUTCDate t (getUTCDate t + 1) = t + DAY"
  using setUTCDate_shift [of t 1] by simp

text \<open>The loop over the days of the range; \<open>seen\<close> are the labels pushed so far.\<close>

function periods_from :: "int \<Rightarrow> group_by \<Rightarrow> int \<Rightarrow> string list \<Rightarrow> (string \<times> int) list" where
  "periods_from stop groupBy cursor seen =
     (if cursor \<le> stop
      then let label = periodLabel cursor groupBy;
               later = setUTCDate cursor (getUTCDate cursor + 1)
           in if label \<in> set seen then periods_from stop groupBy later seen
              else (label, period_start cursor groupBy) # periods_from stop groupBy later (label # seen)
      else [])"
  by pat_completeness auto
termination
  by (relation "measure (\<lambda>(stop, groupBy, cursor, seen). nat (stop + 1 - cursor))") (auto simp: next_day DAY_def)

declare periods_from.simps [simp del]

definition enumeratePeriods :: "int \<Rightarrow> int \<Rightarrow> group_by \<Rightarrow> (string \<times> int) list" where
  "enumeratePeriods start until groupBy =
     periods_from (Date_UTC (getUTCFullYear until) (getUTCMonth until) (getUTCDate until)) groupBy
       (Date_UTC (getUTCFullYear start) (getUTCMonth start) (getUTCDate start)) []"

section \<open>Sales by period\<close>

record bucket =
  bk_periodStart :: int
  bk_total :: money
  bk_costOfGoodsSold :: money
  bk_transactionCount :: nat

record report_row =
  rr_period :: string
  rr_total :: rat
  rr_costOfGoodsSold :: rat
  rr_grossProfit :: rat
  rr_transactionCount :: nat

text \<open>A filter with \<open>undefined\<close> does not constrain its column.\<close>

definition of_branch :: "string option \<Rightarrow> string \<Rightarrow> bool" where
  "of_branch branchId b \<longleftrightarrow> (case branchId of None \<Rightarrow> True | Some i \<Rightarrow> b = i)"

definition completed_sales :: "string \<Rightarrow> string option \<Rightarrow> db \<Rightarrow> sale list" where
  "completed_sales tenantId branchId s =
     filter (\<lambda>x. sale_tenantId x = tenantId \<and> of_branch branchId (sale_branchId x) \<and> sale_status x = SaleCOMPLETED) (sales s)"

definition line_cost :: "env \<Rightarrow> sale_line \<Rightarrow> money" where
  "line_cost E l = money_multiply E (money_of (sl_unitCost l) ''USD'') (of_int (sl_quantity l))"

definition empty_bucket :: "int \<Rightarrow> bucket" where
  "empty_bucket start = \<lparr>bk_periodStart = start, bk_total = money_zero ''USD'', bk_costOfGoodsSold = money_zero ''USD'',
     bk_transactionCount = 0\<rparr>"

definition add_sale :: "env \<Rightarrow> group_by \<Rightarrow> sale \<Rightarrow> (string \<times> bucket) list \<Rightarrow> error + (string \<times> bucket) list" where
  "add_sale E groupBy x buckets =
     (let label = periodLabel (sale_createdAt x) groupBy
      in case map_of buckets label of
           None \<Rightarrow> Inr buckets
         | Some b \<Rightarrow>
             bindE (money_add E (bk_total b) (money_of (sale_total x) ''USD'')) (\<lambda>t.
             bindE (money_sum E (line_cost E) (sale_lines x) (bk_costOfGoodsSold b)) (\<lambda>c.
             Inr (AList.update label
               (b\<lparr>bk_total := t, bk_transactionCount := bk_transactionCount b + 1, bk_costOfGoodsSold := c\<rparr>) buckets))))"

definition bucket_row :: "env \<Rightarrow> string \<times> bucket \<Rightarrow> error + report_row" where
  "bucket_row E e =
     bindE (money_subtract E (bk_total (snd e)) (bk_costOfGoodsSold (snd e))) (\<lambda>profit.
     Inr \<lparr>rr_period = fst e, rr_total = toDecimalString E (bk_total (snd e)),
          rr_costOfGoodsSold = toDecimalString E (bk_costOfGoodsSold (snd e)),
          rr_grossProfit = toDecimalString E profit, rr_transactionCount = bk_transactionCount (snd e)\<rparr>)"

text \<open>The end of the range is exclusive: the midnight after \<open>until\<close>.\<close>

definition toExclusive :: "int \<Rightarrow> int" where
  "toExclusive until = Date_UTC (getUTCFullYear until) (getUTCMonth until) (getUTCDate until + 1)"

definition getSalesByPeriod ::
  "env \<Rightarrow> string \<Rightarrow> int \<Rightarrow> int \<Rightarrow> group_by \<Rightarrow> string option \<Rightarrow> db \<Rightarrow> error + report_row list" where
  "getSalesByPeriod E tenantId start until groupBy branchId s =
     (let found = sort_key sale_createdAt
            (filter (\<lambda>x. start \<le> sale_createdAt x \<and> sale_createdAt x < toExclusive until) (completed_sales tenantId branchId s));
          buckets = map (\<lambda>(label, t). (label, empty_bucket t)) (enumeratePeriods start until groupBy)
      in bindE (foldE (add_sale E groupBy) found buckets) (\<lambda>filled.
         mapE (bucket_row E) (sort_key (\<lambda>e. bk_periodStart (snd e)) filled)))"

definition report_line :: "env \<Rightarrow> report_row \<Rightarrow> string" where
  "report_line E r = join '','' [rr_period r, dec_text E 2 (rr_total r), dec_text E 2 (rr_costOfGoodsSold r),
     dec_text E 2 (rr_grossProfit r), nat_str (rr_transactionCount r)]"

definition newline :: string where
  "newline = [CHR 0x0A]"

definition salesReportCsv ::
  "env \<Rightarrow> string \<Rightarrow> int \<Rightarrow> int \<Rightarrow> group_by \<Rightarrow> string option \<Rightarrow> db \<Rightarrow> error + string" where
  "salesReportCsv E tenantId start until groupBy branchId s =
     bindE (getSalesByPeriod E tenantId start until groupBy branchId s) (\<lambda>rows.
     Inr (join newline (''period,total,cost_of_goods_sold,gross_profit,transaction_count'' # map (report_line E) rows)))"

section \<open>Stock\<close>

definition stock_on_hand :: "db \<Rightarrow> variant \<Rightarrow> int" where
  "stock_on_hand s v = sum_list (map bal_quantity (filter (\<lambda>b. bal_variantId b = var_id v) (inventoryBalances s)))"

definition product_of :: "db \<Rightarrow> variant \<Rightarrow> product option" where
  "product_of s v = List.find (\<lambda>p. prd_id p = var_productId v) (products s)"

definition product_name :: "db \<Rightarrow> variant \<Rightarrow> string" where
  "product_name s v = (case product_of s v of Some p \<Rightarrow> prd_name p | None \<Rightarrow> [])"

record valued_item =
  vi_variantId :: string
  vi_productName :: string
  vi_sku :: string
  vi_quantity :: int
  vi_costPrice :: rat
  vi_value :: rat

definition stock_value :: "env \<Rightarrow> db \<Rightarrow> variant \<Rightarrow> money" where
  "stock_value E s v = money_multiply E (money_of (var_costPrice v) ''USD'') (of_int (stock_on_hand s v))"

definition getInventoryValuation :: "env \<Rightarrow> string \<Rightarrow> db \<Rightarrow> error + rat \<times> valued_item list" where
  "getInventoryValuation E tenantId s =
     (let variants = filter (\<lambda>v. var_tenantId v = tenantId) (productVariants s)
      in bindE (money_sum E (stock_value E s) variants (money_zero ''USD'')) (\<lambda>grandTotal.
         Inr (toDecimalString E grandTotal,
           filter (\<lambda>i. vi_quantity i \<noteq> 0)
             (map (\<lambda>v. \<lparr>vi_variantId = var_id v, vi_productName = product_name s v, vi_sku = var_sku v,
                vi_quantity = stock_on_hand s v, vi_costPrice = var_costPrice v,
                vi_value = toDecimalString E (stock_value E s v)\<rparr>) variants))))"

record low_stock_item =
  ls_variantId :: string
  ls_productName :: string
  ls_sku :: string
  ls_quantity :: int
  ls_reorderPoint :: int
  ls_status :: stock_status

definition variant_status :: "db \<Rightarrow> variant \<Rightarrow> stock_status" where
  "variant_status s v = computeStockStatus (stock_on_hand s v) (var_reorderPoint v) (var_reorderBuffer v)"

definition active_variants :: "string \<Rightarrow> db \<Rightarrow> variant list" where
  "active_variants tenantId s = filter (\<lambda>v. var_tenantId v = tenantId \<and> var_status v = ProdACTIVE) (productVariants s)"

definition getLowStockItems :: "string \<Rightarrow> db \<Rightarrow> low_stock_item list" where
  "getLowStockItems tenantId s =
     sort_key ls_quantity (filter (\<lambda>i. ls_status i \<noteq> Green)
       (map (\<lambda>v. \<lparr>ls_variantId = var_id v, ls_productName = product_name s v, ls_sku = var_sku v,
          ls_quantity = stock_on_hand s v, ls_reorderPoint = var_reorderPoint v, ls_status = variant_status s v\<rparr>)
         (active_variants tenantId s)))"

section \<open>The dashboard\<close>

record top_product =
  tp_variantId :: string
  tp_productName :: string
  tp_sku :: "string option"
  tp_revenue :: rat
  tp_quantitySold :: int

record dashboard =
  da_todayTotal :: rat
  da_todayTransactionCount :: nat
  da_last7DaysTotal :: rat
  da_monthToDateTotal :: rat
  da_netSales :: rat
  da_costOfGoodsSold :: rat
  da_grossProfit :: rat
  da_operatingExpenses :: rat
  da_netProfit :: rat
  da_outstandingTotal :: rat
  da_pendingInvoices :: nat
  da_overdueInvoices :: nat
  da_lowStockCount :: nat
  da_outOfStockCount :: nat
  da_topProducts :: "top_product list"

definition startOfDay :: "int \<Rightarrow> int" where
  "startOfDay d = d - d mod DAY"

definition sum_total :: "sale list \<Rightarrow> rat" where
  "sum_total xs = sum_list (map sale_total xs)"

text \<open>The groups of a \<open>groupBy\<close> by variant, with the sums of revenue and quantity.\<close>

fun group_line :: "sale_line \<Rightarrow> (string \<times> rat \<times> int) list \<Rightarrow> (string \<times> rat \<times> int) list" where
  "group_line l [] = [(sl_variantId l, sl_lineTotal l, sl_quantity l)]"
| "group_line l ((v, revenue, q) # gs) =
     (if v = sl_variantId l then (v, revenue + sl_lineTotal l, q + sl_quantity l) # gs
      else (v, revenue, q) # group_line l gs)"

definition group_lines :: "sale_line list \<Rightarrow> (string \<times> rat \<times> int) list" where
  "group_lines ls = fold group_line ls []"

definition top_products :: "db \<Rightarrow> sale_line list \<Rightarrow> top_product list" where
  "top_products s ls =
     map (\<lambda>(v, revenue, q).
        let variant = List.find (\<lambda>x. var_id x = v) (productVariants s)
        in \<lparr>tp_variantId = v,
            tp_productName = (case Option.bind variant (product_of s) of Some p \<Rightarrow> prd_name p | None \<Rightarrow> ''Unknown''),
            tp_sku = map_option var_sku variant, tp_revenue = revenue, tp_quantitySold = q\<rparr>)
       (take 5 (sort_key (\<lambda>(v, revenue, q). - revenue) (group_lines ls)))"

definition unpaid :: "invoice \<Rightarrow> bool" where
  "unpaid x \<longleftrightarrow> inv_status x \<in> {InvISSUED, InvPARTIALLY_PAID}"

definition getDashboard :: "env \<Rightarrow> int \<Rightarrow> string \<Rightarrow> string option \<Rightarrow> db \<Rightarrow> error + dashboard" where
  "getDashboard E now tenantId branchId s =
     (let todayStart = startOfDay now;
          sevenDaysAgo = todayStart - 6 * 24 * 60 * 60 * 1000;
          thirtyDaysAgo = todayStart - 29 * 24 * 60 * 60 * 1000;
          monthStart = Date_UTC (getUTCFullYear now) (getUTCMonth now) 1;
          since = (\<lambda>t. filter (\<lambda>x. t \<le> sale_createdAt x) (completed_sales tenantId branchId s));
          last30 = since thirtyDaysAgo;
          statuses = map (\<lambda>v. (variant_status s v, stock_on_hand s v)) (active_variants tenantId s);
          tenantInvoices = filter (\<lambda>x. inv_tenantId x = tenantId) (invoices s);
          outstanding = filter (\<lambda>x. unpaid x \<or> inv_status x = InvOVERDUE) tenantInvoices
      in bindE (money_sum E (line_cost E) (concat (map sale_lines last30)) (money_zero ''USD'')) (\<lambda>costOfGoodsSold.
         bindE (money_sum E (\<lambda>x. money_of (sale_total x) ''USD'') last30 (money_zero ''USD'')) (\<lambda>netSales.
         bindE (money_subtract E netSales costOfGoodsSold) (\<lambda>grossProfit.
         let operatingExpenses = money_of (sum_list (map exp_amount (filter (\<lambda>x. exp_tenantId x = tenantId \<and>
               of_branch branchId (exp_branchId x) \<and> thirtyDaysAgo \<le> exp_date x) (expenses s)))) ''USD''
         in bindE (money_subtract E grossProfit operatingExpenses) (\<lambda>netProfit.
            bindE (money_subtract E (money_of (sum_list (map inv_total outstanding)) ''USD'')
                (money_of (sum_list (map inv_amountPaid outstanding)) ''USD'')) (\<lambda>outstandingTotal.
            Inr \<lparr>da_todayTotal = sum_total (since todayStart), da_todayTransactionCount = length (since todayStart),
              da_last7DaysTotal = sum_total (since sevenDaysAgo), da_monthToDateTotal = sum_total (since monthStart),
              da_netSales = toDecimalString E netSales, da_costOfGoodsSold = toDecimalString E costOfGoodsSold,
              da_grossProfit = toDecimalString E grossProfit, da_operatingExpenses = toDecimalString E operatingExpenses,
              da_netProfit = toDecimalString E netProfit, da_outstandingTotal = toDecimalString E outstandingTotal,
              da_pendingInvoices = count_where unpaid tenantInvoices,
              da_overdueInvoices = count_where (\<lambda>x. unpaid x \<and> (case inv_dueDate x of Some d \<Rightarrow> d < now | None \<Rightarrow> False)) tenantInvoices,
              da_lowStockCount = count_where (\<lambda>(st, q). st = Red \<and> 0 < q) statuses,
              da_outOfStockCount = count_where (\<lambda>(st, q). st = Red \<and> q \<le> 0) statuses,
              da_topProducts = top_products s (concat (map sale_lines last30))\<rparr>))))))"

section \<open>The days of a range and their periods\<close>

lemma startOfWeekUTC_day:
  assumes "0 \<le> t"
  shows "startOfWeekUTC t = (day_of t - (day_of t + 3) mod 7) * DAY"
proof -
  have d: "Date_UTC (getUTCFullYear t) (getUTCMonth t) (getUTCDate t) = day_of t * DAY"
    using Date_UTC_same [OF assms] by simp
  have "((day_of t + 4) mod 7 + 6) mod 7 = (day_of t + 3) mod 7" by presburger
  moreover have "setUTCDate (n * DAY) (getUTCDate (n * DAY) - k) = (n - k) * DAY" for n k
    using setUTCDate_shift [of "n * DAY" "- k"] by (simp add: left_diff_distrib)
  ultimately show ?thesis
    by (simp only: startOfWeekUTC_def d Let_def getUTCDay_def day_of_midnight)
qed

lemma periodLabel_day:
  assumes "0 \<le> t" "0 \<le> u" "day_of t = day_of u"
  shows "periodLabel t g = periodLabel u g"
  using assms getters_day [OF assms(3)] by (cases g) (simp_all add: startOfWeekUTC_day)

lemma periods_from_labels:
  "set (map fst (periods_from stop g c seen)) = {periodLabel (c + int k * DAY) g |k. c + int k * DAY \<le> stop} - set seen \<and>
     distinct (map fst (periods_from stop g c seen))"
proof (induction stop g c seen rule: periods_from.induct)
  case (1 stop g c seen)
  let ?P = "\<lambda>c. {periodLabel (c + int k * DAY) g |k. c + int k * DAY \<le> stop}"
  show ?case
  proof (cases "c \<le> stop")
    case True
    have "?P c = insert (periodLabel c g) (?P (c + DAY))"
    proof (intro set_eqI iffI)
      fix l assume "l \<in> ?P c"
      then obtain k where "l = periodLabel (c + int k * DAY) g" "c + int k * DAY \<le> stop" by blast
      then show "l \<in> insert (periodLabel c g) (?P (c + DAY))"
        by (cases k) (auto simp: algebra_simps intro!: exI [of _ "k - 1"])
    next
      fix l assume "l \<in> insert (periodLabel c g) (?P (c + DAY))"
      then consider "l = periodLabel c g" | k where "l = periodLabel (c + DAY + int k * DAY) g" "c + DAY + int k * DAY \<le> stop" by blast
      then show "l \<in> ?P c"
      proof cases
        case 1
        with True show ?thesis by (auto intro!: exI [of _ 0])
      next
        case 2
        then show ?thesis by (auto simp: algebra_simps intro!: exI [of _ "Suc k"])
      qed
    qed
    with 1 True show ?thesis
      by (cases "periodLabel c g \<in> set seen") (auto simp: periods_from.simps [of stop g c] Let_def next_day)
  next
    case False
    have "\<not> c + int k * DAY \<le> stop" for k
      using False mult_nonneg_nonneg [of "int k" DAY] by (simp add: DAY_def)
    with False show ?thesis by (auto simp: periods_from.simps [of stop g c])
  qed
qed

end
