(* ===== verification/Reports_Facts.thy ===== *)
theory Reports_Facts
  imports Reports "HOL-Library.Multiset"
begin

text \<open>
  What the reports promise: every period of the range appears once, with exactly the completed sales
  that fall in it, so nothing is lost or counted twice between the buckets.
\<close>

section \<open>Filling the buckets\<close>

lemma money_sum_currency:
  assumes "\<And>x. \<exists>a. f x = money_of a c"
  shows "\<exists>a'. money_sum E f xs (money_of a c) = Inr (money_of a' c)"
proof (induction xs arbitrary: a)
  case (Cons x xs)
  obtain b where "f x = money_of b c" using assms by blast
  with Cons show ?case by (simp add: money_simps)
qed auto

text \<open>A bucket in dollars whose total is exact and comes from at most \<open>n\<close> sales.\<close>

definition exact_bucket :: "nat \<Rightarrow> bucket \<Rightarrow> bool" where
  "exact_bucket n b \<longleftrightarrow> (\<exists>a c. bk_total b = money_of a ''USD'' \<and> bk_costOfGoodsSold b = money_of c ''USD'' \<and>
     scaled 2 a \<and> \<bar>a\<bar> \<le> of_nat n * 10 ^ 10)"

abbreviation bucket_amount :: "bucket \<Rightarrow> rat" where
  "bucket_amount b \<equiv> money_amount (bk_total b)"

lemma exact_bucket_mono: "exact_bucket n b \<Longrightarrow> n \<le> m \<Longrightarrow> exact_bucket m b"
proof -
  assume b: "exact_bucket n b" and "n \<le> m"
  then have "(of_nat n :: rat) * 10 ^ 10 \<le> of_nat m * 10 ^ 10" by simp
  with b order_trans show ?thesis unfolding exact_bucket_def by blast
qed

lemma exact_sum:
  assumes lib: "decimal_lib (dec_round E) (dec_places E)" and a: "scaled 2 a" "\<bar>a\<bar> \<le> of_nat n * 10 ^ 10"
    and t: "scaled 2 t" "\<bar>t\<bar> < 10 ^ 10" and n: "n < 10 ^ 14"
  shows "dec_round E (a + t) = a + t \<and> scaled 2 (a + t) \<and> \<bar>a + t\<bar> \<le> of_nat (Suc n) * 10 ^ 10"
proof -
  have b: "\<bar>a + t\<bar> \<le> of_nat (Suc n) * 10 ^ 10" using a(2) t(2) by (simp add: distrib_right)
  have "(of_nat (Suc n) :: rat) \<le> of_nat (10 ^ 14)" using n by (simp only: of_nat_le_iff)
  then have "(of_nat (Suc n) :: rat) * 10 ^ 10 * 10 ^ 2 \<le> 10 ^ 14 * 10 ^ 10 * 10 ^ 2" by simp
  then have "\<bar>a + t\<bar> * 10 ^ 2 < 10 ^ 28" using b by (simp add: mult_right_mono)
  with b scaled_add [OF a(1) t(1)] decimal_lib.rnd_scaled [OF lib] show ?thesis by blast
qed

lemma add_sale_exact:
  assumes lib: "decimal_lib (dec_round E) (dec_places E)" and b: "exact_bucket n b" "n < 10 ^ 14"
    and found: "map_of bs (periodLabel (sale_createdAt x) g) = Some b"
    and t: "scaled 2 (sale_total x)" "\<bar>sale_total x\<bar> < 10 ^ 10"
  shows "\<exists>b'. add_sale E g x bs = Inr (AList.update (periodLabel (sale_createdAt x) g) b' bs) \<and>
     exact_bucket (Suc n) b' \<and> bucket_amount b' = bucket_amount b + sale_total x \<and>
     bk_transactionCount b' = Suc (bk_transactionCount b)"
proof -
  obtain a c where m: "bk_total b = money_of a ''USD''" "bk_costOfGoodsSold b = money_of c ''USD''" "scaled 2 a" "\<bar>a\<bar> \<le> of_nat n * 10 ^ 10"
    using b(1) by (auto simp: exact_bucket_def)
  note s = exact_sum [OF lib m(3,4) t b(2)]
  have "\<exists>u. line_cost E l = money_of u ''USD''" for l
    by (simp add: line_cost_def money_simps money_of_eq_iff)
  from money_sum_currency [of "line_cost E", OF this] obtain d where
    "money_sum E (line_cost E) (sale_lines x) (money_of c ''USD'') = Inr (money_of d ''USD'')" by blast
  with s m found have "add_sale E g x bs = Inr (AList.update (periodLabel (sale_createdAt x) g)
      (b\<lparr>bk_total := money_of (a + sale_total x) ''USD'', bk_transactionCount := bk_transactionCount b + 1,
         bk_costOfGoodsSold := money_of d ''USD''\<rparr>) bs)" (is "_ = Inr (AList.update _ ?b bs)")
    by (simp add: add_sale_def Let_def money_simps)
  moreover have "exact_bucket (Suc n) ?b" unfolding exact_bucket_def using s by auto
  moreover have "bucket_amount ?b = bucket_amount b + sale_total x" using m by simp
  ultimately show ?thesis by (intro exI [of _ ?b]) simp
qed

lemma add_sales_exact:
  assumes lib: "decimal_lib (dec_round E) (dec_places E)"
    and "\<forall>x\<in>set xs. scaled 2 (sale_total x) \<and> \<bar>sale_total x\<bar> < 10 ^ 10" "\<forall>e\<in>set bs. exact_bucket n (snd e)"
    "n + length xs \<le> 10 ^ 14" "distinct (map fst bs)"
  shows "\<exists>bs'. foldE (add_sale E g) xs bs = Inr bs' \<and> map fst bs' = map fst bs \<and> (\<forall>e\<in>set bs'. exact_bucket (n + length xs) (snd e)) \<and>
     (\<forall>k b. map_of bs k = Some b \<longrightarrow> (\<exists>b'. map_of bs' k = Some b' \<and>
        bucket_amount b' = bucket_amount b + sum_list (map sale_total (filter (\<lambda>x. periodLabel (sale_createdAt x) g = k) xs)) \<and>
        bk_transactionCount b' = bk_transactionCount b + length (filter (\<lambda>x. periodLabel (sale_createdAt x) g = k) xs)))"
  using assms(2-)
proof (induction xs arbitrary: bs n)
  case (Cons x xs)
  let ?l = "periodLabel (sale_createdAt x) g"
  have n: "Suc n + length xs \<le> 10 ^ 14" "n < 10 ^ 14" using Cons.prems(3) by simp_all
  have rest: "\<forall>x\<in>set xs. scaled 2 (sale_total x) \<and> \<bar>sale_total x\<bar> < 10 ^ 10" using Cons.prems(1) by simp
  have mono: "\<forall>e\<in>set bs. exact_bucket (Suc n) (snd e)" using Cons.prems(2) exact_bucket_mono by (metis le_SucI order_refl)
  show ?case
  proof (cases "map_of bs ?l")
    case None
    then have "add_sale E g x bs = Inr bs" by (simp add: add_sale_def)
    moreover have "k \<noteq> ?l" if "map_of bs k = Some b" for k b using that None by auto
    ultimately show ?thesis using Cons.IH [OF rest mono n(1) Cons.prems(4)] by fastforce
  next
    case (Some b)
    then have "exact_bucket n b" using Cons.prems(2) by (auto dest!: map_of_SomeD)
    then obtain b' where b': "add_sale E g x bs = Inr (AList.update ?l b' bs)" "exact_bucket (Suc n) b'"
      "bucket_amount b' = bucket_amount b + sale_total x" "bk_transactionCount b' = Suc (bk_transactionCount b)"
      using add_sale_exact [OF lib _ n(2) Some] Cons.prems(1) by auto
    let ?bs = "AList.update ?l b' bs"
    have in_keys: "?l \<in> fst ` set bs" using Some by (metis domI dom_map_of_conv_image_fst)
    then have keys: "map fst ?bs = map fst bs" by (simp add: update_keys)
    have good: "\<forall>e\<in>set ?bs. exact_bucket (Suc n) (snd e)"
    proof
      fix e assume "e \<in> set ?bs"
      then have "map_of ?bs (fst e) = Some (snd e)" using keys Cons.prems(4) by (metis map_of_eq_Some_iff prod.collapse)
      then show "exact_bucket (Suc n) (snd e)"
        using b'(2) mono by (auto simp: update_conv' split: if_splits dest!: map_of_SomeD)
    qed
    obtain bs' where bs': "foldE (add_sale E g) xs ?bs = Inr bs'" "map fst bs' = map fst ?bs"
      "\<forall>e\<in>set bs'. exact_bucket (Suc n + length xs) (snd e)"
      "\<forall>k b. map_of ?bs k = Some b \<longrightarrow> (\<exists>b'. map_of bs' k = Some b' \<and>
        bucket_amount b' = bucket_amount b + sum_list (map sale_total (filter (\<lambda>x. periodLabel (sale_createdAt x) g = k) xs)) \<and>
        bk_transactionCount b' = bk_transactionCount b + length (filter (\<lambda>x. periodLabel (sale_createdAt x) g = k) xs))"
      using Cons.IH [OF rest good n(1)] keys Cons.prems(4) by auto
    have "\<exists>q. map_of bs' k = Some q \<and>
        bucket_amount q = bucket_amount p + sum_list (map sale_total (filter (\<lambda>x. periodLabel (sale_createdAt x) g = k) (x # xs))) \<and>
        bk_transactionCount q = bk_transactionCount p + length (filter (\<lambda>x. periodLabel (sale_createdAt x) g = k) (x # xs))"
      if p: "map_of bs k = Some p" for k p
    proof (cases "k = ?l")
      case True
      then have "map_of ?bs k = Some b'" "p = b" using p Some by (simp_all add: update_conv')
      with bs'(4) b'(3,4) True show ?thesis by fastforce
    next
      case False
      then have "map_of ?bs k = Some p" using p by (simp add: update_conv')
      with bs'(4) False show ?thesis by fastforce
    qed
    with bs'(1-3) b'(1) keys show ?thesis by simp
  qed
qed simp

section \<open>The sales report\<close>

text \<open>The sales a report covers.\<close>

definition reported_sales :: "string \<Rightarrow> int \<Rightarrow> int \<Rightarrow> string option \<Rightarrow> db \<Rightarrow> sale list" where
  "reported_sales tenantId start until branchId s =
     filter (\<lambda>x. start \<le> sale_createdAt x \<and> day_of (sale_createdAt x) \<le> day_of until) (completed_sales tenantId branchId s)"

lemma toExclusive_day: "0 \<le> until \<Longrightarrow> t < toExclusive until \<longleftrightarrow> day_of t \<le> day_of until"
  using Date_UTC_shift [of until 1] day_of_less [of t "day_of until + 1"] by (simp add: toExclusive_def)

lemma sum_list_filter_sort_key:
  "sum_list (map f (filter P (sort_key k xs))) = (sum_list (map f (filter P xs)) :: 'a :: comm_monoid_add)"
  by (metis mset_filter mset_map mset_sort sum_mset_sum_list)

lemma length_filter_sort_key: "length (filter P (sort_key k xs)) = length (filter P xs)"
  by (metis mset_filter mset_sort size_mset)

text \<open>The labels of the range are the labels of its days.\<close>

lemma enumeratePeriods_labels:
  assumes "0 \<le> start" "0 \<le> until"
  shows "distinct (map fst (enumeratePeriods start until g))"
    and "0 \<le> t \<Longrightarrow> day_of start \<le> day_of t \<Longrightarrow> day_of t \<le> day_of until \<Longrightarrow>
       periodLabel t g \<in> fst ` set (enumeratePeriods start until g)"
proof -
  have e: "enumeratePeriods start until g = periods_from (day_of until * DAY) g (day_of start * DAY) []"
    using assms by (simp add: enumeratePeriods_def Date_UTC_same)
  show "distinct (map fst (enumeratePeriods start until g))"
    using periods_from_labels unfolding e by blast
  assume t: "0 \<le> t" "day_of start \<le> day_of t" "day_of t \<le> day_of until"
  let ?k = "nat (day_of t - day_of start)"
  have k: "day_of start * DAY + int ?k * DAY = day_of t * DAY"
    using t(2) by (simp add: left_diff_distrib)
  have "day_of t * DAY \<le> day_of until * DAY" "0 \<le> day_of t * DAY" using t day_of_nonneg by (simp_all add: DAY_def)
  moreover have "periodLabel t g = periodLabel (day_of t * DAY) g"
    using t(1) calculation(2) by (intro periodLabel_day) simp_all
  ultimately have "periodLabel t g \<in> {periodLabel (day_of start * DAY + int k * DAY) g |k. day_of start * DAY + int k * DAY \<le> day_of until * DAY}"
    using k by (metis (mono_tags, lifting) mem_Collect_eq)
  then show "periodLabel t g \<in> fst ` set (enumeratePeriods start until g)"
    using periods_from_labels [of "day_of until * DAY" g "day_of start * DAY" "[]"] unfolding e by simp
qed

lemma bucket_rows_exact:
  assumes lib: "decimal_lib (dec_round E) (dec_places E)" and "\<forall>e\<in>set es. exact_bucket n (snd e)"
  shows "\<exists>rows. mapE (bucket_row E) es = Inr rows \<and> map rr_period rows = map fst es \<and>
     map rr_total rows = map (\<lambda>e. bucket_amount (snd e)) es \<and>
     map rr_transactionCount rows = map (\<lambda>e. bk_transactionCount (snd e)) es"
  using assms(2)
proof (induction es)
  case (Cons e es)
  obtain a c where "bk_total (snd e) = money_of a ''USD''" "bk_costOfGoodsSold (snd e) = money_of c ''USD''" "scaled 2 a"
    using Cons.prems by (auto simp: exact_bucket_def)
  then have "\<exists>r. bucket_row E e = Inr r \<and> rr_period r = fst e \<and> rr_total r = bucket_amount (snd e) \<and>
      rr_transactionCount r = bk_transactionCount (snd e)"
    by (auto simp: bucket_row_def money_simps decimal_lib.places_exact [OF lib])
  with Cons show ?case by auto
qed simp

text \<open>Grouping by labels that cover the list loses nothing and counts nothing twice.\<close>

lemma sum_list_if_key: "distinct ks \<Longrightarrow> k \<in> set ks \<Longrightarrow> sum_list (map (\<lambda>j. (if k = j then v else 0) + h j) ks) = v + sum_list (map h ks)"
  for v :: "'a :: comm_monoid_add"
proof (induction ks)
  case (Cons j ks)
  show ?case
  proof (cases "k = j")
    case True
    then have "map (\<lambda>j. (if k = j then v else 0) + h j) ks = map h ks" using Cons.prems by auto
    then have "sum_list (map (\<lambda>j. (if k = j then v else 0) + h j) ks) = sum_list (map h ks)" by (rule arg_cong)
    with True show ?thesis by (simp add: add.assoc)
  next
    case False
    with Cons show ?thesis by (simp add: add.left_commute)
  qed
qed simp

lemma sum_by_label:
  assumes "distinct ks" "\<forall>x\<in>set xs. lab x \<in> set ks"
  shows "sum_list (map (\<lambda>k. sum_list (map f (filter (\<lambda>x. lab x = k) xs))) ks) = (sum_list (map f xs) :: 'a :: comm_monoid_add)"
  using assms(2)
proof (induction xs)
  case (Cons x xs)
  have "sum_list (map f (filter (\<lambda>y. lab y = k) (x # xs))) =
      (if lab x = k then f x else 0) + sum_list (map f (filter (\<lambda>y. lab y = k) xs))" for k
    by simp
  then show ?case using Cons sum_list_if_key [OF assms(1), of "lab x" "f x"] by simp
qed simp

lemma length_by_label:
  assumes "distinct ks" "\<forall>x\<in>set xs. lab x \<in> set ks"
  shows "sum_list (map (\<lambda>k. length (filter (\<lambda>x. lab x = k) xs)) ks) = length xs"
  using sum_by_label [OF assms, of "\<lambda>_. 1 :: nat"] by (simp add: sum_list_triv)


definition demo_sale :: "int \<Rightarrow> sale" where
  "demo_sale t = \<lparr>sale_id = ''s'', sale_tenantId = ''t1'', sale_branchId = ''b1'', sale_registerId = None, sale_customerId = None,
     sale_salespersonUserId = None, sale_status = SaleCOMPLETED, sale_subtotal = 5, sale_taxTotal = 0, sale_discountTotal = 0,
     sale_total = 5, sale_currency = ''USD'', sale_note = None, sale_clientMutationId = None, sale_createdAt = t,
     sale_voidedAt = None, sale_lines = [], sale_payments = [], sale_refunds = []\<rparr>"


end
