(* ===== verification/Outbox_Worker.thy ===== *)
theory Outbox_Worker
  imports Audit_Outbox Notifications Calendar
begin

text \<open>
  \<open>apps/worker/src\<close>: the poller that hands the rows of the outbox to the job queue, and the handler of
  the jobs, which sends the mails. The job queue is outside the repository: \<open>add\<close> is its \<open>Queue.add\<close>,
  which may throw, and \<open>logw\<close> the console.
\<close>

section \<open>The poller (\<open>outbox-poller.ts\<close>)\<close>

record job_data =
  jd_outboxEventId :: string
  jd_aggregateType :: string
  jd_eventType :: string
  jd_payload :: json

record job_options =
  jo_jobId :: string
  jo_attempts :: nat
  jo_backoffDelay :: nat

type_synonym 'w queue_add = "string \<Rightarrow> job_data \<Rightarrow> job_options \<Rightarrow> 'w \<Rightarrow> (error + unit) \<times> 'w"

definition BATCH_SIZE :: nat where
  "BATCH_SIZE = 20"

definition MAX_ATTEMPTS :: nat where
  "MAX_ATTEMPTS = 8"

definition pending :: "outbox_event \<Rightarrow> bool" where
  "pending e \<longleftrightarrow> obx_processedAt e = None \<and> obx_attempts e < MAX_ATTEMPTS"

definition job_of :: "outbox_event \<Rightarrow> job_data" where
  "job_of e = \<lparr>jd_outboxEventId = obx_id e, jd_aggregateType = obx_aggregateType e, jd_eventType = obx_eventType e,
     jd_payload = obx_payload e\<rparr>"

definition job_options_of :: "outbox_event \<Rightarrow> job_options" where
  "job_options_of e = \<lparr>jo_jobId = obx_id e, jo_attempts = 5, jo_backoffDelay = 2000\<rparr>"

definition update_event :: "string \<Rightarrow> (outbox_event \<Rightarrow> outbox_event) \<Rightarrow> db \<Rightarrow> db" where
  "update_event i f s = s\<lparr>outboxEvents := update_where (\<lambda>e. obx_id e = i) f (outboxEvents s)\<rparr>"

text \<open>The body of the loop, for an event as it was read.\<close>

definition hand_over ::
  "'w queue_add \<Rightarrow> (string \<Rightarrow> 'w \<Rightarrow> 'w) \<Rightarrow> (error \<Rightarrow> string) \<Rightarrow> int \<Rightarrow> outbox_event \<Rightarrow> db \<Rightarrow> 'w \<Rightarrow> db \<times> 'w" where
  "hand_over add logw message now e s w =
     (case add (obx_eventType e) (job_of e) (job_options_of e) w of
        (Inr _, w1) \<Rightarrow> (update_event (obx_id e) (\<lambda>r. r\<lparr>obx_processedAt := Some now\<rparr>) s, w1)
      | (Inl err, w1) \<Rightarrow>
          (update_event (obx_id e) (\<lambda>r. r\<lparr>obx_attempts := obx_attempts r + 1, obx_lastError := Some (message err)\<rparr>) s,
           logw (''[outbox] failed to enqueue event '' @ obx_id e @ '' ('' @ obx_eventType e @ ''): '' @ message err) w1))"

fun hand_over_all ::
  "'w queue_add \<Rightarrow> (string \<Rightarrow> 'w \<Rightarrow> 'w) \<Rightarrow> (error \<Rightarrow> string) \<Rightarrow> int \<Rightarrow> outbox_event list \<Rightarrow> db \<Rightarrow> 'w \<Rightarrow> db \<times> 'w" where
  "hand_over_all add logw message now [] s w = (s, w)"
| "hand_over_all add logw message now (e # es) s w =
     (case hand_over add logw message now e s w of (s1, w1) \<Rightarrow> hand_over_all add logw message now es s1 w1)"

definition next_batch :: "db \<Rightarrow> outbox_event list" where
  "next_batch s = take BATCH_SIZE (sort_key obx_createdAt (filter pending (outboxEvents s)))"

definition pollOutboxOnce ::
  "'w queue_add \<Rightarrow> (string \<Rightarrow> 'w \<Rightarrow> 'w) \<Rightarrow> (error \<Rightarrow> string) \<Rightarrow> int \<Rightarrow> db \<Rightarrow> 'w \<Rightarrow> nat \<times> db \<times> 'w" where
  "pollOutboxOnce add logw message now s w =
     (let events = next_batch s in (length events, hand_over_all add logw message now events s w))"

section \<open>The handler (\<open>notifications.queue.ts\<close>)\<close>

text \<open>What the handler is given: the application's URL, the JSON writer, the mail adapter and the console.\<close>

record 'w notify_server =
  ns_APP_URL :: string
  ns_json :: json_lib
  ns_email :: "'w email_adapter"
  ns_log :: "string \<Rightarrow> 'w \<Rightarrow> 'w"

text \<open>\<open>${payload.k}\<close> in a template.\<close>

definition in_template :: "json_lib \<Rightarrow> json \<Rightarrow> string \<Rightarrow> string" where
  "in_template J payload k = (case js_field k payload of None \<Rightarrow> ''undefined'' | Some j \<Rightarrow> js_String J j)"

text \<open>A point read by a field of the payload: the database client refuses a key that is not a string.\<close>

definition payload_key :: "json \<Rightarrow> string \<Rightarrow> error + string" where
  "payload_key payload k = someE (js_string_field k payload) (ServerError ''Invalid value for argument where'')"

definition quoted :: "string \<Rightarrow> string" where
  "quoted s = [CHR 0x22] @ s @ [CHR 0x22]"

definition tenant_name :: "db \<Rightarrow> string \<Rightarrow> string" where
  "tenant_name s i = (case List.find (\<lambda>t. ten_id t = i) (tenants s) of Some t \<Rightarrow> ten_displayName t | None \<Rightarrow> [])"

definition log_delivery :: "'w notify_server \<Rightarrow> string \<Rightarrow> send_result \<Rightarrow> 'w \<Rightarrow> 'w" where
  "log_delivery N ctx r w = ns_log N (''[notifications] '' @ ctx @ '' '' @ em_dash @ '' provider='' @ sn_provider r @
     '' delivered='' @ (if sn_delivered r then ''true'' else ''false'')) w"

definition send_logged :: "'w notify_server \<Rightarrow> string \<Rightarrow> send_email_input \<Rightarrow> 'w \<Rightarrow> (error + unit) \<times> 'w" where
  "send_logged N ctx mail w =
     (case ns_email N mail w of
        (Inl e, w1) \<Rightarrow> (Inl e, w1)
      | (Inr r, w1) \<Rightarrow> (Inr (), log_delivery N ctx r w1))"

definition mail :: "string \<Rightarrow> string \<Rightarrow> string \<Rightarrow> send_email_input" where
  "mail rcpt subject content = \<lparr>em_to = rcpt, em_subject = subject, em_text = content, em_html = None\<rparr>"

definition welcome_mail :: "string \<Rightarrow> string \<Rightarrow> tenant \<Rightarrow> send_email_input" where
  "welcome_mail url rcpt t = mail rcpt (''Welcome to SalesMaster Pro, '' @ ten_displayName t)
     (''Your business '' @ quoted (ten_displayName t) @ '' is set up and ready to go. Sign in any time at '' @ url @ ''/login.'')"

definition invitation_mail :: "string \<Rightarrow> db \<Rightarrow> invitation \<Rightarrow> send_email_input" where
  "invitation_mail url s i = mail (ivt_email i)
     (''You've been invited to join '' @ tenant_name s (ivt_tenantId i) @ '' on SalesMaster Pro'')
     (''Accept your invitation: '' @ url @ ''/accept-invite?token='' @ ivt_token i @ [CHR 0x0A, CHR 0x0A] @
      ''This link expires '' @ toISOString (ivt_expiresAt i) @ ''.'')"

definition issued_mail :: "'w notify_server \<Rightarrow> db \<Rightarrow> string \<Rightarrow> invoice \<Rightarrow> send_email_input" where
  "issued_mail N s rcpt x = mail rcpt (''Invoice '' @ inv_number x @ '' from '' @ tenant_name s (inv_tenantId x))
     (''You have a new invoice for '' @ inv_currency x @ '' '' @ number_text (ns_json N) (inv_total x) @ ''. View and pay: '' @
      ns_APP_URL N @ ''/public/invoices/'' @ inv_publicToken x)"

definition paid_mail :: "'w notify_server \<Rightarrow> string \<Rightarrow> invoice \<Rightarrow> send_email_input" where
  "paid_mail N rcpt x = mail rcpt (''Payment received '' @ em_dash @ '' invoice '' @ inv_number x)
     (''Thank you! We've recorded your payment for invoice '' @ inv_number x @ ''. Receipt: '' @
      ns_APP_URL N @ ''/public/invoices/'' @ inv_publicToken x)"

definition low_stock_mail :: "json_lib \<Rightarrow> json \<Rightarrow> string \<Rightarrow> send_email_input" where
  "low_stock_mail J payload rcpt = mail rcpt (''Low stock alert: '' @ in_template J payload ''productName'')
     (quoted (in_template J payload ''productName'') @ '' (SKU '' @ in_template J payload ''sku'' @ '') is at '' @
      in_template J payload ''quantity'' @
      '' units on hand, at or below its reorder point. Restock soon to avoid stockouts.'')"

text \<open>The address of the customer an invoice is for, when there is one.\<close>

definition invoice_address :: "db \<Rightarrow> invoice \<Rightarrow> string option" where
  "invoice_address s x = Option.bind (List.find (\<lambda>c. cus_id c = inv_customerId x) (customers s)) cus_email"

definition notify_invoice ::
  "'w notify_server \<Rightarrow> string \<Rightarrow> (string \<Rightarrow> invoice \<Rightarrow> send_email_input) \<Rightarrow> string \<Rightarrow> json \<Rightarrow> db \<Rightarrow> 'w \<Rightarrow> (error + unit) \<times> 'w" where
  "notify_invoice N verb text_of suffix payload s w =
     (case payload_key payload ''invoiceId'' of
        Inl e \<Rightarrow> (Inl e, w)
      | Inr i \<Rightarrow>
          (case List.find (\<lambda>x. inv_id x = i) (invoices s) of
             Some x \<Rightarrow>
               if truthy (invoice_address s x)
               then send_logged N (''invoice '' @ inv_number x @ suffix) (text_of (the (invoice_address s x)) x) w
               else (Inr (), ns_log N (''[notifications] invoice '' @ i @ verb @ '' but customer has no email on file '' @ em_dash @ '' skipping'') w)
           | None \<Rightarrow> (Inr (), ns_log N (''[notifications] invoice '' @ i @ verb @ '' but customer has no email on file '' @ em_dash @ '' skipping'') w)))"

text \<open>The active owners of a tenant, of every tenant when the payload names none, and the mails to each in
  turn; the first failure ends the job.\<close>

definition owner_users :: "db \<Rightarrow> string option \<Rightarrow> user list" where
  "owner_users s tenantId =
     List.map_filter (\<lambda>m. List.find (\<lambda>u. usr_id u = mem_userId m) (users s))
       (filter (\<lambda>m. (case tenantId of None \<Rightarrow> True | Some t \<Rightarrow> mem_tenantId m = t) \<and> mem_status m = MemACTIVE \<and>
          list_ex (\<lambda>r. rol_id r = mem_roleId m \<and> rol_key r = ''owner'') (roles s)) (memberships s))"

fun send_alerts :: "'w notify_server \<Rightarrow> json \<Rightarrow> user list \<Rightarrow> 'w \<Rightarrow> (error + unit) \<times> 'w" where
  "send_alerts N payload [] w = (Inr (), w)"
| "send_alerts N payload (u # us) w =
     (case send_logged N (''low-stock alert to '' @ usr_email u) (low_stock_mail (ns_json N) payload (usr_email u)) w of
        (Inl e, w1) \<Rightarrow> (Inl e, w1)
      | (Inr _, w1) \<Rightarrow> send_alerts N payload us w1)"

definition handleNotification :: "'w notify_server \<Rightarrow> job_data \<Rightarrow> db \<Rightarrow> 'w \<Rightarrow> (error + unit) \<times> 'w" where
  "handleNotification N job s w =
     (let eventType = jd_eventType job; payload = jd_payload job; J = ns_json N; appUrl = ns_APP_URL N in
      if eventType = ''tenant.created'' then
        (case payload_key payload ''tenantId'' of
           Inl e \<Rightarrow> (Inl e, w)
         | Inr i \<Rightarrow>
             (case List.find (\<lambda>t. ten_id t = i) (tenants s) of
                None \<Rightarrow> (Inr (), w)
              | Some t \<Rightarrow> send_logged N (''welcome email for tenant '' @ ten_id t)
                  (welcome_mail appUrl (in_template J payload ''ownerEmail'') t) w))
      else if eventType = ''invitation.created'' then
        (case payload_key payload ''token'' of
           Inl e \<Rightarrow> (Inl e, w)
         | Inr tok \<Rightarrow>
             (case List.find (\<lambda>i. ivt_token i = tok) (invitations s) of
                None \<Rightarrow> (Inr (), w)
              | Some i \<Rightarrow> send_logged N (''invitation email to '' @ ivt_email i) (invitation_mail appUrl s i) w))
      else if eventType = ''sale.created'' then
        (Inr (), ns_log N (''[notifications] sale '' @ in_template J payload ''saleId'' @ '' recorded for tenant '' @
           in_template J payload ''tenantId'') w)
      else if eventType = ''sale.refunded'' then
        (Inr (), ns_log N (''[notifications] refund of '' @ in_template J payload ''amount'' @ '' recorded for sale '' @
           in_template J payload ''saleId'') w)
      else if eventType = ''invoice.issued'' then
        notify_invoice N '' issued'' (issued_mail N s) '' issued email'' payload s w
      else if eventType = ''invoice.paid'' then
        notify_invoice N '' paid'' (paid_mail N) '' paid receipt email'' payload s w
      else if eventType = ''inventory.low_stock'' then
        (case js_field ''tenantId'' payload of
           None \<Rightarrow> send_alerts N payload (owner_users s None) w
         | Some (JStr t) \<Rightarrow> send_alerts N payload (owner_users s (Some t)) w
         | _ \<Rightarrow> (Inl (ServerError ''Invalid value for argument where''), w))
      else (Inr (), ns_log N (''[notifications] unhandled event type '' @ eventType @ '' '' @ js_stringify J payload) w))"

end
