(* ===== verification/Outbox_Facts.thy ===== *)
theory Outbox_Facts
  imports Outbox_Worker Onboarding
begin

text \<open>
  What the outbox promises: an event is handed to the job queue at most once and with its own content,
  whatever pollers overlap or crash; while the queue accepts jobs, polling empties the outbox; and the
  mail of an invitation carries its token to the invited address.
\<close>

section \<open>The job queue\<close>

text \<open>The documented behaviour of the job queue: a job whose identifier is known already is not added
  again, and after a successful call the job is known. A call that throws may have added the job.
  \<open>jobs\<close> are the jobs the queue has been given, by identifier.\<close>

definition dedupes :: "'w queue_add \<Rightarrow> ('w \<Rightarrow> (string \<times> job_data) list) \<Rightarrow> bool" where
  "dedupes add jobs \<longleftrightarrow>
     (\<forall>n d opts w r w'. add n d opts w = (r, w') \<longrightarrow>
        (jobs w' = jobs w \<or> jo_jobId opts \<notin> fst ` set (jobs w) \<and> jobs w' = jobs w @ [(jo_jobId opts, d)]) \<and>
        (r = Inr () \<longrightarrow> jo_jobId opts \<in> fst ` set (jobs w')))"

definition keeps_jobs :: "(string \<Rightarrow> 'w \<Rightarrow> 'w) \<Rightarrow> ('w \<Rightarrow> (string \<times> job_data) list) \<Rightarrow> bool" where
  "keeps_jobs logw jobs \<longleftrightarrow> (\<forall>m w. jobs (logw m w) = jobs w)"

section \<open>Pollers, requests and crashes\<close>

text \<open>
  A request of the API appends unprocessed events. A poller runs a whole poll, or, when polls overlap,
  one iteration with an event as some poll read it; or it stops between the call of the queue and the
  write that marks the event.
\<close>

definition read_earlier :: "db \<Rightarrow> outbox_event \<Rightarrow> bool" where
  "read_earlier s e \<longleftrightarrow> job_of e \<in> job_of ` set (outboxEvents s)"

inductive outbox_step ::
  "'w queue_add \<Rightarrow> (string \<Rightarrow> 'w \<Rightarrow> 'w) \<Rightarrow> (error \<Rightarrow> string) \<Rightarrow> db \<times> 'w \<Rightarrow> db \<times> 'w \<Rightarrow> bool" for add logw message where
  published: "outboxEvents t = outboxEvents s @ es \<Longrightarrow> \<forall>e\<in>set es. obx_processedAt e = None \<Longrightarrow>
     distinct (map obx_id (outboxEvents t)) \<Longrightarrow> outbox_step add logw message (s, w) (t, w)"
| polled: "pollOutboxOnce add logw message now s w = (n, t, w') \<Longrightarrow> outbox_step add logw message (s, w) (t, w')"
| overlapped: "read_earlier s e \<Longrightarrow> hand_over add logw message now e s w = (t, w') \<Longrightarrow> outbox_step add logw message (s, w) (t, w')"
| interrupted: "read_earlier s e \<Longrightarrow> add (obx_eventType e) (job_of e) (job_options_of e) w = (r, w') \<Longrightarrow>
     outbox_step add logw message (s, w) (s, w')"

definition outbox_inv :: "('w \<Rightarrow> (string \<times> job_data) list) \<Rightarrow> db \<Rightarrow> 'w \<Rightarrow> bool" where
  "outbox_inv jobs s w \<longleftrightarrow> distinct (map obx_id (outboxEvents s)) \<and> distinct (map fst (jobs w)) \<and>
     (\<forall>j\<in>set (jobs w). snd j \<in> job_of ` set (outboxEvents s) \<and> fst j = jd_outboxEventId (snd j)) \<and>
     (\<forall>r\<in>set (outboxEvents s). obx_processedAt r \<noteq> None \<longrightarrow> obx_id r \<in> fst ` set (jobs w))"

lemma marked_has_job:
  "outbox_inv jobs s w \<Longrightarrow> r \<in> set (outboxEvents s) \<Longrightarrow> obx_processedAt r \<noteq> None \<Longrightarrow> obx_id r \<in> fst ` set (jobs w)"
  unfolding outbox_inv_def by blast

lemma job_of_id [simp]: "jd_outboxEventId (job_of e) = obx_id e" "jo_jobId (job_options_of e) = obx_id e"
  by (simp_all add: job_of_def job_options_of_def)

lemma update_event_jobs:
  assumes "\<And>r. job_of (f r) = job_of r"
  shows "map job_of (outboxEvents (update_event i f s)) = map job_of (outboxEvents s)"
  using assms by (simp add: update_event_def map_update_where_same)

lemma ids_of_jobs: "map obx_id es = map jd_outboxEventId (map job_of es)"
  by (simp add: o_def)

lemma job_set_eq: "map job_of (outboxEvents t) = map job_of (outboxEvents s) \<Longrightarrow> job_of ` set (outboxEvents t) = job_of ` set (outboxEvents s)"
  by (metis list.set_map)

text \<open>A call of the queue for an event of the outbox keeps the invariant.\<close>

lemma add_inv:
  assumes q: "dedupes add jobs" and inv: "outbox_inv jobs s w" and e: "read_earlier s e"
    and run: "add (obx_eventType e) (job_of e) (job_options_of e) w = (r, w')"
  shows "outbox_inv jobs s w' \<and> set (jobs w) \<subseteq> set (jobs w') \<and> (r = Inr () \<longrightarrow> obx_id e \<in> fst ` set (jobs w'))"
proof -
  have d: "jobs w' = jobs w \<or> obx_id e \<notin> fst ` set (jobs w) \<and> jobs w' = jobs w @ [(obx_id e, job_of e)]"
    "r = Inr () \<longrightarrow> obx_id e \<in> fst ` set (jobs w')"
    using q [unfolded dedupes_def, rule_format, OF run] by simp_all
  from d(1) have "outbox_inv jobs s w' \<and> set (jobs w) \<subseteq> set (jobs w')"
  proof
    assume "jobs w' = jobs w"
    with inv show ?thesis unfolding outbox_inv_def by (metis order_refl)
  next
    assume "obx_id e \<notin> fst ` set (jobs w) \<and> jobs w' = jobs w @ [(obx_id e, job_of e)]"
    with inv e show ?thesis by (auto simp: outbox_inv_def read_earlier_def)
  qed
  with d(2) show ?thesis by blast
qed

lemma update_event_inv:
  assumes inv: "outbox_inv jobs s w" and f: "\<And>r. job_of (f r) = job_of r"
    and mark: "\<And>r. obx_processedAt (f r) \<noteq> None \<Longrightarrow> obx_processedAt r \<noteq> None \<or> i \<in> fst ` set (jobs w)"
  shows "outbox_inv jobs (update_event i f s) w"
proof -
  have m: "map job_of (outboxEvents (update_event i f s)) = map job_of (outboxEvents s)"
    using f by (rule update_event_jobs)
  have "obx_id r \<in> fst ` set (jobs w)" if r: "r \<in> set (outboxEvents (update_event i f s))" "obx_processedAt r \<noteq> None" for r
  proof -
    obtain q where q: "q \<in> set (outboxEvents s)" "r = (if obx_id q = i then f q else q)"
      using r(1) by (auto simp: update_event_def set_update_where split: if_splits)
    have "obx_id (f q) = obx_id q" using f [of q] job_of_id(1) by metis
    with q r(2) mark [of q] marked_has_job [OF inv q(1)] show ?thesis by (cases "obx_id q = i") auto
  qed
  with inv m job_set_eq [OF m] show ?thesis unfolding outbox_inv_def ids_of_jobs by simp
qed

lemma hand_over_inv:
  assumes q: "dedupes add jobs" "keeps_jobs logw jobs" and inv: "outbox_inv jobs s w" and e: "read_earlier s e"
    and run: "hand_over add logw message now e s w = (t, w')"
  shows "outbox_inv jobs t w' \<and> set (jobs w) \<subseteq> set (jobs w') \<and> map job_of (outboxEvents t) = map job_of (outboxEvents s)"
proof -
  obtain r w1 where a: "add (obx_eventType e) (job_of e) (job_options_of e) w = (r, w1)" by fastforce
  note i = add_inv [OF q(1) inv e a]
  show ?thesis
  proof (cases r)
    case (Inl err)
    with run a have "t = update_event (obx_id e) (\<lambda>r. r\<lparr>obx_attempts := obx_attempts r + 1, obx_lastError := Some (message err)\<rparr>) s"
      "jobs w' = jobs w1" using q(2) by (auto simp: hand_over_def keeps_jobs_def)
    moreover have "outbox_inv jobs (update_event (obx_id e) (\<lambda>r. r\<lparr>obx_attempts := obx_attempts r + 1, obx_lastError := Some (message err)\<rparr>) s) w1"
      using i by (intro update_event_inv) (auto simp: job_of_def)
    ultimately show ?thesis using i by (auto simp: outbox_inv_def update_event_jobs job_of_def)
  next
    case (Inr u)
    with run a have "t = update_event (obx_id e) (\<lambda>r. r\<lparr>obx_processedAt := Some now\<rparr>) s" "w' = w1"
      by (auto simp: hand_over_def)
    moreover have "outbox_inv jobs (update_event (obx_id e) (\<lambda>r. r\<lparr>obx_processedAt := Some now\<rparr>) s) w1"
      using i Inr by (intro update_event_inv) (auto simp: job_of_def)
    ultimately show ?thesis using i by (auto simp: update_event_jobs job_of_def)
  qed
qed

lemma hand_over_all_inv:
  assumes q: "dedupes add jobs" "keeps_jobs logw jobs"
  shows "outbox_inv jobs s w \<Longrightarrow> \<forall>e\<in>set es. read_earlier s e \<Longrightarrow> hand_over_all add logw message now es s w = (t, w') \<Longrightarrow>
     outbox_inv jobs t w' \<and> set (jobs w) \<subseteq> set (jobs w') \<and> map job_of (outboxEvents t) = map job_of (outboxEvents s)"
proof (induction es arbitrary: s w)
  case (Cons e es)
  obtain s1 w1 where h: "hand_over add logw message now e s w = (s1, w1)" by fastforce
  with Cons.prems have one: "outbox_inv jobs s1 w1 \<and> set (jobs w) \<subseteq> set (jobs w1) \<and> map job_of (outboxEvents s1) = map job_of (outboxEvents s)"
    by (intro hand_over_inv [OF q]) auto
  then have "\<forall>e\<in>set es. read_earlier s1 e" using Cons.prems(2) job_set_eq [of s1 s] by (simp add: read_earlier_def)
  with Cons.IH [of s1 w1] Cons.prems(3) h one show ?case by (auto split: prod.splits)
qed simp

lemma batch_read: "e \<in> set (next_batch s) \<Longrightarrow> read_earlier s e"
  by (auto simp: next_batch_def read_earlier_def dest!: in_set_takeD)

lemma outbox_step_inv:
  assumes q: "dedupes add jobs" "keeps_jobs logw jobs"
  shows "outbox_step add logw message (s, w) (t, w') \<Longrightarrow> outbox_inv jobs s w \<Longrightarrow>
     outbox_inv jobs t w' \<and> set (jobs w) \<subseteq> set (jobs w') \<and> job_of ` set (outboxEvents s) \<subseteq> job_of ` set (outboxEvents t)"
proof (induction "(s, w)" "(t, w')" rule: outbox_step.induct)
  case (published es)
  then show ?case by (auto simp: outbox_inv_def)
next
  case (polled now n)
  then show ?case using hand_over_all_inv [OF q, of s w "next_batch s" message now t w'] batch_read job_set_eq [of t s]
    by (auto simp: pollOutboxOnce_def Let_def)
next
  case (overlapped e now)
  then show ?case using hand_over_inv [OF q, of s w e message now t w'] job_set_eq [of t s] by auto
next
  case (interrupted e r)
  then show ?case using add_inv [OF q(1), of s w e r w'] by auto
qed

lemma outbox_steps_inv:
  assumes q: "dedupes add jobs" "keeps_jobs logw jobs"
  shows "(outbox_step add logw message)\<^sup>*\<^sup>* (s, w) (t, w') \<Longrightarrow> outbox_inv jobs s w \<Longrightarrow>
     outbox_inv jobs t w' \<and> set (jobs w) \<subseteq> set (jobs w') \<and> job_of ` set (outboxEvents s) \<subseteq> job_of ` set (outboxEvents t)"
proof (induction rule: rtranclp_induct2)
  case (step t1 w1 t2 w2)
  then show ?case using outbox_step_inv [OF q, of message t1 w1 t2 w2] by blast
qed simp

text \<open>C23: the outbox delivers each event to the job queue at most once, and with its own content:
  whatever polls run, overlap or are cut off between the queue and the database, and whatever the queue
  answers, no event is lost from the outbox, no event has two jobs, every job carries the content of its
  event, and an event is marked processed only when its job is in the queue.\<close>
theorem outbox_hands_over_once:
  assumes queue: "dedupes add jobs" "keeps_jobs logw jobs"
    and start: "distinct (map obx_id (outboxEvents s))" "\<forall>e\<in>set (outboxEvents s). obx_processedAt e = None" "jobs w = []"
    and steps: "(outbox_step add logw message)\<^sup>*\<^sup>* (s, w) (t, w')"
  shows "job_of ` set (outboxEvents s) \<subseteq> job_of ` set (outboxEvents t) \<and> distinct (map fst (jobs w')) \<and>
     (\<forall>j\<in>set (jobs w'). \<exists>e\<in>set (outboxEvents t). j = (obx_id e, job_of e)) \<and>
     (\<forall>e\<in>set (outboxEvents t). obx_processedAt e \<noteq> None \<longrightarrow> (obx_id e, job_of e) \<in> set (jobs w'))"
proof -
  have "outbox_inv jobs s w" using start by (simp add: outbox_inv_def)
  then have i: "outbox_inv jobs t w'" "job_of ` set (outboxEvents s) \<subseteq> job_of ` set (outboxEvents t)"
    using outbox_steps_inv [OF queue steps] by blast+
  have j: "\<exists>e\<in>set (outboxEvents t). j = (obx_id e, job_of e)" if "j \<in> set (jobs w')" for j
    using i(1) that unfolding outbox_inv_def by (metis imageE job_of_id(1) prod.collapse)
  have "(obx_id e, job_of e) \<in> set (jobs w')" if e: "e \<in> set (outboxEvents t)" "obx_processedAt e \<noteq> None" for e
  proof -
    obtain k where k: "k \<in> set (jobs w')" "fst k = obx_id e" using marked_has_job [OF i(1) e] by fastforce
    then obtain e' where e': "e' \<in> set (outboxEvents t)" "k = (obx_id e', job_of e')" using j by blast
    then have "e' = e" using k(2) e(1) i(1) by (auto simp: outbox_inv_def distinct_map dest: inj_onD)
    with k e' show ?thesis by simp
  qed
  with i j show ?thesis by (auto simp: outbox_inv_def)
qed

section \<open>While the queue accepts\<close>

text \<open>\<open>n\<close> polls in a row, at the times \<open>clk\<close> gives.\<close>

fun poll_times ::
  "'w queue_add \<Rightarrow> (string \<Rightarrow> 'w \<Rightarrow> 'w) \<Rightarrow> (error \<Rightarrow> string) \<Rightarrow> (nat \<Rightarrow> int) \<Rightarrow> nat \<Rightarrow> db \<Rightarrow> 'w \<Rightarrow> db \<times> 'w" where
  "poll_times add logw message clk 0 s w = (s, w)"
| "poll_times add logw message clk (Suc n) s w =
     (case pollOutboxOnce add logw message (clk n) s w of (_, s1, w1) \<Rightarrow> poll_times add logw message clk n s1 w1)"

lemma hand_over_all_accepted:
  assumes "\<And>n d opts w. fst (add n d opts w) = Inr ()"
  shows "outboxEvents (fst (hand_over_all add logw message now es s w)) =
     map (\<lambda>r. if obx_id r \<in> obx_id ` set es then r\<lparr>obx_processedAt := Some now\<rparr> else r) (outboxEvents s)"
proof (induction es arbitrary: s w)
  case (Cons e es)
  obtain r w1 where a: "add (obx_eventType e) (job_of e) (job_options_of e) w = (r, w1)" by fastforce
  then have "r = Inr ()" using assms by (metis fst_conv)
  with a have "hand_over add logw message now e s w = (update_event (obx_id e) (\<lambda>r. r\<lparr>obx_processedAt := Some now\<rparr>) s, w1)"
    by (simp add: hand_over_def)
  with Cons show ?case by (auto simp: update_event_def update_where_def)
qed simp

lemma poll_accepted:
  assumes acc: "\<And>n d opts w. fst (add n d opts w) = Inr ()" and d: "distinct (map obx_id (outboxEvents s))"
    and run: "pollOutboxOnce add logw message now s w = (k, t, w')"
  shows "k = min BATCH_SIZE (length (filter pending (outboxEvents s))) \<and>
     length (filter pending (outboxEvents t)) = length (filter pending (outboxEvents s)) - k \<and>
     distinct (map obx_id (outboxEvents t))"
proof -
  let ?P = "filter pending (outboxEvents s)" and ?B = "next_batch s"
  have k: "k = length ?B" and t: "outboxEvents t =
      map (\<lambda>r. if obx_id r \<in> obx_id ` set ?B then r\<lparr>obx_processedAt := Some now\<rparr> else r) (outboxEvents s)"
    using run hand_over_all_accepted [where add = add and logw = logw and message = message and now = now and es = ?B and s = s and w = w, OF acc] by (simp_all add: pollOutboxOnce_def Let_def)
  have len: "length ?B = min BATCH_SIZE (length ?P)" by (simp add: next_batch_def min.commute)
  have dP: "distinct ?P" using d by (simp add: distinct_map)
  have B: "distinct ?B" "set ?B \<subseteq> set ?P" using dP by (auto simp: next_batch_def dest: in_set_takeD)
  have "filter pending (map (\<lambda>r. if obx_id r \<in> obx_id ` set ?B then r\<lparr>obx_processedAt := Some now\<rparr> else r) xs) =
      filter (\<lambda>r. obx_id r \<notin> obx_id ` set ?B) (filter pending xs)" for xs
    by (induction xs) (auto simp: pending_def)
  then have "filter pending (outboxEvents t) = filter (\<lambda>r. obx_id r \<notin> obx_id ` set ?B) ?P" using t by simp
  also have "\<dots> = filter (\<lambda>r. r \<notin> set ?B) ?P"
  proof (rule filter_cong [OF refl])
    fix r assume "r \<in> set ?P"
    then show "(obx_id r \<notin> obx_id ` set ?B) = (r \<notin> set ?B)"
      using B(2) d by (auto simp: distinct_map dest: inj_onD)
  qed
  finally have "length (filter pending (outboxEvents t)) = card (set ?P - set ?B)"
    using distinct_card [OF distinct_filter [OF dP, of "\<lambda>r. r \<notin> set ?B"]] by (simp add: set_diff_eq)
  also have "\<dots> = length ?P - length ?B"
    using B(2) card_Diff_subset [of "set ?B" "set ?P"] distinct_card [OF dP] distinct_card [OF B(1)]
    by (simp only: finite_set)
  finally have "length (filter pending (outboxEvents t)) = length ?P - k" using k by simp
  moreover have "map obx_id (outboxEvents t) = map obx_id (outboxEvents s)" unfolding t by simp
  ultimately show ?thesis using k len d by simp
qed


section \<open>The mail of an invitation\<close>

text \<open>the mail of an invitation reaches the invited address and no other: inviting leaves one new
  event in the outbox, and its job, whatever a poller read it, sends exactly one mail, to the invited
  address, whose text has the link with the token of this invitation.\<close>
theorem invitation_mail_reaches_invitee:
  assumes invited: "inviteUser E now ten inviter input s = (Inr i, s1)"
  shows "\<exists>e m. outboxEvents s1 = outboxEvents s @ [e] \<and>
     handleNotification N (job_of e) s1 w = send_logged N (''invitation email to '' @ ii_email input) m w \<and>
     em_to m = ii_email input \<and>
     (\<exists>before after. em_text m = before @ ns_APP_URL N @ ''/accept-invite?token='' @ ivt_token i @ after)"
proof -
  have fresh: "\<not> taken ivt_token (ivt_token i) (invitations s)" and new: "invitations s1 = invitations s @ [i]"
    and mailed: "ivt_email i = ii_email input"
    and e: "\<exists>e. outboxEvents s1 = outboxEvents s @ [e] \<and> obx_eventType e = ''invitation.created'' \<and>
      obx_payload e = JObj [(''tenantId'', JStr ten), (''email'', JStr (ii_email input)), (''token'', JStr (ivt_token i))]"
    using invited by (auto simp: inviteUser_def Let_def publish_def split: option.splits if_splits)
  obtain e where e: "outboxEvents s1 = outboxEvents s @ [e]" "obx_eventType e = ''invitation.created''"
    "obx_payload e = JObj [(''tenantId'', JStr ten), (''email'', JStr (ii_email input)), (''token'', JStr (ivt_token i))]"
    using e by blast
  have "List.find (\<lambda>x. ivt_token x = ivt_token i) (invitations s1) = Some i"
    using fresh new by (auto simp: taken_iff dest: find_SomeD split: option.split)
  then have "handleNotification N (job_of e) s1 w =
      send_logged N (''invitation email to '' @ ii_email input) (invitation_mail (ns_APP_URL N) s1 i) w"
    using e mailed by (simp add: handleNotification_def job_of_def payload_key_def js_string_field_def js_field_def)
  moreover have "em_to (invitation_mail (ns_APP_URL N) s1 i) = ii_email input" using mailed
    by (simp add: invitation_mail_def mail_def)
  moreover have "\<exists>before after. em_text (invitation_mail (ns_APP_URL N) s1 i) =
      before @ ns_APP_URL N @ ''/accept-invite?token='' @ ivt_token i @ after"
    unfolding invitation_mail_def mail_def by (intro exI) (simp only: send_email_input.simps append_assoc)
  ultimately show ?thesis using e(1) by blast
qed

section \<open>A concrete queue\<close>

text \<open>A queue that keeps the jobs it was given and drops a known identifier.\<close>

definition demo_add :: "(string \<times> job_data) list queue_add" where
  "demo_add n d opts w = (Inr (), if jo_jobId opts \<in> fst ` set w then w else w @ [(jo_jobId opts, d)])"

definition demo_event :: "string \<Rightarrow> outbox_event" where
  "demo_event i = \<lparr>obx_id = i, obx_aggregateType = ''Sale'', obx_aggregateId = ''s1'', obx_eventType = ''sale.created'',
     obx_payload = JNull, obx_createdAt = 5, obx_processedAt = None, obx_attempts = 0, obx_lastError = None\<rparr>"

definition demo_outbox :: db where
  "demo_outbox = empty_db\<lparr>outboxEvents := [demo_event ''e1'', demo_event ''e2'']\<rparr>"

lemma demo_queue: "dedupes demo_add id" "keeps_jobs (\<lambda>m w. w) id"
  by (auto simp: dedupes_def keeps_jobs_def demo_add_def)

lemma demo_outbox_rows: "outboxEvents demo_outbox = [demo_event ''e1'', demo_event ''e2'']"
  by (simp add: demo_outbox_def)

lemma demo_outbox_start: "distinct (map obx_id (outboxEvents demo_outbox))" "\<forall>e\<in>set (outboxEvents demo_outbox). obx_processedAt e = None"
  by (simp_all add: demo_outbox_rows demo_event_def)

theorem outbox_hands_over_once_witness:
  "\<exists>n t jobs. pollOutboxOnce demo_add (\<lambda>m w. w) (\<lambda>e. []) 9 demo_outbox [] = (n, t, jobs) \<and> distinct (map fst jobs) \<and>
     (\<forall>e\<in>set (outboxEvents t). obx_processedAt e \<noteq> None \<longrightarrow> (obx_id e, job_of e) \<in> set jobs)"
proof -
  obtain n t jobs where p: "pollOutboxOnce demo_add (\<lambda>m w. w) (\<lambda>e. []) 9 demo_outbox [] = (n, t, jobs)" by (metis prod.exhaust)
  then have "(outbox_step demo_add (\<lambda>m w. w) (\<lambda>e. []))\<^sup>*\<^sup>* (demo_outbox, []) (t, jobs)"
    by (intro r_into_rtranclp outbox_step.polled)
  from outbox_hands_over_once [OF demo_queue demo_outbox_start _ this] p show ?thesis by simp
qed


definition demo_invite_db :: db where
  "demo_invite_db = empty_db\<lparr>roles := [\<lparr>rol_id = ''r1'', rol_tenantId = None, rol_key = ''cashier'', rol_name = ''Cashier'',
     rol_isSystem = True, rol_permissions = []\<rparr>]\<rparr>"

theorem invitation_mail_reaches_invitee_witness:
  "\<exists>i s1 e m. inviteUser exact_env 0 ''t1'' ''u1'' \<lparr>ii_email = ''a@x.test'', ii_roleKey = ''cashier'', ii_branchScope = []\<rparr> demo_invite_db =
       (Inr i, s1) \<and> outboxEvents s1 = [e] \<and> em_to m = ''a@x.test'' \<and>
     handleNotification \<lparr>ns_APP_URL = ''https://pos.test'', ns_json = \<lparr>js_stringify = (\<lambda>_. []), js_parse = (\<lambda>_. None)\<rparr>,
         ns_email = (\<lambda>x sent. (Inl (ServerError ''offline''), sent @ [x])), ns_log = (\<lambda>_ sent. sent)\<rparr> (job_of e) s1 [] =
       (Inl (ServerError ''offline''), [m])"
proof -
  let ?N = "\<lparr>ns_APP_URL = ''https://pos.test'', ns_json = \<lparr>js_stringify = (\<lambda>_. []), js_parse = (\<lambda>_. None)\<rparr>,
     ns_email = (\<lambda>x sent. (Inl (ServerError ''offline''), sent @ [x])), ns_log = (\<lambda>_ sent. sent)\<rparr> :: send_email_input list notify_server"
  obtain i s1 where i: "inviteUser exact_env 0 ''t1'' ''u1'' \<lparr>ii_email = ''a@x.test'', ii_roleKey = ''cashier'', ii_branchScope = []\<rparr> demo_invite_db = (Inr i, s1)"
    by (simp add: inviteUser_def demo_invite_db_def empty_db_def Let_def)
  obtain e m where e: "outboxEvents s1 = outboxEvents demo_invite_db @ [e]" "em_to m = ''a@x.test''"
    "handleNotification ?N (job_of e) s1 [] = send_logged ?N (''invitation email to '' @ ''a@x.test'') m []"
    using invitation_mail_reaches_invitee [OF i, of ?N "[]"] by auto
  then show ?thesis using i by (auto simp: send_logged_def demo_invite_db_def empty_db_def)
qed

end
