(* ===== verification/Back_Office.thy ===== *)
theory Back_Office
  imports Onboarding Inventory "HOL-Library.List_Lexorder" "HOL-Library.Char_ord"
begin

text \<open>
  The services behind the back-office pages: \<open>catalog.service.ts\<close>, \<open>customers.service.ts\<close>,
  \<open>expenses.service.ts\<close>, \<open>branches.controller.ts\<close> and \<open>admin.controller.ts\<close>. A field of an update that is
  \<open>undefined\<close> leaves its column alone; a search looks for a substring, ASCII letters compared without case.
  The images, addresses and loyalty rows the reads include are left out.
\<close>

definition keep :: "'a option \<Rightarrow> 'a \<Rightarrow> 'a" where
  "keep x old = (case x of Some y \<Rightarrow> y | None \<Rightarrow> old)"

text \<open>The same for a nullable column.\<close>

definition keep_opt :: "'a option \<Rightarrow> 'a option \<Rightarrow> 'a option" where
  "keep_opt x old = (case x of Some y \<Rightarrow> Some y | None \<Rightarrow> old)"

definition matches :: "'a option \<Rightarrow> 'a \<Rightarrow> bool" where
  "matches x y \<longleftrightarrow> (case x of None \<Rightarrow> True | Some z \<Rightarrow> y = z)"

fun has_prefix :: "string \<Rightarrow> string \<Rightarrow> bool" where
  "has_prefix [] s = True"
| "has_prefix (c # p) [] = False"
| "has_prefix (c # p) (d # s) = (c = d \<and> has_prefix p s)"

fun has_substring :: "string \<Rightarrow> string \<Rightarrow> bool" where
  "has_substring p [] = (p = [])"
| "has_substring p (c # s) = (has_prefix p (c # s) \<or> has_substring p s)"

definition contains_insensitive :: "string \<Rightarrow> string \<Rightarrow> bool" where
  "contains_insensitive needle s = has_substring (toUpperCase needle) (toUpperCase s)"

definition searched :: "string option \<Rightarrow> string list \<Rightarrow> bool" where
  "searched search cols \<longleftrightarrow> (case search of Some (c # cs) \<Rightarrow> list_ex (contains_insensitive (c # cs)) cols | _ \<Rightarrow> True)"

definition newest_first :: "('r \<Rightarrow> int) \<Rightarrow> 'r list \<Rightarrow> 'r list" where
  "newest_first created rows = sort_key (\<lambda>r. - created r) rows"

section \<open>Catalog\<close>

record variant_input =
  vin_sku :: string
  vin_barcode :: "string option"
  vin_attributes :: "(string \<times> string) list"
  vin_costPrice :: rat
  vin_retailPrice :: rat
  vin_wholesalePrice :: "rat option"
  vin_taxClassId :: "string option"
  vin_reorderPoint :: int
  vin_reorderBuffer :: int

record product_input =
  pin_name :: string
  pin_description :: "string option"
  pin_brand :: "string option"
  pin_categoryId :: "string option"
  pin_unitOfMeasure :: string
  pin_variants :: "variant_input list"

record product_update =
  pup_name :: "string option"
  pup_description :: "string option"
  pup_brand :: "string option"
  pup_categoryId :: "string option"
  pup_unitOfMeasure :: "string option"
  pup_status :: "product_status option"

record products_query =
  pqy_search :: "string option"
  pqy_categoryId :: "string option"
  pqy_status :: "product_status option"
  pqy_stockStatus :: "stock_status option"
  pqy_branchId :: "string option"
  pqy_page :: nat
  pqy_pageSize :: nat

definition getVariantQrCode :: "(string \<Rightarrow> string) \<Rightarrow> string \<Rightarrow> string \<Rightarrow> db \<Rightarrow> error + string \<times> string" where
  "getVariantQrCode toDataUrl tenantId variantId s =
     bindE (someE (List.find (\<lambda>v. var_id v = variantId \<and> var_tenantId v = tenantId) (productVariants s))
              (NotFound ''Product variant not found'')) (\<lambda>v. Inr (toDataUrl (var_sku v), var_sku v))"

definition referenced :: "('r \<Rightarrow> string) \<Rightarrow> string option \<Rightarrow> 'r list \<Rightarrow> bool" where
  "referenced key k rows \<longleftrightarrow> (case k of None \<Rightarrow> True | Some i \<Rightarrow> taken key i rows)"

definition new_variant :: "env \<Rightarrow> nat \<Rightarrow> string \<Rightarrow> string \<Rightarrow> variant_input \<Rightarrow> variant" where
  "new_variant E n tenantId productId v = \<lparr>var_id = uuid E n, var_tenantId = tenantId, var_productId = productId,
     var_sku = vin_sku v, var_barcode = vin_barcode v, var_attributes = vin_attributes v,
     var_costPrice = dec_col E (vin_costPrice v), var_retailPrice = dec_col E (vin_retailPrice v),
     var_wholesalePrice = map_option (dec_col E) (vin_wholesalePrice v), var_taxClassId = vin_taxClassId v,
     var_reorderPoint = vin_reorderPoint v, var_reorderBuffer = vin_reorderBuffer v, var_status = ProdACTIVE\<rparr>"

definition insert_variant :: "env \<Rightarrow> string \<Rightarrow> string \<Rightarrow> variant_input \<Rightarrow> db \<Rightarrow> error + db" where
  "insert_variant E tenantId productId v s =
     bindE (guardE (column_range (vin_costPrice v) \<and> column_range (vin_retailPrice v) \<and>
              (case vin_wholesalePrice v of None \<Rightarrow> True | Some x \<Rightarrow> column_range x)) (ServerError ''numeric field overflow'')) (\<lambda>_.
     bindE (guardE (referenced tax_id (vin_taxClassId v) (taxClasses s)) (ForeignKeyViolation ''ProductVariant_taxClassId_fkey'')) (\<lambda>_.
     bindE (guardE (\<not> list_ex (\<lambda>x. var_tenantId x = tenantId \<and> var_sku x = vin_sku v) (productVariants s))
              (UniqueViolation ''tenantId,sku'')) (\<lambda>_.
     Inr (s\<lparr>productVariants := productVariants s @ [new_variant E (seq s) tenantId productId v], seq := Suc (seq s)\<rparr>))))"

definition create_product_tx :: "env \<Rightarrow> int \<Rightarrow> string \<Rightarrow> string \<Rightarrow> product_input \<Rightarrow> db \<Rightarrow> error + (product \<times> db)" where
  "create_product_tx E now tenantId actorUserId input s =
     (let p = \<lparr>prd_id = uuid E (seq s), prd_tenantId = tenantId, prd_name = pin_name input, prd_description = pin_description input,
            prd_brand = pin_brand input, prd_categoryId = pin_categoryId input, prd_unitOfMeasure = pin_unitOfMeasure input,
            prd_status = ProdACTIVE, prd_createdAt = now\<rparr>
      in bindE (guardE (referenced cat_id (pin_categoryId input) (categories s)) (ForeignKeyViolation ''Product_categoryId_fkey'')) (\<lambda>_.
         bindE (foldE (insert_variant E tenantId (prd_id p)) (pin_variants input)
                  (s\<lparr>products := products s @ [p], seq := Suc (seq s)\<rparr>)) (\<lambda>s1.
         Inr (p, audit_record E (audit_in (Some tenantId) (Some actorUserId) ''products.created'' ''Product'' (prd_id p) None) s1))))"

definition createProduct ::
  "env \<Rightarrow> int \<Rightarrow> string \<Rightarrow> string \<Rightarrow> product_input \<Rightarrow> db \<Rightarrow> (error + product) \<times> db" where
  "createProduct E now tenantId actorUserId input s =
     (let existing = filter (\<lambda>v. var_tenantId v = tenantId \<and> var_sku v \<in> set (map vin_sku (pin_variants input))) (productVariants s)
      in if existing \<noteq> [] then (Inl (NotFound (''SKU(s) already in use: '' @ join '', '' (map var_sku existing))), s)
         else run_tx (create_product_tx E now tenantId actorUserId input) s)"

definition updateProduct ::
  "env \<Rightarrow> string \<Rightarrow> string \<Rightarrow> string \<Rightarrow> product_update \<Rightarrow> db \<Rightarrow> (error + unit) \<times> db" where
  "updateProduct E tenantId actorUserId productId input s =
     (if \<not> list_ex (\<lambda>p. prd_id p = productId \<and> prd_tenantId p = tenantId) (products s)
      then (Inl (NotFound ''Product not found''), s)
      else if \<not> referenced cat_id (pup_categoryId input) (categories s)
      then (Inl (ForeignKeyViolation ''Product_categoryId_fkey''), s)
      else (Inr (), audit_record E (audit_in (Some tenantId) (Some actorUserId) ''products.updated'' ''Product'' productId None)
             (s\<lparr>products := update_where (\<lambda>p. prd_id p = productId)
                (\<lambda>p. p\<lparr>prd_name := keep (pup_name input) (prd_name p),
                      prd_description := keep_opt (pup_description input) (prd_description p),
                      prd_brand := keep_opt (pup_brand input) (prd_brand p),
                      prd_categoryId := keep_opt (pup_categoryId input) (prd_categoryId p),
                      prd_unitOfMeasure := keep (pup_unitOfMeasure input) (prd_unitOfMeasure p),
                      prd_status := keep (pup_status input) (prd_status p)\<rparr>) (products s)\<rparr>)))"

record variant_view =
  vvw_variant :: variant
  vvw_availableQuantity :: int
  vvw_stockStatus :: stock_status

record product_view =
  pvw_product :: product
  pvw_variants :: "variant_view list"

definition variants_of :: "db \<Rightarrow> product \<Rightarrow> variant list" where
  "variants_of s p = filter (\<lambda>v. var_productId v = prd_id p) (productVariants s)"

text \<open>The stock of a variant, at the locations of the branch when one is named.\<close>

definition available_at :: "db \<Rightarrow> string \<Rightarrow> string option \<Rightarrow> variant \<Rightarrow> int" where
  "available_at s tenantId branchId v =
     sum_list (map bal_quantity (filter (\<lambda>b. bal_variantId b = var_id v \<and>
       (case branchId of
          Some (c # cs) \<Rightarrow> list_ex (\<lambda>l. loc_id l = bal_stockLocationId b \<and> loc_tenantId l = tenantId \<and> loc_branchId l = c # cs) (stockLocations s)
        | _ \<Rightarrow> True)) (inventoryBalances s)))"

definition view_variant :: "db \<Rightarrow> string \<Rightarrow> string option \<Rightarrow> variant \<Rightarrow> variant_view" where
  "view_variant s tenantId branchId v =
     (let q = available_at s tenantId branchId v
      in \<lparr>vvw_variant = v, vvw_availableQuantity = q, vvw_stockStatus = computeStockStatus q (var_reorderPoint v) (var_reorderBuffer v)\<rparr>)"

definition listProducts :: "string \<Rightarrow> products_query \<Rightarrow> db \<Rightarrow> product_view list" where
  "listProducts tenantId query s =
     (let found = page_of (pqy_page query) (pqy_pageSize query)
            (newest_first prd_createdAt (filter (\<lambda>p. prd_tenantId p = tenantId \<and> matches (pqy_status query) (prd_status p) \<and>
               (case pqy_categoryId query of None \<Rightarrow> True | Some c \<Rightarrow> prd_categoryId p = Some c) \<and>
               searched (pqy_search query) [prd_name p]) (products s)));
          enriched = map (\<lambda>p. \<lparr>pvw_product = p, pvw_variants = map (view_variant s tenantId (pqy_branchId query)) (variants_of s p)\<rparr>) found
      in case pqy_stockStatus query of
           None \<Rightarrow> enriched
         | Some st \<Rightarrow> filter (\<lambda>p. list_ex (\<lambda>v. vvw_stockStatus v = st) (pvw_variants p)) enriched)"

definition getProduct :: "string \<Rightarrow> string \<Rightarrow> db \<Rightarrow> error + product \<times> variant list" where
  "getProduct tenantId productId s =
     bindE (someE (List.find (\<lambda>p. prd_id p = productId \<and> prd_tenantId p = tenantId) (products s)) (NotFound ''Product not found''))
       (\<lambda>p. Inr (p, variants_of s p))"

section \<open>Customers\<close>

record customer_input =
  cin_name :: string
  cin_company :: "string option"
  cin_email :: "string option"
  cin_phone :: "string option"
  cin_birthday :: "int option"
  cin_taxId :: "string option"
  cin_notes :: "string option"
  cin_creditLimit :: rat
  cin_paymentTermsDays :: int
  cin_tags :: "string list"
  cin_consentMarketing :: bool

record customer_update =
  cup_name :: "string option"
  cup_company :: "string option"
  cup_email :: "string option"
  cup_phone :: "string option"
  cup_birthday :: "int option"
  cup_taxId :: "string option"
  cup_notes :: "string option"
  cup_creditLimit :: "rat option"
  cup_paymentTermsDays :: "int option"
  cup_tags :: "string list option"
  cup_consentMarketing :: "bool option"
  cup_status :: "customer_status option"

record customers_query =
  cqy_search :: "string option"
  cqy_tag :: "string option"
  cqy_status :: "customer_status option"
  cqy_page :: nat
  cqy_pageSize :: nat

definition createCustomer ::
  "env \<Rightarrow> int \<Rightarrow> string \<Rightarrow> string \<Rightarrow> customer_input \<Rightarrow> db \<Rightarrow> (error + customer) \<times> db" where
  "createCustomer E now tenantId actorUserId input s =
     (if \<not> column_range (cin_creditLimit input) then (Inl (ServerError ''numeric field overflow''), s)
      else
        let c = \<lparr>cus_id = uuid E (seq s), cus_tenantId = tenantId, cus_name = cin_name input, cus_company = cin_company input,
              cus_email = cin_email input, cus_phone = cin_phone input, cus_birthday = cin_birthday input,
              cus_taxId = cin_taxId input, cus_notes = cin_notes input, cus_creditLimit = dec_col E (cin_creditLimit input),
              cus_balance = 0, cus_paymentTermsDays = cin_paymentTermsDays input, cus_tags = cin_tags input,
              cus_consentMarketing = cin_consentMarketing input, cus_status = CustACTIVE, cus_createdAt = now\<rparr>
        in (Inr c, audit_record E (audit_in (Some tenantId) (Some actorUserId) ''customers.created'' ''Customer'' (cus_id c) None)
              (s\<lparr>customers := customers s @ [c], seq := Suc (seq s)\<rparr>)))"

definition updateCustomer ::
  "env \<Rightarrow> string \<Rightarrow> string \<Rightarrow> string \<Rightarrow> customer_update \<Rightarrow> db \<Rightarrow> (error + unit) \<times> db" where
  "updateCustomer E tenantId actorUserId customerId input s =
     (if \<not> list_ex (\<lambda>c. cus_id c = customerId \<and> cus_tenantId c = tenantId) (customers s)
      then (Inl (NotFound ''Customer not found''), s)
      else if (case cup_creditLimit input of Some x \<Rightarrow> \<not> column_range x | None \<Rightarrow> False)
      then (Inl (ServerError ''numeric field overflow''), s)
      else (Inr (), audit_record E (audit_in (Some tenantId) (Some actorUserId) ''customers.updated'' ''Customer'' customerId None)
             (s\<lparr>customers := update_where (\<lambda>c. cus_id c = customerId)
                (\<lambda>c. c\<lparr>cus_name := keep (cup_name input) (cus_name c), cus_company := keep_opt (cup_company input) (cus_company c),
                      cus_email := keep_opt (cup_email input) (cus_email c), cus_phone := keep_opt (cup_phone input) (cus_phone c),
                      cus_birthday := keep_opt (cup_birthday input) (cus_birthday c),
                      cus_taxId := keep_opt (cup_taxId input) (cus_taxId c), cus_notes := keep_opt (cup_notes input) (cus_notes c),
                      cus_creditLimit := keep (map_option (dec_col E) (cup_creditLimit input)) (cus_creditLimit c),
                      cus_paymentTermsDays := keep (cup_paymentTermsDays input) (cus_paymentTermsDays c),
                      cus_tags := keep (cup_tags input) (cus_tags c),
                      cus_consentMarketing := keep (cup_consentMarketing input) (cus_consentMarketing c),
                      cus_status := keep (cup_status input) (cus_status c)\<rparr>) (customers s)\<rparr>)))"

definition column_texts :: "string option list \<Rightarrow> string list" where
  "column_texts xs = List.map_filter id xs"

definition listCustomers :: "string \<Rightarrow> customers_query \<Rightarrow> db \<Rightarrow> customer list" where
  "listCustomers tenantId query s =
     page_of (cqy_page query) (cqy_pageSize query)
       (newest_first cus_createdAt (filter (\<lambda>c. cus_tenantId c = tenantId \<and> matches (cqy_status query) (cus_status c) \<and>
          (case cqy_tag query of Some (x # xs) \<Rightarrow> x # xs \<in> set (cus_tags c) | _ \<Rightarrow> True) \<and>
          searched (cqy_search query) (cus_name c # column_texts [cus_email c, cus_phone c])) (customers s)))"

record customer_view =
  cvw_customer :: customer
  cvw_sales :: "sale list"
  cvw_invoices :: "invoice list"

definition getCustomer :: "string \<Rightarrow> string \<Rightarrow> db \<Rightarrow> error + customer_view" where
  "getCustomer tenantId customerId s =
     bindE (someE (List.find (\<lambda>c. cus_id c = customerId \<and> cus_tenantId c = tenantId) (customers s)) (NotFound ''Customer not found''))
       (\<lambda>c. Inr \<lparr>cvw_customer = c,
          cvw_sales = take 20 (newest_first sale_createdAt (filter (\<lambda>x. sale_tenantId x = tenantId \<and> sale_customerId x = Some customerId) (sales s))),
          cvw_invoices = take 20 (newest_first inv_createdAt (filter (\<lambda>x. inv_tenantId x = tenantId \<and> inv_customerId x = customerId) (invoices s)))\<rparr>)"

section \<open>Expenses\<close>

record expense_input =
  ein_branchId :: string
  ein_categoryId :: string
  ein_vendor :: "string option"
  ein_amount :: rat
  ein_taxAmount :: rat
  ein_date :: int
  ein_paymentAccount :: "string option"
  ein_notes :: "string option"
  ein_receiptUrl :: "string option"

record expenses_query =
  eqy_branchId :: "string option"
  eqy_categoryId :: "string option"
  eqy_from :: "int option"
  eqy_to :: "int option"
  eqy_page :: nat
  eqy_pageSize :: nat

definition createExpense :: "env \<Rightarrow> string \<Rightarrow> string \<Rightarrow> expense_input \<Rightarrow> db \<Rightarrow> (error + expense) \<times> db" where
  "createExpense E tenantId actorUserId input s =
     (if \<not> list_ex (\<lambda>b. br_id b = ein_branchId input \<and> br_tenantId b = tenantId) (branches s)
      then (Inl (NotFound ''Branch not found''), s)
      else if \<not> list_ex (\<lambda>c. ec_id c = ein_categoryId input \<and> ec_tenantId c = tenantId) (expenseCategories s)
      then (Inl (NotFound ''Expense category not found''), s)
      else if \<not> column_range (ein_amount input) \<or> \<not> column_range (ein_taxAmount input)
      then (Inl (ServerError ''numeric field overflow''), s)
      else
        let x = \<lparr>exp_id = uuid E (seq s), exp_tenantId = tenantId, exp_branchId = ein_branchId input,
              exp_categoryId = ein_categoryId input, exp_vendor = ein_vendor input, exp_amount = dec_col E (ein_amount input),
              exp_taxAmount = dec_col E (ein_taxAmount input), exp_date = ein_date input,
              exp_paymentAccount = ein_paymentAccount input, exp_notes = ein_notes input,
              exp_receiptUrl = ein_receiptUrl input, exp_createdByUserId = actorUserId\<rparr>
        in (Inr x, audit_record E (audit_in (Some tenantId) (Some actorUserId) ''expenses.created'' ''Expense'' (exp_id x) None)
              (s\<lparr>expenses := expenses s @ [x], seq := Suc (seq s)\<rparr>)))"

definition listExpenses :: "string \<Rightarrow> expenses_query \<Rightarrow> db \<Rightarrow> expense list" where
  "listExpenses tenantId query s =
     page_of (eqy_page query) (eqy_pageSize query)
       (newest_first exp_date (filter (\<lambda>x. exp_tenantId x = tenantId \<and> matches (eqy_branchId query) (exp_branchId x) \<and>
          matches (eqy_categoryId query) (exp_categoryId x) \<and>
          (case eqy_from query of None \<Rightarrow> True | Some t \<Rightarrow> t \<le> exp_date x) \<and>
          (case eqy_to query of None \<Rightarrow> True | Some t \<Rightarrow> exp_date x \<le> t)) (expenses s)))"

definition listCategories :: "string \<Rightarrow> db \<Rightarrow> expense_category list" where
  "listCategories tenantId s =
     sort_key ec_name (filter (\<lambda>c. ec_tenantId c = tenantId) (expenseCategories s))"

definition createCategory :: "env \<Rightarrow> string \<Rightarrow> string \<Rightarrow> db \<Rightarrow> (error + expense_category) \<times> db" where
  "createCategory E tenantId name s =
     (if list_ex (\<lambda>c. ec_tenantId c = tenantId \<and> ec_name c = name) (expenseCategories s)
      then (Inl (UniqueViolation ''tenantId,name''), s)
      else let c = \<lparr>ec_id = uuid E (seq s), ec_tenantId = tenantId, ec_name = name\<rparr>
           in (Inr c, s\<lparr>expenseCategories := expenseCategories s @ [c], seq := Suc (seq s)\<rparr>))"

section \<open>Branches\<close>

record branch_input =
  bin_name :: string
  bin_address :: "string option"
  bin_timezone :: string
  bin_currency :: string

definition listBranches :: "string \<Rightarrow> db \<Rightarrow> (branch \<times> stock_location list \<times> register list) list" where
  "listBranches tenantId s =
     map (\<lambda>b. (b, filter (\<lambda>l. loc_branchId l = br_id b) (stockLocations s), filter (\<lambda>r. reg_branchId r = br_id b) (registers s)))
       (sort_key br_createdAt (filter (\<lambda>b. br_tenantId b = tenantId) (branches s)))"

definition new_branch :: "env \<Rightarrow> nat \<Rightarrow> int \<Rightarrow> string \<Rightarrow> branch_input \<Rightarrow> branch" where
  "new_branch E n now tenantId input = \<lparr>br_id = uuid E n, br_tenantId = tenantId, br_name = bin_name input,
     br_address = bin_address input, br_timezone = bin_timezone input, br_currency = bin_currency input,
     br_isActive = True, br_isBillable = True, br_archivedAt = None, br_createdAt = now\<rparr>"

definition create_branch_rows :: "env \<Rightarrow> int \<Rightarrow> string \<Rightarrow> string \<Rightarrow> branch_input \<Rightarrow> db \<Rightarrow> db" where
  "create_branch_rows E now tenantId actorUserId input s =
     (let n = seq s; b = new_branch E n now tenantId input
      in audit_record E (audit_in (Some tenantId) (Some actorUserId) ''branches.created'' ''Branch'' (br_id b) None)
           (s\<lparr>branches := branches s @ [b], stockLocations := stockLocations s @ [main_stock E (n + 1) b],
             registers := registers s @ [first_register E (n + 2) b], seq := n + 3\<rparr>))"

text \<open>The transaction commits before the entitlements are recomputed, so a failure there leaves the branch.\<close>

definition createBranch ::
  "env \<Rightarrow> 'w billing_provider \<Rightarrow> int \<Rightarrow> string \<Rightarrow> string \<Rightarrow> branch_input \<Rightarrow> db \<Rightarrow> 'w
    \<Rightarrow> (error + branch \<times> billing_preview) \<times> db \<times> 'w" where
  "createBranch E B now tenantId actorUserId input s w =
     (let b = new_branch E (seq s) now tenantId input
      in case recomputeSubscriptionItems E B tenantId (create_branch_rows E now tenantId actorUserId input s) w of
           (Inl e, s1, w1) \<Rightarrow> (Inl e, s1, w1)
         | (Inr preview, s1, w1) \<Rightarrow> (Inr (b, preview), s1, w1))"

definition archiveBranch ::
  "env \<Rightarrow> 'w billing_provider \<Rightarrow> int \<Rightarrow> string \<Rightarrow> string \<Rightarrow> string \<Rightarrow> db \<Rightarrow> 'w
    \<Rightarrow> (error + branch \<times> billing_preview) \<times> db \<times> 'w" where
  "archiveBranch E B now tenantId actorUserId bid s w =
     (if count_where (\<lambda>b. br_id b = bid \<and> br_tenantId b = tenantId) (branches s) = 0
      then (Inl (NotFound ''Branch not found''), s, w)
      else
        let s1 = s\<lparr>branches := update_where (\<lambda>b. br_id b = bid \<and> br_tenantId b = tenantId)
                    (\<lambda>b. b\<lparr>br_isActive := False, br_archivedAt := Some now\<rparr>) (branches s)\<rparr>
        in case List.find (\<lambda>b. br_id b = bid) (branches s1) of
             None \<Rightarrow> (Inl (RecordNotFound ''Branch''), s1, w)
           | Some b \<Rightarrow>
               (case recomputeSubscriptionItems E B tenantId
                   (audit_record E (audit_in (Some tenantId) (Some actorUserId) ''branches.archived'' ''Branch'' bid None) s1) w of
                  (Inl e, s2, w1) \<Rightarrow> (Inl e, s2, w1)
                | (Inr preview, s2, w1) \<Rightarrow> (Inr (b, preview), s2, w1)))"

section \<open>Platform administration\<close>

record pricing_update =
  pru_unitPriceUsdCents :: "int option"
  pru_isActive :: "bool option"
  pru_name :: "string option"

record addon_input =
  ain_key :: string
  ain_name :: string
  ain_unitPriceUsdCents :: int

text \<open>The newest first: tenants are rows in the order of their creation.\<close>

definition searchTenants :: "string option \<Rightarrow> db \<Rightarrow> (tenant \<times> subscription option \<times> nat \<times> nat) list" where
  "searchTenants search s =
     map (\<lambda>t. (t, List.find (\<lambda>x. sub_tenantId x = ten_id t) (subscriptions s),
           count_where (\<lambda>b. br_tenantId b = ten_id t) (branches s), count_where (\<lambda>m. mem_tenantId m = ten_id t) (memberships s)))
       (take 50 (rev (filter (\<lambda>t. searched search [ten_displayName t, ten_legalName t]) (tenants s))))"

record tenant_view =
  tvw_tenant :: tenant
  tvw_subscription :: "(subscription \<times> subscription_item list) option"
  tvw_branches :: "branch list"
  tvw_memberships :: "membership list"

definition getTenant :: "string \<Rightarrow> db \<Rightarrow> error + tenant_view" where
  "getTenant i s =
     bindE (someE (List.find (\<lambda>t. ten_id t = i) (tenants s)) (RecordNotFound ''Tenant'')) (\<lambda>t.
     Inr \<lparr>tvw_tenant = t,
          tvw_subscription = map_option (\<lambda>x. (x, filter (\<lambda>r. sit_subscriptionId r = sub_id x) (subscriptionItems s)))
            (List.find (\<lambda>x. sub_tenantId x = i) (subscriptions s)),
          tvw_branches = filter (\<lambda>b. br_tenantId b = i) (branches s),
          tvw_memberships = filter (\<lambda>m. mem_tenantId m = i) (memberships s)\<rparr>)"

record platform_metrics =
  pm_activeTenants :: nat
  pm_trialingTenants :: nat
  pm_activeUsers :: nat
  pm_activeBranches :: nat
  pm_mrrUsd :: string

definition mrr_cents :: "db \<Rightarrow> int" where
  "mrr_cents s =
     sum_list (map (\<lambda>x. sum_list (map (\<lambda>i. sit_unitPriceUsdCentsSnapshot i * sit_quantity i)
         (filter (\<lambda>i. sit_subscriptionId i = sub_id x) (subscriptionItems s))))
       (filter (\<lambda>x. sub_status x \<in> {SubACTIVE, SubTRIALING}) (subscriptions s)))"

definition metrics :: "db \<Rightarrow> platform_metrics" where
  "metrics s =
     \<lparr>pm_activeTenants = count_where (\<lambda>t. ten_status t = TenantACTIVE) (tenants s),
      pm_trialingTenants = count_where (\<lambda>t. ten_status t = TenantTRIALING) (tenants s),
      pm_activeUsers = count_where (\<lambda>m. mem_status m = MemACTIVE \<and> mem_isBillableUser m) (memberships s),
      pm_activeBranches = count_where br_isActive (branches s),
      pm_mrrUsd = js_toFixed 2 (of_int (mrr_cents s) / 100)\<rparr>"

fun kind_rank :: "pricing_item_kind \<Rightarrow> nat" where
  "kind_rank BASE = 0"
| "kind_rank BRANCH = 1"
| "kind_rank USER = 2"
| "kind_rank ADDON = 3"

definition listPricingCatalog :: "db \<Rightarrow> pricing_item list" where
  "listPricingCatalog s = sort_key (\<lambda>p. kind_rank (pri_kind p)) (pricingCatalogItems s)"

definition json_opt :: "string \<Rightarrow> ('a \<Rightarrow> json) \<Rightarrow> 'a option \<Rightarrow> (string \<times> json) list" where
  "json_opt k f x = (case x of None \<Rightarrow> [] | Some y \<Rightarrow> [(k, f y)])"

definition updatePricingItem :: "env \<Rightarrow> string \<Rightarrow> string \<Rightarrow> pricing_update \<Rightarrow> db \<Rightarrow> (error + unit) \<times> db" where
  "updatePricingItem E adminId i input s =
     (if \<not> taken pri_id i (pricingCatalogItems s) then (Inl (RecordNotFound ''PricingCatalogItem''), s)
      else (Inr (), audit_record E (audit_in None (Some adminId) ''admin.pricing_catalog_updated'' ''PricingCatalogItem'' i
              (Some (JObj (json_opt ''unitPriceUsdCents'' (\<lambda>x. JNum (of_int x)) (pru_unitPriceUsdCents input) @
                 json_opt ''isActive'' JBool (pru_isActive input) @ json_opt ''name'' JStr (pru_name input)))))
             (s\<lparr>pricingCatalogItems := update_where (\<lambda>p. pri_id p = i)
                (\<lambda>p. p\<lparr>pri_unitPriceUsdCents := keep (pru_unitPriceUsdCents input) (pri_unitPriceUsdCents p),
                      pri_isActive := keep (pru_isActive input) (pri_isActive p),
                      pri_name := keep (pru_name input) (pri_name p), pri_version := pri_version p + 1\<rparr>)
                (pricingCatalogItems s)\<rparr>)))"

definition createAddOn :: "env \<Rightarrow> string \<Rightarrow> addon_input \<Rightarrow> db \<Rightarrow> (error + pricing_item) \<times> db" where
  "createAddOn E adminId input s =
     (if taken pri_key (ain_key input) (pricingCatalogItems s) then (Inl (UniqueViolation ''key''), s)
      else
        let p = \<lparr>pri_id = uuid E (seq s), pri_key = ain_key input, pri_name = ain_name input, pri_kind = ADDON,
              pri_unitPriceUsdCents = ain_unitPriceUsdCents input, pri_version = 1, pri_isActive = True, pri_stripePriceId = None\<rparr>
        in (Inr p, audit_record E (audit_in None (Some adminId) ''admin.pricing_addon_created'' ''PricingCatalogItem'' (pri_id p)
              (Some (JObj [(''key'', JStr (ain_key input)), (''name'', JStr (ain_name input)),
                (''unitPriceUsdCents'', JNum (of_int (ain_unitPriceUsdCents input)))])))
              (s\<lparr>pricingCatalogItems := pricingCatalogItems s @ [p], seq := Suc (seq s)\<rparr>)))"

end
