(* ===== verification/Back_Office_Facts.thy ===== *)
theory Back_Office_Facts
  imports Back_Office
begin

text \<open>
  What the back office promises of branches: a branch costs exactly the branch price of the catalog,
  from its creation until it is archived.
\<close>

section \<open>The price of a branch\<close>

definition monthly_price :: "string \<Rightarrow> db \<Rightarrow> int" where
  "monthly_price tenantId s =
     (let (b, u) = countBillableUnits tenantId s; c = catalog_resolve s
      in rc_basePriceUsdCents c + (b - 1) * rc_branchPriceUsdCents c + (u - 1) * rc_userPriceUsdCents c)"

lemma preview_price:
  assumes "previewBilling t [] s = Inr p"
  shows "bres_totalUsdCents (pv_result p) = monthly_price t s \<and> pv_activeBranchCount p = fst (countBillableUnits t s)"
proof -
  obtain b u where bu: "countBillableUnits t s = (b, u)" by fastforce
  then have "1 \<le> b" "1 \<le> u" using countBillableUnits_ge by blast+
  with billing_total [of "billing_args (catalog_resolve s) b u (Some [])" b u] assms show ?thesis
    by (auto simp: previewBilling_def bu Let_def monthly_price_def billing_args_def default_def addons_total_def err_simps)
qed

lemma recompute_price:
  assumes run: "recomputeSubscriptionItems E B t s w = (Inr p, s', w')"
    and sub: "List.find (\<lambda>x. sub_tenantId x = t) (subscriptions s) = Some sub" and ids: "distinct (map pri_id (pricingCatalogItems s))"
  shows "bres_totalUsdCents (pv_result p) = monthly_price t s \<and> pv_activeBranchCount p = fst (countBillableUnits t s) \<and>
     branches s' = branches s \<and> memberships s' = memberships s \<and> subscriptions s' = subscriptions s \<and>
     pricingCatalogItems s' = pricingCatalogItems s"
proof -
  obtain b u where bu: "countBillableUnits t s = (b, u)" by fastforce
  then have ge: "1 \<le> b" "1 \<le> u" using countBillableUnits_ge by blast+
  obtain r s1 where w: "recompute_write E (catalog_resolve s) t (b, u) s = Inr (r, s1)"
    "bres_totalUsdCents r = monthly_price t s" and f: "subscriptions s1 = subscriptions s"
    "pricingCatalogItems s1 = pricingCatalogItems s" "branches s1 = branches s" "memberships s1 = memberships s"
    using recompute_write_spec [OF sub ids ge, of E "catalog_resolve s"] by (auto simp: monthly_price_def bu Let_def)
  have "recompute_tx E t s = (Inr r, s1)" using w(1) by (simp add: recompute_tx_unfold bu run_tx_def)
  with run counts_frame [OF f(3,4), of t] w(2) f bu show ?thesis
    by (auto simp: recomputeSubscriptionItems_def split: prod.splits sum.splits)
qed

lemma monthly_price_frame:
  "branches t = branches s \<Longrightarrow> memberships t = memberships s \<Longrightarrow> pricingCatalogItems t = pricingCatalogItems s \<Longrightarrow>
     monthly_price x t = monthly_price x s"
  by (simp add: monthly_price_def counts_frame [of t s] catalog_resolve_frame [of t s])

lemma create_branch_rows_frame [simp]:
  "branches (create_branch_rows E now ten actor input s) = branches s @ [new_branch E (seq s) now ten input]"
  "memberships (create_branch_rows E now ten actor input s) = memberships s"
  "subscriptions (create_branch_rows E now ten actor input s) = subscriptions s"
  "pricingCatalogItems (create_branch_rows E now ten actor input s) = pricingCatalogItems s"
  by (simp_all add: create_branch_rows_def Let_def)

lemma createBranch_Inr:
  assumes run: "createBranch E B now ten actor input s w = (Inr (b, p), t, w')"
    and sub: "List.find (\<lambda>x. sub_tenantId x = ten) (subscriptions s) = Some sub" and ids: "distinct (map pri_id (pricingCatalogItems s))"
  shows "b = new_branch E (seq s) now ten input \<and> branches t = branches s @ [b] \<and> memberships t = memberships s \<and>
     subscriptions t = subscriptions s \<and> pricingCatalogItems t = pricingCatalogItems s \<and>
     bres_totalUsdCents (pv_result p) = monthly_price ten t"
proof -
  let ?s = "create_branch_rows E now ten actor input s"
  have r: "recomputeSubscriptionItems E B ten ?s w = (Inr p, t, w')" and b: "b = new_branch E (seq s) now ten input"
    using run by (auto simp: createBranch_def Let_def split: prod.splits sum.splits)
  note f = recompute_price [OF r, of sub]
  from f sub ids have f: "bres_totalUsdCents (pv_result p) = monthly_price ten ?s" "branches t = branches ?s"
    "memberships t = memberships ?s" "subscriptions t = subscriptions ?s" "pricingCatalogItems t = pricingCatalogItems ?s" by simp_all
  then show ?thesis using b monthly_price_frame [OF f(2,3,5), of ten] by simp
qed

lemma price_of_branches:
  assumes "memberships t = memberships s" "pricingCatalogItems t = pricingCatalogItems s" "1 \<le> active_branches ten s"
    "active_branches ten t = active_branches ten s + k"
  shows "monthly_price ten t = monthly_price ten s + int k * rc_branchPriceUsdCents (catalog_resolve s)"
  using assms
  by (simp add: monthly_price_def countBillableUnits_def billable_users_def catalog_resolve_frame [of t s] Let_def algebra_simps)

text \<open>a new branch raises the monthly price of a tenant that has an active branch by exactly the
  branch price of the catalog, as the answer of the request says, and archiving it again brings the
  price back to what it was.\<close>
theorem branch_costs_its_price:
  assumes sub: "List.find (\<lambda>x. sub_tenantId x = ten) (subscriptions s) = Some sub"
    and ids: "distinct (map pri_id (pricingCatalogItems s))" and fresh: "\<not> taken br_id (uuid E (seq s)) (branches s)"
    and active: "1 \<le> active_branches ten s" and before: "previewBilling ten [] s = Inr p0"
    and created: "createBranch E B now ten actor input s w = (Inr (b, p1), t, w1)"
    and archived: "archiveBranch E B later ten actor (br_id b) t w1 = (Inr (b', p2), u, w2)"
  shows "bres_totalUsdCents (pv_result p1) = bres_totalUsdCents (pv_result p0) + rc_branchPriceUsdCents (catalog_resolve s) \<and>
     bres_totalUsdCents (pv_result p2) = bres_totalUsdCents (pv_result p0)"
proof -
  note c = createBranch_Inr [OF created sub ids]
  have b: "br_id b = uuid E (seq s)" "br_tenantId b = ten" "br_isActive b" using c by (simp_all add: new_branch_def)
  have "active_branches ten t = active_branches ten s + 1" using c b by (simp add: active_branches_def count_where_def)
  then have one: "monthly_price ten t = monthly_price ten s + rc_branchPriceUsdCents (catalog_resolve s)"
    using price_of_branches [of t s ten 1] c active by simp
  let ?u = "t\<lparr>branches := update_where (\<lambda>x. br_id x = br_id b \<and> br_tenantId x = ten)
      (\<lambda>x. x\<lparr>br_isActive := False, br_archivedAt := Some later\<rparr>) (branches t)\<rparr>"
  let ?a = "audit_record E (audit_in (Some ten) (Some actor) ''branches.archived'' ''Branch'' (br_id b) None) ?u"
  have "recomputeSubscriptionItems E B ten ?a w1 = (Inr p2, u, w2)"
    using archived by (auto simp: archiveBranch_def Let_def split: if_splits option.splits prod.splits sum.splits)
  from recompute_price [OF this, of sub] c sub ids have p2: "bres_totalUsdCents (pv_result p2) = monthly_price ten ?a" by simp
  have "update_where (\<lambda>x. br_id x = br_id b \<and> br_tenantId x = ten) f (branches s) = branches s" for f
    unfolding update_where_def by (rule map_idI) (use fresh b(1) in \<open>auto simp: taken_iff\<close>)
  then have "branches ?a = branches s @ [b\<lparr>br_isActive := False, br_archivedAt := Some later\<rparr>]"
    using c b by (simp add: update_where_def)
  then have "active_branches ten ?a = active_branches ten s + 0" by (simp add: active_branches_def count_where_def)
  then have "monthly_price ten ?a = monthly_price ten s" using price_of_branches [of ?a s ten 0] c active by simp
  with one p2 c preview_price [OF before] show ?thesis by simp
qed

section \<open>A concrete office\<close>

definition demo_office_db :: db where
  "demo_office_db = empty_db\<lparr>
     pricingCatalogItems := [\<lparr>pri_id = ''p1'', pri_key = ''extra_branch'', pri_name = ''Branch'', pri_kind = BRANCH,
        pri_unitPriceUsdCents = 700, pri_version = 1, pri_isActive = True, pri_stripePriceId = None\<rparr>],
     subscriptions := [\<lparr>sub_id = ''s1'', sub_tenantId = ''t1'', sub_stripeSubscriptionId = None, sub_status = SubACTIVE,
        sub_currentPeriodStart = None, sub_currentPeriodEnd = None, sub_trialEndsAt = None, sub_cancelAtPeriodEnd = False,
        sub_canceledAt = None\<rparr>],
     branches := [\<lparr>br_id = ''b1'', br_tenantId = ''t1'', br_name = ''Main'', br_address = None, br_timezone = ''UTC'',
        br_currency = ''USD'', br_isActive = True, br_isBillable = False, br_archivedAt = None, br_createdAt = 0\<rparr>]\<rparr>"

lemma demo_office_simps:
  "List.find (\<lambda>x. sub_tenantId x = ''t1'') (subscriptions demo_office_db) = Some (hd (subscriptions demo_office_db))"
  "distinct (map pri_id (pricingCatalogItems demo_office_db))" "\<not> taken br_id (uuid exact_env (seq demo_office_db)) (branches demo_office_db)"
  "1 \<le> active_branches ''t1'' demo_office_db" "rc_branchPriceUsdCents (catalog_resolve demo_office_db) = 700"
  "products demo_office_db = []" "customers demo_office_db = []"
  by (simp_all add: demo_office_db_def active_branches_def empty_db_def catalog_resolve_def price_of_kind_def exact_env_def sample_env_def)

definition demo_branch_input :: branch_input where
  "demo_branch_input = \<lparr>bin_name = ''North'', bin_address = None, bin_timezone = ''UTC'', bin_currency = ''USD''\<rparr>"

lemma null_push: "push_quantities NullBillingProvider t s w = (Inr (), w)"
  by (simp add: push_quantities_def NullBillingProvider_def)

lemma recompute_succeeds:
  assumes "List.find (\<lambda>x. sub_tenantId x = t) (subscriptions s) = Some sub" "distinct (map pri_id (pricingCatalogItems s))"
  shows "\<exists>p s'. recomputeSubscriptionItems E NullBillingProvider t s w = (Inr p, s', w)"
  using recompute_tx_commits [OF assms, of E] by (auto simp: recomputeSubscriptionItems_def null_push split: prod.split)

theorem branch_costs_its_price_witness:
  "\<exists>b p0 p1 p2 t u. previewBilling ''t1'' [] demo_office_db = Inr p0 \<and>
     createBranch exact_env NullBillingProvider 1 ''t1'' ''u1'' demo_branch_input demo_office_db () = (Inr (b, p1), t, ()) \<and>
     archiveBranch exact_env NullBillingProvider 2 ''t1'' ''u1'' (br_id b) t () = (Inr (b\<lparr>br_isActive := False, br_archivedAt := Some 2\<rparr>, p2), u, ()) \<and>
     bres_totalUsdCents (pv_result p1) = bres_totalUsdCents (pv_result p0) + 700 \<and>
     bres_totalUsdCents (pv_result p2) = bres_totalUsdCents (pv_result p0)"
proof -
  let ?s = demo_office_db
  obtain b0 u0 where bu: "countBillableUnits ''t1'' ?s = (b0, u0)" by fastforce
  then have "1 \<le> b0" "1 \<le> u0" using countBillableUnits_ge by blast+
  with billing_total [of "billing_args (catalog_resolve ?s) b0 u0 (Some [])" b0 u0]
  obtain p0 where p0: "previewBilling ''t1'' [] ?s = Inr p0" by (auto simp: previewBilling_def bu Let_def billing_args_def)
  obtain p1 t where "recomputeSubscriptionItems exact_env NullBillingProvider ''t1'' (create_branch_rows exact_env 1 ''t1'' ''u1'' demo_branch_input ?s) () = (Inr p1, t, ())"
    using recompute_succeeds [of "''t1''" "create_branch_rows exact_env 1 ''t1'' ''u1'' demo_branch_input ?s"] demo_office_simps(1,2) by fastforce
  then obtain b where c: "createBranch exact_env NullBillingProvider 1 ''t1'' ''u1'' demo_branch_input ?s () = (Inr (b, p1), t, ())"
    by (auto simp: createBranch_def Let_def)
  note new = createBranch_Inr [OF c demo_office_simps(1,2)]
  have id: "br_id b \<noteq> ''b1''" "br_tenantId b = ''t1''" using new by (simp_all add: new_branch_def exact_env_def sample_env_def)
  have tb: "branches t = branches ?s @ [b]" "branches ?s = [hd (branches ?s)]" "br_id (hd (branches ?s)) = ''b1''"
    using new by (simp_all add: demo_office_db_def)
  let ?b = "b\<lparr>br_isActive := False, br_archivedAt := Some 2\<rparr>"
  let ?t = "t\<lparr>branches := update_where (\<lambda>x. br_id x = br_id b \<and> br_tenantId x = ''t1'')
      (\<lambda>x. x\<lparr>br_isActive := False, br_archivedAt := Some 2\<rparr>) (branches t)\<rparr>"
  let ?a = "audit_record exact_env (audit_in (Some ''t1'') (Some ''u1'') ''branches.archived'' ''Branch'' (br_id b) None) ?t"
  have tb2: "branches t = [hd (branches ?s), b]" using tb(1,2) by (metis append_Cons append_Nil)
  have one: "br_id (hd (branches ?s)) \<noteq> br_id b" using tb(3) id(1) by metis
  have found: "List.find (\<lambda>x. br_id x = br_id b) (branches ?t) = Some ?b" using one id(2) by (simp add: tb2 update_where_def)
  have some: "count_where (\<lambda>x. br_id x = br_id b \<and> br_tenantId x = ''t1'') (branches t) \<noteq> 0" using id(2) by (simp add: tb2 count_where_def)
  have "List.find (\<lambda>x. sub_tenantId x = ''t1'') (subscriptions ?a) = Some (hd (subscriptions ?s))" "distinct (map pri_id (pricingCatalogItems ?a))"
    using new demo_office_simps(1,2) by simp_all
  from recompute_succeeds [OF this, where E = exact_env and w = "()"] obtain p2 u where "recomputeSubscriptionItems exact_env NullBillingProvider ''t1'' ?a () = (Inr p2, u, ())" by blast
  then have a: "archiveBranch exact_env NullBillingProvider 2 ''t1'' ''u1'' (br_id b) t () = (Inr (?b, p2), u, ())"
    unfolding archiveBranch_def Let_def using found some by simp
  from branch_costs_its_price [OF demo_office_simps(1-4) p0 c a] demo_office_simps(5) p0 c a show ?thesis by auto
qed

end
