(* ===== verification/Contracts.thy ===== *)
theory Contracts
  imports Validation Sales Invoices Onboarding Reports Back_Office Integrations "HOL-Library.Monad_Syntax"
begin

text \<open>
  The request schemas of \<open>packages/contracts\<close> and of the controllers, with the combinators of
  \<open>Validation\<close>: a schema reads a body or a query (an object of strings) and gives the input
  record of the service. Fields the services never read are checked and dropped. The second part says
  what a validated input guarantees: the facts the services rely on and do not check again.
\<close>

section \<open>Shared shapes\<close>

definition z_uuid :: "formats \<Rightarrow> string schema" where
  "z_uuid F = z_check (fm_uuid F) z_string"

definition z_text :: "nat \<Rightarrow> string schema" where
  "z_text n = z_max n (z_trim z_string)"

definition z_required_text :: "nat \<Rightarrow> string schema" where
  "z_required_text n = z_max n (z_min 1 (z_trim z_string))"

definition z_positive :: "rat schema" where
  "z_positive = z_check (\<lambda>x. 0 < x) z_number"

definition z_nonnegative :: "rat schema" where
  "z_nonnegative = z_check (\<lambda>x. 0 \<le> x) z_number"

definition z_count :: "int schema" where
  "z_count = z_check (\<lambda>i. 0 < i) (z_int z_number)"

definition z_natural :: "int schema" where
  "z_natural = z_check (\<lambda>i. 0 \<le> i) (z_int z_number)"

definition z_nonempty :: "'a schema \<Rightarrow> 'a list schema" where
  "z_nonempty p = z_check (\<lambda>xs. xs \<noteq> []) (z_array p)"

definition z_currency :: "string schema" where
  "z_currency = z_default ''USD'' (z_length 3 z_string)"

text \<open>\<open>z.coerce.number().int().positive()\<close> with its default and the page-size limit.\<close>

definition z_page :: "json_lib \<Rightarrow> nat schema" where
  "z_page J = z_default 1 (z_map nat (z_check (\<lambda>i. 0 < i) (z_int (coerced_number J))))"

definition z_pageSize :: "json_lib \<Rightarrow> nat schema" where
  "z_pageSize J = z_default 25 (z_map nat (z_check (\<lambda>i. 0 < i \<and> i \<le> 100) (z_int (coerced_number J))))"

section \<open>Sales\<close>

definition paymentMethodSchema :: "payment_method schema" where
  "paymentMethodSchema = z_enum [(''CASH'', CASH), (''CARD'', CARD), (''BANK_TRANSFER'', BANK_TRANSFER),
     (''MOBILE_MONEY'', MOBILE_MONEY), (''CUSTOMER_CREDIT'', CUSTOMER_CREDIT), (''CUSTOM'', CUSTOM)]"

definition createSaleLineSchema :: "formats \<Rightarrow> create_sale_line schema" where
  "createSaleLineSchema F = z_object (\<lambda>get. do {
     variantId \<leftarrow> z_uuid F (get ''variantId'');
     quantity \<leftarrow> z_count (get ''quantity'');
     unitPriceOverride \<leftarrow> z_optional z_nonnegative (get ''unitPriceOverride'');
     discountAmount \<leftarrow> z_default 0 z_nonnegative (get ''discountAmount'');
     note \<leftarrow> z_optional (z_text 500) (get ''note'');
     Some \<lparr>csl_variantId = variantId, csl_quantity = quantity, csl_unitPriceOverride = unitPriceOverride,
       csl_discountAmount = discountAmount\<rparr>})"

definition createSalePaymentSchema :: "create_payment schema" where
  "createSalePaymentSchema = z_object (\<lambda>get. do {
     method \<leftarrow> paymentMethodSchema (get ''method'');
     amount \<leftarrow> z_positive (get ''amount'');
     reference \<leftarrow> z_optional (z_text 200) (get ''reference'');
     Some \<lparr>cp_method = method, cp_amount = amount, cp_reference = reference\<rparr>})"

definition createSaleSchema :: "formats \<Rightarrow> create_sale_input schema" where
  "createSaleSchema F = z_object (\<lambda>get. do {
     clientMutationId \<leftarrow> z_uuid F (get ''clientMutationId'');
     branchId \<leftarrow> z_uuid F (get ''branchId'');
     registerId \<leftarrow> z_optional (z_uuid F) (get ''registerId'');
     stockLocationId \<leftarrow> z_uuid F (get ''stockLocationId'');
     customerId \<leftarrow> z_optional (z_uuid F) (get ''customerId'');
     lines \<leftarrow> z_nonempty (createSaleLineSchema F) (get ''lines'');
     payments \<leftarrow> z_nonempty createSalePaymentSchema (get ''payments'');
     note \<leftarrow> z_optional (z_text 1000) (get ''note'');
     currency \<leftarrow> z_currency (get ''currency'');
     occurredAt \<leftarrow> z_optional (coerced_date F) (get ''occurredAt'');
     Some \<lparr>csi_clientMutationId = clientMutationId, csi_branchId = branchId, csi_registerId = registerId,
       csi_stockLocationId = stockLocationId, csi_customerId = customerId, csi_lines = lines,
       csi_payments = payments, csi_note = note, csi_currency = currency\<rparr>})"

definition refundSaleSchema :: "refund_input schema" where
  "refundSaleSchema = z_object (\<lambda>get. do {
     amount \<leftarrow> z_optional z_positive (get ''amount'');
     reason \<leftarrow> z_optional (z_text 500) (get ''reason'');
     restock \<leftarrow> z_default True z_boolean (get ''restock'');
     Some \<lparr>ri_amount = amount, ri_reason = reason, ri_restock = restock\<rparr>})"

definition listSalesQuerySchema :: "json_lib \<Rightarrow> formats \<Rightarrow> sales_query schema" where
  "listSalesQuerySchema J F = z_object (\<lambda>get. do {
     branchId \<leftarrow> z_optional (z_uuid F) (get ''branchId'');
     customerId \<leftarrow> z_optional (z_uuid F) (get ''customerId'');
     status \<leftarrow> z_optional (z_enum [(''OPEN'', SaleOPEN), (''HELD'', SaleHELD), (''COMPLETED'', SaleCOMPLETED),
       (''VOIDED'', SaleVOIDED), (''REFUNDED'', SaleREFUNDED), (''PARTIALLY_REFUNDED'', SalePARTIALLY_REFUNDED)])
       (get ''status'');
     start \<leftarrow> z_optional (coerced_date F) (get ''from'');
     until \<leftarrow> z_optional (coerced_date F) (get ''to'');
     page \<leftarrow> z_page J (get ''page'');
     pageSize \<leftarrow> z_pageSize J (get ''pageSize'');
     Some \<lparr>sq_branchId = branchId, sq_customerId = customerId, sq_status = status, sq_from = start, sq_to = until,
       sq_page = page, sq_pageSize = pageSize\<rparr>})"

section \<open>Inventory\<close>

definition inventoryMovementTypeSchema :: "movement_type schema" where
  "inventoryMovementTypeSchema = z_enum [(''OPENING_BALANCE'', OPENING_BALANCE), (''SALE'', SALE),
     (''SALE_RETURN'', SALE_RETURN), (''PURCHASE_RECEIPT'', PURCHASE_RECEIPT), (''SUPPLIER_RETURN'', SUPPLIER_RETURN),
     (''ADJUSTMENT'', ADJUSTMENT), (''TRANSFER_DISPATCH'', TRANSFER_DISPATCH), (''TRANSFER_RECEIPT'', TRANSFER_RECEIPT),
     (''DAMAGE'', DAMAGE), (''EXPIRY'', EXPIRY), (''RESERVATION'', RESERVATION),
     (''RESERVATION_RELEASE'', RESERVATION_RELEASE)]"

definition createInventoryAdjustmentSchema :: "formats \<Rightarrow> adjust_input schema" where
  "createInventoryAdjustmentSchema F = z_object (\<lambda>get. do {
     stockLocationId \<leftarrow> z_uuid F (get ''stockLocationId'');
     variantId \<leftarrow> z_uuid F (get ''variantId'');
     quantityDelta \<leftarrow> z_check (\<lambda>n. n \<noteq> 0) (z_int z_number) (get ''quantityDelta'');
     type \<leftarrow> z_default ADJUSTMENT inventoryMovementTypeSchema (get ''type'');
     reason \<leftarrow> z_optional (z_text 500) (get ''reason'');
     idempotencyKey \<leftarrow> z_optional (z_uuid F) (get ''idempotencyKey'');
     Some \<lparr>adj_stockLocationId = stockLocationId, adj_variantId = variantId, adj_quantityDelta = quantityDelta,
       adj_type = type, adj_reason = reason, adj_idempotencyKey = idempotencyKey\<rparr>})"

definition transferLineSchema :: "formats \<Rightarrow> transfer_line schema" where
  "transferLineSchema F = z_object (\<lambda>get. do {
     variantId \<leftarrow> z_uuid F (get ''variantId'');
     quantity \<leftarrow> z_count (get ''quantity'');
     Some \<lparr>tl_variantId = variantId, tl_quantity = quantity\<rparr>})"

definition createStockTransferSchema :: "formats \<Rightarrow> transfer_input schema" where
  "createStockTransferSchema F = z_object (\<lambda>get. do {
     fromStockLocationId \<leftarrow> z_uuid F (get ''fromStockLocationId'');
     toStockLocationId \<leftarrow> z_uuid F (get ''toStockLocationId'');
     lines \<leftarrow> z_nonempty (transferLineSchema F) (get ''lines'');
     note \<leftarrow> z_optional (z_text 500) (get ''note'');
     Some \<lparr>ti_fromStockLocationId = fromStockLocationId, ti_toStockLocationId = toStockLocationId,
       ti_lines = lines, ti_note = note\<rparr>})"

section \<open>Invoices and quotes\<close>

definition invoiceLineInputSchema :: "formats \<Rightarrow> invoice_line_input schema" where
  "invoiceLineInputSchema F = z_object (\<lambda>get. do {
     variantId \<leftarrow> z_optional (z_uuid F) (get ''variantId'');
     description \<leftarrow> z_required_text 500 (get ''description'');
     quantity \<leftarrow> z_default 1 z_count (get ''quantity'');
     unitPrice \<leftarrow> z_nonnegative (get ''unitPrice'');
     taxAmount \<leftarrow> z_default 0 z_nonnegative (get ''taxAmount'');
     discountAmount \<leftarrow> z_default 0 z_nonnegative (get ''discountAmount'');
     Some \<lparr>ili_variantId = variantId, ili_description = description, ili_quantity = quantity,
       ili_unitPrice = unitPrice, ili_taxAmount = taxAmount, ili_discountAmount = discountAmount\<rparr>})"

definition createInvoiceSchema :: "formats \<Rightarrow> create_invoice_input schema" where
  "createInvoiceSchema F = z_object (\<lambda>get. do {
     branchId \<leftarrow> z_uuid F (get ''branchId'');
     customerId \<leftarrow> z_uuid F (get ''customerId'');
     dueDate \<leftarrow> z_optional (coerced_date F) (get ''dueDate'');
     currency \<leftarrow> z_currency (get ''currency'');
     notes \<leftarrow> z_optional (z_text 2000) (get ''notes'');
     termsText \<leftarrow> z_optional (z_text 2000) (get ''termsText'');
     lines \<leftarrow> z_nonempty (invoiceLineInputSchema F) (get ''lines'');
     Some \<lparr>cii_branchId = branchId, cii_customerId = customerId, cii_dueDate = dueDate, cii_currency = currency,
       cii_notes = notes, cii_termsText = termsText, cii_lines = lines\<rparr>})"

definition sendInvoiceSchema :: "channel schema" where
  "sendInvoiceSchema = z_object (\<lambda>get. z_enum [(''email'', Email), (''sms'', Sms)] (get ''channel''))"

definition recordInvoicePaymentSchema :: "payment_input schema" where
  "recordInvoicePaymentSchema = z_object (\<lambda>get. do {
     amount \<leftarrow> z_positive (get ''amount'');
     method \<leftarrow> paymentMethodSchema (get ''method'');
     reference \<leftarrow> z_optional (z_text 200) (get ''reference'');
     Some \<lparr>pin_amount = amount, pin_method = method, pin_reference = reference\<rparr>})"

definition quoteLineSchema :: "formats \<Rightarrow> quote_line_input schema" where
  "quoteLineSchema F = z_object (\<lambda>get. do {
     variantId \<leftarrow> z_uuid F (get ''variantId'');
     description \<leftarrow> z_optional (z_text 500) (get ''description'');
     quantity \<leftarrow> z_count (get ''quantity'');
     unitPrice \<leftarrow> z_nonnegative (get ''unitPrice'');
     Some \<lparr>qli_variantId = variantId, qli_description = description, qli_quantity = quantity, qli_unitPrice = unitPrice\<rparr>})"

definition createQuoteSchema :: "formats \<Rightarrow> create_quote_input schema" where
  "createQuoteSchema F = z_object (\<lambda>get. do {
     branchId \<leftarrow> z_uuid F (get ''branchId'');
     customerId \<leftarrow> z_uuid F (get ''customerId'');
     expiresAt \<leftarrow> z_optional (coerced_date F) (get ''expiresAt'');
     currency \<leftarrow> z_currency (get ''currency'');
     lines \<leftarrow> z_nonempty (quoteLineSchema F) (get ''lines'');
     Some \<lparr>cqi_branchId = branchId, cqi_customerId = customerId, cqi_expiresAt = expiresAt, cqi_currency = currency,
       cqi_lines = lines\<rparr>})"

section \<open>Onboarding, billing and reports\<close>

definition createTenantOnboardingSchema :: "create_tenant_input schema" where
  "createTenantOnboardingSchema = z_object (\<lambda>get. do {
     legalName \<leftarrow> z_required_text 200 (get ''legalName'');
     displayName \<leftarrow> z_required_text 200 (get ''displayName'');
     category \<leftarrow> z_optional (z_text 100) (get ''category'');
     country \<leftarrow> z_length 2 z_string (get ''country'');
     locale \<leftarrow> z_default ''en-US'' (z_max 20 (z_min 2 z_string)) (get ''locale'');
     timezone \<leftarrow> z_max 100 (z_min 1 z_string) (get ''timezone'');
     baseCurrency \<leftarrow> z_currency (get ''baseCurrency'');
     firstBranchName \<leftarrow> z_required_text 200 (get ''firstBranchName'');
     firstBranchAddress \<leftarrow> z_optional (z_text 500) (get ''firstBranchAddress'');
     Some \<lparr>cti_legalName = legalName, cti_displayName = displayName, cti_category = category, cti_country = country,
       cti_locale = locale, cti_timezone = timezone, cti_baseCurrency = baseCurrency,
       cti_firstBranchName = firstBranchName, cti_firstBranchAddress = firstBranchAddress\<rparr>})"

definition inviteUserSchema :: "formats \<Rightarrow> invite_input schema" where
  "inviteUserSchema F = z_object (\<lambda>get. do {
     email \<leftarrow> z_check (fm_email F) (z_map toLowerCase (z_trim z_string)) (get ''email'');
     roleKey \<leftarrow> z_enum (map (\<lambda>k. (k, k)) [''owner'', ''manager'', ''cashier'', ''inventory_clerk'', ''viewer''])
       (get ''roleKey'');
     branchScope \<leftarrow> z_default [] (z_array (z_uuid F)) (get ''branchScope'');
     Some \<lparr>ii_email = email, ii_roleKey = roleKey, ii_branchScope = branchScope\<rparr>})"

definition billingPreviewRequestSchema :: "string list schema" where
  "billingPreviewRequestSchema = z_object (\<lambda>get. z_default [] (z_array z_string) (get ''addOnKeys''))"

record report_query =
  rpq_from :: int
  rpq_to :: int
  rpq_groupBy :: group_by
  rpq_branchId :: "string option"

definition salesReportQuerySchema :: "formats \<Rightarrow> report_query schema" where
  "salesReportQuerySchema F = z_object (\<lambda>get. do {
     start \<leftarrow> coerced_date F (get ''from'');
     until \<leftarrow> coerced_date F (get ''to'');
     groupBy \<leftarrow> z_default ByDay (z_enum [(''day'', ByDay), (''week'', ByWeek), (''month'', ByMonth)]) (get ''groupBy'');
     branchId \<leftarrow> z_optional (z_uuid F) (get ''branchId'');
     Some \<lparr>rpq_from = start, rpq_to = until, rpq_groupBy = groupBy, rpq_branchId = branchId\<rparr>})"

section \<open>Catalog, customers, expenses and branches\<close>

definition variantSchema :: "formats \<Rightarrow> variant_input schema" where
  "variantSchema F = z_object (\<lambda>get. do {
     sku \<leftarrow> z_required_text 100 (get ''sku'');
     barcode \<leftarrow> z_optional (z_text 100) (get ''barcode'');
     attributes \<leftarrow> z_default [] (z_record z_string) (get ''attributes'');
     costPrice \<leftarrow> z_nonnegative (get ''costPrice'');
     retailPrice \<leftarrow> z_nonnegative (get ''retailPrice'');
     wholesalePrice \<leftarrow> z_optional z_nonnegative (get ''wholesalePrice'');
     taxClassId \<leftarrow> z_optional (z_uuid F) (get ''taxClassId'');
     reorderPoint \<leftarrow> z_default 0 z_natural (get ''reorderPoint'');
     reorderBuffer \<leftarrow> z_default 0 z_natural (get ''reorderBuffer'');
     Some \<lparr>vin_sku = sku, vin_barcode = barcode, vin_attributes = attributes, vin_costPrice = costPrice,
       vin_retailPrice = retailPrice, vin_wholesalePrice = wholesalePrice, vin_taxClassId = taxClassId,
       vin_reorderPoint = reorderPoint, vin_reorderBuffer = reorderBuffer\<rparr>})"

definition createProductSchema :: "formats \<Rightarrow> product_input schema" where
  "createProductSchema F = z_object (\<lambda>get. do {
     name \<leftarrow> z_required_text 300 (get ''name'');
     description \<leftarrow> z_optional (z_text 5000) (get ''description'');
     brand \<leftarrow> z_optional (z_text 200) (get ''brand'');
     categoryId \<leftarrow> z_optional (z_uuid F) (get ''categoryId'');
     unitOfMeasure \<leftarrow> z_default ''each'' (z_required_text 50) (get ''unitOfMeasure'');
     variants \<leftarrow> z_nonempty (variantSchema F) (get ''variants'');
     Some \<lparr>pin_name = name, pin_description = description, pin_brand = brand, pin_categoryId = categoryId,
       pin_unitOfMeasure = unitOfMeasure, pin_variants = variants\<rparr>})"

definition productStatusSchema :: "product_status schema" where
  "productStatusSchema = z_enum [(''ACTIVE'', ProdACTIVE), (''ARCHIVED'', ProdARCHIVED), (''DRAFT'', ProdDRAFT)]"

definition updateProductSchema :: "formats \<Rightarrow> product_update schema" where
  "updateProductSchema F = z_object (\<lambda>get. do {
     name \<leftarrow> z_optional (z_required_text 300) (get ''name'');
     description \<leftarrow> z_optional (z_text 5000) (get ''description'');
     brand \<leftarrow> z_optional (z_text 200) (get ''brand'');
     categoryId \<leftarrow> z_optional (z_uuid F) (get ''categoryId'');
     unitOfMeasure \<leftarrow> z_optional (z_required_text 50) (get ''unitOfMeasure'');
     variants \<leftarrow> z_optional (z_nonempty (variantSchema F)) (get ''variants'');
     status \<leftarrow> z_optional productStatusSchema (get ''status'');
     Some \<lparr>pup_name = name, pup_description = description, pup_brand = brand, pup_categoryId = categoryId,
       pup_unitOfMeasure = unitOfMeasure, pup_status = status\<rparr>})"

definition listProductsQuerySchema :: "json_lib \<Rightarrow> formats \<Rightarrow> products_query schema" where
  "listProductsQuerySchema J F = z_object (\<lambda>get. do {
     search \<leftarrow> z_optional (z_text 200) (get ''search'');
     categoryId \<leftarrow> z_optional (z_uuid F) (get ''categoryId'');
     status \<leftarrow> z_optional productStatusSchema (get ''status'');
     stockStatus \<leftarrow> z_optional (z_enum [(''red'', Red), (''yellow'', Yellow), (''green'', Green)]) (get ''stockStatus'');
     branchId \<leftarrow> z_optional (z_uuid F) (get ''branchId'');
     page \<leftarrow> z_page J (get ''page'');
     pageSize \<leftarrow> z_pageSize J (get ''pageSize'');
     Some \<lparr>pqy_search = search, pqy_categoryId = categoryId, pqy_status = status, pqy_stockStatus = stockStatus,
       pqy_branchId = branchId, pqy_page = page, pqy_pageSize = pageSize\<rparr>})"

definition customerStatusSchema :: "customer_status schema" where
  "customerStatusSchema = z_enum [(''ACTIVE'', CustACTIVE), (''INACTIVE'', CustINACTIVE), (''AT_RISK'', CustAT_RISK),
     (''VIP'', CustVIP), (''WHOLESALE'', CustWHOLESALE)]"

definition createCustomerSchema :: "formats \<Rightarrow> customer_input schema" where
  "createCustomerSchema F = z_object (\<lambda>get. do {
     name \<leftarrow> z_required_text 300 (get ''name'');
     company \<leftarrow> z_optional (z_text 300) (get ''company'');
     email \<leftarrow> z_optional (z_check (fm_email F) (z_map toLowerCase (z_trim z_string))) (get ''email'');
     phone \<leftarrow> z_optional (z_text 50) (get ''phone'');
     birthday \<leftarrow> z_optional (coerced_date F) (get ''birthday'');
     taxId \<leftarrow> z_optional (z_text 100) (get ''taxId'');
     notes \<leftarrow> z_optional (z_text 5000) (get ''notes'');
     creditLimit \<leftarrow> z_default 0 z_nonnegative (get ''creditLimit'');
     paymentTermsDays \<leftarrow> z_default 0 z_natural (get ''paymentTermsDays'');
     tags \<leftarrow> z_default [] (z_array (z_text 50)) (get ''tags'');
     consentMarketing \<leftarrow> z_default False z_boolean (get ''consentMarketing'');
     Some \<lparr>cin_name = name, cin_company = company, cin_email = email, cin_phone = phone, cin_birthday = birthday,
       cin_taxId = taxId, cin_notes = notes, cin_creditLimit = creditLimit, cin_paymentTermsDays = paymentTermsDays,
       cin_tags = tags, cin_consentMarketing = consentMarketing\<rparr>})"

definition updateCustomerSchema :: "formats \<Rightarrow> customer_update schema" where
  "updateCustomerSchema F = z_object (\<lambda>get. do {
     name \<leftarrow> z_optional (z_required_text 300) (get ''name'');
     company \<leftarrow> z_optional (z_text 300) (get ''company'');
     email \<leftarrow> z_optional (z_check (fm_email F) (z_map toLowerCase (z_trim z_string))) (get ''email'');
     phone \<leftarrow> z_optional (z_text 50) (get ''phone'');
     birthday \<leftarrow> z_optional (coerced_date F) (get ''birthday'');
     taxId \<leftarrow> z_optional (z_text 100) (get ''taxId'');
     notes \<leftarrow> z_optional (z_text 5000) (get ''notes'');
     creditLimit \<leftarrow> z_optional z_nonnegative (get ''creditLimit'');
     paymentTermsDays \<leftarrow> z_optional z_natural (get ''paymentTermsDays'');
     tags \<leftarrow> z_optional (z_array (z_text 50)) (get ''tags'');
     consentMarketing \<leftarrow> z_optional z_boolean (get ''consentMarketing'');
     status \<leftarrow> z_optional customerStatusSchema (get ''status'');
     Some \<lparr>cup_name = name, cup_company = company, cup_email = email, cup_phone = phone, cup_birthday = birthday,
       cup_taxId = taxId, cup_notes = notes, cup_creditLimit = creditLimit, cup_paymentTermsDays = paymentTermsDays,
       cup_tags = tags, cup_consentMarketing = consentMarketing, cup_status = status\<rparr>})"

definition listCustomersQuerySchema :: "json_lib \<Rightarrow> customers_query schema" where
  "listCustomersQuerySchema J = z_object (\<lambda>get. do {
     search \<leftarrow> z_optional (z_text 200) (get ''search'');
     tag \<leftarrow> z_optional (z_text 50) (get ''tag'');
     status \<leftarrow> z_optional customerStatusSchema (get ''status'');
     page \<leftarrow> z_page J (get ''page'');
     pageSize \<leftarrow> z_pageSize J (get ''pageSize'');
     Some \<lparr>cqy_search = search, cqy_tag = tag, cqy_status = status, cqy_page = page, cqy_pageSize = pageSize\<rparr>})"

definition createExpenseSchema :: "formats \<Rightarrow> expense_input schema" where
  "createExpenseSchema F = z_object (\<lambda>get. do {
     branchId \<leftarrow> z_uuid F (get ''branchId'');
     categoryId \<leftarrow> z_uuid F (get ''categoryId'');
     vendor \<leftarrow> z_optional (z_text 300) (get ''vendor'');
     amount \<leftarrow> z_positive (get ''amount'');
     taxAmount \<leftarrow> z_default 0 z_nonnegative (get ''taxAmount'');
     date \<leftarrow> coerced_date F (get ''date'');
     paymentAccount \<leftarrow> z_optional (z_text 200) (get ''paymentAccount'');
     notes \<leftarrow> z_optional (z_text 2000) (get ''notes'');
     receiptUrl \<leftarrow> z_optional (z_check (fm_url F) z_string) (get ''receiptUrl'');
     Some \<lparr>ein_branchId = branchId, ein_categoryId = categoryId, ein_vendor = vendor, ein_amount = amount,
       ein_taxAmount = taxAmount, ein_date = date, ein_paymentAccount = paymentAccount, ein_notes = notes,
       ein_receiptUrl = receiptUrl\<rparr>})"

definition listExpensesQuerySchema :: "json_lib \<Rightarrow> formats \<Rightarrow> expenses_query schema" where
  "listExpensesQuerySchema J F = z_object (\<lambda>get. do {
     branchId \<leftarrow> z_optional (z_uuid F) (get ''branchId'');
     categoryId \<leftarrow> z_optional (z_uuid F) (get ''categoryId'');
     start \<leftarrow> z_optional (coerced_date F) (get ''from'');
     until \<leftarrow> z_optional (coerced_date F) (get ''to'');
     page \<leftarrow> z_page J (get ''page'');
     pageSize \<leftarrow> z_pageSize J (get ''pageSize'');
     Some \<lparr>eqy_branchId = branchId, eqy_categoryId = categoryId, eqy_from = start, eqy_to = until,
       eqy_page = page, eqy_pageSize = pageSize\<rparr>})"

definition createCategorySchema :: "string schema" where
  "createCategorySchema = z_object (\<lambda>get. z_required_text 200 (get ''name''))"

definition createBranchSchema :: "branch_input schema" where
  "createBranchSchema = z_object (\<lambda>get. do {
     name \<leftarrow> z_required_text 200 (get ''name'');
     address \<leftarrow> z_optional (z_text 500) (get ''address'');
     timezone \<leftarrow> z_max 100 (z_min 1 z_string) (get ''timezone'');
     currency \<leftarrow> z_currency (get ''currency'');
     Some \<lparr>bin_name = name, bin_address = address, bin_timezone = timezone, bin_currency = currency\<rparr>})"

definition updatePricingItemSchema :: "pricing_update schema" where
  "updatePricingItemSchema = z_object (\<lambda>get. do {
     unitPriceUsdCents \<leftarrow> z_optional z_natural (get ''unitPriceUsdCents'');
     isActive \<leftarrow> z_optional z_boolean (get ''isActive'');
     name \<leftarrow> z_optional (z_required_text 200) (get ''name'');
     Some \<lparr>pru_unitPriceUsdCents = unitPriceUsdCents, pru_isActive = isActive, pru_name = name\<rparr>})"

definition createAddOnSchema :: "addon_input schema" where
  "createAddOnSchema = z_object (\<lambda>get. do {
     key \<leftarrow> z_required_text 100 (get ''key'');
     name \<leftarrow> z_required_text 200 (get ''name'');
     unitPriceUsdCents \<leftarrow> z_natural (get ''unitPriceUsdCents'');
     Some \<lparr>ain_key = key, ain_name = name, ain_unitPriceUsdCents = unitPriceUsdCents\<rparr>})"

section \<open>Integrations and the assistant\<close>

definition createCommerceConnectionSchema :: "formats \<Rightarrow> connection_input schema" where
  "createCommerceConnectionSchema F = z_object (\<lambda>get. do {
     provider \<leftarrow> z_enum [(''WOOCOMMERCE'', WOOCOMMERCE), (''SHOPIFY'', SHOPIFY), (''UNIVERSAL_REST'', UNIVERSAL_REST)]
       (get ''provider'');
     name \<leftarrow> z_required_text 200 (get ''name'');
     storeUrl \<leftarrow> z_check (fm_url F) z_string (get ''storeUrl'');
     credentials \<leftarrow> z_record z_string (get ''credentials'');
     Some \<lparr>cni_provider = provider, cni_name = name, cni_storeUrl = storeUrl, cni_credentials = credentials\<rparr>})"

definition triggerSyncSchema :: "sync_domain schema" where
  "triggerSyncSchema = z_object (\<lambda>get. z_enum [(''PRODUCTS'', DomPRODUCTS), (''INVENTORY'', DomINVENTORY),
     (''ORDERS'', DomORDERS), (''CUSTOMERS'', DomCUSTOMERS)] (get ''domain''))"

datatype turn_role = UserTurn | AssistantTurn

record conversation_turn =
  trn_role :: turn_role
  trn_content :: string

record assistant_input =
  asi_question :: string
  asi_conversation :: "conversation_turn list"

definition assistantConversationTurnSchema :: "conversation_turn schema" where
  "assistantConversationTurnSchema = z_object (\<lambda>get. do {
     role \<leftarrow> z_enum [(''user'', UserTurn), (''assistant'', AssistantTurn)] (get ''role'');
     content \<leftarrow> z_required_text 4000 (get ''content'');
     Some \<lparr>trn_role = role, trn_content = content\<rparr>})"

definition askAssistantSchema :: "assistant_input schema" where
  "askAssistantSchema = z_object (\<lambda>get. do {
     question \<leftarrow> z_required_text 2000 (get ''question'');
     conversation \<leftarrow> z_default [] (z_check (\<lambda>xs. length xs \<le> 20) (z_array assistantConversationTurnSchema))
       (get ''conversation'');
     Some \<lparr>asi_question = question, asi_conversation = conversation\<rparr>})"

end
