(* ===== verification/Api_Routes.thy ===== *)
theory Api_Routes
  imports Contracts Access_Control
begin

text \<open>
  The controllers of \<open>apps/api/src\<close>: every route as the composition the framework makes of it,
  the guards, then the validation pipe, then the service. The parameters of the deployment are
  collected in \<open>api\<close>; \<open>'w\<close> is the world its adapters act on. Requests are handled one at a
  time; the rate limits of the routes are not modelled. \<open>route\<close> names the routes and
  \<open>serve\<close> answers them; a body is kept only where a caller reads it.
\<close>

section \<open>The deployment and the guard chains\<close>

record 'w api =
  api_env :: env
  api_sha :: "string \<Rightarrow> string"
  api_now :: int
  api_formats :: formats
  api_json :: json_lib
  api_qr :: "string \<Rightarrow> string"
  api_amountText :: "rat \<Rightarrow> string"
  api_email :: "string \<Rightarrow> string \<Rightarrow> string \<Rightarrow> error + delivery_result"
  api_sms :: "string \<Rightarrow> string \<Rightarrow> error + delivery_result"
  api_billing :: "'w billing_provider"
  api_integration :: integration_env
  api_commerce :: "'w commerce_env"

type_synonym ('a, 'w) handler = "db \<Rightarrow> 'w \<Rightarrow> (error + 'a) \<times> db \<times> 'w"

definition on_db :: "(db \<Rightarrow> (error + 'a) \<times> db) \<Rightarrow> ('a, 'w) handler" where
  "on_db f s w = (case f s of (r, s1) \<Rightarrow> (r, s1, w))"

definition on_read :: "(db \<Rightarrow> error + 'a) \<Rightarrow> ('a, 'w) handler" where
  "on_read f s w = (f s, s, w)"

definition with_body :: "'b schema \<Rightarrow> json \<Rightarrow> ('b \<Rightarrow> ('a, 'w) handler) \<Rightarrow> ('a, 'w) handler" where
  "with_body p body h s w = (case validate p body of Inl e \<Rightarrow> (Inl e, s, w) | Inr input \<Rightarrow> h input s w)"

text \<open>\<open>@UseGuards(SessionAuthGuard, TenantGuard, RbacGuard)\<close>.\<close>

definition tenant_route ::
  "'w api \<Rightarrow> permission list \<Rightarrow> request \<Rightarrow> (string \<Rightarrow> string \<Rightarrow> ('a, 'w) handler) \<Rightarrow> ('a, 'w) handler" where
  "tenant_route A required rq h s w =
     (case authorize_tenant (api_sha A) (api_now A) False required rq s of
        Inl e \<Rightarrow> (Inl e, s, w)
      | Inr ctx \<Rightarrow>
          (case (ctx_user ctx, ctx_membership ctx) of
             (Some u, Some m) \<Rightarrow> h (am_tenantId m) (usr_id u) s w
           | _ \<Rightarrow> (Inl (ServerError ''request.membership is undefined''), s, w)))"

text \<open>\<open>@UseGuards(SessionAuthGuard)\<close>.\<close>

definition session_route :: "'w api \<Rightarrow> request \<Rightarrow> (user \<Rightarrow> ('a, 'w) handler) \<Rightarrow> ('a, 'w) handler" where
  "session_route A rq h s w =
     (case session_guard (api_sha A) (api_now A) False rq s anonymous of
        Inl e \<Rightarrow> (Inl e, s, w)
      | Inr ctx \<Rightarrow> (case ctx_user ctx of
            Some u \<Rightarrow> h u s w | None \<Rightarrow> (Inl (ServerError ''request.user is undefined''), s, w)))"

text \<open>\<open>@UseGuards(SessionAuthGuard, PlatformAdminGuard)\<close>.\<close>

definition admin_route :: "'w api \<Rightarrow> request \<Rightarrow> (string \<Rightarrow> ('a, 'w) handler) \<Rightarrow> ('a, 'w) handler" where
  "admin_route A rq h s w =
     (case authorize_admin (api_sha A) (api_now A) rq s of
        Inl e \<Rightarrow> (Inl e, s, w)
      | Inr ctx \<Rightarrow> (case ctx_user ctx of
            Some u \<Rightarrow> h (usr_id u) s w | None \<Rightarrow> (Inl (ServerError ''request.user is undefined''), s, w)))"

section \<open>Errors on the wire (\<open>common/filters/http-exception.filter.ts\<close>)\<close>

fun error_status :: "error \<Rightarrow> nat" where
  "error_status (BadRequest m) = 400"
| "error_status (Unauthorized m) = 401"
| "error_status (Forbidden m) = 403"
| "error_status (NotFound m) = 404"
| "error_status _ = 500"

fun error_body :: "error \<Rightarrow> string" where
  "error_body (BadRequest m) = m"
| "error_body (Unauthorized m) = m"
| "error_body (Forbidden m) = m"
| "error_body (NotFound m) = m"
| "error_body _ = ''Internal server error''"

section \<open>Sales\<close>

definition sales_list :: "'w api \<Rightarrow> request \<Rightarrow> json \<Rightarrow> (sale list, 'w) handler" where
  "sales_list A rq query = tenant_route A [SALES_VIEW] rq (\<lambda>t u.
     with_body (listSalesQuerySchema (api_json A) (api_formats A)) query (\<lambda>q. on_read (\<lambda>s. Inr (list_sales t q s))))"

definition sales_get :: "'w api \<Rightarrow> request \<Rightarrow> string \<Rightarrow> (sale, 'w) handler" where
  "sales_get A rq i = tenant_route A [SALES_VIEW] rq (\<lambda>t u. on_read (get_sale t i))"

definition sales_create :: "'w api \<Rightarrow> request \<Rightarrow> json \<Rightarrow> (sale, 'w) handler" where
  "sales_create A rq body = tenant_route A [SALES_CREATE] rq (\<lambda>t u.
     with_body (createSaleSchema (api_formats A)) body (\<lambda>input. on_db (createSale (api_env A) (api_now A) t u input)))"

definition sales_refund :: "'w api \<Rightarrow> request \<Rightarrow> string \<Rightarrow> json \<Rightarrow> (refund, 'w) handler" where
  "sales_refund A rq i body = tenant_route A [SALES_REFUND] rq (\<lambda>t u.
     with_body refundSaleSchema body (\<lambda>input. on_db (refundSale (api_env A) (api_now A) t u i input)))"

definition sales_void :: "'w api \<Rightarrow> request \<Rightarrow> string \<Rightarrow> (sale, 'w) handler" where
  "sales_void A rq i = tenant_route A [SALES_VOID] rq (\<lambda>t u. on_db (voidSale (api_env A) (api_now A) t u i))"

section \<open>Inventory\<close>

definition inventory_adjust :: "'w api \<Rightarrow> request \<Rightarrow> json \<Rightarrow> (movement, 'w) handler" where
  "inventory_adjust A rq body = tenant_route A [INVENTORY_ADJUST] rq (\<lambda>t u.
     with_body (createInventoryAdjustmentSchema (api_formats A)) body
       (\<lambda>input. on_db (adjustStock (api_env A) (api_now A) t u input)))"

definition inventory_transfer :: "'w api \<Rightarrow> request \<Rightarrow> json \<Rightarrow> (transfer, 'w) handler" where
  "inventory_transfer A rq body = tenant_route A [INVENTORY_TRANSFER] rq (\<lambda>t u.
     with_body (createStockTransferSchema (api_formats A)) body
       (\<lambda>input. on_db (transferStock (api_env A) (api_now A) t u input)))"

definition inventory_movements :: "'w api \<Rightarrow> request \<Rightarrow> string \<Rightarrow> string \<Rightarrow> (movement list, 'w) handler" where
  "inventory_movements A rq loc var = tenant_route A [INVENTORY_VIEW] rq (\<lambda>t u.
     on_read (\<lambda>s. Inr (listMovements t loc var s)))"

section \<open>Catalog\<close>

definition catalog_list :: "'w api \<Rightarrow> request \<Rightarrow> json \<Rightarrow> (product_view list, 'w) handler" where
  "catalog_list A rq query = tenant_route A [INVENTORY_VIEW] rq (\<lambda>t u.
     with_body (listProductsQuerySchema (api_json A) (api_formats A)) query (\<lambda>q. on_read (\<lambda>s. Inr (listProducts t q s))))"

definition catalog_get :: "'w api \<Rightarrow> request \<Rightarrow> string \<Rightarrow> (product \<times> variant list, 'w) handler" where
  "catalog_get A rq i = tenant_route A [INVENTORY_VIEW] rq (\<lambda>t u. on_read (getProduct t i))"

definition catalog_variantQr :: "'w api \<Rightarrow> request \<Rightarrow> string \<Rightarrow> (string \<times> string, 'w) handler" where
  "catalog_variantQr A rq i = tenant_route A [INVENTORY_VIEW] rq (\<lambda>t u. on_read (getVariantQrCode (api_qr A) t i))"

definition catalog_create :: "'w api \<Rightarrow> request \<Rightarrow> json \<Rightarrow> (product, 'w) handler" where
  "catalog_create A rq body = tenant_route A [PRODUCTS_MANAGE] rq (\<lambda>t u.
     with_body (createProductSchema (api_formats A)) body
       (\<lambda>input. on_db (createProduct (api_env A) (api_now A) t u input)))"

definition catalog_update :: "'w api \<Rightarrow> request \<Rightarrow> string \<Rightarrow> json \<Rightarrow> (unit, 'w) handler" where
  "catalog_update A rq i body = tenant_route A [PRODUCTS_MANAGE] rq (\<lambda>t u.
     with_body (updateProductSchema (api_formats A)) body (\<lambda>input. on_db (updateProduct (api_env A) t u i input)))"

section \<open>Customers\<close>

definition customers_list :: "'w api \<Rightarrow> request \<Rightarrow> json \<Rightarrow> (customer list, 'w) handler" where
  "customers_list A rq query = tenant_route A [CUSTOMERS_VIEW] rq (\<lambda>t u.
     with_body (listCustomersQuerySchema (api_json A)) query (\<lambda>q. on_read (\<lambda>s. Inr (listCustomers t q s))))"

definition customers_get :: "'w api \<Rightarrow> request \<Rightarrow> string \<Rightarrow> (customer_view, 'w) handler" where
  "customers_get A rq i = tenant_route A [CUSTOMERS_VIEW] rq (\<lambda>t u. on_read (getCustomer t i))"

definition customers_create :: "'w api \<Rightarrow> request \<Rightarrow> json \<Rightarrow> (customer, 'w) handler" where
  "customers_create A rq body = tenant_route A [CUSTOMERS_MANAGE] rq (\<lambda>t u.
     with_body (createCustomerSchema (api_formats A)) body
       (\<lambda>input. on_db (createCustomer (api_env A) (api_now A) t u input)))"

definition customers_patch :: "'w api \<Rightarrow> request \<Rightarrow> string \<Rightarrow> json \<Rightarrow> (unit, 'w) handler" where
  "customers_patch A rq i body = tenant_route A [CUSTOMERS_MANAGE] rq (\<lambda>t u.
     with_body (updateCustomerSchema (api_formats A)) body (\<lambda>input. on_db (updateCustomer (api_env A) t u i input)))"

section \<open>Expenses\<close>

definition expenses_list :: "'w api \<Rightarrow> request \<Rightarrow> json \<Rightarrow> (expense list, 'w) handler" where
  "expenses_list A rq query = tenant_route A [EXPENSES_VIEW] rq (\<lambda>t u.
     with_body (listExpensesQuerySchema (api_json A) (api_formats A)) query (\<lambda>q. on_read (\<lambda>s. Inr (listExpenses t q s))))"

definition expenses_create :: "'w api \<Rightarrow> request \<Rightarrow> json \<Rightarrow> (expense, 'w) handler" where
  "expenses_create A rq body = tenant_route A [EXPENSES_MANAGE] rq (\<lambda>t u.
     with_body (createExpenseSchema (api_formats A)) body (\<lambda>input. on_db (createExpense (api_env A) t u input)))"

definition expenses_categories :: "'w api \<Rightarrow> request \<Rightarrow> (expense_category list, 'w) handler" where
  "expenses_categories A rq = tenant_route A [EXPENSES_VIEW] rq (\<lambda>t u. on_read (\<lambda>s. Inr (listCategories t s)))"

definition expenses_createCategory :: "'w api \<Rightarrow> request \<Rightarrow> json \<Rightarrow> (expense_category, 'w) handler" where
  "expenses_createCategory A rq body = tenant_route A [EXPENSES_MANAGE] rq (\<lambda>t u.
     with_body createCategorySchema body (\<lambda>name. on_db (createCategory (api_env A) t name)))"

section \<open>Invoices and quotes\<close>

definition invoices_getPublic :: "string \<Rightarrow> (invoice, 'w) handler" where
  "invoices_getPublic token = on_read (getPublicInvoice token)"

definition invoices_list :: "'w api \<Rightarrow> request \<Rightarrow> (invoice list, 'w) handler" where
  "invoices_list A rq = tenant_route A [INVOICES_MANAGE] rq (\<lambda>t u. on_read (\<lambda>s. Inr (list_invoices t s)))"

definition invoices_get :: "'w api \<Rightarrow> request \<Rightarrow> string \<Rightarrow> (invoice, 'w) handler" where
  "invoices_get A rq i = tenant_route A [INVOICES_MANAGE] rq (\<lambda>t u. on_read (get_invoice t i))"

definition invoices_create :: "'w api \<Rightarrow> request \<Rightarrow> json \<Rightarrow> (invoice, 'w) handler" where
  "invoices_create A rq body = tenant_route A [INVOICES_MANAGE] rq (\<lambda>t u.
     with_body (createInvoiceSchema (api_formats A)) body
       (\<lambda>input. on_db (createInvoice (api_env A) (api_now A) (nat (getUTCFullYear (api_now A))) (\<lambda>_ s. s) t u input)))"

definition invoices_recordPayment :: "'w api \<Rightarrow> request \<Rightarrow> string \<Rightarrow> json \<Rightarrow> (invoice, 'w) handler" where
  "invoices_recordPayment A rq i body = tenant_route A [INVOICES_MANAGE] rq (\<lambda>t u.
     with_body recordInvoicePaymentSchema body (\<lambda>input. on_db (recordPayment (api_env A) (api_now A) t u i input)))"

definition invoices_void :: "'w api \<Rightarrow> request \<Rightarrow> string \<Rightarrow> (invoice, 'w) handler" where
  "invoices_void A rq i = tenant_route A [INVOICES_MANAGE] rq (\<lambda>t u. on_db (voidInvoice (api_env A) (api_now A) t u i))"

definition invoices_qr :: "'w api \<Rightarrow> request \<Rightarrow> string \<Rightarrow> (string \<times> string, 'w) handler" where
  "invoices_qr A rq i = tenant_route A [INVOICES_MANAGE] rq (\<lambda>t u. on_read (getQrCode (api_env A) (api_qr A) t i))"

definition invoices_send :: "'w api \<Rightarrow> request \<Rightarrow> string \<Rightarrow> json \<Rightarrow> (delivery_result, 'w) handler" where
  "invoices_send A rq i body = tenant_route A [INVOICES_MANAGE] rq (\<lambda>t u.
     with_body sendInvoiceSchema body (\<lambda>ch.
       on_db (send_invoice (api_env A) (api_amountText A) (api_email A) (api_sms A) t u i ch)))"

definition invoices_revokeLink :: "'w api \<Rightarrow> request \<Rightarrow> string \<Rightarrow> (invoice, 'w) handler" where
  "invoices_revokeLink A rq i = tenant_route A [INVOICES_MANAGE] rq (\<lambda>t u.
     on_db (revokePublicLink (api_env A) (api_now A) t u i))"

definition invoices_createQuote :: "'w api \<Rightarrow> request \<Rightarrow> json \<Rightarrow> (quote, 'w) handler" where
  "invoices_createQuote A rq body = tenant_route A [QUOTES_MANAGE] rq (\<lambda>t u.
     with_body (createQuoteSchema (api_formats A)) body (\<lambda>input. on_db (createQuote (api_env A) t input)))"

definition invoices_convertQuote :: "'w api \<Rightarrow> request \<Rightarrow> string \<Rightarrow> (invoice, 'w) handler" where
  "invoices_convertQuote A rq i = tenant_route A [QUOTES_MANAGE] rq (\<lambda>t u.
     on_db (convertQuoteToInvoice (api_env A) (api_now A) (nat (getUTCFullYear (api_now A))) (\<lambda>_ s. s) t u i))"

section \<open>Reports\<close>

definition reports_dashboard :: "'w api \<Rightarrow> request \<Rightarrow> string option \<Rightarrow> (dashboard, 'w) handler" where
  "reports_dashboard A rq branchId = tenant_route A [REPORTS_VIEW] rq (\<lambda>t u.
     on_read (getDashboard (api_env A) (api_now A) t branchId))"

definition reports_sales :: "'w api \<Rightarrow> request \<Rightarrow> json \<Rightarrow> (report_row list, 'w) handler" where
  "reports_sales A rq query = tenant_route A [REPORTS_VIEW] rq (\<lambda>t u.
     with_body (salesReportQuerySchema (api_formats A)) query (\<lambda>q.
       on_read (getSalesByPeriod (api_env A) t (rpq_from q) (rpq_to q) (rpq_groupBy q) (rpq_branchId q))))"

definition reports_salesCsv :: "'w api \<Rightarrow> request \<Rightarrow> json \<Rightarrow> (string, 'w) handler" where
  "reports_salesCsv A rq query = tenant_route A [REPORTS_VIEW] rq (\<lambda>t u.
     with_body (salesReportQuerySchema (api_formats A)) query (\<lambda>q.
       on_read (salesReportCsv (api_env A) t (rpq_from q) (rpq_to q) (rpq_groupBy q) (rpq_branchId q))))"

definition reports_inventoryValuation :: "'w api \<Rightarrow> request \<Rightarrow> (rat \<times> valued_item list, 'w) handler" where
  "reports_inventoryValuation A rq = tenant_route A [REPORTS_VIEW] rq (\<lambda>t u.
     on_read (getInventoryValuation (api_env A) t))"

section \<open>Billing and branches\<close>

definition billing_preview_route :: "'w api \<Rightarrow> request \<Rightarrow> json \<Rightarrow> (billing_preview, 'w) handler" where
  "billing_preview_route A rq body = tenant_route A [] rq (\<lambda>t u.
     with_body billingPreviewRequestSchema body (\<lambda>keys. on_read (previewBilling t keys)))"

definition subscription_with_items :: "string \<Rightarrow> db \<Rightarrow> (subscription \<times> subscription_item list) option" where
  "subscription_with_items t s =
     map_option (\<lambda>x. (x, filter (\<lambda>i. sit_subscriptionId i = sub_id x) (subscriptionItems s)))
       (List.find (\<lambda>x. sub_tenantId x = t) (subscriptions s))"

definition billing_getSubscription ::
  "'w api \<Rightarrow> request \<Rightarrow> ((subscription \<times> subscription_item list) option \<times> billing_preview, 'w) handler" where
  "billing_getSubscription A rq = tenant_route A [BILLING_MANAGE] rq (\<lambda>t u.
     on_read (\<lambda>s. bindE (previewBilling t [] s) (\<lambda>p. Inr (subscription_with_items t s, p))))"

definition billing_cancel :: "'w api \<Rightarrow> request \<Rightarrow> (unit, 'w) handler" where
  "billing_cancel A rq = tenant_route A [BILLING_MANAGE] rq (\<lambda>t u.
     cancelSubscription (api_env A) (api_billing A) (api_now A) t u)"

definition branches_list :: "'w api \<Rightarrow> request \<Rightarrow> ((branch \<times> stock_location list \<times> register list) list, 'w) handler" where
  "branches_list A rq = tenant_route A [] rq (\<lambda>t u. on_read (\<lambda>s. Inr (listBranches t s)))"

definition branches_create :: "'w api \<Rightarrow> request \<Rightarrow> json \<Rightarrow> (branch \<times> billing_preview, 'w) handler" where
  "branches_create A rq body = tenant_route A [BRANCHES_MANAGE] rq (\<lambda>t u.
     with_body createBranchSchema body (\<lambda>input. createBranch (api_env A) (api_billing A) (api_now A) t u input))"

definition branches_archive :: "'w api \<Rightarrow> request \<Rightarrow> string \<Rightarrow> (branch \<times> billing_preview, 'w) handler" where
  "branches_archive A rq i = tenant_route A [BRANCHES_MANAGE] rq (\<lambda>t u.
     archiveBranch (api_env A) (api_billing A) (api_now A) t u i)"

section \<open>Onboarding\<close>

definition onboarding_createTenant :: "'w api \<Rightarrow> request \<Rightarrow> json \<Rightarrow> (tenant \<times> branch, 'w) handler" where
  "onboarding_createTenant A rq body = session_route A rq (\<lambda>u.
     with_body createTenantOnboardingSchema body (\<lambda>input. on_db (createTenant (api_env A) (api_now A) u input)))"

definition onboarding_invite :: "'w api \<Rightarrow> request \<Rightarrow> json \<Rightarrow> (invitation, 'w) handler" where
  "onboarding_invite A rq body = tenant_route A [USERS_MANAGE] rq (\<lambda>t u.
     with_body (inviteUserSchema (api_formats A)) body (\<lambda>input. on_db (inviteUser (api_env A) (api_now A) t u input)))"

definition onboarding_acceptInvite :: "'w api \<Rightarrow> request \<Rightarrow> string \<Rightarrow> (string, 'w) handler" where
  "onboarding_acceptInvite A rq token = session_route A rq (\<lambda>u.
     acceptInvitation (api_env A) (api_billing A) (api_now A) token u)"

section \<open>Integrations\<close>

definition integrations_list :: "'w api \<Rightarrow> request \<Rightarrow> (connection_view list, 'w) handler" where
  "integrations_list A rq = tenant_route A [INTEGRATIONS_MANAGE] rq (\<lambda>t u. on_read (\<lambda>s. Inr (listConnections t s)))"

definition integrations_create :: "'w api \<Rightarrow> request \<Rightarrow> json \<Rightarrow> (connection_view, 'w) handler" where
  "integrations_create A rq body = tenant_route A [INTEGRATIONS_MANAGE] rq (\<lambda>t u.
     with_body (createCommerceConnectionSchema (api_formats A)) body
       (\<lambda>input. createConnection (api_integration A) (api_commerce A) (api_now A) t u input))"

definition integrations_health :: "'w api \<Rightarrow> request \<Rightarrow> string \<Rightarrow> (connection_health, 'w) handler" where
  "integrations_health A rq i = tenant_route A [INTEGRATIONS_MANAGE] rq (\<lambda>t u. on_read (getConnectionHealth t i))"

definition integrations_test :: "'w api \<Rightarrow> request \<Rightarrow> string \<Rightarrow> (health_result, 'w) handler" where
  "integrations_test A rq i = tenant_route A [INTEGRATIONS_MANAGE] rq (\<lambda>t u.
     testConnection (api_integration A) (api_commerce A) (api_now A) t i)"

definition integrations_disconnect :: "'w api \<Rightarrow> request \<Rightarrow> string \<Rightarrow> (connection_view, 'w) handler" where
  "integrations_disconnect A rq i = tenant_route A [INTEGRATIONS_MANAGE] rq (\<lambda>t u.
     on_db (disconnect (api_integration A) t u i))"

text \<open>The product pull may never answer (\<open>None\<close>), so the route is written out with its guards.\<close>

fun domain_text :: "sync_domain \<Rightarrow> string" where
  "domain_text DomPRODUCTS = ''PRODUCTS''"
| "domain_text DomINVENTORY = ''INVENTORY''"
| "domain_text DomORDERS = ''ORDERS''"
| "domain_text DomCUSTOMERS = ''CUSTOMERS''"

datatype sync_reply = Pulled nat | Pushed push_result

definition run_sync ::
  "'w api \<Rightarrow> string \<Rightarrow> string \<Rightarrow> string \<Rightarrow> sync_domain \<Rightarrow> db \<Rightarrow> 'w \<Rightarrow> ((error + sync_reply) \<times> db \<times> 'w) option" where
  "run_sync A t u i d s w =
     (case d of
        DomPRODUCTS \<Rightarrow> map_option (\<lambda>(r, s1, w1). (map_sum id Pulled r, s1, w1))
          (syncProducts (api_integration A) (api_commerce A) (api_now A) t u i s w)
      | DomINVENTORY \<Rightarrow> (case pushInventory (api_integration A) (api_commerce A) (api_now A) t u i s w of
          (r, s1, w1) \<Rightarrow> Some (map_sum id Pushed r, s1, w1))
      | _ \<Rightarrow> Some (Inl (BadRequest (''Sync domain '' @ domain_text d @ '' is not implemented in this phase'')), s, w))"

definition integrations_sync ::
  "'w api \<Rightarrow> request \<Rightarrow> string \<Rightarrow> json \<Rightarrow> db \<Rightarrow> 'w \<Rightarrow> ((error + sync_reply) \<times> db \<times> 'w) option" where
  "integrations_sync A rq i body s w =
     (case tenant_route A [INTEGRATIONS_MANAGE] rq (\<lambda>t u. with_body triggerSyncSchema body (\<lambda>d. on_read (\<lambda>s. Inr (t, u, d)))) s w of
        (Inl e, s1, w1) \<Rightarrow> Some (Inl e, s1, w1)
      | (Inr (t, u, d), s1, w1) \<Rightarrow> run_sync A t u i d s1 w1)"

definition integrations_webhook :: "'w api \<Rightarrow> string \<Rightarrow> raw_webhook \<Rightarrow> (bool, 'w) handler" where
  "integrations_webhook A i req = on_db (handleWebhook (api_integration A) (api_commerce A) (api_now A) i req)"

section \<open>Platform administration\<close>

definition admin_searchTenants ::
  "'w api \<Rightarrow> request \<Rightarrow> string option \<Rightarrow> ((tenant \<times> subscription option \<times> nat \<times> nat) list, 'w) handler" where
  "admin_searchTenants A rq search = admin_route A rq (\<lambda>u. on_read (\<lambda>s. Inr (searchTenants search s)))"

definition admin_getTenant :: "'w api \<Rightarrow> request \<Rightarrow> string \<Rightarrow> (tenant_view, 'w) handler" where
  "admin_getTenant A rq i = admin_route A rq (\<lambda>u. on_read (getTenant i))"

definition admin_metrics :: "'w api \<Rightarrow> request \<Rightarrow> (platform_metrics, 'w) handler" where
  "admin_metrics A rq = admin_route A rq (\<lambda>u. on_read (\<lambda>s. Inr (metrics s)))"

definition admin_pricingCatalog :: "'w api \<Rightarrow> request \<Rightarrow> (pricing_item list, 'w) handler" where
  "admin_pricingCatalog A rq = admin_route A rq (\<lambda>u. on_read (\<lambda>s. Inr (listPricingCatalog s)))"

definition admin_updatePricingItem :: "'w api \<Rightarrow> request \<Rightarrow> string \<Rightarrow> json \<Rightarrow> (unit, 'w) handler" where
  "admin_updatePricingItem A rq i body = admin_route A rq (\<lambda>u.
     with_body updatePricingItemSchema body (\<lambda>input. on_db (updatePricingItem (api_env A) u i input)))"

definition admin_createAddOn :: "'w api \<Rightarrow> request \<Rightarrow> json \<Rightarrow> (pricing_item, 'w) handler" where
  "admin_createAddOn A rq body = admin_route A rq (\<lambda>u.
     with_body createAddOnSchema body (\<lambda>input. on_db (createAddOn (api_env A) u input)))"

section \<open>The routes\<close>

datatype (plugins only: ) route =
    SalesList json
  | SalesGet string
  | SalesCreate json
  | SalesRefund string json
  | SalesVoid string
  | InventoryAdjust json
  | InventoryTransfer json
  | InventoryMovements string string
  | CatalogList json
  | CatalogGet string
  | CatalogVariantQr string
  | CatalogCreate json
  | CatalogUpdate string json
  | CustomersList json
  | CustomersGet string
  | CustomersCreate json
  | CustomersUpdate string json
  | ExpensesList json
  | ExpensesCreate json
  | ExpensesCategories
  | ExpensesCreateCategory json
  | InvoicesGetPublic string
  | InvoicesList
  | InvoicesGet string
  | InvoicesCreate json
  | InvoicesRecordPayment string json
  | InvoicesVoid string
  | InvoicesQr string
  | InvoicesSend string json
  | InvoicesRevokeLink string
  | QuotesCreate json
  | QuotesConvert string
  | ReportsDashboard "string option"
  | ReportsSales json
  | ReportsSalesCsv json
  | ReportsInventoryValuation
  | BillingPreview json
  | BillingSubscription
  | BillingCancel
  | BranchesList
  | BranchesCreate json
  | BranchesArchive string
  | OnboardingTenant json
  | OnboardingInvite json
  | OnboardingAccept string
  | ConnectionsList
  | ConnectionsCreate json
  | ConnectionsHealth string
  | ConnectionsTest string
  | ConnectionsDisconnect string
  | ConnectionsSync string json
  | StoreWebhook string raw_webhook
  | AdminTenants "string option"
  | AdminTenant string
  | AdminMetrics
  | AdminPricingCatalog
  | AdminUpdatePricing string json
  | AdminCreateAddOn json

text \<open>Who may call a route, as its decorators declare it.\<close>

datatype access = Open | Signed_in | Member "permission list" | Platform

primrec route_access :: "route \<Rightarrow> access" where
  "route_access (SalesList _) = Member [SALES_VIEW]"
| "route_access (SalesGet _) = Member [SALES_VIEW]"
| "route_access (SalesCreate _) = Member [SALES_CREATE]"
| "route_access (SalesRefund _ _) = Member [SALES_REFUND]"
| "route_access (SalesVoid _) = Member [SALES_VOID]"
| "route_access (InventoryAdjust _) = Member [INVENTORY_ADJUST]"
| "route_access (InventoryTransfer _) = Member [INVENTORY_TRANSFER]"
| "route_access (InventoryMovements _ _) = Member [INVENTORY_VIEW]"
| "route_access (CatalogList _) = Member [INVENTORY_VIEW]"
| "route_access (CatalogGet _) = Member [INVENTORY_VIEW]"
| "route_access (CatalogVariantQr _) = Member [INVENTORY_VIEW]"
| "route_access (CatalogCreate _) = Member [PRODUCTS_MANAGE]"
| "route_access (CatalogUpdate _ _) = Member [PRODUCTS_MANAGE]"
| "route_access (CustomersList _) = Member [CUSTOMERS_VIEW]"
| "route_access (CustomersGet _) = Member [CUSTOMERS_VIEW]"
| "route_access (CustomersCreate _) = Member [CUSTOMERS_MANAGE]"
| "route_access (CustomersUpdate _ _) = Member [CUSTOMERS_MANAGE]"
| "route_access (ExpensesList _) = Member [EXPENSES_VIEW]"
| "route_access (ExpensesCreate _) = Member [EXPENSES_MANAGE]"
| "route_access ExpensesCategories = Member [EXPENSES_VIEW]"
| "route_access (ExpensesCreateCategory _) = Member [EXPENSES_MANAGE]"
| "route_access (InvoicesGetPublic _) = Open"
| "route_access InvoicesList = Member [INVOICES_MANAGE]"
| "route_access (InvoicesGet _) = Member [INVOICES_MANAGE]"
| "route_access (InvoicesCreate _) = Member [INVOICES_MANAGE]"
| "route_access (InvoicesRecordPayment _ _) = Member [INVOICES_MANAGE]"
| "route_access (InvoicesVoid _) = Member [INVOICES_MANAGE]"
| "route_access (InvoicesQr _) = Member [INVOICES_MANAGE]"
| "route_access (InvoicesSend _ _) = Member [INVOICES_MANAGE]"
| "route_access (InvoicesRevokeLink _) = Member [INVOICES_MANAGE]"
| "route_access (QuotesCreate _) = Member [QUOTES_MANAGE]"
| "route_access (QuotesConvert _) = Member [QUOTES_MANAGE]"
| "route_access (ReportsDashboard _) = Member [REPORTS_VIEW]"
| "route_access (ReportsSales _) = Member [REPORTS_VIEW]"
| "route_access (ReportsSalesCsv _) = Member [REPORTS_VIEW]"
| "route_access ReportsInventoryValuation = Member [REPORTS_VIEW]"
| "route_access (BillingPreview _) = Member []"
| "route_access BillingSubscription = Member [BILLING_MANAGE]"
| "route_access BillingCancel = Member [BILLING_MANAGE]"
| "route_access BranchesList = Member []"
| "route_access (BranchesCreate _) = Member [BRANCHES_MANAGE]"
| "route_access (BranchesArchive _) = Member [BRANCHES_MANAGE]"
| "route_access (OnboardingTenant _) = Signed_in"
| "route_access (OnboardingInvite _) = Member [USERS_MANAGE]"
| "route_access (OnboardingAccept _) = Signed_in"
| "route_access ConnectionsList = Member [INTEGRATIONS_MANAGE]"
| "route_access (ConnectionsCreate _) = Member [INTEGRATIONS_MANAGE]"
| "route_access (ConnectionsHealth _) = Member [INTEGRATIONS_MANAGE]"
| "route_access (ConnectionsTest _) = Member [INTEGRATIONS_MANAGE]"
| "route_access (ConnectionsDisconnect _) = Member [INTEGRATIONS_MANAGE]"
| "route_access (ConnectionsSync _ _) = Member [INTEGRATIONS_MANAGE]"
| "route_access (StoreWebhook _ _) = Open"
| "route_access (AdminTenants _) = Platform"
| "route_access (AdminTenant _) = Platform"
| "route_access AdminMetrics = Platform"
| "route_access AdminPricingCatalog = Platform"
| "route_access (AdminUpdatePricing _ _) = Platform"
| "route_access (AdminCreateAddOn _) = Platform"

definition answered :: "(error + 'a) \<times> db \<times> 'w \<Rightarrow> ((error + unit) \<times> db \<times> 'w) option" where
  "answered x = (case x of (r, s, w) \<Rightarrow> Some (map_sum id (\<lambda>_. ()) r, s, w))"

primrec serve :: "'w api \<Rightarrow> request \<Rightarrow> route \<Rightarrow> db \<Rightarrow> 'w \<Rightarrow> ((error + unit) \<times> db \<times> 'w) option" where
  "serve A rq (SalesList x) s w = answered (sales_list A rq x s w)"
| "serve A rq (SalesGet x) s w = answered (sales_get A rq x s w)"
| "serve A rq (SalesCreate x) s w = answered (sales_create A rq x s w)"
| "serve A rq (SalesRefund x y) s w = answered (sales_refund A rq x y s w)"
| "serve A rq (SalesVoid x) s w = answered (sales_void A rq x s w)"
| "serve A rq (InventoryAdjust x) s w = answered (inventory_adjust A rq x s w)"
| "serve A rq (InventoryTransfer x) s w = answered (inventory_transfer A rq x s w)"
| "serve A rq (InventoryMovements x y) s w = answered (inventory_movements A rq x y s w)"
| "serve A rq (CatalogList x) s w = answered (catalog_list A rq x s w)"
| "serve A rq (CatalogGet x) s w = answered (catalog_get A rq x s w)"
| "serve A rq (CatalogVariantQr x) s w = answered (catalog_variantQr A rq x s w)"
| "serve A rq (CatalogCreate x) s w = answered (catalog_create A rq x s w)"
| "serve A rq (CatalogUpdate x y) s w = answered (catalog_update A rq x y s w)"
| "serve A rq (CustomersList x) s w = answered (customers_list A rq x s w)"
| "serve A rq (CustomersGet x) s w = answered (customers_get A rq x s w)"
| "serve A rq (CustomersCreate x) s w = answered (customers_create A rq x s w)"
| "serve A rq (CustomersUpdate x y) s w = answered (customers_patch A rq x y s w)"
| "serve A rq (ExpensesList x) s w = answered (expenses_list A rq x s w)"
| "serve A rq (ExpensesCreate x) s w = answered (expenses_create A rq x s w)"
| "serve A rq ExpensesCategories s w = answered (expenses_categories A rq s w)"
| "serve A rq (ExpensesCreateCategory x) s w = answered (expenses_createCategory A rq x s w)"
| "serve A rq (InvoicesGetPublic x) s w = answered (invoices_getPublic x s w)"
| "serve A rq InvoicesList s w = answered (invoices_list A rq s w)"
| "serve A rq (InvoicesGet x) s w = answered (invoices_get A rq x s w)"
| "serve A rq (InvoicesCreate x) s w = answered (invoices_create A rq x s w)"
| "serve A rq (InvoicesRecordPayment x y) s w = answered (invoices_recordPayment A rq x y s w)"
| "serve A rq (InvoicesVoid x) s w = answered (invoices_void A rq x s w)"
| "serve A rq (InvoicesQr x) s w = answered (invoices_qr A rq x s w)"
| "serve A rq (InvoicesSend x y) s w = answered (invoices_send A rq x y s w)"
| "serve A rq (InvoicesRevokeLink x) s w = answered (invoices_revokeLink A rq x s w)"
| "serve A rq (QuotesCreate x) s w = answered (invoices_createQuote A rq x s w)"
| "serve A rq (QuotesConvert x) s w = answered (invoices_convertQuote A rq x s w)"
| "serve A rq (ReportsDashboard x) s w = answered (reports_dashboard A rq x s w)"
| "serve A rq (ReportsSales x) s w = answered (reports_sales A rq x s w)"
| "serve A rq (ReportsSalesCsv x) s w = answered (reports_salesCsv A rq x s w)"
| "serve A rq ReportsInventoryValuation s w = answered (reports_inventoryValuation A rq s w)"
| "serve A rq (BillingPreview x) s w = answered (billing_preview_route A rq x s w)"
| "serve A rq BillingSubscription s w = answered (billing_getSubscription A rq s w)"
| "serve A rq BillingCancel s w = answered (billing_cancel A rq s w)"
| "serve A rq BranchesList s w = answered (branches_list A rq s w)"
| "serve A rq (BranchesCreate x) s w = answered (branches_create A rq x s w)"
| "serve A rq (BranchesArchive x) s w = answered (branches_archive A rq x s w)"
| "serve A rq (OnboardingTenant x) s w = answered (onboarding_createTenant A rq x s w)"
| "serve A rq (OnboardingInvite x) s w = answered (onboarding_invite A rq x s w)"
| "serve A rq (OnboardingAccept x) s w = answered (onboarding_acceptInvite A rq x s w)"
| "serve A rq ConnectionsList s w = answered (integrations_list A rq s w)"
| "serve A rq (ConnectionsCreate x) s w = answered (integrations_create A rq x s w)"
| "serve A rq (ConnectionsHealth x) s w = answered (integrations_health A rq x s w)"
| "serve A rq (ConnectionsTest x) s w = answered (integrations_test A rq x s w)"
| "serve A rq (ConnectionsDisconnect x) s w = answered (integrations_disconnect A rq x s w)"
| "serve A rq (ConnectionsSync x y) s w = Option.bind (integrations_sync A rq x y s w) answered"
| "serve A rq (StoreWebhook x y) s w = answered (integrations_webhook A x y s w)"
| "serve A rq (AdminTenants x) s w = answered (admin_searchTenants A rq x s w)"
| "serve A rq (AdminTenant x) s w = answered (admin_getTenant A rq x s w)"
| "serve A rq AdminMetrics s w = answered (admin_metrics A rq s w)"
| "serve A rq AdminPricingCatalog s w = answered (admin_pricingCatalog A rq s w)"
| "serve A rq (AdminUpdatePricing x y) s w = answered (admin_updatePricingItem A rq x y s w)"
| "serve A rq (AdminCreateAddOn x) s w = answered (admin_createAddOn A rq x s w)"

end
