(* ===== verification/Tenant_Isolation.thy ===== *)
theory Tenant_Isolation
  imports Api_Routes
begin

text \<open>
  What an operation may touch: \<open>isolated ten s t\<close> says that between the databases \<open>s\<close>
  and \<open>t\<close> the rows of every tenant but \<open>ten\<close> are the same in every table that carries a
  tenant, and the lemmas of \<open>isolation\<close> show it of each service operation called for
  \<open>ten\<close>. The balance of a customer is left out of the comparison: a sale on credit charges the
  customer it names, whose tenant the sales service does not check.
\<close>

section \<open>The rows of the other tenants\<close>

definition of_others :: "('r \<Rightarrow> string) \<Rightarrow> string \<Rightarrow> 'r list \<Rightarrow> 'r list" where
  "of_others tid ten rows = filter (\<lambda>r. tid r \<noteq> ten) rows"

lemma of_others_Nil [simp]: "of_others tid ten [] = []"
  by (simp add: of_others_def)

lemma of_others_append [simp]: "of_others tid ten (xs @ ys) = of_others tid ten xs @ of_others tid ten ys"
  by (simp add: of_others_def)

lemma of_others_own [simp]: "tid x = ten \<Longrightarrow> of_others tid ten (x # xs) = of_others tid ten xs"
  by (simp add: of_others_def)

lemma of_others_update:
  assumes "\<And>x. x \<in> set xs \<Longrightarrow> P x \<Longrightarrow> tid x = ten" "\<And>x. tid (f x) = tid x"
  shows "of_others tid ten (update_where P f xs) = of_others tid ten xs"
  using assms unfolding of_others_def by (induction xs) auto

text \<open>A row found by its key and its tenant: every row with that key is the tenant's.\<close>

lemma own_row_only:
  assumes "distinct (map key xs)" "List.find (\<lambda>x. key x = i \<and> tid x = ten) xs = Some y" "x \<in> set xs" "key x = i"
  shows "tid x = ten"
  using assms find_SomeD [OF assms(2)] by (metis distinct_keyD)

lemma own_row_exists:
  assumes "distinct (map key xs)" "list_ex (\<lambda>x. key x = i \<and> tid x = ten) xs" "x \<in> set xs" "key x = i"
  shows "tid x = ten"
  using assms by (auto simp: list_ex_iff dest: distinct_keyD)

definition uncharged :: "customer \<Rightarrow> customer" where
  "uncharged c = c\<lparr>cus_balance := 0\<rparr>"

definition isolated :: "string \<Rightarrow> db \<Rightarrow> db \<Rightarrow> bool" where
  "isolated ten s t \<longleftrightarrow>
     of_others ten_id ten (tenants t) = of_others ten_id ten (tenants s) \<and>
     of_others sub_tenantId ten (subscriptions t) = of_others sub_tenantId ten (subscriptions s) \<and>
     of_others mem_tenantId ten (memberships t) = of_others mem_tenantId ten (memberships s) \<and>
     of_others ivt_tenantId ten (invitations t) = of_others ivt_tenantId ten (invitations s) \<and>
     of_others br_tenantId ten (branches t) = of_others br_tenantId ten (branches s) \<and>
     of_others loc_tenantId ten (stockLocations t) = of_others loc_tenantId ten (stockLocations s) \<and>
     of_others reg_tenantId ten (registers t) = of_others reg_tenantId ten (registers s) \<and>
     of_others prd_tenantId ten (products t) = of_others prd_tenantId ten (products s) \<and>
     of_others var_tenantId ten (productVariants t) = of_others var_tenantId ten (productVariants s) \<and>
     of_others mov_tenantId ten (inventoryMovements t) = of_others mov_tenantId ten (inventoryMovements s) \<and>
     of_others bal_tenantId ten (inventoryBalances t) = of_others bal_tenantId ten (inventoryBalances s) \<and>
     of_others trf_tenantId ten (stockTransfers t) = of_others trf_tenantId ten (stockTransfers s) \<and>
     map uncharged (of_others cus_tenantId ten (customers t)) = map uncharged (of_others cus_tenantId ten (customers s)) \<and>
     of_others sale_tenantId ten (sales t) = of_others sale_tenantId ten (sales s) \<and>
     of_others qt_tenantId ten (quotes t) = of_others qt_tenantId ten (quotes s) \<and>
     of_others inv_tenantId ten (invoices t) = of_others inv_tenantId ten (invoices s) \<and>
     of_others ec_tenantId ten (expenseCategories t) = of_others ec_tenantId ten (expenseCategories s) \<and>
     of_others exp_tenantId ten (expenses t) = of_others exp_tenantId ten (expenses s) \<and>
     of_others con_tenantId ten (commerceConnections t) = of_others con_tenantId ten (commerceConnections s)"

lemma isolated_refl [simp, intro]: "isolated ten s s"
  by (simp add: isolated_def)

lemma isolated_trans: "isolated ten s t \<Longrightarrow> isolated ten t u \<Longrightarrow> isolated ten s u"
  unfolding isolated_def by presburger

lemma isolated_audit [simp]: "isolated ten s (audit_record E i t) \<longleftrightarrow> isolated ten s t"
  by (simp add: isolated_def)

lemma isolated_publish [simp]: "isolated ten s (publish E now i t) \<longleftrightarrow> isolated ten s t"
  by (simp add: isolated_def)

lemma isolated_run_tx:
  assumes "\<And>x t. body s = Inr (x, t) \<Longrightarrow> isolated ten s t"
  shows "isolated ten s (snd (run_tx body s))"
  using assms by (auto simp: run_tx_def split: sum.split)

section \<open>The key constraints of the schema\<close>

definition row_keys :: "db \<Rightarrow> bool" where
  "row_keys s \<longleftrightarrow> distinct (map prd_id (products s)) \<and> distinct (map cus_id (customers s)) \<and>
     distinct (map sale_id (sales s)) \<and> distinct (map inv_id (invoices s)) \<and> distinct (map qt_id (quotes s)) \<and>
     distinct (map con_id (commerceConnections s))"

text \<open>Every balance is kept under the tenant of its location.\<close>

definition balances_owned :: "string \<Rightarrow> string \<Rightarrow> db \<Rightarrow> bool" where
  "balances_owned ten loc s \<longleftrightarrow> (\<forall>b\<in>set (inventoryBalances s). bal_stockLocationId b = loc \<longrightarrow> bal_tenantId b = ten)"

definition stock_owned :: "db \<Rightarrow> bool" where
  "stock_owned s \<longleftrightarrow> (\<forall>l\<in>set (stockLocations s). balances_owned (loc_tenantId l) (loc_id l) s)"

section \<open>Stock movements\<close>

lemma upsert_balance_isolated:
  assumes "balances_owned (mi_tenantId i) (mi_stockLocationId i) s"
  shows "of_others bal_tenantId (mi_tenantId i) (inventoryBalances (snd (upsert_balance E i s)))
     = of_others bal_tenantId (mi_tenantId i) (inventoryBalances s)"
  using assms
  by (auto simp: upsert_balance_def balances_owned_def at_cell_def Let_def split: option.split intro!: of_others_update)

lemma recordMovement_connections [simp]:
  "commerceConnections (snd (recordMovement E now i s)) = commerceConnections s"
  by (auto simp: recordMovement_unfold maybePublishLowStockAlert_def upsert_balance_def Let_def split: option.split)

lemma recordMovement_isolated:
  assumes "balances_owned (mi_tenantId i) (mi_stockLocationId i) s"
  shows "isolated (mi_tenantId i) s (snd (recordMovement E now i s))"
proof (cases "existing_movement i s")
  case None
  have b: "inventoryBalances (snd (recordMovement E now i s)) = inventoryBalances (snd (upsert_balance E i s))"
    "of_others mov_tenantId (mi_tenantId i) (inventoryMovements (snd (recordMovement E now i s)))
       = of_others mov_tenantId (mi_tenantId i) (inventoryMovements s)"
    by (simp_all add: recordMovement_unfold None Let_def)
  show ?thesis using upsert_balance_isolated [OF assms, of E] by (simp add: isolated_def b)
qed (simp add: recordMovement_unfold)

lemma recordMovement_owned:
  assumes "balances_owned ten loc s" "mi_stockLocationId i = loc \<Longrightarrow> mi_tenantId i = ten"
  shows "balances_owned ten loc (snd (recordMovement E now i s))"
  using assms
  by (auto simp: recordMovement_unfold Let_def upsert_balance_def balances_owned_def at_cell_def update_where_def
      split: option.split)

lemma sale_movements_isolated:
  "balances_owned t (csi_stockLocationId input) s \<Longrightarrow> isolated t s (sale_movements E now t actor input sid ls s)"
proof (induction ls arbitrary: s)
  case (Cons l ls)
  let ?m = "sale_movement t actor input sid l"
  have m: "mi_tenantId ?m = t" "mi_stockLocationId ?m = csi_stockLocationId input" by (simp_all add: sale_movement_def)
  with Cons.prems have "isolated t s (snd (recordMovement E now ?m s))"
    "balances_owned t (csi_stockLocationId input) (snd (recordMovement E now ?m s))"
    using recordMovement_isolated [of ?m s] recordMovement_owned [of t "csi_stockLocationId input" s ?m] by simp_all
  with Cons.IH show ?case by (auto intro: isolated_trans)
qed simp

lemma restock_isolated:
  "balances_owned t (loc_id loc) s \<Longrightarrow> isolated t s (restock E now t actor sale loc rid ls s)"
proof (induction ls arbitrary: s)
  case (Cons l ls)
  let ?m = "restock_movement t actor sale loc rid l"
  have m: "mi_tenantId ?m = t" "mi_stockLocationId ?m = loc_id loc" by (simp_all add: restock_movement_def)
  with Cons.prems have "isolated t s (snd (recordMovement E now ?m s))"
    "balances_owned t (loc_id loc) (snd (recordMovement E now ?m s))"
    using recordMovement_isolated [of ?m s] recordMovement_owned [of t "loc_id loc" s ?m] by simp_all
  with Cons.IH show ?case by (auto intro: isolated_trans)
qed simp

lemma transfer_lines_isolated:
  "balances_owned t (loc_id a) s \<Longrightarrow> balances_owned t (loc_id b) s \<Longrightarrow>
     isolated t s (transfer_lines E now t actor trf a b ls s)"
proof (induction ls arbitrary: s)
  case (Cons l ls)
  let ?m = "transfer_leg t actor trf a TRANSFER_DISPATCH (tl_variantId l) (- tl_quantity l)"
  let ?n = "transfer_leg t actor trf b TRANSFER_RECEIPT (tl_variantId l) (tl_quantity l)"
  let ?s = "snd (recordMovement E now ?m s)"
  have m: "mi_tenantId ?m = t" "mi_stockLocationId ?m = loc_id a" "mi_tenantId ?n = t" "mi_stockLocationId ?n = loc_id b"
    by (simp_all add: transfer_leg_def)
  have s: "isolated t s ?s" "balances_owned t (loc_id a) ?s" "balances_owned t (loc_id b) ?s"
    using recordMovement_isolated [of ?m s] Cons.prems by (simp_all add: m recordMovement_owned)
  have n: "isolated t ?s (snd (recordMovement E now ?n ?s))"
    "balances_owned t (loc_id a) (snd (recordMovement E now ?n ?s))"
    "balances_owned t (loc_id b) (snd (recordMovement E now ?n ?s))"
    using recordMovement_isolated [of ?n ?s] s by (simp_all add: m recordMovement_owned)
  show ?case using Cons.IH [OF n(2,3)] s(1) n(1) by (auto simp: Let_def intro: isolated_trans)
qed simp

lemma balances_owned_same: "inventoryBalances t = inventoryBalances s \<Longrightarrow> balances_owned ten loc t = balances_owned ten loc s"
  by (simp add: balances_owned_def)

lemma found_location_owned:
  assumes "stock_owned s" "List.find (\<lambda>l. P l \<and> loc_tenantId l = ten) (stockLocations s) = Some l"
  shows "balances_owned ten (loc_id l) s"
  using assms find_SomeD [OF assms(2)] by (auto simp: stock_owned_def)

lemma adjustStock_isolated:
  assumes "stock_owned s" shows "isolated t s (snd (adjustStock E now t actor input s))"
proof -
  have "isolated t s (snd (recordMovement E now m s))"
    if "List.find (\<lambda>l. loc_id l = adj_stockLocationId input \<and> loc_tenantId l = t) (stockLocations s) = Some l"
      "mi_tenantId m = t" "mi_stockLocationId m = adj_stockLocationId input" for l m
    using that recordMovement_isolated [of m s] found_location_owned [OF assms that(1)] find_SomeD [OF that(1)] by simp
  then show ?thesis
    by (auto simp: adjustStock_def Let_def case_prod_unfold split: option.split intro!: isolated_run_tx)
qed

lemma transferStock_isolated:
  assumes "stock_owned s" shows "isolated t s (snd (transferStock E now t actor input s))"
proof -
  have "isolated t s (transfer_lines E now t actor trf a b ls (s\<lparr>stockTransfers := stockTransfers s @ [x], seq := n\<rparr>))"
    if "List.find (\<lambda>l. loc_id l = i \<and> loc_tenantId l = t) (stockLocations s) = Some a"
      "List.find (\<lambda>l. loc_id l = j \<and> loc_tenantId l = t) (stockLocations s) = Some b" "trf_tenantId x = t" for a b i j x n trf ls
  proof (rule isolated_trans)
    show "isolated t s (s\<lparr>stockTransfers := stockTransfers s @ [x], seq := n\<rparr>)" using that(3) by (simp add: isolated_def)
  qed (use found_location_owned [OF assms] that in \<open>auto simp: balances_owned_same [of "s\<lparr>stockTransfers := _, seq := _\<rparr>" s]
        intro!: transfer_lines_isolated\<close>)
  then show ?thesis by (auto simp: transferStock_def Let_def split: option.split intro!: isolated_run_tx)
qed

section \<open>Sales\<close>

lemma charge_others [simp]:
  "map uncharged (of_others cus_tenantId ten (update_where P (\<lambda>x. x\<lparr>cus_balance := g x\<rparr>) xs)) =
     map uncharged (of_others cus_tenantId ten xs)"
  by (induction xs) (simp_all add: of_others_def uncharged_def update_where_def)

lemma charge_customer_isolated:
  assumes "charge_customer E input s = Inr t" shows "isolated ten s t"
proof (cases "csi_customerId input = None \<or> csi_customerId input = Some []")
  case True
  with assms show ?thesis by (auto simp: charge_customer_def)
next
  case False
  then obtain c where c: "csi_customerId input = Some c" "c \<noteq> []" by auto
  with assms obtain q where "(if money_isZero q then Inr s
      else if taken cus_id c (customers s)
      then Inr (s\<lparr>customers := update_where (\<lambda>x. cus_id x = c)
             (\<lambda>x. x\<lparr>cus_balance := cus_balance x + toDecimalString E q\<rparr>) (customers s)\<rparr>)
      else Inl (RecordNotFound ''Customer'')) = Inr t"
    unfolding charge_customer_def c(1) option.case if_not_P [OF c(2)] bindE_Inr_iff by blast
  then show ?thesis by (auto simp: isolated_def split: if_splits)
qed

lemma createSale_isolated:
  assumes "stock_owned s" shows "isolated t s (snd (createSale E now t actor input s))"
proof -
  have "isolated t s u" if tx: "sale_tx E now t actor input tt g s = Inr (x, u)"
    and loc: "List.find (\<lambda>l. loc_id l = csi_stockLocationId input \<and> loc_tenantId l = t \<and>
        loc_branchId l = csi_branchId input) (stockLocations s) = Some l" for tt g x u l
  proof -
    let ?x = "sale_row E now t actor input tt g (uuid E (seq s))"
    let ?s1 = "s\<lparr>sales := sales s @ [?x], seq := Suc (seq s)\<rparr>"
    obtain s3 where c: "charge_customer E input
        (sale_movements E now t actor input (sale_id ?x) (st_lines tt) ?s1) = Inr s3" and u: "isolated t s3 u"
      using tx by (auto simp: sale_tx_def insert_sale_def err_simps Let_def)
    have "balances_owned t (csi_stockLocationId input) ?s1"
      using assms find_SomeD [OF loc] by (auto simp: stock_owned_def balances_owned_def)
    then have "isolated t ?s1 s3"
      using charge_customer_isolated [OF c] sale_movements_isolated by (blast intro: isolated_trans)
    moreover have "isolated t s ?s1" by (simp add: isolated_def sale_row_def)
    ultimately show ?thesis using u by (blast intro: isolated_trans)
  qed
  then show ?thesis
    by (auto simp: createSale_def run_tx_def split: option.split sum.split)
qed

lemma refundSale_isolated:
  assumes "stock_owned s" "distinct (map sale_id (sales s))"
  shows "isolated t s (snd (refundSale E now t actor i input s))"
proof -
  have "isolated t s u" if tx: "refund_tx E now t actor input x a full s = Inr (r, u)"
    and x: "List.find (\<lambda>x. sale_id x = i \<and> sale_tenantId x = t) (sales s) = Some x" for x a full r u
  proof -
    let ?s1 = "s\<lparr>sales := update_where (\<lambda>y. sale_id y = sale_id x)
        (\<lambda>x. x\<lparr>sale_refunds := sale_refunds x @ [r], sale_status := (if full then SaleREFUNDED else SalePARTIALLY_REFUNDED)\<rparr>)
        (sales s), seq := Suc (seq s)\<rparr>"
    have own: "y \<in> set (sales s) \<Longrightarrow> sale_id y = sale_id x \<Longrightarrow> sale_tenantId y = t" for y
      using own_row_only [OF assms(2) x, of y] find_SomeD [OF x] by simp
    then have 1: "isolated t s ?s1" by (simp add: isolated_def of_others_update)
    have 2: "isolated t ?s1 (restock E now t actor x l rid ls ?s1)"
      if "List.find (\<lambda>l. loc_tenantId l = t \<and> loc_branchId l = sale_branchId x \<and> loc_isDefault l) (stockLocations s) = Some l" for l rid ls
      using assms(1) find_SomeD [OF that] by (intro restock_isolated) (auto simp: stock_owned_def balances_owned_def)
    from tx have "isolated t ?s1 u"
      using 2 by (auto simp: refund_tx_def Let_def err_simps split: if_splits option.splits)
    with 1 show ?thesis by (rule isolated_trans)
  qed
  then show ?thesis by (auto simp: refundSale_def run_tx_def split: option.split sum.split)
qed

lemma voidSale_isolated:
  assumes "distinct (map sale_id (sales s))" shows "isolated t s (snd (voidSale E now t actor i s))"
proof (cases "List.find (\<lambda>x. sale_id x = i \<and> sale_tenantId x = t) (sales s)")
  case (Some x)
  then show ?thesis using own_row_only [OF assms Some]
    by (auto simp: voidSale_def Let_def isolated_def intro!: of_others_update)
qed (simp add: voidSale_def)

section \<open>Catalog, customers and expenses\<close>

lemma createProduct_isolated: "isolated t s (snd (createProduct E now t actor input s))"
proof -
  have step: "isolated t s u" if "foldE (insert_variant E t pid) vs s = Inr u" for pid vs s u
    using that
    by (rule foldE_invariant [where I = "isolated t s"])
       (auto simp: insert_variant_def new_variant_def err_simps isolated_def)
  have "isolated t s u" if tx: "create_product_tx E now t actor input s = Inr (p, u)" for p u
  proof -
    obtain s1 where s1: "foldE (insert_variant E t (prd_id p)) (pin_variants input)
        (s\<lparr>products := products s @ [p], seq := Suc (seq s)\<rparr>) = Inr s1" "isolated t s1 u" "prd_tenantId p = t"
      using tx by (auto simp: create_product_tx_def Let_def err_simps)
    moreover have "isolated t s (s\<lparr>products := products s @ [p], seq := Suc (seq s)\<rparr>)" using s1(3) by (simp add: isolated_def)
    ultimately show ?thesis using step by (blast intro: isolated_trans)
  qed
  then show ?thesis by (auto simp: createProduct_def Let_def intro!: isolated_run_tx)
qed

lemma updateProduct_isolated:
  "distinct (map prd_id (products s)) \<Longrightarrow> isolated t s (snd (updateProduct E t actor i input s))"
  using own_row_exists [of prd_id "products s" i prd_tenantId t]
  by (auto simp: updateProduct_def isolated_def intro!: of_others_update)

lemma createCustomer_isolated: "isolated t s (snd (createCustomer E now t actor input s))"
  by (simp add: createCustomer_def Let_def isolated_def)

lemma updateCustomer_isolated:
  assumes "distinct (map cus_id (customers s))" shows "isolated t s (snd (updateCustomer E t actor i input s))"
proof -
  have "of_others cus_tenantId t (update_where (\<lambda>c. cus_id c = i) f (customers s)) = of_others cus_tenantId t (customers s)"
    if "list_ex (\<lambda>c. cus_id c = i \<and> cus_tenantId c = t) (customers s)" "\<And>c. cus_tenantId (f c) = cus_tenantId c" for f
    using own_row_exists [OF assms that(1)] that(2) by (auto intro!: of_others_update)
  then show ?thesis by (auto simp: updateCustomer_def isolated_def)
qed

lemma createExpense_isolated: "isolated t s (snd (createExpense E t actor input s))"
  by (simp add: createExpense_def Let_def isolated_def)

lemma createCategory_isolated: "isolated t s (snd (createCategory E t name s))"
  by (simp add: createCategory_def Let_def isolated_def)

section \<open>Invoices and quotes\<close>

lemma invoice_attempts_isolated:
  "isolated t s (snd (invoice_attempts E now year (\<lambda>_ s. s) t actor input tot g n k s))"
proof (induction k arbitrary: n)
  case (Suc k)
  have tx: "isolated t s u" if "invoice_tx E now t actor input tot g num s = Inr (x, u)" for num x u
    using that by (auto simp: invoice_tx_def insert_invoice_def err_simps Let_def isolated_def invoice_row_def)
  show ?case
    using Suc.IH by (auto simp: Let_def run_tx_def dest: tx split: sum.split error.split)
qed simp

lemma invoice_attempts_quotes:
  "quotes (snd (invoice_attempts E now year (\<lambda>_ s. s) t actor input tot g n k s)) = quotes s"
proof (induction k arbitrary: n)
  case (Suc k)
  have tx: "quotes u = quotes s" if "invoice_tx E now t actor input tot g num s = Inr (x, u)" for num x u
    using that by (auto simp: invoice_tx_def insert_invoice_def err_simps Let_def)
  show ?case using Suc.IH by (auto simp: Let_def run_tx_def dest: tx split: sum.split error.split)
qed simp

lemma createInvoice_quotes: "quotes (snd (createInvoice E now year (\<lambda>_ s. s) t actor input s)) = quotes s"
  using invoice_attempts_quotes by (auto simp: createInvoice_def split: option.split sum.split)

lemma createInvoice_isolated: "isolated t s (snd (createInvoice E now year (\<lambda>_ s. s) t actor input s))"
  using invoice_attempts_isolated by (auto simp: createInvoice_def split: option.split sum.split)

lemma update_invoices_isolated:
  assumes "distinct (map inv_id (invoices s))" "find_invoice t i s = Some x" "\<And>y. inv_tenantId (f y) = inv_tenantId y"
  shows "isolated t s (s\<lparr>invoices := update_where (\<lambda>y. inv_id y = inv_id x) f (invoices s)\<rparr>)"
    "isolated t s (s\<lparr>invoices := update_where (\<lambda>y. inv_id y = inv_id x) f (invoices s), seq := n\<rparr>)"
  using own_row_only [OF assms(1) assms(2) [unfolded find_invoice_def]] find_SomeD [OF assms(2) [unfolded find_invoice_def]] assms(3)
  by (auto simp: isolated_def intro!: of_others_update)

lemma recordPayment_isolated:
  assumes "distinct (map inv_id (invoices s))" shows "isolated t s (snd (recordPayment E now t actor i input s))"
proof -
  have "isolated t s u" if "payment_tx E now t actor input x a p st s = Inr (r, u)" "find_invoice t i s = Some x" for x a p st r u
    using that(1) update_invoices_isolated(2) [OF assms that(2), of "\<lambda>y. y\<lparr>inv_payments := inv_payments y @ _, inv_amountPaid := _, inv_status := _\<rparr>"]
    by (auto simp: payment_tx_def err_simps Let_def split: if_splits)
  then show ?thesis by (auto simp: recordPayment_def run_tx_def split: option.split sum.split)
qed

lemma voidInvoice_isolated:
  assumes "distinct (map inv_id (invoices s))" shows "isolated t s (snd (voidInvoice E now t actor i s))"
  using update_invoices_isolated(1) [OF assms]
  by (auto simp: voidInvoice_def update_invoice_def Let_def split: option.split)

lemma revokePublicLink_isolated:
  assumes "distinct (map inv_id (invoices s))" shows "isolated t s (snd (revokePublicLink E now t actor i s))"
  using update_invoices_isolated(1) [OF assms]
  by (auto simp: revokePublicLink_def update_invoice_def Let_def split: option.split)

lemma send_invoice_isolated: "isolated t s (snd (send_invoice E txt email sms t actor i ch s))"
  by (auto simp: send_invoice_def Let_def split: option.split sum.split channel.split list.split)

lemma createQuote_isolated: "isolated t s (snd (createQuote E t input s))"
  unfolding createQuote_def by (rule isolated_run_tx) (auto simp: err_simps Let_def isolated_def split: prod.splits)

lemma convertQuote_isolated:
  assumes "distinct (map qt_id (quotes s))"
  shows "isolated t s (snd (convertQuoteToInvoice E now year (\<lambda>_ s. s) t actor i s))"
proof -
  have "isolated t s u"
    if q: "find_quote t i s = Some q" and c: "createInvoice E now year (\<lambda>_ s. s) t actor (quote_as_invoice q) s = (Inr x, s1)"
      and m: "mark_converted i (inv_id x) s1 = Inr u" for q x s1 u
  proof -
    have q1: "quotes s1 = quotes s" using c createInvoice_quotes by (metis snd_conv)
    have "isolated t s1 u"
      using m own_row_only [OF assms q [unfolded find_quote_def]]
      by (auto simp: mark_converted_def err_simps isolated_def q1 intro!: of_others_update)
    then show ?thesis using createInvoice_isolated c by (metis isolated_trans snd_conv)
  qed
  moreover have "isolated t s s1" if "createInvoice E now year (\<lambda>_ s. s) t actor (quote_as_invoice q) s = (r, s1)" for q r s1
    using createInvoice_isolated that by (metis snd_conv)
  ultimately show ?thesis
    by (auto simp: convertQuoteToInvoice_def split: option.split prod.split sum.split)
qed

section \<open>Billing, branches, invitations and connections\<close>

lemma upsert_item_isolated: "isolated t s (upsert_item E sub item q s)"
  by (auto simp: upsert_item_def isolated_def split: option.split)

lemma recompute_isolated: "isolated t s (fst (snd (recomputeSubscriptionItems E B ten s w)))"
proof -
  have "isolated t s u" if "recompute_write E c ten n s = Inr (r, u)" for c n r u
    using that
    by (auto simp: recompute_write_def Let_def err_simps split: prod.splits
        intro!: isolated_trans [OF isolated_trans [OF upsert_item_isolated upsert_item_isolated] upsert_item_isolated])
  then have "isolated t s (snd (recompute_tx E ten s))" unfolding recompute_tx_def by (rule isolated_run_tx)
  then show ?thesis by (auto simp: recomputeSubscriptionItems_def split: prod.split sum.split)
qed

lemma recompute_isolated': "recomputeSubscriptionItems E B ten s w = (r, u, w') \<Longrightarrow> isolated t s u"
  using recompute_isolated by (metis fst_conv snd_conv)

lemma cancelSubscription_isolated: "isolated t s (fst (snd (cancelSubscription E B now t actor s w)))"
  by (auto simp: cancelSubscription_def Let_def isolated_def split: option.split prod.split sum.split intro!: of_others_update)

lemma createBranch_isolated: "isolated t s (fst (snd (createBranch E B now t actor input s w)))"
proof -
  have "isolated t s (create_branch_rows E now t actor input s)"
    by (simp add: create_branch_rows_def new_branch_def main_stock_def first_register_def Let_def isolated_def)
  then have "isolated t s u" if "recomputeSubscriptionItems E B t (create_branch_rows E now t actor input s) w = (r, u, w')" for r u w'
    using recompute_isolated' [OF that] by (blast intro: isolated_trans)
  then show ?thesis by (auto simp: createBranch_def Let_def split: prod.split sum.split)
qed

lemma archiveBranch_isolated: "isolated t s (fst (snd (archiveBranch E B now t actor i s w)))"
proof -
  let ?s = "s\<lparr>branches := update_where (\<lambda>b. br_id b = i \<and> br_tenantId b = t)
      (\<lambda>b. b\<lparr>br_isActive := False, br_archivedAt := Some now\<rparr>) (branches s)\<rparr>"
  have 1: "isolated t s ?s" by (auto simp: isolated_def intro!: of_others_update)
  then have "isolated t s u" if "recomputeSubscriptionItems E B t (audit_record E a ?s) w = (r, u, w')" for a r u w'
    using recompute_isolated' [OF that, of t] isolated_audit [of t s E a ?s] by (blast intro: isolated_trans)
  then show ?thesis using 1 by (auto simp: archiveBranch_def Let_def split: option.split prod.split sum.split)
qed

lemma inviteUser_isolated: "isolated t s (snd (inviteUser E now t actor input s))"
  by (auto simp: inviteUser_def Let_def isolated_def split: option.split)

lemma createConnection_isolated: "isolated t s (fst (snd (createConnection I V now t actor input s w)))"
  by (auto simp: createConnection_def Let_def isolated_def split: sum.split prod.split)

lemma update_connection_isolated:
  assumes "distinct (map con_id (commerceConnections s))" "getOwnedConnection t i s = Inr c" "\<And>y. con_tenantId (f y) = con_tenantId y"
  shows "isolated t s (update_connection i f s)"
proof -
  have c: "List.find (\<lambda>c. con_id c = i \<and> con_tenantId c = t) (commerceConnections s) = Some c"
    using assms(2) by (auto simp: getOwnedConnection_def err_simps)
  show ?thesis
    using own_row_only [OF assms(1) c] assms(3) by (auto simp: update_connection_def isolated_def intro!: of_others_update)
qed

lemma testConnection_isolated:
  assumes "distinct (map con_id (commerceConnections s))" shows "isolated t s (fst (snd (testConnection I V now t i s w)))"
  using update_connection_isolated [OF assms]
  by (auto simp: testConnection_def err_simps split: sum.split prod.split)

lemma disconnect_isolated:
  assumes "distinct (map con_id (commerceConnections s))" shows "isolated t s (snd (disconnect I t actor i s))"
  using update_connection_isolated [OF assms] by (auto simp: disconnect_def split: sum.split)

end
