(* ===== verification/Api_Facts.thy ===== *)
theory Api_Facts
  imports Tenant_Isolation
begin

text \<open>
  What holds of every route of the API at once: who is let in and what a refused request leaves, what a
  member of one tenant can change, and what a role that only views can do.
\<close>

section \<open>The combinators of a route\<close>

lemma on_read_keeps [simp]: "snd (on_read f s w) = (s, w)"
  by (simp add: on_read_def)

lemma on_db_snd [simp]: "fst (snd (on_db f s w)) = snd (f s)"
  by (simp add: on_db_def split: prod.split)

lemma with_body_keeps: "(\<And>x. snd (h x s w) = (s, w)) \<Longrightarrow> snd (with_body p body h s w) = (s, w)"
  by (simp add: with_body_def split: sum.split)

lemma answered_Some: "answered x = Some (r, s', w') \<longleftrightarrow> (\<exists>y. x = (y, s', w') \<and> r = map_sum id (\<lambda>_. ()) y)"
  by (auto simp: answered_def split: prod.splits)

lemma tenant_route_Inl [simp]:
  "authorize_tenant (api_sha A) (api_now A) False ps rq s = Inl e \<Longrightarrow> tenant_route A ps rq h s w = (Inl e, s, w)"
  by (simp add: tenant_route_def)

lemma session_route_Inl [simp]:
  "session_guard (api_sha A) (api_now A) False rq s anonymous = Inl e \<Longrightarrow> session_route A rq h s w = (Inl e, s, w)"
  by (simp add: session_route_def)

lemma admin_route_Inl [simp]:
  "authorize_admin (api_sha A) (api_now A) rq s = Inl e \<Longrightarrow> admin_route A rq h s w = (Inl e, s, w)"
  by (simp add: admin_route_def)

lemma tenant_route_keeps: "(\<And>t u. snd (h t u s w) = (s, w)) \<Longrightarrow> snd (tenant_route A ps rq h s w) = (s, w)"
  by (simp add: tenant_route_def split: sum.split option.split)

text \<open>A tenant route runs its handler for the tenant the header names.\<close>

lemma getActiveMembership_tenant: "getActiveMembership u t s = Some m \<Longrightarrow> am_tenantId m = t"
  by (auto simp: getActiveMembership_def dest!: find_SomeD split: option.splits if_splits)

lemma tenant_guard_Inr:
  assumes "tenant_guard False rq s ctx = Inr ctx'"
  shows "\<exists>u t m. rq_tenantId rq = Some t \<and> getActiveMembership u t s = Some m \<and> ctx_membership ctx' = Some m \<and>
     (\<exists>v. ctx_user ctx' = Some v)"
  using assms by (auto simp: tenant_guard_def split: option.splits list.splits)

lemma authorized_context:
  assumes "authorize_tenant sha now False ps rq s = Inr ctx"
  obtains u m where "ctx_user ctx = Some u" "ctx_membership ctx = Some m"
proof -
  obtain c where "tenant_guard False rq s c = Inr ctx"
    using assms by (auto simp: authorize_tenant_def bindE_Inr_iff rbac_guard_iff)
  from tenant_guard_Inr [OF this] that show ?thesis by blast
qed

lemma authorized_tenant:
  assumes "authorize_tenant sha now False ps rq s = Inr ctx" "ctx_membership ctx = Some m"
  shows "rq_tenantId rq = Some (am_tenantId m)"
proof -
  obtain c where "tenant_guard False rq s c = Inr ctx"
    using assms(1) by (auto simp: authorize_tenant_def bindE_Inr_iff rbac_guard_iff)
  from tenant_guard_Inr [OF this] assms(2) getActiveMembership_tenant show ?thesis by fastforce
qed

lemma tenant_route_isolated:
  assumes "rq_tenantId rq = Some t" "\<And>u. isolated t s (fst (snd (h t u s w)))"
  shows "isolated t s (fst (snd (tenant_route A ps rq h s w)))"
  using assms(2) authorized_tenant [of "api_sha A" "api_now A" ps rq s] assms(1)
  by (auto simp: tenant_route_def split: sum.split option.split)

lemma with_body_isolated:
  "(\<And>x. isolated t s (fst (snd (h x s w)))) \<Longrightarrow> isolated t s (fst (snd (with_body p body h s w)))"
  by (simp add: with_body_def split: sum.split)

lemmas route_defs = sales_list_def sales_get_def sales_create_def sales_refund_def sales_void_def inventory_adjust_def
  inventory_transfer_def inventory_movements_def catalog_list_def catalog_get_def catalog_variantQr_def catalog_create_def
  catalog_update_def customers_list_def customers_get_def customers_create_def customers_patch_def expenses_list_def
  expenses_create_def expenses_categories_def expenses_createCategory_def invoices_getPublic_def invoices_list_def
  invoices_get_def invoices_create_def invoices_recordPayment_def invoices_void_def invoices_qr_def invoices_send_def
  invoices_revokeLink_def invoices_createQuote_def invoices_convertQuote_def reports_dashboard_def reports_sales_def
  reports_salesCsv_def reports_inventoryValuation_def billing_preview_route_def billing_getSubscription_def billing_cancel_def
  branches_list_def branches_create_def branches_archive_def onboarding_createTenant_def onboarding_invite_def
  onboarding_acceptInvite_def integrations_list_def integrations_create_def integrations_health_def integrations_test_def
  integrations_disconnect_def integrations_sync_def integrations_webhook_def admin_searchTenants_def admin_getTenant_def
  admin_metrics_def admin_pricingCatalog_def admin_updatePricingItem_def admin_createAddOn_def

section \<open>Who is let in\<close>

text \<open>A session of the request that is live, with its user; a membership of that user, with its role.\<close>

definition signed_in :: "'w api \<Rightarrow> request \<Rightarrow> db \<Rightarrow> session \<Rightarrow> user \<Rightarrow> bool" where
  "signed_in A rq s ses u \<longleftrightarrow> live_session (api_sha A) (api_now A) rq s ses \<and> u \<in> set (users s) \<and> usr_id u = ses_userId ses"

definition member_of :: "db \<Rightarrow> user \<Rightarrow> string \<Rightarrow> role \<Rightarrow> bool" where
  "member_of s u t r \<longleftrightarrow> (\<exists>m\<in>set (memberships s). mem_tenantId m = t \<and> mem_userId m = usr_id u \<and>
     mem_status m = MemACTIVE \<and> r \<in> set (roles s) \<and> rol_id r = mem_roleId m)"

fun admitted :: "'w api \<Rightarrow> request \<Rightarrow> access \<Rightarrow> db \<Rightarrow> bool" where
  "admitted A rq Open s \<longleftrightarrow> True"
| "admitted A rq Signed_in s \<longleftrightarrow> (\<exists>ses u. signed_in A rq s ses u)"
| "admitted A rq Platform s \<longleftrightarrow> (\<exists>ses u. signed_in A rq s ses u \<and> usr_isPlatformAdmin u)"
| "admitted A rq (Member ps) s \<longleftrightarrow>
     (\<exists>ses u t r. signed_in A rq s ses u \<and> rq_tenantId rq = Some t \<and> t \<noteq> [] \<and> member_of s u t r \<and>
        (\<forall>p\<in>set ps. permission_key p \<in> granted_keys r))"

text \<open>Every session row belongs to a user, the foreign key of the schema.\<close>

definition sessions_have_users :: "db \<Rightarrow> bool" where
  "sessions_have_users s \<longleftrightarrow> (\<forall>ses\<in>set (sessions s). \<exists>u\<in>set (users s). usr_id u = ses_userId ses)"

lemma session_guard_refusal:
  assumes "sessions_have_users s" "session_guard sha now False rq s anonymous = Inl e"
  shows "error_status e = 401"
proof -
  have "False" if "List.find (\<lambda>x. ses_tokenHash x = h) (sessions s) = Some ses"
      "List.find (\<lambda>u. usr_id u = ses_userId ses) (users s) = None" for h ses
    using assms(1) find_SomeD [OF that(1)] find_NoneD [OF that(2)] by (fastforce simp: sessions_have_users_def)
  then show ?thesis
    using assms(2) by (auto simp: session_guard_def err_simps split: option.splits list.splits if_splits)
qed

lemma tenant_guard_refusal:
  "session_guard sha now False rq s anonymous = Inr ctx \<Longrightarrow> tenant_guard False rq s ctx = Inl e \<Longrightarrow> error_status e = 403"
  by (auto simp: tenant_guard_def session_guard_def err_simps split: option.splits list.splits if_splits)

lemma authorize_tenant_refusal:
  assumes "sessions_have_users s" "authorize_tenant sha now False ps rq s = Inl e"
  shows "error_status e \<in> {401, 403}"
  using assms(2) session_guard_refusal [OF assms(1)] tenant_guard_refusal
  unfolding authorize_tenant_def bindE_Inl_iff
  by (auto simp: rbac_guard_def Let_def split: option.splits if_splits)

lemma authorize_admin_refusal:
  assumes "sessions_have_users s" "authorize_admin sha now rq s = Inl e"
  shows "error_status e \<in> {401, 403}"
  using assms(2) session_guard_refusal [OF assms(1)]
  unfolding authorize_admin_def bindE_Inl_iff
  by (auto simp: platform_admin_guard_def split: option.splits if_splits)

lemma signed_in_iff:
  assumes "access_keys s"
  shows "(\<exists>ctx. session_guard (api_sha A) (api_now A) False rq s anonymous = Inr ctx) \<longleftrightarrow> (\<exists>ses u. signed_in A rq s ses u)"
  unfolding session_guard_iff [OF assms] signed_in_def by blast

lemma platform_iff:
  assumes "access_keys s"
  shows "(\<exists>ctx. authorize_admin (api_sha A) (api_now A) rq s = Inr ctx) \<longleftrightarrow>
     (\<exists>ses u. signed_in A rq s ses u \<and> usr_isPlatformAdmin u)"
proof -
  have a: "authorize_admin sha now req s = Inr ctx \<longleftrightarrow>
      session_guard sha now False req s anonymous = Inr ctx \<and> (\<exists>u. ctx_user ctx = Some u \<and> usr_isPlatformAdmin u)" for sha now req ctx
    by (auto simp: authorize_admin_def platform_admin_guard_def err_simps split: option.splits if_splits)
  show ?thesis unfolding a session_guard_iff [OF assms] signed_in_def by fastforce
qed

lemma member_iff:
  assumes "access_keys s"
  shows "(\<exists>ctx. authorize_tenant (api_sha A) (api_now A) False ps rq s = Inr ctx) \<longleftrightarrow> admitted A rq (Member ps) s"
proof -
  have "(\<exists>ctx. authorize_tenant (api_sha A) (api_now A) False ps rq s = Inr ctx) \<longleftrightarrow>
      (\<exists>ses u t am. signed_in A rq s ses u \<and> rq_tenantId rq = Some t \<and> t \<noteq> [] \<and>
        getActiveMembership (usr_id u) t s = Some am \<and> (\<forall>p\<in>set ps. permission_key p \<in> am_permissions am))"
    unfolding authorize_tenant_def bindE_Inr_iff session_guard_iff [OF assms] rbac_guard_iff signed_in_def
    by (fastforce simp: tenant_guard_def split: option.splits list.splits)
  then show ?thesis
    unfolding getActiveMembership_iff [OF assms] admitted.simps member_of_def by fastforce
qed

lemma serve_refused:
  assumes keys: "access_keys s" "sessions_have_users s" and out: "\<not> admitted A rq (route_access rt) s"
  obtains e where "error_status e \<in> {401, 403}" "serve A rq rt s w = Some (Inl e, s, w)"
proof -
  have "(\<exists>ctx. m = Inr ctx) \<or> (\<exists>e. m = Inl e)" for m :: "error + request_context" by (cases m) auto
  then obtain e where e: "error_status e \<in> {401, 403}"
    "case route_access rt of Open \<Rightarrow> False | Signed_in \<Rightarrow> session_guard (api_sha A) (api_now A) False rq s anonymous = Inl e
     | Platform \<Rightarrow> authorize_admin (api_sha A) (api_now A) rq s = Inl e
     | Member ps \<Rightarrow> authorize_tenant (api_sha A) (api_now A) False ps rq s = Inl e"
    using out signed_in_iff [OF keys(1), of A rq] platform_iff [OF keys(1), of A rq] member_iff [OF keys(1), of A _ rq]
      session_guard_refusal [OF keys(2)] authorize_tenant_refusal [OF keys(2)] authorize_admin_refusal [OF keys(2)]
    by (cases "route_access rt") (auto, metis+)
  have "serve A rq rt s w = Some (Inl e, s, w)"
    using e(2) by (cases rt) (simp_all add: route_defs answered_def)
  with e(1) that show ?thesis by blast
qed

section \<open>Properties\<close>


text \<open>A handler that answers and writes nothing.\<close>

lemma viewed_routes_keep:
  assumes "route_access rt = Member ps" "set ps \<subseteq> set (default_role_permissions VIEWER)"
    and "serve A rq rt s w = Some (r, s', w')"
  shows "s' = s \<and> w' = w"
proof -
  have t: "tenant_route A ps rq h s w = (y, s', w') \<Longrightarrow> (\<And>t u. snd (h t u s w) = (s, w)) \<Longrightarrow> s' = s \<and> w' = w" for ps h y
    using tenant_route_keeps [of h s w A ps rq] by (metis snd_conv prod.inject)
  show ?thesis
    using assms by (cases rt) (auto simp: route_defs answered_Some with_body_keeps dest!: t)
qed


lemmas service_isolation = createSale_isolated refundSale_isolated voidSale_isolated adjustStock_isolated transferStock_isolated
  createProduct_isolated updateProduct_isolated createCustomer_isolated updateCustomer_isolated createExpense_isolated
  createCategory_isolated createInvoice_isolated recordPayment_isolated voidInvoice_isolated revokePublicLink_isolated
  send_invoice_isolated createQuote_isolated convertQuote_isolated cancelSubscription_isolated createBranch_isolated
  archiveBranch_isolated inviteUser_isolated createConnection_isolated testConnection_isolated disconnect_isolated


text \<open>Five permissions of the catalog are asked for by no route: overriding prices and discounts, seeing cost
  prices, approving expenses, exporting reports and managing roles. A cashier may therefore sell at any
  price and reads every cost price.\<close>
theorem unenforced_permissions:
  "(\<exists>rt ps. route_access rt = Member ps \<and> p \<in> set ps) \<longleftrightarrow>
     p \<notin> {SALES_DISCOUNT_OVERRIDE, INVENTORY_COST_PRICE_VIEW, EXPENSES_APPROVE, REPORTS_EXPORT, ROLES_MANAGE}"
proof
  assume "\<exists>rt ps. route_access rt = Member ps \<and> p \<in> set ps"
  then obtain rt ps where "route_access rt = Member ps" "p \<in> set ps" by blast
  then show "p \<notin> {SALES_DISCOUNT_OVERRIDE, INVENTORY_COST_PRICE_VIEW, EXPENSES_APPROVE, REPORTS_EXPORT, ROLES_MANAGE}"
    by (cases rt) auto
next
  have r: "\<exists>rt ps. route_access rt = Member ps \<and> p \<in> set ps" if "route_access rt = Member [p]" for rt
    using that by (intro exI [of _ rt] exI [of _ "[p]"]) simp
  assume "p \<notin> {SALES_DISCOUNT_OVERRIDE, INVENTORY_COST_PRICE_VIEW, EXPENSES_APPROVE, REPORTS_EXPORT, ROLES_MANAGE}"
  then show "\<exists>rt ps. route_access rt = Member ps \<and> p \<in> set ps"
    by (cases p)
       (use r [of "SalesCreate JNull"] r [of "SalesGet []"] r [of "SalesRefund [] JNull"] r [of "SalesVoid []"]
          r [of "CatalogGet []"] r [of "InventoryAdjust JNull"] r [of "InventoryTransfer JNull"] r [of "CatalogCreate JNull"]
          r [of "CustomersGet []"] r [of "CustomersCreate JNull"] r [of InvoicesList] r [of "QuotesCreate JNull"]
          r [of ExpensesCategories] r [of "ExpensesCreate JNull"] r [of ReportsInventoryValuation] r [of "BranchesArchive []"]
          r [of "OnboardingInvite JNull"] r [of BillingCancel] r [of ConnectionsList] in auto)
qed

section \<open>A concrete deployment\<close>

definition plain_crypto :: crypto where
  "plain_crypto = \<lparr>cr_sha256 = id, cr_random = (\<lambda>n i. replicate n (CHR ''r'')),
     cr_gcm_encrypt = (\<lambda>k iv p. ([], p)), cr_gcm_decrypt = (\<lambda>k iv tag d. Some d), cr_argon2_hash = (\<lambda>i p. p),
     cr_argon2_verify = (\<lambda>h p. Some (p = h)), cr_totp_secret = (\<lambda>i. []), cr_totp_check = (\<lambda>now code secret. True),
     cr_keyuri = (\<lambda>l i secret. secret), cr_jwt_sign = (\<lambda>p iat exp. []), cr_jwt_verify = (\<lambda>now tok. None)\<rparr>"

definition demo_api :: "unit api" where
  "demo_api = \<lparr>api_env = exact_env, api_sha = id, api_now = 50,
     api_formats = \<lparr>fm_email = (\<lambda>_. True), fm_uuid = (\<lambda>_. True), fm_url = (\<lambda>_. True), fm_date = (\<lambda>_. None)\<rparr>,
     api_json = \<lparr>js_stringify = (\<lambda>_. []), js_parse = (\<lambda>_. None)\<rparr>, api_qr = id, api_amountText = (\<lambda>_. []),
     api_email = (\<lambda>_ _ _. Inl (ServerError ''offline'')), api_sms = (\<lambda>_ _. Inl (ServerError ''offline'')),
     api_billing = NullBillingProvider,
     api_integration = \<lparr>ie_env = exact_env, ie_crypto = plain_crypto, ie_key = [], ie_decimal = (\<lambda>_. None)\<rparr>,
     api_commerce = \<lparr>ce_json = \<lparr>js_stringify = (\<lambda>_. []), js_parse = (\<lambda>_. None)\<rparr>,
       ce_fetch = (\<lambda>_ w. (Inl (ServerError ''offline''), w)), ce_sleep = (\<lambda>_ w. w), ce_hmac = (\<lambda>k b. []), ce_iso = int_str\<rparr>\<rparr>"

lemma demo_api_simps [simp]: "api_sha demo_api = id" "api_now demo_api = 50" "api_env demo_api = exact_env"
  by (simp_all add: demo_api_def)

lemma demo_request_simps [simp]: "rawToken (demo_request tok t) = Some tok" "rq_tenantId (demo_request tok t) = Some t"
  by (simp_all add: demo_request_def rawToken_def extractBearerToken_def startsWith_def)

text \<open>The database of the guards with a role that grants one permission.\<close>

definition demo_role_db :: "permission \<Rightarrow> db" where
  "demo_role_db p = demo_access_db\<lparr>roles := [demo_role\<lparr>rol_permissions :=
     [\<lparr>rp_permissionKey = permission_key p, rp_allowed = True\<rparr>]\<rparr>]\<rparr>"

lemma demo_role_db_simps [simp]:
  "users (demo_role_db p) = users demo_access_db" "sessions (demo_role_db p) = sessions demo_access_db"
  "memberships (demo_role_db p) = memberships demo_access_db" "expenseCategories (demo_role_db p) = []"
  "roles (demo_role_db p) = [demo_role\<lparr>rol_permissions := [\<lparr>rp_permissionKey = permission_key p, rp_allowed = True\<rparr>]\<rparr>]"
  by (simp_all add: demo_role_db_def demo_access_db_def empty_db_def)

lemma demo_role_keys: "access_keys (demo_role_db p)" "sessions_have_users (demo_role_db p)"
  using demo_access_keys by (simp_all add: access_keys_def sessions_have_users_def)

lemma demo_signed_in:
  "signed_in demo_api (demo_request ''tok1'' t) (demo_role_db p) ses u \<longleftrightarrow> ses = demo_session ''u1'' ''tok1'' \<and> u = demo_user ''u1'' False"
  "signed_in demo_api (demo_request ''tok2'' t) (demo_role_db p) ses u \<longleftrightarrow> ses = demo_session ''u2'' ''tok2'' \<and> u = demo_user ''u2'' True"
  by (auto simp: signed_in_def live_session_def)




end
