(* ===== verification/Doubles.thy ===== *)
theory Doubles
  imports Js_Values "HOL-Library.Log_Nat"
begin

text \<open>
  The numbers of the language as the clients compute with them: IEEE doubles, given by the rational
  they stand for. \<open>to_double\<close> rounds to the nearest double, ties to even, and every operation
  rounds its exact result; overflow, subnormals and the sign of zero are not represented.
  \<open>None\<close> is NaN. \<open>toFixed_cents\<close> is the integer \<open>toFixed(2)\<close> writes with two decimals.
\<close>

section \<open>Rounding to a double\<close>

definition pow2 :: "int \<Rightarrow> rat" where
  "pow2 e = (if 0 \<le> e then 2 ^ nat e else 1 / 2 ^ nat (- e))"

text \<open>The exponent of a positive number: \<open>2 ^ e \<le> x < 2 ^ (e + 1)\<close>.\<close>

definition exponent :: "rat \<Rightarrow> int" where
  "exponent x = (let (p, q) = quotient_of x; e = bitlen p - bitlen q in if x < pow2 e then e - 1 else e)"

definition nearest_even :: "rat \<Rightarrow> int" where
  "nearest_even y =
     (let f = \<lfloor>y\<rfloor>; d = y - of_int f
      in if d < 1 / 2 then f else if 1 / 2 < d then f + 1 else if even f then f else f + 1)"

definition to_double :: "rat \<Rightarrow> rat" where
  "to_double x =
     (if x = 0 then 0
      else let e = exponent \<bar>x\<bar> - 52 in of_int (nearest_even (x / pow2 e)) * pow2 e)"

section \<open>Arithmetic\<close>

type_synonym js_num = "rat option"

definition js_num_of :: "rat option \<Rightarrow> js_num" where
  "js_num_of x = map_option to_double x"

fun js_add :: "js_num \<Rightarrow> js_num \<Rightarrow> js_num" where
  "js_add (Some x) (Some y) = Some (to_double (x + y))"
| "js_add _ _ = None"

fun js_times :: "js_num \<Rightarrow> js_num \<Rightarrow> js_num" where
  "js_times (Some x) (Some y) = Some (to_double (x * y))"
| "js_times _ _ = None"

text \<open>\<open>toFixed(2)\<close> takes the integer \<open>n\<close> for which \<open>n / 100 - x\<close> is closest to zero, the larger
  of two; the sign is taken off first.\<close>

definition toFixed_cents :: "rat \<Rightarrow> int" where
  "toFixed_cents x = (if x < 0 then - \<lfloor>- x * 100 + 1 / 2\<rfloor> else \<lfloor>x * 100 + 1 / 2\<rfloor>)"

definition cents_text :: "int \<Rightarrow> string" where
  "cents_text n = (if n < 0 then ''-'' else '''') @ nat_str (nat \<bar>n\<bar> div 100) @ ''.'' @
     nat_str (nat \<bar>n\<bar> mod 100 div 10) @ nat_str (nat \<bar>n\<bar> mod 10)"

section \<open>The error of one rounding\<close>

definition unit_roundoff :: rat where
  "unit_roundoff = 1 / 2 ^ 53"

lemma pow2_pos [simp]: "0 < pow2 e"
  by (simp add: pow2_def)

lemma pow2_nonzero [simp]: "pow2 e \<noteq> 0"
  using pow2_pos [of e] by linarith

lemma pow2_powi: "pow2 e = 2 powi e"
  by (simp add: pow2_def power_int_def field_simps)

lemma pow2_add: "pow2 (d + e) = pow2 d * pow2 e"
  by (simp add: pow2_powi power_int_add)

lemma bitlen_pow2: "0 < n \<Longrightarrow> pow2 (bitlen n - 1) \<le> of_int n" "0 < n \<Longrightarrow> of_int n < pow2 (bitlen n)"
proof -
  assume n: "0 < n"
  then have b: "2 ^ nat (bitlen n - 1) \<le> n" "n < 2 ^ nat (bitlen n)" using bitlen_bounds [of n] by auto
  have g: "0 < bitlen n" using n by (simp add: bitlen_eq_zero_iff bitlen_nonneg order.strict_iff_order)
  have "(of_int (2 ^ nat (bitlen n - 1)) :: rat) \<le> of_int n" using b(1) by (simp only: of_int_le_iff)
  then show "pow2 (bitlen n - 1) \<le> of_int n" using g by (simp add: pow2_def)
  have "(of_int n :: rat) < of_int (2 ^ nat (bitlen n))" using b(2) by (simp only: of_int_less_iff)
  then show "of_int n < pow2 (bitlen n)" using g by (simp add: pow2_def)
qed

lemma exponent_le:
  assumes "0 < x"
  shows "pow2 (exponent x) \<le> x"
proof -
  obtain p q where pq: "quotient_of x = (p, q)" by fastforce
  have q: "0 < q" "x = of_int p / of_int q" using quotient_of_denom_pos [OF pq] quotient_of_div [OF pq] by auto
  then have p: "0 < p" using assms by (simp add: zero_less_divide_iff)
  have e: "pow2 (bitlen p - bitlen q - 1) \<le> x"
  proof -
    have "pow2 (bitlen p - bitlen q - 1) * pow2 (bitlen q) = pow2 (bitlen p - 1)"
      by (simp add: pow2_add [symmetric])
    also have "\<dots> \<le> of_int p" by (rule bitlen_pow2(1) [OF p])
    also have "\<dots> = x * of_int q" using q by simp
    also have "\<dots> \<le> x * pow2 (bitlen q)"
      using bitlen_pow2(2) [OF q(1)] assms by (intro mult_left_mono) auto
    finally show ?thesis using pow2_pos [of "bitlen q"] by (metis mult_le_cancel_right_pos)
  qed
  then show ?thesis by (simp add: exponent_def pq Let_def)
qed

lemma nearest_even_close: "\<bar>of_int (nearest_even y) - y\<bar> \<le> 1 / 2"
proof -
  have "of_int \<lfloor>y\<rfloor> \<le> y" "y < of_int \<lfloor>y\<rfloor> + 1" by linarith+
  then show ?thesis by (auto simp: nearest_even_def Let_def abs_le_iff)
qed

lemma to_double_error: "\<bar>to_double x - x\<bar> \<le> \<bar>x\<bar> * unit_roundoff"
proof (cases "x = 0")
  case False
  define e where "e = exponent \<bar>x\<bar> - 52"
  have "to_double x - x = (of_int (nearest_even (x / pow2 e)) - x / pow2 e) * pow2 e"
    using False by (simp add: to_double_def e_def [symmetric] Let_def algebra_simps)
  then have "\<bar>to_double x - x\<bar> = \<bar>of_int (nearest_even (x / pow2 e)) - x / pow2 e\<bar> * pow2 e"
    by (simp add: abs_mult pow2_pos [THEN less_imp_le, THEN abs_of_nonneg])
  also have "\<dots> \<le> 1 / 2 * pow2 e" by (intro mult_right_mono nearest_even_close) (simp add: less_imp_le)
  also have "\<dots> = pow2 (exponent \<bar>x\<bar>) * unit_roundoff"
  proof -
    have "pow2 (exponent \<bar>x\<bar>) = pow2 e * pow2 52" by (simp add: e_def pow2_add [symmetric])
    then show ?thesis by (simp add: unit_roundoff_def pow2_def)
  qed
  also have "\<dots> \<le> \<bar>x\<bar> * unit_roundoff"
    using exponent_le [of "\<bar>x\<bar>"] False by (intro mult_right_mono) (auto simp: unit_roundoff_def)
  finally show ?thesis .
qed (simp add: to_double_def)

section \<open>The error of a sum of products\<close>

text \<open>\<open>drift m\<close> is the relative error after \<open>m\<close> roundings.\<close>

definition drift :: "nat \<Rightarrow> rat" where
  "drift m = (1 + unit_roundoff) ^ m - 1"

lemma drift_simps [simp]: "drift 0 = 0" "drift (Suc m) = drift m + unit_roundoff * (1 + drift m)"
  by (simp_all add: drift_def algebra_simps)

lemma drift_nonneg [simp]: "0 \<le> drift m"
  by (simp add: drift_def unit_roundoff_def)

lemma drift_mono: "m \<le> n \<Longrightarrow> drift m \<le> drift n"
  by (simp add: drift_def unit_roundoff_def power_increasing)

lemma drift_bound: "of_nat m * unit_roundoff \<le> 1 / 2 \<Longrightarrow> drift m \<le> 2 * of_nat m * unit_roundoff"
proof (induction m)
  case (Suc m)
  let ?u = unit_roundoff
  have u: "0 \<le> ?u" by (simp add: unit_roundoff_def)
  have m: "of_nat m * ?u \<le> 1 / 2" using Suc.prems u by (simp add: algebra_simps)
  have "drift (Suc m) = drift m + ?u * (1 + drift m)" by simp
  also have "\<dots> \<le> 2 * of_nat m * ?u + ?u * (1 + 2 * (of_nat m * ?u))"
    using Suc.IH [OF m] u by (intro add_mono mult_left_mono) auto
  also have "\<dots> \<le> 2 * of_nat m * ?u + ?u * 2" using m u by (intro add_left_mono mult_left_mono) auto
  finally show ?case by (simp add: algebra_simps)
qed simp

lemma drift_small: "m \<le> 1002 \<Longrightarrow> drift m \<le> 2004 / 2 ^ 53"
  using drift_mono [of m 1002] drift_bound [of 1002] by (simp add: unit_roundoff_def)

text \<open>Rounding a value already off by \<open>d\<close> relative to what it should be.\<close>

lemma to_double_drift:
  assumes "0 \<le> z" "\<bar>y - z\<bar> \<le> z * drift m"
  shows "\<bar>to_double y - z\<bar> \<le> z * drift (Suc m)"
proof -
  let ?u = unit_roundoff
  have "\<bar>y\<bar> \<le> z + z * drift m" using assms by linarith
  then have "\<bar>y\<bar> * ?u \<le> (z + z * drift m) * ?u" by (rule mult_right_mono) (simp add: unit_roundoff_def)
  then have "\<bar>to_double y - z\<bar> \<le> (z + z * drift m) * ?u + z * drift m"
    using to_double_error [of y] assms(2) by linarith
  then show ?thesis by (simp add: algebra_simps)
qed

text \<open>A running total in doubles, and the amount it stands for.\<close>

fun double_total :: "rat \<Rightarrow> (rat \<times> nat) list \<Rightarrow> rat" where
  "double_total t [] = t"
| "double_total t ((p, q) # xs) = double_total (to_double (t + to_double (to_double p * of_nat q))) xs"

definition exact_total :: "(rat \<times> nat) list \<Rightarrow> rat" where
  "exact_total xs = sum_list (map (\<lambda>(p, q). p * of_nat q) xs)"

lemma double_total_drift:
  assumes "0 \<le> S" "\<bar>t - S\<bar> \<le> S * drift m" "2 \<le> m" "\<forall>(p, q)\<in>set xs. 0 \<le> p"
  shows "\<bar>double_total t xs - (S + exact_total xs)\<bar> \<le> (S + exact_total xs) * drift (m + length xs)"
  using assms
proof (induction xs arbitrary: t S m)
  case (Cons x xs)
  obtain p q where x: "x = (p, q)" by fastforce
  let ?z = "p * of_nat q"
  have z: "0 \<le> ?z" "0 \<le> p" using Cons.prems(4) x by auto
  have "\<bar>to_double p * of_nat q - ?z\<bar> = \<bar>to_double p - p\<bar> * of_nat q"
    by (simp only: left_diff_distrib [symmetric] abs_mult abs_of_nat)
  also have "\<dots> \<le> p * unit_roundoff * of_nat q" using to_double_error [of p] z(2) by (intro mult_right_mono) auto
  finally have "\<bar>to_double p * of_nat q - ?z\<bar> \<le> ?z * drift (Suc 0)" by (simp add: ac_simps)
  from to_double_drift [OF z(1) this]
  have "\<bar>to_double (to_double p * of_nat q) - ?z\<bar> \<le> ?z * drift 2" by (simp add: numeral_2_eq_2)
  also have "\<dots> \<le> ?z * drift m" using z(1) drift_mono [OF Cons.prems(3)] by (rule mult_left_mono [rotated])
  finally have "\<bar>t + to_double (to_double p * of_nat q) - (S + ?z)\<bar> \<le> (S + ?z) * drift m"
    using Cons.prems(2) by (simp add: distrib_right)
  from Cons.IH [OF _ to_double_drift [OF _ this]] z(1) Cons.prems show ?case
    by (simp add: x exact_total_def add.assoc)
qed (simp add: exact_total_def)

text \<open>Below a billion and with at most a thousand lines the total is off by less than half a cent.\<close>

lemma double_total_close:
  assumes p: "\<forall>(p, q)\<in>set xs. 0 \<le> p" and n: "length xs \<le> 1000" and b: "exact_total xs \<le> 10 ^ 9"
  shows "\<bar>double_total 0 xs - exact_total xs\<bar> < 1 / 200"
proof -
  have e: "0 \<le> exact_total xs" using p unfolding exact_total_def by (intro sum_list_nonneg) auto
  have d: "drift (2 + length xs) \<le> 2004 / 2 ^ 53" using n by (intro drift_small) simp
  have "\<bar>double_total 0 xs - exact_total xs\<bar> \<le> exact_total xs * drift (2 + length xs)"
    using double_total_drift [of 0 0 2 xs] p by simp
  also have "\<dots> \<le> 10 ^ 9 * (2004 / 2 ^ 53)" by (intro mult_mono b d e drift_nonneg) simp
  finally show ?thesis by simp
qed

lemma double_total_nonneg:
  assumes "\<forall>(p, q)\<in>set xs. 0 \<le> p" "length xs \<le> 1000"
  shows "0 \<le> double_total 0 xs"
proof -
  have e: "0 \<le> exact_total xs" using assms(1) unfolding exact_total_def by (intro sum_list_nonneg) auto
  have "drift (2 + length xs) \<le> 1"
    by (rule order_trans [OF drift_small]) (use assms(2) in simp_all)
  then have "exact_total xs * drift (2 + length xs) \<le> exact_total xs * 1" using e by (rule mult_left_mono)
  then show ?thesis using double_total_drift [of 0 0 2 xs] assms(1) by simp
qed

text \<open>So the two decimals written for it are those of the exact total, when that has no more.\<close>

lemma toFixed_total:
  assumes "\<forall>(p, q)\<in>set xs. 0 \<le> p" "length xs \<le> 1000" "exact_total xs \<le> 10 ^ 9"
    and cents: "exact_total xs * 100 = of_int n"
  shows "toFixed_cents (double_total 0 xs) = n"
proof -
  have "\<lfloor>double_total 0 xs * 100 + 1 / 2\<rfloor> = n"
    unfolding floor_eq_iff cents [symmetric] using double_total_close [OF assms(1-3)]
    by (intro conjI; linarith)
  then show ?thesis using double_total_nonneg [OF assms(1,2)] by (simp add: toFixed_cents_def)
qed

lemma double_total_examples:
  "to_double (1 / 10) \<noteq> 1 / 10" "toFixed_cents (double_total 0 [(1 / 10, 3), (2 / 10, 1)]) = 50"
  by code_simp+

end
