(* ===== verification/Mobile.thy ===== *)
theory Mobile
  imports Doubles Queue_Adapters Connectors Validation Back_Office "HOL-Library.Monad_Syntax"
begin

text \<open>
  \<open>apps/mobile/src\<close>: the point-of-sale application. What the device keeps across restarts is the
  record \<open>device\<close>: the SQLite tables (the queue of \<open>Queue_Adapters\<close>, the cached catalog, the one
  row of \<open>active_branch\<close>), the secure store and the local storage. A screen is a record and its
  handlers are functions on it; rendering is left out. The network is the parameter \<open>fetch\<close>. A
  component reads an answer without validating it; an answer that lacks the declared shape is an error
  here, as the first access to the missing part throws. Requests made together are made in their
  textual order.
\<close>

section \<open>The local database (\<open>db/catalog-cache.ts\<close>, \<open>auth/session-store.ts\<close>)\<close>

record cached_variant =
  cv_id :: string
  cv_productId :: string
  cv_productName :: string
  cv_sku :: string
  cv_barcode :: "string option"
  cv_retailPrice :: string
  cv_availableQuantity :: rat
  cv_stockStatus :: string
  cv_updatedAt :: int

record cached_customer =
  cc_id :: string
  cc_name :: string
  cc_email :: "string option"
  cc_phone :: "string option"
  cc_updatedAt :: int

record active_branch =
  ab_tenantId :: string
  ab_branchId :: string
  ab_branchName :: string
  ab_stockLocationId :: string
  ab_registerId :: "string option"

record device =
  dv_queue :: sqlite_store
  dv_variants :: "cached_variant list"
  dv_customers :: "cached_customer list"
  dv_branch :: "active_branch option"
  dv_meta :: "(string \<times> string) list"
  dv_token :: "string option"
  dv_tenantKey :: "string option"

text \<open>The inserts of a replaced table, by primary key; a duplicate throws and the transaction rolls back.\<close>

fun insert_rows :: "('r \<Rightarrow> string) \<Rightarrow> 'r list \<Rightarrow> 'r list \<Rightarrow> error + 'r list" where
  "insert_rows key [] table = Inr table"
| "insert_rows key (r # rs) table =
     (if taken key (key r) table then Inl (UniqueViolation ''id'') else insert_rows key rs (table @ [r]))"

definition replaceCachedVariants :: "cached_variant list \<Rightarrow> device \<Rightarrow> (error + unit) \<times> device" where
  "replaceCachedVariants variants d =
     (case insert_rows cv_id variants [] of
        Inl e \<Rightarrow> (Inl e, d) | Inr rows \<Rightarrow> (Inr (), d\<lparr>dv_variants := rows\<rparr>))"

definition listCachedVariants :: "device \<Rightarrow> cached_variant list" where
  "listCachedVariants d = sort_key cv_productName (dv_variants d)"

definition decrementCachedStock :: "string \<Rightarrow> rat \<Rightarrow> device \<Rightarrow> device" where
  "decrementCachedStock variantId quantity d =
     d\<lparr>dv_variants := update_where (\<lambda>v. cv_id v = variantId)
        (\<lambda>v. v\<lparr>cv_availableQuantity := cv_availableQuantity v - quantity\<rparr>) (dv_variants d)\<rparr>"

definition replaceCachedCustomers :: "cached_customer list \<Rightarrow> device \<Rightarrow> (error + unit) \<times> device" where
  "replaceCachedCustomers rows d =
     (case insert_rows cc_id rows [] of
        Inl e \<Rightarrow> (Inl e, d) | Inr table \<Rightarrow> (Inr (), d\<lparr>dv_customers := table\<rparr>))"

definition listCachedCustomers :: "device \<Rightarrow> cached_customer list" where
  "listCachedCustomers d = sort_key cc_name (dv_customers d)"

definition setActiveBranch :: "active_branch \<Rightarrow> device \<Rightarrow> device" where
  "setActiveBranch branch d = d\<lparr>dv_branch := Some branch\<rparr>"

definition getActiveBranch :: "device \<Rightarrow> active_branch option" where
  "getActiveBranch d = dv_branch d"

definition setSyncMeta :: "string \<Rightarrow> string \<Rightarrow> device \<Rightarrow> device" where
  "setSyncMeta key value d =
     d\<lparr>dv_meta := (if key \<in> fst ` set (dv_meta d)
        then map (\<lambda>(k, v). (k, if k = key then value else v)) (dv_meta d) else dv_meta d @ [(key, value)])\<rparr>"

definition getSyncMeta :: "string \<Rightarrow> device \<Rightarrow> string option" where
  "getSyncMeta key d = map_of (dv_meta d) key"

definition saveSessionToken :: "string \<Rightarrow> device \<Rightarrow> device" where
  "saveSessionToken token d = d\<lparr>dv_token := Some token\<rparr>"

definition loadSessionToken :: "device \<Rightarrow> string option" where
  "loadSessionToken d = dv_token d"

definition clearSessionToken :: "device \<Rightarrow> device" where
  "clearSessionToken d = d\<lparr>dv_token := None\<rparr>"

section \<open>The API client (\<open>api/client.ts\<close>)\<close>

record 'w mobile_env =
  mb_json :: json_lib
  mb_base :: string
  mb_fetch :: "'w fetch"
  mb_statusText :: "nat \<Rightarrow> string"

datatype api_failure = ApiError nat string | NotApiError string

record api_request =
  ar_method :: string
  ar_body :: "json option"
  ar_tenantId :: "string option"
  ar_query :: "(string \<times> string) list"
  ar_token :: "string option option"

definition get_request :: api_request where
  "get_request = \<lparr>ar_method = ''GET'', ar_body = None, ar_tenantId = None, ar_query = [], ar_token = None\<rparr>"

definition request_headers :: "string option \<Rightarrow> string option \<Rightarrow> (string \<times> string) list" where
  "request_headers token tenantId =
     [(''Content-Type'', ''application/json'')]
     @ (if truthy token then [(''Authorization'', ''Bearer '' @ the token)] else [])
     @ (if truthy tenantId then [(''X-Tenant-Id'', the tenantId)] else [])"

definition http_of :: "'w mobile_env \<Rightarrow> string option \<Rightarrow> string \<Rightarrow> api_request \<Rightarrow> http_request" where
  "http_of E stored path opts =
     (let token = (case ar_token opts of Some t \<Rightarrow> t | None \<Rightarrow> stored)
      in \<lparr>hq_method = ar_method opts,
          hq_url = mb_base E @ path @ (if ar_query opts = [] then '''' else ''?'' @ URLSearchParams (ar_query opts)),
          hq_headers = request_headers token (ar_tenantId opts),
          hq_body = map_option (js_stringify (mb_json E)) (ar_body opts)\<rparr>)"

text \<open>\<open>data?.message ?? res.statusText\<close>, as the text an \<open>Error\<close> keeps.\<close>

definition failure_message :: "'w mobile_env \<Rightarrow> nat \<Rightarrow> json option \<Rightarrow> string" where
  "failure_message E status data =
     (case Option.bind data (js_field ''message'') of
        Some v \<Rightarrow> if v = JNull then mb_statusText E status else js_String (mb_json E) v
      | None \<Rightarrow> mb_statusText E status)"

definition apiRequest ::
  "'w mobile_env \<Rightarrow> string option \<Rightarrow> string \<Rightarrow> api_request \<Rightarrow> 'w \<Rightarrow> (api_failure + json option) \<times> 'w" where
  "apiRequest E stored path opts w =
     (case mb_fetch E (http_of E stored path opts) w of
        (Inl err, w1) \<Rightarrow> (Inl (NotApiError (error_message err)), w1)
      | (Inr res, w1) \<Rightarrow>
          (let data = js_parse (mb_json E) (hr_body res)
           in if hr_ok res then (Inr data, w1)
              else (Inl (ApiError (hr_status res) (failure_message E (hr_status res) data)), w1)))"

fun isRetryableApiError :: "api_failure \<Rightarrow> bool" where
  "isRetryableApiError (ApiError status m) \<longleftrightarrow> 500 \<le> status \<or> status = 408 \<or> status = 429"
| "isRetryableApiError (NotApiError m) \<longleftrightarrow> True"

section \<open>The sync service (\<open>sync/sync-service.ts\<close>, \<open>sync/queue.ts\<close>)\<close>

definition buildSubmit :: "'w mobile_env \<Rightarrow> string option \<Rightarrow> string \<Rightarrow> queue_item \<Rightarrow> 'w \<Rightarrow> submit_outcome \<times> 'w" where
  "buildSubmit E stored tenantId item w =
     (case apiRequest E stored (qi_endpoint item)
             (get_request\<lparr>ar_method := ''POST'', ar_body := Some (qi_payload item), ar_tenantId := Some tenantId\<rparr>) w of
        (Inr data, w1) \<Rightarrow> (SubmitSuccess data, w1)
      | (Inl (ApiError status m), w1) \<Rightarrow> (SubmitFailure (isRetryableApiError (ApiError status m)) m, w1)
      | (Inl (NotApiError m), w1) \<Rightarrow> (SubmitFailure True m, w1))"

text \<open>
  The handle of \<open>startSyncService\<close>: \<open>running\<close> is its flag. \<open>reach\<close> is the answer of
  \<open>NetInfo.fetch\<close>: connected, and reachability when it is known.
\<close>

record net_state =
  ns_isConnected :: bool
  ns_isInternetReachable :: "bool option"

definition is_online :: "net_state \<Rightarrow> bool" where
  "is_online st \<longleftrightarrow> ns_isConnected st \<and> ns_isInternetReachable st \<noteq> Some False"

definition sync_pass ::
  "'w mobile_env \<Rightarrow> string \<Rightarrow> net_state \<Rightarrow> (string \<Rightarrow> int) \<Rightarrow> int \<Rightarrow> device \<Rightarrow> 'w \<Rightarrow> sync_result \<times> device \<times> 'w" where
  "sync_pass E tenantId reach clk now d w =
     (case runOnce SqliteQueueStorageAdapter DEFAULT_MAX_ATTEMPTS (buildSubmit E (loadSessionToken d) tenantId)
             (\<lambda>_. is_online reach) clk now (dv_queue d) w of
        (r, q, w1) \<Rightarrow> (r, d\<lparr>dv_queue := q\<rparr>, w1))"

definition syncNow ::
  "'w mobile_env \<Rightarrow> string \<Rightarrow> net_state \<Rightarrow> (string \<Rightarrow> int) \<Rightarrow> int \<Rightarrow> bool \<times> device \<Rightarrow> 'w \<Rightarrow> (bool \<times> device) \<times> 'w" where
  "syncNow E tenantId reach clk now h w =
     (case h of (running, d) \<Rightarrow>
        if running then ((True, d), w)
        else (case sync_pass E tenantId reach clk now d w of (r, d1, w1) \<Rightarrow> ((False, d1), w1)))"

section \<open>Pulling the catalog (\<open>sync/catalog-sync.ts\<close>)\<close>

definition text_or_null :: "json option \<Rightarrow> string option option" where
  "text_or_null v = (case v of Some (JStr s) \<Rightarrow> Some (Some s) | Some JNull \<Rightarrow> Some None | _ \<Rightarrow> None)"

definition json_array :: "json option \<Rightarrow> json list option" where
  "json_array v = (case v of Some (JArr js) \<Rightarrow> Some js | _ \<Rightarrow> None)"

definition cached_variant_of :: "int \<Rightarrow> string \<Rightarrow> string \<Rightarrow> json \<Rightarrow> cached_variant option" where
  "cached_variant_of now productId productName v = do {
     vid \<leftarrow> js_string_field ''id'' v;
     sku \<leftarrow> js_string_field ''sku'' v;
     barcode \<leftarrow> text_or_null (js_field ''barcode'' v);
     price \<leftarrow> js_string_field ''retailPrice'' v;
     quantity \<leftarrow> z_number (js_field ''availableQuantity'' v);
     status \<leftarrow> js_string_field ''stockStatus'' v;
     Some \<lparr>cv_id = vid, cv_productId = productId, cv_productName = productName, cv_sku = sku, cv_barcode = barcode,
       cv_retailPrice = price, cv_availableQuantity = quantity, cv_stockStatus = status, cv_updatedAt = now\<rparr>}"

definition cached_variants_of :: "int \<Rightarrow> json \<Rightarrow> cached_variant list option" where
  "cached_variants_of now p = do {
     pid \<leftarrow> js_string_field ''id'' p;
     name \<leftarrow> js_string_field ''name'' p;
     vs \<leftarrow> json_array (js_field ''variants'' p);
     all_some (map (cached_variant_of now pid name) vs)}"

definition cached_customer_of :: "int \<Rightarrow> json \<Rightarrow> cached_customer option" where
  "cached_customer_of now c = do {
     cid \<leftarrow> js_string_field ''id'' c;
     name \<leftarrow> js_string_field ''name'' c;
     email \<leftarrow> text_or_null (js_field ''email'' c);
     phone \<leftarrow> text_or_null (js_field ''phone'' c);
     Some \<lparr>cc_id = cid, cc_name = name, cc_email = email, cc_phone = phone, cc_updatedAt = now\<rparr>}"

text \<open>The first branch, with its default location or else its first; \<open>None\<close> when there is none.\<close>

definition active_branch_of :: "string \<Rightarrow> json list \<Rightarrow> active_branch option option" where
  "active_branch_of tenantId sites =
     (case sites of
        [] \<Rightarrow> Some None
      | branch # _ \<Rightarrow> do {
          locations \<leftarrow> json_array (js_field ''stockLocations'' branch);
          (case (case List.find (\<lambda>l. js_truthy (js_field ''isDefault'' l)) locations of
                   Some l \<Rightarrow> Some l | None \<Rightarrow> (case locations of [] \<Rightarrow> None | l # _ \<Rightarrow> Some l)) of
             None \<Rightarrow> Some None
           | Some location \<Rightarrow> do {
               bid \<leftarrow> js_string_field ''id'' branch;
               name \<leftarrow> js_string_field ''name'' branch;
               lid \<leftarrow> js_string_field ''id'' location;
               registers \<leftarrow> json_array (js_field ''registers'' branch);
               Some (Some \<lparr>ab_tenantId = tenantId, ab_branchId = bid, ab_branchName = name,
                 ab_stockLocationId = lid,
                 ab_registerId = (case registers of [] \<Rightarrow> None | r # _ \<Rightarrow> js_string_field ''id'' r)\<rparr>)})})"

definition bad_answer :: api_failure where
  "bad_answer = NotApiError ''Cannot read properties of undefined''"

text \<open>The writes of the cache; each table is its own transaction.\<close>

definition store_catalog ::
  "int \<Rightarrow> string \<Rightarrow> json option \<Rightarrow> json option \<Rightarrow> json option \<Rightarrow> device \<Rightarrow> (api_failure + unit) \<times> device" where
  "store_catalog now tenantId goods clients sites d =
     (case Option.bind (json_array (Option.bind goods (js_field ''products''))) (\<lambda>ps. all_some (map (cached_variants_of now) ps)) of
        None \<Rightarrow> (Inl bad_answer, d)
      | Some vss \<Rightarrow>
          (case replaceCachedVariants (concat vss) d of
             (Inl e, d1) \<Rightarrow> (Inl (NotApiError (error_message e)), d1)
           | (Inr _, d1) \<Rightarrow>
               (case Option.bind (json_array (Option.bind clients (js_field ''customers''))) (\<lambda>cs. all_some (map (cached_customer_of now) cs)) of
                  None \<Rightarrow> (Inl bad_answer, d1)
                | Some cs \<Rightarrow>
                    (case replaceCachedCustomers cs d1 of
                       (Inl e, d2) \<Rightarrow> (Inl (NotApiError (error_message e)), d2)
                     | (Inr _, d2) \<Rightarrow>
                         (case Option.bind (json_array sites) (active_branch_of tenantId) of
                            None \<Rightarrow> (Inl bad_answer, d2)
                          | Some b \<Rightarrow>
                              (let d3 = (case b of None \<Rightarrow> d2 | Some br \<Rightarrow> setActiveBranch br d2)
                               in (Inr (), setSyncMeta ''lastCatalogSyncAt'' (int_str now) d3)))))))"

definition syncCatalogDown ::
  "'w mobile_env \<Rightarrow> int \<Rightarrow> string \<Rightarrow> device \<Rightarrow> 'w \<Rightarrow> (api_failure + unit) \<times> device \<times> 'w" where
  "syncCatalogDown E now tenantId d w =
     (let opts = get_request\<lparr>ar_tenantId := Some tenantId\<rparr>;
          paged = opts\<lparr>ar_query := [(''pageSize'', ''100'')]\<rparr>;
          (ps, w1) = apiRequest E (loadSessionToken d) ''/products'' paged w;
          (cs, w2) = apiRequest E (loadSessionToken d) ''/customers'' paged w1;
          (bs, w3) = apiRequest E (loadSessionToken d) ''/branches'' opts w2
      in case (ps, cs, bs) of
           (Inr x, Inr y, Inr z) \<Rightarrow> (case store_catalog now tenantId x y z d of (r, d1) \<Rightarrow> (r, d1, w3))
         | (Inl e, _, _) \<Rightarrow> (Inl e, d, w3)
         | (_, Inl e, _) \<Rightarrow> (Inl e, d, w3)
         | (_, _, Inl e) \<Rightarrow> (Inl e, d, w3))"

section \<open>Signing in (\<open>auth/AuthContext.tsx\<close>)\<close>

record membership_entry =
  mse_tenantId :: string
  mse_tenantName :: string
  mse_roleKey :: string

record auth_state =
  au_user :: "json option"
  au_memberships :: "membership_entry list"
  au_currentTenantId :: "string option"

definition signed_out :: auth_state where
  "signed_out = \<lparr>au_user = None, au_memberships = [], au_currentTenantId = None\<rparr>"

definition membership_of :: "json \<Rightarrow> membership_entry option" where
  "membership_of m = do {
     tenantId \<leftarrow> js_string_field ''tenantId'' m;
     name \<leftarrow> js_string_field ''tenantName'' m;
     role \<leftarrow> js_string_field ''roleKey'' m;
     Some \<lparr>mse_tenantId = tenantId, mse_tenantName = name, mse_roleKey = role\<rparr>}"

text \<open>The stored tenant while it is still one of the user's, else the first.\<close>

definition chosen_tenant :: "string option \<Rightarrow> membership_entry list \<Rightarrow> string option" where
  "chosen_tenant stored ms =
     (case List.find (\<lambda>m. stored = Some (mse_tenantId m)) ms of
        Some valid \<Rightarrow> Some (mse_tenantId valid)
      | None \<Rightarrow> (case ms of [] \<Rightarrow> None | m # _ \<Rightarrow> Some (mse_tenantId m)))"

definition loadMe ::
  "'w mobile_env \<Rightarrow> device \<Rightarrow> auth_state \<Rightarrow> 'w \<Rightarrow> (api_failure + unit) \<times> auth_state \<times> 'w" where
  "loadMe E d a w =
     (case apiRequest E (loadSessionToken d) ''/auth/me'' get_request w of
        (Inl e, w1) \<Rightarrow> (Inl e, a, w1)
      | (Inr me, w1) \<Rightarrow>
          (case (Option.bind me (js_field ''user''),
                 Option.bind (json_array (Option.bind me (js_field ''memberships''))) (\<lambda>ms. all_some (map membership_of ms))) of
             (Some u, Some ms) \<Rightarrow>
               (Inr (), \<lparr>au_user = Some u, au_memberships = ms, au_currentTenantId = chosen_tenant (dv_tenantKey d) ms\<rparr>, w1)
           | _ \<Rightarrow> (Inl bad_answer, a, w1)))"

text \<open>The effect at start-up: a token that does not open \<open>/auth/me\<close> is cleared.\<close>

definition restoreSession :: "'w mobile_env \<Rightarrow> device \<Rightarrow> auth_state \<Rightarrow> 'w \<Rightarrow> device \<times> auth_state \<times> 'w" where
  "restoreSession E d a w =
     (if truthy (loadSessionToken d)
      then (case loadMe E d a w of
              (Inl e, a1, w1) \<Rightarrow> (clearSessionToken d, a1, w1)
            | (Inr _, a1, w1) \<Rightarrow> (d, a1, w1))
      else (d, a, w))"

definition post_anonymous :: "'w mobile_env \<Rightarrow> device \<Rightarrow> string \<Rightarrow> json \<Rightarrow> 'w \<Rightarrow> (api_failure + json option) \<times> 'w" where
  "post_anonymous E d path body w =
     apiRequest E (loadSessionToken d) path
       (get_request\<lparr>ar_method := ''POST'', ar_body := Some body, ar_token := Some None\<rparr>) w"

text \<open>The result: whether a second factor is asked for, and its challenge.\<close>

definition login ::
  "'w mobile_env \<Rightarrow> string \<Rightarrow> string \<Rightarrow> device \<Rightarrow> auth_state \<Rightarrow> 'w \<Rightarrow>
   (api_failure + bool \<times> string option) \<times> device \<times> auth_state \<times> 'w" where
  "login E email password d a w =
     (case post_anonymous E d ''/auth/login'' (JObj [(''email'', JStr email), (''password'', JStr password)]) w of
        (Inl e, w1) \<Rightarrow> (Inl e, d, a, w1)
      | (Inr None, w1) \<Rightarrow> (Inl bad_answer, d, a, w1)
      | (Inr (Some result), w1) \<Rightarrow>
          if js_truthy (js_field ''mfaRequired'' result)
          then (Inr (True, js_string_field ''mfaChallengeToken'' result), d, a, w1)
          else if truthy (js_string_field ''sessionToken'' result)
          then (let d1 = saveSessionToken (the (js_string_field ''sessionToken'' result)) d
                in case loadMe E d1 a w1 of
                     (Inl e, a1, w2) \<Rightarrow> (Inl e, d1, a1, w2)
                   | (Inr _, a1, w2) \<Rightarrow> (Inr (False, None), d1, a1, w2))
          else (Inr (False, None), d, a, w1))"

definition completeMfa ::
  "'w mobile_env \<Rightarrow> string \<Rightarrow> string \<Rightarrow> device \<Rightarrow> auth_state \<Rightarrow> 'w \<Rightarrow>
   (api_failure + unit) \<times> device \<times> auth_state \<times> 'w" where
  "completeMfa E mfaChallengeToken code d a w =
     (case post_anonymous E d ''/auth/mfa/verify''
             (JObj [(''mfaChallengeToken'', JStr mfaChallengeToken), (''code'', JStr code)]) w of
        (Inl e, w1) \<Rightarrow> (Inl e, d, a, w1)
      | (Inr data, w1) \<Rightarrow>
          (case Option.bind data (js_string_field ''sessionToken'') of
             None \<Rightarrow> (Inl bad_answer, d, a, w1)
           | Some token \<Rightarrow>
               (let d1 = saveSessionToken token d
                in case loadMe E d1 a w1 of (r, a1, w2) \<Rightarrow> (r, d1, a1, w2))))"

text \<open>Signing out clears the session on the device whatever the server answers.\<close>

definition logout ::
  "'w mobile_env \<Rightarrow> device \<Rightarrow> 'w \<Rightarrow> (api_failure + unit) \<times> device \<times> auth_state \<times> 'w" where
  "logout E d w =
     (case apiRequest E (loadSessionToken d) ''/auth/logout'' (get_request\<lparr>ar_method := ''POST''\<rparr>) w of
        (Inl e, w1) \<Rightarrow> (Inl e, clearSessionToken d, signed_out, w1)
      | (Inr _, w1) \<Rightarrow> (Inr (), clearSessionToken d, signed_out, w1))"

definition setCurrentTenantId :: "string \<Rightarrow> device \<Rightarrow> auth_state \<Rightarrow> device \<times> auth_state" where
  "setCurrentTenantId tenantId d a = (d\<lparr>dv_tenantKey := Some tenantId\<rparr>, a\<lparr>au_currentTenantId := Some tenantId\<rparr>)"

section \<open>The sign-in screen (\<open>screens/LoginScreen.tsx\<close>)\<close>

record login_screen =
  ls_email :: string
  ls_password :: string
  ls_mfaChallengeToken :: "string option"
  ls_mfaCode :: string
  ls_error :: "string option"

definition shown_error :: "string \<Rightarrow> api_failure \<Rightarrow> string" where
  "shown_error other e = (case e of ApiError status m \<Rightarrow> m | NotApiError m \<Rightarrow> other)"

definition handleLogin ::
  "'w mobile_env \<Rightarrow> login_screen \<Rightarrow> device \<Rightarrow> auth_state \<Rightarrow> 'w \<Rightarrow> login_screen \<times> device \<times> auth_state \<times> 'w" where
  "handleLogin E scr d a w =
     (let scr0 = scr\<lparr>ls_error := None\<rparr>
      in case login E (ls_email scr) (ls_password scr) d a w of
           (Inl e, d1, a1, w1) \<Rightarrow> (scr0\<lparr>ls_error := Some (shown_error ''Sign-in failed'' e)\<rparr>, d1, a1, w1)
         | (Inr (mfaRequired, challenge), d1, a1, w1) \<Rightarrow>
             (if mfaRequired \<and> truthy challenge then scr0\<lparr>ls_mfaChallengeToken := challenge\<rparr> else scr0, d1, a1, w1))"

definition handleMfa ::
  "'w mobile_env \<Rightarrow> login_screen \<Rightarrow> device \<Rightarrow> auth_state \<Rightarrow> 'w \<Rightarrow> login_screen \<times> device \<times> auth_state \<times> 'w" where
  "handleMfa E scr d a w =
     (case ls_mfaChallengeToken scr of
        None \<Rightarrow> (scr, d, a, w)
      | Some challenge \<Rightarrow>
          (if challenge = [] then (scr, d, a, w)
           else let scr0 = scr\<lparr>ls_error := None\<rparr>
             in case completeMfa E challenge (ls_mfaCode scr) d a w of
                  (Inl e, d1, a1, w1) \<Rightarrow> (scr0\<lparr>ls_error := Some (shown_error ''Invalid code'' e)\<rparr>, d1, a1, w1)
                | (Inr _, d1, a1, w1) \<Rightarrow> (scr0, d1, a1, w1)))"

end
