(* ===== verification/Point_Of_Sale.thy ===== *)
theory Point_Of_Sale
  imports Mobile
begin

text \<open>
  The screens that sell: the mobile point of sale with its queue screen and home screen
  (\<open>apps/mobile/src/screens\<close>). A price is \<open>Number\<close> of the text the catalog holds and the running
  total is computed in doubles. Numbers cross the wire by the decimal numeral the JSON writer
  writes; the amount of a payment is the numeral \<open>toFixed(2)\<close> wrote, which a double of that size
  keeps, and NaN is written as null.
\<close>

section \<open>The cart\<close>

record pos_line =
  pl_variantId :: string
  pl_name :: string
  pl_sku :: string
  pl_unitPrice :: js_num
  pl_quantity :: nat

definition add_line :: "pos_line \<Rightarrow> pos_line list \<Rightarrow> pos_line list" where
  "add_line new cart =
     (case List.find (\<lambda>l. pl_variantId l = pl_variantId new) cart of
        Some existing \<Rightarrow>
          map (\<lambda>l. if pl_variantId l = pl_variantId new then l\<lparr>pl_quantity := pl_quantity l + 1\<rparr> else l) cart
      | None \<Rightarrow> cart @ [new])"

definition addToCart :: "cached_variant \<Rightarrow> pos_line list \<Rightarrow> pos_line list" where
  "addToCart v cart = add_line \<lparr>pl_variantId = cv_id v, pl_name = cv_productName v, pl_sku = cv_sku v,
     pl_unitPrice = js_num_of (Number_of_string (cv_retailPrice v)), pl_quantity = 1\<rparr> cart"

definition cart_total :: "pos_line list \<Rightarrow> js_num" where
  "cart_total cart = foldl (\<lambda>sum l. js_add sum (js_times (pl_unitPrice l) (Some (of_nat (pl_quantity l))))) (Some 0) cart"

definition total_text :: "js_num \<Rightarrow> string" where
  "total_text num = (case num of None \<Rightarrow> ''NaN'' | Some x \<Rightarrow> js_toFixed 2 x)"

definition amount_json :: "js_num \<Rightarrow> json" where
  "amount_json num = (case Option.bind num (\<lambda>x. Number_of_string (js_toFixed 2 x)) of
     None \<Rightarrow> JNull | Some a \<Rightarrow> JNum a)"

text \<open>The body of \<open>POST /sales\<close>: an undefined register is not written.\<close>

definition sale_payload ::
  "string \<Rightarrow> string \<Rightarrow> string option \<Rightarrow> string \<Rightarrow> string \<Rightarrow> pos_line list \<Rightarrow> json" where
  "sale_payload clientMutationId branchId registerId stockLocationId method cart =
     JObj ([(''clientMutationId'', JStr clientMutationId), (''branchId'', JStr branchId)]
       @ (case registerId of None \<Rightarrow> [] | Some r \<Rightarrow> [(''registerId'', JStr r)])
       @ [(''stockLocationId'', JStr stockLocationId),
          (''lines'', JArr (map (\<lambda>l. JObj [(''variantId'', JStr (pl_variantId l)),
             (''quantity'', JNum (of_nat (pl_quantity l))), (''discountAmount'', JNum 0)]) cart)),
          (''payments'', JArr [JObj [(''method'', JStr method), (''amount'', amount_json (cart_total cart))]]),
          (''currency'', JStr ''USD'')])"

section \<open>The mobile point of sale (\<open>screens/PosScreen.tsx\<close>)\<close>

record pos_screen =
  ps_variants :: "cached_variant list"
  ps_branch :: "active_branch option"
  ps_search :: string
  ps_cart :: "pos_line list"
  ps_confirmation :: "string option"

definition empty_screen :: pos_screen where
  "empty_screen = \<lparr>ps_variants = [], ps_branch = None, ps_search = [], ps_cart = [], ps_confirmation = None\<rparr>"

definition reload :: "device \<Rightarrow> pos_screen \<Rightarrow> pos_screen" where
  "reload d scr = scr\<lparr>ps_variants := listCachedVariants d, ps_branch := getActiveBranch d\<rparr>"

definition filtered_variants :: "pos_screen \<Rightarrow> cached_variant list" where
  "filtered_variants scr =
     (let q = toLowerCase (js_trim (ps_search scr))
      in if q = [] then ps_variants scr
         else filter (\<lambda>v. has_substring q (toLowerCase (cv_productName v)) \<or> has_substring q (toLowerCase (cv_sku v)))
                (ps_variants scr))"

text \<open>A press on a product row, which is disabled without stock.\<close>

definition pressProduct :: "cached_variant \<Rightarrow> pos_screen \<Rightarrow> pos_screen" where
  "pressProduct v scr =
     (if cv_availableQuantity v \<le> 0 then scr else scr\<lparr>ps_cart := addToCart v (ps_cart scr)\<rparr>)"

definition queued_sale :: "string \<Rightarrow> active_branch \<Rightarrow> pos_line list \<Rightarrow> enqueue_input" where
  "queued_sale mutationId branch cart =
     \<lparr>eq_id = mutationId, eq_kind = ''sale.create'', eq_endpoint = ''/sales'',
      eq_payload = sale_payload mutationId (ab_branchId branch) (ab_registerId branch) (ab_stockLocationId branch) ''CASH'' cart\<rparr>"

definition decrement_all :: "pos_line list \<Rightarrow> device \<Rightarrow> device" where
  "decrement_all cart d = fold (\<lambda>l. decrementCachedStock (pl_variantId l) (of_nat (pl_quantity l))) cart d"

definition handleCharge ::
  "string \<Rightarrow> int \<Rightarrow> string option \<Rightarrow> pos_screen \<Rightarrow> device \<Rightarrow> (error + pos_screen) \<times> device" where
  "handleCharge mutationId now currentTenantId scr d =
     (case ps_branch scr of
        None \<Rightarrow> (Inr scr, d)
      | Some branch \<Rightarrow>
          (if \<not> truthy currentTenantId \<or> ps_cart scr = [] then (Inr scr, d)
           else case enqueue SqliteQueueStorageAdapter now (queued_sale mutationId branch (ps_cart scr)) (dv_queue d) of
                  Inl e \<Rightarrow> (Inl e, d)
                | Inr (item, q) \<Rightarrow>
                    (let d1 = decrement_all (ps_cart scr) (d\<lparr>dv_queue := q\<rparr>)
                     in (Inr (reload d1 (scr\<lparr>ps_cart := [],
                           ps_confirmation := Some (''Sale queued '' @ em_dash @ '' $'' @ total_text (cart_total (ps_cart scr)) @
                             ''. Will sync automatically.'')\<rparr>)), d1))))"

section \<open>The queue and home screens (\<open>screens/QueueScreen.tsx\<close>, \<open>screens/HomeScreen.tsx\<close>)\<close>

fun status_label :: "item_status \<Rightarrow> string" where
  "status_label Pending = ''Waiting to sync''"
| "status_label Syncing = ''Syncing'' @ [CHR 0xE2, CHR 0x80, CHR 0xA6]"
| "status_label Synced = ''Synced''"
| "status_label Failed = ''Retrying soon''"
| "status_label Dead = ''Needs attention''"

definition queue_rows :: "device \<Rightarrow> queue_item list" where
  "queue_rows d = sort_key (\<lambda>i. - qi_createdAt i) (queue_listAll SqliteQueueStorageAdapter (dv_queue d))"

definition handleRetry :: "int \<Rightarrow> string \<Rightarrow> device \<Rightarrow> device" where
  "handleRetry now i d = d\<lparr>dv_queue := manualRetry SqliteQueueStorageAdapter now i (dv_queue d)\<rparr>"

text \<open>The refresh of the catalog: a failure leaves the cache as it is, without a message.\<close>

definition handleSyncCatalog :: "'w mobile_env \<Rightarrow> int \<Rightarrow> string option \<Rightarrow> device \<Rightarrow> 'w \<Rightarrow> device \<times> 'w" where
  "handleSyncCatalog E now currentTenantId d w =
     (if truthy currentTenantId
      then (case syncCatalogDown E now (the currentTenantId) d w of (r, d1, w1) \<Rightarrow> (d1, w1))
      else (d, w))"

section \<open>The amount charged\<close>

definition line_prices :: "pos_line list \<Rightarrow> (string \<Rightarrow> rat) \<Rightarrow> (rat \<times> nat) list" where
  "line_prices cart price = map (\<lambda>l. (price (pl_variantId l), pl_quantity l)) cart"

text \<open>A cart whose prices are those of \<open>price\<close>, as numbers of the language.\<close>

definition priced :: "(string \<Rightarrow> rat) \<Rightarrow> pos_line list \<Rightarrow> bool" where
  "priced price cart \<longleftrightarrow> (\<forall>l\<in>set cart. pl_unitPrice l = Some (to_double (price (pl_variantId l))))"

lemma cart_total_doubles:
  assumes "priced price cart"
  shows "cart_total cart = Some (double_total 0 (line_prices cart price))"
proof -
  have "foldl (\<lambda>sum l. js_add sum (js_times (pl_unitPrice l) (Some (of_nat (pl_quantity l))))) (Some t) cart =
      Some (double_total t (line_prices cart price))" for t
    using assms
  proof (induction cart arbitrary: t)
    case (Cons l cart)
    then have "pl_unitPrice l = Some (to_double (price (pl_variantId l)))" "priced price cart"
      by (simp_all add: priced_def)
    with Cons.IH show ?case by (simp add: line_prices_def)
  qed (simp add: line_prices_def)
  then show ?thesis by (simp add: cart_total_def)
qed

lemma addToCart_priced:
  assumes "Number_of_string (cv_retailPrice v) = Some (price (cv_id v))" "priced price cart"
  shows "priced price (addToCart v cart)"
  using assms by (auto simp: addToCart_def add_line_def priced_def js_num_of_def split: option.split)

text \<open>Adding keeps one line for each variant, with a positive quantity.\<close>

definition cart_ok :: "pos_line list \<Rightarrow> bool" where
  "cart_ok cart \<longleftrightarrow> distinct (map pl_variantId cart) \<and> (\<forall>l\<in>set cart. 0 < pl_quantity l)"

lemma addToCart_ok: "cart_ok cart \<Longrightarrow> cart_ok (addToCart v cart)"
proof -
  assume c: "cart_ok cart"
  have m: "map (pl_variantId \<circ> (\<lambda>l. if P l then l\<lparr>pl_quantity := f l\<rparr> else l)) cart = map pl_variantId cart" for P f
    by (induction cart) auto
  show ?thesis
    using c by (auto simp: addToCart_def add_line_def cart_ok_def m find_None_iff split: option.split)
qed

text \<open>What \<open>toFixed(2)\<close> writes reads back as the cents it stands for.\<close>

lemma digits_value_append: "digits_value (a @ b) = digits_value a * 10 ^ length b + digits_value b"
proof -
  have f: "foldl (\<lambda>a c. 10 * a + (of_char c - 48)) k b = k * 10 ^ length b + digits_value b" for k
    unfolding digits_value_def
  proof (induction b arbitrary: k)
    case (Cons c b)
    show ?case
      using Cons.IH [of "10 * k + (of_char c - 48)"] Cons.IH [of "of_char c - 48"] by (simp add: algebra_simps)
  qed simp
  show ?thesis unfolding digits_value_def [of "a @ b"] foldl_append f digits_value_def [of a] ..
qed

lemma two_digits:
  assumes "n < 100"
  shows "digits_value (padStart 2 (CHR ''0'') (nat_str n)) = n"
    "length (padStart 2 (CHR ''0'') (nat_str n)) = 2"
    "\<forall>c\<in>set (padStart 2 (CHR ''0'') (nat_str n)). is_digit c"
proof -
  have zeros: "digits_value (replicate k (CHR ''0'')) = 0" for k
  proof (induction k)
    case (Suc k)
    then show ?case using digits_value_append [of "[CHR ''0'']" "replicate k (CHR ''0'')"]
      by (simp add: digits_value_def)
  qed (simp add: digits_value_def)
  then show "digits_value (padStart 2 (CHR ''0'') (nat_str n)) = n"
    by (simp add: padStart_def digits_value_append)
  have "n div 10 < 10" using assms by linarith
  then have "length (nat_str n) \<le> 2"
    by (simp add: nat_str.simps [of n] nat_str.simps [of "n div 10"])
  then show "length (padStart 2 (CHR ''0'') (nat_str n)) = 2" by (simp add: padStart_def)
  show "\<forall>c\<in>set (padStart 2 (CHR ''0'') (nat_str n)). is_digit c"
    using nat_str_all_digits [of n] by (auto simp: padStart_def is_digit_def)
qed

lemma split_digits_point: "\<forall>c\<in>set a. is_digit c \<Longrightarrow> split_digits (a @ CHR ''.'' # b) = (a, CHR ''.'' # b)"
  by (induction a) (auto simp: is_digit_def)

lemma Number_decimal:
  assumes a: "\<forall>c\<in>set a. is_digit c" "a \<noteq> []" and b: "\<forall>c\<in>set b. is_digit c" "b \<noteq> []"
  shows "Number_of_string (a @ CHR ''.'' # b) = Some (of_nat (digits_value (a @ b)) / 10 ^ length b)"
proof -
  have nospace: "dropWhile is_space t = t" if "t \<noteq> []" "is_digit (hd t)" for t
    using that by (cases t) (auto simp: is_digit_def is_space_def)
  obtain c cs where c: "a = c # cs" "is_digit c" using a by (cases a) auto
  have "is_digit (hd (rev b))" using b by (simp add: hd_rev)
  moreover have "\<not> is_space c" using c(2) by (auto simp: is_digit_def is_space_def)
  ultimately have "js_trim (a @ CHR ''.'' # b) = a @ CHR ''.'' # b"
    using b(2) c by (simp add: js_trim_def nospace [where t = "rev b @ _"])
  moreover have "c \<noteq> CHR ''-''" "c \<noteq> CHR ''+''" using c(2) by (auto simp: is_digit_def)
  moreover have "unsigned_number (a @ CHR ''.'' # b) = Some (of_nat (digits_value (a @ b)) / 10 ^ length b)"
    using a b by (simp add: unsigned_number_def split_digits_point split_digits_all Let_def)
  ultimately show ?thesis using c by (simp add: Number_of_string_def)
qed

lemma Number_toFixed:
  assumes "0 \<le> x"
  shows "Number_of_string (js_toFixed 2 x) = Some (of_int (toFixed_cents x) / 100)"
proof -
  define n where "n = nat \<lfloor>x * 100 + 1 / 2\<rfloor>"
  let ?f = "padStart 2 (CHR ''0'') (nat_str (n mod 100))"
  have "js_toFixed 2 x = nat_str (n div 100) @ CHR ''.'' # ?f"
    using assms by (simp add: js_toFixed_def n_def Let_def)
  moreover have "?f \<noteq> []" using two_digits(2) [of "n mod 100"] by auto
  ultimately have "Number_of_string (js_toFixed 2 x) = Some (of_nat (digits_value (nat_str (n div 100) @ ?f)) / 10 ^ length ?f)"
    using Number_decimal [OF nat_str_all_digits nat_str_not_Nil two_digits(3)] by simp
  also have "digits_value (nat_str (n div 100) @ ?f) = n"
    by (simp add: digits_value_append two_digits)
  also have "length ?f = 2" by (simp add: two_digits)
  also have "of_nat n = (of_int (toFixed_cents x) :: rat)"
    using assms by (simp add: n_def toFixed_cents_def floor_mono [of 0, simplified])
  finally show ?thesis by simp
qed

text \<open>The amount on the wire is the exact total.\<close>

lemma amount_exact:
  assumes "priced price cart" "\<forall>l\<in>set cart. 0 \<le> price (pl_variantId l)" "length cart \<le> 1000"
    and "exact_total (line_prices cart price) \<le> 10 ^ 9" "exact_total (line_prices cart price) * 100 = of_int n"
  shows "amount_json (cart_total cart) = JNum (exact_total (line_prices cart price))"
proof -
  have p: "\<forall>(p, q)\<in>set (line_prices cart price). 0 \<le> p" using assms(2) by (auto simp: line_prices_def)
  have l: "length (line_prices cart price) \<le> 1000" using assms(3) by (simp add: line_prices_def)
  show ?thesis
    using toFixed_total [OF p l assms(4,5)] double_total_nonneg [OF p l] assms(5)
    by (simp add: amount_json_def cart_total_doubles [OF assms(1)] Number_toFixed)
qed

end
