(* ===== verification/Mobile_Sync.thy ===== *)
theory Mobile_Sync
  imports Point_Of_Sale Queue_Facts Api_Facts Sales_Lifecycle
begin

text \<open>
  The phone and the server together: the requests of the sync engine are answered by the modelled
  controller of \<open>POST /sales\<close>, over a network that may lose a request or lose its answer. The world of
  the engine is the database, the world of the server and the deliveries to come. The steps of the
  composed system are those of the cashier, the engine (a pass, or one cut off by a crash), the other
  users of the sales service and the rest of the phone.
\<close>

section \<open>The network\<close>

datatype delivery = Delivered | AnswerLost | RequestLost

type_synonym 'w network = "db \<times> 'w \<times> delivery list"

definition request_of :: "http_request \<Rightarrow> request" where
  "request_of hq = \<lparr>rq_cookie = None, rq_authorization = map_of (hq_headers hq) ''Authorization'',
     rq_tenantId = map_of (hq_headers hq) ''X-Tenant-Id''\<rparr>"

definition error_response :: "'w api \<Rightarrow> error \<Rightarrow> http_response" where
  "error_response A e = \<lparr>hr_status = error_status e, hr_headers = [],
     hr_body = js_stringify (api_json A) (JObj [(''statusCode'', JNum (of_nat (error_status e))), (''message'', JStr (error_body e))])\<rparr>"

text \<open>\<open>POST /sales\<close> over HTTP; \<open>render\<close> is how a sale is written.\<close>

definition post_sales :: "'w api \<Rightarrow> (sale \<Rightarrow> string) \<Rightarrow> http_request \<Rightarrow> db \<Rightarrow> 'w \<Rightarrow> http_response \<times> db \<times> 'w" where
  "post_sales A render hq s w =
     (case Option.bind (hq_body hq) (js_parse (api_json A)) of
        None \<Rightarrow> (error_response A (BadRequest ''Unexpected token''), s, w)
      | Some body \<Rightarrow>
          (case sales_create A (request_of hq) body s w of
             (Inr x, s1, w1) \<Rightarrow> (\<lparr>hr_status = 201, hr_headers = [], hr_body = render x\<rparr>, s1, w1)
           | (Inl e, s1, w1) \<Rightarrow> (error_response A e, s1, w1)))"

definition http_server :: "'w api \<Rightarrow> string \<Rightarrow> (sale \<Rightarrow> string) \<Rightarrow> http_request \<Rightarrow> db \<Rightarrow> 'w \<Rightarrow> http_response \<times> db \<times> 'w" where
  "http_server A base render hq s w =
     (if hq_method hq = ''POST'' \<and> hq_url hq = base @ ''/sales'' then post_sales A render hq s w
      else (error_response A (NotFound ''Cannot reach this route''), s, w))"

definition network_fetch :: "'w api \<Rightarrow> string \<Rightarrow> (sale \<Rightarrow> string) \<Rightarrow> 'w network fetch" where
  "network_fetch A base render hq nw =
     (case nw of (s, w, ds) \<Rightarrow>
        (case (case ds of [] \<Rightarrow> Delivered | d # _ \<Rightarrow> d) of
           RequestLost \<Rightarrow> (Inl (ServerError ''Network request failed''), (s, w, tl ds))
         | AnswerLost \<Rightarrow> (case http_server A base render hq s w of
             (res, s1, w1) \<Rightarrow> (Inl (ServerError ''Network request failed''), (s1, w1, tl ds)))
         | Delivered \<Rightarrow> (case http_server A base render hq s w of (res, s1, w1) \<Rightarrow> (Inr res, (s1, w1, tl ds)))))"

definition phone :: "'w api \<Rightarrow> string \<Rightarrow> (sale \<Rightarrow> string) \<Rightarrow> 'w network mobile_env" where
  "phone A base render = \<lparr>mb_json = api_json A, mb_base = base, mb_fetch = network_fetch A base render,
     mb_statusText = (\<lambda>_. [])\<rparr>"

section \<open>What one submission does\<close>

definition recorded :: "string \<Rightarrow> string \<Rightarrow> db \<Rightarrow> bool" where
  "recorded t i s \<longleftrightarrow> (\<exists>x\<in>set (sales s). mutation_key x = (t, Some i))"

definition sales_keys :: "db \<Rightarrow> bool" where
  "sales_keys s \<longleftrightarrow> distinct (map mutation_key (sales s))"

text \<open>Two databases of one history of sales: no sale disappears.\<close>

definition sales_grow :: "db \<Rightarrow> db \<Rightarrow> bool" where
  "sales_grow s s' \<longleftrightarrow> set (map mutation_key (sales s)) \<subseteq> set (map mutation_key (sales s')) \<and>
     (sales_keys s \<longrightarrow> sales_keys s')"

lemma sales_grow_refl [simp]: "sales_grow s s"
  by (simp add: sales_grow_def)

lemma sales_grow_trans: "sales_grow s s1 \<Longrightarrow> sales_grow s1 s2 \<Longrightarrow> sales_grow s s2"
  by (auto simp: sales_grow_def)

lemma recorded_iff: "recorded t i s \<longleftrightarrow> (t, Some i) \<in> set (map mutation_key (sales s))"
  unfolding recorded_def set_map image_iff by metis

lemma recorded_grow: "sales_grow s s' \<Longrightarrow> recorded t i s \<Longrightarrow> recorded t i s'"
  unfolding recorded_iff sales_grow_def by blast

lemma createSale_grow: "sales_grow s (snd (createSale E now t actor input s))"
  using createSale_appends [of E now t actor input s] createSale_keys [of s E now t actor input]
  by (auto simp: sales_grow_def sales_keys_def)

lemma sales_create_grow: "sales_grow s (fst (snd (sales_create A rq body s w)))"
  by (auto simp: sales_create_def tenant_route_def with_body_def on_db_def createSale_grow
      split: sum.split option.split prod.split) (metis createSale_grow snd_conv)+

lemma http_server_grow: "http_server A base render hq s w = (res, s1, w1) \<Longrightarrow> sales_grow s s1"
  using sales_create_grow [of s A "request_of hq" _ w]
  by (auto simp: http_server_def post_sales_def split: if_splits option.splits prod.splits sum.splits) (metis fst_conv snd_conv)+

lemma network_fetch_grow: "network_fetch A base render hq (s, w, ds) = (r, (s1, w1, ds1)) \<Longrightarrow> sales_grow s s1"
  using http_server_grow [of A base render hq s w]
  by (auto simp: network_fetch_def split: delivery.splits prod.splits)

text \<open>A created sale carries the mutation id its body asked for.\<close>

lemma sales_create_records:
  assumes "sales_create A rq (JObj kvs) s w = (Inr x, s1, w1)"
    and "map_of kvs ''clientMutationId'' = Some (JStr i)" and "rq_tenantId rq = Some t"
  shows "recorded t i s1"
proof -
  have "\<exists>ctx (uid :: string) m input. authorize_tenant (api_sha A) (api_now A) False [SALES_CREATE] rq s = Inr ctx \<and>
      ctx_membership ctx = Some m \<and> createSaleSchema (api_formats A) (Some (JObj kvs)) = Some input \<and>
      createSale (api_env A) (api_now A) (am_tenantId m) uid input s = (Inr x, s1)"
    using assms(1)
    by (auto simp: sales_create_def tenant_route_def with_body_def on_db_def validate_def err_simps
        split: sum.splits option.splits prod.splits)
  then obtain ctx uid m input where
    ctx: "authorize_tenant (api_sha A) (api_now A) False [SALES_CREATE] rq s = Inr ctx" "ctx_membership ctx = Some m"
    and input: "createSaleSchema (api_formats A) (Some (JObj kvs)) = Some input"
    and run: "createSale (api_env A) (api_now A) (am_tenantId m) uid input s = (Inr x, s1)" by blast
  have t: "am_tenantId m = t" using authorized_tenant [OF ctx] assms(3) by simp
  have i: "csi_clientMutationId input = i"
    using input assms(2) by (auto simp: createSaleSchema_def z_object_def z_uuid_def schema_simps bind_Some_iff)
  have "mutation_key x = (t, Some i) \<and> x \<in> set (sales s1)"
    using createSale_recorded [OF run] by (auto simp: t i mutation_key_def dest: find_SomeD)
  then show ?thesis by (auto simp: recorded_def)
qed

text \<open>An item of the queue that holds a sale, whose payload the JSON reader reads back.\<close>

definition holds_sale :: "json_lib \<Rightarrow> queue_item \<Rightarrow> bool" where
  "holds_sale J it \<longleftrightarrow> qi_endpoint it = ''/sales'' \<and>
     (\<exists>kvs. qi_payload it = JObj kvs \<and> map_of kvs ''clientMutationId'' = Some (JStr (qi_id it))) \<and>
     js_parse J (js_stringify J (qi_payload it)) = Some (qi_payload it)"

lemma submit_grow:
  "buildSubmit (phone A base render) tok t it (s, w, ds) = (x, (s1, w1, ds1)) \<Longrightarrow> sales_grow s s1"
  using network_fetch_grow [of A base render _ s w ds]
  by (auto simp: buildSubmit_def apiRequest_def phone_def Let_def split: prod.splits sum.splits if_splits api_failure.splits)

lemma error_status_ge [simp]: "400 \<le> error_status e"
  by (cases e) simp_all

lemma error_not_ok [simp]: "\<not> hr_ok (error_response A e)"
  using error_status_ge [of e] by (simp add: error_response_def hr_ok_def del: error_status_ge)

lemma submit_records:
  assumes "buildSubmit (phone A base render) tok t it (s, w, ds) = (x, (s1, w1, ds1))"
    and "is_success x" "holds_sale (api_json A) it" "t \<noteq> []"
  shows "recorded t (qi_id it) s1"
proof -
  let ?hq = "http_of (phone A base render) tok (qi_endpoint it)
    (get_request\<lparr>ar_method := ''POST'', ar_body := Some (qi_payload it), ar_tenantId := Some t\<rparr>)"
  obtain kvs where item: "qi_endpoint it = ''/sales''" "qi_payload it = JObj kvs"
    "map_of kvs ''clientMutationId'' = Some (JStr (qi_id it))"
    "js_parse (api_json A) (js_stringify (api_json A) (JObj kvs)) = Some (JObj kvs)"
    using assms(3) by (auto simp: holds_sale_def)
  obtain res where f: "network_fetch A base render ?hq (s, w, ds) = (Inr res, (s1, w1, ds1))" "hr_ok res"
    using assms(1,2)
    by (auto simp: buildSubmit_def apiRequest_def phone_def Let_def split: prod.splits sum.splits if_splits api_failure.splits)
  then have "http_server A base render ?hq s w = (res, s1, w1)"
    by (auto simp: network_fetch_def split: delivery.splits prod.splits)
  moreover have "hq_method ?hq = ''POST''" "hq_url ?hq = base @ ''/sales''"
    "Option.bind (hq_body ?hq) (js_parse (api_json A)) = Some (JObj kvs)"
    by (simp_all add: http_of_def get_request_def phone_def item)
  ultimately have "\<exists>y. sales_create A (request_of ?hq) (JObj kvs) s w = (Inr y, s1, w1)"
    using f(2) by (auto simp: http_server_def post_sales_def split: prod.splits sum.splits)
  moreover have "rq_tenantId (request_of ?hq) = Some t"
    using assms(4) by (simp add: request_of_def http_of_def request_headers_def get_request_def)
  ultimately show ?thesis by (auto intro: sales_create_records [OF _ item(3)])
qed

section \<open>What a pass establishes\<close>

text \<open>
  Over any storage: when \<open>P i\<close> holds after a successful submission of item \<open>i\<close> and survives every
  submission, it holds of every item a pass leaves synced, and the request of an item never changes.
\<close>

definition same_request :: "queue_item \<Rightarrow> queue_item \<Rightarrow> bool" where
  "same_request it jt \<longleftrightarrow> qi_id jt = qi_id it \<and> qi_endpoint jt = qi_endpoint it \<and> qi_payload jt = qi_payload it"

lemma same_request_refl [simp]: "same_request it it"
  by (simp add: same_request_def)

lemma same_request_trans: "same_request a b \<Longrightarrow> same_request b c \<Longrightarrow> same_request a c"
  by (simp add: same_request_def)

lemma same_request_settle [simp]: "same_request it (settle n now x it)"
  by (cases x) (auto simp: same_request_def settle_def fail_item_def)

lemma holds_sale_same: "same_request it jt \<Longrightarrow> holds_sale J jt = holds_sale J it"
  by (simp add: same_request_def holds_sale_def)

context queue_storage
begin

definition passed :: "(string \<Rightarrow> bool) \<Rightarrow> 's \<Rightarrow> 's \<Rightarrow> bool" where
  "passed P s s' \<longleftrightarrow> inv s' \<and> dom (items s') = dom (items s) \<and>
     (\<forall>i it jt. items s i = Some it \<and> items s' i = Some jt \<longrightarrow>
        same_request it jt \<and> (qi_status jt = Synced \<longrightarrow> P i \<or> qi_status it = Synced))"

lemma passed_refl: "inv s \<Longrightarrow> passed P s s"
  by (auto simp: passed_def)

lemma passed_trans:
  assumes "passed P s s1" "passed Q s1 s2" "\<And>i. P i \<Longrightarrow> Q i"
  shows "passed Q s s2"
  unfolding passed_def
proof (intro conjI allI impI)
  fix i it jt
  assume a: "items s i = Some it \<and> items s2 i = Some jt"
  then obtain kt where "items s1 i = Some kt" using assms(1) unfolding passed_def by (metis domD domI)
  then show "same_request it jt" "qi_status jt = Synced \<Longrightarrow> Q i \<or> qi_status it = Synced"
    using a assms unfolding passed_def by (blast intro: same_request_trans)+
qed (use assms in \<open>auto simp: passed_def\<close>)

lemma passed_status: "inv s \<Longrightarrow> passed P s (markSyncing S i s)" "inv s \<Longrightarrow> passed P s (manualRetry S now i s)"
  by (auto simp: passed_def markSyncing_def manualRetry_def update_inv update_items apply_patch_def no_patch_def
      same_request_def split: option.splits if_splits)

lemma passed_attempt:
  assumes "inv s" "items s (qi_id it) = Some it" "is_success x \<Longrightarrow> P (qi_id it)"
  shows "passed P s (snd (record_outcome S n now (qi_id it) x r (markSyncing S (qi_id it) s)))" (is "passed P s ?s2")
proof -
  have i1: "inv (markSyncing S (qi_id it) s)" using assms(1) by (rule mark_inv)
  have "items (markSyncing S (qi_id it) s) = (items s)(qi_id it \<mapsto> it\<lparr>qi_status := Syncing\<rparr>)"
    using assms by (simp add: markSyncing_items)
  then have "items ?s2 = (items s)(qi_id it \<mapsto> settle n now x it)"
    using record_outcome_items [OF i1, of "qi_id it" "it\<lparr>qi_status := Syncing\<rparr>"] by simp
  then show ?thesis
    using assms mark_inv(3) [OF i1] by (auto simp: passed_def settle_synced_iff)
qed

lemma sync_items_passed:
  assumes "inv s" "distinct (map qi_id ready)" "\<forall>it\<in>set ready. items s (qi_id it) = Some it"
    and keep: "\<And>i it w x w1. submit it w = (x, w1) \<Longrightarrow> P i w \<Longrightarrow> P i w1"
    and succ: "\<And>it w x w1. it \<in> set ready \<Longrightarrow> submit it w = (x, w1) \<Longrightarrow> is_success x \<Longrightarrow> P (qi_id it) w1"
    and run: "sync_items S n submit clk ready r s w = (r', s', w')"
  shows "passed (\<lambda>i. P i w') s s' \<and> (\<forall>i. P i w \<longrightarrow> P i w')"
  using assms(1-3) succ run
proof (induction ready arbitrary: r s w)
  case (Cons it ready)
  obtain x w1 where sub: "submit it w = (x, w1)" by fastforce
  obtain r2 s2 where ro: "record_outcome S n (clk (qi_id it)) (qi_id it) x (r\<lparr>sr_processed := sr_processed r + 1\<rparr>)
      (markSyncing S (qi_id it) s) = (r2, s2)" by fastforce
  have st: "items s (qi_id it) = Some it" using Cons.prems(3) by simp
  have p1: "passed (\<lambda>i. P i w1) s s2"
    using passed_attempt [where x = x and P = "\<lambda>i. P i w1", OF Cons.prems(1) st] Cons.prems(4) [OF _ sub] ro
    by (metis list.set_intros(1) snd_conv)
  have other: "items s2 (qi_id jt) = Some jt" if "jt \<in> set ready" for jt
  proof -
    have i1: "inv (markSyncing S (qi_id it) s)" using Cons.prems(1) by (rule mark_inv)
    have "qi_id jt \<noteq> qi_id it" using Cons.prems(2) imageI [OF that, of qi_id] by auto
    then show ?thesis
      using record_outcome_items [OF i1, of "qi_id it" "it\<lparr>qi_status := Syncing\<rparr>"] ro Cons.prems(3) that
        markSyncing_items [OF Cons.prems(1) st] by (metis fun_upd_apply insert_iff list.simps(15) snd_conv)
  qed
  have "sync_items S n submit clk ready r2 s2 w1 = (r', s', w')"
    using Cons.prems(5) ro by (simp add: sub Let_def)
  with Cons.IH [of s2 r2 w1] Cons.prems p1 other have
    "passed (\<lambda>i. P i w') s2 s' \<and> (\<forall>i. P i w1 \<longrightarrow> P i w')" by (simp add: passed_def)
  then show ?case using passed_trans [OF p1] keep [OF sub] by blast
qed (simp add: passed_refl)

end

section \<open>The composed system\<close>

inductive shop_step :: "'w api \<Rightarrow> string \<Rightarrow> (sale \<Rightarrow> string) \<Rightarrow> string \<Rightarrow> device \<times> db \<times> 'w \<Rightarrow> device \<times> db \<times> 'w \<Rightarrow> bool"
  for A base render t where
  charge: "handleCharge i now tenantId scr d = (r, d') \<Longrightarrow>
     (\<And>b. ps_branch scr = Some b \<Longrightarrow> js_parse (api_json A) (js_stringify (api_json A) (eq_payload (queued_sale i b (ps_cart scr)))) =
        Some (eq_payload (queued_sale i b (ps_cart scr)))) \<Longrightarrow>
     shop_step A base render t (d, s, w) (d', s, w)"
| pass: "sync_pass (phone A base render) t reach clk now d (s, w, ds) = (r, d', (s', w', ds')) \<Longrightarrow>
     shop_step A base render t (d, s, w) (d', s', w')"
| crash: "ready = listReady SqliteQueueStorageAdapter now (dv_queue d) \<Longrightarrow> k < length ready \<Longrightarrow>
     submit = buildSubmit (phone A base render) (loadSessionToken d) t \<Longrightarrow>
     sync_items SqliteQueueStorageAdapter DEFAULT_MAX_ATTEMPTS submit clk (take k ready) zero_result (dv_queue d) (s, w, ds) =
       (r, q, nw) \<Longrightarrow>
     submit (ready ! k) nw = (x, (s', w', ds')) \<Longrightarrow>
     shop_step A base render t (d, s, w)
       (d\<lparr>dv_queue := markSyncing SqliteQueueStorageAdapter (qi_id (ready ! k)) q\<rparr>, s', w')"
| retry: "qi_status it = Dead \<Longrightarrow> sqlite_items (dv_queue d) i = Some it \<Longrightarrow>
     shop_step A base render t (d, s, w) (handleRetry now i d, s, w)"
| device_else: "dv_queue d' = dv_queue d \<Longrightarrow> shop_step A base render t (d, s, w) (d', s, w)"
| shop_else: "sales_step (api_env A) s s' \<Longrightarrow> shop_step A base render t (d, s, w) (d, s', w)"

definition shop_ok :: "'w api \<Rightarrow> string \<Rightarrow> device \<times> db \<times> 'w \<Rightarrow> bool" where
  "shop_ok A t st = (case st of (d, s, w) \<Rightarrow>
     sqlite_inv (dv_queue d) \<and> sales_keys s \<and>
     (\<forall>i it. sqlite_items (dv_queue d) i = Some it \<longrightarrow>
        holds_sale (api_json A) it \<and> (qi_status it = Synced \<longrightarrow> recorded t i s)))"

text \<open>What a step keeps: the queue never loses an item or changes its request, sales are never lost.\<close>

definition shop_keeps :: "device \<times> db \<times> 'w \<Rightarrow> device \<times> db \<times> 'w \<Rightarrow> bool" where
  "shop_keeps st st' = (case (st, st') of ((d, s, w), (d', s', w')) \<Rightarrow>
     sales_grow s s' \<and> (\<forall>i it. sqlite_items (dv_queue d) i = Some it \<longrightarrow>
       (\<exists>jt. sqlite_items (dv_queue d') i = Some jt \<and> same_request it jt)))"

lemma shop_keeps_refl [simp]: "shop_keeps st st"
  by (auto simp: shop_keeps_def split: prod.splits)

lemma shop_keeps_trans: "shop_keeps a b \<Longrightarrow> shop_keeps b c \<Longrightarrow> shop_keeps a c"
  unfolding shop_keeps_def by (auto split: prod.splits dest: sales_grow_trans) (meson same_request_trans)

lemma sales_step_grow: "sales_step E s s' \<Longrightarrow> sales_grow s s'"
proof (induction rule: sales_step.induct)
  case (refund s now t actor saleId rinput)
  show ?case
  proof (cases "refundSale E now t actor saleId rinput s")
    case (Pair r s')
    have "map mutation_key (sales s') = map mutation_key (sales s)"
      using Pair by (auto simp: refundSale_def run_tx_def mutation_key_def map_update_where_same
          dest!: refund_tx_spec split: option.splits sum.splits prod.splits)
    then show ?thesis using Pair by (simp add: sales_grow_def sales_keys_def)
  qed
next
  case (void s now t actor saleId)
  have "map mutation_key (sales (snd (voidSale E now t actor saleId s))) = map mutation_key (sales s)"
    by (auto simp: voidSale_def Let_def mutation_key_def map_update_where_same split: option.splits)
  then show ?case by (simp add: sales_grow_def sales_keys_def)
qed (rule createSale_grow)

lemma passed_ok:
  assumes p: "sqlite.passed (\<lambda>i. recorded t i s') (dv_queue d) q" and g: "sales_grow s s'"
    and ok: "shop_ok A t (d, s, w)"
  shows "shop_ok A t (d\<lparr>dv_queue := q\<rparr>, s', w') \<and> shop_keeps (d, s, w) (d\<lparr>dv_queue := q\<rparr>, s', w')"
proof -
  have doms: "dom (sqlite_items q) = dom (sqlite_items (dv_queue d))" "sqlite_inv q"
    using p by (simp_all add: sqlite.passed_def)
  have item: "same_request it jt \<and> (qi_status jt = Synced \<longrightarrow> recorded t i s' \<or> qi_status it = Synced)"
    if "sqlite_items (dv_queue d) i = Some it" "sqlite_items q i = Some jt" for i it jt
    using p that by (simp add: sqlite.passed_def)
  have "holds_sale (api_json A) jt \<and> (qi_status jt = Synced \<longrightarrow> recorded t i s')"
    if jt: "sqlite_items q i = Some jt" for i jt
  proof -
    obtain it where it: "sqlite_items (dv_queue d) i = Some it" using jt doms(1) by blast
    have "holds_sale (api_json A) it \<and> (qi_status it = Synced \<longrightarrow> recorded t i s)"
      using ok it by (simp add: shop_ok_def)
    then show ?thesis using item [OF it jt] holds_sale_same recorded_grow [OF g] by blast
  qed
  moreover have "\<exists>jt. sqlite_items q i = Some jt \<and> same_request it jt" if "sqlite_items (dv_queue d) i = Some it" for i it
    using that doms(1) item by blast
  ultimately show ?thesis
    using ok g doms(2) by (simp add: shop_ok_def shop_keeps_def sales_grow_def)
qed

lemma decrement_all_queue [simp]: "dv_queue (decrement_all cart d) = dv_queue d"
  unfolding decrement_all_def by (induction cart arbitrary: d) (simp_all add: decrementCachedStock_def)

lemma charge_queue:
  assumes "handleCharge i now tenantId scr d = (r, d')" "sqlite_inv (dv_queue d)"
  shows "dv_queue d' = dv_queue d \<or> (\<exists>b. ps_branch scr = Some b \<and> sqlite_inv (dv_queue d') \<and>
     sqlite_items (dv_queue d') = (sqlite_items (dv_queue d))(i \<mapsto> new_item now (queued_sale i b (ps_cart scr))) \<and>
     sqlite_items (dv_queue d) i = None)"
proof (cases "\<exists>b item q. ps_branch scr = Some b \<and> enqueue SqliteQueueStorageAdapter now (queued_sale i b (ps_cart scr)) (dv_queue d) = Inr (item, q) \<and> dv_queue d' = q")
  case True
  then obtain b item q where e: "ps_branch scr = Some b" "enqueue SqliteQueueStorageAdapter now (queued_sale i b (ps_cart scr)) (dv_queue d) = Inr (item, q)"
    "dv_queue d' = q" by blast
  have id: "eq_id (queued_sale i b (ps_cart scr)) = i" by (simp add: queued_sale_def)
  show ?thesis
  proof (cases "sqlite_items (dv_queue d) i")
    case None
    then show ?thesis using sqlite.enqueue_new [OF assms(2), of "queued_sale i b (ps_cart scr)" now] e id by auto
  next
    case (Some it)
    then show ?thesis using sqlite.enqueue_existing [OF assms(2), of "queued_sale i b (ps_cart scr)"] e id by auto
  qed
next
  case False
  then show ?thesis using assms(1)
    by (auto simp: handleCharge_def Let_def split: option.splits if_splits sum.splits prod.splits)
qed

lemma charged_holds_sale:
  "js_parse J (js_stringify J (eq_payload (queued_sale i b cart))) = Some (eq_payload (queued_sale i b cart)) \<Longrightarrow>
     holds_sale J (new_item now (queued_sale i b cart))"
  by (simp add: holds_sale_def new_item_def queued_sale_def sale_payload_def)

lemma sync_items_world:
  assumes "sync_items S n submit clk ready r s w = (r', s', w')"
    and "\<And>it v. R v (snd (submit it v))" "\<And>a. R a a" "\<And>a b c. R a b \<Longrightarrow> R b c \<Longrightarrow> R a c"
  shows "R w w'"
  using assms(1)
proof (induction ready arbitrary: r s w)
  case (Cons it ready)
  obtain x w1 where sub: "submit it w = (x, w1)" by fastforce
  have "R w w1" using assms(2) [of w it] sub by simp
  then show ?case using Cons assms(4) by (auto simp: sub Let_def split: prod.splits)
qed (use assms(3) in simp)

lemma pass_ok:
  assumes "t \<noteq> []" and ok: "shop_ok A t (d, s, w)"
    and run: "sync_items SqliteQueueStorageAdapter n (buildSubmit (phone A base render) tok t) clk
       (take k (listReady SqliteQueueStorageAdapter now (dv_queue d))) r0 (dv_queue d) (s, w, ds) = (r, q, (s', w', ds'))"
  shows "sqlite.passed (\<lambda>i. recorded t i s') (dv_queue d) q \<and> sales_grow s s'"
proof -
  let ?submit = "buildSubmit (phone A base render) tok t" and ?ready = "listReady SqliteQueueStorageAdapter now (dv_queue d)"
  have inv: "sqlite_inv (dv_queue d)" using ok by (simp add: shop_ok_def)
  have dist: "distinct (map qi_id (take k ?ready))"
    using sqlite.listReady_distinct [OF inv] by (simp flip: take_map)
  have stored: "\<forall>it\<in>set (take k ?ready). sqlite_items (dv_queue d) (qi_id it) = Some it"
    using sqlite.listReady_stored [OF inv] by (auto dest: in_set_takeD)
  have grow: "sales_grow (fst v) (fst v1)" if "?submit it v = (x, v1)" for it v x v1
    using submit_grow [of A base render tok t it "fst v" "fst (snd v)" "snd (snd v)" x "fst v1" "fst (snd v1)" "snd (snd v1)"] that
    by simp
  have keep: "recorded t i (fst v1)" if "?submit it v = (x, v1)" "recorded t i (fst v)" for i it v x v1
    using recorded_grow [OF grow [OF that(1)] that(2)] .
  have "holds_sale (api_json A) it" if "it \<in> set (take k ?ready)" for it
    using stored that ok by (auto simp: shop_ok_def)
  then have succ: "recorded t (qi_id it) (fst v1)"
    if "it \<in> set (take k ?ready)" "?submit it v = (x, v1)" "is_success x" for it v x v1
    using submit_records [of A base render tok t it "fst v" "fst (snd v)" "snd (snd v)" x "fst v1" "fst (snd v1)" "snd (snd v1)"]
      that assms(1) by simp
  have "sqlite.passed (\<lambda>i. recorded t i (fst (s', w', ds'))) (dv_queue d) q"
    by (rule conjunct1 [OF sqlite.sync_items_passed [where P = "\<lambda>i v. recorded t i (fst v)", OF inv dist stored _ _ run]])
      (use keep succ in blast)+
  moreover have "sales_grow (fst (s, w, ds)) (fst (s', w', ds'))"
    by (rule sync_items_world [where R = "\<lambda>a b. sales_grow (fst a) (fst b)", OF run])
      (auto intro: sales_grow_trans grow [OF surjective_pairing])
  ultimately show ?thesis by simp
qed

lemma shop_step_ok:
  assumes "t \<noteq> []" "shop_step A base render t st st'" "shop_ok A t st"
  shows "shop_ok A t st' \<and> shop_keeps st st'"
  using assms(2,3)
proof (cases rule: shop_step.cases)
  case (charge i now tenantId scr d r d' s w)
  have inv: "sqlite_inv (dv_queue d)" using assms(3) charge(1) by (simp add: shop_ok_def)
  from charge_queue [OF charge(3) inv] show ?thesis
  proof (elim disjE exE conjE)
    fix b assume q: "ps_branch scr = Some b" "sqlite_inv (dv_queue d')" "sqlite_items (dv_queue d) i = None"
      "sqlite_items (dv_queue d') = (sqlite_items (dv_queue d))(i \<mapsto> new_item now (queued_sale i b (ps_cart scr)))"
    have "holds_sale (api_json A) (new_item now (queued_sale i b (ps_cart scr)))"
      using charge(4) [OF q(1)] by (rule charged_holds_sale)
    moreover have "qi_status (new_item now (queued_sale i b (ps_cart scr))) = Pending" by (simp add: new_item_def)
    ultimately show ?thesis using assms(3) q(2-) by (auto simp: shop_ok_def shop_keeps_def charge(1,2))
  qed (use assms(3) charge(1,2) in \<open>auto simp: shop_ok_def shop_keeps_def\<close>)
next
  case (pass reach clk now d s w ds r d' s' w' ds')
  have ok: "shop_ok A t (d, s, w)" using assms(3) pass(1) by simp
  show ?thesis
  proof (cases "is_online reach")
    case True
    obtain q where run: "sync_items SqliteQueueStorageAdapter DEFAULT_MAX_ATTEMPTS
        (buildSubmit (phone A base render) (loadSessionToken d) t) clk
        (listReady SqliteQueueStorageAdapter now (dv_queue d)) zero_result (dv_queue d) (s, w, ds) = (r, q, (s', w', ds'))"
      and d': "d' = d\<lparr>dv_queue := q\<rparr>"
      using pass(3) True by (auto simp: sync_pass_def runOnce_def split: prod.splits)
    from pass_ok [OF assms(1) ok, of DEFAULT_MAX_ATTEMPTS base render _ clk "length (listReady SqliteQueueStorageAdapter now (dv_queue d))" now]
    have "sqlite.passed (\<lambda>i. recorded t i s') (dv_queue d) q \<and> sales_grow s s'" using run by simp
    from passed_ok [OF conjunct1 [OF this] conjunct2 [OF this] ok] show ?thesis by (simp add: pass(1,2) d')
  next
    case False
    then have "d' = d" "s' = s" using pass(3) by (auto simp: sync_pass_def runOnce_def)
    then show ?thesis using ok by (simp add: pass(1,2) shop_ok_def shop_keeps_def)
  qed
next
  case (crash ready now d k submit clk s w ds r q nw x s' w' ds')
  have ok: "shop_ok A t (d, s, w)" using assms(3) crash(1) by simp
  obtain s1 w1 ds1 where nw: "nw = (s1, w1, ds1)" by (cases nw)
  have p: "sqlite.passed (\<lambda>i. recorded t i s1) (dv_queue d) q \<and> sales_grow s s1"
    using crash(6) unfolding nw crash(3,5) by (rule pass_ok [OF assms(1) ok])
  have g: "sales_grow s1 s'" using crash(7) unfolding nw crash(5) by (rule submit_grow)
  let ?q = "markSyncing SqliteQueueStorageAdapter (qi_id (ready ! k)) q"
  have "sqlite.passed (\<lambda>i. recorded t i s') q ?q"
    using p by (intro sqlite.passed_status) (simp add: sqlite.passed_def)
  with p have "sqlite.passed (\<lambda>i. recorded t i s') (dv_queue d) ?q"
    using sqlite.passed_trans recorded_grow [OF g] by blast
  moreover have "sales_grow s s'" using p g sales_grow_trans by blast
  ultimately show ?thesis using passed_ok [OF _ _ ok] by (simp add: crash(1,2))
next
  case (retry it d i s w now)
  have "sqlite.passed (\<lambda>i. recorded t i s) (dv_queue d) (manualRetry SqliteQueueStorageAdapter now i (dv_queue d))"
    using assms(3) retry(1) by (simp add: shop_ok_def sqlite.passed_status)
  from passed_ok [OF this sales_grow_refl, where A = A and w = w and w' = w] show ?thesis
    using assms(3) by (simp add: retry(1,2) handleRetry_def)
next
  case (device_else d' d s w)
  then show ?thesis using assms(3) by (auto simp: shop_ok_def shop_keeps_def)
next
  case (shop_else s s' d w)
  have g: "sales_grow s s'" using shop_else(3) by (rule sales_step_grow)
  show ?thesis using assms(3) g recorded_grow [OF g]
    by (simp add: shop_else(1,2) shop_ok_def shop_keeps_def) (auto simp: sales_grow_def)
qed

lemma shop_steps_ok:
  assumes "t \<noteq> []" "(shop_step A base render t)\<^sup>*\<^sup>* st st'" "shop_ok A t st"
  shows "shop_ok A t st' \<and> shop_keeps st st'"
  using assms(2,3)
proof (induction rule: rtranclp_induct)
  case (step a b)
  then show ?case using shop_step_ok [OF assms(1) step(2)] shop_keeps_trans by blast
qed simp

section \<open>Every offline sale once\<close>

definition new_device :: device where
  "new_device = \<lparr>dv_queue = [], dv_variants = [], dv_customers = [], dv_branch = None, dv_meta = [], dv_token = None, dv_tenantKey = None\<rparr>"

lemma new_device_ok: "sales_keys s \<Longrightarrow> shop_ok A t (new_device, s, w)"
  by (simp add: shop_ok_def new_device_def sqlite_empty)

lemma count_mutation:
  "distinct (map mutation_key xs) \<Longrightarrow>
     count_where (\<lambda>x. sale_tenantId x = t \<and> sale_clientMutationId x = Some i) xs =
       (if (t, Some i) \<in> set (map mutation_key xs) then 1 else 0)"
proof (induction xs)
  case (Cons x xs)
  then show ?case by (cases "mutation_key x = (t, Some i)") (auto simp: count_where_def mutation_key_def)
qed (simp add: count_where_def)

end
