(* ===== verification/Mobile_Facts.thy ===== *)
theory Mobile_Facts
  imports Mobile_Sync
begin

text \<open>
  The properties of the mobile point of sale: the amount it charges is exact, the request it queues is
  one the server accepts, a sale charged offline arrives when the device is back online, and every
  sale reaches the books once whatever the network does.
\<close>

section \<open>The request of a cart\<close>

definition sale_request :: "string \<Rightarrow> active_branch \<Rightarrow> pos_line list \<Rightarrow> rat \<Rightarrow> create_sale_input" where
  "sale_request i b cart amount = \<lparr>csi_clientMutationId = i, csi_branchId = ab_branchId b,
     csi_registerId = ab_registerId b, csi_stockLocationId = ab_stockLocationId b, csi_customerId = None,
     csi_lines = map (\<lambda>l. \<lparr>csl_variantId = pl_variantId l, csl_quantity = int (pl_quantity l),
       csl_unitPriceOverride = None, csl_discountAmount = 0\<rparr>) cart,
     csi_payments = [\<lparr>cp_method = CASH, cp_amount = amount, cp_reference = None\<rparr>],
     csi_note = None, csi_currency = ''USD''\<rparr>"

text \<open>The identifiers of the cache and the device are UUIDs, as the server made them.\<close>

definition uuids_ok :: "formats \<Rightarrow> string \<Rightarrow> active_branch \<Rightarrow> pos_line list \<Rightarrow> bool" where
  "uuids_ok F i b cart \<longleftrightarrow> fm_uuid F i \<and> fm_uuid F (ab_branchId b) \<and> fm_uuid F (ab_stockLocationId b) \<and>
     (\<forall>r. ab_registerId b = Some r \<longrightarrow> fm_uuid F r) \<and> (\<forall>l\<in>set cart. fm_uuid F (pl_variantId l))"

text \<open>A cart as the screen builds it: nonempty, one line for each variant, prices of the catalog in
  cents, and a positive total below a billion.\<close>

definition cart_total_of :: "(string \<Rightarrow> rat) \<Rightarrow> pos_line list \<Rightarrow> rat" where
  "cart_total_of price cart = exact_total (line_prices cart price)"

definition sellable :: "(string \<Rightarrow> rat) \<Rightarrow> pos_line list \<Rightarrow> bool" where
  "sellable price cart \<longleftrightarrow> cart \<noteq> [] \<and> cart_ok cart \<and> priced price cart \<and> length cart \<le> 1000 \<and>
     (\<forall>l\<in>set cart. 0 \<le> price (pl_variantId l) \<and> scaled 2 (price (pl_variantId l))) \<and>
     0 < cart_total_of price cart \<and> cart_total_of price cart \<le> 10 ^ 9"

lemma cart_total_of_sum: "cart_total_of price cart = (\<Sum>l\<leftarrow>cart. price (pl_variantId l) * of_nat (pl_quantity l))"
  by (simp add: cart_total_of_def exact_total_def line_prices_def o_def)

lemma cart_total_of_scaled:
  assumes "\<forall>l\<in>set cart. scaled 2 (price (pl_variantId l))"
  shows "scaled 2 (cart_total_of price cart)"
proof -
  have "scaled 2 (p * of_nat q)" if "scaled 2 p" for p q
    using scaled_mult_int [OF that, of "int q"] by simp
  then show ?thesis using assms by (auto simp: cart_total_of_sum intro!: scaled_sum_list)
qed

lemma sellable_amount:
  assumes "sellable price cart"
  shows "amount_json (cart_total cart) = JNum (cart_total_of price cart)"
proof -
  obtain n :: int where "cart_total_of price cart * 10 ^ 2 = of_int n"
    using cart_total_of_scaled assms unfolding sellable_def scaled_def by (metis Ints_cases)
  then show ?thesis
    using amount_exact [of price cart n] assms by (auto simp: sellable_def cart_total_of_def)
qed

lemma line_accepted:
  assumes "fm_uuid F (pl_variantId l)" "0 < pl_quantity l"
  shows "createSaleLineSchema F (Some (JObj [(''variantId'', JStr (pl_variantId l)),
       (''quantity'', JNum (of_nat (pl_quantity l))), (''discountAmount'', JNum 0)])) =
     Some \<lparr>csl_variantId = pl_variantId l, csl_quantity = int (pl_quantity l), csl_unitPriceOverride = None, csl_discountAmount = 0\<rparr>"
proof -
  have "\<exists>n. (of_nat (pl_quantity l) :: rat) = of_int n" by (metis of_int_of_nat_eq)
  with assms show ?thesis
    by (simp add: createSaleLineSchema_def z_object_def z_uuid_def z_check_def z_count_def z_int_def z_map_def
        z_optional_def z_default_def z_nonnegative_def)
qed

lemma lines_accepted:
  assumes "\<forall>l\<in>set cart. fm_uuid F (pl_variantId l) \<and> 0 < pl_quantity l"
  shows "all_some (map (\<lambda>j. createSaleLineSchema F (Some j)) (map (\<lambda>l. JObj [(''variantId'', JStr (pl_variantId l)),
             (''quantity'', JNum (of_nat (pl_quantity l))), (''discountAmount'', JNum 0)]) cart)) =
         Some (csi_lines (sale_request i b cart amount))"
  using assms by (induction cart) (simp_all add: sale_request_def line_accepted)

lemma payload_accepted:
  assumes "uuids_ok F i b cart" "cart_ok cart" "cart \<noteq> []" "amount_json (cart_total cart) = JNum a" "0 < a"
  shows "createSaleSchema F (Some (eq_payload (queued_sale i b cart))) = Some (sale_request i b cart a)"
proof -
  have l: "\<forall>l\<in>set cart. fm_uuid F (pl_variantId l) \<and> 0 < pl_quantity l"
    using assms(1,2) by (auto simp: uuids_ok_def cart_ok_def)
  have "js_length ''USD'' = 3" by code_simp
  then show ?thesis
    using assms lines_accepted [OF l, of i b a]
    by (cases "ab_registerId b")
      (auto simp: queued_sale_def sale_payload_def createSaleSchema_def z_object_def z_uuid_def z_check_def z_optional_def
        z_nonempty_def z_array_def createSalePaymentSchema_def paymentMethodSchema_def z_enum_def z_positive_def
        z_currency_def z_default_def z_length_def coerced_date_def uuids_ok_def sale_request_def)
qed

section \<open>The server commits it\<close>

text \<open>A server that sells the cart: branch, location and register exist, and every variant is
  offered at the price the phone shows, untaxed.\<close>

definition offers :: "string \<Rightarrow> (string \<Rightarrow> rat) \<Rightarrow> active_branch \<Rightarrow> pos_line list \<Rightarrow> db \<Rightarrow> bool" where
  "offers t price b cart s \<longleftrightarrow>
     (\<exists>x\<in>set (branches s). br_id x = ab_branchId b \<and> br_tenantId x = t) \<and>
     (\<exists>l\<in>set (stockLocations s). loc_id l = ab_stockLocationId b \<and> loc_tenantId l = t \<and> loc_branchId l = ab_branchId b) \<and>
     (\<forall>r. ab_registerId b = Some r \<longrightarrow> taken reg_id r (registers s)) \<and>
     (\<forall>l\<in>set cart. \<exists>v. variant_for t s (pl_variantId l) = Some v \<and> var_retailPrice v = price (pl_variantId l) \<and>
        tax_rate s v = 0 \<and> scaled 2 (var_costPrice v) \<and> column_range (var_costPrice v))"

text \<open>The computed lines carry the prices of their variants; an untaxed one has no tax.\<close>

definition sold_as :: "env \<Rightarrow> string \<Rightarrow> db \<Rightarrow> string \<Rightarrow> create_sale_line \<Rightarrow> computed_line \<Rightarrow> bool" where
  "sold_as E t s c sl l \<longleftrightarrow> (\<exists>v. variant_for t s (csl_variantId sl) = Some v \<and> cl_unitPrice l = money_of (line_price sl v) c \<and>
     cl_unitCost l = money_of (var_costPrice v) c \<and> cl_discountAmount l = money_of (csl_discountAmount sl) c \<and>
     (\<exists>m. cl_taxAmount l = money_round E 2 (money_percentage E m (tax_rate s v))))"

lemma compute_sold_as:
  "compute_line E t s c sl tt = Inr tt' \<Longrightarrow> \<exists>l. st_lines tt' = st_lines tt @ [l] \<and> sold_as E t s c sl l"
  unfolding sold_as_def by (auto simp: compute_line_def err_simps Let_def)

lemma compute_lines_of:
  "foldE (compute_line E t s c) ls tt = Inr tt' \<Longrightarrow> l \<in> set (st_lines tt') \<Longrightarrow>
     l \<in> set (st_lines tt) \<or> (\<exists>sl\<in>set ls. sold_as E t s c sl l)"
proof (induction ls arbitrary: tt)
  case (Cons sl ls)
  then obtain tt1 where t1: "compute_line E t s c sl tt = Inr tt1" "foldE (compute_line E t s c) ls tt1 = Inr tt'"
    by (auto simp: err_simps)
  from compute_sold_as [OF t1(1)] Cons.IH [OF t1(2) Cons.prems(2)] show ?case by auto
qed simp

lemma request_simps:
  "csi_currency (sale_request i b cart a) = ''USD''" "csi_clientMutationId (sale_request i b cart a) = i"
  "csi_branchId (sale_request i b cart a) = ab_branchId b" "csi_stockLocationId (sale_request i b cart a) = ab_stockLocationId b"
  "csi_registerId (sale_request i b cart a) = ab_registerId b" "csi_customerId (sale_request i b cart a) = None"
  "csi_payments (sale_request i b cart a) = [\<lparr>cp_method = CASH, cp_amount = a, cp_reference = None\<rparr>]"
  "csi_lines (sale_request i b cart a) = map (\<lambda>l. \<lparr>csl_variantId = pl_variantId l, csl_quantity = int (pl_quantity l),
       csl_unitPriceOverride = None, csl_discountAmount = 0\<rparr>) cart"
  by (simp_all add: sale_request_def)

lemma offered:
  assumes sell: "sellable price cart" and offer: "offers t price b cart s" and l: "l \<in> set cart"
  obtains v where "variant_for t s (pl_variantId l) = Some v" "var_retailPrice v = price (pl_variantId l)" "tax_rate s v = 0"
    "scaled 2 (var_costPrice v)" "column_range (var_costPrice v)" "0 \<le> price (pl_variantId l)" "scaled 2 (price (pl_variantId l))"
    "price (pl_variantId l) * of_nat (pl_quantity l) \<le> 10 ^ 9" "price (pl_variantId l) \<le> 10 ^ 9"
proof -
  obtain v where v: "variant_for t s (pl_variantId l) = Some v" "var_retailPrice v = price (pl_variantId l)" "tax_rate s v = 0"
    "scaled 2 (var_costPrice v)" "column_range (var_costPrice v)" using offer l by (auto simp: offers_def)
  have p: "0 \<le> price (pl_variantId l)" "scaled 2 (price (pl_variantId l))" "0 < pl_quantity l"
    using sell l by (auto simp: sellable_def cart_ok_def)
  have "price (pl_variantId l) * of_nat (pl_quantity l) \<le> cart_total_of price cart"
    unfolding cart_total_of_sum using sell l
    by (intro member_le_sum_list) (auto simp: sellable_def)
  also have "\<dots> \<le> 10 ^ 9" using sell by (simp add: sellable_def)
  finally have m: "price (pl_variantId l) * of_nat (pl_quantity l) \<le> 10 ^ 9" .
  have "price (pl_variantId l) * 1 \<le> price (pl_variantId l) * of_nat (pl_quantity l)"
    using p by (intro mult_left_mono) auto
  with m that [OF v p(1,2) m] show ?thesis by simp
qed

lemma untaxed_line:
  assumes sell: "sellable price cart" and offer: "offers t price b cart s" and l: "l \<in> set cart"
    and sl: "sl = \<lparr>csl_variantId = pl_variantId l, csl_quantity = int (pl_quantity l),
       csl_unitPriceOverride = None, csl_discountAmount = 0\<rparr>"
  shows "line_in_bounds t s sl \<and> gross_of t s sl = price (pl_variantId l) * of_nat (pl_quantity l) \<and>
      net_of t s sl = gross_of t s sl \<and> tax_of t s sl = 0"
  proof -
    obtain v where v: "variant_for t s (pl_variantId l) = Some v" "var_retailPrice v = price (pl_variantId l)" "tax_rate s v = 0"
      and p: "0 \<le> price (pl_variantId l)" "scaled 2 (price (pl_variantId l))"
      "price (pl_variantId l) * of_nat (pl_quantity l) \<le> 10 ^ 9"
      using offered [OF sell offer l] by metis
    have "0 \<le> price (pl_variantId l) * of_nat (pl_quantity l)" using p(1) by simp
    then show ?thesis
      using p(2,3) by (simp add: line_in_bounds_def net_of_def tax_of_def gross_of_def line_price_def sl v scaled_def)
  qed

lemma untaxed_request:
  assumes sell: "sellable price cart" and offer: "offers t price b cart s"
  shows "request_in_bounds t s (sale_request i b cart (cart_total_of price cart))" (is ?bounds)
    and "sale_amount t s (sale_request i b cart (cart_total_of price cart)) = cart_total_of price cart" (is ?amount)
    and "(\<Sum>l\<leftarrow>csi_lines (sale_request i b cart a). gross_of t s l) = cart_total_of price cart" (is ?gross)
    and "(\<Sum>l\<leftarrow>csi_lines (sale_request i b cart a). tax_of t s l) = 0" (is ?tax)
    and "(\<Sum>l\<leftarrow>csi_lines (sale_request i b cart a). csl_discountAmount l) = 0" (is ?disc)
proof -
  note each = untaxed_line [OF sell offer]
  have "scaled 4 (cart_total_of price cart)"
    using cart_total_of_scaled [of cart price] sell by (auto simp: sellable_def intro: scaled_mono)
  then show ?bounds
    using each sell by (auto simp: request_in_bounds_def request_simps sellable_def)
  show ?amount
    unfolding sale_amount_def request_simps cart_total_of_sum using each by (auto simp: o_def intro!: arg_cong [where f = sum_list])
  show ?gross unfolding request_simps cart_total_of_sum using each by (auto simp: o_def intro!: arg_cong [where f = sum_list])
  have "map (tax_of t s) (csi_lines (sale_request i b cart a)) = map (\<lambda>l. 0) cart"
    using each by (simp add: request_simps)
  then show ?tax by (simp add: sum_list_0 del: map_map)
  show ?disc by (simp add: request_simps o_def)
qed

lemma untaxed_line_in_range:
  assumes D: "decimal_lib (dec_round E) (dec_places E)" and sell: "sellable price cart" and offer: "offers t price b cart s"
    and run: "compute_totals E t s (sale_request i b cart a) = Inr (tt, g)"
    and totals: "map cl_lineTotal (st_lines tt) =
       map (\<lambda>l. money_of (net_of t s l + tax_of t s l) ''USD'') (csi_lines (sale_request i b cart a))"
    and l: "l \<in> set (st_lines tt)"
  shows "column_range (sl_unitPrice (sale_line_row E l)) \<and> column_range (sl_unitCost (sale_line_row E l)) \<and>
     column_range (sl_taxAmount (sale_line_row E l)) \<and> column_range (sl_discountAmount (sale_line_row E l)) \<and>
     column_range (sl_lineTotal (sale_line_row E l))"
proof -
  let ?in = "sale_request i b cart a"
  have places: "dec_places E 2 y = y" if "scaled 2 y" for y using that by (rule decimal_lib.places_exact [OF D])
  have zero: "dec_round E 0 = 0" by (rule decimal_lib.rnd_scaled [OF D, of 0]) simp_all
  have "foldE (compute_line E t s ''USD'') (csi_lines ?in) (zero_totals ''USD'') = Inr tt"
    using run by (auto simp: compute_totals_def err_simps request_simps(1))
  from compute_lines_of [OF this l] obtain sl where sl: "sl \<in> set (csi_lines ?in)" "sold_as E t s ''USD'' sl l"
    by (auto simp: zero_totals_def)
  then obtain c where c: "c \<in> set cart" "csl_variantId sl = pl_variantId c" "csl_discountAmount sl = 0"
    "csl_unitPriceOverride sl = None" by (auto simp: request_simps)
  obtain v where v: "variant_for t s (pl_variantId c) = Some v" "var_retailPrice v = price (pl_variantId c)" "tax_rate s v = 0"
    "scaled 2 (var_costPrice v)" "column_range (var_costPrice v)" "0 \<le> price (pl_variantId c)" "scaled 2 (price (pl_variantId c))"
    "price (pl_variantId c) \<le> 10 ^ 9"
    using offered [OF sell offer c(1)] by metis
  have "cl_lineTotal l \<in> set (map cl_lineTotal (st_lines tt))" using l by simp
  then obtain sl2 where sl2: "sl2 \<in> set (csi_lines ?in)" "cl_lineTotal l = money_of (net_of t s sl2 + tax_of t s sl2) ''USD''"
    unfolding totals by auto
  have fields: "cl_unitPrice l = money_of (price (pl_variantId c)) ''USD''" "cl_unitCost l = money_of (var_costPrice v) ''USD''"
    "cl_discountAmount l = money_of 0 ''USD''" "\<exists>m. cl_taxAmount l = money_round E 2 (money_percentage E m 0)"
    using sl(2) v c by (auto simp: sold_as_def line_price_def)
  have "toDecimalString E (cl_taxAmount l) = 0"
    using fields(4) zero places [of 0]
    by (auto simp: toDecimalString_def money_round_def money_percentage_def)
  moreover obtain c2 where c2: "c2 \<in> set cart" "sl2 = \<lparr>csl_variantId = pl_variantId c2, csl_quantity = int (pl_quantity c2),
       csl_unitPriceOverride = None, csl_discountAmount = 0\<rparr>" using sl2(1) by (auto simp: request_simps)
  moreover have "0 \<le> price (pl_variantId c2)" "scaled 2 (price (pl_variantId c2))"
    "price (pl_variantId c2) * of_nat (pl_quantity c2) \<le> 10 ^ 9" using offered [OF sell offer c2(1)] by metis+
  moreover have "scaled 2 (price (pl_variantId c2) * of_nat (pl_quantity c2))"
    using scaled_mult_int [OF \<open>scaled 2 (price (pl_variantId c2))\<close>, of "int (pl_quantity c2)"] by simp
  ultimately show ?thesis
    using untaxed_line [OF sell offer c2] v(4-) sl2(2)
    by (simp add: sale_line_row_def fields(1-3) money_ops places column_range_def)
qed

lemma untaxed_sale_commits:
  assumes D: "decimal_lib (dec_round E) (dec_places E)" and col: "\<forall>x. scaled 4 x \<longrightarrow> dec_col E x = x"
    and sell: "sellable price cart" and offer: "offers t price b cart s"
    and new: "\<not> recorded t i s"
  shows "\<exists>x s'. createSale E now t u (sale_request i b cart (cart_total_of price cart)) s = (Inr x, s') \<and>
     sales s' = sales s @ [x] \<and> sale_total x = cart_total_of price cart"
proof -
  let ?in = "sale_request i b cart (cart_total_of price cart)" and ?a = "cart_total_of price cart"
  note bounds = untaxed_request(1) [OF sell offer, of i] and amount = untaxed_request(2) [OF sell offer, of i]
  have places: "dec_places E 2 y = y" if "scaled 2 y" for y using that by (rule decimal_lib.places_exact [OF D])
  have zero: "dec_round E 0 = 0" by (rule decimal_lib.rnd_scaled [OF D, of 0]) (simp_all add: scaled_def)
  have sc: "scaled 2 ?a" "0 < ?a" "?a \<le> 10 ^ 9"
    using cart_total_of_scaled [of cart price] sell by (auto simp: sellable_def)
  obtain tt where tt: "compute_totals E t s ?in = Inr (tt, money_of ?a ''USD'')"
    "sums_to ''USD'' tt (\<Sum>l\<leftarrow>csi_lines ?in. gross_of t s l) (\<Sum>l\<leftarrow>csi_lines ?in. tax_of t s l)
       (\<Sum>l\<leftarrow>csi_lines ?in. csl_discountAmount l)"
    "map cl_lineTotal (st_lines tt) = map (\<lambda>l. money_of (net_of t s l + tax_of t s l) ''USD'') (csi_lines ?in)"
    using compute_totals_exact [OF D bounds] unfolding amount request_simps(1) by (elim exE conjE) (rule that)
  have pay: "money_sum E (\<lambda>p. money_of (cp_amount p) ''USD'') (csi_payments ?in) (money_zero ''USD'') = Inr (money_of ?a ''USD'')"
    using payments_exact [OF D bounds] by (simp add: request_simps)
  have sums: "st_subtotal tt = money_of ?a ''USD''" "st_taxTotal tt = money_of 0 ''USD''" "st_discountTotal tt = money_of 0 ''USD''"
    using tt(2) untaxed_request(3-5) [OF sell offer, of i ?a] by (simp_all add: sums_to_def)
  have range: "sale_in_range (sale_row E now t u ?in tt (money_of ?a ''USD'') j)" for j
  proof -
    have "column_range (sl_unitPrice x) \<and> column_range (sl_unitCost x) \<and> column_range (sl_taxAmount x) \<and>
        column_range (sl_discountAmount x) \<and> column_range (sl_lineTotal x)" if "x \<in> sale_line_row E ` set (st_lines tt)" for x
      using untaxed_line_in_range [OF D sell offer tt(1,3)] that by auto
    moreover have "column_range ?a" using sc by (simp add: column_range_def)
    moreover have "dec_col E ?a = ?a" using col scaled_mono [OF sc(1), of 4] by simp
    ultimately show ?thesis
      using sc by (auto simp: sale_in_range_def sale_row_def sums money_ops places list_all_iff payment_row_def request_simps)
        (simp_all add: column_range_def places)
  qed
  then have "\<exists>x s'. sale_tx E now t u ?in tt (money_of ?a ''USD'') s = Inr (x, s')"
    using offer by (auto simp: sale_tx_def insert_sale_def charge_customer_def request_simps Let_def offers_def sale_row_def
        split: option.splits)
  then obtain x s' where tx: "sale_tx E now t u ?in tt (money_of ?a ''USD'') s = Inr (x, s')" by blast
  have "createSale E now t u ?in s = run_tx (sale_tx E now t u ?in tt (money_of ?a ''USD'')) s"
  proof -
    have "List.find (\<lambda>x. sale_tenantId x = t \<and> sale_clientMutationId x = Some i) (sales s) = None"
      using new by (auto simp: find_None_iff recorded_def mutation_key_def)
    moreover have "List.find (\<lambda>x. br_id x = ab_branchId b \<and> br_tenantId x = t) (branches s) \<noteq> None"
      using offer by (auto simp: offers_def find_None_iff)
    moreover have "List.find (\<lambda>l. loc_id l = ab_stockLocationId b \<and> loc_tenantId l = t \<and> loc_branchId l = ab_branchId b)
        (stockLocations s) \<noteq> None"
      using offer by (auto simp: offers_def find_None_iff)
    ultimately show ?thesis
      using pay tt(1) by (auto simp: createSale_def request_simps(1-6) money_ops comparedTo_iff)
  qed
  moreover have "sale_total x = ?a" "sales s' = sales s @ [x]"
    using sale_tx_spec [OF tx] by (auto simp: sale_row_def money_ops places sc(1))
  ultimately show ?thesis using tx by (simp add: run_tx_def)
qed

section \<open>The amount and the request\<close>

lemma addToCart_ids:
  "set (map pl_variantId (addToCart v cart)) = insert (cv_id v) (set (map pl_variantId cart))"
proof (cases "List.find (\<lambda>l. pl_variantId l = cv_id v) cart")
  case (Some l)
  have "map pl_variantId (map (\<lambda>l. if pl_variantId l = k then l\<lparr>pl_quantity := f l\<rparr> else l) ls) = map pl_variantId ls"
    for k f ls by (induction ls) auto
  then have "map pl_variantId (addToCart v cart) = map pl_variantId cart"
    by (simp add: addToCart_def add_line_def Some del: map_map)
  moreover have "cv_id v \<in> set (map pl_variantId cart)" using find_SomeD [OF Some] by force
  ultimately show ?thesis by (simp only: insert_absorb)
qed (simp add: addToCart_def add_line_def)

text \<open>Pressing a product adds its price to what the cart stands for.\<close>

lemma add_line_total:
  assumes "cart_ok cart"
  shows "cart_total_of price (addToCart v cart) = cart_total_of price cart + price (cv_id v)"
proof -
  define new where "new = \<lparr>pl_variantId = cv_id v, pl_name = cv_productName v, pl_sku = cv_sku v,
     pl_unitPrice = js_num_of (Number_of_string (cv_retailPrice v)), pl_quantity = 1\<rparr>"
  have bump: "(\<Sum>l\<leftarrow>map (\<lambda>l. if pl_variantId l = k then l\<lparr>pl_quantity := pl_quantity l + 1\<rparr> else l) ls.
      price (pl_variantId l) * of_nat (pl_quantity l)) =
    (\<Sum>l\<leftarrow>ls. price (pl_variantId l) * of_nat (pl_quantity l)) + (if k \<in> set (map pl_variantId ls) then price k else 0)"
    if "distinct (map pl_variantId ls)" for k ls
    using that by (induction ls) (auto simp: algebra_simps)
  show ?thesis
  proof (cases "List.find (\<lambda>l. pl_variantId l = cv_id v) cart")
    case None
    then show ?thesis by (simp add: addToCart_def add_line_def cart_total_of_sum)
  next
    case (Some l)
    then have "cv_id v \<in> set (map pl_variantId cart)" using find_SomeD [OF Some] by force
    then show ?thesis
      using Some bump [of cart "cv_id v"] assms
      by (simp add: addToCart_def add_line_def cart_total_of_sum cart_ok_def del: map_map)
  qed
qed

definition stocked :: "cached_variant list \<Rightarrow> cached_variant list" where
  "stocked vs = filter (\<lambda>v. 0 < cv_availableQuantity v) vs"

lemma pressed_cart:
  assumes "\<forall>v\<in>set vs. Number_of_string (cv_retailPrice v) = Some (price (cv_id v))"
    and "cart_ok (ps_cart scr)" "priced price (ps_cart scr)"
  shows "cart_ok (ps_cart (fold pressProduct vs scr)) \<and> priced price (ps_cart (fold pressProduct vs scr)) \<and>
     set (map pl_variantId (ps_cart (fold pressProduct vs scr))) = set (map pl_variantId (ps_cart scr)) \<union> cv_id ` set (stocked vs) \<and>
     cart_total_of price (ps_cart (fold pressProduct vs scr)) =
       cart_total_of price (ps_cart scr) + (\<Sum>v\<leftarrow>stocked vs. price (cv_id v))"
  using assms
proof (induction vs arbitrary: scr)
  case (Cons v vs)
  let ?s = "pressProduct v scr"
  have "cart_ok (ps_cart ?s)" "priced price (ps_cart ?s)"
    "set (map pl_variantId (ps_cart ?s)) = set (map pl_variantId (ps_cart scr)) \<union> cv_id ` set (stocked [v])"
    "cart_total_of price (ps_cart ?s) = cart_total_of price (ps_cart scr) + (\<Sum>v\<leftarrow>stocked [v]. price (cv_id v))"
    using Cons.prems by (simp_all add: pressProduct_def stocked_def addToCart_ok addToCart_priced add_line_total addToCart_ids
        del: set_map)
  then show ?case using Cons.IH [of ?s] Cons.prems by (auto simp: stocked_def)
qed (simp add: stocked_def)

text \<open>C12: the phone charges the exact amount although it computes in doubles: whatever products
  are pressed, with prices in cents, at most a thousand of them different and together at most a
  billion, the amount of the payment it sends is the sum of the catalog prices of the products pressed that were in
  stock, to the cent.\<close>
theorem charged_amount_exact:
  assumes prices: "\<forall>v\<in>set vs. Number_of_string (cv_retailPrice v) = Some (price (cv_id v)) \<and>
      0 \<le> price (cv_id v) \<and> scaled 2 (price (cv_id v))"
    and few: "card (cv_id ` set (stocked vs)) \<le> 1000" and bound: "(\<Sum>v\<leftarrow>stocked vs. price (cv_id v)) \<le> 10 ^ 9"
  shows "amount_json (cart_total (ps_cart (fold pressProduct vs empty_screen))) = JNum (\<Sum>v\<leftarrow>stocked vs. price (cv_id v))"
proof -
  let ?cart = "ps_cart (fold pressProduct vs empty_screen)"
  have cart: "cart_ok ?cart" "priced price ?cart" "set (map pl_variantId ?cart) = cv_id ` set (stocked vs)"
    "cart_total_of price ?cart = (\<Sum>v\<leftarrow>stocked vs. price (cv_id v))"
    using pressed_cart [of vs price empty_screen] prices
    by (auto simp: empty_screen_def cart_ok_def priced_def cart_total_of_sum)
  have "length ?cart = card (set (map pl_variantId ?cart))"
    using cart(1) by (metis cart_ok_def distinct_card length_map)
  then have len: "length ?cart \<le> 1000" using few cart(3) by simp
  have p: "\<forall>l\<in>set ?cart. 0 \<le> price (pl_variantId l) \<and> scaled 2 (price (pl_variantId l))"
  proof
    fix l assume "l \<in> set ?cart"
    then have "pl_variantId l \<in> cv_id ` set (stocked vs)" using cart(3) by force
    then show "0 \<le> price (pl_variantId l) \<and> scaled 2 (price (pl_variantId l))" using prices by (auto simp: stocked_def)
  qed
  then obtain n :: int where "cart_total_of price ?cart * 10 ^ 2 = of_int n"
    using cart_total_of_scaled [of ?cart price] unfolding scaled_def by (metis Ints_cases)
  then show ?thesis
    using amount_exact [of price ?cart n] cart(2) p len bound cart(4) by (simp add: cart_total_of_def)
qed


section \<open>Arrival\<close>

definition bearer_request :: "string \<Rightarrow> string \<Rightarrow> request" where
  "bearer_request token t = \<lparr>rq_cookie = None, rq_authorization = Some (''Bearer '' @ token), rq_tenantId = Some t\<rparr>"

lemma sole_ready:
  assumes "sqlite_inv q" "sqlite_items q = [i \<mapsto> it]" "qi_status it = Pending" "qi_nextAttemptAt it \<le> now"
  shows "listReady SqliteQueueStorageAdapter now q = [it]"
proof -
  let ?xs = "listReady SqliteQueueStorageAdapter now q"
  have "set ?xs = {it}" using sqlite.set_listReady [OF assms(1), of now] assms(2-4) by auto
  moreover have "distinct ?xs" using sqlite.listReady_distinct [OF assms(1), of now] by (simp add: distinct_map)
  ultimately show ?thesis by (metis distinct_card card_1_singleton_iff length_0_conv length_Suc_conv list.set_intros(1) singletonD One_nat_def)
qed

text \<open>The server answers an admitted request for a sale it offers with 201.\<close>

lemma sale_posted:
  assumes D: "decimal_lib (dec_round (api_env A)) (dec_places (api_env A))" and col: "\<forall>x. scaled 4 x \<longrightarrow> dec_col (api_env A) x = x"
    and sell: "sellable price cart" and offer: "offers t price b cart s" and new: "\<not> recorded t i s"
    and ids: "uuids_ok (api_formats A) i b cart"
    and admitted: "\<exists>ctx. authorize_tenant (api_sha A) (api_now A) False [SALES_CREATE] rq s = Inr ctx" "rq_tenantId rq = Some t"
  shows "\<exists>x s'. sales_create A rq (eq_payload (queued_sale i b cart)) s w = (Inr x, s', w) \<and>
     sales s' = sales s @ [x] \<and> sale_total x = cart_total_of price cart \<and> mutation_key x = (t, Some i)"
proof -
  obtain ctx where ctx: "authorize_tenant (api_sha A) (api_now A) False [SALES_CREATE] rq s = Inr ctx" using admitted(1) by blast
  obtain u m where m: "ctx_user ctx = Some u" "ctx_membership ctx = Some m" by (rule authorized_context [OF ctx])
  have t: "am_tenantId m = t" using authorized_tenant [OF ctx m(2)] admitted(2) by simp
  have ne: "cart \<noteq> []" "cart_ok cart" "0 < cart_total_of price cart" using sell by (auto simp: sellable_def)
  obtain x s' where run: "createSale (api_env A) (api_now A) t (usr_id u) (sale_request i b cart (cart_total_of price cart)) s = (Inr x, s')"
    "sales s' = sales s @ [x]" "sale_total x = cart_total_of price cart"
    using untaxed_sale_commits [OF D col sell offer new] by blast
  have "mutation_key x = (t, Some i)"
    using createSale_recorded [OF run(1)] by (auto simp: mutation_key_def request_simps dest!: find_SomeD)
  then show ?thesis
    using payload_accepted [OF ids ne(2,1) sellable_amount [OF sell] ne(3)] run
    by (simp add: sales_create_def tenant_route_def ctx m t with_body_def validate_def on_db_def someE_def)
qed

lemma sale_submitted:
  assumes post: "sales_create A (bearer_request token t) (qi_payload it) s w = (Inr x, s', w')"
    and it: "qi_endpoint it = ''/sales''" "js_parse (api_json A) (js_stringify (api_json A) (qi_payload it)) = Some (qi_payload it)"
    and "token \<noteq> []" "t \<noteq> []"
  shows "buildSubmit (phone A base render) (Some token) t it (s, w, []) =
     (SubmitSuccess (js_parse (api_json A) (render x)), (s', w', []))"
proof -
  let ?hq = "http_of (phone A base render) (Some token) (qi_endpoint it)
    (get_request\<lparr>ar_method := ''POST'', ar_body := Some (qi_payload it), ar_tenantId := Some t\<rparr>)"
  have "request_of ?hq = bearer_request token t"
    using assms(4,5) by (simp add: request_of_def http_of_def request_headers_def get_request_def bearer_request_def)
  moreover have "hq_method ?hq = ''POST''" "hq_url ?hq = base @ ''/sales''"
    "Option.bind (hq_body ?hq) (js_parse (api_json A)) = Some (qi_payload it)"
    by (simp_all add: http_of_def get_request_def phone_def it)
  ultimately have "http_server A base render ?hq s w = (\<lparr>hr_status = 201, hr_headers = [], hr_body = render x\<rparr>, s', w')"
    using post by (simp add: http_server_def post_sales_def)
  then have "network_fetch A base render ?hq (s, w, []) =
      (Inr \<lparr>hr_status = 201, hr_headers = [], hr_body = render x\<rparr>, (s', w', []))"
    by (simp add: network_fetch_def)
  then show ?thesis
    by (simp add: buildSubmit_def apiRequest_def phone_def hr_ok_def Let_def)
qed

lemma charge_first:
  assumes "ps_branch scr = Some b" "ps_cart scr \<noteq> []" "t \<noteq> []" "dv_queue d = []"
    and "handleCharge i now (Some t) scr d = (r, d')"
  shows "sqlite_inv (dv_queue d') \<and> sqlite_items (dv_queue d') = [i \<mapsto> new_item now (queued_sale i b (ps_cart scr))] \<and>
     dv_token d' = dv_token d"
proof -
  have id: "eq_id (queued_sale i b (ps_cart scr)) = i" by (simp add: queued_sale_def)
  have tok: "dv_token (decrement_all cart d) = dv_token d" for cart d
    unfolding decrement_all_def by (induction cart arbitrary: d) (simp_all add: decrementCachedStock_def)
  obtain q where q: "enqueue SqliteQueueStorageAdapter now (queued_sale i b (ps_cart scr)) (dv_queue d) =
      Inr (new_item now (queued_sale i b (ps_cart scr)), q)" "sqlite_inv q"
    "sqlite_items q = (sqlite_items (dv_queue d))(i \<mapsto> new_item now (queued_sale i b (ps_cart scr)))"
    using sqlite.enqueue_new [of "dv_queue d" "queued_sale i b (ps_cart scr)" now] id assms(4)
    by (auto simp: sqlite_empty)
  then show ?thesis using assms by (auto simp: handleCharge_def Let_def tok sqlite_empty)
qed

lemma sole_pass:
  assumes d: "sqlite_inv (dv_queue d)" "sqlite_items (dv_queue d) = [i \<mapsto> it]" "qi_id it = i" "qi_status it = Pending"
      "qi_nextAttemptAt it \<le> now" and "is_online reach"
    and sub: "buildSubmit E (dv_token d) t it w = (x, w')"
  shows "\<exists>r q. sync_pass E t reach clk now d w = (r, d\<lparr>dv_queue := q\<rparr>, w') \<and>
     sqlite_items q = [i \<mapsto> settle DEFAULT_MAX_ATTEMPTS (clk i) x it]"
proof -
  let ?A = SqliteQueueStorageAdapter
  have ready: "listReady ?A now (dv_queue d) = [it]" using sole_ready [OF d(1,2,4,5)] .
  let ?ro = "record_outcome ?A DEFAULT_MAX_ATTEMPTS (clk i) i x (zero_result\<lparr>sr_processed := sr_processed zero_result + 1\<rparr>)
      (markSyncing ?A i (dv_queue d))"
  have "sqlite_items (markSyncing ?A i (dv_queue d)) = [i \<mapsto> it\<lparr>qi_status := Syncing\<rparr>]"
    using sqlite.markSyncing_items [OF d(1), of i it] d(2) by simp
  then have "sqlite_items (snd ?ro) = [i \<mapsto> settle DEFAULT_MAX_ATTEMPTS (clk i) x it]"
    using sqlite.record_outcome_items [OF sqlite.mark_inv(1) [OF d(1)], of i i "it\<lparr>qi_status := Syncing\<rparr>" DEFAULT_MAX_ATTEMPTS "clk i" x]
    by simp
  moreover have "sync_pass E t reach clk now d w = (fst ?ro, d\<lparr>dv_queue := snd ?ro\<rparr>, w')"
    using assms(6) by (simp add: sync_pass_def runOnce_def loadSessionToken_def ready sub d(3) Let_def split: prod.split)
  ultimately show ?thesis by blast
qed


section \<open>Exactly once\<close>

text \<open>C4: every sale charged on the phone reaches the books exactly once. Take any history of charges,
  passes of the engine over a network that loses requests and answers, crashes in the middle of a
  pass, manual retries and other users of the sales service, from a new device on: a queued sale stays in
  the queue with the same request, and once it is shown as synced the server holds exactly one sale of
  the tenant with its mutation id.\<close>
theorem offline_sale_recorded_once:
  assumes "t \<noteq> []" and keys: "sales_keys s0"
    and past: "(shop_step A base render t)\<^sup>*\<^sup>* (new_device, s0, w0) (d1, s1, w1)"
    and item: "sqlite_items (dv_queue d1) i = Some it"
    and future: "(shop_step A base render t)\<^sup>*\<^sup>* (d1, s1, w1) (d2, s2, w2)"
  shows "\<exists>jt. sqlite_items (dv_queue d2) i = Some jt \<and> same_request it jt \<and>
     (qi_status jt = Synced \<longrightarrow>
        count_where (\<lambda>x. sale_tenantId x = t \<and> sale_clientMutationId x = Some i) (sales s2) = 1)"
proof -
  have ok1: "shop_ok A t (d1, s1, w1)" using shop_steps_ok [OF assms(1) past new_device_ok [OF keys]] by blast
  have ok2: "shop_ok A t (d2, s2, w2)" and kept: "shop_keeps (d1, s1, w1) (d2, s2, w2)"
    using shop_steps_ok [OF assms(1) future ok1] by blast+
  obtain jt where jt: "sqlite_items (dv_queue d2) i = Some jt" "same_request it jt"
    using kept item by (auto simp: shop_keeps_def)
  have "count_where (\<lambda>x. sale_tenantId x = t \<and> sale_clientMutationId x = Some i) (sales s2) = 1"
    if "qi_status jt = Synced"
  proof -
    have "sales_keys s2" "recorded t i s2" using ok2 jt(1) that by (auto simp: shop_ok_def)
    then show ?thesis using count_mutation by (simp add: sales_keys_def recorded_iff)
  qed
  with jt show ?thesis by blast
qed

section \<open>A phone and a shop\<close>

definition demo_shelf :: "cached_variant list" where
  "demo_shelf = [\<lparr>cv_id = ''v1'', cv_productId = ''p1'', cv_productName = ''Tea'', cv_sku = ''S1'', cv_barcode = None,
      cv_retailPrice = ''0.10'', cv_availableQuantity = 5, cv_stockStatus = ''green'', cv_updatedAt = 0\<rparr>,
    \<lparr>cv_id = ''v2'', cv_productId = ''p2'', cv_productName = ''Milk'', cv_sku = ''S2'', cv_barcode = None,
      cv_retailPrice = ''0.20'', cv_availableQuantity = 5, cv_stockStatus = ''green'', cv_updatedAt = 0\<rparr>]"

text \<open>A tenth and two tenths, whose sum in doubles is no double of three tenths.\<close>

theorem charged_amount_exact_witness:
  "to_double (1 / 10) + to_double (2 / 10) \<noteq> to_double (3 / 10) \<and>
   amount_json (cart_total (ps_cart (fold pressProduct demo_shelf empty_screen))) = JNum (3 / 10)"
proof
  show "to_double (1 / 10) + to_double (2 / 10) \<noteq> to_double (3 / 10)" by code_simp
  have n: "Number_of_string ''0.10'' = Some (1 / 10)" "Number_of_string ''0.20'' = Some (1 / 5)" by code_simp+
  have "stocked demo_shelf = demo_shelf" by (simp add: stocked_def demo_shelf_def)
  then show "amount_json (cart_total (ps_cart (fold pressProduct demo_shelf empty_screen))) = JNum (3 / 10)"
    using charged_amount_exact [of demo_shelf "\<lambda>i. if i = ''v1'' then 1 / 10 else 1 / 5"]
    by (simp add: demo_shelf_def n scaled_def)
qed

definition demo_place :: active_branch where
  "demo_place = \<lparr>ab_tenantId = ''t1'', ab_branchId = ''b1'', ab_branchName = ''Main'', ab_stockLocationId = ''l1'', ab_registerId = None\<rparr>"

definition demo_cart :: "pos_line list" where
  "demo_cart = [\<lparr>pl_variantId = ''v1'', pl_name = ''Tea'', pl_sku = ''S1'', pl_unitPrice = Some (to_double 10), pl_quantity = 2\<rparr>]"

definition demo_pos :: pos_screen where
  "demo_pos = empty_screen\<lparr>ps_branch := Some demo_place, ps_cart := demo_cart\<rparr>"

definition demo_phone :: device where
  "demo_phone = new_device\<lparr>dv_token := Some ''tok1'', dv_branch := Some demo_place\<rparr>"

text \<open>A JSON library that knows the one body of this sale.\<close>

definition demo_shop_api :: "unit api" where
  "demo_shop_api = demo_api\<lparr>api_json := \<lparr>js_stringify = (\<lambda>_. []),
     js_parse = (\<lambda>_. Some (eq_payload (queued_sale ''m1'' demo_place demo_cart)))\<rparr>\<rparr>"

definition demo_shop_db :: db where
  "demo_shop_db = (demo_role_db SALES_CREATE)\<lparr>branches := branches demo_sale_db,
     stockLocations := [demo_location ''l1''], productVariants := [demo_variant]\<rparr>"

lemma demo_pos_simps [simp]: "ps_branch demo_pos = Some demo_place" "ps_cart demo_pos = demo_cart"
  by (simp_all add: demo_pos_def)

lemma demo_phone_simps [simp]: "dv_queue demo_phone = []" "dv_token demo_phone = Some ''tok1''"
  by (simp_all add: demo_phone_def new_device_def)

lemma demo_cart_sellable: "sellable (\<lambda>_. 10) demo_cart" "cart_total_of (\<lambda>_. 10) demo_cart = 20"
  using scaled_of_int [of 2 10]
  by (simp_all add: sellable_def demo_cart_def cart_ok_def priced_def cart_total_of_def exact_total_def line_prices_def)

lemma demo_uuids: "uuids_ok (api_formats demo_shop_api) i demo_place demo_cart"
  by (simp add: uuids_ok_def demo_shop_api_def demo_api_def)


lemma demo_shop:
  "offers ''t1'' (\<lambda>_. 10) demo_place demo_cart demo_shop_db" "\<not> recorded ''t1'' ''m1'' demo_shop_db" "sales_keys demo_shop_db"
  "\<exists>ctx. authorize_tenant (api_sha demo_shop_api) (api_now demo_shop_api) False [SALES_CREATE] (bearer_request ''tok1'' ''t1'') demo_shop_db = Inr ctx"
proof -
  show "offers ''t1'' (\<lambda>_. 10) demo_place demo_cart demo_shop_db"
    by (simp add: offers_def demo_place_def demo_shop_db_def demo_sale_db_def demo_location_def demo_cart_def variant_for_def
        tax_rate_def demo_variant_def scaled_def column_range_def)
  show "\<not> recorded ''t1'' ''m1'' demo_shop_db" "sales_keys demo_shop_db"
    by (simp_all add: recorded_def sales_keys_def demo_shop_db_def demo_role_db_def demo_access_db_def empty_db_def)
  have rq: "bearer_request ''tok1'' ''t1'' = demo_request ''tok1'' ''t1''" by (simp add: bearer_request_def demo_request_def)
  have "admitted demo_api (demo_request ''tok1'' ''t1'') (Member [SALES_CREATE]) (demo_role_db SALES_CREATE)"
    by (force simp: demo_signed_in member_of_def granted_keys_def)
  then have "\<exists>ctx. authorize_tenant (api_sha demo_api) (api_now demo_api) False [SALES_CREATE] (demo_request ''tok1'' ''t1'')
      (demo_role_db SALES_CREATE) = Inr ctx"
    by (simp only: member_iff [OF demo_role_keys(1)])
  then obtain ctx where "authorize_tenant id 50 False [SALES_CREATE] (demo_request ''tok1'' ''t1'') (demo_role_db SALES_CREATE) = Inr ctx"
    by auto
  then show "\<exists>ctx. authorize_tenant (api_sha demo_shop_api) (api_now demo_shop_api) False [SALES_CREATE] (bearer_request ''tok1'' ''t1'') demo_shop_db = Inr ctx"
    unfolding rq by (auto simp: demo_shop_api_def demo_shop_db_def authorize_tenant_def session_guard_def tenant_guard_def
        getActiveMembership_def)
qed

lemma demo_json: "js_parse (api_json demo_shop_api) (js_stringify (api_json demo_shop_api) (eq_payload (queued_sale ''m1'' demo_place demo_cart))) =
    Some (eq_payload (queued_sale ''m1'' demo_place demo_cart))"
  by (simp add: demo_shop_api_def)

lemma demo_exact: "decimal_lib (dec_round (api_env demo_shop_api)) (dec_places (api_env demo_shop_api))"
    "\<forall>x. scaled 4 x \<longrightarrow> dec_col (api_env demo_shop_api) x = x"
  by (simp_all add: demo_shop_api_def half_up_exact)

lemma demo_charge: "\<exists>r d1. handleCharge ''m1'' 5 (Some ''t1'') demo_pos demo_phone = (r, d1)"
  by (cases "handleCharge ''m1'' 5 (Some ''t1'') demo_pos demo_phone") simp

lemma demo_online [simp]: "is_online \<lparr>ns_isConnected = True, ns_isInternetReachable = None\<rparr>"
  by (simp add: is_online_def)


theorem offline_sale_recorded_once_witness:
  "\<exists>d2 s2 it. (shop_step demo_shop_api [] (\<lambda>_. []) ''t1'')\<^sup>*\<^sup>* (new_device, demo_shop_db, ()) (d2, s2, ()) \<and>
     sqlite_items (dv_queue d2) = [''m1'' \<mapsto> it] \<and> qi_status it = Synced \<and>
     count_where (\<lambda>x. sale_tenantId x = ''t1'' \<and> sale_clientMutationId x = Some ''m1'') (sales s2) = 1"
proof -
  let ?step = "shop_step demo_shop_api [] (\<lambda>_. []) ''t1''" and ?it = "new_item 5 (queued_sale ''m1'' demo_place demo_cart)"
  obtain r d1 where c: "handleCharge ''m1'' 5 (Some ''t1'') demo_pos demo_phone = (r, d1)" using demo_charge by blast
  have d1: "sqlite_inv (dv_queue d1)" "sqlite_items (dv_queue d1) = [''m1'' \<mapsto> ?it]" "dv_token d1 = Some ''tok1''"
    using charge_first [OF demo_pos_simps(1) _ _ demo_phone_simps(1) c] by (simp_all add: demo_cart_def)
  have it: "qi_id ?it = ''m1''" "qi_status ?it = Pending" "qi_nextAttemptAt ?it \<le> 8" "qi_endpoint ?it = ''/sales''"
    "qi_payload ?it = eq_payload (queued_sale ''m1'' demo_place demo_cart)" by (simp_all add: new_item_def queued_sale_def)
  obtain x s' where "sales_create demo_shop_api (bearer_request ''tok1'' ''t1'') (qi_payload ?it) demo_shop_db () = (Inr x, s', ())"
    using sale_posted [OF demo_exact demo_cart_sellable(1) demo_shop(1,2) demo_uuids demo_shop(4), of "()"]
    by (auto simp: it(5) bearer_request_def)
  from sale_submitted [OF this it(4)] demo_json it(5)
  have "buildSubmit (phone demo_shop_api [] (\<lambda>_. [])) (dv_token d1) ''t1'' ?it (demo_shop_db, (), []) =
      (SubmitSuccess (js_parse (api_json demo_shop_api) []), (s', (), []))" by (simp add: d1(3))
  from sole_pass [OF d1(1,2) it(1-3) demo_online this] obtain sr q where
    p: "sync_pass (phone demo_shop_api [] (\<lambda>_. [])) ''t1'' \<lparr>ns_isConnected = True, ns_isInternetReachable = None\<rparr> (\<lambda>_. 9) 8 d1
      (demo_shop_db, (), []) = (sr, d1\<lparr>dv_queue := q\<rparr>, (s', (), []))"
    and q: "sqlite_items q = [''m1'' \<mapsto> settle DEFAULT_MAX_ATTEMPTS 9 (SubmitSuccess (js_parse (api_json demo_shop_api) [])) ?it]"
    by blast
  have "?step (new_device, demo_shop_db, ()) (demo_phone, demo_shop_db, ())"
    by (rule device_else) (simp add: new_device_def)
  moreover have "?step (demo_phone, demo_shop_db, ()) (d1, demo_shop_db, ())"
    by (rule shop_step.charge [OF c]) (simp add: demo_shop_api_def queued_sale_def demo_pos_def)
  ultimately have past: "?step\<^sup>*\<^sup>* (new_device, demo_shop_db, ()) (d1, demo_shop_db, ())" by (meson converse_rtranclp_into_rtranclp rtranclp.rtrancl_refl)
  have future: "?step\<^sup>*\<^sup>* (d1, demo_shop_db, ()) (d1\<lparr>dv_queue := q\<rparr>, s', ())"
    by (rule r_into_rtranclp, rule shop_step.pass [OF p])
  have "sqlite_items (dv_queue d1) ''m1'' = Some ?it" by (simp add: d1(2))
  from offline_sale_recorded_once [OF _ demo_shop(3) past this future]
  have "count_where (\<lambda>x. sale_tenantId x = ''t1'' \<and> sale_clientMutationId x = Some ''m1'') (sales s') = 1"
    by (simp add: q settle_synced_iff)
  moreover have "?step\<^sup>*\<^sup>* (new_device, demo_shop_db, ()) (d1\<lparr>dv_queue := q\<rparr>, s', ())" using past future by (rule rtranclp_trans)
  ultimately show ?thesis using q by (intro exI conjI) (assumption | simp add: settle_synced_iff)+
qed

end
