(* ===== verification/Assistant.thy ===== *)
theory Assistant
  imports Api_Routes
begin

text \<open>
  \<open>apps/api/src/assistant\<close>: the question answering route. The language model is the parameter
  \<open>create\<close>, which answers a request and acts on the world \<open>'w\<close>; the tools read the database the world holds at
  that moment. The text the tools' results are written in is the parameter \<open>write\<close>, \<open>JSON.stringify\<close> on the
  report values. The adapter's constants for the model name and the token limit go with every request and are
  left out.
\<close>

section \<open>The tools (\<open>tools.ts\<close>)\<close>

record ai_tool =
  tool_name :: string
  tool_description :: string
  tool_inputSchema :: json

definition string_property :: "string \<Rightarrow> json" where
  "string_property d = JObj [(''type'', JStr ''string''), (''description'', JStr d)]"

definition no_input :: json where
  "no_input = JObj [(''type'', JStr ''object''), (''properties'', JObj [])]"

definition ASSISTANT_TOOLS :: "ai_tool list" where
  "ASSISTANT_TOOLS =
    [\<lparr>tool_name = ''get_sales_summary'',
      tool_description = ''Get total sales, cost of goods sold, gross profit, and transaction count for a date range, bucketed by day, week, or month.'',
      tool_inputSchema = JObj [(''type'', JStr ''object''),
        (''properties'', JObj [(''from'', string_property ''Start date, ISO format (YYYY-MM-DD)''),
          (''to'', string_property ''End date, ISO format (YYYY-MM-DD)''),
          (''groupBy'', JObj [(''type'', JStr ''string''), (''enum'', JArr [JStr ''day'', JStr ''week'', JStr ''month'']),
             (''description'', JStr ''Bucket size'')])]),
        (''required'', JArr [JStr ''from'', JStr ''to''])]\<rparr>,
     \<lparr>tool_name = ''get_low_stock_items'',
      tool_description = ''List products currently at or below their reorder point (red) or in the low-stock warning range (yellow), sorted by quantity ascending.'',
      tool_inputSchema = no_input\<rparr>,
     \<lparr>tool_name = ''get_inventory_valuation'',
      tool_description = ''Get the total value of on-hand inventory, valued at cost, and a per-product breakdown.'',
      tool_inputSchema = no_input\<rparr>,
     \<lparr>tool_name = ''get_dashboard_summary'',
      tool_description = ''Get today'' @ [CHR 0x27] @ ''s, this week'' @ [CHR 0x27] @ ''s, and month-to-date sales totals, 30-day profit, outstanding receivables, and top-selling products.'',
      tool_inputSchema = no_input\<rparr>]"

datatype tool_value =
    SalesSummary "report_row list"
  | LowStockItems "low_stock_item list"
  | InventoryValuation "rat \<times> valued_item list"
  | DashboardSummary dashboard

text \<open>The bucket size is not validated: the report treats every other value as days.\<close>

definition group_of :: "json option \<Rightarrow> group_by" where
  "group_of v = (if v = Some (JStr ''month'') then ByMonth else if v = Some (JStr ''week'') then ByWeek else ByDay)"

definition createToolExecutor ::
  "env \<Rightarrow> formats \<Rightarrow> int \<Rightarrow> string \<Rightarrow> db \<Rightarrow> string \<Rightarrow> json \<Rightarrow> error + tool_value" where
  "createToolExecutor E F now tenantId s name input =
     (if name = ''get_sales_summary''
      then (case (Option.bind (js_field ''from'' input) (fm_date F), Option.bind (js_field ''to'' input) (fm_date F)) of
              (Some start, Some until) \<Rightarrow>
                map_sum id SalesSummary (getSalesByPeriod E tenantId start until (group_of (js_field ''groupBy'' input)) None s)
            | _ \<Rightarrow> Inl (BadRequest ''Invalid from/to date''))
      else if name = ''get_low_stock_items'' then Inr (LowStockItems (getLowStockItems tenantId s))
      else if name = ''get_inventory_valuation'' then map_sum id InventoryValuation (getInventoryValuation E tenantId s)
      else if name = ''get_dashboard_summary'' then map_sum id DashboardSummary (getDashboard E now tenantId None s)
      else Inl (BadRequest (''Unknown tool: '' @ name)))"

section \<open>The adapters (\<open>ai-adapter.interface.ts\<close>, \<open>anthropic-ai.adapter.ts\<close>, \<open>null-ai.adapter.ts\<close>)\<close>

datatype ai_block = TextBlock string | ToolUseBlock string string json | OtherBlock json

datatype tool_result = ToolResult string string bool

datatype ai_content = TextContent string | BlockContent "ai_block list" | ResultContent "tool_result list"

record ai_message =
  aim_role :: turn_role
  aim_content :: ai_content

record ai_request =
  aiq_system :: string
  aiq_tools :: "ai_tool list"
  aiq_messages :: "ai_message list"

record ai_response =
  air_stop_reason :: "string option"
  air_content :: "ai_block list"

record ask_input =
  ask_systemPrompt :: string
  ask_conversation :: "conversation_turn list"
  ask_tools :: "ai_tool list"

record ask_result =
  ask_answer :: string
  ask_toolCalls :: "(string \<times> json) list"

type_synonym 'w executor = "'w \<Rightarrow> string \<Rightarrow> json \<Rightarrow> error + tool_value"

record 'w ai_adapter =
  aa_name :: string
  aa_isConfigured :: bool
  aa_ask :: "ask_input \<Rightarrow> 'w executor \<Rightarrow> 'w \<Rightarrow> (error + ask_result) \<times> 'w"

definition MAX_TOOL_ROUNDTRIPS :: nat where
  "MAX_TOOL_ROUNDTRIPS = 5"

definition no_answer :: string where
  "no_answer = ''I wasn'' @ [CHR 0x27] @ ''t able to find an answer to that.''"

fun is_tool_use :: "ai_block \<Rightarrow> bool" where
  "is_tool_use (ToolUseBlock i n j) = True"
| "is_tool_use _ = False"

fun block_text :: "ai_block \<Rightarrow> string option" where
  "block_text (TextBlock s) = Some s"
| "block_text _ = None"

definition answer_text :: "ai_block list \<Rightarrow> string" where
  "answer_text blocks =
     (let text = js_trim (join [CHR 0x0A] (List.map_filter block_text blocks)) in if text = [] then no_answer else text)"

text \<open>The calls of one answer; a failed one is reported to the model as an error.\<close>

fun run_tool :: "'w executor \<Rightarrow> (tool_value \<Rightarrow> string) \<Rightarrow> 'w \<Rightarrow> ai_block \<Rightarrow> tool_result" where
  "run_tool exec write w (ToolUseBlock i n j) =
     (case exec w n j of Inr v \<Rightarrow> ToolResult i (write v) False | Inl e \<Rightarrow> ToolResult i (error_message e) True)"
| "run_tool exec write w _ = ToolResult [] [] True"

fun tool_call :: "ai_block \<Rightarrow> string \<times> json" where
  "tool_call (ToolUseBlock i n j) = (n, j)"
| "tool_call _ = ([], JNull)"

function ask_loop ::
  "(ai_request \<Rightarrow> 'w \<Rightarrow> (error + ai_response) \<times> 'w) \<Rightarrow> (tool_value \<Rightarrow> string) \<Rightarrow> 'w executor \<Rightarrow> ask_input \<Rightarrow> nat \<Rightarrow>
   ai_message list \<Rightarrow> (string \<times> json) list \<Rightarrow> 'w \<Rightarrow> (error + ask_result) \<times> 'w" where
  "ask_loop create write exec input roundtrip messages toolCalls w =
     (if roundtrip \<le> MAX_TOOL_ROUNDTRIPS
      then (case create \<lparr>aiq_system = ask_systemPrompt input, aiq_tools = ask_tools input, aiq_messages = messages\<rparr> w of
              (Inl e, w1) \<Rightarrow> (Inl e, w1)
            | (Inr response, w1) \<Rightarrow>
                (let said = messages @ [\<lparr>aim_role = AssistantTurn, aim_content = BlockContent (air_content response)\<rparr>];
                     uses = filter is_tool_use (air_content response)
                 in if air_stop_reason response = Some ''pause_turn''
                    then ask_loop create write exec input (roundtrip + 1) said toolCalls w1
                    else if uses = [] \<or> roundtrip = MAX_TOOL_ROUNDTRIPS
                    then (Inr \<lparr>ask_answer = answer_text (air_content response), ask_toolCalls = toolCalls\<rparr>, w1)
                    else ask_loop create write exec input (roundtrip + 1)
                           (said @ [\<lparr>aim_role = UserTurn, aim_content = ResultContent (map (run_tool exec write w1) uses)\<rparr>])
                           (toolCalls @ map tool_call uses) w1))
      else (Inr \<lparr>ask_answer = no_answer, ask_toolCalls = toolCalls\<rparr>, w))"
  by pat_completeness auto
termination
  by (relation "measure (\<lambda>(_, _, _, _, roundtrip, _). Suc MAX_TOOL_ROUNDTRIPS - roundtrip)") auto

declare ask_loop.simps [simp del]

definition AnthropicAiAssistantAdapter ::
  "(ai_request \<Rightarrow> 'w \<Rightarrow> (error + ai_response) \<times> 'w) \<Rightarrow> (tool_value \<Rightarrow> string) \<Rightarrow> 'w ai_adapter" where
  "AnthropicAiAssistantAdapter create write = \<lparr>aa_name = ''anthropic'', aa_isConfigured = True,
     aa_ask = (\<lambda>input exec w. ask_loop create write exec input 0
       (map (\<lambda>turn. \<lparr>aim_role = trn_role turn, aim_content = TextContent (trn_content turn)\<rparr>) (ask_conversation input)) [] w)\<rparr>"

definition NullAiAssistantAdapter :: "'w ai_adapter" where
  "NullAiAssistantAdapter = \<lparr>aa_name = ''none'', aa_isConfigured = False,
     aa_ask = (\<lambda>input exec w.
       (Inl (ServerError (''AI assistant is not configured (AI_PROVIDER=none) '' @ em_dash @ '' set ANTHROPIC_API_KEY to enable it.'')), w))\<rparr>"

text \<open>The choice of the adapter at start-up (\<open>assistant.module.ts\<close>).\<close>

definition ai_adapter_for ::
  "(string \<Rightarrow> ai_request \<Rightarrow> 'w \<Rightarrow> (error + ai_response) \<times> 'w) \<Rightarrow> (tool_value \<Rightarrow> string) \<Rightarrow> string \<Rightarrow> string option \<Rightarrow>
   error + 'w ai_adapter" where
  "ai_adapter_for client write provider apiKey =
     (if provider = ''anthropic''
      then if truthy apiKey then Inr (AnthropicAiAssistantAdapter (client (the apiKey)) write)
           else Inl (ServerError ''AI_PROVIDER=anthropic requires ANTHROPIC_API_KEY to be set.'')
      else if provider = ''local''
      then Inl (ServerError (''AI_PROVIDER=local has no adapter implementation yet '' @ em_dash @ '' use '' @ [CHR 0x22] @ ''anthropic'' @ [CHR 0x22] @
             '' or '' @ [CHR 0x22] @ ''none'' @ [CHR 0x22] @ ''.''))
      else if provider = ''none'' then Inr NullAiAssistantAdapter
      else Inl (ServerError (''Unknown AI_PROVIDER: '' @ provider)))"

section \<open>The service and its routes (\<open>assistant.service.ts\<close>, \<open>assistant.controller.ts\<close>)\<close>

text \<open>The prompt carries the date at which the module was loaded, \<open>started\<close>.\<close>

definition SYSTEM_PROMPT :: "int \<Rightarrow> string" where
  "SYSTEM_PROMPT started = join [CHR 0x0A]
     [''You are SalesMaster Pro'' @ [CHR 0x27] @ ''s sales assistant, answering a business owner'' @ [CHR 0x27] @ ''s'',
      ''questions about their own store using the tools provided. Only use the tools '' @ em_dash @ '' never invent'',
      ''numbers. If a tool doesn'' @ [CHR 0x27] @ ''t cover what'' @ [CHR 0x27] @ ''s asked, say so plainly rather than guessing. Keep answers'',
      ''short and concrete (numbers, not paragraphs of hedging). All figures are in the tenant'' @ [CHR 0x27] @ ''s currency'',
      ''unless a tool result says otherwise. Today'' @ [CHR 0x27] @ ''s date is '' @ iso_date started @ ''.'']"

datatype ask_failure = ServiceUnavailable string | AskFailed error

definition assistant_status :: "'w ai_adapter \<Rightarrow> bool" where
  "assistant_status adapter = aa_isConfigured adapter"

definition assistant_ask ::
  "'w ai_adapter \<Rightarrow> int \<Rightarrow> env \<Rightarrow> formats \<Rightarrow> ('w \<Rightarrow> db) \<Rightarrow> ('w \<Rightarrow> int) \<Rightarrow> string \<Rightarrow> assistant_input \<Rightarrow> 'w \<Rightarrow>
   (ask_failure + string \<times> string list) \<times> 'w" where
  "assistant_ask adapter started E F db_at clock tenantId input w =
     (if \<not> aa_isConfigured adapter
      then (Inl (ServiceUnavailable (''The AI assistant is not configured in this environment (provider: '' @ aa_name adapter @
             ''). Set AI_PROVIDER=anthropic and ANTHROPIC_API_KEY to enable it.'')), w)
      else (case aa_ask adapter
               \<lparr>ask_systemPrompt = SYSTEM_PROMPT started,
                ask_conversation = asi_conversation input @ [\<lparr>trn_role = UserTurn, trn_content = asi_question input\<rparr>],
                ask_tools = ASSISTANT_TOOLS\<rparr>
               (\<lambda>v. createToolExecutor E F (clock v) tenantId (db_at v)) w of
              (Inl e, w1) \<Rightarrow> (Inl (AskFailed e), w1)
            | (Inr r, w1) \<Rightarrow> (Inr (ask_answer r, map fst (ask_toolCalls r)), w1)))"

fun ask_failure_status :: "ask_failure \<Rightarrow> nat" where
  "ask_failure_status (ServiceUnavailable m) = 503"
| "ask_failure_status (AskFailed e) = error_status e"

definition assistant_status_route :: "'w api \<Rightarrow> 'w ai_adapter \<Rightarrow> request \<Rightarrow> (bool, 'w) handler" where
  "assistant_status_route A adapter rq = tenant_route A [REPORTS_VIEW] rq (\<lambda>t u. on_read (\<lambda>s. Inr (assistant_status adapter)))"

text \<open>The route: the world of the adapter carries the database, which the answer leaves as the world has it.\<close>

definition assistant_ask_route ::
  "'w api \<Rightarrow> 'w ai_adapter \<Rightarrow> int \<Rightarrow> ('w \<Rightarrow> db) \<Rightarrow> ('w \<Rightarrow> int) \<Rightarrow> request \<Rightarrow> json \<Rightarrow>
   (ask_failure + string \<times> string list, 'w) handler" where
  "assistant_ask_route A adapter started db_at clock rq body = tenant_route A [REPORTS_VIEW] rq (\<lambda>t u.
     with_body askAssistantSchema body (\<lambda>input s w.
       (case assistant_ask adapter started (api_env A) (api_formats A) db_at clock t input w of (r, w1) \<Rightarrow> (Inr r, s, w1))))"

end
