(* ===== verification/Assistant_Facts.thy ===== *)
theory Assistant_Facts
  imports Assistant Api_Facts
begin

text \<open>
  The properties of the assistant: what a question costs and how it ends, and that an answer depends on the
  rows of one tenant only.
\<close>

section \<open>The cost of a question\<close>

text \<open>The model with a count of the calls it has answered.\<close>

definition counted :: "(ai_request \<Rightarrow> 'w \<Rightarrow> (error + ai_response) \<times> 'w) \<Rightarrow>
    ai_request \<Rightarrow> nat \<times> 'w \<Rightarrow> (error + ai_response) \<times> nat \<times> 'w" where
  "counted create q w = (case create q (snd w) of (r, w1) \<Rightarrow> (r, Suc (fst w), w1))"

lemma answer_text_not_empty: "answer_text blocks \<noteq> []"
  by (simp add: answer_text_def no_answer_def Let_def)

definition ends_well :: "(ai_request \<Rightarrow> 'w \<Rightarrow> (error + ai_response) \<times> 'w) \<Rightarrow> error + ask_result \<Rightarrow> bool" where
  "ends_well create r = (case r of
      Inl e \<Rightarrow> (\<exists>q v. fst (create q v) = Inl e)
    | Inr a \<Rightarrow> ask_answer a \<noteq> [])"

lemma ends_well_Inr [simp]: "ends_well create (Inr a) \<longleftrightarrow> ask_answer a \<noteq> []"
  by (simp add: ends_well_def)

lemma ends_well_Inl: "create q v = (Inl e, w) \<Longrightarrow> ends_well create (Inl e)"
  by (auto simp: ends_well_def intro!: exI [of _ q] exI [of _ v])

lemma ask_loop_cost:
  fixes create :: "ai_request \<Rightarrow> 'w \<Rightarrow> (error + ai_response) \<times> 'w"
  shows "ask_loop (counted create) wr exec input k messages calls w = (r, w') \<Longrightarrow>
    fst w' \<le> fst w + (Suc MAX_TOOL_ROUNDTRIPS - k) \<and> fst w \<le> fst w' \<and> (k \<le> MAX_TOOL_ROUNDTRIPS \<longrightarrow> fst w < fst w') \<and> ends_well create r"
proof (induction "counted create" wr exec input k messages calls w arbitrary: r w' rule: ask_loop.induct)
  case (1 wr exec input k messages calls w)
  show ?case
  proof (cases "k \<le> MAX_TOOL_ROUNDTRIPS")
    case False
    with "1.prems" show ?thesis by (auto simp: ask_loop.simps [of _ _ _ _ k] no_answer_def)
  next
    case True
    let ?q = "\<lparr>aiq_system = ask_systemPrompt input, aiq_tools = ask_tools input, aiq_messages = messages\<rparr>"
    obtain x w1 where x: "create ?q (snd w) = (x, w1)" by force
    then have c: "counted create ?q w = (x, Suc (fst w), w1)" by (simp add: counted_def)
    show ?thesis
    proof (cases x)
      case (Inl e)
      with "1.prems" True c show ?thesis
        using ends_well_Inl x by (auto simp: ask_loop.simps [of _ _ _ _ k])
    next
      case (Inr a)
      let ?said = "messages @ [\<lparr>aim_role = AssistantTurn, aim_content = BlockContent (air_content a)\<rparr>]"
      let ?uses = "filter is_tool_use (air_content a)"
      note IH = "1.hyps" [OF True c [symmetric] Inr refl refl]
      note unfold = ask_loop.simps [of _ _ _ _ k]
      consider (pause) "air_stop_reason a = Some ''pause_turn''"
        | (stop) "air_stop_reason a \<noteq> Some ''pause_turn''" "?uses = [] \<or> k = MAX_TOOL_ROUNDTRIPS"
        | (tools) "air_stop_reason a \<noteq> Some ''pause_turn''" "\<not> (?uses = [] \<or> k = MAX_TOOL_ROUNDTRIPS)"
        by blast
      then show ?thesis
      proof cases
        case pause
        with "1.prems" True c Inr have "ask_loop (counted create) wr exec input (k + 1) ?said calls (Suc (fst w), w1) = (r, w')"
          by (simp add: unfold)
        from IH(1) [OF pause this] True show ?thesis by (auto simp: Suc_diff_le)
      next
        case stop
        with "1.prems" True c Inr show ?thesis by (auto simp: unfold Let_def answer_text_not_empty)
      next
        case tools
        with "1.prems" True c Inr have "ask_loop (counted create) wr exec input (k + 1)
            (?said @ [\<lparr>aim_role = UserTurn, aim_content = ResultContent (map (run_tool exec wr (Suc (fst w), w1)) ?uses)\<rparr>])
            (calls @ map tool_call ?uses) (Suc (fst w), w1) = (r, w')"
          by (simp add: unfold Let_def)
        from IH(2) [OF tools this] True show ?thesis by (auto simp: Suc_diff_le)
      qed
    qed
  qed
qed

text \<open>C14: Whatever the language model answers, a question costs at least one and at most six calls of it and then
  ends: with a text that is never empty, or with an error that the model's own service gave. A failing tool never
  fails the question.\<close>

theorem assistant_ends:
  fixes create :: "ai_request \<Rightarrow> 'w \<Rightarrow> (error + ai_response) \<times> 'w"
  shows "case assistant_ask (AnthropicAiAssistantAdapter (counted create) write) started E F (\<lambda>w. db_at (snd w))
           (\<lambda>w. clock (snd w)) tenantId input (n, w) of
      (r, n', w') \<Rightarrow> n < n' \<and> n' \<le> n + 6 \<and>
        (case r of Inr (answer, names) \<Rightarrow> answer \<noteq> []
         | Inl failure \<Rightarrow> (\<exists>q v e. failure = AskFailed e \<and> fst (create q v) = Inl e))"
proof -
  let ?in = "\<lparr>ask_systemPrompt = SYSTEM_PROMPT started,
      ask_conversation = asi_conversation input @ [\<lparr>trn_role = UserTurn, trn_content = asi_question input\<rparr>],
      ask_tools = ASSISTANT_TOOLS\<rparr>"
  let ?ex = "\<lambda>v. createToolExecutor E F (clock (snd v)) tenantId (db_at (snd v))"
  obtain r w1 where a: "aa_ask (AnthropicAiAssistantAdapter (counted create) write) ?in ?ex (n, w) = (r, w1)" using prod.exhaust by blast
  then obtain m where l: "ask_loop (counted create) write ?ex ?in 0 m [] (n, w) = (r, w1)"
    by (simp add: AnthropicAiAssistantAdapter_def)
  from ask_loop_cost [OF l] a show ?thesis
    by (auto simp: assistant_ask_def MAX_TOOL_ROUNDTRIPS_def AnthropicAiAssistantAdapter_def ends_well_def
        split: sum.splits prod.splits)
qed


section \<open>What a question can see\<close>

text \<open>The database with the rows of one tenant in the six tables the tools read, and nothing else.\<close>

definition tenant_books :: "string \<Rightarrow> db \<Rightarrow> db" where
  "tenant_books t s = empty_db\<lparr>
     sales := filter (\<lambda>x. sale_tenantId x = t) (sales s),
     productVariants := filter (\<lambda>x. var_tenantId x = t) (productVariants s),
     products := filter (\<lambda>x. prd_tenantId x = t) (products s),
     inventoryBalances := filter (\<lambda>x. bal_tenantId x = t) (inventoryBalances s),
     invoices := filter (\<lambda>x. inv_tenantId x = t) (invoices s),
     expenses := filter (\<lambda>x. exp_tenantId x = t) (expenses s)\<rparr>"

text \<open>The references the tools follow without the tenant stay within it: from a variant to its product and
  its balances, and from a line of a sale to its variant.\<close>

definition refs_own_rows :: "string \<Rightarrow> db \<Rightarrow> bool" where
  "refs_own_rows t s \<longleftrightarrow>
     (\<forall>v\<in>set (productVariants s). var_tenantId v = t \<longrightarrow>
        (\<forall>p\<in>set (products s). prd_id p = var_productId v \<longrightarrow> prd_tenantId p = t) \<and>
        (\<forall>b\<in>set (inventoryBalances s). bal_variantId b = var_id v \<longrightarrow> bal_tenantId b = t)) \<and>
     (\<forall>x\<in>set (sales s). sale_tenantId x = t \<longrightarrow>
        (\<forall>l\<in>set (sale_lines x). \<forall>v\<in>set (productVariants s). var_id v = sl_variantId l \<longrightarrow> var_tenantId v = t))"

lemma tenant_books_tables [simp]:
  "sales (tenant_books t s) = filter (\<lambda>x. sale_tenantId x = t) (sales s)"
  "productVariants (tenant_books t s) = filter (\<lambda>x. var_tenantId x = t) (productVariants s)"
  "products (tenant_books t s) = filter (\<lambda>x. prd_tenantId x = t) (products s)"
  "inventoryBalances (tenant_books t s) = filter (\<lambda>x. bal_tenantId x = t) (inventoryBalances s)"
  "invoices (tenant_books t s) = filter (\<lambda>x. inv_tenantId x = t) (invoices s)"
  "expenses (tenant_books t s) = filter (\<lambda>x. exp_tenantId x = t) (expenses s)"
  by (simp_all add: tenant_books_def)

lemma find_filter_same: "\<forall>x\<in>set xs. P x \<longrightarrow> Q x \<Longrightarrow> List.find P (filter Q xs) = List.find P xs"
  by (induction xs) auto

lemma filter_filter_same: "\<forall>x\<in>set xs. P x \<longrightarrow> Q x \<Longrightarrow> filter P (filter Q xs) = filter P xs"
  by (induction xs) auto

lemma completed_sales_books [simp]: "completed_sales t b (tenant_books t s) = completed_sales t b s"
  by (simp add: completed_sales_def filter_filter_same)

lemma active_variants_books [simp]: "active_variants t (tenant_books t s) = active_variants t s"
  by (simp add: active_variants_def filter_filter_same)

lemma own_variant_books:
  assumes "refs_own_rows t s" "v \<in> set (productVariants s)" "var_tenantId v = t"
  shows "stock_on_hand (tenant_books t s) v = stock_on_hand s v"
    "product_of (tenant_books t s) v = product_of s v"
    "product_name (tenant_books t s) v = product_name s v"
    "variant_status (tenant_books t s) v = variant_status s v"
    "stock_value E (tenant_books t s) v = stock_value E s v"
proof -
  from assms show h: "stock_on_hand (tenant_books t s) v = stock_on_hand s v"
    by (simp add: stock_on_hand_def refs_own_rows_def filter_filter_same del: filter_filter)
  from assms show p: "product_of (tenant_books t s) v = product_of s v"
    by (simp add: product_of_def refs_own_rows_def find_filter_same)
  show "product_name (tenant_books t s) v = product_name s v" by (simp add: product_name_def p)
  show "variant_status (tenant_books t s) v = variant_status s v" by (simp add: variant_status_def h)
  show "stock_value E (tenant_books t s) v = stock_value E s v" by (simp add: stock_value_def h)
qed

lemma money_sum_cong: "(\<And>x. x \<in> set xs \<Longrightarrow> f x = g x) \<Longrightarrow> money_sum E f xs a = money_sum E g xs a"
  by (induction xs arbitrary: a) (auto intro!: arg_cong [where f = "bindE _"] ext)

lemma sales_by_period_books [simp]:
  "getSalesByPeriod E t start until g b (tenant_books t s) = getSalesByPeriod E t start until g b s"
  by (simp add: getSalesByPeriod_def)

lemma low_stock_books:
  assumes "refs_own_rows t s"
  shows "getLowStockItems t (tenant_books t s) = getLowStockItems t s"
proof -
  note own = own_variant_books [OF assms]
  have "map (\<lambda>v. \<lparr>ls_variantId = var_id v, ls_productName = product_name (tenant_books t s) v, ls_sku = var_sku v,
          ls_quantity = stock_on_hand (tenant_books t s) v, ls_reorderPoint = var_reorderPoint v,
          ls_status = variant_status (tenant_books t s) v\<rparr>) (active_variants t s) =
        map (\<lambda>v. \<lparr>ls_variantId = var_id v, ls_productName = product_name s v, ls_sku = var_sku v,
          ls_quantity = stock_on_hand s v, ls_reorderPoint = var_reorderPoint v, ls_status = variant_status s v\<rparr>)
        (active_variants t s)"
    by (rule map_cong) (auto simp: active_variants_def own)
  then show ?thesis by (simp only: getLowStockItems_def active_variants_books)
qed

lemma valuation_books:
  assumes "refs_own_rows t s"
  shows "getInventoryValuation E t (tenant_books t s) = getInventoryValuation E t s"
proof -
  note own = own_variant_books [OF assms]
  let ?vs = "filter (\<lambda>v. var_tenantId v = t) (productVariants s)"
  have "map (\<lambda>v. \<lparr>vi_variantId = var_id v, vi_productName = product_name (tenant_books t s) v, vi_sku = var_sku v,
          vi_quantity = stock_on_hand (tenant_books t s) v, vi_costPrice = var_costPrice v,
          vi_value = toDecimalString E (stock_value E (tenant_books t s) v)\<rparr>) ?vs =
        map (\<lambda>v. \<lparr>vi_variantId = var_id v, vi_productName = product_name s v, vi_sku = var_sku v,
          vi_quantity = stock_on_hand s v, vi_costPrice = var_costPrice v,
          vi_value = toDecimalString E (stock_value E s v)\<rparr>) ?vs"
    by (rule map_cong) (auto simp: own)
  moreover have "money_sum E (stock_value E (tenant_books t s)) ?vs a = money_sum E (stock_value E s) ?vs a" for a
    by (rule money_sum_cong) (auto simp: own)
  moreover have "filter (\<lambda>v. var_tenantId v = t) (productVariants (tenant_books t s)) = ?vs" by simp
  ultimately show ?thesis by (simp only: getInventoryValuation_def Let_def)
qed


lemma group_line_ids: "fst ` set (group_line l gs) \<subseteq> insert (sl_variantId l) (fst ` set gs)"
  by (induction l gs rule: group_line.induct) auto

lemma group_lines_ids: "e \<in> set (group_lines ls) \<Longrightarrow> fst e \<in> sl_variantId ` set ls"
proof -
  have "fst ` set (fold group_line ls gs) \<subseteq> sl_variantId ` set ls \<union> fst ` set gs" for gs
  proof (induction ls arbitrary: gs)
    case (Cons l ls)
    show ?case using Cons.IH [of "group_line l gs"] group_line_ids [of l gs] by auto
  qed simp
  from this [of "[]"] show "e \<in> set (group_lines ls) \<Longrightarrow> fst e \<in> sl_variantId ` set ls"
    by (auto simp: group_lines_def)
qed

lemma top_products_books:
  assumes "refs_own_rows t s" "\<forall>l\<in>set ls. \<forall>v\<in>set (productVariants s). var_id v = sl_variantId l \<longrightarrow> var_tenantId v = t"
  shows "top_products (tenant_books t s) ls = top_products s ls"
proof -
  have v: "List.find (\<lambda>x. var_id x = i) (productVariants (tenant_books t s)) = List.find (\<lambda>x. var_id x = i) (productVariants s)"
    if "i \<in> sl_variantId ` set ls" for i
    using that assms(2) by (auto intro!: find_filter_same)
  have p: "Option.bind (List.find (\<lambda>x. var_id x = i) (productVariants s)) (product_of (tenant_books t s)) =
      Option.bind (List.find (\<lambda>x. var_id x = i) (productVariants s)) (product_of s)"
    if "i \<in> sl_variantId ` set ls" for i
    using that assms own_variant_books(2) [OF assms(1)]
    by (cases "List.find (\<lambda>x. var_id x = i) (productVariants s)") (auto dest: find_SomeD)
  show ?thesis
    unfolding top_products_def
  proof (rule map_cong [OF refl])
    fix e assume "e \<in> set (take 5 (sort_key (\<lambda>(v, revenue, q). - revenue) (group_lines ls)))"
    then have e: "e \<in> set (group_lines ls)" by (auto dest: in_set_takeD)
    obtain i r q where eq: "e = (i, r, q)" by (cases e)
    have i: "i \<in> sl_variantId ` set ls" using group_lines_ids [OF e] by (simp add: eq)
    show "(case e of (v, revenue, q) \<Rightarrow>
        let variant = List.find (\<lambda>x. var_id x = v) (productVariants (tenant_books t s))
        in \<lparr>tp_variantId = v,
            tp_productName = (case Option.bind variant (product_of (tenant_books t s)) of Some p \<Rightarrow> prd_name p | None \<Rightarrow> ''Unknown''),
            tp_sku = map_option var_sku variant, tp_revenue = revenue, tp_quantitySold = q\<rparr>) =
      (case e of (v, revenue, q) \<Rightarrow>
        let variant = List.find (\<lambda>x. var_id x = v) (productVariants s)
        in \<lparr>tp_variantId = v,
            tp_productName = (case Option.bind variant (product_of s) of Some p \<Rightarrow> prd_name p | None \<Rightarrow> ''Unknown''),
            tp_sku = map_option var_sku variant, tp_revenue = revenue, tp_quantitySold = q\<rparr>)"
      by (simp only: eq prod.case Let_def v [OF i] p [OF i])
  qed
qed

lemma dashboard_books:
  assumes "refs_own_rows t s"
  shows "getDashboard E now t None (tenant_books t s) = getDashboard E now t None s"
proof -
  note own = own_variant_books [OF assms]
  have st: "map (\<lambda>v. (variant_status (tenant_books t s) v, stock_on_hand (tenant_books t s) v)) (active_variants t s) =
      map (\<lambda>v. (variant_status s v, stock_on_hand s v)) (active_variants t s)"
    by (rule map_cong) (auto simp: active_variants_def own)
  have top: "top_products (tenant_books t s) (concat (map sale_lines (filter P (completed_sales t None s)))) =
      top_products s (concat (map sale_lines (filter P (completed_sales t None s))))" for P
    by (rule top_products_books [OF assms]) (use assms in \<open>auto simp: refs_own_rows_def completed_sales_def\<close>)
  have inv: "filter (\<lambda>x. inv_tenantId x = t) (invoices (tenant_books t s)) = filter (\<lambda>x. inv_tenantId x = t) (invoices s)" by simp
  have exp: "filter (\<lambda>x. exp_tenantId x = t \<and> of_branch None (exp_branchId x) \<and> u \<le> exp_date x) (expenses (tenant_books t s)) =
      filter (\<lambda>x. exp_tenantId x = t \<and> of_branch None (exp_branchId x) \<and> u \<le> exp_date x) (expenses s)" for u
    by (simp add: filter_filter_same)
  show ?thesis
    by (simp only: getDashboard_def Let_def completed_sales_books active_variants_books st top inv exp)
qed

lemma executor_books:
  assumes "refs_own_rows t s"
  shows "createToolExecutor E F now t (tenant_books t s) name input = createToolExecutor E F now t s name input"
  by (simp add: createToolExecutor_def low_stock_books valuation_books dashboard_books assms split: option.split)

text \<open>C13: An answer of the assistant depends on nothing but the rows of the asking tenant: whatever the language
  model does and whatever it asks the tools for, the question is answered in the same way, to the same final state
  of the world, when every other tenant's rows are removed from the database the tools read.\<close>

theorem assistant_sees_one_tenant:
  assumes "\<And>w. refs_own_rows t (db_at w)"
  shows "assistant_ask adapter started E F (\<lambda>w. tenant_books t (db_at w)) clock t input w =
    assistant_ask adapter started E F db_at clock t input w"
  unfolding assistant_ask_def executor_books [OF assms] by (rule refl)

definition demo_model :: "ai_request \<Rightarrow> unit \<Rightarrow> (error + ai_response) \<times> unit" where
  "demo_model q w = (Inr (if length (aiq_messages q) = 1
     then \<lparr>air_stop_reason = Some ''tool_use'', air_content = [ToolUseBlock ''c1'' ''get_low_stock_items'' no_input]\<rparr>
     else \<lparr>air_stop_reason = Some ''end_turn'', air_content = [TextBlock ''Order more.'']\<rparr>), w)"

definition demo_books :: db where
  "demo_books = empty_db\<lparr>productVariants := [demo_variant, demo_variant\<lparr>var_id := ''v2'', var_tenantId := ''t2''\<rparr>],
     inventoryBalances := [\<lparr>bal_id = ''bb'', bal_tenantId = ''t2'', bal_stockLocationId = ''l2'', bal_variantId = ''v2'', bal_quantity = 7\<rparr>]\<rparr>"

theorem assistant_sees_one_tenant_witness:
  "tenant_books ''t1'' demo_books \<noteq> demo_books \<and>
   assistant_ask (AnthropicAiAssistantAdapter demo_model (\<lambda>_. ''[]'')) 0 exact_env
      \<lparr>fm_email = (\<lambda>_. True), fm_uuid = (\<lambda>_. True), fm_url = (\<lambda>_. True), fm_date = (\<lambda>_. None)\<rparr>
      (\<lambda>w. tenant_books ''t1'' demo_books) (\<lambda>w. 0) ''t1'' \<lparr>asi_question = ''What is low?'', asi_conversation = []\<rparr> () =
    (Inr (''Order more.'', [''get_low_stock_items'']), ())"
proof -
  have own: "refs_own_rows ''t1'' demo_books" by (simp add: refs_own_rows_def demo_books_def demo_variant_def empty_db_def)
  have "inventoryBalances (tenant_books ''t1'' demo_books) \<noteq> inventoryBalances demo_books"
    by (simp add: demo_books_def empty_db_def)
  then have "tenant_books ''t1'' demo_books \<noteq> demo_books" by metis
  moreover have "assistant_ask (AnthropicAiAssistantAdapter demo_model (\<lambda>_. ''[]'')) 0 E F (\<lambda>w. demo_books) (\<lambda>w. 0) ''t1''
      \<lparr>asi_question = ''What is low?'', asi_conversation = []\<rparr> () =
    (Inr (''Order more.'', [''get_low_stock_items'']), ())" for E F
    by (simp add: assistant_ask_def AnthropicAiAssistantAdapter_def ask_loop.simps demo_model_def Let_def MAX_TOOL_ROUNDTRIPS_def
        answer_text_def List.map_filter_def js_trim_def is_space_def)
  moreover have "assistant_ask A 0 E F (\<lambda>w. tenant_books ''t1'' demo_books) c ''t1'' i () = assistant_ask A 0 E F (\<lambda>w. demo_books) c ''t1'' i ()"
    for A :: "unit ai_adapter" and E F c i
    by (rule assistant_sees_one_tenant) (rule own)
  ultimately show ?thesis by presburger
qed

section \<open>The routes\<close>

text \<open>The routes of the assistant are guarded as the other routes of a tenant are, and leave the database to the
  world they act on.\<close>

lemma assistant_routes_guarded:
  assumes keys: "access_keys s" "sessions_have_users s" and out: "\<not> admitted A rq (Member [REPORTS_VIEW]) s"
  shows "\<exists>e. error_status e \<in> {401, 403} \<and> assistant_ask_route A adapter started db_at clock rq body s w = (Inl e, s, w) \<and>
    assistant_status_route A adapter rq s w = (Inl e, s, w)"
proof -
  obtain e where e: "authorize_tenant (api_sha A) (api_now A) False [REPORTS_VIEW] rq s = Inl e"
    using out member_iff [OF keys(1), of A "[REPORTS_VIEW]" rq] by (cases "authorize_tenant (api_sha A) (api_now A) False [REPORTS_VIEW] rq s") auto
  from authorize_tenant_refusal [OF keys(2) e] show ?thesis
    by (auto simp: assistant_ask_route_def assistant_status_route_def e)
qed

lemma assistant_routes_keep_db:
  "fst (snd (assistant_ask_route A adapter started db_at clock rq body s w)) = s"
  by (auto simp: assistant_ask_route_def tenant_route_def with_body_def split: sum.split option.split prod.split)

end
