(* ===== verification/Web_Client.thy ===== *)
theory Web_Client
  imports Point_Of_Sale "HOL-Library.AList"
begin

text \<open>
  The shared parts of the web application (\<open>apps/web/lib\<close>, \<open>app/layout\<close>) and its pages for visitors: signing
  in, registering, resetting a password, verifying an address, setting up a business. A page is a record of its
  states, each handler of it a function of the record, the browser and the world its requests act on. The
  session cookie is part of the world, as the requests only ask for it to be included. Rendering, the flags that
  disable a button while a handler runs, and the timer before a redirect are left out: a handler is one step. A
  datum kept from an answer stays the JSON value it is, with \<open>None\<close> for undefined.
\<close>

section \<open>The API client (\<open>lib/api-client.ts\<close>, \<open>lib/use-tenant-api.ts\<close>)\<close>

text \<open>\<open>wb_url\<close> is the URL parser: the normal form of an absolute URL.\<close>

record 'w web_env =
  wb_json :: json_lib
  wb_base :: string
  wb_url :: "string \<Rightarrow> string option"
  wb_fetch :: "'w fetch"
  wb_statusText :: "nat \<Rightarrow> string"

datatype web_failure = WebApiError nat string "json option" | WebError string

record web_request =
  wq_method :: "string option"
  wq_body :: "json option"
  wq_tenantId :: "string option"
  wq_query :: "(string \<times> string option) list"

definition web_get :: web_request where
  "web_get = \<lparr>wq_method = None, wq_body = None, wq_tenantId = None, wq_query = []\<rparr>"

definition web_post :: "json \<Rightarrow> web_request" where
  "web_post body = web_get\<lparr>wq_method := Some ''POST'', wq_body := Some body\<rparr>"

text \<open>The query entries that are defined, in order.\<close>

definition search_params :: "(string \<times> string option) list \<Rightarrow> (string \<times> string) list" where
  "search_params query = List.map_filter (\<lambda>(key, value). map_option (\<lambda>v. (key, v)) value) query"

definition web_url :: "'w web_env \<Rightarrow> string \<Rightarrow> (string \<times> string option) list \<Rightarrow> string option" where
  "web_url E path query =
     map_option (\<lambda>u. if search_params query = [] then u else u @ ''?'' @ URLSearchParams (search_params query))
       (wb_url E (wb_base E @ path))"

definition web_headers :: "string option \<Rightarrow> (string \<times> string) list" where
  "web_headers tenantId = [(''Content-Type'', ''application/json'')]
     @ (if truthy tenantId then [(''X-Tenant-Id'', the tenantId)] else [])"

definition web_error_message :: "'w web_env \<Rightarrow> nat \<Rightarrow> json option \<Rightarrow> string" where
  "web_error_message E status data =
     (case Option.bind data (js_field ''message'') of
        Some v \<Rightarrow> if v = JNull then wb_statusText E status else js_String (wb_json E) v
      | None \<Rightarrow> wb_statusText E status)"

definition apiFetch :: "'w web_env \<Rightarrow> string \<Rightarrow> web_request \<Rightarrow> 'w \<Rightarrow> (web_failure + json option) \<times> 'w" where
  "apiFetch E path options w =
     (case web_url E path (wq_query options) of
        None \<Rightarrow> (Inl (WebError ''Invalid URL''), w)
      | Some url \<Rightarrow>
          (case wb_fetch E \<lparr>hq_method = (case wq_method options of Some m \<Rightarrow> m | None \<Rightarrow> ''GET''), hq_url = url,
                  hq_headers = web_headers (wq_tenantId options),
                  hq_body = map_option (js_stringify (wb_json E)) (wq_body options)\<rparr> w of
             (Inl err, w1) \<Rightarrow> (Inl (WebError (error_message err)), w1)
           | (Inr res, w1) \<Rightarrow>
               (let data = js_parse (wb_json E) (hr_body res)
                in if hr_ok res then (Inr data, w1)
                   else (Inl (WebApiError (hr_status res) (web_error_message E (hr_status res) data)
                               (Option.bind data (js_field ''issues''))), w1))))"

definition googleLoginUrl :: "'w web_env \<Rightarrow> string" where
  "googleLoginUrl E = wb_base E @ ''/auth/google/start''"

definition appleLoginUrl :: "'w web_env \<Rightarrow> string" where
  "appleLoginUrl E = wb_base E @ ''/auth/apple/start''"

definition tenantApi :: "'w web_env \<Rightarrow> string option \<Rightarrow> string \<Rightarrow> web_request \<Rightarrow> 'w \<Rightarrow> (web_failure + json option) \<times> 'w" where
  "tenantApi E currentTenantId path options w =
     (if truthy currentTenantId then apiFetch E path (options\<lparr>wq_tenantId := currentTenantId\<rparr>) w
      else (Inl (WebError ''No tenant selected''), w))"

text \<open>\<open>err.message\<close>, and the message of an \<open>ApiError\<close> only.\<close>

fun web_message :: "web_failure \<Rightarrow> string" where
  "web_message (WebApiError status m issues) = m"
| "web_message (WebError m) = m"

fun api_message :: "string \<Rightarrow> web_failure \<Rightarrow> string" where
  "api_message other (WebApiError status m issues) = m"
| "api_message other (WebError m) = other"

text \<open>\<open>err.issues?.[0]?.message ?? err.message\<close>.\<close>

fun issue_message :: "json_lib \<Rightarrow> string \<Rightarrow> web_failure \<Rightarrow> string" where
  "issue_message J other (WebApiError status m issues) =
     (case issues of
        Some (JArr (i # rest)) \<Rightarrow>
          (case js_field ''message'' i of Some v \<Rightarrow> if v = JNull then m else js_String J v | None \<Rightarrow> m)
      | _ \<Rightarrow> m)"
| "issue_message J other (WebError m) = other"

text \<open>Reading a property of an answer; of undefined and null that is a \<open>TypeError\<close>.\<close>

definition js_read :: "string \<Rightarrow> json option \<Rightarrow> web_failure + json option" where
  "js_read key data =
     (case data of
        None \<Rightarrow> Inl (WebError (''Cannot read properties of undefined (reading '' @ [CHR 0x27] @ key @ [CHR 0x27] @ '')''))
      | Some JNull \<Rightarrow> Inl (WebError (''Cannot read properties of null (reading '' @ [CHR 0x27] @ key @ [CHR 0x27] @ '')''))
      | Some v \<Rightarrow> Inr (js_field key v))"

section \<open>The session (\<open>lib/session-context.tsx\<close>)\<close>

record browser =
  bw_tenantKey :: "string option"
  bw_user :: "json option"
  bw_memberships :: "membership_entry list"
  bw_currentTenantId :: "string option"
  bw_loading :: bool
  bw_location :: string

definition fresh_browser :: "string option \<Rightarrow> string \<Rightarrow> browser" where
  "fresh_browser key location = \<lparr>bw_tenantKey = key, bw_user = None, bw_memberships = [], bw_currentTenantId = None,
     bw_loading = True, bw_location = location\<rparr>"

definition no_session :: "browser \<Rightarrow> browser" where
  "no_session b = b\<lparr>bw_user := None, bw_memberships := [], bw_currentTenantId := None\<rparr>"

text \<open>Every failure, an answer of another shape included, ends as signed out.\<close>

definition session_refresh :: "'w web_env \<Rightarrow> browser \<Rightarrow> 'w \<Rightarrow> browser \<times> 'w" where
  "session_refresh E b w =
     (case apiFetch E ''/auth/me'' web_get w of
        (Inl e, w1) \<Rightarrow> ((no_session b)\<lparr>bw_loading := False\<rparr>, w1)
      | (Inr data, w1) \<Rightarrow>
          (case Option.bind (json_array (Option.bind data (js_field ''memberships''))) (\<lambda>ms. all_some (map membership_of ms)) of
             None \<Rightarrow> ((no_session b)\<lparr>bw_loading := False\<rparr>, w1)
           | Some ms \<Rightarrow>
               (b\<lparr>bw_user := Option.bind data (js_field ''user''), bw_memberships := ms,
                  bw_currentTenantId := chosen_tenant (bw_tenantKey b) ms, bw_loading := False\<rparr>, w1)))"

definition session_setCurrentTenantId :: "string \<Rightarrow> browser \<Rightarrow> browser" where
  "session_setCurrentTenantId tenantId b = b\<lparr>bw_currentTenantId := Some tenantId, bw_tenantKey := Some tenantId\<rparr>"

text \<open>A refused sign-out leaves the session as it is.\<close>

definition session_logout :: "'w web_env \<Rightarrow> browser \<Rightarrow> 'w \<Rightarrow> (web_failure + unit) \<times> browser \<times> 'w" where
  "session_logout E b w =
     (case apiFetch E ''/auth/logout'' (web_get\<lparr>wq_method := Some ''POST''\<rparr>) w of
        (Inl e, w1) \<Rightarrow> (Inl e, b, w1)
      | (Inr _, w1) \<Rightarrow> (Inr (), no_session b, w1))"

definition web_signed_in :: "browser \<Rightarrow> bool" where
  "web_signed_in b \<longleftrightarrow> js_truthy (bw_user b)"

section \<open>Where a visitor is sent (\<open>app/page.tsx\<close>, \<open>app/(dashboard)/layout.tsx\<close>)\<close>

definition root_redirect :: "browser \<Rightarrow> browser" where
  "root_redirect b =
     (if bw_loading b then b
      else if \<not> web_signed_in b then b\<lparr>bw_location := ''/login''\<rparr>
      else if bw_memberships b = [] then b\<lparr>bw_location := ''/onboarding''\<rparr>
      else b\<lparr>bw_location := ''/dashboard''\<rparr>)"

definition layout_redirect :: "browser \<Rightarrow> browser" where
  "layout_redirect b =
     (if bw_loading b then b
      else if \<not> web_signed_in b then b\<lparr>bw_location := ''/login''\<rparr>
      else if bw_memberships b = [] then b\<lparr>bw_location := ''/onboarding''\<rparr>
      else b)"

text \<open>Whether the pages of the dashboard are shown at all.\<close>

definition layout_shows_page :: "browser \<Rightarrow> bool" where
  "layout_shows_page b \<longleftrightarrow> \<not> (bw_loading b \<or> \<not> web_signed_in b \<or> bw_memberships b = [])"

definition layout_tenant_choices :: "browser \<Rightarrow> (string \<times> string) list" where
  "layout_tenant_choices b =
     (if 1 < length (bw_memberships b) then map (\<lambda>m. (mse_tenantId m, mse_tenantName m)) (bw_memberships b) else [])"

definition layout_signOut :: "'w web_env \<Rightarrow> browser \<Rightarrow> 'w \<Rightarrow> browser \<times> 'w" where
  "layout_signOut E b w =
     (case session_logout E b w of
        (Inl e, b1, w1) \<Rightarrow> (b1, w1)
      | (Inr _, b1, w1) \<Rightarrow> (b1\<lparr>bw_location := ''/login''\<rparr>, w1))"

section \<open>Signing in (\<open>app/login/page.tsx\<close>)\<close>

datatype login_mode = PasswordMode | MagicLinkMode | MfaMode

record login_page =
  lp_mode :: login_mode
  lp_email :: string
  lp_password :: string
  lp_mfaCode :: string
  lp_mfaChallengeToken :: string
  lp_error :: "string option"
  lp_info :: "string option"

definition login_page0 :: login_page where
  "login_page0 = \<lparr>lp_mode = PasswordMode, lp_email = [], lp_password = [], lp_mfaCode = [], lp_mfaChallengeToken = [],
     lp_error = None, lp_info = None\<rparr>"

definition handlePasswordLogin :: "'w web_env \<Rightarrow> login_page \<Rightarrow> browser \<Rightarrow> 'w \<Rightarrow> login_page \<times> browser \<times> 'w" where
  "handlePasswordLogin E pg b w =
     (let pg0 = pg\<lparr>lp_error := None\<rparr>
      in case apiFetch E ''/auth/login'' (web_post (JObj [(''email'', JStr (lp_email pg)), (''password'', JStr (lp_password pg))])) w of
           (Inl e, w1) \<Rightarrow> (pg0\<lparr>lp_error := Some (api_message ''Sign-in failed'' e)\<rparr>, b, w1)
         | (Inr result, w1) \<Rightarrow>
             (if result \<in> {None, Some JNull} then (pg0\<lparr>lp_error := Some ''Sign-in failed''\<rparr>, b, w1)
              else let challenge = Option.bind result (js_string_field ''mfaChallengeToken'')
                in if js_truthy (Option.bind result (js_field ''mfaRequired'')) \<and> truthy challenge
                   then (pg0\<lparr>lp_mfaChallengeToken := the challenge, lp_mode := MfaMode\<rparr>, b, w1)
                   else (case session_refresh E b w1 of (b1, w2) \<Rightarrow> (pg0, b1\<lparr>bw_location := ''/''\<rparr>, w2))))"

definition handleMfaVerify :: "'w web_env \<Rightarrow> login_page \<Rightarrow> browser \<Rightarrow> 'w \<Rightarrow> login_page \<times> browser \<times> 'w" where
  "handleMfaVerify E pg b w =
     (let pg0 = pg\<lparr>lp_error := None\<rparr>
      in case apiFetch E ''/auth/mfa/verify''
             (web_post (JObj [(''mfaChallengeToken'', JStr (lp_mfaChallengeToken pg)), (''code'', JStr (lp_mfaCode pg))])) w of
           (Inl e, w1) \<Rightarrow> (pg0\<lparr>lp_error := Some (api_message ''Invalid code'' e)\<rparr>, b, w1)
         | (Inr result, w1) \<Rightarrow> (case session_refresh E b w1 of (b1, w2) \<Rightarrow> (pg0, b1\<lparr>bw_location := ''/''\<rparr>, w2)))"

definition handleMagicLink :: "'w web_env \<Rightarrow> login_page \<Rightarrow> 'w \<Rightarrow> login_page \<times> 'w" where
  "handleMagicLink E pg w =
     (let pg0 = pg\<lparr>lp_error := None\<rparr>
      in case apiFetch E ''/auth/magic-link/request'' (web_post (JObj [(''email'', JStr (lp_email pg))])) w of
           (Inl e, w1) \<Rightarrow> (pg0\<lparr>lp_error := Some (api_message ''Could not send magic link'' e)\<rparr>, w1)
         | (Inr result, w1) \<Rightarrow> (pg0\<lparr>lp_info :=
             Some ''If that email has an account, a sign-in link is on its way. Check the API console log in dev.''\<rparr>, w1))"

text \<open>The form of the page submits by its mode; the link below it switches the two first.\<close>

definition login_submit :: "'w web_env \<Rightarrow> login_page \<Rightarrow> browser \<Rightarrow> 'w \<Rightarrow> login_page \<times> browser \<times> 'w" where
  "login_submit E pg b w =
     (case lp_mode pg of
        MfaMode \<Rightarrow> handleMfaVerify E pg b w
      | PasswordMode \<Rightarrow> handlePasswordLogin E pg b w
      | MagicLinkMode \<Rightarrow> (case handleMagicLink E pg w of (pg1, w1) \<Rightarrow> (pg1, b, w1)))"

definition toggle_mode :: "login_page \<Rightarrow> login_page" where
  "toggle_mode pg = pg\<lparr>lp_mode := (if lp_mode pg = PasswordMode then MagicLinkMode else PasswordMode)\<rparr>"

section \<open>Registering, resetting a password, verifying an address\<close>

record register_page =
  rgp_name :: string
  rgp_email :: string
  rgp_password :: string
  rgp_error :: "string option"
  rgp_done :: bool

definition register_submit :: "'w web_env \<Rightarrow> register_page \<Rightarrow> 'w \<Rightarrow> register_page \<times> 'w" where
  "register_submit E pg w =
     (let pg0 = pg\<lparr>rgp_error := None\<rparr>
      in case apiFetch E ''/auth/register'' (web_post (JObj [(''name'', JStr (rgp_name pg)), (''email'', JStr (rgp_email pg)),
                (''password'', JStr (rgp_password pg))])) w of
           (Inl e, w1) \<Rightarrow> (pg0\<lparr>rgp_error := Some (issue_message (wb_json E) ''Registration failed'' e)\<rparr>, w1)
         | (Inr result, w1) \<Rightarrow> (pg0\<lparr>rgp_done := True\<rparr>, w1))"

record reset_page =
  rsp_token :: string
  rsp_newPassword :: string
  rsp_error :: "string option"
  rsp_done :: bool

definition reset_page0 :: "string option \<Rightarrow> reset_page" where
  "reset_page0 token = \<lparr>rsp_token = (case token of Some t \<Rightarrow> t | None \<Rightarrow> []), rsp_newPassword = [], rsp_error = None, rsp_done = False\<rparr>"

definition reset_submit :: "'w web_env \<Rightarrow> reset_page \<Rightarrow> 'w \<Rightarrow> reset_page \<times> 'w" where
  "reset_submit E pg w =
     (let pg0 = pg\<lparr>rsp_error := None\<rparr>
      in case apiFetch E ''/auth/password/reset''
             (web_post (JObj [(''token'', JStr (rsp_token pg)), (''newPassword'', JStr (rsp_newPassword pg))])) w of
           (Inl e, w1) \<Rightarrow> (pg0\<lparr>rsp_error := Some (api_message ''Reset failed'' e)\<rparr>, w1)
         | (Inr result, w1) \<Rightarrow> (pg0\<lparr>rsp_done := True\<rparr>, w1))"

datatype verify_status = VerifyPending | VerifyOk | VerifyError

definition verify_effect :: "'w web_env \<Rightarrow> string option \<Rightarrow> 'w \<Rightarrow> (verify_status \<times> string) \<times> 'w" where
  "verify_effect E token w =
     (if truthy token
      then (case apiFetch E (''/auth/verify-email?token='' @ encodeURIComponent (the token)) web_get w of
              (Inl e, w1) \<Rightarrow> ((VerifyError, api_message ''Verification failed'' e), w1)
            | (Inr data, w1) \<Rightarrow> ((VerifyOk, []), w1))
      else ((VerifyError, ''Missing verification token.''), w))"

section \<open>Setting up a business (\<open>app/onboarding/page.tsx\<close>)\<close>

datatype setup_step = BusinessStep | InviteStep

record onboarding_page =
  op_step :: setup_step
  op_newTenantId :: "string option"
  op_error :: "string option"
  op_form :: "(string \<times> string) list"
  op_inviteEmail :: string
  op_inviteRole :: string
  op_inviteSent :: "string option"

definition CURRENCIES :: "string list" where
  "CURRENCIES = [''USD'', ''EUR'', ''GBP'', ''CAD'', ''AUD'', ''NGN'', ''KES'', ''ZAR'', ''INR'']"

text \<open>\<open>timeZone\<close> is the one the browser resolves, when it does.\<close>

definition onboarding_page0 :: "string option \<Rightarrow> onboarding_page" where
  "onboarding_page0 timeZone = \<lparr>op_step = BusinessStep, op_newTenantId = None, op_error = None,
     op_form = [(''legalName'', []), (''displayName'', []), (''category'', []), (''country'', ''US''), (''locale'', ''en-US''),
       (''timezone'', (case timeZone of Some z \<Rightarrow> z | None \<Rightarrow> ''UTC'')), (''baseCurrency'', ''USD''),
       (''firstBranchName'', ''Main Branch''), (''firstBranchAddress'', [])],
     op_inviteEmail = [], op_inviteRole = ''cashier'', op_inviteSent = None\<rparr>"

definition update_form :: "string \<Rightarrow> string \<Rightarrow> onboarding_page \<Rightarrow> onboarding_page" where
  "update_form key v pg = pg\<lparr>op_form := AList.update key v (op_form pg)\<rparr>"

text \<open>The field of the country is upper-cased as it is typed.\<close>

definition type_country :: "string \<Rightarrow> onboarding_page \<Rightarrow> onboarding_page" where
  "type_country v = update_form ''country'' (toUpperCase v)"

definition handleCreateTenant :: "'w web_env \<Rightarrow> onboarding_page \<Rightarrow> browser \<Rightarrow> 'w \<Rightarrow> onboarding_page \<times> browser \<times> 'w" where
  "handleCreateTenant E pg b w =
     (let pg0 = pg\<lparr>op_error := None\<rparr>
      in case apiFetch E ''/onboarding/tenant'' (web_post (JObj (map (\<lambda>(k, v). (k, JStr v)) (op_form pg)))) w of
           (Inl e, w1) \<Rightarrow> (pg0\<lparr>op_error := Some (issue_message (wb_json E) ''Could not create your business'' e)\<rparr>, b, w1)
         | (Inr result, w1) \<Rightarrow>
             (case Option.bind (Option.bind result (js_field ''tenant'')) (js_string_field ''id'') of
                None \<Rightarrow> (pg0\<lparr>op_error := Some ''Could not create your business''\<rparr>, b, w1)
              | Some t \<Rightarrow>
                  (case session_refresh E (session_setCurrentTenantId t b) w1 of
                     (b1, w2) \<Rightarrow> (pg0\<lparr>op_newTenantId := Some t, op_step := InviteStep\<rparr>, b1, w2))))"

definition handleInvite :: "'w web_env \<Rightarrow> onboarding_page \<Rightarrow> 'w \<Rightarrow> onboarding_page \<times> 'w" where
  "handleInvite E pg w =
     (if \<not> truthy (op_newTenantId pg) then (pg, w)
      else let pg0 = pg\<lparr>op_error := None\<rparr>
        in case apiFetch E ''/onboarding/invite''
               ((web_post (JObj [(''email'', JStr (op_inviteEmail pg)), (''roleKey'', JStr (op_inviteRole pg)), (''branchScope'', JArr [])]))
                  \<lparr>wq_tenantId := op_newTenantId pg\<rparr>) w of
             (Inl e, w1) \<Rightarrow> (pg0\<lparr>op_error := Some (api_message ''Could not send invitation'' e)\<rparr>, w1)
           | (Inr _, w1) \<Rightarrow> (pg0\<lparr>op_inviteSent := Some (op_inviteEmail pg), op_inviteEmail := []\<rparr>, w1))"

end
