(* ===== verification/Web_Pages.thy ===== *)
theory Web_Pages
  imports Web_Client Contracts Calendar
begin

text \<open>
  The pages of the web application behind the sign-in and the public invoice page. As in \<open>Web_Client\<close> a page is
  a record of its states; what an answer holds stays a JSON value. Where a page reads a property of a row that
  has another shape, React cannot show the page and none of its handlers runs: such a handler changes nothing
  here. Requests sent together are answered in the order they are sent. A number typed into a form crosses
  the wire as the decimal numeral that was typed.
\<close>

section \<open>Steps shared by the pages\<close>

text \<open>\<open>promise.then(keep).catch(refuse)\<close>.\<close>

definition then_catch :: "web_failure + 'a \<Rightarrow> ('a \<Rightarrow> web_failure + 'p) \<Rightarrow> (web_failure \<Rightarrow> 'p) \<Rightarrow> 'p" where
  "then_catch r go refuse = (case (case r of Inl e \<Rightarrow> Inl e | Inr v \<Rightarrow> go v) of Inl e \<Rightarrow> refuse e | Inr p \<Rightarrow> p)"

definition opt_entry :: "string \<Rightarrow> json option \<Rightarrow> (string \<times> json) list" where
  "opt_entry key v = (case v of None \<Rightarrow> [] | Some j \<Rightarrow> [(key, j)])"

text \<open>\<open>text || undefined\<close>.\<close>

definition text_entry :: "string \<Rightarrow> string \<Rightarrow> (string \<times> json) list" where
  "text_entry key v = (if v = [] then [] else [(key, JStr v)])"

definition typed_number :: "string \<Rightarrow> json" where
  "typed_number v = (case Number_of_string v of None \<Rightarrow> JNull | Some x \<Rightarrow> JNum x)"

text \<open>The first entry of a list, when there is one.\<close>

definition first_row :: "json option \<Rightarrow> json option" where
  "first_row rows = (case rows of Some (JArr (r # rs)) \<Rightarrow> if js_truthy (Some r) then Some r else None | _ \<Rightarrow> None)"

definition answer_text_of :: "json_lib \<Rightarrow> json option \<Rightarrow> string" where
  "answer_text_of J v = (case v of None \<Rightarrow> ''undefined'' | Some j \<Rightarrow> js_String J j)"

text \<open>The QR code of a row, shown and hidden: the row, its image, and the message of a failure.\<close>

definition toggle_qr ::
  "'w web_env \<Rightarrow> string option \<Rightarrow> string \<Rightarrow> string \<Rightarrow> string option \<Rightarrow> 'w \<Rightarrow> (string option \<times> json option \<times> string option) \<times> 'w" where
  "toggle_qr E tenant path i shown w =
     (if shown = Some i then ((None, Some JNull, None), w)
      else case tenantApi E tenant path web_get w of (r, w1) \<Rightarrow>
        (then_catch r (\<lambda>result. map_sum id (\<lambda>url. (Some i, url, None)) (js_read ''dataUrl'' result))
           (\<lambda>e. (Some i, Some JNull, Some (web_message e))), w1))"

section \<open>The point of sale (\<open>pos/page.tsx\<close>)\<close>

record web_pos =
  wp_products :: "json option"
  wp_branches :: "json option"
  wp_search :: string
  wp_cart :: "pos_line list"
  wp_paymentMethod :: string
  wp_error :: "string option"
  wp_receipt :: "(json option \<times> json option) option"

definition web_pos0 :: web_pos where
  "web_pos0 = \<lparr>wp_products = Some (JArr []), wp_branches = Some (JArr []), wp_search = [], wp_cart = [],
     wp_paymentMethod = ''CASH'', wp_error = None, wp_receipt = None\<rparr>"

definition web_pos_mount :: "'w web_env \<Rightarrow> string option \<Rightarrow> web_pos \<Rightarrow> 'w \<Rightarrow> web_pos \<times> 'w" where
  "web_pos_mount E tenant pg w =
     (case tenantApi E tenant ''/products'' (web_get\<lparr>wq_query := [(''pageSize'', Some ''100'')]\<rparr>) w of (r, w1) \<Rightarrow>
      (let pg1 = then_catch r (\<lambda>data. map_sum id (\<lambda>ps. pg\<lparr>wp_products := ps\<rparr>) (js_read ''products'' data))
                   (\<lambda>e. pg\<lparr>wp_error := Some (web_message e)\<rparr>)
       in case tenantApi E tenant ''/branches'' web_get w1 of (r2, w2) \<Rightarrow>
            (then_catch r2 (\<lambda>data. Inr (pg1\<lparr>wp_branches := data\<rparr>)) (\<lambda>e. pg1\<lparr>wp_error := Some (web_message e)\<rparr>), w2)))"

text \<open>The first branch with its default location, else its first, and its first register.\<close>

definition pos_site :: "json option \<Rightarrow> (string \<times> string option \<times> string option) option" where
  "pos_site sites = do {
     branch \<leftarrow> first_row sites;
     bid \<leftarrow> js_string_field ''id'' branch;
     locations \<leftarrow> json_array (js_field ''stockLocations'' branch);
     Some (bid,
       Option.bind (case List.find (\<lambda>l. js_truthy (js_field ''isDefault'' l)) locations of
           Some l \<Rightarrow> Some l | None \<Rightarrow> first_row (Some (JArr locations))) (js_string_field ''id''),
       Option.bind (first_row (js_field ''registers'' branch)) (js_string_field ''id''))}"

definition product_matches :: "string \<Rightarrow> json \<Rightarrow> bool" where
  "product_matches q p \<longleftrightarrow>
     (let found = (\<lambda>v. case v of Some s \<Rightarrow> has_substring q (toLowerCase s) | None \<Rightarrow> False)
      in found (js_string_field ''name'' p) \<or>
         (case json_array (js_field ''variants'' p) of
            Some vs \<Rightarrow> list_ex (\<lambda>v. found (js_string_field ''sku'' v)) vs | None \<Rightarrow> False))"

definition web_filtered :: "web_pos \<Rightarrow> json list" where
  "web_filtered pg =
     (let ps = (case json_array (wp_products pg) of Some js \<Rightarrow> js | None \<Rightarrow> []);
          q = toLowerCase (js_trim (wp_search pg))
      in if q = [] then ps else filter (product_matches q) ps)"

definition web_line :: "json_lib \<Rightarrow> json \<Rightarrow> json \<Rightarrow> pos_line option" where
  "web_line J product variant = do {
     vid \<leftarrow> js_string_field ''id'' variant;
     name \<leftarrow> js_string_field ''name'' product;
     sku \<leftarrow> js_string_field ''sku'' variant;
     Some \<lparr>pl_variantId = vid, pl_name = name, pl_sku = sku,
       pl_unitPrice = js_num_of (js_Number J (js_field ''retailPrice'' variant)), pl_quantity = 1\<rparr>}"

text \<open>The button of a variant, which is disabled without stock.\<close>

definition web_press :: "json_lib \<Rightarrow> json \<Rightarrow> json \<Rightarrow> web_pos \<Rightarrow> web_pos" where
  "web_press J product variant pg =
     (case (js_field ''availableQuantity'' variant, web_line J product variant) of
        (Some (JNum n), Some new) \<Rightarrow> if n \<le> 0 then pg else pg\<lparr>wp_cart := add_line new (wp_cart pg)\<rparr>
      | _ \<Rightarrow> pg)"

definition updateQuantity :: "string \<Rightarrow> int \<Rightarrow> pos_line list \<Rightarrow> pos_line list" where
  "updateQuantity variantId quantity cart =
     (if quantity \<le> 0 then filter (\<lambda>l. pl_variantId l \<noteq> variantId) cart
      else map (\<lambda>l. if pl_variantId l = variantId then l\<lparr>pl_quantity := nat quantity\<rparr> else l) cart)"

definition handleCheckout :: "'w web_env \<Rightarrow> string option \<Rightarrow> string \<Rightarrow> web_pos \<Rightarrow> 'w \<Rightarrow> web_pos \<times> 'w" where
  "handleCheckout E tenant uid pg w =
     (case pos_site (wp_branches pg) of
        Some (bid, Some location, register) \<Rightarrow>
          (if wp_cart pg = [] then (pg, w)
           else let pg0 = pg\<lparr>wp_error := None\<rparr>
             in case tenantApi E tenant ''/sales''
                    (web_post (sale_payload uid bid register location (wp_paymentMethod pg) (wp_cart pg))) w of (r, w1) \<Rightarrow>
               (then_catch r (\<lambda>sale. case (js_read ''id'' sale, js_read ''total'' sale) of
                              (Inr i, Inr t) \<Rightarrow> Inr (pg0\<lparr>wp_receipt := Some (i, t), wp_cart := []\<rparr>)
                            | (Inl e, _) \<Rightarrow> Inl e
                            | (_, Inl e) \<Rightarrow> Inl e)
                  (\<lambda>e. pg0\<lparr>wp_error := Some (web_message e)\<rparr>), w1))
      | _ \<Rightarrow> (pg, w))"

section \<open>Invoices (\<open>invoices/page.tsx\<close>)\<close>

record invoice_form =
  if_customerId :: string
  if_description :: string
  if_quantity :: string
  if_unitPrice :: string

record invoices_page =
  ip_invoices :: "json option"
  ip_customers :: "json option"
  ip_branches :: "json option"
  ip_showForm :: bool
  ip_error :: "string option"
  ip_sendMessage :: "string option"
  ip_qrInvoiceId :: "string option"
  ip_qrDataUrl :: "json option"
  ip_form :: invoice_form

definition invoice_form0 :: invoice_form where
  "invoice_form0 = \<lparr>if_customerId = [], if_description = [], if_quantity = ''1'', if_unitPrice = []\<rparr>"

definition invoices_load :: "'w web_env \<Rightarrow> string option \<Rightarrow> invoices_page \<Rightarrow> 'w \<Rightarrow> invoices_page \<times> 'w" where
  "invoices_load E tenant pg w =
     (case tenantApi E tenant ''/invoices'' web_get w of (r, w1) \<Rightarrow>
      (then_catch r (\<lambda>data. Inr (pg\<lparr>ip_invoices := data\<rparr>)) (\<lambda>e. pg\<lparr>ip_error := Some (web_message e)\<rparr>), w1))"

definition invoices_mount :: "'w web_env \<Rightarrow> string option \<Rightarrow> invoices_page \<Rightarrow> 'w \<Rightarrow> invoices_page \<times> 'w" where
  "invoices_mount E tenant pg w =
     (case invoices_load E tenant pg w of (pg1, w1) \<Rightarrow>
      case tenantApi E tenant ''/customers'' web_get w1 of (r, w2) \<Rightarrow>
      (let pg2 = then_catch r (\<lambda>data. map_sum id (\<lambda>cs. pg1\<lparr>ip_customers := cs\<rparr>) (js_read ''customers'' data)) (\<lambda>e. pg1)
       in case tenantApi E tenant ''/branches'' web_get w2 of (r2, w3) \<Rightarrow>
            (then_catch r2 (\<lambda>data. Inr (pg2\<lparr>ip_branches := data\<rparr>)) (\<lambda>e. pg2), w3)))"

definition invoice_body :: "json \<Rightarrow> invoice_form \<Rightarrow> json" where
  "invoice_body branch form =
     JObj (opt_entry ''branchId'' (js_field ''id'' branch)
       @ [(''customerId'', JStr (if_customerId form)), (''currency'', JStr ''USD''),
          (''lines'', JArr [JObj [(''description'', JStr (if_description form)), (''quantity'', typed_number (if_quantity form)),
             (''unitPrice'', typed_number (if_unitPrice form)), (''taxAmount'', JNum 0), (''discountAmount'', JNum 0)]])])"

definition invoices_submit :: "'w web_env \<Rightarrow> string option \<Rightarrow> invoices_page \<Rightarrow> 'w \<Rightarrow> invoices_page \<times> 'w" where
  "invoices_submit E tenant pg w =
     (case first_row (ip_branches pg) of
        None \<Rightarrow> (pg, w)
      | Some branch \<Rightarrow>
          (let pg0 = pg\<lparr>ip_error := None\<rparr>
           in case tenantApi E tenant ''/invoices'' (web_post (invoice_body branch (ip_form pg))) w of
                (Inl e, w1) \<Rightarrow> (pg0\<lparr>ip_error := Some (web_message e)\<rparr>, w1)
              | (Inr data, w1) \<Rightarrow> invoices_load E tenant (pg0\<lparr>ip_showForm := False, ip_form := invoice_form0\<rparr>) w1))"

definition double_quoted :: "string \<Rightarrow> string" where
  "double_quoted s = [CHR 0x22] @ s @ [CHR 0x22]"

definition handleSend :: "'w web_env \<Rightarrow> string option \<Rightarrow> string \<Rightarrow> string \<Rightarrow> invoices_page \<Rightarrow> 'w \<Rightarrow> invoices_page \<times> 'w" where
  "handleSend E tenant invoiceId channel pg w =
     (case tenantApi E tenant (''/invoices/'' @ invoiceId @ ''/send'') (web_post (JObj [(''channel'', JStr channel)])) w of (r, w1) \<Rightarrow>
      (pg\<lparr>ip_sendMessage := Some (then_catch r
           (\<lambda>result. case (js_read ''delivered'' result, js_read ''provider'' result) of
              (Inr d, Inr p) \<Rightarrow> Inr (if js_truthy d then ''Sent via '' @ answer_text_of (wb_json E) p @ ''.''
                 else ''Not delivered (provider '' @ double_quoted (answer_text_of (wb_json E) p) @
                   '' is not configured for real sends in this environment).'')
            | (Inl e, _) \<Rightarrow> Inl e
            | (_, Inl e) \<Rightarrow> Inl e)
           web_message)\<rparr>, w1))"

definition invoices_toggleQr :: "'w web_env \<Rightarrow> string option \<Rightarrow> string \<Rightarrow> invoices_page \<Rightarrow> 'w \<Rightarrow> invoices_page \<times> 'w" where
  "invoices_toggleQr E tenant invoiceId pg w =
     (case toggle_qr E tenant (''/invoices/'' @ invoiceId @ ''/qr'') invoiceId (ip_qrInvoiceId pg) w of ((i, url, err), w1) \<Rightarrow>
      (pg\<lparr>ip_qrInvoiceId := i, ip_qrDataUrl := url, ip_error := (case err of None \<Rightarrow> ip_error pg | Some m \<Rightarrow> Some m)\<rparr>, w1))"

section \<open>Products (\<open>products/page.tsx\<close>)\<close>

record product_form =
  pf_name :: string
  pf_sku :: string
  pf_barcode :: string
  pf_costPrice :: string
  pf_retailPrice :: string
  pf_reorderPoint :: string

record products_page =
  pp_products :: "json option"
  pp_error :: "string option"
  pp_showForm :: bool
  pp_qrVariantId :: "string option"
  pp_qrDataUrl :: "json option"
  pp_form :: product_form

definition product_form0 :: product_form where
  "product_form0 = \<lparr>pf_name = [], pf_sku = [], pf_barcode = [], pf_costPrice = [], pf_retailPrice = [], pf_reorderPoint = ''5''\<rparr>"

definition products_load :: "'w web_env \<Rightarrow> string option \<Rightarrow> products_page \<Rightarrow> 'w \<Rightarrow> products_page \<times> 'w" where
  "products_load E tenant pg w =
     (case tenantApi E tenant ''/products'' web_get w of (r, w1) \<Rightarrow>
      (then_catch r (\<lambda>data. map_sum id (\<lambda>ps. pg\<lparr>pp_products := ps\<rparr>) (js_read ''products'' data))
         (\<lambda>e. pg\<lparr>pp_error := Some (web_message e)\<rparr>), w1))"

definition product_body :: "product_form \<Rightarrow> json" where
  "product_body form =
     JObj [(''name'', JStr (pf_name form)),
       (''variants'', JArr [JObj ([(''sku'', JStr (pf_sku form))] @ text_entry ''barcode'' (pf_barcode form)
          @ [(''costPrice'', typed_number (pf_costPrice form)), (''retailPrice'', typed_number (pf_retailPrice form)),
             (''reorderPoint'', typed_number (pf_reorderPoint form)), (''reorderBuffer'', JNum 3)])])]"

definition products_submit :: "'w web_env \<Rightarrow> string option \<Rightarrow> products_page \<Rightarrow> 'w \<Rightarrow> products_page \<times> 'w" where
  "products_submit E tenant pg w =
     (let pg0 = pg\<lparr>pp_error := None\<rparr>
      in case tenantApi E tenant ''/products'' (web_post (product_body (pp_form pg))) w of
           (Inl e, w1) \<Rightarrow> (pg0\<lparr>pp_error := Some (web_message e)\<rparr>, w1)
         | (Inr data, w1) \<Rightarrow> products_load E tenant (pg0\<lparr>pp_form := product_form0, pp_showForm := False\<rparr>) w1)"

definition products_toggleQr :: "'w web_env \<Rightarrow> string option \<Rightarrow> string \<Rightarrow> products_page \<Rightarrow> 'w \<Rightarrow> products_page \<times> 'w" where
  "products_toggleQr E tenant variantId pg w =
     (case toggle_qr E tenant (''/products/variants/'' @ variantId @ ''/qr'') variantId (pp_qrVariantId pg) w of ((i, url, err), w1) \<Rightarrow>
      (pg\<lparr>pp_qrVariantId := i, pp_qrDataUrl := url, pp_error := (case err of None \<Rightarrow> pp_error pg | Some m \<Rightarrow> Some m)\<rparr>, w1))"

text \<open>The label of a stock status (\<open>components/stock-badge.tsx\<close>).\<close>

fun badge_label :: "stock_status \<Rightarrow> string" where
  "badge_label Red = ''Out / low''"
| "badge_label Yellow = ''Reorder soon''"
| "badge_label Green = ''In stock''"

section \<open>Customers (\<open>customers/page.tsx\<close>)\<close>

record customer_form =
  cf_name :: string
  cf_email :: string
  cf_phone :: string

record customers_page =
  cp_customers :: "json option"
  cp_showForm :: bool
  cp_form :: customer_form
  cp_error :: "string option"

definition customers_load :: "'w web_env \<Rightarrow> string option \<Rightarrow> customers_page \<Rightarrow> 'w \<Rightarrow> customers_page \<times> 'w" where
  "customers_load E tenant pg w =
     (case tenantApi E tenant ''/customers'' web_get w of (r, w1) \<Rightarrow>
      (then_catch r (\<lambda>data. map_sum id (\<lambda>cs. pg\<lparr>cp_customers := cs\<rparr>) (js_read ''customers'' data))
         (\<lambda>e. pg\<lparr>cp_error := Some (web_message e)\<rparr>), w1))"

definition customer_body :: "customer_form \<Rightarrow> json" where
  "customer_body form = JObj ([(''name'', JStr (cf_name form))] @ text_entry ''email'' (cf_email form) @ text_entry ''phone'' (cf_phone form))"

definition customers_submit :: "'w web_env \<Rightarrow> string option \<Rightarrow> customers_page \<Rightarrow> 'w \<Rightarrow> customers_page \<times> 'w" where
  "customers_submit E tenant pg w =
     (let pg0 = pg\<lparr>cp_error := None\<rparr>
      in case tenantApi E tenant ''/customers'' (web_post (customer_body (cp_form pg))) w of
           (Inl e, w1) \<Rightarrow> (pg0\<lparr>cp_error := Some (web_message e)\<rparr>, w1)
         | (Inr data, w1) \<Rightarrow>
             customers_load E tenant (pg0\<lparr>cp_form := \<lparr>cf_name = [], cf_email = [], cf_phone = []\<rparr>, cp_showForm := False\<rparr>) w1)"

section \<open>Expenses (\<open>expenses/page.tsx\<close>)\<close>

record expense_form =
  ef_categoryId :: "json option"
  ef_vendor :: string
  ef_amount :: string
  ef_date :: string

record expenses_page =
  ep_expenses :: "json option"
  ep_categories :: "json option"
  ep_branches :: "json option"
  ep_showForm :: bool
  ep_error :: "string option"
  ep_form :: expense_form
  ep_newCategory :: string

definition expense_form0 :: "int \<Rightarrow> expense_form" where
  "expense_form0 now = \<lparr>ef_categoryId = Some (JStr []), ef_vendor = [], ef_amount = [], ef_date = iso_date now\<rparr>"

definition expenses_load :: "'w web_env \<Rightarrow> string option \<Rightarrow> expenses_page \<Rightarrow> 'w \<Rightarrow> expenses_page \<times> 'w" where
  "expenses_load E tenant pg w =
     (case tenantApi E tenant ''/expenses'' web_get w of (r, w1) \<Rightarrow>
      (let pg1 = then_catch r (\<lambda>data. map_sum id (\<lambda>xs. pg\<lparr>ep_expenses := xs\<rparr>) (js_read ''expenses'' data))
                   (\<lambda>e. pg\<lparr>ep_error := Some (web_message e)\<rparr>)
       in case tenantApi E tenant ''/expenses/categories'' web_get w1 of (r2, w2) \<Rightarrow>
            (then_catch r2 (\<lambda>data. Inr (pg1\<lparr>ep_categories := data\<rparr>)) (\<lambda>e. pg1), w2)))"

definition expenses_mount :: "'w web_env \<Rightarrow> string option \<Rightarrow> expenses_page \<Rightarrow> 'w \<Rightarrow> expenses_page \<times> 'w" where
  "expenses_mount E tenant pg w =
     (case expenses_load E tenant pg w of (pg1, w1) \<Rightarrow>
      case tenantApi E tenant ''/branches'' web_get w1 of (r, w2) \<Rightarrow>
        (then_catch r (\<lambda>data. Inr (pg1\<lparr>ep_branches := data\<rparr>)) (\<lambda>e. pg1), w2))"

text \<open>No failure is caught here: a refused category leaves the page as it is, without a message.\<close>

definition handleAddCategory :: "'w web_env \<Rightarrow> string option \<Rightarrow> expenses_page \<Rightarrow> 'w \<Rightarrow> expenses_page \<times> 'w" where
  "handleAddCategory E tenant pg w =
     (if js_trim (ep_newCategory pg) = [] then (pg, w)
      else case tenantApi E tenant ''/expenses/categories'' (web_post (JObj [(''name'', JStr (ep_newCategory pg))])) w of
        (Inr (Some cat), w1) \<Rightarrow>
          (case ep_categories pg of
             Some (JArr cs) \<Rightarrow>
               (pg\<lparr>ep_categories := Some (JArr (cs @ [cat])), ep_form := (ep_form pg)\<lparr>ef_categoryId := js_field ''id'' cat\<rparr>,
                   ep_newCategory := []\<rparr>, w1)
           | _ \<Rightarrow> (pg, w1))
      | (_, w1) \<Rightarrow> (pg, w1))"

definition expense_body :: "json \<Rightarrow> expense_form \<Rightarrow> json" where
  "expense_body branch form =
     JObj (opt_entry ''branchId'' (js_field ''id'' branch) @ opt_entry ''categoryId'' (ef_categoryId form)
       @ text_entry ''vendor'' (ef_vendor form) @ [(''amount'', typed_number (ef_amount form)), (''date'', JStr (ef_date form))])"

definition expenses_submit :: "'w web_env \<Rightarrow> int \<Rightarrow> string option \<Rightarrow> expenses_page \<Rightarrow> 'w \<Rightarrow> expenses_page \<times> 'w" where
  "expenses_submit E now tenant pg w =
     (case first_row (ep_branches pg) of
        None \<Rightarrow> (pg, w)
      | Some branch \<Rightarrow>
          (let pg0 = pg\<lparr>ep_error := None\<rparr>
           in case tenantApi E tenant ''/expenses'' (web_post (expense_body branch (ep_form pg))) w of
                (Inl e, w1) \<Rightarrow> (pg0\<lparr>ep_error := Some (web_message e)\<rparr>, w1)
              | (Inr data, w1) \<Rightarrow> expenses_load E tenant (pg0\<lparr>ep_showForm := False, ep_form := expense_form0 now\<rparr>) w1))"

section \<open>Reports and the dashboard (\<open>reports/page.tsx\<close>, \<open>dashboard/page.tsx\<close>)\<close>

definition daysAgoIso :: "int \<Rightarrow> int \<Rightarrow> string" where
  "daysAgoIso now n = iso_date (now - n * 24 * 60 * 60 * 1000)"

record reports_page =
  rp_from :: string
  rp_to :: string
  rp_groupBy :: string
  rp_sales :: "json option"
  rp_valuation :: "json option"
  rp_error :: "string option"

definition reports_page0 :: "int \<Rightarrow> reports_page" where
  "reports_page0 now = \<lparr>rp_from = daysAgoIso now 6, rp_to = iso_date now, rp_groupBy = ''day'', rp_sales = Some JNull,
     rp_valuation = Some JNull, rp_error = None\<rparr>"

definition loadSales :: "'w web_env \<Rightarrow> string option \<Rightarrow> reports_page \<Rightarrow> 'w \<Rightarrow> reports_page \<times> 'w" where
  "loadSales E tenant pg w =
     (case tenantApi E tenant ''/reports/sales''
             (web_get\<lparr>wq_query := [(''from'', Some (rp_from pg)), (''to'', Some (rp_to pg)), (''groupBy'', Some (rp_groupBy pg))]\<rparr>) w of
        (r, w1) \<Rightarrow> (then_catch r (\<lambda>data. Inr (pg\<lparr>rp_sales := data\<rparr>)) (\<lambda>e. pg\<lparr>rp_error := Some (web_message e)\<rparr>), w1))"

definition loadValuation :: "'w web_env \<Rightarrow> string option \<Rightarrow> reports_page \<Rightarrow> 'w \<Rightarrow> reports_page \<times> 'w" where
  "loadValuation E tenant pg w =
     (case tenantApi E tenant ''/reports/inventory-valuation'' web_get w of (r, w1) \<Rightarrow>
        (then_catch r (\<lambda>data. Inr (pg\<lparr>rp_valuation := data\<rparr>)) (\<lambda>e. pg), w1))"

text \<open>The file that is saved: its name and its content.\<close>

definition downloadCsv ::
  "'w web_env \<Rightarrow> string option \<Rightarrow> reports_page \<Rightarrow> 'w \<Rightarrow> (string \<times> string) option \<times> reports_page \<times> 'w" where
  "downloadCsv E tenant pg w =
     (if \<not> truthy tenant then (None, pg, w)
      else case wb_fetch E \<lparr>hq_method = ''GET'',
               hq_url = wb_base E @ ''/reports/sales/export.csv?from='' @ rp_from pg @ ''&to='' @ rp_to pg @ ''&groupBy='' @ rp_groupBy pg,
               hq_headers = [(''X-Tenant-Id'', the tenant)], hq_body = None\<rparr> w of
             (Inl err, w1) \<Rightarrow> (None, pg\<lparr>rp_error := Some (error_message err)\<rparr>, w1)
           | (Inr res, w1) \<Rightarrow>
               (if hr_ok res
                then (Some (''sales-report-'' @ rp_from pg @ ''-to-'' @ rp_to pg @ ''.csv'', hr_body res), pg, w1)
                else (None, pg\<lparr>rp_error := Some (''Export failed: HTTP '' @ nat_str (hr_status res))\<rparr>, w1)))"

record report_totals =
  rt_total :: js_num
  rt_grossProfit :: js_num
  rt_transactionCount :: js_num

definition report_totals_of :: "json_lib \<Rightarrow> json list \<Rightarrow> report_totals" where
  "report_totals_of J rows =
     foldl (\<lambda>acc p. \<lparr>rt_total = js_add (rt_total acc) (js_num_of (js_Number J (js_field ''total'' p))),
         rt_grossProfit = js_add (rt_grossProfit acc) (js_num_of (js_Number J (js_field ''grossProfit'' p))),
         rt_transactionCount = js_add (rt_transactionCount acc) (js_num_of (js_Number J (js_field ''transactionCount'' p)))\<rparr>)
       \<lparr>rt_total = Some 0, rt_grossProfit = Some 0, rt_transactionCount = Some 0\<rparr> rows"

record dashboard_page =
  dp_data :: "json option"
  dp_error :: "string option"

definition dashboard_load :: "'w web_env \<Rightarrow> string option \<Rightarrow> dashboard_page \<Rightarrow> 'w \<Rightarrow> dashboard_page \<times> 'w" where
  "dashboard_load E tenant pg w =
     (case tenantApi E tenant ''/reports/dashboard'' web_get w of (r, w1) \<Rightarrow>
        (then_catch r (\<lambda>data. Inr (pg\<lparr>dp_data := data\<rparr>)) (\<lambda>e. pg\<lparr>dp_error := Some (web_message e)\<rparr>), w1))"

section \<open>Integrations (\<open>integrations/page.tsx\<close>)\<close>

record store_form =
  sf_name :: string
  sf_storeUrl :: string
  sf_consumerKey :: string
  sf_consumerSecret :: string
  sf_webhookSecret :: string

record integrations_page =
  np_connections :: "json option"
  np_health :: "(string \<times> json option) list"
  np_expandedId :: "string option"
  np_showForm :: bool
  np_form :: store_form
  np_error :: "string option"
  np_actionMessage :: "string option"

definition EMPTY_FORM :: store_form where
  "EMPTY_FORM = \<lparr>sf_name = [], sf_storeUrl = [], sf_consumerKey = [], sf_consumerSecret = [], sf_webhookSecret = []\<rparr>"

definition connections_load :: "'w web_env \<Rightarrow> string option \<Rightarrow> integrations_page \<Rightarrow> 'w \<Rightarrow> integrations_page \<times> 'w" where
  "connections_load E tenant pg w =
     (case tenantApi E tenant ''/integrations/connections'' web_get w of (r, w1) \<Rightarrow>
        (then_catch r (\<lambda>data. Inr (pg\<lparr>np_connections := data\<rparr>)) (\<lambda>e. pg\<lparr>np_error := Some (web_message e)\<rparr>), w1))"

definition loadHealth :: "'w web_env \<Rightarrow> string option \<Rightarrow> string \<Rightarrow> integrations_page \<Rightarrow> 'w \<Rightarrow> integrations_page \<times> 'w" where
  "loadHealth E tenant i pg w =
     (case tenantApi E tenant (''/integrations/connections/'' @ i @ ''/health'') web_get w of (r, w1) \<Rightarrow>
        (then_catch r (\<lambda>result. Inr (pg\<lparr>np_health := AList.update i result (np_health pg)\<rparr>))
           (\<lambda>e. pg\<lparr>np_error := Some (web_message e)\<rparr>), w1))"

definition toggleExpand :: "'w web_env \<Rightarrow> string option \<Rightarrow> string \<Rightarrow> integrations_page \<Rightarrow> 'w \<Rightarrow> integrations_page \<times> 'w" where
  "toggleExpand E tenant i pg w =
     (let next_id = (if np_expandedId pg = Some i then None else Some i);
          pg1 = pg\<lparr>np_expandedId := next_id\<rparr>
      in if truthy next_id then loadHealth E tenant (the next_id) pg1 w else (pg1, w))"

definition connection_body :: "store_form \<Rightarrow> json" where
  "connection_body form =
     JObj [(''provider'', JStr ''WOOCOMMERCE''), (''name'', JStr (sf_name form)), (''storeUrl'', JStr (sf_storeUrl form)),
       (''credentials'', JObj ([(''consumerKey'', JStr (sf_consumerKey form)), (''consumerSecret'', JStr (sf_consumerSecret form))]
          @ text_entry ''webhookSecret'' (sf_webhookSecret form)))]"

definition connections_submit :: "'w web_env \<Rightarrow> string option \<Rightarrow> integrations_page \<Rightarrow> 'w \<Rightarrow> integrations_page \<times> 'w" where
  "connections_submit E tenant pg w =
     (let pg0 = pg\<lparr>np_error := None\<rparr>
      in case tenantApi E tenant ''/integrations/connections'' (web_post (connection_body (np_form pg))) w of
           (Inl e, w1) \<Rightarrow> (pg0\<lparr>np_error := Some (web_message e)\<rparr>, w1)
         | (Inr data, w1) \<Rightarrow> connections_load E tenant (pg0\<lparr>np_form := EMPTY_FORM, np_showForm := False\<rparr>) w1)"

definition runAction ::
  "'w web_env \<Rightarrow> string option \<Rightarrow> string \<Rightarrow> string \<Rightarrow> string \<Rightarrow> web_request \<Rightarrow> integrations_page \<Rightarrow> 'w \<Rightarrow> integrations_page \<times> 'w" where
  "runAction E tenant i label path options pg w =
     (let pg0 = pg\<lparr>np_actionMessage := None, np_error := None\<rparr>
      in case tenantApi E tenant path options w of
           (Inl e, w1) \<Rightarrow> (pg0\<lparr>np_error := Some (label @ '' failed: '' @ web_message e)\<rparr>, w1)
         | (Inr data, w1) \<Rightarrow>
             (case connections_load E tenant (pg0\<lparr>np_actionMessage := Some (label @ '' succeeded.'')\<rparr>) w1 of (pg1, w2) \<Rightarrow>
                if np_expandedId pg = Some i then loadHealth E tenant i pg1 w2 else (pg1, w2)))"

definition bare_post :: web_request where
  "bare_post = web_get\<lparr>wq_method := Some ''POST''\<rparr>"

text \<open>The four buttons of a connection.\<close>

definition store_test :: "'w web_env \<Rightarrow> string option \<Rightarrow> string \<Rightarrow> integrations_page \<Rightarrow> 'w \<Rightarrow> integrations_page \<times> 'w" where
  "store_test E tenant i = runAction E tenant i ''Test connection'' (''/integrations/connections/'' @ i @ ''/test'') bare_post"

definition store_syncProducts :: "'w web_env \<Rightarrow> string option \<Rightarrow> string \<Rightarrow> integrations_page \<Rightarrow> 'w \<Rightarrow> integrations_page \<times> 'w" where
  "store_syncProducts E tenant i = runAction E tenant i ''Product sync'' (''/integrations/connections/'' @ i @ ''/sync'')
     (web_post (JObj [(''domain'', JStr ''PRODUCTS'')]))"

definition store_pushInventory :: "'w web_env \<Rightarrow> string option \<Rightarrow> string \<Rightarrow> integrations_page \<Rightarrow> 'w \<Rightarrow> integrations_page \<times> 'w" where
  "store_pushInventory E tenant i = runAction E tenant i ''Inventory push'' (''/integrations/connections/'' @ i @ ''/sync'')
     (web_post (JObj [(''domain'', JStr ''INVENTORY'')]))"

definition store_disconnect :: "'w web_env \<Rightarrow> string option \<Rightarrow> string \<Rightarrow> integrations_page \<Rightarrow> 'w \<Rightarrow> integrations_page \<times> 'w" where
  "store_disconnect E tenant i = runAction E tenant i ''Disconnect'' (''/integrations/connections/'' @ i @ ''/disconnect'') bare_post"

section \<open>The assistant (\<open>assistant/page.tsx\<close>)\<close>

record assistant_page =
  ap_configured :: "json option"
  ap_turns :: "(string \<times> json option) list"
  ap_question :: string
  ap_error :: "string option"

definition assistant_page0 :: assistant_page where
  "assistant_page0 = \<lparr>ap_configured = Some JNull, ap_turns = [], ap_question = [], ap_error = None\<rparr>"

definition assistant_mount :: "'w web_env \<Rightarrow> string option \<Rightarrow> assistant_page \<Rightarrow> 'w \<Rightarrow> assistant_page \<times> 'w" where
  "assistant_mount E tenant pg w =
     (case tenantApi E tenant ''/assistant/status'' web_get w of (r, w1) \<Rightarrow>
        (then_catch r (\<lambda>data. map_sum id (\<lambda>c. pg\<lparr>ap_configured := c\<rparr>) (js_read ''configured'' data))
           (\<lambda>e. pg\<lparr>ap_configured := Some (JBool False)\<rparr>), w1))"

definition turn_json :: "string \<times> json option \<Rightarrow> json" where
  "turn_json turn = JObj ([(''role'', JStr (fst turn))] @ opt_entry ''content'' (snd turn))"

definition ask_body :: "string \<Rightarrow> (string \<times> json option) list \<Rightarrow> json" where
  "ask_body question turns = JObj [(''question'', JStr question), (''conversation'', JArr (map turn_json turns))]"

text \<open>The question is shown at once and taken back when it fails.\<close>

definition handleAsk :: "'w web_env \<Rightarrow> string option \<Rightarrow> assistant_page \<Rightarrow> 'w \<Rightarrow> assistant_page \<times> 'w" where
  "handleAsk E tenant pg w =
     (if js_trim (ap_question pg) = [] then (pg, w)
      else let nextTurns = ap_turns pg @ [(''user'', Some (JStr (ap_question pg)))];
               pg0 = pg\<lparr>ap_error := None, ap_turns := nextTurns, ap_question := []\<rparr>
           in case tenantApi E tenant ''/assistant/ask'' (web_post (ask_body (ap_question pg) (ap_turns pg))) w of (r, w1) \<Rightarrow>
                (then_catch r (\<lambda>result. map_sum id (\<lambda>a. pg0\<lparr>ap_turns := nextTurns @ [(''assistant'', a)]\<rparr>) (js_read ''answer'' result))
                   (\<lambda>e. pg0\<lparr>ap_error := Some (web_message e), ap_turns := ap_turns pg\<rparr>), w1))"

section \<open>The public invoice (\<open>public/invoices/[token]/page.tsx\<close>)\<close>

record public_invoice_page =
  bp_invoice :: "json option"
  bp_error :: "string option"

definition public_invoice_load :: "'w web_env \<Rightarrow> string \<Rightarrow> public_invoice_page \<Rightarrow> 'w \<Rightarrow> public_invoice_page \<times> 'w" where
  "public_invoice_load E token pg w =
     (case apiFetch E (''/public/invoices/'' @ token) web_get w of (r, w1) \<Rightarrow>
        (then_catch r (\<lambda>data. Inr (pg\<lparr>bp_invoice := data\<rparr>)) (\<lambda>e. pg\<lparr>bp_error := Some (web_message e)\<rparr>), w1))"

definition js_minus :: "js_num \<Rightarrow> js_num \<Rightarrow> js_num" where
  "js_minus x y = js_add x (map_option uminus y)"

definition amountDue :: "json_lib \<Rightarrow> json \<Rightarrow> string" where
  "amountDue J invoice =
     total_text (js_minus (js_num_of (js_Number J (js_field ''total'' invoice)))
       (js_num_of (js_Number J (js_field ''amountPaid'' invoice))))"

end
