(* ===== verification/Web_Facts.thy ===== *)
theory Web_Facts
  imports Web_Pages
begin

text \<open>
  The properties of the web application: the session keeps a tenant of the user, the pages of the dashboard
  speak for the selected tenant only, the amount due of a public invoice is exact, and what becomes of a long
  conversation with the assistant.
\<close>

section \<open>The tenant of the session\<close>

text \<open>What the browser does with its session: loading, signing in and out, choosing a tenant in the layout,
  setting up a business and following the redirects.\<close>

inductive browser_step :: "'w web_env \<Rightarrow> browser \<Rightarrow> browser \<Rightarrow> bool" for E where
  BrowserLoads: "browser_step E b (fst (session_refresh E b w))"
| BrowserSignsIn: "browser_step E b (fst (snd (login_submit E pg b w)))"
| BrowserSetsUp: "browser_step E b (fst (snd (handleCreateTenant E pg b w)))"
| BrowserChooses: "t \<in> fst ` set (layout_tenant_choices b) \<Longrightarrow> browser_step E b (session_setCurrentTenantId t b)"
| BrowserSignsOut: "browser_step E b (fst (layout_signOut E b w))"
| BrowserAtRoot: "browser_step E b (root_redirect b)"
| BrowserAtLayout: "browser_step E b (layout_redirect b)"

definition tenant_of_session :: "browser \<Rightarrow> bool" where
  "tenant_of_session b \<longleftrightarrow> (case bw_currentTenantId b of
      None \<Rightarrow> bw_memberships b = []
    | Some t \<Rightarrow> t \<in> mse_tenantId ` set (bw_memberships b))"

lemma chosen_tenant_None: "chosen_tenant stored ms = None \<Longrightarrow> ms = []"
  by (auto simp: chosen_tenant_def split: option.splits list.splits)

lemma chosen_tenant_Some: "chosen_tenant stored ms = Some t \<Longrightarrow> t \<in> mse_tenantId ` set ms"
  by (auto simp: chosen_tenant_def dest: find_SomeD split: option.splits list.splits)

lemma refresh_tenant: "tenant_of_session (fst (session_refresh E b w))"
  by (auto simp: session_refresh_def tenant_of_session_def no_session_def dest: chosen_tenant_None chosen_tenant_Some
      split: sum.splits option.splits prod.splits)

lemma refreshed_tenant: "session_refresh E b w = (b1, w1) \<Longrightarrow> tenant_of_session b1"
  using refresh_tenant [of E b w] by simp

lemma location_tenant [simp]: "tenant_of_session (b\<lparr>bw_location := l\<rparr>) = tenant_of_session b"
  by (simp add: tenant_of_session_def split: option.split)

lemma no_session_tenant [simp]: "tenant_of_session (no_session b)"
  by (simp add: tenant_of_session_def no_session_def)

lemma login_tenant: "tenant_of_session b \<Longrightarrow> tenant_of_session (fst (snd (login_submit E pg b w)))"
  by (auto simp: login_submit_def handleMfaVerify_def handlePasswordLogin_def Let_def refreshed_tenant
      split: login_mode.splits sum.splits prod.splits)

lemma set_up_tenant: "tenant_of_session b \<Longrightarrow> tenant_of_session (fst (snd (handleCreateTenant E pg b w)))"
  by (auto simp: handleCreateTenant_def Let_def refreshed_tenant refresh_tenant split: sum.splits prod.splits option.splits)

lemma sign_out_tenant: "tenant_of_session b \<Longrightarrow> tenant_of_session (fst (layout_signOut E b w))"
  by (auto simp: layout_signOut_def session_logout_def split: sum.splits prod.splits)

lemma browser_step_tenant: "browser_step E b b' \<Longrightarrow> tenant_of_session b \<Longrightarrow> tenant_of_session b'"
proof (induction rule: browser_step.induct)
  case (BrowserChooses t b)
  then show ?case
    by (auto simp: layout_tenant_choices_def session_setCurrentTenantId_def tenant_of_session_def split: if_splits)
qed (auto simp: refresh_tenant login_tenant set_up_tenant sign_out_tenant root_redirect_def layout_redirect_def)



text \<open>A visitor whose browser remembers a tenant that is no longer hers gets the first of her own.\<close>

definition demo_me :: "unit web_env" where
  "demo_me = \<lparr>wb_json = \<lparr>js_stringify = (\<lambda>_. []), js_parse = (\<lambda>_. Some (JObj [(''user'', JObj []),
       (''memberships'', JArr [JObj [(''tenantId'', JStr ''t1''), (''tenantName'', JStr ''Shop''), (''roleKey'', JStr ''owner'')]])]))\<rparr>,
     wb_base = [], wb_url = Some, wb_fetch = (\<lambda>q w. (Inr \<lparr>hr_status = 200, hr_headers = [], hr_body = []\<rparr>, w)),
     wb_statusText = (\<lambda>_. [])\<rparr>"


section \<open>The requests of the dashboard's pages\<close>

text \<open>The handlers of the pages, each run on any state of its page: the worlds before and after.\<close>

inductive dashboard_step :: "'w web_env \<Rightarrow> int \<Rightarrow> string option \<Rightarrow> 'w \<Rightarrow> 'w \<Rightarrow> bool" for E now t where
  PosMounts: "dashboard_step E now t w (snd (web_pos_mount E t pos w))"
| PosCharges: "dashboard_step E now t w (snd (handleCheckout E t uid pos w))"
| InvoicesMount: "dashboard_step E now t w (snd (invoices_mount E t ip w))"
| InvoicesCreate: "dashboard_step E now t w (snd (invoices_submit E t ip w))"
| InvoicesSend: "dashboard_step E now t w (snd (handleSend E t i channel ip w))"
| InvoicesQr: "dashboard_step E now t w (snd (invoices_toggleQr E t i ip w))"
| ProductsMount: "dashboard_step E now t w (snd (products_load E t pp w))"
| ProductsCreate: "dashboard_step E now t w (snd (products_submit E t pp w))"
| ProductsQr: "dashboard_step E now t w (snd (products_toggleQr E t i pp w))"
| CustomersMount: "dashboard_step E now t w (snd (customers_load E t cp w))"
| CustomersCreate: "dashboard_step E now t w (snd (customers_submit E t cp w))"
| ExpensesMount: "dashboard_step E now t w (snd (expenses_mount E t ep w))"
| ExpensesCategory: "dashboard_step E now t w (snd (handleAddCategory E t ep w))"
| ExpensesCreate: "dashboard_step E now t w (snd (expenses_submit E now t ep w))"
| ReportsSales: "dashboard_step E now t w (snd (loadSales E t rp w))"
| ReportsValuation: "dashboard_step E now t w (snd (loadValuation E t rp w))"
| ReportsCsv: "dashboard_step E now t w (snd (snd (downloadCsv E t rp w)))"
| DashboardLoads: "dashboard_step E now t w (snd (dashboard_load E t dp w))"
| StoresMount: "dashboard_step E now t w (snd (connections_load E t np w))"
| StoresExpand: "dashboard_step E now t w (snd (toggleExpand E t i np w))"
| StoresCreate: "dashboard_step E now t w (snd (connections_submit E t np w))"
| StoresTest: "dashboard_step E now t w (snd (store_test E t i np w))"
| StoresSync: "dashboard_step E now t w (snd (store_syncProducts E t i np w))"
| StoresPush: "dashboard_step E now t w (snd (store_pushInventory E t i np w))"
| StoresDisconnect: "dashboard_step E now t w (snd (store_disconnect E t i np w))"
| AssistantMounts: "dashboard_step E now t w (snd (assistant_mount E t ap w))"
| AssistantAsks: "dashboard_step E now t w (snd (handleAsk E t ap w))"

text \<open>The application with a record of the requests it sends.\<close>

definition recorded :: "'w web_env \<Rightarrow> (http_request list \<times> 'w) web_env" where
  "recorded E = \<lparr>wb_json = wb_json E, wb_base = wb_base E, wb_url = wb_url E,
     wb_fetch = (\<lambda>rq w. case wb_fetch E rq (snd w) of (r, v) \<Rightarrow> (r, fst w @ [rq], v)), wb_statusText = wb_statusText E\<rparr>"

definition speaks_for :: "string option \<Rightarrow> http_request list \<times> 'w \<Rightarrow> http_request list \<times> 'w \<Rightarrow> bool" where
  "speaks_for t w w' \<longleftrightarrow>
     (\<exists>sent. fst w' = fst w @ sent \<and> (\<forall>rq\<in>set sent. truthy t \<and> (''X-Tenant-Id'', the t) \<in> set (hq_headers rq)))"

lemma speaks_for_refl [simp, intro]: "speaks_for t w w"
  by (simp add: speaks_for_def)

lemma speaks_for_trans: "speaks_for t u v \<Longrightarrow> speaks_for t v w \<Longrightarrow> speaks_for t u w"
proof -
  assume "speaks_for t u v" "speaks_for t v w"
  then obtain a b where a: "fst v = fst u @ a" "\<forall>rq\<in>set a. truthy t \<and> (''X-Tenant-Id'', the t) \<in> set (hq_headers rq)"
    and b: "fst w = fst v @ b" "\<forall>rq\<in>set b. truthy t \<and> (''X-Tenant-Id'', the t) \<in> set (hq_headers rq)"
    unfolding speaks_for_def by blast
  show "speaks_for t u w"
    unfolding speaks_for_def by (rule exI [of _ "a @ b"]) (use a b in \<open>simp add: ball_Un\<close>)
qed

lemma recorded_fetch: "truthy t \<Longrightarrow> (''X-Tenant-Id'', the t) \<in> set (hq_headers rq) \<Longrightarrow> speaks_for t w (snd (wb_fetch (recorded E) rq w))"
  by (auto simp: speaks_for_def recorded_def split: prod.split)

lemma apiFetch_world:
  "snd (apiFetch E path options w) = (case web_url E path (wq_query options) of None \<Rightarrow> w
     | Some u \<Rightarrow> snd (wb_fetch E \<lparr>hq_method = (case wq_method options of Some m \<Rightarrow> m | None \<Rightarrow> ''GET''), hq_url = u,
         hq_headers = web_headers (wq_tenantId options), hq_body = map_option (js_stringify (wb_json E)) (wq_body options)\<rparr> w))"
  by (simp add: apiFetch_def Let_def split: option.split prod.split sum.split)

lemma tenantApi_speaks: "speaks_for t w (snd (tenantApi (recorded E) t path options w))"
proof (cases "truthy t")
  case True
  then have "(''X-Tenant-Id'', the t) \<in> set (web_headers t)" by (simp add: web_headers_def)
  with True show ?thesis
    by (auto simp: tenantApi_def apiFetch_world intro!: recorded_fetch split: option.split)
qed (simp add: tenantApi_def)

lemma tenantApi_spoken: "tenantApi (recorded E) t path options w = (r, w1) \<Longrightarrow> speaks_for t w w1"
  using tenantApi_speaks [where E = E and t = t and w = w and path = path and options = options] by simp

lemma tenantApi_then: "tenantApi (recorded E) t path options w = (r, w1) \<Longrightarrow> speaks_for t w1 w2 \<Longrightarrow> speaks_for t w w2"
  using tenantApi_spoken speaks_for_trans by blast

lemmas spoken = tenantApi_spoken tenantApi_then

lemma invoices_load_speaks: "speaks_for t w (snd (invoices_load (recorded E) t ip w))"
  by (auto simp: invoices_load_def split: prod.split intro: spoken)

lemma products_load_speaks: "speaks_for t w (snd (products_load (recorded E) t pp w))"
  by (auto simp: products_load_def split: prod.split intro: spoken)

lemma customers_load_speaks: "speaks_for t w (snd (customers_load (recorded E) t cp w))"
  by (auto simp: customers_load_def split: prod.split intro: spoken)

lemma expenses_load_speaks: "speaks_for t w (snd (expenses_load (recorded E) t ep w))"
  by (auto simp: expenses_load_def Let_def split: prod.split intro: spoken)

lemma connections_load_speaks: "speaks_for t w (snd (connections_load (recorded E) t np w))"
  by (auto simp: connections_load_def split: prod.split intro: spoken)

lemma loadHealth_speaks: "speaks_for t w (snd (loadHealth (recorded E) t i np w))"
  by (auto simp: loadHealth_def split: prod.split intro: spoken)

lemma toggle_qr_speaks: "speaks_for t w (snd (toggle_qr (recorded E) t path i shown w))"
  by (auto simp: toggle_qr_def split: prod.split intro: spoken)

lemma runAction_speaks: "speaks_for t w (snd (runAction (recorded E) t i label path options np w))"
proof -
  obtain r w1 where Pair: "tenantApi (recorded E) t path options w = (r, w1)" using prod.exhaust by blast
  then have first: "speaks_for t w w1" by (rule tenantApi_spoken)
  show ?thesis
  proof (cases r)
    case (Inr data)
    let ?pg = "np\<lparr>np_error := None, np_actionMessage := Some (label @ '' succeeded.'')\<rparr>"
    obtain pg1 w2 where l: "connections_load (recorded E) t ?pg w1 = (pg1, w2)" using prod.exhaust by blast
    then have "speaks_for t w w2"
      using connections_load_speaks [of t w1 E ?pg] by (auto intro: speaks_for_trans [OF first])
    with Pair Inr l show ?thesis
      using loadHealth_speaks [of t w2 E i pg1] by (auto simp: runAction_def Let_def intro: speaks_for_trans)
  qed (use Pair first in \<open>simp add: runAction_def Let_def\<close>)
qed

lemmas loads_speak = invoices_load_speaks products_load_speaks customers_load_speaks expenses_load_speaks connections_load_speaks

lemma loads_then:
  "invoices_load (recorded E) t ip w = (ip1, w1) \<Longrightarrow> speaks_for t w w1"
  "expenses_load (recorded E) t ep w = (ep1, w1) \<Longrightarrow> speaks_for t w w1"
  using loads_speak [of t w] by (metis snd_conv)+

lemma mounts_speak:
  "speaks_for t w (snd (web_pos_mount (recorded E) t pos w))"
  "speaks_for t w (snd (invoices_mount (recorded E) t ip w))"
  "speaks_for t w (snd (expenses_mount (recorded E) t ep w))"
  "speaks_for t w (snd (loadSales (recorded E) t rp w))"
  "speaks_for t w (snd (loadValuation (recorded E) t rp w))"
  "speaks_for t w (snd (dashboard_load (recorded E) t dp w))"
  "speaks_for t w (snd (assistant_mount (recorded E) t ap w))"
  by (auto simp: web_pos_mount_def invoices_mount_def expenses_mount_def loadSales_def loadValuation_def dashboard_load_def
      assistant_mount_def Let_def split: prod.split intro: spoken)
    (meson loads_then tenantApi_spoken speaks_for_trans)+

lemma submits_speak:
  "speaks_for t w (snd (invoices_submit (recorded E) t ip w))"
  "speaks_for t w (snd (products_submit (recorded E) t pp w))"
  "speaks_for t w (snd (customers_submit (recorded E) t cp w))"
  "speaks_for t w (snd (expenses_submit (recorded E) now t ep w))"
  "speaks_for t w (snd (connections_submit (recorded E) t np w))"
  by (auto simp: invoices_submit_def products_submit_def customers_submit_def expenses_submit_def connections_submit_def Let_def
      split: prod.split sum.split option.split intro: spoken loads_speak)

lemma other_handlers_speak:
  "speaks_for t w (snd (handleCheckout (recorded E) t uid pos w))"
  "speaks_for t w (snd (handleSend (recorded E) t i channel ip w))"
  "speaks_for t w (snd (handleAddCategory (recorded E) t ep w))"
  "speaks_for t w (snd (handleAsk (recorded E) t ap w))"
  "speaks_for t w (snd (toggleExpand (recorded E) t i np w))"
  "speaks_for t w (snd (store_test (recorded E) t i np w))"
  "speaks_for t w (snd (store_syncProducts (recorded E) t i np w))"
  "speaks_for t w (snd (store_pushInventory (recorded E) t i np w))"
  "speaks_for t w (snd (store_disconnect (recorded E) t i np w))"
  by (auto simp: handleCheckout_def handleSend_def handleAddCategory_def handleAsk_def toggleExpand_def Let_def
      store_test_def store_syncProducts_def store_pushInventory_def store_disconnect_def runAction_speaks loadHealth_speaks
      split: prod.split sum.split option.split json.split intro: spoken)

lemma toggles_speak:
  "speaks_for t w (snd (invoices_toggleQr (recorded E) t i ip w))"
  "speaks_for t w (snd (products_toggleQr (recorded E) t i pp w))"
  using toggle_qr_speaks [of t w E]
  by (auto simp: invoices_toggleQr_def products_toggleQr_def split: prod.split) (metis snd_conv)+

lemma download_speaks: "speaks_for t w (snd (snd (downloadCsv (recorded E) t rp w)))"
proof (cases "truthy t")
  case True
  let ?rq = "\<lparr>hq_method = ''GET'',
     hq_url = wb_base (recorded E) @ ''/reports/sales/export.csv?from='' @ rp_from rp @ ''&to='' @ rp_to rp @ ''&groupBy='' @ rp_groupBy rp,
     hq_headers = [(''X-Tenant-Id'', the t)], hq_body = None\<rparr>"
  have "snd (snd (downloadCsv (recorded E) t rp w)) = snd (wb_fetch (recorded E) ?rq w)"
    using True by (simp add: downloadCsv_def split: prod.split sum.split)
  with recorded_fetch [OF True, of ?rq w E] show ?thesis by simp
qed (simp add: downloadCsv_def)

lemma dashboard_step_speaks: "dashboard_step (recorded E) now t w w' \<Longrightarrow> speaks_for t w w'"
  by (induction rule: dashboard_step.induct)
    (rule mounts_speak submits_speak other_handlers_speak toggles_speak download_speaks loads_speak)+

text \<open>C21: The pages of the dashboard speak for the selected tenant only: whatever their handlers do, in whatever
  order and states, every request they send carries the header of the selected tenant, and none is sent while no
  tenant is selected.\<close>

theorem pages_speak_for_selected_tenant:
  assumes "(dashboard_step (recorded E) now t)\<^sup>*\<^sup>* (sent, w) (sent', w')"
  shows "\<exists>more. sent' = sent @ more \<and> (\<forall>rq\<in>set more. truthy t \<and> (''X-Tenant-Id'', the t) \<in> set (hq_headers rq))"
proof -
  from assms have "speaks_for t (sent, w) (sent', w')"
    by (induction rule: rtranclp_induct) (auto intro: speaks_for_trans dashboard_step_speaks)
  then show ?thesis by (auto simp: speaks_for_def)
qed

theorem pages_speak_for_selected_tenant_witness:
  "\<exists>rq. (dashboard_step (recorded demo_me) 0 (Some ''t1''))\<^sup>*\<^sup>* ([], ()) ([rq], ()) \<and> (''X-Tenant-Id'', ''t1'') \<in> set (hq_headers rq)"
proof -
  let ?pg = "\<lparr>dp_data = None, dp_error = None\<rparr>"
  let ?w = "snd (dashboard_load (recorded demo_me) (Some ''t1'') ?pg ([], ()))"
  have "(dashboard_step (recorded demo_me) 0 (Some ''t1''))\<^sup>*\<^sup>* ([], ()) ?w"
    by (rule r_into_rtranclp) (rule DashboardLoads)
  moreover obtain rq where "?w = ([rq], ())"
    by (simp add: dashboard_load_def tenantApi_def apiFetch_def web_url_def demo_me_def recorded_def web_get_def search_params_def
        List.map_filter_def Let_def hr_ok_def)
  ultimately have r: "(dashboard_step (recorded demo_me) 0 (Some ''t1''))\<^sup>*\<^sup>* ([], ()) ([rq], ())" by simp
  from pages_speak_for_selected_tenant [OF r] r show ?thesis by auto
qed

section \<open>The amount due of a public invoice\<close>

lemma difference_close:
  assumes "0 \<le> p" "p \<le> t" "t \<le> 10 ^ 12"
  shows "\<bar>to_double (to_double t + - to_double p) - (t - p)\<bar> < 1 / 200"
proof -
  have a: "\<bar>to_double t - t\<bar> \<le> 10 ^ 12 / 2 ^ 53"
    by (rule order_trans [OF to_double_error]) (use assms in \<open>simp add: unit_roundoff_def\<close>)
  have b: "\<bar>to_double p - p\<bar> \<le> 10 ^ 12 / 2 ^ 53"
    by (rule order_trans [OF to_double_error]) (use assms in \<open>simp add: unit_roundoff_def\<close>)
  let ?d = "to_double t + - to_double p"
  have d: "\<bar>?d - (t - p)\<bar> \<le> 2 * 10 ^ 12 / 2 ^ 53" using a b by linarith
  then have "\<bar>?d - (t - p)\<bar> \<le> 1" by (rule order_trans) simp
  then have "\<bar>?d\<bar> \<le> 1000000000001" using assms by (simp add: abs_le_iff)
  then have "\<bar>?d\<bar> \<le> 2 * 10 ^ 12" by (rule order_trans) simp
  then have "\<bar>to_double ?d - ?d\<bar> \<le> 2 * 10 ^ 12 / 2 ^ 53"
    by (intro order_trans [OF to_double_error]) (simp add: unit_roundoff_def)
  with d have "\<bar>to_double ?d - (t - p)\<bar> \<le> 4 * 10 ^ 12 / 2 ^ 53" by linarith
  then show ?thesis by simp
qed

lemma nearest_cent:
  fixes x y :: rat
  assumes "\<bar>x - y\<bar> < 1 / 200" "y * 100 = of_int n"
  shows "\<lfloor>x * 100 + 1 / 2\<rfloor> = n"
  unfolding floor_eq_iff assms(2) [symmetric] using assms(1) by (intro conjI; linarith)

text \<open>Two amounts that write the same cents have the same text.\<close>

lemma toFixed_cents_cong:
  assumes "n = \<lfloor>x * 100 + 1 / 2\<rfloor>" "0 \<le> x" "0 \<le> n"
  shows "js_toFixed 2 x = js_toFixed 2 (of_int n / 100)"
proof -
  have "\<lfloor>of_int n / 100 * 100 + 1 / 2 :: rat\<rfloor> = n" by (rule floor_unique) simp_all
  with assms show ?thesis by (simp only: js_toFixed_def) simp
qed

text \<open>C31: The amount due that the public invoice shows is exact: for a total and an amount paid in cents, at most
  a trillion, the difference computed in doubles is written as the text of the exact difference.\<close>

theorem amount_due_exact:
  assumes "js_Number J (js_field ''total'' invoice) = Some t" "js_Number J (js_field ''amountPaid'' invoice) = Some p"
    and "scaled 2 t" "scaled 2 p" "0 \<le> p" "p \<le> t" "t \<le> 10 ^ 12"
  shows "amountDue J invoice = js_toFixed 2 (t - p)"
proof -
  let ?x = "to_double (to_double t + - to_double p)"
  have due: "amountDue J invoice = js_toFixed 2 ?x"
    using assms(1,2) by (simp add: amountDue_def js_minus_def js_num_of_def total_text_def)
  have close: "\<bar>?x - (t - p)\<bar> < 1 / 200" using difference_close assms(5-7) by blast
  obtain m k :: int where mk: "t * 100 = of_int m" "p * 100 = of_int k"
    using assms(3,4) unfolding scaled_def by (auto elim!: Ints_cases)
  have n: "(t - p) * 100 = of_int (m - k)" by (simp add: left_diff_distrib mk)
  show ?thesis
  proof (cases "t = p")
    case True
    then show ?thesis by (simp add: due to_double_def)
  next
    case False
    then have "0 < (of_int (m - k) :: rat)" using assms(6) unfolding n [symmetric] by simp
    then have pos: "1 \<le> m - k" by simp
    then have "1 / 100 \<le> t - p" using n by (simp add: field_simps)
    then have x: "0 \<le> ?x" using close by linarith
    have "\<lfloor>?x * 100 + 1 / 2\<rfloor> = m - k" using close n by (rule nearest_cent)
    then have "js_toFixed 2 ?x = js_toFixed 2 (of_int (m - k) / 100)"
      using x pos by (intro toFixed_cents_cong) auto
    also have "of_int (m - k) / 100 = t - p" using n by simp
    finally show ?thesis by (simp add: due)
  qed
qed

theorem amount_due_exact_witness:
  "amountDue \<lparr>js_stringify = (\<lambda>_. []), js_parse = (\<lambda>_. None)\<rparr> (JObj [(''total'', JStr ''0.3''), (''amountPaid'', JStr ''0.1'')])
     = js_toFixed 2 (2 / 10)"
proof -
  have t: "Number_of_string ''0.3'' = Some (3 / 10)" and p: "Number_of_string ''0.1'' = Some (1 / 10)" by code_simp+
  have s: "scaled 2 (3 / 10 :: rat)" "scaled 2 (1 / 10 :: rat)" by (simp_all add: scaled_def)
  show ?thesis
    using amount_due_exact [where t = "3 / 10" and p = "1 / 10" and invoice = "JObj [(''total'', JStr ''0.3''), (''amountPaid'', JStr ''0.1'')]"
        and J = "\<lparr>js_stringify = (\<lambda>_. []), js_parse = (\<lambda>_. None)\<rparr>"] t p s
    by (simp add: js_field_def)
qed

section \<open>A long conversation with the assistant\<close>

text \<open>The server refuses a question whose body its schema refuses.\<close>

definition refuses_bad_questions :: "'w web_env \<Rightarrow> bool" where
  "refuses_bad_questions E \<longleftrightarrow> (\<forall>rq w j. web_url E ''/assistant/ask'' [] = Some (hq_url rq) \<and>
     Option.bind (hq_body rq) (js_parse (wb_json E)) = Some j \<and> askAssistantSchema (Some j) = None \<longrightarrow>
     (\<exists>res. fst (wb_fetch E rq w) = Inr res \<and> \<not> hr_ok res))"

definition ask_in_turn :: "'w web_env \<Rightarrow> string option \<Rightarrow> string list \<Rightarrow> assistant_page \<Rightarrow> 'w \<Rightarrow> assistant_page \<times> 'w" where
  "ask_in_turn E t questions pg w = fold (\<lambda>q (p, v). handleAsk E t (p\<lparr>ap_question := q\<rparr>) v) questions (pg, w)"

lemma all_some_length: "all_some xs = Some ys \<Longrightarrow> length ys = length xs"
  by (induction xs arbitrary: ys rule: all_some.induct) (auto split: option.splits bind_splits)

lemma long_conversation_refused:
  assumes "20 < length turns"
  shows "askAssistantSchema (Some (ask_body q turns)) = None"
  using assms
  by (auto simp: askAssistantSchema_def z_object_def ask_body_def z_default_def z_check_def z_array_def
      dest!: all_some_length split: option.splits bind_splits)

lemma handleAsk_refused:
  assumes "refuses_bad_questions E" "20 < length (ap_turns pg)"
    and "js_parse (wb_json E) (js_stringify (wb_json E) (ask_body (ap_question pg) (ap_turns pg))) = Some (ask_body (ap_question pg) (ap_turns pg))"
  shows "ap_turns (fst (handleAsk E t pg w)) = ap_turns pg \<and>
    (js_trim (ap_question pg) \<noteq> [] \<longrightarrow> ap_error (fst (handleAsk E t pg w)) \<noteq> None)"
proof -
  let ?b = "ask_body (ap_question pg) (ap_turns pg)"
  obtain e w1 where f: "tenantApi E t ''/assistant/ask'' (web_post ?b) w = (Inl e, w1)"
  proof (cases "truthy t \<and> web_url E ''/assistant/ask'' [] \<noteq> None")
    case True
    then obtain u where u: "web_url E ''/assistant/ask'' [] = Some u" by blast
    let ?rq = "\<lparr>hq_method = ''POST'', hq_url = u, hq_headers = web_headers t, hq_body = Some (js_stringify (wb_json E) ?b)\<rparr>"
    obtain res where res: "fst (wb_fetch E ?rq w) = Inr res" "\<not> hr_ok res"
      using assms(1,3) u long_conversation_refused [OF assms(2)]
      unfolding refuses_bad_questions_def by (metis bind.bind_lunit http_request.select_convs(2,4))
    then obtain w1 where "wb_fetch E ?rq w = (Inr res, w1)" by (metis prod.collapse)
    with True u res(2) that show thesis
      by (simp add: tenantApi_def apiFetch_def web_post_def web_get_def Let_def)
  next
    case False
    then have "\<exists>e. tenantApi E t ''/assistant/ask'' (web_post ?b) w = (Inl e, w)"
      by (cases "truthy t") (simp_all add: tenantApi_def apiFetch_def web_post_def web_get_def)
    with that show thesis by blast
  qed
  then show ?thesis by (simp add: handleAsk_def Let_def then_catch_def)
qed

text \<open>C33: A conversation with the assistant wears out: once eleven questions are answered every further one
  fails, as the page sends the whole conversation and the server takes at most twenty turns; the conversation never
  shrinks, so this lasts until the page is loaded again.\<close>

theorem long_conversation_is_stuck:
  assumes "refuses_bad_questions E" "20 < length (ap_turns pg)" "questions \<noteq> []" "\<forall>q\<in>set questions. js_trim q \<noteq> []"
    and "\<forall>q\<in>set questions. js_parse (wb_json E) (js_stringify (wb_json E) (ask_body q (ap_turns pg))) = Some (ask_body q (ap_turns pg))"
  shows "ap_turns (fst (ask_in_turn E t questions pg w)) = ap_turns pg \<and> ap_error (fst (ask_in_turn E t questions pg w)) \<noteq> None"
proof -
  have step: "ap_turns (fst (handleAsk E t (p\<lparr>ap_question := q\<rparr>) v)) = ap_turns pg \<and>
      ap_error (fst (handleAsk E t (p\<lparr>ap_question := q\<rparr>) v)) \<noteq> None"
    if "q \<in> set questions" "ap_turns p = ap_turns pg" for q p v
    using handleAsk_refused [OF assms(1), of "p\<lparr>ap_question := q\<rparr>"] assms(2,4,5) that by simp
  have "ap_turns (fst (fold (\<lambda>q (p, v). handleAsk E t (p\<lparr>ap_question := q\<rparr>) v) qs (p, v))) = ap_turns pg \<and>
      (qs \<noteq> [] \<longrightarrow> ap_error (fst (fold (\<lambda>q (p, v). handleAsk E t (p\<lparr>ap_question := q\<rparr>) v) qs (p, v))) \<noteq> None)"
    if "set qs \<subseteq> set questions" "ap_turns p = ap_turns pg" for qs p v
    using that
  proof (induction qs arbitrary: p v)
    case (Cons q qs)
    obtain p1 v1 where h: "handleAsk E t (p\<lparr>ap_question := q\<rparr>) v = (p1, v1)" by force
    then have p1: "ap_turns p1 = ap_turns pg" "ap_error p1 \<noteq> None" using step [of q p v] Cons.prems by auto
    show ?case using Cons.IH [of p1 v1] Cons.prems p1 h by (cases qs) auto
  qed simp
  from this [of questions pg w] assms(3) show ?thesis by (simp add: ask_in_turn_def)
qed

definition demo_turns :: "(string \<times> json option) list" where
  "demo_turns = replicate 22 (''user'', Some (JStr ''Hi''))"

definition demo_strict :: "unit web_env" where
  "demo_strict = demo_me\<lparr>wb_json := \<lparr>js_stringify = (\<lambda>_. []), js_parse = (\<lambda>_. Some (ask_body ''More?'' demo_turns))\<rparr>,
     wb_fetch := (\<lambda>q w. (Inr \<lparr>hr_status = 400, hr_headers = [], hr_body = []\<rparr>, w))\<rparr>"

theorem long_conversation_is_stuck_witness:
  "length (ap_turns (fst (ask_in_turn demo_strict (Some ''t1'') [''More?''] (assistant_page0\<lparr>ap_turns := demo_turns\<rparr>) ()))) = 22"
proof -
  have r: "refuses_bad_questions demo_strict" by (simp add: refuses_bad_questions_def demo_strict_def hr_ok_def)
  have "ap_turns (assistant_page0\<lparr>ap_turns := demo_turns\<rparr>) = demo_turns" "length demo_turns = 22"
    by (simp_all add: demo_turns_def)
  moreover have "js_trim ''More?'' \<noteq> []" by (simp add: js_trim_def is_space_def)
  moreover have "js_parse (wb_json demo_strict) (js_stringify (wb_json demo_strict) (ask_body ''More?'' demo_turns)) = Some (ask_body ''More?'' demo_turns)"
    by (simp add: demo_strict_def)
  ultimately show ?thesis
    using long_conversation_is_stuck [OF r, of "assistant_page0\<lparr>ap_turns := demo_turns\<rparr>" "[''More?'']" "Some ''t1''" "()"] by simp
qed

end
