(* ===== verification/Configuration.thy ===== *)
theory Configuration
  imports Assistant
begin

text \<open>
  \<open>packages/config/src/index.ts\<close>: the environment every program of the repository loads at its start, and the
  providers the API builds from it. Blank entries count as unset, and a loaded environment is kept for the life of the
  process. The text of a refusal is its first line; the list of the issues below it is left out.
\<close>

section \<open>The environment\<close>

record app_env =
  NODE_ENV :: string
  APP_URL :: string
  API_URL :: string
  DATABASE_URL :: string
  DIRECT_URL :: "string option"
  REDIS_URL :: string
  AUTH_JWT_SECRET :: "string option"
  AUTH_ENCRYPTION_KEY :: "string option"
  AUTH_SESSION_TTL_MINUTES :: int
  AUTH_MAGIC_LINK_TTL_MINUTES :: int
  GOOGLE_OAUTH_CLIENT_ID :: "string option"
  GOOGLE_OAUTH_CLIENT_SECRET :: "string option"
  GOOGLE_OAUTH_REDIRECT_URI :: "string option"
  APPLE_OAUTH_CLIENT_ID :: "string option"
  APPLE_OAUTH_TEAM_ID :: "string option"
  APPLE_OAUTH_KEY_ID :: "string option"
  APPLE_OAUTH_PRIVATE_KEY_BASE64 :: "string option"
  APPLE_OAUTH_REDIRECT_URI :: "string option"
  STRIPE_SECRET_KEY :: "string option"
  STRIPE_PUBLISHABLE_KEY :: "string option"
  STRIPE_WEBHOOK_SECRET :: "string option"
  STRIPE_PRICE_BASE_MONTHLY :: "string option"
  STRIPE_PRICE_BRANCH_MONTHLY :: "string option"
  STRIPE_PRICE_USER_MONTHLY :: "string option"
  EMAIL_PROVIDER :: email_provider
  EMAIL_FROM_ADDRESS :: string
  SENDGRID_API_KEY :: "string option"
  RESEND_API_KEY :: "string option"
  SMS_PROVIDER :: sms_provider
  TWILIO_ACCOUNT_SID :: "string option"
  TWILIO_AUTH_TOKEN :: "string option"
  TWILIO_FROM_NUMBER :: "string option"
  STORAGE_PROVIDER :: string
  S3_BUCKET :: "string option"
  S3_REGION :: "string option"
  S3_ACCESS_KEY_ID :: "string option"
  S3_SECRET_ACCESS_KEY :: "string option"
  S3_ENDPOINT :: "string option"
  AI_PROVIDER :: string
  ANTHROPIC_API_KEY :: "string option"
  AI_LOCAL_MODEL_ENDPOINT :: "string option"
  SENTRY_DSN :: "string option"
  OTEL_EXPORTER_OTLP_ENDPOINT :: "string option"
  LOG_LEVEL :: string
  PLATFORM_ADMIN_JWT_SECRET :: "string option"

definition z_one_of :: "string list \<Rightarrow> string schema" where
  "z_one_of names = z_enum (map (\<lambda>n. (n, n)) names)"

definition z_url :: "formats \<Rightarrow> string schema" where
  "z_url F = z_check (fm_url F) z_string"

definition z_email :: "formats \<Rightarrow> string schema" where
  "z_email F = z_check (fm_email F) z_string"

text \<open>\<open>z.coerce.number().int().positive()\<close>.\<close>

definition z_env_positive :: "json_lib \<Rightarrow> int schema" where
  "z_env_positive J = z_check (\<lambda>n. 0 < n) (z_int (coerced_number J))"

definition envSchema :: "formats \<Rightarrow> json_lib \<Rightarrow> app_env schema" where
  "envSchema F J = z_object (\<lambda>get. do {
     nodeEnv \<leftarrow> z_default ''development'' (z_one_of [''development'', ''test'', ''production'']) (get ''NODE_ENV'');
     appUrl \<leftarrow> z_default ''http://localhost:3000'' (z_url F) (get ''APP_URL'');
     apiUrl \<leftarrow> z_default ''http://localhost:4000'' (z_url F) (get ''API_URL'');
     databaseUrl \<leftarrow> z_min 1 z_string (get ''DATABASE_URL'');
     directUrl \<leftarrow> z_optional (z_min 1 z_string) (get ''DIRECT_URL'');
     redisUrl \<leftarrow> z_default ''redis://localhost:6379'' (z_min 1 z_string) (get ''REDIS_URL'');
     authJwtSecret \<leftarrow> z_optional (z_min 32 z_string) (get ''AUTH_JWT_SECRET'');
     authEncryptionKey \<leftarrow> z_optional (z_min 32 z_string) (get ''AUTH_ENCRYPTION_KEY'');
     authSessionTtlMinutes \<leftarrow> z_default 43200 (z_env_positive J) (get ''AUTH_SESSION_TTL_MINUTES'');
     authMagicLinkTtlMinutes \<leftarrow> z_default 15 (z_env_positive J) (get ''AUTH_MAGIC_LINK_TTL_MINUTES'');
     googleOauthClientId \<leftarrow> z_optional z_string (get ''GOOGLE_OAUTH_CLIENT_ID'');
     googleOauthClientSecret \<leftarrow> z_optional z_string (get ''GOOGLE_OAUTH_CLIENT_SECRET'');
     googleOauthRedirectUri \<leftarrow> z_optional (z_url F) (get ''GOOGLE_OAUTH_REDIRECT_URI'');
     appleOauthClientId \<leftarrow> z_optional z_string (get ''APPLE_OAUTH_CLIENT_ID'');
     appleOauthTeamId \<leftarrow> z_optional z_string (get ''APPLE_OAUTH_TEAM_ID'');
     appleOauthKeyId \<leftarrow> z_optional z_string (get ''APPLE_OAUTH_KEY_ID'');
     appleOauthPrivateKeyBase64 \<leftarrow> z_optional z_string (get ''APPLE_OAUTH_PRIVATE_KEY_BASE64'');
     appleOauthRedirectUri \<leftarrow> z_optional (z_url F) (get ''APPLE_OAUTH_REDIRECT_URI'');
     stripeSecretKey \<leftarrow> z_optional z_string (get ''STRIPE_SECRET_KEY'');
     stripePublishableKey \<leftarrow> z_optional z_string (get ''STRIPE_PUBLISHABLE_KEY'');
     stripeWebhookSecret \<leftarrow> z_optional z_string (get ''STRIPE_WEBHOOK_SECRET'');
     stripePriceBaseMonthly \<leftarrow> z_optional z_string (get ''STRIPE_PRICE_BASE_MONTHLY'');
     stripePriceBranchMonthly \<leftarrow> z_optional z_string (get ''STRIPE_PRICE_BRANCH_MONTHLY'');
     stripePriceUserMonthly \<leftarrow> z_optional z_string (get ''STRIPE_PRICE_USER_MONTHLY'');
     emailProvider \<leftarrow> (z_default EmailConsole (z_enum [(''console'', EmailConsole), (''sendgrid'', EmailSendgrid), (''resend'', EmailResend)])) (get ''EMAIL_PROVIDER'');
     emailFromAddress \<leftarrow> z_default ''no-reply@salesmasterpro.example'' (z_email F) (get ''EMAIL_FROM_ADDRESS'');
     sendgridApiKey \<leftarrow> z_optional z_string (get ''SENDGRID_API_KEY'');
     resendApiKey \<leftarrow> z_optional z_string (get ''RESEND_API_KEY'');
     smsProvider \<leftarrow> (z_default SmsNone (z_enum [(''none'', SmsNone), (''twilio'', SmsTwilio)])) (get ''SMS_PROVIDER'');
     twilioAccountSid \<leftarrow> z_optional z_string (get ''TWILIO_ACCOUNT_SID'');
     twilioAuthToken \<leftarrow> z_optional z_string (get ''TWILIO_AUTH_TOKEN'');
     twilioFromNumber \<leftarrow> z_optional z_string (get ''TWILIO_FROM_NUMBER'');
     storageProvider \<leftarrow> z_default ''local'' (z_one_of [''local'', ''s3'']) (get ''STORAGE_PROVIDER'');
     s3Bucket \<leftarrow> z_optional z_string (get ''S3_BUCKET'');
     s3Region \<leftarrow> z_optional z_string (get ''S3_REGION'');
     s3AccessKeyId \<leftarrow> z_optional z_string (get ''S3_ACCESS_KEY_ID'');
     s3SecretAccessKey \<leftarrow> z_optional z_string (get ''S3_SECRET_ACCESS_KEY'');
     s3Endpoint \<leftarrow> z_optional z_string (get ''S3_ENDPOINT'');
     aiProvider \<leftarrow> z_default ''none'' (z_one_of [''none'', ''anthropic'', ''local'']) (get ''AI_PROVIDER'');
     anthropicApiKey \<leftarrow> z_optional z_string (get ''ANTHROPIC_API_KEY'');
     aiLocalModelEndpoint \<leftarrow> z_optional z_string (get ''AI_LOCAL_MODEL_ENDPOINT'');
     sentryDsn \<leftarrow> z_optional z_string (get ''SENTRY_DSN'');
     otelExporterOtlpEndpoint \<leftarrow> z_optional z_string (get ''OTEL_EXPORTER_OTLP_ENDPOINT'');
     logLevel \<leftarrow> z_default ''info'' (z_one_of [''debug'', ''info'', ''warn'', ''error'']) (get ''LOG_LEVEL'');
     platformAdminJwtSecret \<leftarrow> z_optional (z_min 32 z_string) (get ''PLATFORM_ADMIN_JWT_SECRET'');
     Some \<lparr>NODE_ENV = nodeEnv, APP_URL = appUrl, API_URL = apiUrl, DATABASE_URL = databaseUrl,
       DIRECT_URL = directUrl, REDIS_URL = redisUrl, AUTH_JWT_SECRET = authJwtSecret,
       AUTH_ENCRYPTION_KEY = authEncryptionKey, AUTH_SESSION_TTL_MINUTES = authSessionTtlMinutes,
       AUTH_MAGIC_LINK_TTL_MINUTES = authMagicLinkTtlMinutes, GOOGLE_OAUTH_CLIENT_ID = googleOauthClientId,
       GOOGLE_OAUTH_CLIENT_SECRET = googleOauthClientSecret, GOOGLE_OAUTH_REDIRECT_URI = googleOauthRedirectUri,
       APPLE_OAUTH_CLIENT_ID = appleOauthClientId, APPLE_OAUTH_TEAM_ID = appleOauthTeamId,
       APPLE_OAUTH_KEY_ID = appleOauthKeyId, APPLE_OAUTH_PRIVATE_KEY_BASE64 = appleOauthPrivateKeyBase64,
       APPLE_OAUTH_REDIRECT_URI = appleOauthRedirectUri, STRIPE_SECRET_KEY = stripeSecretKey,
       STRIPE_PUBLISHABLE_KEY = stripePublishableKey, STRIPE_WEBHOOK_SECRET = stripeWebhookSecret,
       STRIPE_PRICE_BASE_MONTHLY = stripePriceBaseMonthly, STRIPE_PRICE_BRANCH_MONTHLY = stripePriceBranchMonthly,
       STRIPE_PRICE_USER_MONTHLY = stripePriceUserMonthly, EMAIL_PROVIDER = emailProvider,
       EMAIL_FROM_ADDRESS = emailFromAddress, SENDGRID_API_KEY = sendgridApiKey, RESEND_API_KEY = resendApiKey,
       SMS_PROVIDER = smsProvider, TWILIO_ACCOUNT_SID = twilioAccountSid, TWILIO_AUTH_TOKEN = twilioAuthToken,
       TWILIO_FROM_NUMBER = twilioFromNumber, STORAGE_PROVIDER = storageProvider, S3_BUCKET = s3Bucket,
       S3_REGION = s3Region, S3_ACCESS_KEY_ID = s3AccessKeyId, S3_SECRET_ACCESS_KEY = s3SecretAccessKey,
       S3_ENDPOINT = s3Endpoint, AI_PROVIDER = aiProvider, ANTHROPIC_API_KEY = anthropicApiKey,
       AI_LOCAL_MODEL_ENDPOINT = aiLocalModelEndpoint, SENTRY_DSN = sentryDsn,
       OTEL_EXPORTER_OTLP_ENDPOINT = otelExporterOtlpEndpoint, LOG_LEVEL = logLevel,
       PLATFORM_ADMIN_JWT_SECRET = platformAdminJwtSecret\<rparr>})"

definition normalized_env :: "(string \<times> string) list \<Rightarrow> json" where
  "normalized_env source = JObj (map (\<lambda>(key, v). (key, JStr v)) (filter (\<lambda>(key, v). v \<noteq> []) source))"

text \<open>The second component is the environment kept from then on.\<close>

definition loadEnv ::
  "formats \<Rightarrow> json_lib \<Rightarrow> (string \<times> string) list \<Rightarrow> app_env option \<Rightarrow> (error + app_env) \<times> app_env option" where
  "loadEnv F J source cachedEnv =
     (case cachedEnv of
        Some e \<Rightarrow> (Inr e, cachedEnv)
      | None \<Rightarrow>
          (case envSchema F J (Some (normalized_env source)) of
             None \<Rightarrow> (Inl (ServerError ''Invalid environment configuration:''), None)
           | Some e \<Rightarrow> (Inr e, Some e)))"

definition resetEnvCacheForTests :: "app_env option \<Rightarrow> app_env option" where
  "resetEnvCacheForTests cachedEnv = None"

section \<open>The providers of the API\<close>

definition notify_env_of :: "app_env \<Rightarrow> notify_env" where
  "notify_env_of e = \<lparr>ne_EMAIL_PROVIDER = EMAIL_PROVIDER e, ne_RESEND_API_KEY = RESEND_API_KEY e,
     ne_EMAIL_FROM_ADDRESS = EMAIL_FROM_ADDRESS e, ne_SMS_PROVIDER = SMS_PROVIDER e,
     ne_TWILIO_ACCOUNT_SID = TWILIO_ACCOUNT_SID e, ne_TWILIO_AUTH_TOKEN = TWILIO_AUTH_TOKEN e,
     ne_TWILIO_FROM_NUMBER = TWILIO_FROM_NUMBER e\<rparr>"

text \<open>The choice of \<open>billing.module.ts\<close>; \<open>stripe\<close> is the provider over Stripe's client.\<close>

definition billing_provider_for :: "'w billing_provider \<Rightarrow> app_env \<Rightarrow> 'w billing_provider" where
  "billing_provider_for stripe e = (if truthy (STRIPE_SECRET_KEY e) then stripe else NullBillingProvider)"

record 'w providers =
  pv_key :: string
  pv_email :: "'w email_adapter"
  pv_sms :: "'w sms_adapter"
  pv_billing :: "'w billing_provider"
  pv_assistant :: "'w ai_adapter"

text \<open>Loading the environment and building the providers that the modules of the API declare, one after the other:
  the API starts when none of them throws.\<close>

definition api_boot ::
  "formats \<Rightarrow> json_lib \<Rightarrow> crypto \<Rightarrow> 'w fetch \<Rightarrow> (string \<Rightarrow> 'w \<Rightarrow> 'w) \<Rightarrow> 'w billing_provider \<Rightarrow>
   (string \<Rightarrow> ai_request \<Rightarrow> 'w \<Rightarrow> (error + ai_response) \<times> 'w) \<Rightarrow> (tool_value \<Rightarrow> string) \<Rightarrow> (string \<times> string) list \<Rightarrow>
   error + 'w providers" where
  "api_boot F J C fetch logw stripe client write source =
     bindE (fst (loadEnv F J source None)) (\<lambda>e.
     bindE (encryption_key C (AUTH_ENCRYPTION_KEY e)) (\<lambda>key.
     bindE (resolveEmailAdapter J fetch logw (notify_env_of e)) (\<lambda>email.
     bindE (resolveSmsAdapter J fetch logw (notify_env_of e)) (\<lambda>sms.
     bindE (ai_adapter_for client write (AI_PROVIDER e) (ANTHROPIC_API_KEY e)) (\<lambda>assistant.
     Inr \<lparr>pv_key = key, pv_email = email, pv_sms = sms, pv_billing = billing_provider_for stripe e,
       pv_assistant = assistant\<rparr>)))))"

section \<open>What an accepted environment holds\<close>

lemma optional_text_truthy:
  assumes "z_optional z_string (map_of kvs k) = Some v" "\<forall>j\<in>snd ` set kvs. j \<noteq> JStr []"
  shows "truthy v \<longleftrightarrow> v \<noteq> None"
proof (cases "map_of kvs k")
  case (Some j)
  then have "j \<noteq> JStr []" using assms(2) map_of_SomeD [OF Some] by force
  with Some assms(1) show ?thesis by (cases j) (auto simp: z_optional_def)
qed (use assms(1) in \<open>simp add: z_optional_def\<close>)

lemma optional_min_truthy:
  assumes "z_optional (z_min (Suc n) z_string) x = Some v"
  shows "truthy v \<longleftrightarrow> v \<noteq> None"
proof (cases v)
  case (Some t)
  with assms have "z_min (Suc n) z_string x = Some t" by (auto simp: z_optional_def split: option.splits)
  then have "Suc n \<le> js_length t" by (auto simp: z_min_def z_check_def bind_eq_Some_conv split: if_splits)
  with Some show ?thesis by (cases t) (simp_all add: js_length_def)
qed simp

lemma envSchema_fields:
  assumes "envSchema F J (Some (JObj kvs)) = Some e"
  shows "z_optional (z_min 32 z_string) (map_of kvs ''AUTH_ENCRYPTION_KEY'') = Some (AUTH_ENCRYPTION_KEY e) \<and>
    z_optional z_string (map_of kvs ''RESEND_API_KEY'') = Some (RESEND_API_KEY e) \<and>
    z_optional z_string (map_of kvs ''TWILIO_ACCOUNT_SID'') = Some (TWILIO_ACCOUNT_SID e) \<and>
    z_optional z_string (map_of kvs ''TWILIO_AUTH_TOKEN'') = Some (TWILIO_AUTH_TOKEN e) \<and>
    z_optional z_string (map_of kvs ''TWILIO_FROM_NUMBER'') = Some (TWILIO_FROM_NUMBER e) \<and>
    z_optional z_string (map_of kvs ''ANTHROPIC_API_KEY'') = Some (ANTHROPIC_API_KEY e) \<and>
    z_default ''none'' (z_one_of [''none'', ''anthropic'', ''local'']) (map_of kvs ''AI_PROVIDER'') = Some (AI_PROVIDER e)"
  using assms unfolding envSchema_def z_object_def option.case json.case bind_eq_Some_conv
  apply (elim exE conjE)
  apply (drule option.inject [THEN iffD1])
  apply hypsubst
  apply (simp only: app_env.select_convs simp_thms)
  done

lemma normalized_env_filled: "\<exists>kvs. normalized_env source = JObj kvs \<and> (\<forall>j\<in>snd ` set kvs. j \<noteq> JStr [])"
  by (auto simp: normalized_env_def)

lemma accepted_env:
  assumes "fst (loadEnv F J source None) = Inr e"
  shows "truthy (AUTH_ENCRYPTION_KEY e) \<longleftrightarrow> AUTH_ENCRYPTION_KEY e \<noteq> None"
    "truthy (RESEND_API_KEY e) \<longleftrightarrow> RESEND_API_KEY e \<noteq> None"
    "truthy (TWILIO_ACCOUNT_SID e) \<longleftrightarrow> TWILIO_ACCOUNT_SID e \<noteq> None"
    "truthy (TWILIO_AUTH_TOKEN e) \<longleftrightarrow> TWILIO_AUTH_TOKEN e \<noteq> None"
    "truthy (TWILIO_FROM_NUMBER e) \<longleftrightarrow> TWILIO_FROM_NUMBER e \<noteq> None"
    "truthy (ANTHROPIC_API_KEY e) \<longleftrightarrow> ANTHROPIC_API_KEY e \<noteq> None"
    "AI_PROVIDER e \<in> {''none'', ''anthropic'', ''local''}"
proof -
  obtain kvs where kvs: "normalized_env source = JObj kvs" "\<forall>j\<in>snd ` set kvs. j \<noteq> JStr []"
    using normalized_env_filled by blast
  with assms have "envSchema F J (Some (JObj kvs)) = Some e" by (simp add: loadEnv_def split: option.splits)
  note fs = envSchema_fields [OF this, THEN conjunct1] envSchema_fields [OF this, THEN conjunct2]
  note f = fs(1) fs(2) [THEN conjunct1] fs(2) [THEN conjunct2, THEN conjunct1] fs(2) [THEN conjunct2, THEN conjunct2, THEN conjunct1]
    fs(2) [THEN conjunct2, THEN conjunct2, THEN conjunct2, THEN conjunct1]
    fs(2) [THEN conjunct2, THEN conjunct2, THEN conjunct2, THEN conjunct2, THEN conjunct1]
    fs(2) [THEN conjunct2, THEN conjunct2, THEN conjunct2, THEN conjunct2, THEN conjunct2]
  show "truthy (AUTH_ENCRYPTION_KEY e) \<longleftrightarrow> AUTH_ENCRYPTION_KEY e \<noteq> None"
    by (rule optional_min_truthy [where n = 31]) (use f(1) in simp)
  show "truthy (RESEND_API_KEY e) \<longleftrightarrow> RESEND_API_KEY e \<noteq> None"
    "truthy (TWILIO_ACCOUNT_SID e) \<longleftrightarrow> TWILIO_ACCOUNT_SID e \<noteq> None"
    "truthy (TWILIO_AUTH_TOKEN e) \<longleftrightarrow> TWILIO_AUTH_TOKEN e \<noteq> None"
    "truthy (TWILIO_FROM_NUMBER e) \<longleftrightarrow> TWILIO_FROM_NUMBER e \<noteq> None"
    "truthy (ANTHROPIC_API_KEY e) \<longleftrightarrow> ANTHROPIC_API_KEY e \<noteq> None"
    by (rule optional_text_truthy [OF f(2) kvs(2)] optional_text_truthy [OF f(3) kvs(2)] optional_text_truthy [OF f(4) kvs(2)]
        optional_text_truthy [OF f(5) kvs(2)] optional_text_truthy [OF f(6) kvs(2)])+
  show "AI_PROVIDER e \<in> {''none'', ''anthropic'', ''local''}"
    using f(7) by (auto simp: z_default_def z_one_of_def z_enum_def bind_eq_Some_conv split: option.splits if_splits)
qed

text \<open>What the providers of an environment need.\<close>

definition providers_configured :: "app_env \<Rightarrow> bool" where
  "providers_configured e \<longleftrightarrow> AUTH_ENCRYPTION_KEY e \<noteq> None \<and>
     EMAIL_PROVIDER e \<noteq> EmailSendgrid \<and> (EMAIL_PROVIDER e = EmailResend \<longrightarrow> RESEND_API_KEY e \<noteq> None) \<and>
     (SMS_PROVIDER e = SmsTwilio \<longrightarrow> TWILIO_ACCOUNT_SID e \<noteq> None \<and> TWILIO_AUTH_TOKEN e \<noteq> None \<and> TWILIO_FROM_NUMBER e \<noteq> None) \<and>
     AI_PROVIDER e \<noteq> ''local'' \<and> (AI_PROVIDER e = ''anthropic'' \<longrightarrow> ANTHROPIC_API_KEY e \<noteq> None)"


end
