(* ===== verification/Stripe_Provider.thy ===== *)
theory Stripe_Provider
  imports Configuration
begin

text \<open>
  The rest of the billing providers (\<open>billing/stripe\<close>): the customers and subscriptions they create and the check of
  a webhook's signature. The services call none of the first two yet. The Stripe client is a parameter, its record
  extended by the calls these operations make; the text message of its webhook library is its own.
\<close>

record billing_customer_input =
  bci_tenantId :: string
  bci_email :: string
  bci_name :: string

record subscription_item_input =
  sit_stripePriceId :: string
  sit_quantity :: int

record create_subscription_input =
  cbs_externalCustomerId :: string
  cbs_items :: "subscription_item_input list"
  cbs_trialDays :: "int option"

record provider_subscription_state =
  pss_externalSubscriptionId :: string
  pss_status :: string
  pss_currentPeriodStart :: "int option"
  pss_currentPeriodEnd :: "int option"
  pss_trialEndsAt :: "int option"

text \<open>A subscription of the Stripe client; its times are in seconds.\<close>

record stripe_subscription =
  ssu_id :: string
  ssu_status :: string
  ssu_current_period_start :: "int option"
  ssu_current_period_end :: "int option"
  ssu_trial_end :: "int option"

record 'w stripe_api = "'w stripe_client" +
  sc_customer_create :: "string \<Rightarrow> string \<Rightarrow> string \<Rightarrow> 'w \<Rightarrow> (error + string) \<times> 'w"
  sc_subscription_create :: "string \<Rightarrow> (string \<times> int) list \<Rightarrow> int option \<Rightarrow> 'w \<Rightarrow> (error + stripe_subscription) \<times> 'w"
  sc_constructEvent :: "string \<Rightarrow> string \<Rightarrow> string \<Rightarrow> error + json"

text \<open>A time of zero counts as none, as an unset one does.\<close>

definition stripe_time :: "int option \<Rightarrow> int option" where
  "stripe_time seconds = (case seconds of None \<Rightarrow> None | Some n \<Rightarrow> if n = 0 then None else Some (n * 1000))"

definition mapSubscription :: "stripe_subscription \<Rightarrow> provider_subscription_state" where
  "mapSubscription subscription =
     \<lparr>pss_externalSubscriptionId = ssu_id subscription, pss_status = ssu_status subscription,
      pss_currentPeriodStart = stripe_time (ssu_current_period_start subscription),
      pss_currentPeriodEnd = stripe_time (ssu_current_period_end subscription),
      pss_trialEndsAt = stripe_time (ssu_trial_end subscription)\<rparr>"

definition stripe_createCustomer :: "'w stripe_api \<Rightarrow> billing_customer_input \<Rightarrow> 'w \<Rightarrow> (error + string) \<times> 'w" where
  "stripe_createCustomer stripe input w = sc_customer_create stripe (bci_email input) (bci_name input) (bci_tenantId input) w"

definition stripe_createSubscription ::
  "'w stripe_api \<Rightarrow> create_subscription_input \<Rightarrow> 'w \<Rightarrow> (error + provider_subscription_state) \<times> 'w" where
  "stripe_createSubscription stripe input w =
     (case sc_subscription_create stripe (cbs_externalCustomerId input)
             (map (\<lambda>item. (sit_stripePriceId item, sit_quantity item)) (cbs_items input)) (cbs_trialDays input) w of
        (Inl e, w1) \<Rightarrow> (Inl e, w1)
      | (Inr subscription, w1) \<Rightarrow> (Inr (mapSubscription subscription), w1))"

definition stripe_constructWebhookEvent :: "'w stripe_api \<Rightarrow> app_env \<Rightarrow> string \<Rightarrow> string \<Rightarrow> error + json" where
  "stripe_constructWebhookEvent stripe e rawBody signatureHeader =
     (if truthy (STRIPE_WEBHOOK_SECRET e)
      then sc_constructEvent stripe rawBody signatureHeader (the (STRIPE_WEBHOOK_SECRET e))
      else Inl (ServerError ''STRIPE_WEBHOOK_SECRET is not configured''))"

definition new_StripeBillingProvider :: "(string \<Rightarrow> 'w stripe_api) \<Rightarrow> app_env \<Rightarrow> error + 'w billing_provider" where
  "new_StripeBillingProvider connect e =
     (if truthy (STRIPE_SECRET_KEY e) then Inr (StripeBillingProvider (stripe_client.truncate (connect (the (STRIPE_SECRET_KEY e)))))
      else Inl (ServerError ''StripeBillingProvider constructed without STRIPE_SECRET_KEY''))"

definition null_createCustomer :: "billing_customer_input \<Rightarrow> string" where
  "null_createCustomer input = ''local_'' @ bci_tenantId input"

definition null_createSubscription :: "int \<Rightarrow> provider_subscription_state" where
  "null_createSubscription now =
     \<lparr>pss_externalSubscriptionId = ''local_sub_'' @ int_str now, pss_status = ''trialing'', pss_currentPeriodStart = Some now,
      pss_currentPeriodEnd = None, pss_trialEndsAt = None\<rparr>"

definition null_constructWebhookEvent :: "error + json" where
  "null_constructWebhookEvent = Inl (ServerError ''Webhooks are not available without a configured billing provider'')"

text \<open>The provider that the module selects never lacks its key.\<close>

lemma selected_stripe_has_key:
  "truthy (STRIPE_SECRET_KEY e) \<Longrightarrow> \<exists>p. new_StripeBillingProvider connect e = Inr p \<and> bp_isConfigured p"
  by (simp add: new_StripeBillingProvider_def StripeBillingProvider_def)

end
