(* ===== verification/Spec2Isabelle.thy ===== *)
theory Spec2Isabelle
  imports Queue_Facts Billing_Webhook Access_Control Seed Sales_Facts Sales_Lifecycle Invoices_Facts
    Onboarding Auth_Facts Integrations_Facts Reports_Facts Outbox_Facts Back_Office_Facts Api_Facts
    Mobile_Facts Assistant_Facts Web_Facts Stripe_Provider
begin

text \<open>
  SalesMaster Pro, a point of sale, inventory and invoicing platform for many businesses: a NestJS API over one
  Postgres database (\<open>apps/api\<close>), a worker that mails (\<open>apps/worker\<close>), a phone that sells offline
  (\<open>apps/mobile\<close>), a web application (\<open>apps/web\<close>) and the packages they share (\<open>packages\<close>). This library is a shallow
  embedding of its TypeScript code with the theorems that make it correct.

  How the parts interact. A client sends a request with a session and the header of a tenant. The guards look up
  the session, the membership and the permissions; the controller validates the body against a schema of
  \<open>packages/contracts\<close> and calls a service. The services read and write the tables, most inside one transaction, and
  append to the audit log and to the outbox. The worker polls the outbox, hands each event to the job queue and sends
  the mail. The phone keeps a cache of the catalog and a queue of mutations; its engine submits the queue when the
  network is there, and the server recognises a mutation it has already recorded. Stripe and the stores of the
  tenants call back through signed webhooks. The assistant answers questions with the reports as its tools.

  Conventions. A row of a table is a record, the database the record \<open>db\<close> of lists of rows (\<open>Schema\<close>); a service method
  is a function from its arguments and the database to a result and the database after it. Errors are values of
  \<open>error + 'a\<close>, with \<open>bindE\<close> for the sequence (\<open>Prelude\<close>); a failed transaction returns the database it started from.
  Calls that reach the outside world (the network, the language model, the payment provider) take and return a world
  of type \<open>'w\<close>. Time, identifiers, hashes, the decimal library, the JSON reader and writer and the HTTP transport are
  parameters (\<open>env\<close>, \<open>crypto\<close>, \<open>json_lib\<close>, \<open>fetch\<close>) with the laws a theorem needs as its hypotheses. Amounts on the server are
  exact rationals rounded as the decimal library rounds; amounts on the clients are IEEE doubles (\<open>Doubles\<close>).

  The foundations.
  \<^item> \<open>Prelude\<close>, \<open>Schema\<close>, \<open>Js_Values\<close>, \<open>Encodings\<close>, \<open>Calendar\<close>, \<open>Doubles\<close>, \<open>Validation\<close>: the error monad and the list tables, the
    rows of \<open>schema.prisma\<close>, the values, texts, dates and numbers of the language, the schema combinators of the pipe.
  \<^item> \<open>Money\<close> (\<open>packages/domain/src/money.ts\<close>), \<open>Billing_Engine\<close> (\<open>billing.ts\<close>), \<open>Permissions\<close> (\<open>permissions.ts\<close>).

  The server.
  \<^item> \<open>Access_Control\<close>: the guards and \<open>membership.service.ts\<close>. A tenant route admits a request exactly when its session is
    live and its user is an active member whose role grants the permissions.
  \<^item> \<open>Inventory\<close>, \<open>Sales\<close>, \<open>Sales_Facts\<close>, \<open>Sales_Lifecycle\<close>: the stock ledger, creating, refunding and voiding sales. The balances
    equal the replay of their movements; totals are exact; a sale is recorded once per mutation id; a full refund
    restores the stock; refunds stay within the total in every reachable database.
  \<^item> \<open>Invoices\<close>, \<open>Invoices_Facts\<close>: invoices, payments, links, quotes. Payments within the total, numbers unique, revoked links
    hidden for ever; the lost update of concurrent payments.
  \<^item> \<open>Billing_Service\<close>, \<open>Billing_Webhook\<close>, \<open>Stripe_Provider\<close>, \<open>Seed\<close>, \<open>Onboarding\<close>: the subscription and its entitlements, Stripe's events
    applied once, the providers, the templates of a new database, tenants and invitations.
  \<^item> \<open>Notifications\<close>, \<open>Crypto\<close>, \<open>Auth_Service\<close>, \<open>OAuth\<close>, \<open>Auth_Controller\<close>, \<open>Auth_Facts\<close>: mail and text messages, field encryption,
    sessions, passwords, second factor, sign-in with Google and Apple. A password reset ends the sessions; a linked
    identity is durable.
  \<^item> \<open>Connectors\<close>, \<open>WooCommerce\<close>, \<open>Integrations\<close>, \<open>Integrations_Facts\<close>: the connectors, the pull and push of a catalog, the
    stores' webhooks. Retries are counted, a store writes the catalog of its tenant only, a pull ends when the pages do.
  \<^item> \<open>Back_Office\<close>, \<open>Reports\<close>, \<open>Audit_Outbox\<close>, \<open>Outbox_Worker\<close> and their \<open>_Facts\<close>: the catalog, customers, expenses, branches and
    administration; the reports; the outbox and its worker. A report accounts for every sale; an event is handed
    over once.
  \<^item> \<open>Contracts\<close>, \<open>Api_Routes\<close>, \<open>Tenant_Isolation\<close>, \<open>Api_Facts\<close>: the schemas, every controller route as guard, schema and service,
    and what holds of all routes: who is let in, what a tenant can touch, what a viewer can do.
  \<^item> \<open>Assistant\<close>, \<open>Assistant_Facts\<close>: the tools, the loop of model calls, the adapters and routes of \<open>apps/api/src/assistant\<close>. A
    question ends after at most six calls and sees the rows of one tenant.
  \<^item> \<open>Configuration\<close>: the environment of \<open>packages/config\<close> and the providers built from it. The API starts exactly when they are
    configured.

  The clients.
  \<^item> \<open>Offline_Queue\<close>, \<open>Queue_Adapters\<close>, \<open>Queue_Facts\<close>: \<open>packages/offline-sync\<close> and its two storages. The storage contract is the
    locale \<open>queue_storage\<close>, interpreted on the in-memory map and on the SQLite table; a pass refines the settlement of the
    due items and nothing queued is lost.
  \<^item> \<open>Mobile\<close>, \<open>Point_Of_Sale\<close>: the device, the API client, signing in, the catalog pull, the screens of \<open>apps/mobile/src\<close>.
  \<^item> \<open>Mobile_Sync\<close>, \<open>Mobile_Facts\<close>: the phone and the server together, over a network that loses requests and answers: the
    amount charged is exact, the request is valid, the sale arrives, and it arrives once.
  \<^item> \<open>Web_Client\<close>, \<open>Web_Pages\<close>, \<open>Web_Facts\<close>: the API client, the session and the handlers of the pages of \<open>apps/web\<close>: the pages
    speak for the selected tenant, which is one of the user's; the amount due is exact; a long conversation with the
    assistant gets stuck.

  Bounds and loops. The loops are structural or have a measure: the retry of an invoice number (three attempts), the
  retries of a connector (its configured number), the rounds of the assistant (\<open>MAX_TOOL_ROUNDTRIPS\<close>), the days of a report.
  The pull of a store's pages is a partial function, as a store may answer with pages for ever; it returns whenever the
  number of pages is bounded. Amounts in doubles are exact to the cent up to a billion and a thousand lines for a cart, and
  up to a trillion for the amount due, far above what \<open>Decimal(14,4)\<close> columns of a shop hold. Texts are lists of bytes.

  Concurrency. A transaction is one step. Where the code reads outside of a transaction what it writes inside, the two
  halves are separate definitions and the theorems say what goes wrong between them. The overlapping passes of the
  worker and of the phone's engine are interleavings of their steps. A handler of a page is one step.

  Not modelled. The markup and styles of the pages and screens, loading flags and timers: rendering has no state of its
  own. The module lists of NestJS, the database client and the connections of the job queue, the HTTP server with its
  parsers and CORS, rate limits, health checks and logging: calls of frameworks. The relations and cascades
  of the database, as no service deletes rows it relies on. The code of third parties (decimal.js, zod's messages,
  the QR encoder, JWT verification, the SDKs) is a parameter.
\<close>

end
